(* ===== verification/Json_Text.thy ===== *)
theory Json_Text
  imports Prelude
begin

text \<open>
  \<open>json.dumps\<close> with ASCII output: the canonical form of the audit (sorted keys, no blanks) and the
  plain form of a scalar.  A float is a decimal literal; its text is the shortest one, which for the
  literals in use is the literal without trailing zeros.
\<close>

section \<open>Strings and numbers\<close>

definition hex4 :: "nat \<Rightarrow> string" where
  "hex4 n = map (\<lambda>i. ''0123456789abcdef'' ! (n div 16 ^ i mod 16)) [3, 2, 1, 0]"

definition esc_char :: "char \<Rightarrow> string" where
  "esc_char c =
     (if c = CHR 0x22 then [CHR 0x5C, CHR 0x22]
      else if c = CHR 0x5C then [CHR 0x5C, CHR 0x5C]
      else if c = CHR 0x0A then [CHR 0x5C, CHR ''n'']
      else if c = CHR 0x0D then [CHR 0x5C, CHR ''r'']
      else if c = CHR 0x09 then [CHR 0x5C, CHR ''t'']
      else if c = CHR 0x0C then [CHR 0x5C, CHR ''f'']
      else if c = CHR 0x08 then [CHR 0x5C, CHR ''b'']
      else if char_in (CHR 0x20) (CHR 0x7E) c then [c]
      else CHR 0x5C # CHR ''u'' # hex4 (of_char c))"

definition json_quote :: "string \<Rightarrow> string" where
  "json_quote s = CHR 0x22 # concat (map esc_char s) @ [CHR 0x22]"

text \<open>Digits and exponent of a decimal without trailing zeros, then Python's two notations.\<close>

fun strip_zeros :: "nat \<Rightarrow> nat \<Rightarrow> nat \<times> nat" where
  "strip_zeros m 0 = (m, 0)"
| "strip_zeros m (Suc k) = (if m mod 10 = 0 then strip_zeros (m div 10) k else (m, Suc k))"

definition float_repr :: "int \<Rightarrow> nat \<Rightarrow> string" where
  "float_repr m k =
     (if m = 0 then ''0.0''
      else let (n, j) = strip_zeros (nat \<bar>m\<bar>) k; ds = str_nat n; p = int (length ds) - int j;
               sign = (if m < 0 then ''-'' else []);
               sig = rstrip_by (\<lambda>c. c = CHR ''0'') ds
           in sign @
             (if p > 16 \<or> p < -3 then
                hd sig # (if tl sig = [] then [] else CHR ''.'' # tl sig) @ ''e''
                  @ (if p > 0 then ''+'' else ''-'') @ pad_left 2 (CHR ''0'') (str_nat (nat \<bar>p - 1\<bar>))
              else if j = 0 then ds @ ''.0''
              else if p \<le> 0 then ''0.'' @ replicate (nat (- p)) (CHR ''0'') @ ds
              else take (nat p) ds @ ''.'' @ drop (nat p) ds))"

section \<open>Values\<close>

fun dumps :: "string \<Rightarrow> string \<Rightarrow> bool \<Rightarrow> json \<Rightarrow> string" where
  "dumps item_sep key_sep srt JNull = ''null''"
| "dumps item_sep key_sep srt (JBool b) = (if b then ''true'' else ''false'')"
| "dumps item_sep key_sep srt (JInt i) = str_int i"
| "dumps item_sep key_sep srt (JFloat m k) = float_repr m k"
| "dumps item_sep key_sep srt (JStr s) = json_quote s"
| "dumps item_sep key_sep srt (JList xs) =
     ''['' @ join_with item_sep (map (dumps item_sep key_sep srt) xs) @ '']''"
| "dumps item_sep key_sep srt (JObj kvs) =
     (let items = map (\<lambda>(k, v). (k, json_quote k @ key_sep @ dumps item_sep key_sep srt v)) kvs
      in [CHR 0x7B] @ join_with item_sep (map snd (if srt then sort_key fst items else items)) @ [CHR 0x7D])"

text \<open>\<open>canon\<close> of the store, and \<open>json.dumps(v)\<close> of a scalar.\<close>

definition canon :: "json \<Rightarrow> string" where
  "canon = dumps '','' '':'' True"

definition scalar_text :: "json \<Rightarrow> string" where
  "scalar_text v = dumps '', '' '': '' False v"

end
