(* ===== verification/Sha256.thy ===== *)
theory Sha256
  imports Prelude "HOL-Library.Word"
begin

text \<open>
  \<open>hashlib.sha256(s.encode()).hexdigest()\<close>: UTF-8, padding, the compression function on 32-bit
  words that wrap around, and the hexadecimal digest.  The services use it for the audit chain, the
  content hashes of rendered files, checksums and stored tokens.
\<close>

unbundle bit_operations_syntax

section \<open>Words\<close>

definition rotr :: "nat \<Rightarrow> 32 word \<Rightarrow> 32 word" where
  "rotr n x = (drop_bit n x OR push_bit (32 - n) x)"

definition sha_ch :: "32 word \<Rightarrow> 32 word \<Rightarrow> 32 word \<Rightarrow> 32 word" where
  "sha_ch x y z = ((x AND y) XOR (NOT x AND z))"

definition sha_maj :: "32 word \<Rightarrow> 32 word \<Rightarrow> 32 word \<Rightarrow> 32 word" where
  "sha_maj x y z = (x AND y XOR x AND z XOR y AND z)"

definition big0 :: "32 word \<Rightarrow> 32 word" where "big0 x = (rotr 2 x XOR rotr 13 x XOR rotr 22 x)"

definition big1 :: "32 word \<Rightarrow> 32 word" where "big1 x = (rotr 6 x XOR rotr 11 x XOR rotr 25 x)"

definition small0 :: "32 word \<Rightarrow> 32 word" where "small0 x = (rotr 7 x XOR rotr 18 x XOR drop_bit 3 x)"

definition small1 :: "32 word \<Rightarrow> 32 word" where "small1 x = (rotr 17 x XOR rotr 19 x XOR drop_bit 10 x)"

definition sha_init :: "32 word list" where
  "sha_init = [1779033703, 3144134277, 1013904242, 2773480762, 1359893119, 2600822924, 528734635, 1541459225]"

definition sha_consts :: "32 word list" where
  "sha_consts = [
    1116352408, 1899447441, 3049323471, 3921009573, 961987163, 1508970993, 2453635748, 2870763221,
    3624381080, 310598401, 607225278, 1426881987, 1925078388, 2162078206, 2614888103, 3248222580,
    3835390401, 4022224774, 264347078, 604807628, 770255983, 1249150122, 1555081692, 1996064986,
    2554220882, 2821834349, 2952996808, 3210313671, 3336571891, 3584528711, 113926993, 338241895,
    666307205, 773529912, 1294757372, 1396182291, 1695183700, 1986661051, 2177026350, 2456956037,
    2730485921, 2820302411, 3259730800, 3345764771, 3516065817, 3600352804, 4094571909, 275423344,
    430227734, 506948616, 659060556, 883997877, 958139571, 1322822218, 1537002063, 1747873779,
    1955562222, 2024104815, 2227730452, 2361852424, 2428436474, 2756734187, 3204031479, 3329325298]"

section \<open>One block\<close>

text \<open>The schedule grows at its front: element 1 from the front is word \<open>t - 2\<close>.\<close>

fun extend_schedule :: "nat \<Rightarrow> 32 word list \<Rightarrow> 32 word list" where
  "extend_schedule 0 ws = ws"
| "extend_schedule (Suc n) ws =
     extend_schedule n ((small1 (ws ! 1) + ws ! 6 + small0 (ws ! 14) + ws ! 15) # ws)"

type_synonym regs = "32 word \<times> 32 word \<times> 32 word \<times> 32 word \<times> 32 word \<times> 32 word \<times> 32 word \<times> 32 word"

fun sha_round :: "regs \<Rightarrow> 32 word \<times> 32 word \<Rightarrow> regs" where
  "sha_round (a, b, c, d, e, f, g, h) (k, w) =
     (let t1 = h + big1 e + sha_ch e f g + k + w; t2 = big0 a + sha_maj a b c
      in (t1 + t2, a, b, c, d + t1, e, f, g))"

fun regs_of :: "32 word list \<Rightarrow> regs" where
  "regs_of [a, b, c, d, e, f, g, h] = (a, b, c, d, e, f, g, h)"
| "regs_of _ = (0, 0, 0, 0, 0, 0, 0, 0)"

fun regs_list :: "regs \<Rightarrow> 32 word list" where
  "regs_list (a, b, c, d, e, f, g, h) = [a, b, c, d, e, f, g, h]"

definition sha_block :: "32 word list \<Rightarrow> 32 word list \<Rightarrow> 32 word list" where
  "sha_block hs ws = map2 (+) hs
     (regs_list (foldl sha_round (regs_of hs) (zip sha_consts (rev (extend_schedule 48 (rev ws))))))"

section \<open>Bytes and text\<close>

text \<open>UTF-8 of code points up to 255.\<close>

definition utf8_char :: "char \<Rightarrow> int list" where
  "utf8_char c = (let n = of_char c :: int in if n < 128 then [n] else [192 + n div 64, 128 + n mod 64])"

definition utf8 :: "string \<Rightarrow> int list" where
  "utf8 s = concat (map utf8_char s)"

definition sha_pad :: "int list \<Rightarrow> int list" where
  "sha_pad bs = (let n = length bs; bits = 8 * int n
     in bs @ 128 # replicate ((119 - n mod 64) mod 64) 0
        @ map (\<lambda>i. bits div 256 ^ (7 - i) mod 256) [0..<8])"

fun be_words :: "int list \<Rightarrow> 32 word list" where
  "be_words (a # b # c # d # bs) = word_of_int (((a * 256 + b) * 256 + c) * 256 + d) # be_words bs"
| "be_words _ = []"

fun chunks16 :: "nat \<Rightarrow> 'a list \<Rightarrow> 'a list list" where
  "chunks16 0 ws = []"
| "chunks16 (Suc n) ws = (if ws = [] then [] else take 16 ws # chunks16 n (drop 16 ws))"

definition sha256_words :: "int list \<Rightarrow> 32 word list" where
  "sha256_words bs = (let ws = be_words (sha_pad bs) in foldl sha_block sha_init (chunks16 (length ws) ws))"

definition hex_digit :: "nat \<Rightarrow> char" where
  "hex_digit n = ''0123456789abcdef'' ! n"

definition word_hex :: "32 word \<Rightarrow> string" where
  "word_hex w = map (\<lambda>i. hex_digit (nat (uint w div 16 ^ (7 - i) mod 16))) [0..<8]"

definition sha256_hex :: "string \<Rightarrow> string" where
  "sha256_hex s = concat (map word_hex (sha256_words (utf8 s)))"

section \<open>Shape of a digest\<close>

lemma length_regs_list [simp]: "length (regs_list r) = 8"
  by (cases r rule: regs_list.cases) simp

lemma length_sha_block: "length hs = 8 \<Longrightarrow> length (sha_block hs ws) = 8"
  by (simp add: sha_block_def)

lemma length_sha256_words: "length (sha256_words bs) = 8"
proof -
  have "length (foldl sha_block hs bl) = 8" if "length hs = 8" for hs bl
    using that by (induction bl arbitrary: hs) (simp_all add: length_sha_block)
  moreover have "length sha_init = 8" by (simp add: sha_init_def)
  ultimately show ?thesis unfolding sha256_words_def Let_def by blast
qed

lemma length_word_hex [simp]: "length (word_hex w) = 8"
  by (simp add: word_hex_def)

lemma length_sha256_hex [simp]: "length (sha256_hex s) = 64"
proof -
  have "length (concat (map word_hex ws)) = 8 * length ws" for ws by (induction ws) simp_all
  then show ?thesis by (simp add: sha256_hex_def length_sha256_words)
qed

lemma hex_digit_word: "set (word_hex w) \<subseteq> set ''0123456789abcdef''"
proof -
  have "nat (n mod 16) < length ''0123456789abcdef''" for n :: int by (simp add: nat_less_iff)
  then have "hex_digit (nat (n mod 16)) \<in> set ''0123456789abcdef''" for n
    unfolding hex_digit_def by (rule nth_mem)
  then show ?thesis unfolding word_hex_def by auto
qed

lemma set_sha256_hex: "set (sha256_hex s) \<subseteq> set ''0123456789abcdef''"
  unfolding sha256_hex_def set_concat set_map using hex_digit_word by blast

end
