(* ===== verification/Py_Time.thy ===== *)
theory Py_Time
  imports Prelude
begin

text \<open>
  The part of Python's \<open>datetime\<close> and \<open>zoneinfo\<close> that the services use.
  A date is its proleptic ordinal (1 is 0001-01-01, a Monday); a wall-clock reading is
  \<open>86400 * ordinal + second of the day\<close>; an instant is the wall-clock reading in UTC.
  The zone is Europe/Prague, the only one the code names: UTC+1, and UTC+2 from 01:00 UTC on the
  last Sunday of March to 01:00 UTC on the last Sunday of October (the rule in force since 1996).
  The interface \<open>wall_clock\<close> states what the schedule rules rely on of a zone, the
  interpretation \<open>prague\<close> proves it of the zone above.
\<close>

section \<open>The calendar\<close>

definition is_leap :: "int \<Rightarrow> bool" where
  "is_leap y \<longleftrightarrow> y mod 4 = 0 \<and> (y mod 100 \<noteq> 0 \<or> y mod 400 = 0)"

definition days_before_year :: "int \<Rightarrow> int" where
  "days_before_year y = (y - 1) * 365 + (y - 1) div 4 - (y - 1) div 100 + (y - 1) div 400"

definition days_in_month :: "int \<Rightarrow> int \<Rightarrow> int" where
  "days_in_month y m = (if m = 2 then (if is_leap y then 29 else 28)
     else if m \<in> {4, 6, 9, 11} then 30 else 31)"

definition cum_days :: "int list" where
  "cum_days = [0, 0, 31, 59, 90, 120, 151, 181, 212, 243, 273, 304, 334]"

definition days_before_month :: "int \<Rightarrow> int \<Rightarrow> int" where
  "days_before_month y m = cum_days ! nat m + (if m > 2 \<and> is_leap y then 1 else 0)"

definition ymd2ord :: "int \<Rightarrow> int \<Rightarrow> int \<Rightarrow> int" where
  "ymd2ord y m d = days_before_year y + days_before_month y m + d"

text \<open>The inverse, by the same successive divisions as the standard library's.\<close>

definition ord2ymd :: "int \<Rightarrow> int \<times> int \<times> int" where
  "ord2ymd n0 =
    (let n = n0 - 1;
         n400 = n div 146097; n = n mod 146097;
         n100 = n div 36524;  n = n mod 36524;
         n4 = n div 1461;     n = n mod 1461;
         n1 = n div 365;      n = n mod 365;
         year = n400 * 400 + 1 + n100 * 100 + n4 * 4 + n1
     in if n1 = 4 \<or> n100 = 4 then (year - 1, 12, 31)
        else
          let leap = (n1 = 3 \<and> (n4 \<noteq> 24 \<or> n100 = 3));
              month = (n + 50) div 32;
              preceding = cum_days ! nat month + (if month > 2 \<and> leap then 1 else 0)
          in if preceding > n then
               (let m' = month - 1;
                    p' = preceding - ((if m' = 2 then 28 else if m' \<in> {4, 6, 9, 11} then 30 else 31)
                                      + (if m' = 2 \<and> leap then 1 else 0))
                in (year, m', n - p' + 1))
             else (year, month, n - preceding + 1))"

definition year_of :: "int \<Rightarrow> int" where
  "year_of n = fst (ord2ymd n)"

definition isoweekday :: "int \<Rightarrow> int" where
  "isoweekday d = (if d mod 7 = 0 then 7 else d mod 7)"

lemma isoweekday_range: "1 \<le> isoweekday d \<and> isoweekday d \<le> 7"
proof -
  have "0 \<le> d mod 7 \<and> d mod 7 < 7" by simp
  then show ?thesis unfolding isoweekday_def by presburger
qed

lemma isoweekday_shift: "isoweekday (d + 7) = isoweekday d"
  by (simp add: isoweekday_def)

text \<open>\<open>date.isoformat()\<close>, for the years 1 to 9999.\<close>

definition iso_date :: "int \<Rightarrow> string" where
  "iso_date n = (case ord2ymd n of (y, m, d) \<Rightarrow>
     pad_left 4 (CHR ''0'') (str_int y) @ ''-'' @ str02 m @ ''-'' @ str02 d)"

text \<open>The year that the division finds is the one whose days enclose the ordinal.\<close>

lemma ord_digits:
  fixes n :: int
  defines "r \<equiv> n mod 146097"
  defines "q \<equiv> r mod 36524"
  defines "p \<equiv> q mod 1461"
  shows "n = 146097 * (n div 146097) + 36524 * (r div 36524) + 1461 * (q div 1461)
             + 365 * (p div 365) + p mod 365"
    and "0 \<le> r div 36524" "r div 36524 \<le> 4" "0 \<le> q div 1461" "q div 1461 \<le> 24"
    and "0 \<le> p div 365" "p div 365 \<le> 4" "0 \<le> p mod 365" "p mod 365 < 365"
    and "r div 36524 = 4 \<Longrightarrow> q div 1461 = 0 \<and> p div 365 = 0 \<and> p mod 365 = 0"
    and "p div 365 = 4 \<Longrightarrow> p mod 365 = 0"
    and "q div 1461 = 24 \<Longrightarrow> p div 365 \<le> 3"
proof -
  have n: "n = 146097 * (n div 146097) + r" and r: "r = 36524 * (r div 36524) + q"
    and q: "q = 1461 * (q div 1461) + p" and p: "p = 365 * (p div 365) + p mod 365"
    unfolding r_def q_def p_def by (simp_all only: mult_div_mod_eq)
  have rb: "0 \<le> r" "r < 146097" and qb: "0 \<le> q" "q < 36524" and pb: "0 \<le> p" "p < 1461"
    and eb: "0 \<le> p mod 365" "p mod 365 < 365"
    unfolding r_def q_def p_def by simp_all
  show "n = 146097 * (n div 146097) + 36524 * (r div 36524) + 1461 * (q div 1461)
             + 365 * (p div 365) + p mod 365" using n r q p by linarith
  show "0 \<le> r div 36524" "r div 36524 \<le> 4" using r rb qb by linarith+
  show "0 \<le> q div 1461" "q div 1461 \<le> 24" using q qb pb by linarith+
  show "0 \<le> p div 365" "p div 365 \<le> 4" using p pb eb by linarith+
  show "0 \<le> p mod 365" "p mod 365 < 365" by fact+
  show "p mod 365 = 0" if "p div 365 = 4" using that p pb eb by linarith
  show "p div 365 \<le> 3" if "q div 1461 = 24" using that q qb p pb eb by linarith
  show "q div 1461 = 0 \<and> p div 365 = 0 \<and> p mod 365 = 0" if b4: "r div 36524 = 4"
  proof -
    have "q = 0" using b4 r rb qb by linarith
    then show ?thesis by (simp add: p_def)
  qed
qed

lemma year_div:
  fixes a b c d :: int
  assumes "0 \<le> d" "d \<le> 3" "0 \<le> c" "c \<le> 24" "0 \<le> b" "b \<le> 3"
  defines "y \<equiv> 400 * a + 100 * b + 4 * c + d"
  shows "y div 4 = 100 * a + 25 * b + c" "y div 100 = 4 * a + b" "y div 400 = a"
proof -
  have "y = 4 * (100 * a + 25 * b + c) + d" "d < 4" using assms(2) by (simp_all add: y_def)
  then show "y div 4 = 100 * a + 25 * b + c" using assms(1) by (intro int_div_pos_eq)
  have "y = 100 * (4 * a + b) + (4 * c + d)" "0 \<le> 4 * c + d" "4 * c + d < 100"
    using assms(1-4) by (simp_all add: y_def)
  then show "y div 100 = 4 * a + b" by (rule int_div_pos_eq)
  have "y = 400 * a + (100 * b + 4 * c + d)" "0 \<le> 100 * b + 4 * c + d"
    "100 * b + 4 * c + d < 400"
    using assms(1-6) by (simp_all add: y_def)
  then show "y div 400 = a" by (rule int_div_pos_eq)
qed

lemma year_of_eq:
  "year_of n0 = (let n = n0 - 1; r = n mod 146097; q = r mod 36524; p = q mod 1461;
       y = n div 146097 * 400 + 1 + r div 36524 * 100 + q div 1461 * 4 + p div 365
     in if p div 365 = 4 \<or> r div 36524 = 4 then y - 1 else y)"
  unfolding year_of_def ord2ymd_def Let_def
  by (simp only: if_distrib [of fst] fst_conv if_cancel)

text \<open>The number of leap years up to and including \<open>n\<close>.\<close>

definition leap_count :: "int \<Rightarrow> int" where
  "leap_count n = n div 4 - n div 100 + n div 400"

lemma div_Suc_int: "0 < k \<Longrightarrow> (n + 1) div k = n div k + (if (n + 1) mod k = 0 then 1 else 0)" for n k :: int
proof -
  assume k: "0 < k"
  have n: "n = k * (n div k) + n mod k" and b: "0 \<le> n mod k" "n mod k < k" using k by simp_all
  show ?thesis
  proof (cases "n mod k = k - 1")
    case True
    then have "n + 1 = k * (n div k) + k" using n by linarith
    then have "n + 1 = k * (n div k + 1)" by (simp only: distrib_left mult_1_right)
    then have "(n + 1) div k = n div k + 1" "(n + 1) mod k = 0"
      using k by (metis nonzero_mult_div_cancel_left less_irrefl, metis mod_mult_self1_is_0)
    then show ?thesis by simp
  next
    case False
    have "(n + 1) div k = n div k" "(n + 1) mod k = n mod k + 1"
      using n b False by (intro int_div_pos_eq [of _ k _ "n mod k + 1"], simp_all)
        (intro int_mod_pos_eq [of _ k "n div k" "n mod k + 1"], simp_all)
    then show ?thesis using b by simp
  qed
qed

lemma leap_count_step: "leap_count n \<le> leap_count (n + 1)"
proof -
  have "(n + 1) mod 100 = 0 \<Longrightarrow> (n + 1) mod 4 = 0"
    unfolding mod_eq_0_iff_dvd by (rule dvd_trans [of 4 100]) simp_all
  then show ?thesis unfolding leap_count_def by (simp add: div_Suc_int)
qed

lemma days_before_year_step: "days_before_year y + 365 \<le> days_before_year (y + 1)"
  using leap_count_step [of "y - 1"] unfolding days_before_year_def leap_count_def
  by (simp only: diff_add_cancel add_diff_cancel_right' left_diff_distrib)

lemma leap_year_days:
  fixes n y a b c :: int
  assumes "n = 146097 * a + 36524 * b + 1461 * c + 1461" "y - 1 = 400 * a + 100 * b + 4 * c + 3"
  shows "(y - 1) * 365 + (100 * a + 25 * b + c) - (4 * a + b) + a < n \<and>
    n \<le> y * 365 + (100 * a + 25 * b + (c + 1)) - (4 * a + b) + a"
proof -
  have "y = 400 * a + 100 * b + 4 * c + 4" using assms(2) by linarith
  then show ?thesis using assms(1) by simp
qed

lemma year_of_bracket:
  "days_before_year (year_of n) < n" "n \<le> days_before_year (year_of n + 1)"
proof -
  define m r q p where "m = n - 1" and "r = m mod 146097" and "q = r mod 36524"
    and "p = q mod 1461"
  define a b c d e where "a = m div 146097" and "b = r div 36524" and "c = q div 1461"
    and "d = p div 365" and "e = p mod 365"
  note D = ord_digits [of m, folded r_def, folded q_def, folded p_def,
    folded a_def b_def c_def d_def e_def]
  have y: "year_of n = (let y = a * 400 + 1 + b * 100 + c * 4 + d
                        in if d = 4 \<or> b = 4 then y - 1 else y)"
    unfolding year_of_eq Let_def m_def r_def q_def p_def a_def b_def c_def d_def by simp
  have n: "n = 146097 * a + 36524 * b + 1461 * c + 365 * d + e + 1" using D(1) m_def by linarith
  let ?G = "days_before_year (year_of n) < n \<and> n \<le> days_before_year (year_of n + 1)"
  have ?G
  proof (cases "b = 4")
    case True
    then have z: "c = 0" "d = 0" "e = 0" using D(10) by auto
    then have Y: "year_of n = 400 * a + 400" using y True by (simp add: Let_def)
    have Y': "year_of n - 1 = 400 * a + 100 * 3 + 4 * 24 + 3"
      "year_of n = 400 * (a + 1) + 100 * 0 + 4 * 0 + 0" using Y by simp_all
    note d1 = year_div [of 3 24 3 a, folded Y'(1)] year_div [of 0 0 0 "a + 1", folded Y'(2)]
    show ?thesis unfolding days_before_year_def using d1 n z True Y by simp
  next
    case b: False
    then have b3: "b \<le> 3" using D(3) by linarith
    show ?thesis
    proof (cases "d = 4")
      case True
      then have e0: "e = 0" and c23: "c \<le> 23" using D(11,12) D(5) by (auto, linarith)
      have Y: "year_of n - 1 = 400 * a + 100 * b + 4 * c + 3"
          "year_of n = 400 * a + 100 * b + 4 * (c + 1) + 0" using y True b by (simp_all add: Let_def)
      have N: "n = 146097 * a + 36524 * b + 1461 * c + 1461" using n e0 True by simp
      have "0 \<le> c + 1" "c + 1 \<le> 24" using c23 D(4) by linarith+
      have Q: "(year_of n - 1) div 4 = 100 * a + 25 * b + c" "(year_of n - 1) div 100 = 4 * a + b"
          "(year_of n - 1) div 400 = a"
        unfolding Y(1) by (rule year_div; use D(2,4,5) b3 in linarith)+
      have R: "year_of n div 4 = 100 * a + 25 * b + (c + 1)" "year_of n div 100 = 4 * a + b"
          "year_of n div 400 = a"
        unfolding Y(2) by (rule year_div; use D(2,4) b3 c23 in linarith)+
      show ?thesis unfolding days_before_year_def Q add_diff_cancel_right' R
        using N Y(1) by (rule leap_year_days)
    next
      case False
      then have d3: "d \<le> 3" using D(7) by linarith
      have Y: "year_of n - 1 = 400 * a + 100 * b + 4 * c + d" using y False b by (simp add: Let_def)
      note d1 = year_div [of d c b a, folded Y]
      have d1: "(year_of n - 1) div 4 = 100 * a + 25 * b + c" "(year_of n - 1) div 100 = 4 * a + b"
          "(year_of n - 1) div 400 = a"
        using d1 D(2,4,5,6) b3 d3 by simp_all
      have Y2: "year_of n = 400 * a + 100 * b + 4 * c + d + 1" using Y by linarith
      have "days_before_year (year_of n) = 146097 * a + 36524 * b + 1461 * c + 365 * d"
        unfolding days_before_year_def d1 using Y by simp
      moreover have "days_before_year (year_of n) + 365 \<le> days_before_year (year_of n + 1)"
        by (rule days_before_year_step)
      ultimately show ?thesis using n D(8,9) by linarith
    qed
  qed
  then show "days_before_year (year_of n) < n" "n \<le> days_before_year (year_of n + 1)" by auto
qed

lemma days_before_year_mono: "y \<le> z \<Longrightarrow> days_before_year y \<le> days_before_year z"
proof (induction "nat (z - y)" arbitrary: z)
  case 0
  then show ?case by simp
next
  case (Suc k)
  then have "days_before_year y \<le> days_before_year (z - 1)" by simp
  then show ?case using days_before_year_step [of "z - 1"] by simp
qed

lemma year_of_unique:
  assumes "days_before_year y < n" "n \<le> days_before_year (y + 1)"
  shows "year_of n = y"
proof (rule ccontr)
  assume "year_of n \<noteq> y"
  then consider "year_of n + 1 \<le> y" | "y + 1 \<le> year_of n" by linarith
  then show False
    using days_before_year_mono year_of_bracket [of n] assms by cases fastforce+
qed

section \<open>The zone\<close>

definition dst_start :: "int \<Rightarrow> int" where \<comment> \<open>last Sunday of March, 01:00 UTC\<close>
  "dst_start y = (let d = ymd2ord y 3 31 in (d - d mod 7) * 86400 + 3600)"

definition dst_end :: "int \<Rightarrow> int" where \<comment> \<open>last Sunday of October, 01:00 UTC\<close>
  "dst_end y = (let d = ymd2ord y 10 31 in (d - d mod 7) * 86400 + 3600)"

definition prague_off_utc :: "int \<Rightarrow> int" where
  "prague_off_utc u = (let y = year_of (u div 86400)
     in if dst_start y \<le> u \<and> u < dst_end y then 7200 else 3600)"

text \<open>
  The offset of a wall-clock reading with its \<open>fold\<close> bit (PEP 495): in the skipped hour the
  offset before the change for \<open>fold = 0\<close>, in the repeated hour the first occurrence.
\<close>

definition prague_off_wall :: "int \<Rightarrow> bool \<Rightarrow> int" where
  "prague_off_wall w fo = (let y = year_of (w div 86400); h = (if fo then 3600 else 7200)
     in if dst_start y + h \<le> w \<and> w < dst_end y + h then 7200 else 3600)"

definition second_of_day :: "int \<Rightarrow> int" where
  "second_of_day w = w mod 86400"

text \<open>02:00-02:59, the hour that a change of the clocks skips or repeats.\<close>

definition change_hour :: "int \<Rightarrow> bool" where
  "change_hour w \<longleftrightarrow> 7200 \<le> second_of_day w \<and> second_of_day w < 10800"

locale wall_clock =
  fixes off_utc :: "int \<Rightarrow> int" and off_wall :: "int \<Rightarrow> bool \<Rightarrow> int"
  assumes off_utc_range: "off_utc u = 3600 \<or> off_utc u = 7200"
    and off_wall_range: "off_wall w f = 3600 \<or> off_wall w f = 7200"
    and off_consistent: "\<not> change_hour w \<Longrightarrow> off_utc (w - off_wall w f) = off_wall w f"
    and off_back: "off_utc u = 7200 \<Longrightarrow> off_utc (u + 3600) = 3600 \<Longrightarrow> change_hour (u + 7200)"
begin

lemma instant_exists:
  assumes "\<not> change_hour w"
  shows "(w - off_wall w f) + off_utc (w - off_wall w f) = w"
  using off_consistent [OF assms] by simp

lemma instant_unique:
  assumes w: "\<not> change_hour w" and u: "u + off_utc u = w" and v: "v + off_utc v = w"
  shows "u = v"
proof (rule ccontr)
  assume "u \<noteq> v"
  then consider "off_utc u = 7200" "off_utc v = 3600" "v = u + 3600"
    | "off_utc v = 7200" "off_utc u = 3600" "u = v + 3600"
    using off_utc_range [of u] off_utc_range [of v] u v by (smt (verit))
  then show False
    using off_back [of u] off_back [of v] w u v by cases (auto simp: add.commute)
qed

lemma fold_irrelevant:
  assumes "\<not> change_hour w"
  shows "off_wall w f = off_wall w g"
proof -
  have "w - off_wall w f = w - off_wall w g"
    by (rule instant_unique [OF assms]; rule instant_exists [OF assms])
  then show ?thesis by simp
qed

lemma exactly_once:
  assumes "\<not> change_hour w"
  shows "\<exists>!u. u + off_utc u = w"
  using instant_exists [OF assms] instant_unique [OF assms] by blast

text \<open>Elapsed time between two readings: the wall-clock difference, give or take an hour.\<close>

lemma elapsed_bounds:
  "\<bar>((w - off_wall w f) - (v - off_wall v g)) - (w - v)\<bar> \<le> 3600"
  using off_wall_range [of w f] off_wall_range [of v g] by auto

end

lemma second_of_day_eq:
  "0 \<le> r \<Longrightarrow> r < 86400 \<Longrightarrow> w = d * 86400 + r \<Longrightarrow> second_of_day w = r"
  unfolding second_of_day_def by (intro int_mod_pos_eq [of _ _ d]) auto

lemma last_sunday:
  fixes L :: int
  shows "L - 6 \<le> L - L mod 7" "L - L mod 7 \<le> L"
  using pos_mod_bound [of 7 L] pos_mod_sign [of 7 L] by linarith+

lemma dst_start_shape:
  obtains d where "dst_start y = d * 86400 + 3600" "days_before_year y < d"
    "d \<le> days_before_year y + 91"
proof -
  define L where "L = ymd2ord y 3 31"
  have L: "L = days_before_year y + 90 + (if is_leap y then 1 else 0)"
    by (simp add: L_def ymd2ord_def days_before_month_def cum_days_def nat_numeral)
  show ?thesis
    using that [of "L - L mod 7"] last_sunday [of L] L
    by (auto simp: dst_start_def L_def [symmetric] Let_def split: if_splits)
qed

lemma dst_end_shape:
  obtains d where "dst_end y = d * 86400 + 3600" "days_before_year y + 298 \<le> d"
    "d < days_before_year (y + 1)"
proof -
  define L where "L = ymd2ord y 10 31"
  have L: "L = days_before_year y + 304 + (if is_leap y then 1 else 0)"
    by (simp add: L_def ymd2ord_def days_before_month_def cum_days_def nat_numeral)
  show ?thesis
    using that [of "L - L mod 7"] last_sunday [of L] L days_before_year_step [of y]
    by (auto simp: dst_end_def L_def [symmetric] Let_def split: if_splits)
qed

lemma div_86400_ge: "d * 86400 \<le> w \<Longrightarrow> d \<le> w div 86400" for d w :: int
  using zdiv_mono1 [of "d * 86400" w 86400] by simp

lemma div_86400_le: "w < (d + 1) * 86400 \<Longrightarrow> w div 86400 \<le> d" for d w :: int
  by (simp add: div_less_iff_less_mult zless_imp_add1_zle flip: zle_add1_eq_le)

text \<open>Summer time never crosses a year boundary, so the year of the reading decides it.\<close>

lemma summer_year:
  assumes "dst_start y \<le> w" "w < dst_end y + 7200"
  shows "year_of (w div 86400) = y"
proof -
  obtain d where d: "dst_start y = d * 86400 + 3600" "days_before_year y < d"
    by (rule dst_start_shape)
  obtain e where e: "dst_end y = e * 86400 + 3600" "e < days_before_year (y + 1)"
    by (rule dst_end_shape)
  have "d \<le> w div 86400" using assms(1) d(1) by (intro div_86400_ge) linarith
  moreover have "w div 86400 \<le> e" using assms(2) e(1) by (intro div_86400_le) (simp add: algebra_simps)
  ultimately show ?thesis using d(2) e(2) by (intro year_of_unique) linarith+
qed

lemma prague_off_utc_summer:
  "prague_off_utc u = 7200 \<longleftrightarrow> (\<exists>y. dst_start y \<le> u \<and> u < dst_end y)"
proof
  assume "\<exists>y. dst_start y \<le> u \<and> u < dst_end y"
  then obtain y where y: "dst_start y \<le> u" "u < dst_end y" by blast
  then have "year_of (u div 86400) = y" by (intro summer_year) auto
  with y show "prague_off_utc u = 7200" by (simp add: prague_off_utc_def)
qed (auto simp: prague_off_utc_def Let_def split: if_splits)

lemma prague_off_wall_summer:
  "prague_off_wall w f = 7200 \<longleftrightarrow>
     (\<exists>y. dst_start y + (if f then 3600 else 7200) \<le> w \<and> w < dst_end y + (if f then 3600 else 7200))"
proof
  assume "\<exists>y. dst_start y + (if f then 3600 else 7200) \<le> w \<and> w < dst_end y + (if f then 3600 else 7200)"
  then obtain y where y: "dst_start y + (if f then 3600 else 7200) \<le> w"
    "w < dst_end y + (if f then 3600 else 7200)" by blast
  then have "year_of (w div 86400) = y" by (intro summer_year) (auto split: if_splits)
  with y show "prague_off_wall w f = 7200" by (simp add: prague_off_wall_def)
qed (auto simp: prague_off_wall_def Let_def split: if_splits)

lemma prague_off_range:
  "prague_off_utc u = 3600 \<or> prague_off_utc u = 7200"
  "prague_off_wall w f = 3600 \<or> prague_off_wall w f = 7200"
  by (simp_all add: prague_off_utc_def prague_off_wall_def Let_def)

lemma near_change:
  assumes "T = d * 86400 + 3600" "T + 3600 \<le> w" "w < T + 7200"
  shows "change_hour w"
proof -
  have "second_of_day w = w - d * 86400" using assms by (intro second_of_day_eq [where d = d]) auto
  then show ?thesis using assms by (simp add: change_hour_def)
qed

lemma near_dst_start: "dst_start y + 3600 \<le> w \<Longrightarrow> w < dst_start y + 7200 \<Longrightarrow> change_hour w"
  by (metis dst_start_shape near_change)

lemma near_dst_end: "dst_end y + 3600 \<le> w \<Longrightarrow> w < dst_end y + 7200 \<Longrightarrow> change_hour w"
  by (metis dst_end_shape near_change)

lemma prague_consistent:
  assumes "\<not> change_hour w"
  shows "prague_off_utc (w - prague_off_wall w f) = prague_off_wall w f"
proof (cases "prague_off_wall w f = 7200")
  case True
  then obtain y where y: "dst_start y + (if f then 3600 else 7200) \<le> w"
    "w < dst_end y + (if f then 3600 else 7200)" by (auto simp: prague_off_wall_summer)
  then have "dst_start y + 7200 \<le> w" "w < dst_end y + 7200"
    using near_dst_start [of y w] assms by (cases f; force)+
  then show ?thesis unfolding True by (auto simp: prague_off_utc_summer intro!: exI [of _ y])
next
  case False
  then have o: "prague_off_wall w f = 3600" using prague_off_range(2) by blast
  have "prague_off_utc (w - 3600) \<noteq> 7200"
  proof
    assume "prague_off_utc (w - 3600) = 7200"
    then obtain y where "dst_start y \<le> w - 3600" "w - 3600 < dst_end y"
      by (auto simp: prague_off_utc_summer)
    then have y: "dst_start y + 3600 \<le> w" "w < dst_end y + 3600" by simp_all
    moreover have "dst_start y + 7200 \<le> w"
      using near_dst_start [of y w] assms y by linarith
    ultimately have "dst_start y + (if f then 3600 else 7200) \<le> w"
      "w < dst_end y + (if f then 3600 else 7200)" by simp_all
    then show False using False by (auto simp: prague_off_wall_summer)
  qed
  then show ?thesis using prague_off_range(1) [of "w - 3600"] o by auto
qed

interpretation prague: wall_clock prague_off_utc prague_off_wall
proof unfold_locales
  show "prague_off_utc u = 3600 \<or> prague_off_utc u = 7200"
    and "prague_off_wall w f = 3600 \<or> prague_off_wall w f = 7200" for u w f
    by (rule prague_off_range)+
  show "prague_off_utc (w - prague_off_wall w f) = prague_off_wall w f" if "\<not> change_hour w" for w f
    using that by (rule prague_consistent)
  show "change_hour (u + 7200)" if "prague_off_utc u = 7200" "prague_off_utc (u + 3600) = 3600" for u
  proof -
    from that(1) obtain y where y: "dst_start y \<le> u" "u < dst_end y"
      by (auto simp: prague_off_utc_summer)
    with that(2) have "dst_end y \<le> u + 3600"
      using prague_off_utc_summer [of "u + 3600"] by (smt (verit, ccfv_threshold))
    with y show ?thesis by (intro near_dst_end [of y]) auto
  qed
qed

section \<open>Aware datetimes\<close>

text \<open>
  Second resolution, as the services' clock has it.  \<open>Fixed w o\<close> is a datetime with a fixed
  offset (what \<open>fromisoformat\<close> makes of a stored time), \<open>Prague w fold\<close> one whose zone is
  Europe/Prague.  Two datetimes of the same zone compare and subtract by the wall clock, others by
  the instant; adding a duration to a zoned datetime moves its wall clock and clears the fold.
\<close>

datatype dtime = Fixed int int | Prague int bool

fun wall :: "dtime \<Rightarrow> int" where
  "wall (Fixed w off) = w"
| "wall (Prague w f) = w"

fun utcoffset :: "dtime \<Rightarrow> int" where
  "utcoffset (Fixed w off) = off"
| "utcoffset (Prague w f) = prague_off_wall w f"

definition instant :: "dtime \<Rightarrow> int" where
  "instant t = wall t - utcoffset t"

definition same_zone :: "dtime \<Rightarrow> dtime \<Rightarrow> bool" where
  "same_zone a b = (case (a, b) of (Prague _ _, Prague _ _) \<Rightarrow> True | _ \<Rightarrow> False)"

definition dt_sub :: "dtime \<Rightarrow> dtime \<Rightarrow> int" where
  "dt_sub a b = (if same_zone a b then wall a - wall b else instant a - instant b)"

definition dt_less :: "dtime \<Rightarrow> dtime \<Rightarrow> bool" where
  "dt_less a b \<longleftrightarrow> dt_sub a b < 0"

definition dt_le :: "dtime \<Rightarrow> dtime \<Rightarrow> bool" where
  "dt_le a b \<longleftrightarrow> dt_sub a b \<le> 0"

fun dt_add :: "dtime \<Rightarrow> int \<Rightarrow> dtime" where
  "dt_add (Fixed w off) s = Fixed (w + s) off"
| "dt_add (Prague w f) s = Prague (w + s) False"

definition py_max :: "dtime \<Rightarrow> dtime \<Rightarrow> dtime" where
  "py_max a b = (if dt_less a b then b else a)"

definition py_min :: "dtime \<Rightarrow> dtime \<Rightarrow> dtime" where
  "py_min a b = (if dt_less b a then b else a)"

text \<open>\<open>fromtimestamp(u, TZ)\<close> and \<open>astimezone(TZ)\<close>.\<close>

definition prague_of_instant :: "int \<Rightarrow> dtime" where
  "prague_of_instant u = (let w = u + prague_off_utc u
     in Prague w (prague_off_wall w False \<noteq> prague_off_utc u))"

fun astimezone :: "dtime \<Rightarrow> dtime" where
  "astimezone (Prague w f) = Prague w f"
| "astimezone (Fixed w off) = prague_of_instant (w - off)"

text \<open>Seconds since 1970, \<open>int(t.timestamp())\<close>.\<close>

definition unix_epoch :: int where
  "unix_epoch = 719163 * 86400"

definition timestamp :: "dtime \<Rightarrow> int" where
  "timestamp t = instant t - unix_epoch"

definition date_of :: "dtime \<Rightarrow> int" where
  "date_of t = wall t div 86400"

definition minute_of_day :: "dtime \<Rightarrow> int" where
  "minute_of_day t = wall t mod 86400 div 60"

text \<open>\<open>datetime(d.year, d.month, d.day, m // 60, m % 60, tzinfo=TZ)\<close>.\<close>

definition at_minute :: "int \<Rightarrow> int \<Rightarrow> dtime" where
  "at_minute d m = Prague (d * 86400 + m * 60) False"

lemma wall_dt_add [simp]: "wall (dt_add t s) = wall t + s"
  by (cases t) auto

lemma minute_of_day_range: "0 \<le> minute_of_day t \<and> minute_of_day t < 1440"
proof -
  have "0 \<le> wall t mod 86400" "wall t mod 86400 < 86400" by simp_all
  then show ?thesis unfolding minute_of_day_def by auto
qed

lemma at_minute_parts [simp]:
  assumes "0 \<le> m" "m < 1440"
  shows "date_of (at_minute d m) = d" "minute_of_day (at_minute d m) = m"
proof -
  have "(d * 86400 + m * 60) div 86400 = d" "(d * 86400 + m * 60) mod 86400 = m * 60"
    using assms by simp_all
  then show "date_of (at_minute d m) = d" "minute_of_day (at_minute d m) = m"
    by (simp_all add: date_of_def minute_of_day_def at_minute_def)
qed

lemma wall_prague_of_instant [simp]: "wall (prague_of_instant u) = u + prague_off_utc u"
  by (simp add: prague_of_instant_def Let_def)

text \<open>Converting to the zone keeps the instant (fold included).\<close>

lemma prague_off_wall_fold:
  "prague_off_wall (u + prague_off_utc u) (prague_off_wall (u + prague_off_utc u) False \<noteq> prague_off_utc u)
     = prague_off_utc u"
proof (cases "prague_off_wall (u + prague_off_utc u) False = prague_off_utc u")
  case True
  then show ?thesis by simp
next
  case False
  let ?w = "u + prague_off_utc u"
  consider (winter) "prague_off_utc u = 3600" "prague_off_wall ?w False = 7200"
    | (summer) "prague_off_utc u = 7200" "prague_off_wall ?w False = 3600"
    using False prague_off_range(1) [of u] prague_off_range(2) [of ?w False] by auto
  then show ?thesis
  proof cases
    case winter
    have "prague_off_wall ?w True \<noteq> 7200"
    proof
      assume "prague_off_wall ?w True = 7200"
      then obtain y where "dst_start y \<le> u" "u < dst_end y"
        using winter(1) by (auto simp: prague_off_wall_summer)
      then have "prague_off_utc u = 7200" by (auto simp: prague_off_utc_summer)
      with winter show False by simp
    qed
    then show ?thesis using winter prague_off_range(2) [of ?w True] by auto
  next
    case summer
    then obtain y where "dst_start y \<le> u" "u < dst_end y" by (auto simp: prague_off_utc_summer)
    then have "prague_off_wall ?w False = 7200"
      using summer(1) by (auto simp: prague_off_wall_summer intro!: exI [of _ y])
    with summer show ?thesis by simp
  qed
qed

lemma instant_prague_of_instant [simp]: "instant (prague_of_instant u) = u"
  using prague_off_wall_fold [of u] by (simp add: prague_of_instant_def instant_def Let_def)

lemma instant_astimezone [simp]: "instant (astimezone t) = instant t"
  by (cases t) (simp_all add: instant_def [of "Fixed _ _"])

end
