(* ===== verification/Audit_Chain.thy ===== *)
theory Audit_Chain
  imports Json_Text Sha256 Py_Time
begin

text \<open>
  The append-only audit of \<open>store.py\<close>: rows chained by hashes (\<open>_audit\<close>,
  \<open>verify_audit\<close>, \<open>audit\<close>).  The chain itself is a locale over the hash function; the
  store's instance is SHA-256 of the canonical JSON of a row.
\<close>

section \<open>Chains\<close>

type_synonym link = "string \<times> string \<times> string" \<comment> \<open>body, previous hash, hash\<close>

fun chain_ok :: "(string \<Rightarrow> string) \<Rightarrow> string \<Rightarrow> link list \<Rightarrow> bool" where
  "chain_ok H prev [] \<longleftrightarrow> True"
| "chain_ok H prev ((b, p, h) # ls) \<longleftrightarrow> p = prev \<and> h = H (prev @ b) \<and> chain_ok H h ls"

definition head_hash :: "string \<Rightarrow> link list \<Rightarrow> string" where
  "head_hash prev ls = (if ls = [] then prev else snd (snd (last ls)))"

lemma head_hash_simps [simp]:
  "head_hash prev [] = prev" "head_hash prev (ls @ [(b, p, h)]) = h"
  "head_hash prev ((b, p, h) # ls) = head_hash h ls"
  by (simp_all add: head_hash_def)

lemma chain_ok_append:
  "chain_ok H prev (ls @ ms) \<longleftrightarrow> chain_ok H prev ls \<and> chain_ok H (head_hash prev ls) ms"
  by (induction H prev ls rule: chain_ok.induct) auto

text \<open>The texts that a chain's hashes were taken of.\<close>

definition hashed_texts :: "link list \<Rightarrow> string set" where
  "hashed_texts ls = (\<lambda>(b, p, h). p @ b) ` set ls"

lemma hashed_texts_snoc [simp]: "hashed_texts (ls @ [(b, p, h)]) = insert (p @ b) (hashed_texts ls)"
  by (auto simp: hashed_texts_def)

text \<open>The first link that breaks a chain, by its place, as \<open>verify_audit\<close> finds it.\<close>

fun first_bad :: "(string \<Rightarrow> string) \<Rightarrow> string \<Rightarrow> nat \<Rightarrow> link list \<Rightarrow> nat option" where
  "first_bad H prev n [] = None"
| "first_bad H prev n ((b, p, h) # ls) =
     (if p \<noteq> prev \<or> H (prev @ b) \<noteq> h then Some n else first_bad H h (Suc n) ls)"

lemma first_bad_None: "first_bad H prev n ls = None \<longleftrightarrow> chain_ok H prev ls"
  by (induction H prev n ls rule: first_bad.induct) auto

lemma first_bad_Some:
  "first_bad H prev n ls = Some k \<Longrightarrow>
     n \<le> k \<and> k < n + length ls \<and> chain_ok H prev (take (k - n) ls) \<and> \<not> chain_ok H prev (take (Suc k - n) ls)"
proof (induction H prev n ls rule: first_bad.induct)
  case (2 H prev n b p h ls)
  show ?case
  proof (cases "p \<noteq> prev \<or> H (prev @ b) \<noteq> h")
    case True
    then show ?thesis using "2.prems" by auto
  next
    case False
    then have "Suc n \<le> k \<and> k < Suc n + length ls \<and> chain_ok H h (take (k - Suc n) ls)
        \<and> \<not> chain_ok H h (take (Suc k - Suc n) ls)" using 2 by auto
    moreover from this have "k - n = Suc (k - Suc n)" "Suc k - n = Suc (Suc k - Suc n)" by auto
    ultimately show ?thesis using False by auto
  qed
qed simp

locale hash_chain =
  fixes H :: "string \<Rightarrow> string" and genesis :: string and size_h :: nat
  assumes size_H: "length (H s) = size_h" and size_genesis: "length genesis = size_h"
begin

lemma head_size:
  "chain_ok H genesis ls \<Longrightarrow> length (head_hash genesis ls) = size_h"
proof (induction ls rule: rev_induct)
  case (snoc l ls)
  obtain b p h where "l = (b, p, h)" by (cases l)
  then show ?case using snoc size_H by (simp add: chain_ok_append)
qed (simp add: size_genesis)

text \<open>
  Two intact chains with one head hash are equal, or the texts they hash hold a broken hash: two
  different ones with one hash, or one whose hash is the genesis value.
\<close>

lemma same_head:
  assumes "chain_ok H genesis ls" "chain_ok H genesis ms" "head_hash genesis ls = head_hash genesis ms"
  shows "ls = ms \<or> (\<exists>x\<in>hashed_texts ls. \<exists>y\<in>hashed_texts ms. x \<noteq> y \<and> H x = H y)
    \<or> genesis \<in> H ` (hashed_texts ls \<union> hashed_texts ms)"
  using assms
proof (induction ls arbitrary: ms rule: rev_induct)
  case Nil
  show ?case
  proof (cases ms rule: rev_cases)
    case (snoc ns n)
    obtain b p h where n: "n = (b, p, h)" by (cases n)
    then have "p = head_hash genesis ns" "H (p @ b) = genesis" using Nil snoc by (simp_all add: chain_ok_append)
    then show ?thesis by (auto simp: snoc n)
  qed simp
next
  case (snoc l ls)
  obtain b p h where l: "l = (b, p, h)" by (cases l)
  have cl: "chain_ok H genesis ls" "p = head_hash genesis ls" "h = H (head_hash genesis ls @ b)"
    using snoc.prems(1) by (simp_all add: chain_ok_append l)
  show ?case
  proof (cases ms rule: rev_cases)
    case Nil
    then have "H (p @ b) = genesis" using snoc.prems(3) cl(2,3) by (simp add: l)
    then show ?thesis by (auto simp: l)
  next
    case (snoc ns n)
    obtain b' p' h' where n: "n = (b', p', h')" by (cases n)
    have cn: "chain_ok H genesis ns" "p' = head_hash genesis ns" "h' = H (head_hash genesis ns @ b')"
      using snoc.prems(2) by (simp_all add: chain_ok_append snoc n)
    have eq: "H (head_hash genesis ls @ b) = H (head_hash genesis ns @ b')"
      using snoc.prems(3) cl(3) cn(3) by (simp add: l snoc n)
    show ?thesis
    proof (cases "head_hash genesis ls @ b = head_hash genesis ns @ b'")
      case True
      then have same: "head_hash genesis ls = head_hash genesis ns" "b = b'"
        using head_size [OF cl(1)] head_size [OF cn(1)] by (simp_all add: append_eq_append_conv)
      then show ?thesis using snoc.IH [OF cl(1) cn(1)] cl(2,3) cn(2,3)
        by (simp add: l n snoc) blast
    next
      case False
      then show ?thesis using eq cl(2) cn(2) by (auto simp: l n snoc)
    qed
  qed
qed

end

section \<open>The audit table\<close>

definition GENESIS :: string where
  "GENESIS = replicate 64 (CHR ''0'')"

record audit_row =
  a_seq :: nat
  a_ts :: string
  a_actor :: json
  a_action :: string
  a_entity :: "string option"
  a_before :: json
  a_after :: json
  a_prev :: string
  a_hash :: string

definition audit_body :: "audit_row \<Rightarrow> string" where
  "audit_body r = canon (JObj [(''ts'', JStr (a_ts r)), (''actor'', a_actor r), (''action'', JStr (a_action r)),
     (''entity'', jopt JStr (a_entity r)), (''before'', a_before r), (''after'', a_after r)])"

definition row_link :: "audit_row \<Rightarrow> link" where
  "row_link r = (audit_body r, a_prev r, a_hash r)"

definition last_hash :: "audit_row list \<Rightarrow> string" where
  "last_hash rows = (if rows = [] then GENESIS else a_hash (last rows))"

definition audit_seq :: "audit_row list \<Rightarrow> nat" where
  "audit_seq rows = (if rows = [] then 0 else a_seq (last rows))"

text \<open>\<open>_audit\<close>: the new row; its number is the next one of the autoincrement column.\<close>

definition new_row :: "string \<Rightarrow> json \<Rightarrow> string \<Rightarrow> string option \<Rightarrow> json \<Rightarrow> json \<Rightarrow> audit_row list \<Rightarrow> audit_row" where
  "new_row ts actor action ent before after rows =
     (let r = \<lparr>a_seq = audit_seq rows + 1, a_ts = ts, a_actor = actor, a_action = action, a_entity = ent,
        a_before = before, a_after = after, a_prev = last_hash rows, a_hash = []\<rparr>
      in r\<lparr>a_hash := sha256_hex (a_prev r @ audit_body r)\<rparr>)"

definition audit_append :: "string \<Rightarrow> json \<Rightarrow> string \<Rightarrow> string option \<Rightarrow> json \<Rightarrow> json \<Rightarrow> audit_row list \<Rightarrow> audit_row list" where
  "audit_append ts actor action ent before after rows = rows @ [new_row ts actor action ent before after rows]"

text \<open>\<open>verify_audit\<close>: whether the chain is intact, the rows passed, the first bad number.\<close>

definition verify_audit :: "audit_row list \<Rightarrow> bool \<times> nat \<times> nat option" where
  "verify_audit rows = (case first_bad sha256_hex GENESIS 0 (map row_link rows) of
     None \<Rightarrow> (True, length rows, None)
   | Some k \<Rightarrow> (False, k, Some (a_seq (rows ! k))))"

definition audit_ok :: "audit_row list \<Rightarrow> bool" where
  "audit_ok rows \<longleftrightarrow> chain_ok sha256_hex GENESIS (map row_link rows) \<and> map a_seq rows = [1..<Suc (length rows)]"

text \<open>\<open>audit(entity, limit, before_seq)\<close>: newest first, at least one and at most 500 rows.\<close>

definition audit_list :: "string option \<Rightarrow> int \<Rightarrow> int option \<Rightarrow> audit_row list \<Rightarrow> audit_row list" where
  "audit_list ent limit before rows =
     take (nat (max 1 (min limit 500)))
       (filter (\<lambda>r. (case ent of None \<Rightarrow> True | Some e \<Rightarrow> e = [] \<or> a_entity r = Some e)
           \<and> (case before of None \<Rightarrow> True | Some b \<Rightarrow> b = 0 \<or> int (a_seq r) < b)) (rev rows))"

interpretation sha_chain: hash_chain sha256_hex GENESIS 64
  by unfold_locales (simp_all add: GENESIS_def)

lemma audit_body_hash [simp]: "audit_body (r\<lparr>a_hash := h\<rparr>) = audit_body r"
  by (simp add: audit_body_def)

lemma last_hash_head: "last_hash rows = head_hash GENESIS (map row_link rows)"
  by (simp add: last_hash_def head_hash_def row_link_def last_map)

lemma last_seq: "map a_seq rows = [1..<Suc (length rows)] \<Longrightarrow> audit_seq rows = length rows"
proof (cases rows rule: rev_cases)
  case (snoc ys y)
  assume "map a_seq rows = [1..<Suc (length rows)]"
  then show ?thesis using snoc by (simp add: audit_seq_def)
qed (simp add: audit_seq_def)

lemma audit_ok_append: "audit_ok rows \<Longrightarrow> audit_ok (audit_append ts actor action ent before after rows)"
  using last_seq [of rows]
  by (simp add: audit_ok_def audit_append_def chain_ok_append row_link_def new_row_def Let_def last_hash_head audit_body_def)

lemma audit_ok_Nil: "audit_ok []"
  by (simp add: audit_ok_def)

lemma verify_ok: "fst (verify_audit rows) \<longleftrightarrow> chain_ok sha256_hex GENESIS (map row_link rows)"
  using first_bad_None [of sha256_hex GENESIS 0 "map row_link rows"]
  by (auto simp: verify_audit_def split: option.splits)

end
