(* ===== verification/Sched_Rules.thy ===== *)
theory Sched_Rules
  imports Py_Time
begin

text \<open>
  \<open>portal/schedules/sched/model.py\<close>, first half: times of day, guardrails, flags and the
  validation of the rules of one entity.  A dict of the source is a record (guardrails, flags,
  rules, problems); a request body stays a \<open>json\<close> value, so every \<open>isinstance\<close> test of
  the source is a case of the model.  Where the source would raise (an unhashable weekday, a method
  of a value that is no dict) the model returns the exception.
\<close>

section \<open>Data\<close>

datatype kind = Plug | Vacuum_plan | Child_window | Dimmer | Other_kind string

record problem =
  p_code :: string
  p_field :: string
  p_message :: string

definition prob :: "string \<Rightarrow> string \<Rightarrow> string \<Rightarrow> problem" where
  "prob c f m = \<lparr>p_code = c, p_field = f, p_message = m\<rparr>"

record guardrails =
  g_max_on_minutes :: "int option"
  g_max_level :: "int option"
  g_min_gap_minutes :: "int option"
  g_allowed_from :: "string option"
  g_allowed_to :: "string option"
  g_max_triggers_per_day :: "int option"
  g_max_open_minutes_per_day :: "int option"
  g_max_exception_minutes :: "int option"
  g_exception_latest_end :: "string option"
  g_all_latest_end :: "string option"

record flags =
  f_household_editable :: "bool option"
  f_guardrails_proposed :: "bool option"

record rule =
  r_id :: string
  r_days :: "int list"
  r_start :: string
  r_end :: "string option"
  r_level :: "int option"
  r_vars :: "(string \<times> json) list option"

definition GUARDRAIL_KEYS :: "string list" where
  "GUARDRAIL_KEYS = [''max_on_minutes'', ''max_level'', ''min_gap_minutes'', ''allowed_from'',
     ''allowed_to'', ''max_triggers_per_day'', ''max_open_minutes_per_day'',
     ''max_exception_minutes'', ''exception_latest_end'', ''all_latest_end'']"

definition FLAG_KEYS :: "string list" where
  "FLAG_KEYS = [''household_editable'', ''guardrails_proposed'']"

definition RULE_KEYS :: "string list" where
  "RULE_KEYS = [''id'', ''days'', ''start'', ''end'', ''level'', ''variables'']"

definition CHILD_TARGETS :: "string list" where
  "CHILD_TARGETS = [''youtube'', ''roblox'']"

definition LEGACY_TARGETS :: "string list" where
  "LEGACY_TARGETS = [''maps'']"

definition GATED_TARGETS :: "string list" where
  "GATED_TARGETS = [''youtube'', ''roblox'']"

definition EXCEPTION_TARGETS :: "string list" where
  "EXCEPTION_TARGETS = CHILD_TARGETS @ [''all'']"

definition MAPS_ALWAYS_OPEN_MESSAGE :: string where
  "MAPS_ALWAYS_OPEN_MESSAGE = ''Maps is always open (it is on the house-wide always-open list): it has no window and no exception, nothing to set''"

definition MAX_RULES :: nat where "MAX_RULES = 12"

definition WEEK :: int where "WEEK = 7 * 1440"

definition dst_forbidden :: "int \<Rightarrow> bool" where \<comment> \<open>02:00-03:59\<close>
  "dst_forbidden m \<longleftrightarrow> 120 \<le> m \<and> m < 240"

definition quoted :: "string \<Rightarrow> string" where
  "quoted s = [CHR 0x27] @ s @ [CHR 0x27]"

section \<open>Patterns and times of day\<close>

text \<open>The bodies of the anchored patterns; \<open>dollar\<close> adds what the final dollar lets through.\<close>

definition entity_id_body :: "string \<Rightarrow> bool" where \<comment> \<open>\<open>[a-z][a-z0-9_]{0,39}\<close>\<close>
  "entity_id_body s \<longleftrightarrow> (case s of [] \<Rightarrow> False
     | c # cs \<Rightarrow> is_lower c \<and> length cs \<le> 39 \<and> list_all is_word_low cs)"

definition rule_id_body :: "string \<Rightarrow> bool" where \<comment> \<open>\<open>[a-z0-9_]{1,24}\<close>\<close>
  "rule_id_body s \<longleftrightarrow> s \<noteq> [] \<and> length s \<le> 24 \<and> list_all is_word_low s"

definition var_key_body :: "string \<Rightarrow> bool" where \<comment> \<open>\<open>[a-z][a-z0-9_]{0,31}\<close>\<close>
  "var_key_body s \<longleftrightarrow> (case s of [] \<Rightarrow> False
     | c # cs \<Rightarrow> is_lower c \<and> length cs \<le> 31 \<and> list_all is_word_low cs)"

definition time_body :: "string \<Rightarrow> bool" where \<comment> \<open>\<open>([01]\d|2[0-3]):([0-5]\d)\<close>\<close>
  "time_body s \<longleftrightarrow> (case s of
     [a, b, c, d, e] \<Rightarrow>
       ((a = CHR ''0'' \<or> a = CHR ''1'') \<and> is_digit b \<or> a = CHR ''2'' \<and> char_in (CHR ''0'') (CHR ''3'') b)
       \<and> c = CHR '':'' \<and> char_in (CHR ''0'') (CHR ''5'') d \<and> is_digit e
   | _ \<Rightarrow> False)"

fun hhmm_value :: "string \<Rightarrow> int" where
  "hhmm_value (a # b # c # d # e # rest) =
     (digit_val a * 10 + digit_val b) * 60 + (digit_val d * 10 + digit_val e)"
| "hhmm_value _ = 0"

definition parse_hhmm_str :: "bool \<Rightarrow> string \<Rightarrow> int option" where
  "parse_hhmm_str allow_24 s =
     (if allow_24 \<and> s = ''24:00'' then Some 1440
      else if dollar time_body s then Some (hhmm_value s) else None)"

definition parse_hhmm :: "bool \<Rightarrow> json \<Rightarrow> int option" where
  "parse_hhmm allow_24 v = (case v of JStr s \<Rightarrow> parse_hhmm_str allow_24 s | _ \<Rightarrow> None)"

definition fmt_hhmm :: "int \<Rightarrow> string" where
  "fmt_hhmm m = str02 (m div 60) @ '':'' @ str02 (m mod 60)"

text \<open>
  \<open>date.fromisoformat\<close> of a ten-character string (Python 3.11 and later): a separated date, a
  separated ISO week date, and the two compact forms, whose parser ignores what follows the eighth
  character.
\<close>

definition num_at :: "string \<Rightarrow> nat \<Rightarrow> nat \<Rightarrow> int option" where
  "num_at s i n = (let t = take n (drop i s)
     in if length t = n \<and> list_all is_digit t
        then Some (foldl (\<lambda>acc c. acc * 10 + digit_val c) 0 t) else None)"

definition date_ymd :: "int \<Rightarrow> int \<Rightarrow> int \<Rightarrow> int option" where
  "date_ymd y m d = (if 1 \<le> y \<and> 1 \<le> m \<and> m \<le> 12 \<and> 1 \<le> d \<and> d \<le> days_in_month y m
     then Some (ymd2ord y m d) else None)"

definition date_iso_week :: "int \<Rightarrow> int \<Rightarrow> int \<Rightarrow> int option" where
  "date_iso_week y w d =
     (let first = ymd2ord y 1 1; wd = (first + 6) mod 7;
          monday = first - wd + (if wd > 3 then 7 else 0);
          n = monday + (w - 1) * 7 + d - 1
      in if 1 \<le> y \<and> (1 \<le> w \<and> w < 53 \<or> w = 53 \<and> (wd = 3 \<or> wd = 2 \<and> is_leap y))
            \<and> 1 \<le> d \<and> d \<le> 7 \<and> n \<le> 3652059 then Some n else None)"

definition fromisoformat10 :: "string \<Rightarrow> int option" where
  "fromisoformat10 s =
     (if length s \<noteq> 10 \<or> list_ex (\<lambda>c. of_char c \<ge> (128::nat)) s then None
      else case num_at s 0 4 of None \<Rightarrow> None | Some y \<Rightarrow>
        if s ! 4 = CHR ''-'' then
          (if s ! 5 = CHR ''W'' then
             (case (num_at s 6 2, num_at s 9 1) of
                (Some w, Some d) \<Rightarrow> if s ! 8 = CHR ''-'' then date_iso_week y w d else None
              | _ \<Rightarrow> None)
           else (case (num_at s 5 2, num_at s 8 2) of
                (Some m, Some d) \<Rightarrow> if s ! 7 = CHR ''-'' then date_ymd y m d else None
              | _ \<Rightarrow> None))
        else if s ! 4 = CHR ''W'' then
          (case (num_at s 5 2, num_at s 7 1) of
             (Some w, Some d) \<Rightarrow> date_iso_week y w d | _ \<Rightarrow> None)
        else
          (case (num_at s 4 2, num_at s 6 2) of
             (Some m, Some d) \<Rightarrow> date_ymd y m d | _ \<Rightarrow> None))"

definition parse_date :: "json \<Rightarrow> int option" where
  "parse_date v = (case v of JStr s \<Rightarrow> (if length s = 10 then fromisoformat10 s else None) | _ \<Rightarrow> None)"

section \<open>Guardrails and flags\<close>

definition int_guard :: "(string \<times> json) list \<Rightarrow> string \<Rightarrow> int \<Rightarrow> int \<Rightarrow> int option \<times> problem list" where
  "int_guard g k lo hi =
     (let bad = (None, [prob ''range'' (''guardrails.'' @ k)
                  (k @ '' must be an integer '' @ str_int lo @ ''..'' @ str_int hi)])
      in case jget g k of
           JNull \<Rightarrow> (None, [])
         | JInt v \<Rightarrow> if lo \<le> v \<and> v \<le> hi then (Some v, []) else bad
         | _ \<Rightarrow> bad)"

definition time_guard :: "(string \<times> json) list \<Rightarrow> string \<Rightarrow> string option \<times> problem list" where
  "time_guard g k =
     (let bad = (None, [prob ''format'' (''guardrails.'' @ k) (k @ '' must be HH:MM'')])
      in case jget g k of
           JNull \<Rightarrow> (None, [])
         | JStr s \<Rightarrow> if parse_hhmm_str False s = None then bad else (Some s, [])
         | _ \<Rightarrow> bad)"

definition time_before :: "string option \<Rightarrow> string option \<Rightarrow> bool" where
  "time_before a b \<longleftrightarrow> (case (a, b) of
     (Some x, Some y) \<Rightarrow> the (parse_hhmm_str False x) < the (parse_hhmm_str False y) | _ \<Rightarrow> True)"

definition no_guardrails :: guardrails where
  "no_guardrails = \<lparr>g_max_on_minutes = None, g_max_level = None, g_min_gap_minutes = None,
     g_allowed_from = None, g_allowed_to = None, g_max_triggers_per_day = None,
     g_max_open_minutes_per_day = None, g_max_exception_minutes = None,
     g_exception_latest_end = None, g_all_latest_end = None\<rparr>"

definition required_guards :: "kind \<Rightarrow> guardrails \<Rightarrow> problem list \<Rightarrow> problem list" where
  "required_guards k out p0 =
     (let range = g_allowed_from out \<noteq> None \<and> g_allowed_to out \<noteq> None;
          p1 = (if k = Plug \<and> g_max_on_minutes out = None \<and> p0 = []
                then p0 @ [prob ''required'' ''guardrails.max_on_minutes''
                  ''a plug needs max_on_minutes (the fail-safe OFF is generated from it)''] else p0);
          p2 = (if k = Plug \<and> \<not> range \<and> p1 = []
                then p1 @ [prob ''required'' ''guardrails.allowed_from'' ''a plug needs allowed_from and allowed_to'']
                else p1)
      in if k = Vacuum_plan \<and> \<not> range \<and> p2 = []
         then p2 @ [prob ''required'' ''guardrails.allowed_from'' ''a vacuum plan needs allowed_from and allowed_to'']
         else p2)"

definition validate_guardrails :: "kind \<Rightarrow> json \<Rightarrow> guardrails \<times> problem list" where
  "validate_guardrails k gv = (case gv of
     JObj g \<Rightarrow>
       (let unknown = map (\<lambda>key. prob ''unknown_key'' (''guardrails.'' @ key) (''unknown guardrail '' @ quoted key))
                        (filter (\<lambda>key. key \<notin> set GUARDRAIL_KEYS) (jkeys g));
            (on, p1) = int_guard g ''max_on_minutes'' 1 1440;
            (lv, p2) = int_guard g ''max_level'' 1 100;
            (gap, p3) = int_guard g ''min_gap_minutes'' 0 1440;
            (trig, p4) = int_guard g ''max_triggers_per_day'' 1 24;
            (opn, p5) = int_guard g ''max_open_minutes_per_day'' 1 1440;
            (exc, p6) = int_guard g ''max_exception_minutes'' 1 1440;
            (from, p7) = time_guard g ''allowed_from'';
            (upto, p8) = time_guard g ''allowed_to'';
            (exl, p9) = time_guard g ''exception_latest_end'';
            (all, p10) = time_guard g ''all_latest_end'';
            out = \<lparr>g_max_on_minutes = on, g_max_level = lv, g_min_gap_minutes = gap,
              g_allowed_from = from, g_allowed_to = upto, g_max_triggers_per_day = trig,
              g_max_open_minutes_per_day = opn, g_max_exception_minutes = exc,
              g_exception_latest_end = exl, g_all_latest_end = all\<rparr>;
            order = (if time_before from upto then []
                     else [prob ''range'' ''guardrails.allowed_from'' ''allowed_from must be earlier than allowed_to''])
        in (out, required_guards k out
              (unknown @ p1 @ p2 @ p3 @ p4 @ p5 @ p6 @ p7 @ p8 @ p9 @ p10 @ order)))
   | _ \<Rightarrow> (no_guardrails, [prob ''type'' ''guardrails'' ''guardrails must be an object'']))"

definition flag_problem :: "string \<times> json \<Rightarrow> problem list" where
  "flag_problem kv = (case kv of (k, v) \<Rightarrow>
     if k \<notin> set FLAG_KEYS then [prob ''unknown_key'' (''flags.'' @ k) (''unknown flag '' @ quoted k)]
     else (case v of JBool b \<Rightarrow> []
           | _ \<Rightarrow> [prob ''type'' (''flags.'' @ k) (k @ '' must be true or false'')]))"

definition flag_value :: "(string \<times> json) list \<Rightarrow> string \<Rightarrow> bool option" where
  "flag_value f k = (case jget f k of JBool b \<Rightarrow> Some b | _ \<Rightarrow> None)"

definition no_flags :: flags where
  "no_flags = \<lparr>f_household_editable = None, f_guardrails_proposed = None\<rparr>"

definition validate_flags :: "json \<Rightarrow> flags \<times> problem list" where
  "validate_flags fv = (case fv of
     JObj f \<Rightarrow> (\<lparr>f_household_editable = flag_value f ''household_editable'',
                f_guardrails_proposed = flag_value f ''guardrails_proposed''\<rparr>,
              concat (map flag_problem f))
   | _ \<Rightarrow> (no_flags, [prob ''type'' ''flags'' ''flags must be an object'']))"

section \<open>One rule\<close>

text \<open>
  Checking one rule ends in the rule in normal form, in the one problem after which the loop
  continues with the next rule, or in an exception that leaves the function.
\<close>

datatype rule_err = Raises py_exn | Rejects problem

definition reject :: "string \<Rightarrow> string \<Rightarrow> string \<Rightarrow> rule_err + 'a" where
  "reject c f m = Inl (Rejects (prob c f m))"

fun as_jint :: "json \<Rightarrow> int option" where
  "as_jint (JInt i) = Some i"
| "as_jint _ = None"

definition weekdays_ok :: "int list \<Rightarrow> bool" where
  "weekdays_ok ds \<longleftrightarrow> ds \<noteq> [] \<and> distinct ds \<and> list_all (\<lambda>d. 1 \<le> d \<and> d \<le> 7) ds"

definition check_days :: "string \<Rightarrow> json \<Rightarrow> rule_err + int list" where
  "check_days fld v =
     (let bad = reject ''days'' (fld @ ''.days'') ''days must be a non-empty list of distinct ISO weekdays 1..7''
      in case v of
           JList ds \<Rightarrow>
             if list_ex (\<lambda>d. \<not> hashable d) ds then Inl (Raises TypeError)
             else (case those (map as_jint ds) of
                 None \<Rightarrow> bad | Some is \<Rightarrow> if weekdays_ok is then Inr is else bad)
         | _ \<Rightarrow> bad)"

definition check_start :: "string \<Rightarrow> json \<Rightarrow> rule_err + int" where
  "check_start fld v = (case parse_hhmm False v of
     None \<Rightarrow> reject ''format'' (fld @ ''.start'') ''start must be HH:MM''
   | Some s \<Rightarrow> if dst_forbidden s
       then reject ''dst_ambiguous'' (fld @ ''.start'')
         ((case v of JStr t \<Rightarrow> t | _ \<Rightarrow> []) @ '' is inside 02:00-03:59, which does not exist or exists twice on DST nights'')
       else Inr s)"

text \<open>\<open>(r.get("variables") or {}).get("opens")\<close>, split at the commas.\<close>

definition opens_targets :: "json \<Rightarrow> rule_err + string list" where
  "opens_targets v =
     (if \<not> truthy v then Inr []
      else case v of
          JObj o' \<Rightarrow> Inr (case jget o' ''opens'' of JStr s \<Rightarrow> split_on (CHR '','') s | _ \<Rightarrow> [])
        | _ \<Rightarrow> Inl (Raises AttributeError))"

definition check_opens :: "string \<Rightarrow> string list \<Rightarrow> rule_err + unit" where
  "check_opens fld targets =
     (if list_ex (\<lambda>t. t \<in> set LEGACY_TARGETS) targets
      then reject ''maps_always_open'' (fld @ ''.variables'') MAPS_ALWAYS_OPEN_MESSAGE
      else if targets = [] \<or> list_ex (\<lambda>t. t \<notin> set CHILD_TARGETS) targets
      then reject ''variables'' (fld @ ''.variables'')
        (''a child window needs variables.opens: a comma list of '' @ join_with '', '' CHILD_TARGETS)
      else Inr ())"

definition check_end :: "kind \<Rightarrow> string \<Rightarrow> (string \<times> json) list \<Rightarrow> int \<Rightarrow> rule_err + int option" where
  "check_end k fld r s =
     (if k = Plug \<or> k = Child_window then
        (case parse_hhmm (k = Child_window) (jget r ''end'') of
           None \<Rightarrow> reject ''format'' (fld @ ''.end'') ''a window needs an end, HH:MM''
         | Some e \<Rightarrow>
             if dst_forbidden e then reject ''dst_ambiguous'' (fld @ ''.end'')
               ((case jget r ''end'' of JStr t \<Rightarrow> t | _ \<Rightarrow> []) @ '' is inside 02:00-03:59'')
             else if e \<le> s then reject ''window'' fld
               ''the window must end after it starts and stay inside one day (split a window across midnight into two rules)''
             else if k = Plug \<and> truthy (jget r ''variables'')
               then reject ''not_allowed'' (fld @ ''.variables'') ''a plug rule takes no variables''
             else if k = Child_window
               then bind_res (opens_targets (jget r ''variables'')) (\<lambda>targets.
                      bind_res (check_opens fld targets) (\<lambda>_. Inr (Some e)))
             else Inr (Some e))
      else if k = Vacuum_plan \<and> jget r ''end'' \<noteq> JNull
        then reject ''not_allowed'' (fld @ ''.end'') ''a vacuum trigger has no end''
      else Inr None)"

definition var_value_ok :: "json \<Rightarrow> bool" where
  "var_value_ok v = (case v of JObj o' \<Rightarrow> False | JList l \<Rightarrow> False | JNull \<Rightarrow> False
     | JStr s \<Rightarrow> length s \<le> 64 | _ \<Rightarrow> True)"

definition check_variables :: "string \<Rightarrow> json \<Rightarrow> rule_err + (string \<times> json) list option" where
  "check_variables fld v =
     (let bad = reject ''variables'' (fld @ ''.variables'') ''variables must be a flat object of short scalars''
      in case v of
           JNull \<Rightarrow> Inr None
         | JObj o' \<Rightarrow>
             if length o' > 8 \<or> list_ex (\<lambda>key. \<not> dollar var_key_body key) (jkeys o')
                \<or> list_ex (\<lambda>(key, x). \<not> var_value_ok x) o'
             then bad else Inr (Some o')
         | _ \<Rightarrow> bad)"

definition check_level :: "guardrails \<Rightarrow> string \<Rightarrow> json \<Rightarrow> rule_err + int option" where
  "check_level g fld v =
     (let bad = reject ''range'' (fld @ ''.level'') ''level must be a positive integer''
      in case v of
           JNull \<Rightarrow> Inr None
         | JInt l \<Rightarrow>
             if l < 1 then bad
             else (case g_max_level g of
                 None \<Rightarrow> reject ''not_allowed'' (fld @ ''.level'') ''this entity has no level (no max_level guardrail)''
               | Some m \<Rightarrow> if l > m
                   then reject ''max_level'' (fld @ ''.level'')
                     (''level '' @ str_int l @ '' exceeds the guardrail max_level '' @ str_int m)
                   else Inr (Some l))
         | _ \<Rightarrow> bad)"

definition opt_hhmm :: "string option \<Rightarrow> int option" where
  "opt_hhmm t = (case t of None \<Rightarrow> None | Some s \<Rightarrow> parse_hhmm_str False s)"

definition check_range :: "guardrails \<Rightarrow> string \<Rightarrow> string \<Rightarrow> int \<Rightarrow> int option \<Rightarrow> rule_err + unit" where
  "check_range g fld start s e =
     (let lo = opt_hhmm (g_allowed_from g); hi = opt_hhmm (g_allowed_to g);
          last = (case e of None \<Rightarrow> s | Some x \<Rightarrow> x)
      in if (case lo of None \<Rightarrow> False | Some l \<Rightarrow> s < l)
         then reject ''allowed_range'' (fld @ ''.start'')
           (start @ '' is before the allowed range start '' @ the (g_allowed_from g))
         else if (case hi of None \<Rightarrow> False | Some h \<Rightarrow> last > h)
         then reject ''allowed_range'' (fld @ (if e = None then ''.start'' else ''.end''))
           (fmt_hhmm last @ '' is after the allowed range end '' @ the (g_allowed_to g))
         else (case (e, g_max_on_minutes g) of
             (Some x, Some m) \<Rightarrow> if x - s > m
               then reject ''max_on'' fld
                 (''the window is '' @ str_int (x - s) @ '' min, the guardrail max_on_minutes is '' @ str_int m)
               else Inr ()
           | _ \<Rightarrow> Inr ()))"

definition json_str :: "json \<Rightarrow> string" where
  "json_str v = (case v of JStr s \<Rightarrow> s | _ \<Rightarrow> [])"

definition str_opt :: "json \<Rightarrow> string option" where
  "str_opt v = (case v of JStr s \<Rightarrow> Some s | _ \<Rightarrow> None)"

text \<open>\<open>normalise_rule\<close>: weekdays sorted, the window's end only where the kind has one.\<close>

definition normalise_rule :: "kind \<Rightarrow> string \<Rightarrow> int list \<Rightarrow> (string \<times> json) list \<Rightarrow> int option
    \<Rightarrow> (string \<times> json) list option \<Rightarrow> rule" where
  "normalise_rule k rid ds r lvl vars =
     \<lparr>r_id = rid, r_days = sort ds, r_start = json_str (jget r ''start''),
      r_end = (if k = Plug \<or> k = Child_window then str_opt (jget r ''end'') else None),
      r_level = lvl, r_vars = vars\<rparr>"

definition check_body :: "kind \<Rightarrow> guardrails \<Rightarrow> string \<Rightarrow> (string \<times> json) list \<Rightarrow> rule_err + rule" where
  "check_body k g rid r =
     (let fld = ''rule '' @ quoted rid
      in bind_res (check_days fld (jget r ''days'')) (\<lambda>ds.
         bind_res (check_start fld (jget r ''start'')) (\<lambda>s.
         bind_res (check_end k fld r s) (\<lambda>e.
         bind_res (check_variables fld (jget r ''variables'')) (\<lambda>vars.
         bind_res (check_level g fld (jget r ''level'')) (\<lambda>lvl.
         bind_res (if k = Child_window then Inr ()
                   else check_range g fld (json_str (jget r ''start'')) s e) (\<lambda>_.
         Inr (normalise_rule k rid ds r lvl vars))))))))"

text \<open>State of the loop: the problems so far, the ids seen, the sound rules.\<close>

type_synonym rules_state = "problem list \<times> string list \<times> rule list"

definition check_rule :: "kind \<Rightarrow> guardrails \<Rightarrow> rules_state \<Rightarrow> nat \<times> json \<Rightarrow> py_exn + rules_state" where
  "check_rule k g st ir = (case (st, ir) of ((ps, seen, good), (i, rv)) \<Rightarrow>
     (let fld = ''rules['' @ str_nat i @ '']''
      in case rv of
          JObj r \<Rightarrow>
            (let unk = map (\<lambda>key. prob ''unknown_key'' (fld @ ''.'' @ key) (''unknown rule field '' @ quoted key))
                         (filter (\<lambda>key. key \<notin> set RULE_KEYS) (jkeys r));
                 bad_id = prob ''format'' (fld @ ''.id'') ''rule id must match [a-z0-9_]{1,24}''
             in case jget r ''id'' of
                  JStr rid \<Rightarrow>
                    if \<not> dollar rule_id_body rid then Inr (ps @ unk @ [bad_id], seen, good)
                    else if rid \<in> set seen
                    then Inr (ps @ unk @ [prob ''duplicate'' (fld @ ''.id'') (''duplicate rule id '' @ quoted rid)],
                              seen, good)
                    else (case check_body k g rid r of
                        Inl (Raises x) \<Rightarrow> Inl x
                      | Inl (Rejects p) \<Rightarrow> Inr (ps @ unk @ [p], rid # seen, good)
                      | Inr u \<Rightarrow> Inr (ps @ unk, rid # seen, good @ [u]))
                | _ \<Rightarrow> Inr (ps @ unk @ [bad_id], seen, good))
        | _ \<Rightarrow> Inr (ps @ [prob ''type'' fld ''a rule must be an object''], seen, good)))"

section \<open>The rules together\<close>

definition start_of :: "rule \<Rightarrow> int" where
  "start_of r = the (parse_hhmm_str False (r_start r))"

definition end_of :: "rule \<Rightarrow> int" where
  "end_of r = (case r_end r of None \<Rightarrow> start_of r | Some t \<Rightarrow> the (parse_hhmm_str True t))"

text \<open>What a rule opens: the comma list of its variables.\<close>

definition rule_opens :: "rule \<Rightarrow> string list" where
  "rule_opens r = split_on (CHR '','') (case r_vars r of None \<Rightarrow> []
     | Some o' \<Rightarrow> json_str (jget o' ''opens''))"

definition rule_groups :: "kind \<Rightarrow> rule \<Rightarrow> string list" where
  "rule_groups k r = (if k = Child_window then rule_opens r else [[]])"

type_synonym interval = "int \<times> int \<times> string"

definition rule_intervals :: "rule \<Rightarrow> interval list" where
  "rule_intervals r = map (\<lambda>d. ((d - 1) * 1440 + start_of r, (d - 1) * 1440 + end_of r, r_id r)) (r_days r)"

definition group_names :: "kind \<Rightarrow> rule list \<Rightarrow> string list" where
  "group_names k good = rev (remdups (rev (concat (map (rule_groups k) good))))"

definition group_intervals :: "kind \<Rightarrow> rule list \<Rightarrow> string \<Rightarrow> interval list" where
  "group_intervals k good grp =
     concat (map (\<lambda>r. concat (map (\<lambda>x. if x = grp then rule_intervals r else []) (rule_groups k r))) good)"

text \<open>Each interval of a sorted group with its successor, the last one with the first of next week.\<close>

definition neighbours :: "interval list \<Rightarrow> (interval \<times> int \<times> string) list" where
  "neighbours iv = (case iv of [] \<Rightarrow> []
     | x # xs \<Rightarrow> zip iv (map (\<lambda>(s, e, i). (s, i)) xs @ [(fst x + WEEK, snd (snd x))]))"

type_synonym finding_key = "string \<times> string \<times> string"

definition pair_key :: "string \<Rightarrow> string \<Rightarrow> string \<Rightarrow> finding_key" where
  "pair_key c a b = (c, min a b, max a b)"

definition check_pair :: "int \<Rightarrow> interval \<times> int \<times> string \<Rightarrow> (finding_key \<times> problem) list" where
  "check_pair gap x = (case x of ((s, e, i), (ns, ni)) \<Rightarrow>
     if ns < e then [(pair_key ''overlap'' i ni,
       prob ''overlap'' ''rules'' (''rules '' @ quoted i @ '' and '' @ quoted ni @ '' overlap''))]
     else if ns - e < gap then [(pair_key ''gap'' i ni,
       prob ''min_gap'' ''rules'' (''rules '' @ quoted i @ '' and '' @ quoted ni @ '' are '' @ str_int (ns - e)
         @ '' min apart, the guardrail min_gap_minutes is '' @ str_int gap))]
     else [])"

fun first_by_key :: "'k list \<Rightarrow> ('k \<times> 'p) list \<Rightarrow> 'p list" where
  "first_by_key seen [] = []"
| "first_by_key seen ((k, p) # xs) =
     (if k \<in> set seen then first_by_key seen xs else p # first_by_key (k # seen) xs)"

definition cross_findings :: "kind \<Rightarrow> int \<Rightarrow> rule list \<Rightarrow> (finding_key \<times> problem) list" where
  "cross_findings k gap good = concat (map (\<lambda>grp.
     concat (map (check_pair gap) (neighbours (sort (group_intervals k good grp))))) (group_names k good))"

definition gap_of :: "guardrails \<Rightarrow> int" where
  "gap_of g = (case g_min_gap_minutes g of None \<Rightarrow> 0 | Some m \<Rightarrow> m)"

definition cross_problems :: "kind \<Rightarrow> guardrails \<Rightarrow> rule list \<Rightarrow> problem list" where
  "cross_problems k g good = first_by_key [] (cross_findings k (gap_of g) good)"

definition triggers_on :: "rule list \<Rightarrow> int \<Rightarrow> nat" where
  "triggers_on good d = count_list (concat (map r_days good)) d"

definition worst_day :: "rule list \<Rightarrow> nat" where
  "worst_day good = foldr max (map (triggers_on good) [1, 2, 3, 4, 5, 6, 7]) 0"

definition trigger_problems :: "guardrails \<Rightarrow> rule list \<Rightarrow> problem list" where
  "trigger_problems g good = (case g_max_triggers_per_day g of None \<Rightarrow> []
     | Some m \<Rightarrow> if int (worst_day good) > m
         then [prob ''max_triggers'' ''rules'' (str_nat (worst_day good)
           @ '' triggers on one day, the guardrail max_triggers_per_day is '' @ str_int m)]
         else [])"

subsection \<open>What the child windows may open\<close>

definition opens_gated :: "rule \<Rightarrow> bool" where
  "opens_gated r \<longleftrightarrow> list_ex (\<lambda>t. t \<in> set GATED_TARGETS) (rule_opens r)"

definition bound_or :: "int \<Rightarrow> string option \<Rightarrow> int option" where
  "bound_or d t = (case t of None \<Rightarrow> Some d | Some s \<Rightarrow> parse_hhmm_str False s)"

definition open_range_problems :: "int \<Rightarrow> int \<Rightarrow> rule \<Rightarrow> problem list" where
  "open_range_problems lo hi r =
     (if start_of r < lo then [prob ''allowed_range'' (''rule '' @ quoted (r_id r) @ ''.start'')
        (r_start r @ '' is before the allowed range start '' @ fmt_hhmm lo)] else [])
     @ (if end_of r > hi then [prob ''allowed_range'' (''rule '' @ quoted (r_id r) @ ''.end'')
        ((case r_end r of None \<Rightarrow> [] | Some t \<Rightarrow> t) @ '' is after the allowed range end '' @ fmt_hhmm hi)] else [])"

definition open_windows :: "rule list \<Rightarrow> int \<Rightarrow> (int \<times> int) list" where
  "open_windows gated d =
     concat (map (\<lambda>r. if d \<in> set (r_days r) then [(start_of r, end_of r)] else []) gated)"

text \<open>Minutes covered by sorted windows, overlapping ones merged as the loop meets them.\<close>

fun merge_minutes :: "int \<Rightarrow> (int \<times> int) option \<Rightarrow> (int \<times> int) list \<Rightarrow> int" where
  "merge_minutes acc None [] = acc"
| "merge_minutes acc (Some (cs, ce)) [] = acc + (ce - cs)"
| "merge_minutes acc None ((s, e) # iv) = merge_minutes acc (Some (s, e)) iv"
| "merge_minutes acc (Some (cs, ce)) ((s, e) # iv) =
     (if s > ce then merge_minutes (acc + (ce - cs)) (Some (s, e)) iv
      else merge_minutes acc (Some (cs, max ce e)) iv)"

definition open_minutes :: "rule list \<Rightarrow> int \<Rightarrow> int" where
  "open_minutes gated d = merge_minutes 0 None (sort (open_windows gated d))"

definition open_total_problems :: "int \<Rightarrow> rule list \<Rightarrow> problem list" where
  "open_total_problems mx gated =
     (case find (\<lambda>d. open_windows gated d \<noteq> [] \<and> open_minutes gated d > mx) [1, 2, 3, 4, 5, 6, 7] of
        None \<Rightarrow> []
      | Some d \<Rightarrow> [prob ''max_open'' ''rules'' (''on weekday '' @ str_int d
          @ '' YouTube/Roblox would be open '' @ str_int (open_minutes gated d)
          @ '' min, the guardrail max_open_minutes_per_day is '' @ str_int mx)])"

definition child_problems :: "guardrails \<Rightarrow> rule list \<Rightarrow> py_exn + problem list" where
  "child_problems g good =
     (let gated = filter opens_gated good
      in if g_allowed_from g = None \<and> g_allowed_to g = None \<and> g_max_open_minutes_per_day g = None
         then Inr []
         else if gated = [] then Inr []
         else (case (bound_or 0 (g_allowed_from g), bound_or 1440 (g_allowed_to g)) of
             (Some lo, Some hi) \<Rightarrow> Inr (concat (map (open_range_problems lo hi) gated)
               @ (case g_max_open_minutes_per_day g of None \<Rightarrow> []
                  | Some mx \<Rightarrow> open_total_problems mx gated))
           | _ \<Rightarrow> Inl TypeError))"

definition rule_key :: "rule \<Rightarrow> int \<times> string" where
  "rule_key r = (start_of r, r_id r)"

definition known_kind :: "kind \<Rightarrow> bool" where
  "known_kind k = (case k of Other_kind s \<Rightarrow> False | _ \<Rightarrow> True)"

definition kind_name :: "kind \<Rightarrow> string" where
  "kind_name k = (case k of Plug \<Rightarrow> ''plug'' | Vacuum_plan \<Rightarrow> ''vacuum_plan''
     | Child_window \<Rightarrow> ''child_window'' | Dimmer \<Rightarrow> ''dimmer'' | Other_kind s \<Rightarrow> s)"

definition validate_rules :: "kind \<Rightarrow> guardrails \<Rightarrow> json \<Rightarrow> py_exn + (rule list \<times> problem list)" where
  "validate_rules k g rv =
     (if \<not> known_kind k
      then Inr ([], [prob ''kind'' ''entity'' (''unknown entity kind '' @ quoted (kind_name k))])
      else case rv of
        JList rs \<Rightarrow>
          (let many = (if length rs > MAX_RULES then [prob ''too_many'' ''rules''
                 (''at most '' @ str_nat MAX_RULES @ '' rules per entity'')] else [])
           in bind_res (fold_res (check_rule k g) (many, [], []) (zip [0..<length rs] rs)) (\<lambda>(ps, seen, good).
              bind_res (if k = Child_window then child_problems g good else Inr []) (\<lambda>cps.
              Inr (sort_key rule_key good,
                   ps @ cross_problems k g good @ trigger_problems g good @ cps))))
      | _ \<Rightarrow> Inr ([], [prob ''type'' ''rules'' ''rules must be a list'']))"

end
