(* ===== verification/Sched_Rules_Props.thy ===== *)
theory Sched_Rules_Props
  imports Sched_Rules
begin

text \<open>
  What the validation of \<open>Sched_Rules\<close> guarantees: the printed time of day parses back, an
  accepted rule set satisfies the declarative predicate \<open>rules_sound\<close> (each rule inside its
  guardrails, the windows of one group pairwise apart around the week), and an accepted rule set in
  its stored form is accepted again unchanged.
\<close>

section \<open>Times of day\<close>

lemma str02_eq:
  assumes "0 \<le> i" "i < 100"
  shows "str02 i = [digit_char (nat i div 10), digit_char (nat i mod 10)]"
proof (cases "i < 10")
  case True
  with assms have n: "nat i < 10" by simp
  have "digit_char 0 = CHR ''0''" by (simp add: digit_char_def char_of_def bit_Suc_0_iff)
  then show ?thesis using n assms
    by (simp add: str02_def pad_left_def str_int_def str_nat.simps)
next
  case False
  with assms have n: "\<not> nat i < 10" "nat i div 10 < 10" by auto
  then show ?thesis using assms
    by (simp add: str02_def pad_left_def str_int_def str_nat.simps)
qed

lemma fmt_hhmm_digits:
  assumes "0 \<le> m" "m < 1440"
  defines "h \<equiv> nat (m div 60)" and "n \<equiv> nat (m mod 60)"
  shows "fmt_hhmm m = [digit_char (h div 10), digit_char (h mod 10), CHR '':'',
      digit_char (n div 10), digit_char (n mod 10)]"
    and "h < 24" "n < 60" "m = int h * 60 + int n"
proof -
  have "0 \<le> m div 60" "m div 60 < 24" using assms(1,2) by auto
  moreover have "0 \<le> m mod 60" "m mod 60 < 60" by auto
  ultimately show "fmt_hhmm m = [digit_char (h div 10), digit_char (h mod 10), CHR '':'',
      digit_char (n div 10), digit_char (n mod 10)]"
    and "h < 24" "n < 60" "m = int h * 60 + int n"
    by (simp_all add: fmt_hhmm_def str02_eq h_def n_def)
qed

lemma of_char_digit_char [simp]: "d < 10 \<Longrightarrow> of_char (digit_char d) = (48 + d :: nat)"
  by (simp add: digit_char_def)

lemma char_in_digit_char:
  "d < 10 \<Longrightarrow> char_in (CHR ''0'') (CHR ''3'') (digit_char d) \<longleftrightarrow> d \<le> 3"
  "d < 10 \<Longrightarrow> char_in (CHR ''0'') (CHR ''5'') (digit_char d) \<longleftrightarrow> d \<le> 5"
  by (simp_all add: char_in_def)

lemma digit_char_consts:
  "digit_char 0 = CHR ''0''" "digit_char (Suc 0) = CHR ''1''" "digit_char 2 = CHR ''2''"
  by (simp_all add: digit_char_def char_of_def bit_Suc_0_iff)

lemma time_body_fmt:
  assumes "0 \<le> m" "m < 1440"
  shows "time_body (fmt_hhmm m)"
proof -
  define h n where "h = nat (m div 60)" and "n = nat (m mod 60)"
  note F = fmt_hhmm_digits [OF assms, folded h_def n_def]
  have "h div 10 < 10" "h mod 10 < 10" "n div 10 < 10" "n mod 10 < 10" "n div 10 \<le> 5"
    using F(2,3) by auto
  moreover have "h div 10 = 0 \<or> h div 10 = 1 \<or> (h div 10 = 2 \<and> h mod 10 \<le> 3)" using F(2) by presburger
  ultimately show ?thesis unfolding F(1) time_body_def
    by (auto simp: char_in_digit_char digit_char_consts)
qed

lemma hhmm_value_fmt:
  assumes "0 \<le> m" "m < 1440"
  shows "hhmm_value (fmt_hhmm m) = m"
proof -
  define h n where "h = nat (m div 60)" and "n = nat (m mod 60)"
  note F = fmt_hhmm_digits [OF assms, folded h_def n_def]
  have d: "h div 10 < 10" "n div 10 < 10" using F(2,3) by auto
  have D: "int (x div 10) * 10 + int (x mod 10) = int x" for x by (simp add: zdiv_int zmod_int)
  have "hhmm_value (fmt_hhmm m) = (int (h div 10) * 10 + int (h mod 10)) * 60
      + (int (n div 10) * 10 + int (n mod 10))"
    unfolding F(1) using d by simp
  then show ?thesis unfolding D using F(4) by simp
qed

lemma parse_fmt_hhmm:
  assumes "0 \<le> m" "m < 1440"
  shows "parse_hhmm_str a (fmt_hhmm m) = Some m"
proof (cases "a \<and> fmt_hhmm m = ''24:00''")
  case True
  then have "time_body ''24:00''" using time_body_fmt [OF assms] by simp
  then show ?thesis by (simp add: time_body_def char_in_def)
next
  case False
  then have "\<not> (a \<and> fmt_hhmm m = ''24:00'')" by blast
  then show ?thesis using time_body_fmt [OF assms] hhmm_value_fmt [OF assms]
    unfolding parse_hhmm_str_def dollar_def by (simp only: if_False simp_thms if_True)
qed

lemma char_in_nat: "char_in lo hi c \<Longrightarrow> of_char lo \<le> (of_char c :: nat) \<and> of_char c \<le> (of_char hi :: nat)"
  by (simp add: char_in_def)

lemma time_body_value:
  assumes "time_body s"
  shows "0 \<le> hhmm_value (s @ t)" "hhmm_value (s @ t) < 1440"
proof -
  obtain a b c d e where s: "s = [a, b, c, d, e]"
    and ab: "(a = CHR ''0'' \<or> a = CHR ''1'') \<and> is_digit b
             \<or> a = CHR ''2'' \<and> char_in (CHR ''0'') (CHR ''3'') b"
    and de: "char_in (CHR ''0'') (CHR ''5'') d" "is_digit e"
    using assms by (auto simp: time_body_def split: list.splits)
  have "0 \<le> digit_val a * 10 + digit_val b \<and> digit_val a * 10 + digit_val b \<le> 23"
    using ab by (auto simp: digit_val_def is_digit_def dest!: char_in_nat)
  moreover have "0 \<le> digit_val d * 10 + digit_val e \<and> digit_val d * 10 + digit_val e \<le> 59"
    using de by (auto simp: digit_val_def is_digit_def dest!: char_in_nat)
  ultimately show "0 \<le> hhmm_value (s @ t)" "hhmm_value (s @ t) < 1440" by (auto simp: s)
qed

lemma dollar_time_value:
  assumes "dollar time_body s"
  shows "0 \<le> hhmm_value s" "hhmm_value s < 1440"
proof -
  obtain u t where u: "s = u @ t" "time_body u"
    using assms unfolding dollar_def by (metis append_Nil2 append_butlast_last_id)
  then show "0 \<le> hhmm_value s" "hhmm_value s < 1440" using time_body_value [OF u(2)] by auto
qed

lemma parse_hhmm_str_range:
  "parse_hhmm_str a s = Some m \<Longrightarrow> 0 \<le> m \<and> m \<le> 1440 \<and> (\<not> a \<longrightarrow> m < 1440)"
  using dollar_time_value by (fastforce simp: parse_hhmm_str_def split: if_splits)

lemma parse_hhmm_24: "parse_hhmm_str False s = Some m \<Longrightarrow> parse_hhmm_str True s = Some m"
  by (auto simp: parse_hhmm_str_def dollar_def time_body_def char_in_def newline_def split: if_splits)

text \<open>The dollar of the pattern: an accepted time may carry one newline at its end.\<close>

lemma parse_hhmm_newline:
  "0 \<le> m \<Longrightarrow> m < 1440 \<Longrightarrow> parse_hhmm_str False (fmt_hhmm m @ [newline]) = Some m"
proof -
  assume m: "0 \<le> m" "m < 1440"
  then have "hhmm_value (fmt_hhmm m @ [newline]) = hhmm_value (fmt_hhmm m)"
    by (simp add: fmt_hhmm_digits(1))
  then show ?thesis using m
    by (simp add: parse_hhmm_str_def dollar_def time_body_fmt hhmm_value_fmt)
qed

section \<open>One sound rule\<close>

definition window_sound :: "kind \<Rightarrow> rule \<Rightarrow> bool" where
  "window_sound k r \<longleftrightarrow>
     (if k = Plug \<or> k = Child_window
      then (case r_end r of None \<Rightarrow> False
          | Some t \<Rightarrow> parse_hhmm_str (k = Child_window) t \<noteq> None) \<and>
        \<not> dst_forbidden (end_of r) \<and> start_of r < end_of r
      else r_end r = None)"

definition vars_sound :: "kind \<Rightarrow> rule \<Rightarrow> bool" where
  "vars_sound k r \<longleftrightarrow>
     (case r_vars r of None \<Rightarrow> k \<noteq> Child_window
      | Some o' \<Rightarrow> length o' \<le> 8 \<and> list_all (dollar var_key_body) (jkeys o')
          \<and> list_all (\<lambda>(key, x). var_value_ok x) o' \<and> (k = Plug \<longrightarrow> o' = []))
     \<and> (k = Child_window \<longrightarrow> list_all (\<lambda>t. t \<in> set CHILD_TARGETS) (rule_opens r))"

definition level_sound :: "guardrails \<Rightarrow> rule \<Rightarrow> bool" where
  "level_sound g r \<longleftrightarrow> (case r_level r of None \<Rightarrow> True
     | Some l \<Rightarrow> 1 \<le> l \<and> (case g_max_level g of None \<Rightarrow> False | Some m \<Rightarrow> l \<le> m))"

definition within_guardrails :: "guardrails \<Rightarrow> rule \<Rightarrow> bool" where
  "within_guardrails g r \<longleftrightarrow>
     (case opt_hhmm (g_allowed_from g) of None \<Rightarrow> True | Some l \<Rightarrow> l \<le> start_of r)
     \<and> (case opt_hhmm (g_allowed_to g) of None \<Rightarrow> True | Some h \<Rightarrow> end_of r \<le> h)
     \<and> (case (r_end r, g_max_on_minutes g) of (Some t, Some m) \<Rightarrow> end_of r - start_of r \<le> m | _ \<Rightarrow> True)"

definition rule_sound :: "kind \<Rightarrow> guardrails \<Rightarrow> rule \<Rightarrow> bool" where
  "rule_sound k g r \<longleftrightarrow>
     dollar rule_id_body (r_id r) \<and> weekdays_ok (r_days r) \<and> sorted (r_days r)
     \<and> parse_hhmm_str False (r_start r) \<noteq> None \<and> \<not> dst_forbidden (start_of r)
     \<and> window_sound k r \<and> vars_sound k r \<and> level_sound g r
     \<and> (k = Child_window \<or> within_guardrails g r)"

text \<open>The JSON form of a stored rule, as \<open>normalise_rule\<close> builds it.\<close>

definition rule_fields :: "rule \<Rightarrow> (string \<times> json) list" where
  "rule_fields r = [(''id'', JStr (r_id r)), (''days'', JList (map JInt (r_days r))),
     (''start'', JStr (r_start r)), (''end'', jopt JStr (r_end r)), (''level'', jopt JInt (r_level r)),
     (''variables'', jopt JObj (r_vars r))]"

definition rules_json :: "rule list \<Rightarrow> json" where
  "rules_json rs = JList (map (\<lambda>r. JObj (rule_fields r)) rs)"

lemma rule_fields_get [simp]:
  "jget (rule_fields r) ''id'' = JStr (r_id r)"
  "jget (rule_fields r) ''days'' = JList (map JInt (r_days r))"
  "jget (rule_fields r) ''start'' = JStr (r_start r)"
  "jget (rule_fields r) ''end'' = jopt JStr (r_end r)"
  "jget (rule_fields r) ''level'' = jopt JInt (r_level r)"
  "jget (rule_fields r) ''variables'' = jopt JObj (r_vars r)"
  by (simp_all add: rule_fields_def jget_def)

lemma jkeys_rule_fields [simp]: "jkeys (rule_fields r) = RULE_KEYS"
  by (simp add: rule_fields_def jkeys_def RULE_KEYS_def)

text \<open>Each stage of the check, when it passes.\<close>

lemma those_map_as_jint [simp]: "those (map as_jint (map JInt ds)) = Some ds"
  by (induction ds) auto

lemma check_days_Inr:
  "check_days f v = Inr ds \<Longrightarrow> weekdays_ok ds"
  by (auto simp: check_days_def reject_def Let_def split: json.splits if_splits option.splits)

lemma check_days_stored: "weekdays_ok ds \<Longrightarrow> check_days f (JList (map JInt ds)) = Inr ds"
proof -
  assume ok: "weekdays_ok ds"
  have "\<not> list_ex (\<lambda>d. \<not> hashable d) (map JInt ds)" by (induction ds) auto
  then show ?thesis using ok by (simp only: check_days_def Let_def json.case if_False those_map_as_jint
        option.case if_True)
qed

lemma check_start_Inr:
  "check_start f v = Inr s \<Longrightarrow> \<exists>t. v = JStr t \<and> parse_hhmm_str False t = Some s \<and> \<not> dst_forbidden s"
  by (auto simp: check_start_def parse_hhmm_def reject_def split: json.splits if_splits option.splits)

lemma check_start_stored:
  "parse_hhmm_str False t = Some s \<Longrightarrow> \<not> dst_forbidden s \<Longrightarrow> check_start f (JStr t) = Inr s"
  by (simp add: check_start_def parse_hhmm_def)

lemma check_opens_Inr:
  "check_opens f ts = Inr u \<longleftrightarrow> ts \<noteq> [] \<and> list_all (\<lambda>t. t \<in> set CHILD_TARGETS) ts"
proof -
  have "set LEGACY_TARGETS \<inter> set CHILD_TARGETS = {}"
    by (simp add: LEGACY_TARGETS_def CHILD_TARGETS_def)
  then show ?thesis by (auto simp: check_opens_def reject_def list_ex_iff list_all_iff)
qed

lemma check_end_Inr:
  assumes "check_end k f r s = Inr e"
  shows "if k = Plug \<or> k = Child_window
    then \<exists>t x. jget r ''end'' = JStr t \<and> e = Some x \<and> parse_hhmm_str (k = Child_window) t = Some x
      \<and> \<not> dst_forbidden x \<and> s < x \<and> (k = Plug \<longrightarrow> \<not> truthy (jget r ''variables''))
      \<and> (k = Child_window \<longrightarrow> (\<exists>ts. opens_targets (jget r ''variables'') = Inr ts \<and> ts \<noteq> []
            \<and> list_all (\<lambda>t. t \<in> set CHILD_TARGETS) ts))
    else e = None"
proof (cases "k = Plug \<or> k = Child_window")
  case True
  then obtain x where x: "parse_hhmm (k = Child_window) (jget r ''end'') = Some x"
    using assms by (auto simp: check_end_def reject_def split: option.splits)
  then obtain t where t: "jget r ''end'' = JStr t" "parse_hhmm_str (k = Child_window) t = Some x"
    by (auto simp: parse_hhmm_def split: json.splits)
  show ?thesis using assms True x t
    by (auto simp: check_end_def reject_def bind_res_Inr_iff check_opens_Inr split: if_splits)
next
  case False
  then show ?thesis using assms by (auto simp: check_end_def reject_def split: if_splits)
qed

lemma check_variables_Inr:
  "check_variables f v = Inr x \<Longrightarrow> (case x of None \<Rightarrow> v = JNull
     | Some o' \<Rightarrow> v = JObj o' \<and> length o' \<le> 8 \<and> list_all (dollar var_key_body) (jkeys o')
        \<and> list_all (\<lambda>(key, x). var_value_ok x) o')"
  by (auto simp: check_variables_def reject_def Let_def list_all_iff list_ex_iff
      split: json.splits if_splits)

lemma check_level_Inr:
  "check_level g f v = Inr x \<Longrightarrow> v = jopt JInt x \<and> (case x of None \<Rightarrow> True
     | Some l \<Rightarrow> 1 \<le> l \<and> (case g_max_level g of None \<Rightarrow> False | Some m \<Rightarrow> l \<le> m))"
  by (auto simp: check_level_def reject_def Let_def split: json.splits if_splits option.splits)

lemma check_range_Inr:
  "check_range g f t s e = Inr u \<longleftrightarrow>
     (case opt_hhmm (g_allowed_from g) of None \<Rightarrow> True | Some l \<Rightarrow> l \<le> s)
     \<and> (case opt_hhmm (g_allowed_to g) of None \<Rightarrow> True | Some h \<Rightarrow> (case e of None \<Rightarrow> s | Some x \<Rightarrow> x) \<le> h)
     \<and> (case (e, g_max_on_minutes g) of (Some x, Some m) \<Rightarrow> x - s \<le> m | _ \<Rightarrow> True)"
  by (auto simp: check_range_def reject_def Let_def split: option.splits)

lemma end_of_window:
  "r_end r = Some t \<Longrightarrow> parse_hhmm_str a t = Some x \<Longrightarrow> end_of r = x"
  by (cases a) (auto simp: end_of_def dest: parse_hhmm_24)

lemma opens_targets_Inr:
  "opens_targets v = Inr ts \<Longrightarrow> ts \<noteq> [] \<Longrightarrow> \<exists>o' s. v = JObj o' \<and> jget o' ''opens'' = JStr s \<and> ts = split_on (CHR '','') s"
  by (auto simp: opens_targets_def split: if_splits json.splits)

lemma truthy_obj: "\<not> truthy (JObj o') \<longleftrightarrow> o' = []" by simp

text \<open>A rule that passes is sound, and is the rule the request described.\<close>

lemma check_body_sound:
  assumes ok: "check_body k g rid r = Inr u" and rid: "dollar rule_id_body rid"
  shows "rule_sound k g u \<and> r_id u = rid"
proof -
  let ?f = "''rule '' @ quoted rid"
  obtain ds s e vars lvl where
    ds: "check_days ?f (jget r ''days'') = Inr ds" and
    s: "check_start ?f (jget r ''start'') = Inr s" and
    e: "check_end k ?f r s = Inr e" and
    vars: "check_variables ?f (jget r ''variables'') = Inr vars" and
    lvl: "check_level g ?f (jget r ''level'') = Inr lvl" and
    range: "k \<noteq> Child_window \<Longrightarrow> check_range g ?f (json_str (jget r ''start'')) s e = Inr ()" and
    u: "u = normalise_rule k rid ds r lvl vars"
    using ok by (auto simp: check_body_def Let_def bind_res_Inr_iff split: if_splits)
  obtain t where t: "jget r ''start'' = JStr t" "parse_hhmm_str False t = Some s" "\<not> dst_forbidden s"
    using check_start_Inr [OF s] by blast
  have start: "start_of u = s" "r_start u = t" "r_id u = rid"
    using t by (simp_all add: u normalise_rule_def start_of_def json_str_def)
  have days: "weekdays_ok (r_days u)" "sorted (r_days u)"
    using check_days_Inr [OF ds]
    by (simp_all add: u normalise_rule_def weekdays_ok_def list_all_iff)
      (metis sort_key_simps(1) set_empty set_sort)
  have vs: "r_vars u = vars" by (simp add: u normalise_rule_def)
  note E = check_end_Inr [OF e] and V = check_variables_Inr [OF vars]
  have win: "window_sound k u \<and> (k = Plug \<or> k = Child_window \<longrightarrow> e = Some (end_of u))
      \<and> (\<not> (k = Plug \<or> k = Child_window) \<longrightarrow> e = None \<and> end_of u = s)"
  proof (cases "k = Plug \<or> k = Child_window")
    case True
    then obtain x y where x: "jget r ''end'' = JStr y" "e = Some x"
      "parse_hhmm_str (k = Child_window) y = Some x" "\<not> dst_forbidden x" "s < x"
      using E by auto
    have "r_end u = Some y" using True x(1) by (auto simp: u normalise_rule_def str_opt_def)
    then have "end_of u = x" using x(3) by (rule end_of_window)
    then show ?thesis using True x start \<open>r_end u = Some y\<close> by (simp add: window_sound_def)
  next
    case False
    then have "r_end u = None" by (simp add: u normalise_rule_def)
    then show ?thesis using False E start by (simp add: window_sound_def end_of_def)
  qed
  have "vars_sound k u"
  proof (cases "k = Child_window")
    case True
    then obtain ts where ts: "opens_targets (jget r ''variables'') = Inr ts" "ts \<noteq> []"
      "list_all (\<lambda>t. t \<in> set CHILD_TARGETS) ts" using E by auto
    then obtain o' y where o': "jget r ''variables'' = JObj o'" "jget o' ''opens'' = JStr y"
      "ts = split_on (CHR '','') y" using opens_targets_Inr by metis
    then have v: "vars = Some o'" using V by (cases vars) auto
    have "rule_opens u = ts" using o' by (simp add: rule_opens_def vs v json_str_def)
    then show ?thesis using V ts(3) True v vs by (simp add: vars_sound_def)
  next
    case False
    then show ?thesis using V E by (auto simp: vars_sound_def vs split: option.splits if_splits)
  qed
  moreover have "level_sound g u"
    using check_level_Inr [OF lvl] by (simp add: level_sound_def u normalise_rule_def)
  moreover have "k = Child_window \<or> within_guardrails g u"
  proof (cases "k = Child_window")
    case False
    then have R: "check_range g ?f (json_str (jget r ''start'')) s e = Inr ()" by (rule range)
    have "(e = None \<longleftrightarrow> r_end u = None) \<and> (case e of None \<Rightarrow> s | Some x \<Rightarrow> x) = end_of u"
      using win False by (auto simp: window_sound_def split: option.splits if_splits)
    then show ?thesis using R unfolding check_range_Inr within_guardrails_def start
      by (auto split: option.splits)
  qed simp
  ultimately show ?thesis using rid days win t start
    by (simp add: rule_sound_def)
qed

text \<open>A sound rule passes again in its stored form, unchanged.\<close>

lemma check_body_stored:
  assumes "rule_sound k g u"
  shows "check_body k g (r_id u) (rule_fields u) = Inr u"
proof -
  let ?f = "''rule '' @ quoted (r_id u)"
  from assms have S: "weekdays_ok (r_days u)" "sorted (r_days u)"
    "parse_hhmm_str False (r_start u) \<noteq> None" "\<not> dst_forbidden (start_of u)"
    "window_sound k u" "vars_sound k u" "level_sound g u" "k = Child_window \<or> within_guardrails g u"
    by (simp_all add: rule_sound_def)
  have start: "parse_hhmm_str False (r_start u) = Some (start_of u)"
    using S(3) by (auto simp: start_of_def)
  define e where "e = (if k = Plug \<or> k = Child_window then Some (end_of u) else None)"
  have targets: "bind_res (opens_targets (jopt JObj (r_vars u))) (\<lambda>ts. bind_res (check_opens ?f ts) (\<lambda>_. Inr x)) = Inr x"
    if "k = Child_window" for x :: "int option"
  proof -
    from that S(6) obtain o' where o': "r_vars u = Some o'"
      "list_all (\<lambda>t. t \<in> set CHILD_TARGETS) (rule_opens u)"
      by (auto simp: vars_sound_def split: option.splits)
    have "jget o' ''opens'' \<noteq> JNull \<and> is_jstr (jget o' ''opens'')"
    proof (cases "jget o' ''opens''")
      case (JStr y)
      then show ?thesis by simp
    qed (use o' in \<open>simp_all add: rule_opens_def json_str_def CHILD_TARGETS_def\<close>)
    then obtain y where y: "jget o' ''opens'' = JStr y" by (cases "jget o' ''opens''") auto
    then have "o' \<noteq> []" by (auto simp: jget_def)
    then have "opens_targets (jopt JObj (r_vars u)) = Inr (rule_opens u)"
      using y o'(1) by (simp add: opens_targets_def rule_opens_def json_str_def)
    moreover have "check_opens ?f (rule_opens u) = Inr ()"
      using o'(2) by (simp add: check_opens_Inr rule_opens_def)
    ultimately show ?thesis by simp
  qed
  have no_vars: "\<not> truthy (jopt JObj (r_vars u))" if "k = Plug"
    using that S(6) by (auto simp: vars_sound_def jopt_def split: option.splits)
  have ce: "check_end k ?f (rule_fields u) (start_of u) = Inr e"
  proof (cases "k = Plug \<or> k = Child_window")
    case True
    then obtain t where t: "r_end u = Some t" "parse_hhmm_str (k = Child_window) t \<noteq> None"
      "\<not> dst_forbidden (end_of u)" "start_of u < end_of u"
      using S(5) by (auto simp: window_sound_def split: option.splits if_splits)
    then have "parse_hhmm_str (k = Child_window) t = Some (end_of u)"
      using end_of_window by fastforce
    then show ?thesis using True t(1,3,4) no_vars targets
      by (auto simp: check_end_def parse_hhmm_def e_def)
  next
    case False
    then have "r_end u = None" using S(5) by (simp add: window_sound_def)
    then show ?thesis using False by (auto simp: check_end_def e_def)
  qed
  have cv: "check_variables ?f (jopt JObj (r_vars u)) = Inr (r_vars u)"
    using S(6) by (auto simp: check_variables_def vars_sound_def list_all_iff list_ex_iff split: option.splits)
  have cl: "check_level g ?f (jopt JInt (r_level u)) = Inr (r_level u)"
    using S(7) by (auto simp: check_level_def level_sound_def split: option.splits)
  have win: "r_end u = None \<Longrightarrow> end_of u = start_of u"
    "k = Plug \<Longrightarrow> \<exists>t. r_end u = Some t" "k \<noteq> Plug \<Longrightarrow> k \<noteq> Child_window \<Longrightarrow> r_end u = None"
    "k = Child_window \<Longrightarrow> \<exists>t. r_end u = Some t"
    using S(5) by (auto simp: window_sound_def end_of_def split: option.splits if_splits)
  have cr: "check_range g ?f (r_start u) (start_of u) e = Inr ()" if "k \<noteq> Child_window"
    using that S(8) win unfolding check_range_Inr within_guardrails_def e_def
    by (cases "k = Plug") (auto split: option.splits)
  have "normalise_rule k (r_id u) (r_days u) (rule_fields u) (r_level u) (r_vars u) = u"
    using S(2) win by (auto simp: normalise_rule_def json_str_def str_opt_def sorted_sort_id)
  then show ?thesis
    unfolding check_body_def Let_def rule_fields_get
    using check_days_stored [OF S(1)] check_start_stored [OF start S(4)] ce cv cl cr
    by (simp add: json_str_def)
qed

section \<open>The loop over the rules\<close>

lemma check_rule_Inr:
  assumes "check_rule k g (ps, seen, good) (i, rv) = Inr (ps', seen', good')"
  shows "\<exists>extra. ps' = ps @ extra \<and> set seen \<subseteq> set seen' \<and>
    (good' = good \<or> (\<exists>u r. good' = good @ [u] \<and> seen' = r_id u # seen \<and> r_id u \<notin> set seen
        \<and> rule_sound k g u))"
proof (cases rv)
  case (JObj r)
  show ?thesis
  proof (cases "jget r ''id''")
    case (JStr rid)
    show ?thesis
    proof (cases "dollar rule_id_body rid \<and> rid \<notin> set seen")
      case True
      then show ?thesis using assms JObj JStr check_body_sound [of k g rid r]
        by (cases "check_body k g rid r")
          (auto simp: check_rule_def Let_def split: rule_err.splits)
    next
      case False
      then show ?thesis using assms JObj JStr
        by (auto simp: check_rule_def Let_def split: if_splits)
    qed
  qed (use assms JObj in \<open>auto simp: check_rule_def Let_def\<close>)
qed (use assms in \<open>auto simp: check_rule_def Let_def\<close>)

definition loop_inv :: "kind \<Rightarrow> guardrails \<Rightarrow> rules_state \<Rightarrow> bool" where
  "loop_inv k g st \<longleftrightarrow> (case st of (ps, seen, good) \<Rightarrow>
     distinct (map r_id good) \<and> r_id ` set good \<subseteq> set seen \<and> list_all (rule_sound k g) good)"

lemma check_rule_inv: "loop_inv k g st \<Longrightarrow> check_rule k g st x = Inr st' \<Longrightarrow> loop_inv k g st'"
proof -
  assume inv: "loop_inv k g st" and step: "check_rule k g st x = Inr st'"
  obtain ps seen good i rv ps' seen' good' where
    eqs: "st = (ps, seen, good)" "x = (i, rv)" "st' = (ps', seen', good')"
    by (metis prod_cases3 prod.exhaust)
  from check_rule_Inr [OF step [unfolded eqs]] inv eqs show ?thesis
    by (auto simp: loop_inv_def image_subset_iff)
qed

lemma rules_loop_inv:
  "fold_res (check_rule k g) (ps, [], []) xs = Inr st \<Longrightarrow> loop_inv k g st"
  by (erule fold_res_invariant [where P = "loop_inv k g"])
    (simp add: loop_inv_def, erule (1) check_rule_inv)

lemma check_rule_length:
  "check_rule k g (ps, seen, good) x = Inr (ps', seen', good') \<Longrightarrow> length good' \<le> Suc (length good)"
  by (cases x) (auto dest!: check_rule_Inr)

lemma rules_loop_length:
  "fold_res (check_rule k g) (ps, seen, good) xs = Inr (ps', seen', good')
   \<Longrightarrow> length good' \<le> length good + length xs"
proof (induction xs arbitrary: ps seen good)
  case Nil
  then show ?case by simp
next
  case (Cons x xs)
  then obtain ps1 seen1 good1 where
    1: "check_rule k g (ps, seen, good) x = Inr (ps1, seen1, good1)"
       "fold_res (check_rule k g) (ps1, seen1, good1) xs = Inr (ps', seen', good')"
    by (auto simp: bind_res_Inr_iff)
  show ?case using Cons.IH [OF 1(2)] check_rule_length [OF 1(1)] by simp
qed

text \<open>The problems only grow, so none at the end means none on the way.\<close>

lemma rules_loop_grows:
  "fold_res (check_rule k g) (ps, seen, good) xs = Inr (ps', seen', good') \<Longrightarrow> \<exists>extra. ps' = ps @ extra"
proof (induction xs arbitrary: ps seen good)
  case Nil
  then show ?case by simp
next
  case (Cons x xs)
  then obtain ps1 seen1 good1 where
    1: "check_rule k g (ps, seen, good) x = Inr (ps1, seen1, good1)"
       "fold_res (check_rule k g) (ps1, seen1, good1) xs = Inr (ps', seen', good')"
    by (auto simp: bind_res_Inr_iff)
  obtain e where "ps1 = ps @ e" using 1(1) by (cases x) (auto dest!: check_rule_Inr)
  then show ?case using Cons.IH [OF 1(2)] by auto
qed

lemma check_rule_stored:
  assumes "rule_sound k g u" "r_id u \<notin> set seen"
  shows "check_rule k g (ps, seen, good) (i, JObj (rule_fields u)) = Inr (ps, r_id u # seen, good @ [u])"
proof -
  have "dollar rule_id_body (r_id u)" using assms(1) by (simp add: rule_sound_def)
  then show ?thesis using assms
    by (simp add: check_rule_def Let_def check_body_stored)
qed

lemma rules_loop_stored:
  assumes "list_all (rule_sound k g) rs" "distinct (map r_id rs)" "r_id ` set rs \<inter> set seen = {}"
    "length is = length rs"
  shows "fold_res (check_rule k g) (ps, seen, good) (zip is (map (\<lambda>r. JObj (rule_fields r)) rs))
    = Inr (ps, rev (map r_id rs) @ seen, good @ rs)"
  using assms
proof (induction rs arbitrary: seen good "is")
  case Nil
  then show ?case by simp
next
  case (Cons u rs)
  then obtain i js where i: "is = i # js" "length js = length rs" by (cases "is") auto
  have step: "check_rule k g (ps, seen, good) (i, JObj (rule_fields u)) = Inr (ps, r_id u # seen, good @ [u])"
    using Cons.prems by (intro check_rule_stored) auto
  show ?case using Cons.IH [of "r_id u # seen" js "good @ [u]"] Cons.prems i step by auto
qed

section \<open>The rules together\<close>

lemma first_by_key_Nil: "first_by_key [] xs = [] \<longleftrightarrow> xs = []"
  by (cases xs) auto

lemma mset_concat_map:
  "mset (concat (map f xs)) = sum_mset (image_mset (\<lambda>x. mset (f x)) (mset xs))"
  by (induction xs) auto

lemma mset_concat_map_cong: "mset xs = mset ys \<Longrightarrow> mset (concat (map f xs)) = mset (concat (map f ys))"
  by (simp add: mset_concat_map)

lemma distinct_map_mset_cong: "mset xs = mset ys \<Longrightarrow> distinct (map f xs) = distinct (map f ys)"
  by (metis mset_eq_imp_distinct_iff mset_map)

lemma group_intervals_mset:
  "mset xs = mset ys \<Longrightarrow> mset (group_intervals k xs grp) = mset (group_intervals k ys grp)"
  unfolding group_intervals_def by (rule mset_concat_map_cong)

lemma set_group_names: "set (group_names k xs) = (\<Union>r\<in>set xs. set (rule_groups k r))"
  by (simp add: group_names_def)

definition pairs_ok :: "int \<Rightarrow> interval list \<Rightarrow> bool" where
  "pairs_ok gap iv \<longleftrightarrow> list_all (\<lambda>x. check_pair gap x = []) (neighbours (sort iv))"

definition cross_ok :: "kind \<Rightarrow> guardrails \<Rightarrow> rule list \<Rightarrow> bool" where
  "cross_ok k g rs \<longleftrightarrow>
     list_all (\<lambda>grp. pairs_ok (gap_of g) (group_intervals k rs grp)) (group_names k rs)"

lemma cross_problems_Nil: "cross_problems k g rs = [] \<longleftrightarrow> cross_ok k g rs"
  by (auto simp: cross_problems_def first_by_key_Nil cross_findings_def cross_ok_def pairs_ok_def
      list_all_iff)

lemma cross_ok_mset: "mset xs = mset ys \<Longrightarrow> cross_ok k g xs = cross_ok k g ys"
proof -
  assume eq: "mset xs = mset ys"
  then have "set xs = set ys" by (rule mset_eq_setD)
  then have "set (group_names k xs) = set (group_names k ys)" by (simp add: set_group_names)
  moreover have "pairs_ok h (group_intervals k xs grp) = pairs_ok h (group_intervals k ys grp)" for h grp
    using group_intervals_mset [OF eq, THEN sort_mset_cong] by (simp add: pairs_ok_def)
  ultimately show ?thesis by (auto simp: cross_ok_def list_all_iff)
qed

lemma triggers_on_mset: "mset xs = mset ys \<Longrightarrow> triggers_on xs d = triggers_on ys d"
  using mset_concat_map_cong [of xs ys r_days]
  by (metis count_mset triggers_on_def)

lemma worst_day_mset: "mset xs = mset ys \<Longrightarrow> worst_day xs = worst_day ys"
proof -
  assume "mset xs = mset ys"
  then have "triggers_on xs = triggers_on ys" by (intro ext triggers_on_mset)
  then show ?thesis by (simp only: worst_day_def)
qed

lemma open_windows_mset: "mset xs = mset ys \<Longrightarrow> mset (open_windows xs d) = mset (open_windows ys d)"
  unfolding open_windows_def by (rule mset_concat_map_cong)

lemma child_problems_mset:
  assumes "mset xs = mset ys"
  shows "child_problems g xs = Inr [] \<longleftrightarrow> child_problems g ys = Inr []"
proof -
  let ?gx = "filter opens_gated xs" and ?gy = "filter opens_gated ys"
  have m: "mset ?gx = mset ?gy" using assms by simp
  have w: "mset (open_windows ?gx d) = mset (open_windows ?gy d)" for d
    using m by (rule open_windows_mset)
  have "open_minutes ?gx d = open_minutes ?gy d" for d
    using w [THEN sort_mset_cong] by (simp add: open_minutes_def)
  moreover have "open_windows ?gx d = [] \<longleftrightarrow> open_windows ?gy d = []" for d
    using w [of d] by (metis mset_zero_iff)
  ultimately have tot: "open_total_problems mx ?gx = open_total_problems mx ?gy" for mx
    by (simp add: open_total_problems_def)
  have "(concat (map f ?gx) = []) = (concat (map f ?gy) = [])" for f :: "rule \<Rightarrow> problem list"
    using mset_concat_map_cong [OF m, of f] by (metis mset_zero_iff)
  moreover have "?gx = [] \<longleftrightarrow> ?gy = []" using m by (metis mset_zero_iff)
  ultimately show ?thesis using tot
    by (auto simp: child_problems_def Let_def simp del: concat_eq_Nil_conv split: option.splits)
qed

text \<open>
  The declarative contract of a stored schedule: at most twelve rules with distinct ids, sorted by
  start and id, each sound, no two neighbours overlapping or closer than the gap, and the daily
  totals inside the guardrails.
\<close>

definition rules_sound :: "kind \<Rightarrow> guardrails \<Rightarrow> rule list \<Rightarrow> bool" where
  "rules_sound k g rs \<longleftrightarrow>
     known_kind k \<and> length rs \<le> MAX_RULES \<and> distinct (map r_id rs) \<and> sorted (map rule_key rs)
     \<and> list_all (rule_sound k g) rs \<and> cross_ok k g rs \<and> trigger_problems g rs = []
     \<and> (k = Child_window \<longrightarrow> child_problems g rs = Inr [])"

lemma validate_rules_sound:
  assumes "validate_rules k g rv = Inr (rs, [])"
  shows "rules_sound k g rs"
proof -
  have kk: "known_kind k" using assms by (auto simp: validate_rules_def split: if_splits)
  obtain js where rv: "rv = JList js"
    using assms kk by (auto simp: validate_rules_def split: json.splits)
  define many where "many = (if length js > MAX_RULES then [prob ''too_many'' ''rules''
    (''at most '' @ str_nat MAX_RULES @ '' rules per entity'')] else [])"
  obtain ps seen good cps where
    loop: "fold_res (check_rule k g) (many, [], []) (zip [0..<length js] js) = Inr (ps, seen, good)" and
    child: "(if k = Child_window then child_problems g good else Inr []) = Inr cps" and
    out: "rs = sort_key rule_key good" "ps @ cross_problems k g good @ trigger_problems g good @ cps = []"
    using assms kk unfolding validate_rules_def rv many_def
    by (auto simp: bind_res_Inr_iff Let_def)
  have m: "mset rs = mset good" by (simp add: out(1))
  then have set: "set rs = set good" by (rule mset_eq_setD)
  have "many = []" using rules_loop_grows [OF loop] out(2) by auto
  then have "length js \<le> MAX_RULES" by (auto simp: many_def split: if_splits)
  then have "length rs \<le> MAX_RULES"
    using rules_loop_length [OF loop] by (simp add: out(1))
  moreover have inv: "distinct (map r_id good)" "list_all (rule_sound k g) good"
    using rules_loop_inv [OF loop] by (auto simp: loop_inv_def)
  moreover have "distinct (map r_id rs)"
    using inv(1) m by (metis distinct_map_mset_cong)
  ultimately show ?thesis
    using kk out child set cross_ok_mset [OF m, of k g] worst_day_mset [OF m] child_problems_mset [OF m, of g]
    by (auto simp: rules_sound_def cross_problems_Nil list_all_iff trigger_problems_def
        split: option.splits if_splits)
qed

lemma validate_rules_stored:
  assumes "rules_sound k g rs"
  shows "validate_rules k g (rules_json rs) = Inr (rs, [])"
proof -
  have S: "known_kind k" "length rs \<le> MAX_RULES" "distinct (map r_id rs)" "sorted (map rule_key rs)"
    "list_all (rule_sound k g) rs" "cross_ok k g rs" "trigger_problems g rs = []"
    "k = Child_window \<longrightarrow> child_problems g rs = Inr []"
    using assms by (auto simp: rules_sound_def)
  let ?js = "map (\<lambda>r. JObj (rule_fields r)) rs"
  have "fold_res (check_rule k g) ([], [], []) (zip [0..<length ?js] ?js) = Inr ([], rev (map r_id rs) @ [], [] @ rs)"
    by (rule rules_loop_stored) (use S in auto)
  then show ?thesis using S
    by (simp add: validate_rules_def rules_json_def Let_def cross_problems_Nil sort_key_id_if_sorted)
      (cases "k = Child_window"; simp)
qed

section \<open>Neighbours apart, all apart\<close>

lemma neighbours_nth:
  assumes "iv \<noteq> []" "i < length iv"
  shows "neighbours iv ! i = (iv ! i,
    if Suc i < length iv then (fst (iv ! Suc i), snd (snd (iv ! Suc i)))
    else (fst (iv ! 0) + WEEK, snd (snd (iv ! 0))))"
proof -
  obtain x xs where iv: "iv = x # xs" using assms(1) by (cases iv) auto
  show ?thesis
  proof (cases "Suc i < length iv")
    case True
    then have "i < length xs" by (simp add: iv)
    then show ?thesis using True by (auto simp: neighbours_def iv nth_append split: prod.splits)
  next
    case False
    then have "i = length xs" using assms(2) by (simp add: iv)
    then show ?thesis by (simp add: neighbours_def iv nth_append)
  qed
qed

lemma length_neighbours [simp]: "length (neighbours iv) = length iv"
  by (cases iv) (auto simp: neighbours_def)

lemma check_pair_Nil: "check_pair gap ((s, e, i), (ns, ni)) = [] \<longleftrightarrow> e \<le> ns \<and> e + gap \<le> ns"
  by (auto simp: check_pair_def)

text \<open>
  The code compares each interval with the next one only.  For sorted intervals that suffices:
  every earlier interval ends at least \<open>gap\<close> before every later one starts, also around
  the end of the week.
\<close>

lemma sorted_starts: "sorted iv \<Longrightarrow> i \<le> j \<Longrightarrow> j < length iv \<Longrightarrow> fst (iv ! i) \<le> fst (iv ! j)"
  for iv :: "interval list"
  by (drule (2) sorted_nth_mono) (auto simp: less_eq_prod_def)

lemma neighbours_apart:
  assumes srt: "sorted (iv :: interval list)" and ok: "list_all (\<lambda>x. check_pair gap x = []) (neighbours iv)"
    and ij: "i < j" "j < length iv"
  shows "fst (snd (iv ! i)) + gap \<le> fst (iv ! j)" "fst (snd (iv ! i)) \<le> fst (iv ! j)"
proof -
  have "iv \<noteq> []" using ij by auto
  then have "neighbours iv ! i = (iv ! i, (fst (iv ! Suc i), snd (snd (iv ! Suc i))))"
    using neighbours_nth [of iv i] ij by simp
  moreover have "check_pair gap (neighbours iv ! i) = []"
    using ok ij by (simp add: list_all_length)
  moreover obtain s e x where "iv ! i = (s, e, x)" by (metis prod_cases3)
  ultimately have "fst (snd (iv ! i)) \<le> fst (iv ! Suc i) \<and> fst (snd (iv ! i)) + gap \<le> fst (iv ! Suc i)"
    by (simp add: check_pair_Nil)
  moreover have "fst (iv ! Suc i) \<le> fst (iv ! j)" using srt ij by (intro sorted_starts) auto
  ultimately show "fst (snd (iv ! i)) + gap \<le> fst (iv ! j)" "fst (snd (iv ! i)) \<le> fst (iv ! j)" by auto
qed

lemma neighbours_wrap:
  assumes srt: "sorted (iv :: interval list)" and ok: "list_all (\<lambda>x. check_pair gap x = []) (neighbours iv)"
    and ne: "iv \<noteq> []" and len: "\<forall>x\<in>set iv. fst x \<le> fst (snd x)" and "0 \<le> gap"
    and ij: "i < length iv" "j < length iv"
  shows "fst (snd (iv ! i)) + gap \<le> fst (iv ! j) + WEEK"
proof -
  define l where "l = length iv - 1"
  have l: "l < length iv" "\<not> Suc l < length iv" using ne by (simp_all add: l_def)
  have "neighbours iv ! l = (iv ! l, (fst (iv ! 0) + WEEK, snd (snd (iv ! 0))))"
    using neighbours_nth [OF ne l(1)] l(2) by simp
  moreover have "check_pair gap (neighbours iv ! l) = []" using ok l by (simp add: list_all_length)
  moreover obtain s e x where "iv ! l = (s, e, x)" by (metis prod_cases3)
  ultimately have last: "fst (snd (iv ! l)) + gap \<le> fst (iv ! 0) + WEEK" by (simp add: check_pair_Nil)
  have "fst (snd (iv ! i)) \<le> fst (snd (iv ! l))"
  proof (cases "i = l")
    case False
    then have "i < l" using ij l_def by simp
    then have "fst (snd (iv ! i)) \<le> fst (iv ! l)" using neighbours_apart(2) [OF srt ok] l(1) by blast
    also have "\<dots> \<le> fst (snd (iv ! l))" using len l(1) by simp
    finally show ?thesis .
  qed simp
  moreover have "fst (iv ! 0) \<le> fst (iv ! j)" using srt ij by (intro sorted_starts) auto
  ultimately show ?thesis using last by linarith
qed

text \<open>In terms of the unsorted intervals: two different ones are apart.\<close>

lemma pairs_ok_apart:
  assumes ok: "pairs_ok gap iv" and xy: "x \<in> set iv" "y \<in> set iv" "x \<noteq> y"
  shows "fst (snd x) + gap \<le> fst y \<and> fst (snd x) \<le> fst y \<or> fst (snd y) + gap \<le> fst x \<and> fst (snd y) \<le> fst x"
proof -
  obtain i j where i: "i < length (sort iv)" "x = sort iv ! i" and j: "j < length (sort iv)" "y = sort iv ! j"
    using xy(1,2) by (metis in_set_conv_nth set_sort)
  have "i \<noteq> j" using xy(3) i j by auto
  then consider "i < j" | "j < i" by linarith
  then show ?thesis
    using neighbours_apart [OF sorted_sort ok [unfolded pairs_ok_def]] i j by cases metis+
qed

lemma pairs_ok_wrap:
  assumes ok: "pairs_ok gap iv" and xy: "x \<in> set iv" "y \<in> set iv"
    and len: "\<forall>x\<in>set iv. fst x \<le> fst (snd x)" and "0 \<le> gap"
  shows "fst (snd x) + gap \<le> fst y + WEEK"
proof -
  obtain i j where i: "i < length (sort iv)" "x = sort iv ! i" and j: "j < length (sort iv)" "y = sort iv ! j"
    using xy(1,2) by (metis in_set_conv_nth set_sort)
  have ne: "sort iv \<noteq> []" using i(1) by (metis list.size(3) less_nat_zero_code)
  show ?thesis unfolding i(2) j(2)
    by (rule neighbours_wrap [OF sorted_sort ok [unfolded pairs_ok_def] ne _ \<open>0 \<le> gap\<close> i(1) j(1)])
      (use len in simp)
qed

text \<open>The interval of a rule on a weekday, and where it lies.\<close>

definition day_interval :: "rule \<Rightarrow> int \<Rightarrow> interval" where
  "day_interval r d = ((d - 1) * 1440 + start_of r, (d - 1) * 1440 + end_of r, r_id r)"

lemma group_intervals_mem:
  "r \<in> set rs \<Longrightarrow> d \<in> set (r_days r) \<Longrightarrow> grp \<in> set (rule_groups k r)
   \<Longrightarrow> day_interval r d \<in> set (group_intervals k rs grp)"
  by (auto simp: group_intervals_def rule_intervals_def day_interval_def intro!: bexI [of _ r])

lemma rule_sound_times:
  assumes "rule_sound k g r"
  shows "0 \<le> start_of r" "start_of r < 1440" "start_of r \<le> end_of r" "end_of r \<le> 1440"
    and "k = Plug \<or> k = Child_window \<Longrightarrow> start_of r < end_of r" "k = Plug \<Longrightarrow> end_of r < 1440"
    and "k \<noteq> Plug \<Longrightarrow> k \<noteq> Child_window \<Longrightarrow> end_of r = start_of r"
    and "\<not> dst_forbidden (start_of r)" "\<not> dst_forbidden (end_of r)"
proof -
  obtain s where s: "parse_hhmm_str False (r_start r) = Some s" "start_of r = s" "\<not> dst_forbidden s"
    and w: "window_sound k r" using assms by (auto simp: rule_sound_def start_of_def)
  have sr: "0 \<le> s" "s < 1440" using parse_hhmm_str_range [OF s(1)] by auto
  have "start_of r \<le> end_of r \<and> end_of r \<le> 1440 \<and> (k = Plug \<or> k = Child_window \<longrightarrow> start_of r < end_of r)
      \<and> (k = Plug \<longrightarrow> end_of r < 1440) \<and> (k \<noteq> Plug \<longrightarrow> k \<noteq> Child_window \<longrightarrow> end_of r = start_of r)
      \<and> \<not> dst_forbidden (end_of r)"
  proof (cases "k = Plug \<or> k = Child_window")
    case True
    then obtain t x where t: "r_end r = Some t" "parse_hhmm_str (k = Child_window) t = Some x"
      using w by (auto simp: window_sound_def split: option.splits)
    have "end_of r = x" using t by (rule end_of_window)
    then show ?thesis using parse_hhmm_str_range [OF t(2)] True w by (auto simp: window_sound_def)
  next
    case False
    then show ?thesis using w s sr by (auto simp: window_sound_def end_of_def)
  qed
  then show "0 \<le> start_of r" "start_of r < 1440" "start_of r \<le> end_of r" "end_of r \<le> 1440"
    and "k = Plug \<or> k = Child_window \<Longrightarrow> start_of r < end_of r" "k = Plug \<Longrightarrow> end_of r < 1440"
    and "k \<noteq> Plug \<Longrightarrow> k \<noteq> Child_window \<Longrightarrow> end_of r = start_of r"
    and "\<not> dst_forbidden (start_of r)" "\<not> dst_forbidden (end_of r)"
    using s sr by auto
qed

text \<open>
  Two windows of one group, of different rules or on different weekdays, are at least the minimum
  gap apart, in the week and around its end.
\<close>

lemma sound_windows_apart:
  assumes S: "rules_sound k g rs" and r: "r \<in> set rs" "q \<in> set rs"
    and d: "d \<in> set (r_days r)" "c \<in> set (r_days q)" and grp: "grp \<in> set (rule_groups k r)" "grp \<in> set (rule_groups k q)"
    and ne: "r \<noteq> q \<or> d \<noteq> c"
  defines "x \<equiv> (d - 1) * 1440" and "y \<equiv> (c - 1) * 1440"
  shows "x + end_of r + max 0 (gap_of g) \<le> y + start_of q
       \<or> y + end_of q + max 0 (gap_of g) \<le> x + start_of r"
proof -
  have dist: "distinct (map r_id rs)" and cross: "cross_ok k g rs"
    using S by (auto simp: rules_sound_def)
  have "grp \<in> set (group_names k rs)" using r(1) grp(1) by (auto simp: set_group_names)
  then have ok: "pairs_ok (gap_of g) (group_intervals k rs grp)"
    using cross by (simp add: cross_ok_def list_all_iff)
  have "day_interval r d \<noteq> day_interval q c"
  proof (cases "r = q")
    case True
    then show ?thesis using ne by (auto simp: day_interval_def)
  next
    case False
    then have "r_id r \<noteq> r_id q" using dist r by (metis distinct_map inj_onD)
    then show ?thesis by (auto simp: day_interval_def)
  qed
  from pairs_ok_apart [OF ok group_intervals_mem [OF r(1) d(1) grp(1)] group_intervals_mem [OF r(2) d(2) grp(2)] this]
  show ?thesis by (auto simp: day_interval_def x_def y_def max_def)
qed

text \<open>On one weekday: the windows themselves are apart.\<close>

lemma sound_windows_same_day:
  assumes "rules_sound k g rs" "r \<in> set rs" "q \<in> set rs" "d \<in> set (r_days r)" "d \<in> set (r_days q)"
    "grp \<in> set (rule_groups k r)" "grp \<in> set (rule_groups k q)" "r \<noteq> q"
  shows "end_of r + max 0 (gap_of g) \<le> start_of q \<or> end_of q + max 0 (gap_of g) \<le> start_of r"
  using sound_windows_apart [OF assms(1-7)] assms(8) by auto

section \<open>Merged minutes\<close>

text \<open>
  The loop that totals the open minutes of a day counts every minute once, however the windows
  overlap.
\<close>

definition covered :: "(int \<times> int) list \<Rightarrow> int set" where
  "covered iv = (\<Union>(s, e)\<in>set iv. {s..<e})"

lemma covered_simps [simp]:
  "covered [] = {}"
  "covered ((s, e) # iv) = {s..<e} \<union> covered iv"
  by (auto simp: covered_def)

lemma covered_lower: "\<forall>x\<in>set iv. s \<le> fst x \<Longrightarrow> covered iv \<subseteq> {s..}"
  by (auto simp: covered_def)

lemma finite_covered [simp]: "finite (covered iv)"
  by (auto simp: covered_def)

lemma merge_minutes_Some:
  assumes "sorted ((cs, ce) # iv)" "cs \<le> ce" "\<forall>x\<in>set iv. fst x \<le> snd x"
    and "\<forall>x\<in>set iv. cs \<le> fst x"
  shows "merge_minutes acc (Some (cs, ce)) iv = acc + int (card ({cs..<ce} \<union> covered iv))"
  using assms
proof (induction iv arbitrary: acc cs ce)
  case Nil
  then show ?case by simp
next
  case (Cons x iv)
  obtain s e where x: "x = (s, e)" by (cases x)
  have se: "cs \<le> s" "s \<le> e" using Cons.prems x by auto
  have srt: "sorted ((s, e) # iv)" using Cons.prems(1) x by simp
  have low: "\<forall>y\<in>set iv. s \<le> fst y" using srt by (auto simp: less_eq_prod_def)
  have len: "\<forall>y\<in>set iv. fst y \<le> snd y" using Cons.prems(3) by simp
  show ?case
  proof (cases "s > ce")
    case True
    have "merge_minutes (acc + (ce - cs)) (Some (s, e)) iv
        = acc + (ce - cs) + int (card ({s..<e} \<union> covered iv))"
      using Cons.IH [OF srt se(2) len low] .
    moreover have "{cs..<ce} \<inter> ({s..<e} \<union> covered iv) = {}"
      using covered_lower [OF low] True by auto
    then have "card ({cs..<ce} \<union> ({s..<e} \<union> covered iv)) = nat (ce - cs) + card ({s..<e} \<union> covered iv)"
      by (simp add: card_Un_disjoint)
    ultimately show ?thesis using True Cons.prems(2) by (simp add: x)
  next
    case False
    have "sorted ((cs, max ce e) # iv)"
    proof -
      have "(cs, max ce e) \<le> y" if "y \<in> set iv" for y
      proof (cases "cs = fst y")
        case True
        then have "cs = s" using low se that by auto
        then have "(s, e) \<le> y" "(cs, ce) \<le> y" using srt Cons.prems(1) that by auto
        then show ?thesis using True \<open>cs = s\<close> by (cases y) (auto simp: less_eq_prod_def max_def)
      next
        case False
        then show ?thesis using Cons.prems(4) that by (cases y) (auto simp: less_eq_prod_def)
      qed
      then show ?thesis using srt by simp
    qed
    then have "merge_minutes acc (Some (cs, max ce e)) iv = acc + int (card ({cs..<max ce e} \<union> covered iv))"
      using Cons.prems len by (intro Cons.IH) auto
    moreover have "{cs..<max ce e} = {cs..<ce} \<union> {s..<e}" using False se Cons.prems(2) by (auto simp: max_def)
    ultimately show ?thesis using False by (simp add: x Un_assoc)
  qed
qed

lemma merge_minutes_card:
  assumes "\<forall>x\<in>set iv. fst x \<le> snd x"
  shows "merge_minutes 0 None (sort iv) = int (card (covered iv))"
proof (cases "sort iv")
  case Nil
  then have "iv = []" by (metis set_empty set_sort)
  then show ?thesis by simp
next
  case (Cons x xs)
  obtain s e where x: "x = (s, e)" by (cases x)
  have "sorted ((s, e) # xs)" using Cons x by (metis sorted_sort)
  moreover have "set ((s, e) # xs) = set iv" using Cons x by (metis set_sort)
  moreover have "s \<le> e" using assms \<open>set ((s, e) # xs) = set iv\<close> by fastforce
  ultimately have "merge_minutes 0 (Some (s, e)) xs = 0 + int (card ({s..<e} \<union> covered xs))"
    using assms by (intro merge_minutes_Some) (auto simp: less_eq_prod_def)
  moreover have "covered iv = {s..<e} \<union> covered xs"
    using \<open>set ((s, e) # xs) = set iv\<close> by (auto simp: covered_def)
  ultimately show ?thesis by (simp add: Cons x)
qed

end
