(* ===== verification/Sched_Edges.thy ===== *)
theory Sched_Edges
  imports Sched_Rules_Props
begin

text \<open>
  \<open>portal/schedules/sched/model.py\<close>, second half: exceptions (skipped dates), the edges of a
  schedule, the state it asks for at a time, and the next edge.  Dates are ordinals, times are the
  \<open>dtime\<close> values of \<open>Py_Time\<close>; the actions keep the source's strings because edges at
  the same minute are ordered by them.
\<close>

section \<open>Entities and exceptions\<close>

record entity =
  e_id :: string
  e_kind :: kind
  e_name :: string
  e_ha_target :: "string option"
  e_managed :: bool
  e_flags :: flags
  e_guardrails :: guardrails
  e_meta :: "(string \<times> json) list"

text \<open>\<open>validate_exception\<close>: the only kind is \<open>skip_date\<close>; the result is its date.\<close>

definition validate_exception :: "(string \<times> json) list \<Rightarrow> int \<Rightarrow> int option \<times> problem list" where
  "validate_exception body today =
     (let unk = map (\<lambda>k. prob ''unknown_key'' k (''unknown field '' @ quoted k))
                  (filter (\<lambda>k. k \<notin> {''kind'', ''entity_id'', ''date''}) (jkeys body))
      in if jget body ''kind'' = JStr ''skip_date'' then
           (case parse_date (jget body ''date'') of
              None \<Rightarrow> (None, unk @ [prob ''format'' ''date'' ''date must be YYYY-MM-DD''])
            | Some d \<Rightarrow>
                if d < today then (None, unk @ [prob ''past'' ''date'' ''that date is already past''])
                else if d > today + 366
                  then (None, unk @ [prob ''far'' ''date'' ''a skipped date is limited to one year ahead''])
                else (Some d, unk))
         else (None, unk @ [prob ''kind'' ''kind'' ''kind must be skip_date'']))"

text \<open>An exception as the model reads it: its kind and its date.\<close>

record exception =
  x_kind :: string
  x_date :: "int option"

definition skip_dates :: "exception list \<Rightarrow> int list" where
  "skip_dates xs = List.map_filter (\<lambda>x. if x_kind x = ''skip_date'' then x_date x else None) xs"

section \<open>Edges\<close>

type_synonym edge = "int \<times> string \<times> string" \<comment> \<open>minute, action, rule id\<close>

definition rule_edges :: "kind \<Rightarrow> bool \<Rightarrow> rule \<Rightarrow> edge list" where
  "rule_edges k skipped r =
     (if k = Plug then (if skipped then [] else [(start_of r, ''on'', r_id r)]) @ [(end_of r, ''off'', r_id r)]
      else if k = Vacuum_plan \<and> \<not> skipped then [(start_of r, ''trigger'', r_id r)]
      else [])"

definition rules_on :: "rule list \<Rightarrow> int \<Rightarrow> rule list" where
  "rules_on rules d = filter (\<lambda>r. isoweekday d \<in> set (r_days r)) rules"

definition day_edges :: "kind \<Rightarrow> rule list \<Rightarrow> int \<Rightarrow> int list \<Rightarrow> edge list" where
  "day_edges k rules d skips =
     sort (concat (map (rule_edges k (d \<in> set skips)) (rules_on rules d)))"

definition timed_edges :: "kind \<Rightarrow> rule list \<Rightarrow> int list \<Rightarrow> int \<Rightarrow> (dtime \<times> string \<times> string) list" where
  "timed_edges k rules skips d = map (\<lambda>(m, a, i). (at_minute d m, a, i)) (day_edges k rules d skips)"

definition edges_between :: "kind \<Rightarrow> rule list \<Rightarrow> dtime \<Rightarrow> dtime \<Rightarrow> int list \<Rightarrow> (dtime \<times> string \<times> string) list" where
  "edges_between k rules start end skips =
     (let d0 = date_of (astimezone start) - 1; d1 = date_of (astimezone end) + 1
      in sort_key (\<lambda>(t, a, i). (wall t, a, i))
           (filter (\<lambda>(t, a, i). dt_le start t \<and> dt_less t end)
              (concat (map (timed_edges k rules skips) [d0..d1]))))"

definition in_window :: "rule \<Rightarrow> int \<Rightarrow> bool" where
  "in_window r t \<longleftrightarrow> start_of r \<le> t \<and> t < end_of r"

definition target_state :: "kind \<Rightarrow> rule list \<Rightarrow> dtime \<Rightarrow> int list \<Rightarrow> string option" where
  "target_state k rules at skips =
     (if k \<noteq> Plug then None
      else let at = astimezone at in
        if date_of at \<in> set skips then Some ''off''
        else if list_ex (\<lambda>r. isoweekday (date_of at) \<in> set (r_days r) \<and> in_window r (minute_of_day at)) rules
        then Some ''on'' else Some ''off'')"

definition next_edge :: "kind \<Rightarrow> rule list \<Rightarrow> dtime \<Rightarrow> int list \<Rightarrow> (dtime \<times> string \<times> string) option" where
  "next_edge k rules at skips =
     (let at = astimezone at
      in find (\<lambda>(t, a, i). dt_less at t) (edges_between k rules at (dt_add at (9 * 86400)) skips))"

record effective_view =
  v_entity :: string
  v_at :: dtime
  v_state :: "string option"
  v_skipped_today :: bool
  v_next_edge :: "(dtime \<times> string \<times> string) option"

definition effective :: "entity \<Rightarrow> rule list \<Rightarrow> exception list \<Rightarrow> dtime \<Rightarrow> effective_view" where
  "effective ent rules exceptions at =
     (let at = astimezone at; skips = skip_dates exceptions
      in \<lparr>v_entity = e_id ent, v_at = at, v_state = target_state (e_kind ent) rules at skips,
          v_skipped_today = (date_of at \<in> set skips),
          v_next_edge = next_edge (e_kind ent) rules at skips\<rparr>)"

section \<open>Replaying the edges of a day\<close>

text \<open>The plug's state at minute \<open>t\<close> when the edges of the day are carried out in order.\<close>

definition replay :: "edge list \<Rightarrow> int \<Rightarrow> string" where
  "replay es t = foldl (\<lambda>st (m, a, i). a) ''off'' (filter (\<lambda>(m, a, i). m \<le> t) es)"

lemma foldl_last_action:
  "foldl (\<lambda>st (m, a, i). a) z xs = (if xs = [] then z else fst (snd (last xs)))"
  by (induction xs rule: rev_induct) auto

lemma sorted_last_ge: "sorted xs \<Longrightarrow> x \<in> set xs \<Longrightarrow> x \<le> last xs"
  by (induction xs rule: rev_induct) (auto simp: sorted_append)

text \<open>An edge with nothing later up to \<open>t\<close> decides the state.\<close>

lemma replay_max:
  assumes e: "(m, a, i) \<in> set es" "m \<le> t" and srt: "sorted es"
    and max: "\<And>x. x \<in> set es \<Longrightarrow> fst x \<le> t \<Longrightarrow> x \<le> (m, a, i)"
  shows "replay es t = a"
proof -
  let ?fs = "filter (\<lambda>(m, a, i). m \<le> t) es"
  have mem: "(m, a, i) \<in> set ?fs" using e by auto
  then have ne: "?fs \<noteq> []" by (metis empty_iff list.set(1))
  then have "last ?fs \<in> set ?fs" by (rule last_in_set)
  then have "last ?fs \<le> (m, a, i)" using max by fastforce
  moreover have "(m, a, i) \<le> last ?fs"
    using mem srt by (intro sorted_last_ge) (simp_all add: sorted_wrt_filter)
  ultimately have "last ?fs = (m, a, i)" by (rule order.antisym)
  moreover have "replay es t = fst (snd (last ?fs))"
    unfolding replay_def foldl_last_action using ne by (simp only: if_False)
  ultimately show ?thesis by simp
qed

lemma replay_empty: "(\<And>x. x \<in> set es \<Longrightarrow> \<not> fst x \<le> t) \<Longrightarrow> replay es t = ''off''"
proof -
  assume "\<And>x. x \<in> set es \<Longrightarrow> \<not> fst x \<le> t"
  then have "filter (\<lambda>(m, a, i). m \<le> t) es = []" by (auto simp: filter_empty_conv)
  then show ?thesis by (simp add: replay_def)
qed

lemma plug_edges_mem:
  "(m, a, i) \<in> set (day_edges Plug rules d skips) \<longleftrightarrow>
     (\<exists>r\<in>set (rules_on rules d). i = r_id r \<and>
        (a = ''on'' \<and> m = start_of r \<and> d \<notin> set skips \<or> a = ''off'' \<and> m = end_of r))"
  by (auto simp: day_edges_def rule_edges_def)

lemma on_off_order: "(''off'' :: string) < ''on''"
  by (simp add: less_char_def)

lemma edge_leI: "m < n \<or> (m = n \<and> a < b) \<or> (m, a, i) = (n, b, j) \<Longrightarrow> (m, a, i) \<le> (n, b, j :: string)"
  for m n :: int and a b i j :: string
  by (auto simp: less_eq_prod_def less_prod_def)

text \<open>
  For an accepted plug schedule, carrying out the edges of a date reproduces the reconcile rule: ON
  exactly inside a window, also where one window starts at the minute another one ends.
\<close>

lemma replay_on:
  assumes S: "rules_sound Plug g rules" and r: "r \<in> set (rules_on rules d)" and skip: "d \<notin> set skips"
    and t: "start_of r \<le> t" "t < end_of r"
  shows "replay (day_edges Plug rules d skips) t = ''on''"
proof (rule replay_max)
  show "(start_of r, ''on'', r_id r) \<in> set (day_edges Plug rules d skips)"
    using r skip by (auto simp: plug_edges_mem)
  show "start_of r \<le> t" by fact
  show "sorted (day_edges Plug rules d skips)" by (simp add: day_edges_def)
  fix x assume x: "x \<in> set (day_edges Plug rules d skips)" "fst x \<le> t"
  obtain m a i where xe: "x = (m, a, i)" by (cases x)
  obtain q where q: "q \<in> set (rules_on rules d)" "i = r_id q"
    "a = ''on'' \<and> m = start_of q \<or> a = ''off'' \<and> m = end_of q"
    using x(1) by (auto simp: xe plug_edges_mem)
  have rq: "r \<in> set rules" "q \<in> set rules" "isoweekday d \<in> set (r_days r)" "isoweekday d \<in> set (r_days q)"
    using r q(1) by (auto simp: rules_on_def)
  have len: "start_of q < end_of q"
    using S rq(2) by (auto simp: rules_sound_def list_all_iff intro: rule_sound_times(5))
  show "x \<le> (start_of r, ''on'', r_id r)"
  proof (cases "q = r")
    case True
    then show ?thesis using q(3) x(2) t q(2) by (auto simp: xe)
  next
    case False
    then have "end_of r \<le> start_of q \<or> end_of q \<le> start_of r"
      using sound_windows_same_day [OF S rq(1,2,3,4), of "[]"] by (auto simp: rule_groups_def max_def split: if_splits)
    then show ?thesis unfolding xe
      using q(3) x(2) t len on_off_order by (intro edge_leI) (auto simp: xe)
  qed
qed

lemma replay_off:
  assumes S: "rules_sound Plug g rules"
    and out: "d \<in> set skips \<or> (\<forall>r\<in>set (rules_on rules d). \<not> in_window r t)"
  shows "replay (day_edges Plug rules d skips) t = ''off''"
proof -
  let ?es = "day_edges Plug rules d skips"
  have srt: "sorted ?es" by (simp add: day_edges_def)
  show ?thesis
  proof (cases "\<exists>x\<in>set ?es. fst x \<le> t")
    case False
    then show ?thesis by (intro replay_empty) auto
  next
    case True
    let ?fs = "filter (\<lambda>x. fst x \<le> t) ?es"
    have ne: "?fs \<noteq> []" using True by (auto simp: filter_empty_conv)
    obtain m a i where l: "last ?fs = (m, a, i)" by (cases "last ?fs")
    have mem: "(m, a, i) \<in> set ?es" "m \<le> t" using last_in_set [OF ne] l by auto
    have max: "x \<le> (m, a, i)" if "x \<in> set ?es" "fst x \<le> t" for x
    proof -
      have "x \<le> last ?fs" using that srt by (intro sorted_last_ge sorted_wrt_filter) auto
      then show ?thesis by (simp add: l)
    qed
    have "replay ?es t = a" using mem srt max by (rule replay_max)
    moreover have "a = ''off''"
    proof (rule ccontr)
      assume "a \<noteq> ''off''"
      then obtain r where r: "r \<in> set (rules_on rules d)" "i = r_id r" "m = start_of r" "d \<notin> set skips" "a = ''on''"
        using mem(1) by (auto simp: plug_edges_mem)
      then have "\<not> in_window r t" using out by auto
      then have et: "end_of r \<le> t" using mem(2) r(3) by (auto simp: in_window_def)
      have "r \<in> set rules" using r(1) by (simp add: rules_on_def)
      then have "start_of r < end_of r"
        using S by (auto simp: rules_sound_def list_all_iff intro: rule_sound_times(5))
      moreover have "(end_of r, ''off'', r_id r) \<in> set ?es" using r by (auto simp: plug_edges_mem)
      then have "(end_of r, ''off'', r_id r) \<le> (m, a, i)" using max et by force
      then have "end_of r \<le> start_of r" using r(3) by (auto simp: less_eq_prod_def)
      ultimately show False by simp
    qed
    ultimately show ?thesis by simp
  qed
qed

end
