(* ===== verification/Sched_Runs.thy ===== *)
theory Sched_Runs
  imports Sched_Edges
begin

text \<open>
  \<open>portal/schedules/sched/model.py\<close>, last part: timed runs of a plug and the children's policy
  (exceptions, open intervals, status of a device).  A run and an exception either fit and give their
  end, or give the problems; nothing is clamped.
\<close>

section \<open>Timed runs\<close>

definition RUN_GRACE_S :: int where "RUN_GRACE_S = 20 * 60"

definition RUN_MIN_REMAINING_S :: int where "RUN_MIN_REMAINING_S = 90"

text \<open>The next whole minute at or after a time.\<close>

definition ceil_minute :: "dtime \<Rightarrow> dtime" where
  "ceil_minute t = (if wall t mod 60 = 0 then t else dt_add t (60 - wall t mod 60))"

definition window_label :: "rule \<Rightarrow> string" where
  "window_label r = r_start r @ ''-'' @ (case r_end r of None \<Rightarrow> ''None'' | Some e \<Rightarrow> e)"

definition overlap_dates :: "dtime \<Rightarrow> dtime \<Rightarrow> int list" where
  "overlap_dates start end = remdups [date_of (astimezone start), date_of (astimezone end)]"

definition overlaps_on :: "rule \<Rightarrow> int \<Rightarrow> dtime \<Rightarrow> dtime \<Rightarrow> bool" where
  "overlaps_on r d start end \<longleftrightarrow>
     dt_less (at_minute d (start_of r)) end \<and> dt_less start (at_minute d (end_of r))"

definition window_overlaps :: "rule list \<Rightarrow> int list \<Rightarrow> dtime \<Rightarrow> dtime \<Rightarrow> string list" where
  "window_overlaps rules skips start end =
     concat (map (\<lambda>d. if d \<in> set skips then []
       else map window_label (filter (\<lambda>r. overlaps_on r d start end) (rules_on rules d)))
       (overlap_dates start end))"

text \<open>\<open>round(s / 60.0)\<close>: the nearest minute, the even one of two.\<close>

definition round_minutes :: "int \<Rightarrow> int" where
  "round_minutes s = (let q = s div 60; r = s mod 60
     in if r < 30 then q else if r > 30 then q + 1 else if even q then q else q + 1)"

definition run_max_on :: "bool \<Rightarrow> guardrails \<Rightarrow> int \<Rightarrow> problem list" where
  "run_max_on extending g secs = (case g_max_on_minutes g of None \<Rightarrow> []
     | Some mx \<Rightarrow> if secs > 60 * mx then [prob ''max_on'' ''minutes''
         (if extending
          then ''the run would last '' @ str_int (round_minutes secs) @ '' min in total counted from its real start, the guardrail max_on_minutes is '' @ str_int mx
          else str_int (round_minutes secs) @ '' min run (ending on a whole minute) exceeds the guardrail max_on_minutes '' @ str_int mx)]
       else [])"

definition run_range :: "guardrails \<Rightarrow> dtime \<Rightarrow> dtime \<Rightarrow> problem list" where
  "run_range g ls le =
     (if date_of ls \<noteq> date_of le
      then [prob ''allowed_range'' ''minutes'' ''a run must end on the day it started'']
      else let sm = minute_of_day ls; em = minute_of_day le in
        (case opt_hhmm (g_allowed_from g) of None \<Rightarrow> []
         | Some lo \<Rightarrow> if sm < lo then [prob ''allowed_range'' ''start''
             (fmt_hhmm sm @ '' is before the allowed range start '' @ the (g_allowed_from g))] else [])
        @ (case opt_hhmm (g_allowed_to g) of None \<Rightarrow> []
           | Some hi \<Rightarrow> if em > hi then [prob ''allowed_range'' ''minutes''
               (''the run would end at '' @ fmt_hhmm em @ '', after the allowed range end '' @ the (g_allowed_to g))] else [])
        @ (if dst_forbidden sm \<or> dst_forbidden em
           then [prob ''dst_ambiguous'' ''minutes'' ''a run may not start or end inside 02:00-03:59''] else []))"

definition run_gap :: "bool \<Rightarrow> guardrails \<Rightarrow> dtime \<Rightarrow> dtime option \<Rightarrow> problem list" where
  "run_gap extending g started_at previous_end =
     (case (previous_end, g_min_gap_minutes g) of
        (Some p, Some m) \<Rightarrow>
          if \<not> extending \<and> dt_sub started_at p < 60 * m
          then [prob ''min_gap'' ''start'' (''the previous run ended '' @ str_int (max 0 (dt_sub started_at p div 60))
                  @ '' min ago, the guardrail min_gap_minutes is '' @ str_int m)]
          else []
      | _ \<Rightarrow> [])"

text \<open>
  \<open>minutes\<close> is the request's value; \<open>real_start\<close> is given for an extension, whose
  \<open>started_at\<close> is the old end.
\<close>

definition validate_run :: "entity \<Rightarrow> rule list \<Rightarrow> int list \<Rightarrow> json \<Rightarrow> dtime \<Rightarrow> dtime option \<Rightarrow> dtime option
    \<Rightarrow> dtime option \<times> problem list" where
  "validate_run ent rules skips minutes started_at previous_end real_start =
     (let g = e_guardrails ent in
      if e_kind ent \<noteq> Plug then (None, [prob ''kind'' ''entity'' ''timed runs apply to plugs only''])
      else
        let p0 = (if e_managed ent then [] else [prob ''not_managed'' ''entity''
                    ''the plug is not managed by the schedule service: its end could not be enforced in Home Assistant'']);
            bad = (None, p0 @ [prob ''range'' ''minutes'' ''minutes must be a whole number of minutes, 1 or more''])
        in case minutes of
             JInt n \<Rightarrow>
               if n < 1 \<or> n > 1440 then bad
               else
                 let extending = (real_start \<noteq> None);
                     first = (case real_start of None \<Rightarrow> started_at | Some t \<Rightarrow> t);
                     ends_at = ceil_minute (dt_add started_at (60 * n));
                     ls = astimezone first; le = astimezone ends_at;
                     over = window_overlaps rules skips first ends_at;
                     probs = p0 @ run_max_on extending g (dt_sub ends_at first)
                       @ run_range g ls le @ run_gap extending g started_at previous_end
                       @ (if over = [] then [] else [prob ''window_overlap'' ''minutes''
                           (''the run '' @ fmt_hhmm (minute_of_day ls) @ ''-'' @ fmt_hhmm (minute_of_day le)
                            @ '' overlaps the scheduled window '' @ join_with '', '' (sorted_set over)
                            @ ''; start after it or shorten the run'')])
                 in (if probs = [] then Some ends_at else None, probs)
           | _ \<Rightarrow> bad)"

section \<open>The children's policy\<close>

text \<open>\<open>datetime\<close> arithmetic past the year 9999 (or with more than 999999999 days) raises.\<close>

definition MAX_WALL :: int where "MAX_WALL = 3652060 * 86400"

definition dt_add_checked :: "dtime \<Rightarrow> int \<Rightarrow> py_exn + dtime" where
  "dt_add_checked t s = (if 86400 \<le> wall t + s \<and> wall t + s < MAX_WALL then Inr (dt_add t s)
     else Inl OverflowError)"

definition hhmm_clock :: "dtime \<Rightarrow> string" where
  "hhmm_clock t = fmt_hhmm (minute_of_day t)"

text \<open>\<open>now.replace(hour=m // 60, minute=m % 60, second=0)\<close>, the fold bit kept.\<close>

fun replace_minute :: "dtime \<Rightarrow> int \<Rightarrow> dtime" where
  "replace_minute (Fixed w off) m = Fixed (w div 86400 * 86400 + m * 60) off"
| "replace_minute (Prague w f) m = Prague (w div 86400 * 86400 + m * 60) f"

definition exception_latest :: "guardrails \<Rightarrow> string \<Rightarrow> int" where
  "exception_latest g target =
     (case (if target = ''all'' then g_all_latest_end g else g_exception_latest_end g) of
        None \<Rightarrow> 1439 | Some t \<Rightarrow> the (parse_hhmm_str False t))"

definition validate_child_exception :: "guardrails \<Rightarrow> string \<Rightarrow> json \<Rightarrow> bool \<Rightarrow> dtime
    \<Rightarrow> py_exn + (dtime option \<times> problem list)" where
  "validate_child_exception g target minutes until_eod now0 =
     (if target \<in> set LEGACY_TARGETS then Inr (None, [prob ''maps_always_open'' ''target'' MAPS_ALWAYS_OPEN_MESSAGE])
      else if target \<notin> set EXCEPTION_TARGETS
      then Inr (None, [prob ''target'' ''target'' (''target must be one of '' @ join_with '', '' EXCEPTION_TARGETS)])
      else if until_eod \<and> minutes \<noteq> JNull
      then Inr (None, [prob ''both'' ''minutes'' ''give either minutes or until_end_of_day, not both''])
      else
        let now = astimezone now0; latest = exception_latest g target;
            latest_dt = replace_minute now latest
        in if until_eod then
             (if dt_le latest_dt (dt_add now 60)
              then Inr (None, [prob ''too_late'' ''until_end_of_day''
                     (''it is too late today: the latest end for this exception is '' @ fmt_hhmm latest)])
              else Inr (Some latest_dt, []))
           else case as_jint minutes of
             None \<Rightarrow> Inr (None, [prob ''range'' ''minutes'' ''minutes must be a whole number of minutes, 1 or more''])
           | Some n \<Rightarrow>
               if n < 1 then Inr (None, [prob ''range'' ''minutes'' ''minutes must be a whole number of minutes, 1 or more''])
               else bind_res (dt_add_checked now (60 * n)) (\<lambda>end.
                 let p1 = (case g_max_exception_minutes g of None \<Rightarrow> []
                       | Some mx \<Rightarrow> if n > mx then [prob ''max_exception'' ''minutes''
                           (''an exception may last at most '' @ str_int mx @ '' min, you asked for '' @ str_int n)] else []);
                     p2 = (if date_of end \<noteq> date_of now
                           then [prob ''midnight'' ''minutes'' ''an exception must end on the day it starts'']
                           else if dt_less latest_dt end
                           then [prob ''latest_end'' ''minutes'' (''it would end at '' @ hhmm_clock end
                                  @ '', the latest end for this exception is '' @ fmt_hhmm latest)]
                           else [])
                 in Inr (if p1 @ p2 = [] then Some end else None, p1 @ p2)))"

type_synonym open_interval = "dtime \<times> dtime \<times> string list"

definition rule_open_on :: "dtime \<Rightarrow> dtime \<Rightarrow> int \<Rightarrow> rule \<Rightarrow> open_interval list" where
  "rule_open_on start end d r =
     (let f = dt_add (Prague (d * 86400) False) (60 * start_of r);
          t = dt_add (Prague (d * 86400) False) (60 * end_of r)
      in if dt_less start t \<and> dt_less f end
         then [(py_max f start, py_min t end, sort (rule_opens r))] else [])"

definition child_open_intervals :: "rule list \<Rightarrow> dtime \<Rightarrow> dtime \<Rightarrow> open_interval list" where
  "child_open_intervals rules start end =
     (let d0 = date_of (astimezone start) - 1; d1 = date_of (astimezone end)
      in sort_key (\<lambda>(f, t, o'). (wall f, wall t, o'))
           (concat (map (\<lambda>d. concat (map (rule_open_on start end d) (rules_on rules d))) [d0..d1])))"

text \<open>An active exception as the status reads it: what it opens and until when.\<close>

type_synonym live_exception = "string \<times> dtime"

datatype child_state = Open | Restricted | Closed

record child_status_view =
  cs_state :: child_state
  cs_open_services :: "string list"
  cs_open_until :: "dtime option"
  cs_opens_at :: "dtime option"

definition is_gated :: "string list \<Rightarrow> bool" where
  "is_gated targets \<longleftrightarrow> list_ex (\<lambda>t. t \<in> set GATED_TARGETS) targets"

fun latest_time :: "dtime list \<Rightarrow> dtime option" where \<comment> \<open>\<open>max(ends)\<close>: the first of the latest\<close>
  "latest_time [] = None"
| "latest_time (t # ts) = Some (foldl py_max t ts)"

definition open_now :: "rule list \<Rightarrow> dtime \<Rightarrow> open_interval list" where
  "open_now rules now = filter (\<lambda>(f, t, o'). dt_le f now \<and> dt_less now t)
     (child_open_intervals rules now (dt_add now (2 * 86400)))"

definition opened_targets :: "rule list \<Rightarrow> live_exception list \<Rightarrow> dtime \<Rightarrow> string list" where
  "opened_targets rules exceptions now =
     concat (map (\<lambda>(f, t, o'). o') (open_now rules now))
     @ map fst (filter (\<lambda>(x, e). dt_less now e) exceptions)"

definition gated_open :: "string list \<Rightarrow> string list" where
  "gated_open opened = (if ''all'' \<in> set opened then GATED_TARGETS
     else filter (\<lambda>t. t \<in> set opened) GATED_TARGETS)"

definition state_of_gated :: "string list \<Rightarrow> child_state" where
  "state_of_gated gated = (if set gated = set GATED_TARGETS then Open
     else if gated \<noteq> [] then Restricted else Closed)"

definition child_status :: "rule list \<Rightarrow> live_exception list \<Rightarrow> dtime \<Rightarrow> child_status_view" where
  "child_status rules exceptions now0 =
     (let now = astimezone now0;
          opened = opened_targets rules exceptions now;
          ends = map (\<lambda>(f, t, o'). t) (filter (\<lambda>(f, t, o'). is_gated o') (open_now rules now))
            @ map snd (filter (\<lambda>(x, e). dt_less now e \<and> (x \<in> set GATED_TARGETS \<or> x = ''all'')) exceptions);
          st = state_of_gated (gated_open opened)
      in \<lparr>cs_state = st, cs_open_services = sorted_set opened,
          cs_open_until = (if st = Closed then None else latest_time ends),
          cs_opens_at = (if st = Open then None
            else map_option (\<lambda>(f, t, o'). f)
              (find (\<lambda>(f, t, o'). dt_less now f \<and> is_gated o')
                (child_open_intervals rules now (dt_add now (8 * 86400)))))\<rparr>)"

end
