(* ===== verification/HA_Render.thy ===== *)
theory HA_Render
  imports Sched_Edges Sched_Runs Json_Text Sha256
begin

text \<open>
  \<open>portal/schedules/sched/render.py\<close>: the Home Assistant configuration of the managed entities.
  Every automation and script is a JSON value, emitted as YAML; its alias carries the first eight
  digits of the hash of its body, and the fingerprint script that of all aliases.
\<close>

section \<open>YAML\<close>

definition HEADER :: string where
  "HEADER = ''# GENERATED by portal-schedules (Task 27) - do not edit; change the schedule through the API / schedctl.'' @ [newline]"

definition indent :: "nat \<Rightarrow> string" where
  "indent n = replicate (2 * n) (CHR '' '')"

definition nonempty_container :: "json \<Rightarrow> bool" where
  "nonempty_container v = (case v of JObj (kv # kvs) \<Rightarrow> True | JList (x # xs) \<Rightarrow> True | _ \<Rightarrow> False)"

text \<open>\<open>emit(v, indent, in_list)\<close>; the two list functions emit the lines of a container.\<close>

fun emit :: "json \<Rightarrow> nat \<Rightarrow> bool \<Rightarrow> string"
  and emit_items :: "(string \<times> json) list \<Rightarrow> nat \<Rightarrow> bool \<Rightarrow> string list"
  and emit_elems :: "json list \<Rightarrow> nat \<Rightarrow> string list" where
  "emit (JObj kvs) n in_list = (if kvs = [] then [CHR 0x7B, CHR 0x7D] else join_with [newline] (emit_items kvs n in_list))"
| "emit (JList xs) n in_list = (if xs = [] then ''[]'' else join_with [newline] (emit_elems xs n))"
| "emit v n in_list = scalar_text v"
| "emit_items [] n in_list = []"
| "emit_items ((k, v) # kvs) n in_list =
     ((if in_list then [] else indent n) @ k
       @ (if nonempty_container v then CHR '':'' # newline # emit v (n + 1) False else '': '' @ emit v (n + 1) False))
     # emit_items kvs n False"
| "emit_elems [] n = []"
| "emit_elems (x # xs) n =
     (indent n @ ''- '' @ (if nonempty_container x then lstrip_by is_space (emit x (n + 1) True) else emit x (n + 1) False))
     # emit_elems xs n"

section \<open>Items\<close>

definition h8 :: "json \<Rightarrow> string" where
  "h8 v = take 8 (sha256_hex (canon v))"

type_synonym fields = "(string \<times> json) list"

definition alias_of :: "string \<Rightarrow> string \<Rightarrow> string" where
  "alias_of label h = ''Sch '' @ label @ '' [sch '' @ h @ '']''"

definition ha_item :: "string \<Rightarrow> fields \<Rightarrow> fields \<times> string" where
  "ha_item label body =
     (let h = h8 (JObj body)
      in ((case map_of body ''id'' of None \<Rightarrow> [] | Some v \<Rightarrow> [(''id'', v)])
            @ [(''alias'', JStr (alias_of label h))] @ filter (\<lambda>(k, v). k \<noteq> ''id'') body, h))"

definition at_text :: "int \<Rightarrow> string" where
  "at_text m = str02 (m div 60) @ '':'' @ str02 (m mod 60) @ '':00''"

definition DAYS :: "string list" where
  "DAYS = [''mon'', ''tue'', ''wed'', ''thu'', ''fri'', ''sat'', ''sun'']"

definition day_name :: "int \<Rightarrow> string" where
  "day_name d = DAYS ! nat (d - 1)"

definition weekday_cond :: "int list \<Rightarrow> json list" where
  "weekday_cond days = (if length days = 7 then []
     else [JObj [(''condition'', JStr ''time''), (''weekday'', JList (map (\<lambda>d. JStr (day_name d)) days))]])"

definition braces :: "string \<Rightarrow> string" where \<comment> \<open>a Jinja expression\<close>
  "braces s = [CHR 0x7B, CHR 0x7B, CHR '' ''] @ s @ [CHR '' '', CHR 0x7D, CHR 0x7D]"

definition template :: "string \<Rightarrow> json" where
  "template s = JObj [(''condition'', JStr ''template''), (''value_template'', JStr (braces s))]"

definition date_list :: "int list \<Rightarrow> string" where
  "date_list skips = ''['' @ join_with '', '' (map quoted (sorted_set (map iso_date skips))) @ '']''"

definition skip_cond :: "int list \<Rightarrow> json list" where
  "skip_cond skips = (if skips = [] then [] else [template (''now().date().isoformat() not in '' @ date_list skips)])"

record ha_run =
  hr_id :: string
  hr_start_ts :: int
  hr_end_ts :: int

definition run_span :: "ha_run \<Rightarrow> string" where
  "run_span r = ''('' @ str_int (hr_start_ts r) @ '' <= now().timestamp() < '' @ str_int (hr_end_ts r) @ '')''"

definition run_spans :: "ha_run list \<Rightarrow> string" where
  "run_spans runs = join_with '' or '' (map run_span runs)"

definition not_in_run_cond :: "ha_run list \<Rightarrow> json list" where
  "not_in_run_cond runs = (if runs = [] then [] else [template (''not ('' @ run_spans runs @ '')'')])"

text \<open>A target that is not set is \<open>null\<close> as a value and \<open>None\<close> in a text.\<close>

definition opt_text :: "string option \<Rightarrow> string" where
  "opt_text t = (case t of None \<Rightarrow> ''None'' | Some s \<Rightarrow> s)"

definition switch :: "string \<Rightarrow> string option \<Rightarrow> json" where
  "switch svc t = JObj [(''service'', JStr svc), (''target'', JObj [(''entity_id'', jopt JStr t)])]"

definition logbook :: "string \<Rightarrow> string \<Rightarrow> json" where
  "logbook name msg = JObj [(''service'', JStr ''logbook.log''),
     (''data'', JObj [(''name'', JStr name), (''message'', JStr msg)])]"

definition state_on :: "string option \<Rightarrow> json" where
  "state_on t = JObj [(''condition'', JStr ''state''), (''entity_id'', jopt JStr t), (''state'', JStr ''on'')]"

definition time_trigger :: "int \<Rightarrow> json" where
  "time_trigger m = JList [JObj [(''platform'', JStr ''time''), (''at'', JStr (at_text m))]]"

definition every_minute :: json where
  "every_minute = JList [JObj [(''platform'', JStr ''time_pattern''), (''minutes'', JStr ''/1'')]]"

definition single :: "string \<Rightarrow> fields" where
  "single i = [(''id'', JStr i), (''mode'', JStr ''single'')]"

section \<open>Automations\<close>

definition dt_from_ts :: "int \<Rightarrow> string" where
  "dt_from_ts ts = hhmm_clock (prague_of_instant (ts + unix_epoch))"

definition run_automation :: "string \<Rightarrow> string option \<Rightarrow> ha_run \<Rightarrow> fields \<times> string" where
  "run_automation eid t r =
     (let e = hr_end_ts r
      in ha_item (eid @ '' run end '' @ dt_from_ts e)
          (single (''sch_'' @ eid @ ''_runend_'' @ hr_id r) @
           [(''trigger'', every_minute),
            (''condition'', JList [template (str_int e @ '' <= now().timestamp() < '' @ str_int (e + RUN_GRACE_S)),
               state_on t,
               template (''states.'' @ opt_text t @ ''.last_changed.timestamp() <= '' @ str_int e)]),
            (''action'', JList [switch ''switch.turn_off'' t,
               logbook ''Sch run end'' (opt_text t @ '': timed run ended, switched OFF'')])]))"

definition on_automation :: "string \<Rightarrow> string option \<Rightarrow> int list \<Rightarrow> rule \<Rightarrow> fields \<times> string" where
  "on_automation eid t skips r =
     ha_item (eid @ '' '' @ r_id r @ '' ON '' @ r_start r)
       (single (''sch_'' @ eid @ ''_'' @ r_id r @ ''_on'') @
        [(''trigger'', time_trigger (start_of r)),
         (''condition'', JList (weekday_cond (r_days r) @ skip_cond skips)),
         (''action'', JList [switch ''switch.turn_on'' t])])"

definition off_automation :: "string \<Rightarrow> string option \<Rightarrow> ha_run list \<Rightarrow> rule \<Rightarrow> fields \<times> string" where
  "off_automation eid t runs r =
     ha_item (eid @ '' '' @ r_id r @ '' OFF '' @ opt_text (r_end r))
       (single (''sch_'' @ eid @ ''_'' @ r_id r @ ''_off'') @
        [(''trigger'', time_trigger (end_of r)),
         (''condition'', JList (weekday_cond (r_days r) @ not_in_run_cond runs)),
         (''action'', JList [switch ''switch.turn_off'' t])])"

definition failsafe_automation :: "string \<Rightarrow> string option \<Rightarrow> int \<Rightarrow> fields \<times> string" where
  "failsafe_automation eid t mx =
     ha_item (eid @ '' fail-safe OFF after '' @ str_int mx @ '' min'')
       (single (''sch_'' @ eid @ ''_failsafe'') @
        [(''trigger'', every_minute),
         (''condition'', JList [state_on t,
            template (''(now() - states.'' @ opt_text t @ ''.last_changed).total_seconds() > '' @ str_int (mx * 60))]),
         (''action'', JList [switch ''switch.turn_off'' t,
            logbook ''Sch fail-safe'' (opt_text t @ '': ON for '' @ str_int mx @ '' min (guardrail max_on_minutes), switched OFF'')])])"

definition reconnect_automation :: "string \<Rightarrow> string option \<Rightarrow> fields \<times> string" where
  "reconnect_automation eid t =
     ha_item (eid @ '' reconcile on reconnect'')
       [(''id'', JStr (''sch_'' @ eid @ ''_reconnect'')),
        (''trigger'', JList [JObj [(''platform'', JStr ''state''), (''entity_id'', jopt JStr t), (''from'', JStr ''unavailable'')]]),
        (''action'', JList [JObj [(''service'', JStr (''script.sch_reconcile_'' @ eid))]])]"

text \<open>\<open>e["guardrails"]["max_on_minutes"]\<close> raises when the guardrail is missing.\<close>

definition plug_automations :: "string \<Rightarrow> string option \<Rightarrow> guardrails \<Rightarrow> rule list \<Rightarrow> int list \<Rightarrow> ha_run list
    \<Rightarrow> py_exn + (fields \<times> string) list" where
  "plug_automations eid t g rules skips runs =
     (case g_max_on_minutes g of None \<Rightarrow> Inl KeyError
      | Some mx \<Rightarrow> Inr (concat (map (\<lambda>r. [on_automation eid t skips r, off_automation eid t runs r]) rules)
          @ [failsafe_automation eid t mx, reconnect_automation eid t]
          @ map (run_automation eid t) runs))"

definition vacuum_automation :: "string \<Rightarrow> string option \<Rightarrow> int list \<Rightarrow> rule \<Rightarrow> fields \<times> string" where
  "vacuum_automation eid t skips r =
     ha_item (eid @ '' '' @ r_id r @ '' '' @ r_start r)
       (single (''sch_'' @ eid @ ''_'' @ r_id r) @
        [(''trigger'', time_trigger (start_of r)),
         (''condition'', JList (weekday_cond (r_days r) @ skip_cond skips)),
         (''action'', JList [JObj ([(''action'', JStr ''script.turn_on''), (''target'', JObj [(''entity_id'', jopt JStr t)])]
            @ (case r_vars r of Some (kv # kvs) \<Rightarrow>
                 [(''data'', JObj [(''variables'', JObj (sort_key fst (kv # kvs)))])] | _ \<Rightarrow> []))])])"

section \<open>The reconcile script\<close>

text \<open>The arrow in the log messages lies outside the 8-bit characters of the model and is written \<open>->\<close>.\<close>

definition window_text :: "rule \<Rightarrow> string" where
  "window_text r = ''(dow in ['' @ join_with '', '' (map str_int (r_days r)) @ ''] and t >= ''
     @ str_int (start_of r) @ '' and t < '' @ str_int (end_of r) @ '')''"

definition target_text :: "rule list \<Rightarrow> int list \<Rightarrow> string" where
  "target_text rules skips = braces (quoted ''on'' @ '' if (today not in '' @ date_list skips @ '' and (''
     @ (if rules = [] then ''false'' else join_with '' or '' (map window_text rules)) @ '')) else '' @ quoted ''off'')"

definition reconcile_script :: "string \<Rightarrow> string option \<Rightarrow> rule list \<Rightarrow> int list \<Rightarrow> ha_run list \<Rightarrow> fields \<times> string" where
  "reconcile_script eid t rules skips runs =
     (let off_is = quoted ''off''; on_is = quoted ''on'';
          variables = [(''t'', JStr (braces ''now().hour * 60 + now().minute'')), (''dow'', JStr (braces ''now().isoweekday()'')),
            (''today'', JStr (braces ''now().date().isoformat()'')), (''target'', JStr (target_text rules skips)),
            (''cur'', JStr (braces (''states('' @ quoted (opt_text t) @ '')'')))]
            @ (if runs = [] then [] else [(''in_run'', JStr (braces (run_spans runs)))]);
          off_cond = ''target == '' @ off_is @ '' and cur == '' @ on_is @ (if runs = [] then [] else '' and not in_run'')
      in ha_item (''reconcile '' @ eid) [(''sequence'', JList [
           JObj [(''variables'', JObj variables)],
           JObj [(''if'', JList [template (''target == '' @ on_is @ '' and cur not in ['' @ on_is @ '', '' @ quoted ''unavailable'' @ '']'')]),
                 (''then'', JList [switch ''switch.turn_on'' t, logbook ''Reconcile'' (eid @ '': '' @ braces ''cur'' @ '' -> ON (schedule window)'')])],
           JObj [(''if'', JList [template off_cond]),
                 (''then'', JList [switch ''switch.turn_off'' t, logbook ''Reconcile'' (eid @ '': on -> OFF (outside schedule window)'')])]])])"

section \<open>The whole set\<close>

record snap_entity =
  se_entity :: entity
  se_rules :: "rule list"
  se_skips :: "int list"
  se_runs :: "ha_run list"

record rendered =
  rd_files :: "(string \<times> string) list"
  rd_automations :: "(string \<times> json) list"
  rd_scripts :: "(string \<times> json) list"
  rd_set_hash :: string

text \<open>A dict in the order of insertion: a key that is set again keeps its place.\<close>

fun dict_set :: "'k \<Rightarrow> 'v \<Rightarrow> ('k \<times> 'v) list \<Rightarrow> ('k \<times> 'v) list" where
  "dict_set k v [] = [(k, v)]"
| "dict_set k v ((k', v') # kvs) = (if k = k' then (k, v) # kvs else (k', v') # dict_set k v kvs)"

type_synonym render_state = "(string \<times> string) list \<times> (string \<times> json) list \<times> (string \<times> json) list \<times> string list"

definition renderable :: "kind \<Rightarrow> bool" where
  "renderable k \<longleftrightarrow> k = Plug \<or> k = Vacuum_plan"

definition item_list :: "(fields \<times> string) list \<Rightarrow> json" where
  "item_list items = JList (map (\<lambda>(it, h). JObj it) items)"

definition script_file :: "string \<Rightarrow> fields \<Rightarrow> string" where
  "script_file key it = HEADER @ emit (JObj [(key, JObj it)]) 0 False @ [newline]"

definition add_aliases :: "(fields \<times> string) list \<Rightarrow> (string \<times> json) list \<Rightarrow> (string \<times> json) list" where
  "add_aliases items exp = foldl (\<lambda>d (it, h). dict_set (json_str (jget it ''id'')) (jget it ''alias'') d) exp items"

definition render_entity :: "render_state \<Rightarrow> snap_entity \<Rightarrow> py_exn + render_state" where
  "render_entity st s = (case st of (files, exp_a, exp_s, keys) \<Rightarrow>
     (let e = se_entity s; eid = e_id e; t = e_ha_target e; runs = sort_key (\<lambda>r. (hr_start_ts r, hr_id r)) (se_runs s)
      in if \<not> e_managed e \<or> \<not> renderable (e_kind e) then Inr st
         else bind_res (if e_kind e = Plug then plug_automations eid t (e_guardrails e) (se_rules s) (se_skips s) runs
                        else Inr (map (vacuum_automation eid t (se_skips s)) (se_rules s)))
           (\<lambda>items.
             let files1 = dict_set (''automations/sch_'' @ eid @ ''.yaml'') (HEADER @ emit (item_list items) 0 False @ [newline]) files;
                 exp_a1 = add_aliases items exp_a
             in if e_kind e = Plug then
                  (let (it, h) = reconcile_script eid t (se_rules s) (se_skips s) runs; key = ''sch_reconcile_'' @ eid
                   in Inr (dict_set (''scripts/'' @ key @ ''.yaml'') (script_file key it) files1, exp_a1,
                           dict_set key (jget it ''alias'') exp_s, keys @ [key]))
                else Inr (files1, exp_a1, exp_s, keys))))"

definition render :: "snap_entity list \<Rightarrow> py_exn + rendered" where
  "render ents = bind_res (fold_res render_entity ([], [], [], []) ents) (\<lambda>(files, exp_a, exp_s, keys).
     (let files1 = (if list_ex (\<lambda>(p, x). starts_with ''automations/'' p) files then files
                    else dict_set ''automations/sch_none.yaml'' (HEADER @ ''[]'' @ [newline]) files);
          delay = JObj [(''delay'', JObj [(''seconds'', JInt 0)])];
          all_seq = (if keys = [] then [delay] else map (\<lambda>k. JObj [(''service'', JStr (''script.'' @ k))]) keys);
          (ra, h) = ha_item ''reconcile all managed plugs'' [(''sequence'', JList all_seq)];
          files2 = dict_set ''scripts/sch_reconcile_all.yaml'' (script_file ''sch_reconcile_all'' ra) files1;
          exp_s1 = dict_set ''sch_reconcile_all'' (jget ra ''alias'') exp_s;
          set_hash = h8 (JObj [(''a'', JObj exp_a), (''s'', JObj exp_s1)]);
          fp_alias = JStr (''Sch fingerprint [sch '' @ set_hash @ '']'');
          files3 = dict_set ''scripts/sch_fingerprint.yaml''
            (script_file ''sch_fingerprint'' [(''alias'', fp_alias), (''sequence'', JList [delay])]) files2
      in Inr \<lparr>rd_files = sort_key fst files3, rd_automations = sort_key fst exp_a,
              rd_scripts = sort_key fst (dict_set ''sch_fingerprint'' fp_alias exp_s1), rd_set_hash = set_hash\<rparr>))"

end
