(* ===== verification/Child_Policy.thy ===== *)
theory Child_Policy
  imports Sched_Runs
begin

text \<open>
  \<open>child_render.py\<close> and \<open>child_invariants.py\<close>: the AdGuard rule block of the children's
  policy and the invariants that the service and the host job check before they act.  The
  \<open>ipaddress\<close> module is modelled for IPv4; an IPv6 literal is never accepted as a device
  address by the callers, so a string that is no dotted quad counts as not acceptable.
\<close>

section \<open>Domain names and addresses\<close>

definition is_label_char :: "char \<Rightarrow> bool" where
  "is_label_char c \<longleftrightarrow> is_lower c \<or> is_digit c"

text \<open>One label: \<open>[a-z0-9](?:[a-z0-9-]{0,61}[a-z0-9])?\<close>.\<close>

definition label_body :: "string \<Rightarrow> bool" where
  "label_body s \<longleftrightarrow> s \<noteq> [] \<and> length s \<le> 63 \<and> is_label_char (hd s) \<and> is_label_char (last s)
     \<and> list_all (\<lambda>c. is_label_char c \<or> c = CHR ''-'') s"

definition domain_body :: "string \<Rightarrow> bool" where
  "domain_body s \<longleftrightarrow> 4 \<le> length s \<and> length s \<le> 253
     \<and> (let ls = split_on (CHR ''.'') s in 2 \<le> length ls \<and> list_all label_body ls)"

text \<open>\<open>DOMAIN_RE.match\<close>.\<close>

definition domain_re :: "string \<Rightarrow> bool" where
  "domain_re s \<longleftrightarrow> dollar domain_body s"

definition is_domain :: "json \<Rightarrow> bool" where
  "is_domain v = (case v of JStr s \<Rightarrow> domain_re s | _ \<Rightarrow> False)"

text \<open>Equal to the parent, or ending in a dot and the parent.\<close>

definition is_under1 :: "string \<Rightarrow> string \<Rightarrow> bool" where
  "is_under1 domain parent \<longleftrightarrow> domain = parent \<or> ends_with (CHR ''.'' # parent) domain"

definition is_under :: "string \<Rightarrow> string list \<Rightarrow> bool" where
  "is_under domain parents \<longleftrightarrow> list_ex (is_under1 domain) parents"

fun dec_val :: "string \<Rightarrow> int" where
  "dec_val s = foldl (\<lambda>acc c. acc * 10 + digit_val c) 0 s"

text \<open>\<open>\d{1,3}\<close> of the renderer's pattern, and a number 0-255 without leading zeros.\<close>

definition short_number :: "string \<Rightarrow> bool" where
  "short_number s \<longleftrightarrow> s \<noteq> [] \<and> length s \<le> 3 \<and> list_all is_digit s"

definition octet :: "string \<Rightarrow> bool" where
  "octet s \<longleftrightarrow> short_number s \<and> dec_val s \<le> 255 \<and> (length s = 1 \<or> hd s \<noteq> CHR ''0'')"

definition quad :: "(string \<Rightarrow> bool) \<Rightarrow> string \<Rightarrow> bool" where
  "quad p s \<longleftrightarrow> (let ps = split_on (CHR ''.'') s in length ps = 4 \<and> list_all p ps)"

definition ip_re_strict :: "string \<Rightarrow> bool" where \<comment> \<open>\<open>child_invariants.IP_RE\<close>\<close>
  "ip_re_strict s \<longleftrightarrow> dollar (quad octet) s"

definition ip_re_loose :: "string \<Rightarrow> bool" where \<comment> \<open>\<open>child_render.IP_RE\<close>\<close>
  "ip_re_loose s \<longleftrightarrow> dollar (quad short_number) s"

definition is_hex :: "char \<Rightarrow> bool" where
  "is_hex c \<longleftrightarrow> is_digit c \<or> char_in (CHR ''a'') (CHR ''f'') c \<or> char_in (CHR ''A'') (CHR ''F'') c"

definition mac_re :: "string \<Rightarrow> bool" where
  "mac_re s \<longleftrightarrow> dollar (\<lambda>s. let ps = split_on (CHR '':'') s
     in length ps = 6 \<and> list_all (\<lambda>p. length p = 2 \<and> list_all is_hex p) ps) s"

definition quad_values :: "string \<Rightarrow> int list" where
  "quad_values s = map dec_val (split_on (CHR ''.'') s)"

text \<open>
  \<open>ipaddress\<close>: private, loopback, link-local, multicast and unspecified IPv4 addresses (the
  registry of Python 3.13: 192.0.0.9/32 and 192.0.0.10/32 are not private).
\<close>

definition v4_private :: "int list \<Rightarrow> bool" where
  "v4_private q \<longleftrightarrow> (case q of [a, b, c, d] \<Rightarrow>
       a = 0 \<or> a = 10 \<or> a = 127 \<or> (a = 169 \<and> b = 254) \<or> (a = 172 \<and> 16 \<le> b \<and> b \<le> 31)
     \<or> (a = 192 \<and> b = 0 \<and> c = 0 \<and> d \<notin> {9, 10}) \<or> (a = 192 \<and> b = 0 \<and> c = 2) \<or> (a = 192 \<and> b = 168)
     \<or> (a = 198 \<and> (b = 18 \<or> b = 19)) \<or> (a = 198 \<and> b = 51 \<and> c = 100) \<or> (a = 203 \<and> b = 0 \<and> c = 113)
     \<or> 240 \<le> a
   | _ \<Rightarrow> False)"

definition v4_excluded :: "int list \<Rightarrow> bool" where
  "v4_excluded q \<longleftrightarrow> (case q of [a, b, c, d] \<Rightarrow>
     a = 127 \<or> (a = 169 \<and> b = 254) \<or> (224 \<le> a \<and> a \<le> 239) \<or> (a = 0 \<and> b = 0 \<and> c = 0 \<and> d = 0)
   | _ \<Rightarrow> True)"

definition PROTECTED_IPS :: "(string \<times> string) list" where
  "PROTECTED_IPS = [(''192.168.31.1'', ''the router''),
     (''192.168.31.2'', ''this server (origin DNS and every service)''),
     (''192.168.31.5'', ''the Pi (replica DNS)'')]"

definition device_ip_problem :: "string \<Rightarrow> string option" where
  "device_ip_problem ip =
     (if \<not> quad octet ip then Some (quoted ip @ '' is not an IP address'')
      else let q = quad_values ip in
        if \<not> v4_private q \<or> v4_excluded q then Some (ip @ '' is not a private LAN address'')
        else (case map_of PROTECTED_IPS ip of
            Some who \<Rightarrow> Some (ip @ '' is '' @ who @ '': a catch-all block on it would cut DNS for the whole house'')
          | None \<Rightarrow> None))"

section \<open>The always-on baseline\<close>

definition REQUIRED_ALWAYS :: "string list" where
  "REQUIRED_ALWAYS = [''connectivitycheck.gstatic.com'', ''connectivitycheck.android.com'',
     ''time.android.com'', ''mtalk.google.com'', ''fcm.googleapis.com'',
     ''firebaseinstallations.googleapis.com'', ''android.apis.google.com'', ''accuweather.com'',
     ''awxcdn.com'', ''www.googleapis.com'', ''android.googleapis.com'', ''play.googleapis.com'',
     ''play-fe.googleapis.com'', ''deviceintegritytokens-pa.googleapis.com'',
     ''kidsmanagement-pa.googleapis.com'', ''www.google.com'']"

definition REQUIRED_SERVICES :: "string list" where
  "REQUIRED_SERVICES = [''telegram'']"

definition TELEGRAM_CORE :: "string list" where
  "TELEGRAM_CORE = [''telegram.org'', ''t.me'', ''telegram.me'', ''telesco.pe'',
     ''cdn-telegram.org'', ''telegram.dog'', ''tdesktop.com'']"

definition deny_breaks_baseline :: "string \<Rightarrow> string option" where
  "deny_breaks_baseline domain =
     find (\<lambda>h. is_under1 h domain \<or> is_under1 domain h) (REQUIRED_ALWAYS @ TELEGRAM_CORE)"

section \<open>The rule block\<close>

record child_device =
  cd_id :: string
  cd_name :: string
  cd_ip :: string
  cd_mac :: string
  cd_rules :: "rule list"
  cd_allow_extra :: "string list"
  cd_deny_extra :: "string list"

record child_lists =
  l_allow_always :: "string list"
  l_allow_weekdays :: "string list"
  l_allow_extra :: "string list"
  l_deny_extra :: "string list"

record child_policy =
  cp_devices :: "child_device list"
  cp_lists :: child_lists
  cp_always_services :: "string list"

text \<open>Windows open now, as the renderer evaluates them.\<close>

definition open_targets :: "rule list \<Rightarrow> dtime \<Rightarrow> string list" where
  "open_targets rules now =
     concat (map (\<lambda>r. if isoweekday (date_of now) \<in> set (r_days r)
         \<and> start_of r \<le> minute_of_day now \<and> minute_of_day now < end_of r
       then rule_opens r else []) rules)"

definition block_rule :: "string \<Rightarrow> string" where \<comment> \<open>\<open>||*^$client=IP\<close>\<close>
  "block_rule ip = ''||*^$client='' @ ip"

definition deny_rule :: "string \<Rightarrow> string \<Rightarrow> string" where
  "deny_rule ip d = ''||'' @ d @ ''^$client='' @ ip"

definition allow_rule :: "string \<Rightarrow> string \<Rightarrow> string" where
  "allow_rule ip d = ''@@||'' @ d @ ''^$client='' @ ip"

definition BEGIN_MARK :: string where
  "BEGIN_MARK = ''! BEGIN child-policy (managed by apply-child-policy.py - do not edit between markers)''"

definition END_MARK :: string where
  "END_MARK = ''! END child-policy''"

text \<open>Domains a device may reach: the baseline, its extra list, the weekday list, what is open.\<close>

definition allowed_domains :: "child_policy \<Rightarrow> (string \<Rightarrow> string list) \<Rightarrow> dtime \<Rightarrow> string list \<Rightarrow> child_device \<Rightarrow> string list" where
  "allowed_domains p svc now targets dev =
     (let base = l_allow_always (cp_lists p) @ concat (map svc (cp_always_services p));
          extra = l_allow_extra (cp_lists p) @ cd_allow_extra dev;
          weekdays = (if isoweekday (date_of now) \<noteq> 7 then l_allow_weekdays (cp_lists p) else []);
          opened = open_targets (cd_rules dev) now;
          gated = concat (map (\<lambda>t. if t \<in> set opened \<or> t \<in> set targets then svc t else []) GATED_TARGETS)
      in base @ extra @ weekdays @ gated)"

definition deny_list :: "child_policy \<Rightarrow> child_device \<Rightarrow> string list" where
  "deny_list p dev = sorted_set (l_deny_extra (cp_lists p) @ cd_deny_extra dev)"

definition override_targets :: "(string \<times> string) list \<Rightarrow> string \<Rightarrow> string list" where
  "override_targets overrides ip = map snd (filter (\<lambda>(c, t). c = ip) overrides)"

definition device_lines :: "child_policy \<Rightarrow> (string \<Rightarrow> string list) \<Rightarrow> dtime \<Rightarrow> (string \<times> string) list \<Rightarrow> child_device \<Rightarrow> string list" where
  "device_lines p svc now overrides dev =
     (let ip = cd_ip dev; deny = deny_list p dev; targets = override_targets overrides ip;
          deny_rules = map (deny_rule ip) deny
      in if ''all'' \<in> set targets then deny_rules
         else let allowed = filter (\<lambda>d. \<not> is_under d deny) (allowed_domains p svc now targets dev)
              in block_rule ip # deny_rules @ map (allow_rule ip) (sorted_set allowed))"

definition render_block :: "child_policy \<Rightarrow> (string \<Rightarrow> string list) \<Rightarrow> dtime \<Rightarrow> (string \<times> string) list \<Rightarrow> string list" where
  "render_block p svc now overrides =
     BEGIN_MARK # concat (map (device_lines p svc now overrides) (cp_devices p)) @ [END_MARK]"

section \<open>Validation of imported lists and devices\<close>

definition LIST_NAMES :: "string list" where
  "LIST_NAMES = [''allow_always'', ''allow_weekdays'', ''allow_extra'', ''deny_extra'']"

definition list_value :: "(string \<times> json) list \<Rightarrow> string \<Rightarrow> string list option" where
  "list_value ls name = (case map_of ls name of
     None \<Rightarrow> Some []
   | Some (JList vs) \<Rightarrow> if list_all is_domain vs \<and> length vs \<le> 2000
       then Some (sorted_set (map json_str vs)) else None
   | Some _ \<Rightarrow> None)"

definition validate_lists :: "json \<Rightarrow> child_lists \<times> problem list" where
  "validate_lists v = (case v of
     JObj ls \<Rightarrow>
       (let val = (\<lambda>n. case list_value ls n of None \<Rightarrow> [] | Some x \<Rightarrow> x)
        in (\<lparr>l_allow_always = val ''allow_always'', l_allow_weekdays = val ''allow_weekdays'',
             l_allow_extra = val ''allow_extra'', l_deny_extra = val ''deny_extra''\<rparr>,
            concat (map (\<lambda>n. if list_value ls n = None
              then [prob ''domains'' (''lists.'' @ n) (n @ '' must be a list of plain domain names'')] else []) LIST_NAMES)
            @ map (\<lambda>k. prob ''unknown_key'' (''lists.'' @ k) (''unknown list '' @ quoted k))
                (filter (\<lambda>k. k \<notin> set LIST_NAMES) (jkeys ls))))
   | _ \<Rightarrow> (\<lparr>l_allow_always = [], l_allow_weekdays = [], l_allow_extra = [], l_deny_extra = []\<rparr>,
          [prob ''type'' ''lists'' ''lists must be an object'']))"

text \<open>
  \<open>validate_device\<close>: an id, a name, an address and an optional MAC.  A MAC that is not a
  string reaches the pattern and raises.
\<close>

definition device_mac_ok :: "json \<Rightarrow> py_exn + bool" where
  "device_mac_ok v = (if \<not> truthy v then Inr True
     else case v of JStr s \<Rightarrow> Inr (mac_re s) | _ \<Rightarrow> Inl TypeError)"

definition device_problem :: problem where
  "device_problem = prob ''device'' ''devices'' ''a device needs id, name, a valid ip and an optional valid mac''"

definition validate_device :: "json \<Rightarrow> py_exn + problem list" where
  "validate_device v = (case v of
     JObj d \<Rightarrow>
       (if is_jstr (jget d ''id'') \<and> is_jstr (jget d ''name'') \<and> is_jstr (jget d ''ip'')
           \<and> ip_re_loose (json_str (jget d ''ip''))
        then bind_res (device_mac_ok (jget d ''mac'')) (\<lambda>ok.
          if \<not> ok then Inr [device_problem]
          else (case device_ip_problem (json_str (jget d ''ip'')) of
              None \<Rightarrow> Inr []
            | Some why \<Rightarrow> Inr [prob ''protected_ip'' ''devices'' (json_str (jget d ''id'') @ '': '' @ why)]))
        else Inr [device_problem])
   | _ \<Rightarrow> Inr [device_problem])"

section \<open>The snapshot\<close>

text \<open>
  The snapshot file, its devices with typed guardrails (the job reads what the service wrote); the
  values the check looks into stay JSON.
\<close>

record snap_device =
  sd_id :: json
  sd_ip :: json
  sd_name :: json
  sd_guardrails :: guardrails
  sd_rules :: json
  sd_allow_extra :: "json list"
  sd_deny_extra :: "json list"
  sd_exceptions :: "json list"

record snapshot =
  sn_schema :: json
  sn_devices :: "snap_device list"
  sn_allow_always :: "string list"
  sn_always_services :: "string list"

type_synonym snap_problem = "string \<times> string" \<comment> \<open>code and message\<close>

definition schema_is_1 :: "json \<Rightarrow> bool" where \<comment> \<open>\<open>== 1\<close> of Python: also \<open>True\<close> and \<open>1.0\<close>\<close>
  "schema_is_1 v = (case v of JInt i \<Rightarrow> i = 1 | JBool b \<Rightarrow> b | JFloat m k \<Rightarrow> m = 10 ^ k | _ \<Rightarrow> False)"

definition number_value :: "json \<Rightarrow> bool" where \<comment> \<open>\<open>isinstance(v, (int, float))\<close>\<close>
  "number_value v = (case v of JInt i \<Rightarrow> True | JFloat m k \<Rightarrow> True | JBool b \<Rightarrow> True | _ \<Rightarrow> False)"

definition snap_exception_ok :: "json \<Rightarrow> bool" where
  "snap_exception_ok v = (case v of
     JObj x \<Rightarrow> (case jget x ''target'' of JStr t \<Rightarrow> t \<in> set EXCEPTION_TARGETS | _ \<Rightarrow> False)
        \<and> number_value (jget x ''expires_ts'')
   | _ \<Rightarrow> False)"

definition extra_problems :: "string \<Rightarrow> string \<Rightarrow> json list \<Rightarrow> snap_problem list" where
  "extra_problems did kind doms = concat (map (\<lambda>v. if is_domain v then []
     else [(''domain'', did @ '': '' @ kind @ '' holds a value that is not a plain domain name'')]) doms)"

definition deny_problems :: "string \<Rightarrow> json list \<Rightarrow> snap_problem list" where
  "deny_problems did doms = concat (map (\<lambda>v. case v of
     JStr host \<Rightarrow> (case deny_breaks_baseline host of None \<Rightarrow> []
       | Some h \<Rightarrow> [(''deny_baseline'', did @ '': a deny rule for '' @ host @ '' would block the always-on host '' @ h)])
   | _ \<Rightarrow> []) doms)"

definition device_shape_ok :: "snap_device \<Rightarrow> bool" where
  "device_shape_ok d \<longleftrightarrow> is_jstr (sd_id d) \<and> is_jstr (sd_ip d) \<and> ip_re_strict (json_str (sd_ip d)) \<and> is_jstr (sd_name d)"

definition snap_device_problems :: "snap_device list \<Rightarrow> string list \<Rightarrow> nat \<Rightarrow> snap_device \<Rightarrow> py_exn + snap_problem list" where
  "snap_device_problems devices seen i d =
     (let did = json_str (sd_id d); ip = json_str (sd_ip d);
          others = map fst (filter (\<lambda>(x, j). j \<noteq> i) (zip (map sd_ip devices) [0..<length devices]))
      in bind_res (validate_rules Child_window (sd_guardrails d)
             (if truthy (sd_rules d) then sd_rules d else JList [])) (\<lambda>(rs, rp).
         Inr ((case device_ip_problem ip of None \<Rightarrow> [] | Some why \<Rightarrow> [(''protected_ip'', did @ '': '' @ why)])
           @ (if did \<in> set seen \<or> sd_ip d \<in> set others
              then [(''duplicate'', ''duplicate device id or ip: '' @ did)] else [])
           @ extra_problems did ''allow_extra'' (sd_allow_extra d)
           @ extra_problems did ''deny_extra'' (sd_deny_extra d)
           @ deny_problems did (sd_deny_extra d)
           @ map (\<lambda>p. (''window'', did @ '': '' @ p_message p)) rp
           @ concat (map (\<lambda>x. if snap_exception_ok x then []
               else [(''exception'', did @ '': an exception with a bad target or expiry'')]) (sd_exceptions d)))))"

fun snap_devices_loop :: "snap_device list \<Rightarrow> string list \<Rightarrow> (nat \<times> snap_device) list \<Rightarrow> py_exn + snap_problem list" where
  "snap_devices_loop all seen [] = Inr []"
| "snap_devices_loop all seen ((i, d) # ds) =
     (if \<not> device_shape_ok d
      then bind_res (snap_devices_loop all seen ds) (\<lambda>ps.
             Inr ((''device'', ''a device needs id, name and a valid ip'') # ps))
      else bind_res (snap_device_problems all seen i d) (\<lambda>p.
           bind_res (snap_devices_loop all (json_str (sd_id d) # seen) ds) (\<lambda>ps. Inr (p @ ps))))"

definition missing_always :: "string list \<Rightarrow> string list" where
  "missing_always always = sorted_set (filter (\<lambda>h. h \<notin> set always) REQUIRED_ALWAYS)"

definition verify_snapshot :: "snapshot \<Rightarrow> py_exn + snap_problem list" where
  "verify_snapshot s =
     (if \<not> schema_is_1 (sn_schema s) then Inr [(''schema'', ''unexpected snapshot shape'')]
      else bind_res (snap_devices_loop (sn_devices s) [] (zip [0..<length (sn_devices s)] (sn_devices s))) (\<lambda>ps.
        Inr ((if sn_devices s = [] then [(''devices'', ''a snapshot without any child device would remove every restriction'')] else [])
          @ (if missing_always (sn_allow_always s) = [] then []
             else [(''always_on'', ''the always-on allow list lost required hosts: ''
               @ join_with '', '' (take 6 (missing_always (sn_allow_always s))))])
          @ (if list_all (\<lambda>s'. s' \<in> set (sn_always_services s)) REQUIRED_SERVICES then []
             else [(''always_services'', ''Telegram must stay in the always-on services'')])
          @ ps)))"

end
