(* ===== verification/Store_State.thy ===== *)
theory Store_State
  imports Audit_Chain HA_Render Child_Policy
begin

text \<open>
  The tables of \<open>store.py\<close> and \<open>child_store.py\<close> as one state record, the reads, and the
  snapshot that is published.  A JSON column that the services write themselves is the typed value it
  encodes; a time column is the datetime that reading its text gives (a fixed offset); the rows of a
  table stand in the order of insertion.  An operation returns the new state or an error, and an error
  leaves the state as it was: the transaction is rolled back.
\<close>

section \<open>Texts of stored values\<close>

text \<open>What \<open>fromisoformat(t.isoformat())\<close> gives: the same reading with a fixed offset.\<close>

definition stored :: "dtime \<Rightarrow> dtime" where
  "stored t = Fixed (wall t) (utcoffset t)"

definition iso_text :: "dtime \<Rightarrow> string" where
  "iso_text t = (let s = wall t mod 86400; off = utcoffset t; m = \<bar>off\<bar> div 60
     in iso_date (date_of t) @ ''T'' @ str02 (s div 3600) @ '':'' @ str02 (s mod 3600 div 60) @ '':'' @ str02 (s mod 60)
        @ (if off < 0 then ''-'' else ''+'') @ str02 (m div 60) @ '':'' @ str02 (m mod 60))"

record actor =
  ac_token :: string
  ac_name :: string
  ac_role :: string
  ac_more :: fields \<comment> \<open>gateway flag, address, acting person\<close>

definition actor_json :: "actor \<Rightarrow> json" where
  "actor_json a = JObj ([(''token'', JStr (ac_token a)), (''name'', JStr (ac_name a)), (''role'', JStr (ac_role a))] @ ac_more a)"

definition system_actor :: "string \<Rightarrow> actor" where
  "system_actor name = \<lparr>ac_token = ''-'', ac_name = name, ac_role = ''admin'', ac_more = []\<rparr>"

text \<open>\<open>(by.get("acting") or {}).get("person") or by.get("name")\<close>.\<close>

definition shown_name :: "actor \<Rightarrow> json" where
  "shown_name a = (let p = (case jget (ac_more a) ''acting'' of JObj f \<Rightarrow> jget f ''person'' | _ \<Rightarrow> JNull)
     in if truthy p then p else JStr (ac_name a))"

definition opt_field :: "string \<Rightarrow> ('a \<Rightarrow> json) \<Rightarrow> 'a option \<Rightarrow> fields" where
  "opt_field k f x = (case x of None \<Rightarrow> [] | Some v \<Rightarrow> [(k, f v)])"

definition guardrails_json :: "guardrails \<Rightarrow> json" where
  "guardrails_json g = JObj (opt_field ''max_on_minutes'' JInt (g_max_on_minutes g)
     @ opt_field ''max_level'' JInt (g_max_level g) @ opt_field ''min_gap_minutes'' JInt (g_min_gap_minutes g)
     @ opt_field ''max_triggers_per_day'' JInt (g_max_triggers_per_day g)
     @ opt_field ''max_open_minutes_per_day'' JInt (g_max_open_minutes_per_day g)
     @ opt_field ''max_exception_minutes'' JInt (g_max_exception_minutes g)
     @ opt_field ''allowed_from'' JStr (g_allowed_from g) @ opt_field ''allowed_to'' JStr (g_allowed_to g)
     @ opt_field ''exception_latest_end'' JStr (g_exception_latest_end g)
     @ opt_field ''all_latest_end'' JStr (g_all_latest_end g))"

definition flags_json :: "flags \<Rightarrow> json" where
  "flags_json f = JObj (opt_field ''household_editable'' JBool (f_household_editable f)
     @ opt_field ''guardrails_proposed'' JBool (f_guardrails_proposed f))"

section \<open>Tables\<close>

record ent_row =
  en_entity :: entity
  en_position :: int

record sched_row =
  sc_entity :: string
  sc_version :: int
  sc_rules :: "rule list"
  sc_updated :: dtime

record exc_row =
  xr_id :: string
  xr_entity :: string
  xr_date :: int
  xr_by :: actor
  xr_at :: dtime

record run_row =
  rr_id :: string
  rr_entity :: string
  rr_started :: dtime
  rr_ends :: dtime
  rr_minutes :: int
  rr_status :: string
  rr_ended :: "dtime option"
  rr_by :: actor
  rr_rev :: nat

record token_row =
  tk_id :: string
  tk_name :: string
  tk_role :: string
  tk_sha256 :: string
  tk_created :: dtime
  tk_expires :: "string option"
  tk_last_used :: "dtime option"
  tk_revoked :: bool
  tk_gateway :: bool

record cexc_row =
  ce_id :: string
  ce_entity :: string
  ce_target :: string
  ce_created :: string
  ce_expires :: dtime
  ce_by :: actor
  ce_status :: string
  ce_ended :: "dtime option"

datatype list_kind = Allow | Deny

record dom_row =
  dm_entity :: string
  dm_kind :: list_kind
  dm_domain :: string

record child_definition =
  df_id :: string
  df_name :: string
  df_meta :: fields
  df_guardrails :: guardrails
  df_flags :: flags
  df_rules :: "rule list"
  df_allow :: "string list"
  df_deny :: "string list"
  df_exceptions :: "(string \<times> string \<times> dtime) list" \<comment> \<open>target, created, expires\<close>

record removed_row =
  rm_id :: string
  rm_entity :: string
  rm_name :: string
  rm_at :: dtime
  rm_by :: actor
  rm_def :: child_definition

record db =
  db_entities :: "ent_row list"
  db_schedules :: "sched_row list"
  db_exceptions :: "exc_row list"
  db_runs :: "run_row list"
  db_tokens :: "token_row list"
  db_audit :: "audit_row list"
  db_cexc :: "cexc_row list"
  db_domains :: "dom_row list"
  db_removed :: "removed_row list"
  db_lists :: "(child_lists \<times> string list) option" \<comment> \<open>meta: child_lists with the always-on services\<close>
  db_cutover :: "json option"
  db_last_apply :: "json option"

datatype store_err =
    Conflict sched_row
  | NotFound string
  | Forbidden string
  | ValidationError "problem list"
  | RunConflict string "run_row option"
  | Raised py_exn

section \<open>Reads\<close>

definition entities :: "db \<Rightarrow> entity list" where
  "entities st = map en_entity (sort_key (\<lambda>r. (en_position r, e_id (en_entity r))) (db_entities st))"

definition entity_of :: "db \<Rightarrow> string \<Rightarrow> store_err + entity" where
  "entity_of st eid = (case find (\<lambda>r. e_id (en_entity r) = eid) (db_entities st) of
     None \<Rightarrow> Inl (NotFound eid) | Some r \<Rightarrow> Inr (en_entity r))"

definition schedule_of :: "db \<Rightarrow> string \<Rightarrow> store_err + sched_row" where
  "schedule_of st eid = (case find (\<lambda>r. sc_entity r = eid) (db_schedules st) of
     None \<Rightarrow> Inl (NotFound eid) | Some r \<Rightarrow> Inr r)"

text \<open>\<open>exceptions(entity)\<close>: ordered by creation time (its text) and id.\<close>

definition exceptions_of :: "db \<Rightarrow> string option \<Rightarrow> exc_row list" where
  "exceptions_of st ent = sort_key (\<lambda>x. (iso_text (xr_at x), xr_id x))
     (filter (\<lambda>x. case ent of None \<Rightarrow> True | Some e \<Rightarrow> xr_entity x = e) (db_exceptions st))"

definition exceptions_for_model :: "db \<Rightarrow> string \<Rightarrow> exception list" where
  "exceptions_for_model st eid = map (\<lambda>x. \<lparr>x_kind = ''skip_date'', x_date = Some (xr_date x)\<rparr>) (exceptions_of st (Some eid))"

definition skips_of :: "db \<Rightarrow> string \<Rightarrow> int list" where
  "skips_of st eid = skip_dates (exceptions_for_model st eid)"

text \<open>\<open>_run_row\<close>: the end that counts is the earlier one of the planned and the real end.\<close>

definition effective_end :: "run_row \<Rightarrow> dtime" where
  "effective_end r = (case rr_ended r of None \<Rightarrow> rr_ends r
     | Some e \<Rightarrow> if dt_less (rr_ends r) e then rr_ends r else e)"

definition end_ts :: "run_row \<Rightarrow> int" where
  "end_ts r = timestamp (rr_ends r)"

definition runs_of :: "db \<Rightarrow> string option \<Rightarrow> bool \<Rightarrow> int option \<Rightarrow> run_row list" where
  "runs_of st ent active_only since =
     filter (\<lambda>r. case since of None \<Rightarrow> True | Some t \<Rightarrow> rr_status r = ''active'' \<or> t \<le> timestamp (effective_end r))
       (sort_key (\<lambda>r. (iso_text (rr_started r), rr_id r))
         (filter (\<lambda>r. (case ent of None \<Rightarrow> True | Some e \<Rightarrow> rr_entity r = e)
             \<and> (active_only \<longrightarrow> rr_status r = ''active'')) (db_runs st)))"

definition run_of :: "db \<Rightarrow> string \<Rightarrow> store_err + run_row" where
  "run_of st rid = (case find (\<lambda>r. rr_id r = rid) (db_runs st) of None \<Rightarrow> Inl (NotFound rid) | Some r \<Rightarrow> Inr r)"

text \<open>\<open>run_armed\<close>: the applier has loaded a set at least as new as the run's last change.\<close>

record apply_status =
  as_result :: string
  as_loaded_ok :: bool
  as_seq :: nat

definition run_armed :: "run_row \<Rightarrow> apply_status option \<Rightarrow> bool" where
  "run_armed r s \<longleftrightarrow> (case s of None \<Rightarrow> False | Some a \<Rightarrow>
     rr_status r = ''active'' \<and> as_result a = ''applied'' \<and> as_loaded_ok a \<and> rr_rev r \<le> as_seq a)"

section \<open>Audit and transactions\<close>

definition audit_st :: "dtime \<Rightarrow> actor \<Rightarrow> string \<Rightarrow> string option \<Rightarrow> json \<Rightarrow> json \<Rightarrow> db \<Rightarrow> db" where
  "audit_st now actor action ent before after st =
     st\<lparr>db_audit := audit_append (iso_text now) (actor_json actor) action ent before after (db_audit st)\<rparr>"

definition seq_of :: "db \<Rightarrow> nat" where
  "seq_of st = audit_seq (db_audit st)"

text \<open>\<open>raise ValidationError(probs)\<close> when there are any.\<close>

definition require_none :: "problem list \<Rightarrow> store_err + unit" where
  "require_none ps = (if ps = [] then Inr () else Inl (ValidationError ps))"

definition require :: "bool \<Rightarrow> store_err \<Rightarrow> store_err + unit" where
  "require b e = (if b then Inr () else Inl e)"

lemma require_simps [simp]:
  "require_none ps = Inr u \<longleftrightarrow> ps = []" "require b e = Inr u \<longleftrightarrow> b"
  "require_none ps = Inl e' \<longleftrightarrow> ps \<noteq> [] \<and> e' = ValidationError ps" "require b e = Inl e' \<longleftrightarrow> \<not> b \<and> e' = e"
  by (auto simp: require_none_def require_def)

text \<open>An exception of the model leaves the operation, and the transaction, with it.\<close>

definition lift_py :: "py_exn + 'a \<Rightarrow> store_err + 'a" where
  "lift_py m = (case m of Inl e \<Rightarrow> Inl (Raised e) | Inr x \<Rightarrow> Inr x)"

lemma lift_py_iff [simp]:
  "lift_py m = Inr x \<longleftrightarrow> m = Inr x" "lift_py m = Inl e \<longleftrightarrow> (\<exists>x. m = Inl x \<and> e = Raised x)"
  by (auto simp: lift_py_def split: sum.splits)

section \<open>The published snapshot\<close>

definition ha_run_of :: "run_row \<Rightarrow> ha_run" where
  "ha_run_of r = \<lparr>hr_id = rr_id r, hr_start_ts = timestamp (rr_started r), hr_end_ts = end_ts r\<rparr>"

definition snap_entity_of :: "db \<Rightarrow> int \<Rightarrow> int \<Rightarrow> entity \<Rightarrow> store_err + snap_entity" where
  "snap_entity_of st now_ts today e = bind_res (schedule_of st (e_id e)) (\<lambda>s.
     Inr \<lparr>se_entity = e, se_rules = sc_rules s,
          se_skips = sorted_set (filter (\<lambda>d. today \<le> d) (skips_of st (e_id e))),
          se_runs = (if e_kind e = Plug
            then map ha_run_of (filter (\<lambda>r. rr_status r = ''active'') (runs_of st (Some (e_id e)) False (Some (now_ts - 36 * 3600))))
            else [])\<rparr>)"

fun map_res :: "('a \<Rightarrow> 'e + 'b) \<Rightarrow> 'a list \<Rightarrow> 'e + 'b list" where
  "map_res f [] = Inr []"
| "map_res f (x # xs) = bind_res (f x) (\<lambda>y. bind_res (map_res f xs) (\<lambda>ys. Inr (y # ys)))"

definition snapshot_of :: "db \<Rightarrow> dtime \<Rightarrow> int \<Rightarrow> store_err + snap_entity list" where
  "snapshot_of st now today = map_res (snap_entity_of st (timestamp now) today) (entities st)"

text \<open>\<open>publish\<close>: the files that the applier reads; a failure is kept for the health check.\<close>

definition publish :: "db \<Rightarrow> dtime \<Rightarrow> int \<Rightarrow> store_err + rendered" where
  "publish st now today = bind_res (snapshot_of st now today) (\<lambda>ents. lift_py (render ents))"

end
