(* ===== verification/Store_Ops.thy ===== *)
theory Store_Ops
  imports Store_State
begin

text \<open>
  The writes of \<open>store.py\<close>: schedules, guardrails, entities, skipped dates, timed runs and
  tokens.  \<open>now\<close> is the clock's reading during the operation, a fresh identifier and a new
  secret are arguments.
\<close>

section \<open>Rights\<close>

definition check_editor :: "actor \<Rightarrow> entity \<Rightarrow> store_err + unit" where
  "check_editor a ent =
     (if ac_role a = ''admin'' then Inr ()
      else if ac_role a = ''household'' \<and> f_household_editable (e_flags ent) = Some True then Inr ()
      else Inl (Forbidden (''this role may not edit '' @ quoted (e_id ent))))"

definition check_admin :: "actor \<Rightarrow> string \<Rightarrow> store_err + unit" where
  "check_admin a why = require (ac_role a = ''admin'') (Forbidden why)"

definition check_runner :: "actor \<Rightarrow> entity \<Rightarrow> store_err + unit" where
  "check_runner a ent =
     (if ac_role a \<noteq> ''admin'' \<and> ac_role a \<noteq> ''household'' then Inl (Forbidden ''this role may not start timed runs'')
      else require (e_kind ent = Plug) (Forbidden ''timed runs apply to plugs only''))"

section \<open>Schedules and guardrails\<close>

definition set_sched :: "string \<Rightarrow> (sched_row \<Rightarrow> sched_row) \<Rightarrow> db \<Rightarrow> db" where
  "set_sched eid f st = st\<lparr>db_schedules := map (\<lambda>r. if sc_entity r = eid then f r else r) (db_schedules st)\<rparr>"

definition version_rules :: "int \<Rightarrow> rule list \<Rightarrow> json" where
  "version_rules v rs = JObj [(''version'', JInt v), (''rules'', rules_json rs)]"

definition put_schedule :: "dtime \<Rightarrow> actor \<Rightarrow> string \<Rightarrow> json \<Rightarrow> int \<Rightarrow> string \<Rightarrow> db \<Rightarrow> store_err + (db \<times> bool)" where
  "put_schedule now a eid rules if_match action st =
     bind_res (entity_of st eid) (\<lambda>ent.
     bind_res (check_editor a ent) (\<lambda>_.
     bind_res (schedule_of st eid) (\<lambda>cur.
     bind_res (require (if_match = sc_version cur) (Conflict cur)) (\<lambda>_.
     bind_res (lift_py (validate_rules (e_kind ent) (e_guardrails ent) rules)) (\<lambda>(rs, probs).
     bind_res (require_none probs) (\<lambda>_.
       if rs = sc_rules cur then Inr (st, False)
       else let ver = sc_version cur + 1
         in Inr (audit_st now a action (Some eid) (version_rules (sc_version cur) (sc_rules cur)) (version_rules ver rs)
                   (set_sched eid (\<lambda>r. r\<lparr>sc_version := ver, sc_rules := rs, sc_updated := stored now\<rparr>) st), True)))))))"

definition undo_row :: "db \<Rightarrow> string \<Rightarrow> audit_row option" where
  "undo_row st eid = (case filter (\<lambda>r. a_action r \<in> {''update'', ''undo'', ''import''}) (audit_list (Some eid) 200 None (db_audit st)) of
     [] \<Rightarrow> None | r # rs \<Rightarrow> if a_action r = ''import'' then None else Some r)"

definition field_of :: "json \<Rightarrow> string \<Rightarrow> json" where
  "field_of v k = (case v of JObj f \<Rightarrow> jget f k | _ \<Rightarrow> JNull)"

definition undo :: "dtime \<Rightarrow> actor \<Rightarrow> string \<Rightarrow> db \<Rightarrow> store_err + (db \<times> bool)" where
  "undo now a eid st =
     bind_res (entity_of st eid) (\<lambda>ent.
     bind_res (check_editor a ent) (\<lambda>_.
     case undo_row st eid of
       None \<Rightarrow> Inl (NotFound (''nothing to undo for '' @ quoted eid))
     | Some r \<Rightarrow>
         bind_res (require (ac_role a = ''admin'' \<or> field_of (a_actor r) ''token'' = JStr (ac_token a))
           (Forbidden ''a household token may undo only its own changes'')) (\<lambda>_.
         bind_res (schedule_of st eid) (\<lambda>cur.
           put_schedule now a eid (field_of (a_before r) ''rules'') (sc_version cur) ''undo'' st))))"

definition set_entity :: "string \<Rightarrow> (entity \<Rightarrow> entity) \<Rightarrow> db \<Rightarrow> db" where
  "set_entity eid f st = st\<lparr>db_entities :=
     map (\<lambda>r. if e_id (en_entity r) = eid then r\<lparr>en_entity := f (en_entity r)\<rparr> else r) (db_entities st)\<rparr>"

definition prefixed :: "string \<Rightarrow> problem list \<Rightarrow> problem list" where
  "prefixed s ps = map (\<lambda>p. p\<lparr>p_message := s @ p_message p\<rparr>) ps"

definition set_guardrails :: "dtime \<Rightarrow> actor \<Rightarrow> string \<Rightarrow> json \<Rightarrow> db \<Rightarrow> store_err + (db \<times> bool)" where
  "set_guardrails now a eid gv st =
     bind_res (check_admin a ''guardrails are admin-only'') (\<lambda>_.
     bind_res (entity_of st eid) (\<lambda>ent.
     case validate_guardrails (e_kind ent) gv of (g, probs) \<Rightarrow>
     bind_res (require_none probs) (\<lambda>_.
     bind_res (schedule_of st eid) (\<lambda>cur.
     bind_res (lift_py (validate_rules (e_kind ent) g (rules_json (sc_rules cur)))) (\<lambda>(rs, rp).
     bind_res (require_none (prefixed ''the current schedule would violate the new guardrails: '' rp)) (\<lambda>_.
       if g = e_guardrails ent then Inr (st, False)
       else Inr (audit_st now a ''guardrails'' (Some eid) (guardrails_json (e_guardrails ent)) (guardrails_json g)
                   (set_entity eid (\<lambda>e. e\<lparr>e_guardrails := g\<rparr>) st), True)))))))"

section \<open>Entities\<close>

definition max_position :: "db \<Rightarrow> int" where \<comment> \<open>\<open>COALESCE(MAX(position), 0)\<close>\<close>
  "max_position st = (case map en_position (db_entities st) of [] \<Rightarrow> 0 | p # ps \<Rightarrow> foldl max p ps)"

definition ha_name_body :: "string \<Rightarrow> string \<Rightarrow> bool" where
  "ha_name_body domain s \<longleftrightarrow> starts_with (domain @ ''.'') s
     \<and> (let t = drop (length domain + 1) s in t \<noteq> [] \<and> length t \<le> 60 \<and> list_all is_word_low t)"

definition new_entity_problems :: "entity list \<Rightarrow> string \<Rightarrow> string \<Rightarrow> problem list" where
  "new_entity_problems ents eid target = concat (map (\<lambda>e.
     (if e_id e = eid then [prob ''duplicate'' ''id'' (''an entity '' @ eid @ '' already exists'')] else [])
     @ (if e_ha_target e = Some target
        then [prob ''duplicate'' ''ha_target'' (target @ '' is already the switch of '' @ e_id e)] else [])) ents)"

definition insert_entity :: "dtime \<Rightarrow> entity \<Rightarrow> rule list \<Rightarrow> db \<Rightarrow> db" where
  "insert_entity now ent rs st = st\<lparr>
     db_entities := db_entities st @ [\<lparr>en_entity = ent, en_position = max_position st + 1\<rparr>],
     db_schedules := db_schedules st @ [\<lparr>sc_entity = e_id ent, sc_version = 1, sc_rules = rs, sc_updated = stored now\<rparr>]\<rparr>"

definition add_plug :: "dtime \<Rightarrow> actor \<Rightarrow> string \<Rightarrow> string \<Rightarrow> string \<Rightarrow> string \<Rightarrow> kind \<Rightarrow> db \<Rightarrow> store_err + db" where
  "add_plug now a eid name target like k st =
     bind_res (check_admin a ''adding an entity is admin-only'') (\<lambda>_.
     bind_res (require_none (if renderable k then [] else [prob ''kind'' ''kind'' ''kind must be plug or vacuum_plan''])) (\<lambda>_.
       let domain = (if k = Plug then ''switch'' else ''script''); nm = py_strip name;
           src = find (\<lambda>e. e_id e = like \<and> e_kind e = k) (entities st);
           probs = (if dollar entity_id_body eid then [] else [prob ''format'' ''id'' ''id must match [a-z][a-z0-9_]{0,39}''])
             @ (if nm \<noteq> [] \<and> length nm \<le> 80 then [] else [prob ''format'' ''name'' ''name must be 1..80 characters''])
             @ (if dollar (ha_name_body domain) target then []
                else [prob ''format'' ''ha_target'' (''ha_target must be a Home Assistant '' @ domain @ '' entity id ('' @ domain @ ''.something)'')])
             @ new_entity_problems (entities st) eid target
             @ (if src = None then [prob ''like'' ''like''
                  (''like must name an existing '' @ kind_name k @ '' entity to copy windows and guardrails from'')] else [])
       in bind_res (require_none probs) (\<lambda>_.
          let e0 = the src in
          bind_res (schedule_of st (e_id e0)) (\<lambda>s.
            let ent = \<lparr>e_id = eid, e_kind = k, e_name = nm, e_ha_target = Some target, e_managed = False,
                  e_flags = e_flags e0, e_guardrails = e_guardrails e0, e_meta = []\<rparr>
            in Inr (audit_st now a ''entity_add'' (Some eid) JNull
                 (JObj [(''kind'', JStr (kind_name k)), (''name'', JStr nm), (''ha_target'', JStr target), (''like'', JStr like),
                    (''guardrails'', guardrails_json (e_guardrails e0)), (''flags'', flags_json (e_flags e0)),
                    (''rules'', rules_json (sc_rules s))])
                 (insert_entity now ent (sc_rules s) st))))))"

definition or_else :: "'a option \<Rightarrow> 'a option \<Rightarrow> 'a option" where
  "or_else x y = (case x of None \<Rightarrow> y | Some v \<Rightarrow> Some v)"

definition merge_flags :: "flags \<Rightarrow> flags \<Rightarrow> flags" where \<comment> \<open>\<open>{**old, **new}\<close>\<close>
  "merge_flags old new = \<lparr>f_household_editable = or_else (f_household_editable new) (f_household_editable old),
     f_guardrails_proposed = or_else (f_guardrails_proposed new) (f_guardrails_proposed old)\<rparr>"

definition patch_name :: "fields \<Rightarrow> entity \<Rightarrow> entity \<times> problem list" where
  "patch_name p e = (case map_of p ''name'' of None \<Rightarrow> (e, [])
     | Some (JStr s) \<Rightarrow> if s \<noteq> [] \<and> length s \<le> 80 then (e\<lparr>e_name := s\<rparr>, [])
         else (e, [prob ''format'' ''name'' ''name must be 1..80 characters''])
     | Some _ \<Rightarrow> (e, [prob ''format'' ''name'' ''name must be 1..80 characters'']))"

definition patch_flags :: "fields \<Rightarrow> entity \<Rightarrow> entity \<times> problem list" where
  "patch_flags p e = (case map_of p ''flags'' of None \<Rightarrow> (e, [])
     | Some v \<Rightarrow> (case validate_flags v of (fl, fp) \<Rightarrow> (e\<lparr>e_flags := merge_flags (e_flags e) fl\<rparr>, fp)))"

definition patch_managed :: "fields \<Rightarrow> entity \<Rightarrow> entity \<times> problem list" where
  "patch_managed p e = (case map_of p ''managed'' of None \<Rightarrow> (e, [])
     | Some (JBool b) \<Rightarrow>
         if b \<and> \<not> renderable (e_kind e)
         then (e, [prob ''kind'' ''managed'' ''this kind of entity is modelled only, it cannot be rendered in this step''])
         else if b \<and> (e_ha_target e = None \<or> e_ha_target e = Some [])
         then (e, [prob ''required'' ''managed'' ''the entity has no ha_target''])
         else (e\<lparr>e_managed := b\<rparr>, [])
     | Some _ \<Rightarrow> (e, [prob ''type'' ''managed'' ''managed must be true or false'']))"

definition patch_target :: "entity list \<Rightarrow> fields \<Rightarrow> entity \<Rightarrow> entity \<times> problem list" where
  "patch_target ents p e = (let bad = (e, [prob ''format'' ''ha_target'' ''ha_target must be switch.something and only a plug has one'']) in
     case map_of p ''ha_target'' of None \<Rightarrow> (e, [])
     | Some (JStr t) \<Rightarrow>
         if e_kind e \<noteq> Plug \<or> \<not> dollar (ha_name_body ''switch'') t then bad
         else if list_ex (\<lambda>x. e_id x \<noteq> e_id e \<and> e_ha_target x = Some t) ents
         then (e, [prob ''duplicate'' ''ha_target'' (t @ '' is already the switch of another entity'')])
         else (e\<lparr>e_ha_target := Some t\<rparr>, [])
     | Some _ \<Rightarrow> bad)"

definition settings_json :: "entity \<Rightarrow> json" where
  "settings_json e = JObj [(''name'', JStr (e_name e)), (''flags'', flags_json (e_flags e)),
     (''managed'', JBool (e_managed e)), (''ha_target'', jopt JStr (e_ha_target e))]"

text \<open>The checks of \<open>patch_entity\<close> look at the stored entity, the changes are collected.\<close>

definition patched :: "entity list \<Rightarrow> fields \<Rightarrow> entity \<Rightarrow> entity \<times> problem list" where
  "patched ents p ent =
     (let unk = map (\<lambda>k. prob ''unknown_key'' k (''unknown field '' @ quoted k))
                  (filter (\<lambda>k. k \<notin> {''name'', ''flags'', ''managed'', ''ha_target''}) (jkeys p));
          (e1, p1) = patch_name p ent; (e2, p2) = patch_flags p e1;
          (e3, p3) = patch_managed p ent; (e4, p4) = patch_target ents p ent
      in (e2\<lparr>e_managed := e_managed e3, e_ha_target := e_ha_target e4\<rparr>, unk @ p1 @ p2 @ p3 @ p4))"

definition patch_entity :: "dtime \<Rightarrow> actor \<Rightarrow> string \<Rightarrow> fields \<Rightarrow> db \<Rightarrow> store_err + (db \<times> bool)" where
  "patch_entity now a eid p st =
     bind_res (check_admin a ''entity settings are admin-only'') (\<lambda>_.
     bind_res (entity_of st eid) (\<lambda>ent.
     case patched (entities st) p ent of (new, probs) \<Rightarrow>
     bind_res (require_none probs) (\<lambda>_.
       if new = ent then Inr (st, False)
       else Inr (audit_st now a ''entity'' (Some eid) (settings_json ent) (settings_json new)
                   (set_entity eid (\<lambda>e. new) st), True))))"

text \<open>\<open>seed\<close>: the first import; a duplicate id violates the primary key.\<close>

record seed_entity =
  sw_id :: string
  sw_kind :: kind
  sw_name :: string
  sw_ha_target :: "string option"
  sw_managed :: bool
  sw_flags :: json
  sw_guardrails :: json
  sw_rules :: json

definition seed_one :: "dtime \<Rightarrow> actor \<Rightarrow> db \<Rightarrow> nat \<times> seed_entity \<Rightarrow> store_err + db" where
  "seed_one now a st x = (case x of (pos, w) \<Rightarrow>
     (case (validate_guardrails (sw_kind w) (sw_guardrails w), validate_flags (sw_flags w)) of ((g, gp), (fl, fp)) \<Rightarrow>
      bind_res (lift_py (validate_rules (sw_kind w) g (sw_rules w))) (\<lambda>(rs, rp).
      bind_res (require_none (prefixed (sw_id w @ '': '') (gp @ fp @ rp
        @ (if \<not> dollar entity_id_body (sw_id w) \<or> \<not> known_kind (sw_kind w)
           then [prob ''format'' ''id/kind'' ''bad entity id or kind''] else [])))) (\<lambda>_.
      bind_res (require (list_all (\<lambda>r. e_id (en_entity r) \<noteq> sw_id w) (db_entities st)) (Raised IntegrityError)) (\<lambda>_.
        Inr (audit_st now a ''import'' (Some (sw_id w)) JNull
          (JObj [(''entity'', JObj [(''kind'', JStr (kind_name (sw_kind w))), (''name'', JStr (sw_name w)), (''ha_target'', jopt JStr (sw_ha_target w))]),
             (''guardrails'', guardrails_json g), (''flags'', flags_json fl), (''rules'', rules_json rs)])
          (st\<lparr>db_entities := db_entities st @ [\<lparr>en_entity = \<lparr>e_id = sw_id w, e_kind = sw_kind w, e_name = sw_name w,
                  e_ha_target = sw_ha_target w, e_managed = sw_managed w, e_flags = fl, e_guardrails = g, e_meta = []\<rparr>,
                en_position = int pos\<rparr>],
              db_schedules := db_schedules st @ [\<lparr>sc_entity = sw_id w, sc_version = 1, sc_rules = rs, sc_updated = stored now\<rparr>]\<rparr>)))))))"

definition seed :: "dtime \<Rightarrow> actor \<Rightarrow> seed_entity list \<Rightarrow> db \<Rightarrow> store_err + (db \<times> nat)" where
  "seed now a ws st =
     bind_res (require (db_entities st = [])
       (Forbidden ''the database already holds entities; seed is for an empty database only'')) (\<lambda>_.
     bind_res (fold_res (seed_one now a) st (zip [0..<length ws] ws)) (\<lambda>st'. Inr (st', length ws)))"

end
