(* ===== verification/Store_Runs.thy ===== *)
theory Store_Runs
  imports Store_Ops
begin

text \<open>
  The other writes of \<open>store.py\<close>: skipped dates, timed runs, tokens and the applier's results.
\<close>

section \<open>Skipped dates\<close>

definition add_exception :: "dtime \<Rightarrow> string \<Rightarrow> actor \<Rightarrow> string \<Rightarrow> fields \<Rightarrow> int \<Rightarrow> db \<Rightarrow> store_err + (db \<times> string)" where
  "add_exception now fresh a eid body today st =
     bind_res (entity_of st eid) (\<lambda>ent.
     bind_res (require (e_kind ent \<noteq> Child_window) (Forbidden ''a child device has its own exceptions: POST /v1/child/{id}/exceptions'')) (\<lambda>_.
     bind_res (check_editor a ent) (\<lambda>_.
     case validate_exception body today of (d, probs) \<Rightarrow>
     bind_res (require_none probs) (\<lambda>_.
     let xid = CHR ''x'' # fresh; dd = the d in
     bind_res (require (list_all (\<lambda>r. xr_id r \<noteq> xid) (db_exceptions st)) (Raised IntegrityError)) (\<lambda>_.
       Inr (audit_st now a ''exception_add'' (Some eid) JNull
              (JObj [(''id'', JStr xid), (''kind'', JStr ''skip_date''), (''date'', JStr (iso_date dd))])
              (st\<lparr>db_exceptions := db_exceptions st @
                 [\<lparr>xr_id = xid, xr_entity = eid, xr_date = dd, xr_by = a, xr_at = stored now\<rparr>]\<rparr>), xid))))))"

definition delete_exception :: "dtime \<Rightarrow> actor \<Rightarrow> string \<Rightarrow> db \<Rightarrow> store_err + db" where
  "delete_exception now a xid st =
     (case find (\<lambda>r. xr_id r = xid) (db_exceptions st) of None \<Rightarrow> Inl (NotFound xid)
      | Some r \<Rightarrow>
          bind_res (entity_of st (xr_entity r)) (\<lambda>ent.
          bind_res (check_editor a ent) (\<lambda>_.
            Inr (audit_st now a ''exception_delete'' (Some (e_id ent))
              (JObj [(''id'', JStr xid), (''kind'', JStr ''skip_date''), (''date'', JStr (iso_date (xr_date r))),
                 (''until'', JNull), (''state'', JNull)]) JNull
              (st\<lparr>db_exceptions := filter (\<lambda>x. xr_id x \<noteq> xid) (db_exceptions st)\<rparr>)))))"

section \<open>Timed runs\<close>

definition set_run :: "string \<Rightarrow> (run_row \<Rightarrow> run_row) \<Rightarrow> db \<Rightarrow> db" where
  "set_run rid f st = st\<lparr>db_runs := map (\<lambda>r. if rr_id r = rid then f r else r) (db_runs st)\<rparr>"

text \<open>A run whose end has passed is closed: audited first, the audit's number becomes its revision.\<close>

definition close_run :: "dtime \<Rightarrow> run_row \<Rightarrow> db \<Rightarrow> db" where
  "close_run now r st =
     (let st1 = audit_st now (system_actor ''system'') ''run_expire'' (Some (rr_entity r)) (JObj [(''id'', JStr (rr_id r))])
            (JObj [(''id'', JStr (rr_id r)), (''ended_at'', JStr (iso_text (rr_ends r)))]) st
      in set_run (rr_id r) (\<lambda>q. q\<lparr>rr_status := ''ended'', rr_ended := Some (rr_ends r), rr_rev := seq_of st1\<rparr>) st1)"

definition close_over :: "dtime \<Rightarrow> string \<Rightarrow> db \<Rightarrow> db" where
  "close_over now eid st = foldl (\<lambda>s r. close_run now r s) st
     (filter (\<lambda>r. end_ts r \<le> timestamp now) (runs_of st (Some eid) True None))"

definition previous_end :: "db \<Rightarrow> string \<Rightarrow> dtime option" where
  "previous_end st eid = latest_time (map (\<lambda>r. prague_of_instant (timestamp (effective_end r) + unix_epoch))
     (filter (\<lambda>r. rr_status r \<noteq> ''active'' \<and> rr_status r \<noteq> ''withdrawn'') (runs_of st (Some eid) False None)))"

definition start_run :: "dtime \<Rightarrow> string \<Rightarrow> actor \<Rightarrow> string \<Rightarrow> json \<Rightarrow> db \<Rightarrow> store_err + (db \<times> string)" where
  "start_run now0 fresh a eid minutes st0 =
     bind_res (entity_of st0 eid) (\<lambda>ent.
     bind_res (check_runner a ent) (\<lambda>_.
     let now = stored now0; st = close_over now eid st0 in
     case runs_of st (Some eid) True None of
       r # rs \<Rightarrow> Inl (RunConflict ''run_active'' (Some r))
     | [] \<Rightarrow>
       bind_res (schedule_of st eid) (\<lambda>s.
       case validate_run ent (sc_rules s) (skips_of st eid) minutes now (previous_end st eid) None of (e, probs) \<Rightarrow>
       bind_res (require_none probs) (\<lambda>_.
       let ends = the e; rid = CHR ''r'' # fresh;
           st1 = audit_st now a ''run_start'' (Some eid) JNull (JObj [(''id'', JStr rid), (''minutes'', minutes),
                   (''started_at'', JStr (iso_text now)), (''ends_at'', JStr (iso_text ends))]) st
       in bind_res (require (list_all (\<lambda>r. rr_id r \<noteq> rid) (db_runs st)) (Raised IntegrityError)) (\<lambda>_.
          Inr (st1\<lparr>db_runs := db_runs st1 @ [\<lparr>rr_id = rid, rr_entity = eid, rr_started = now, rr_ends = stored ends,
                 rr_minutes = dt_sub ends now div 60, rr_status = ''active'', rr_ended = None, rr_by = a,
                 rr_rev = seq_of st1\<rparr>]\<rparr>, rid))))))"

definition extend_run :: "dtime \<Rightarrow> actor \<Rightarrow> string \<Rightarrow> json \<Rightarrow> db \<Rightarrow> store_err + db" where
  "extend_run now0 a rid minutes st =
     bind_res (run_of st rid) (\<lambda>r.
     bind_res (entity_of st (rr_entity r)) (\<lambda>ent.
     bind_res (check_runner a ent) (\<lambda>_.
     bind_res (require (rr_status r = ''active'') (RunConflict ''run_not_active'' (Some r))) (\<lambda>_.
     bind_res (require_none (if dt_sub (rr_ends r) (stored now0) < RUN_MIN_REMAINING_S
       then [prob ''too_late'' ''minutes'' (''less than '' @ str_int RUN_MIN_REMAINING_S @ '' s are left: Home Assistant would switch the plug off before the new end could be armed; start a new run instead'')]
       else [])) (\<lambda>_.
     bind_res (schedule_of st (rr_entity r)) (\<lambda>s.
     case validate_run ent (sc_rules s) (skips_of st (rr_entity r)) minutes (rr_ends r) None (Some (rr_started r)) of (e, probs) \<Rightarrow>
     bind_res (require_none probs) (\<lambda>_.
     let ends = the e; total = dt_sub ends (rr_started r) div 60;
         st1 = audit_st now0 a ''run_extend'' (Some (rr_entity r)) (JObj [(''id'', JStr rid), (''ends_at'', JStr (iso_text (rr_ends r)))])
           (JObj [(''id'', JStr rid), (''ends_at'', JStr (iso_text ends)), (''minutes_total'', JInt total)]) st
     in Inr (set_run rid (\<lambda>q. q\<lparr>rr_ends := stored ends, rr_minutes := total, rr_rev := seq_of st1\<rparr>) st1))))))))"

definition cancel_run :: "dtime \<Rightarrow> actor \<Rightarrow> string \<Rightarrow> bool \<Rightarrow> db \<Rightarrow> store_err + db" where
  "cancel_run now0 a rid withdraw st =
     bind_res (run_of st rid) (\<lambda>r.
     bind_res (entity_of st (rr_entity r)) (\<lambda>ent.
     bind_res (check_runner a ent) (\<lambda>_.
     let now = stored now0 in
     bind_res (require (rr_status r = ''active'' \<and> timestamp now < end_ts r) (RunConflict ''run_not_active'' (Some r))) (\<lambda>_.
     let st1 = audit_st now a (if withdraw then ''run_withdraw'' else ''run_cancel'') (Some (rr_entity r))
           (JObj [(''id'', JStr rid), (''ends_at'', JStr (iso_text (rr_ends r)))])
           (JObj [(''id'', JStr rid), (''ended_at'', JStr (iso_text now))]) st
     in Inr (set_run rid (\<lambda>q. q\<lparr>rr_status := (if withdraw then ''withdrawn'' else ''cancelled''),
               rr_ended := Some now, rr_rev := seq_of st1\<rparr>) st1)))))"

definition expire_runs :: "dtime \<Rightarrow> db \<Rightarrow> db \<times> nat" where
  "expire_runs now st =
     (let over = filter (\<lambda>r. timestamp now > end_ts r + RUN_GRACE_S) (runs_of st None True None)
      in (foldl (\<lambda>s r. close_run now r s) st over, length over))"

section \<open>Tokens\<close>

definition replace_char :: "char \<Rightarrow> char \<Rightarrow> string \<Rightarrow> string" where
  "replace_char c d s = map (\<lambda>x. if x = c then d else x) s"

definition token_name_ok :: "json \<Rightarrow> bool" where
  "token_name_ok v = (case v of JStr s \<Rightarrow> dollar var_key_body (replace_char (CHR ''-'') (CHR ''_'') s) | _ \<Rightarrow> False)"

text \<open>A JSON value bound to the text column of the expiry: lists and objects cannot be bound.\<close>

definition expires_column :: "json \<Rightarrow> store_err + string option" where
  "expires_column v = (case v of JNull \<Rightarrow> Inr None | JStr s \<Rightarrow> Inr (Some s)
     | JBool b \<Rightarrow> Inr (Some (if b then ''1'' else ''0''))
     | JInt i \<Rightarrow> if - (2 ^ 63) \<le> i \<and> i < 2 ^ 63 then Inr (Some (str_int i)) else Inl (Raised OverflowError)
     | JFloat m k \<Rightarrow> Inr (Some (float_repr m k)) | _ \<Rightarrow> Inl (Raised ProgrammingError))"

definition create_token :: "dtime \<Rightarrow> string \<Rightarrow> string \<Rightarrow> actor \<Rightarrow> json \<Rightarrow> json \<Rightarrow> json \<Rightarrow> bool \<Rightarrow> db
    \<Rightarrow> store_err + (db \<times> string \<times> string)" where
  "create_token now fresh secret a name role expires gateway st =
     bind_res (require_none (if role \<in> {JStr ''admin'', JStr ''household'', JStr ''readonly''} then []
       else [prob ''value'' ''role'' ''role must be admin, household or readonly''])) (\<lambda>_.
     bind_res (require_none (if token_name_ok name then []
       else [prob ''format'' ''name'' ''token name: lowercase letters, digits, - and _''])) (\<lambda>_.
     let tid = CHR ''t'' # fresh; nm = json_str name; rl = json_str role in
     bind_res (expires_column expires) (\<lambda>expiry.
     bind_res (require_none (if list_ex (\<lambda>t. tk_id t = tid \<or> tk_name t = nm) (db_tokens st)
       then [prob ''duplicate'' ''name'' ''a token with this name exists (revoke it first)''] else [])) (\<lambda>_.
       Inr (audit_st now a ''token_create'' None JNull
              (JObj [(''id'', JStr tid), (''name'', name), (''role'', role), (''expires'', expires), (''gateway'', JBool gateway)])
              (st\<lparr>db_tokens := db_tokens st @ [\<lparr>tk_id = tid, tk_name = nm, tk_role = rl, tk_sha256 = sha256_hex secret,
                 tk_created = stored now, tk_expires = expiry, tk_last_used = None, tk_revoked = False, tk_gateway = gateway\<rparr>]\<rparr>),
            tid, secret)))))"

definition revoke_token :: "dtime \<Rightarrow> actor \<Rightarrow> string \<Rightarrow> db \<Rightarrow> store_err + db" where
  "revoke_token now a tid st =
     (case find (\<lambda>t. tk_id t = tid \<or> tk_name t = tid) (db_tokens st) of None \<Rightarrow> Inl (NotFound tid)
      | Some t \<Rightarrow> Inr (audit_st now a ''token_revoke'' None
          (JObj [(''id'', JStr (tk_id t)), (''name'', JStr (tk_name t)), (''role'', JStr (tk_role t))]) JNull
          (st\<lparr>db_tokens := map (\<lambda>x. if tk_id x = tk_id t then x\<lparr>tk_revoked := True\<rparr> else x) (db_tokens st)\<rparr>)))"

text \<open>The last row with the hash, unless its expiry, as a text, lies before the clock's text.\<close>

definition find_token :: "dtime \<Rightarrow> string \<Rightarrow> db \<Rightarrow> token_row option" where
  "find_token now secret st =
     (let h = sha256_hex secret
      in case rev (filter (\<lambda>t. \<not> tk_revoked t \<and> tk_sha256 t = h) (db_tokens st)) of
           [] \<Rightarrow> None
         | t # ts \<Rightarrow> (case tk_expires t of
               Some e \<Rightarrow> if e \<noteq> [] \<and> e < iso_text now then None else Some t
             | None \<Rightarrow> Some t))"

definition touch_token :: "dtime \<Rightarrow> string \<Rightarrow> db \<Rightarrow> db" where
  "touch_token now tid st = st\<lparr>db_tokens :=
     map (\<lambda>x. if tk_id x = tid then x\<lparr>tk_last_used := Some (stored now)\<rparr> else x) (db_tokens st)\<rparr>"

section \<open>The applier's results\<close>

definition record_apply :: "dtime \<Rightarrow> actor \<Rightarrow> fields \<Rightarrow> db \<Rightarrow> db" where
  "record_apply now a status st =
     (audit_st now a (if jget status ''result'' = JStr ''applied'' then ''applied'' else ''not_applied'') None JNull
        (JObj [(''audit_seq'', jget status ''seq''), (''set_hash'', jget status ''set_hash''), (''detail'', jget status ''detail'')]) st)
     \<lparr>db_last_apply := Some (JList [jget status ''seq'', jget status ''result'', jget status ''at''])\<rparr>"

end
