(* ===== verification/Child_Store.thy ===== *)
theory Child_Store
  imports Store_Runs
begin

text \<open>
  \<open>child_store.py\<close>, the parents' part: reading the children's policy out of the store, the snapshot
  for the host job, time-boxed exceptions, the per-child domain lists with their undo, the cutover
  switch.
\<close>

section \<open>Reads\<close>

definition EXCEPTION_GRACE_S :: int where "EXCEPTION_GRACE_S = 120"

definition child_devices :: "db \<Rightarrow> entity list" where
  "child_devices st = filter (\<lambda>e. e_kind e = Child_window) (entities st)"

definition child_entity :: "db \<Rightarrow> string \<Rightarrow> store_err + entity" where
  "child_entity st eid = bind_res (entity_of st eid) (\<lambda>e.
     if e_kind e = Child_window then Inr e else Inl (NotFound eid))"

definition cexc_active :: "dtime \<Rightarrow> cexc_row \<Rightarrow> bool" where
  "cexc_active now x \<longleftrightarrow> ce_status x = ''active'' \<and> dt_less now (ce_expires x)"

definition child_exceptions :: "db \<Rightarrow> string option \<Rightarrow> bool \<Rightarrow> dtime \<Rightarrow> cexc_row list" where
  "child_exceptions st eid active_only now =
     filter (\<lambda>x. active_only \<longrightarrow> cexc_active now x)
       (sort_key (\<lambda>x. (ce_created x, ce_id x))
         (filter (\<lambda>x. case eid of None \<Rightarrow> True | Some e \<Rightarrow> ce_entity x = e) (db_cexc st)))"

definition child_domains :: "db \<Rightarrow> string \<Rightarrow> list_kind \<Rightarrow> string list" where
  "child_domains st eid k = sort (map dm_domain (filter (\<lambda>r. dm_entity r = eid \<and> dm_kind r = k) (db_domains st)))"

definition no_lists :: child_lists where
  "no_lists = \<lparr>l_allow_always = [], l_allow_weekdays = [], l_allow_extra = [], l_deny_extra = []\<rparr>"

definition child_house_lists :: "db \<Rightarrow> child_lists \<times> string list" where
  "child_house_lists st = (case db_lists st of None \<Rightarrow> (no_lists, []) | Some x \<Rightarrow> x)"

definition child_status_of :: "db \<Rightarrow> string \<Rightarrow> dtime \<Rightarrow> store_err + child_status_view" where
  "child_status_of st eid now =
     bind_res (child_entity st eid) (\<lambda>_.
     bind_res (schedule_of st eid) (\<lambda>s.
       Inr (child_status (sc_rules s)
         (map (\<lambda>x. (ce_target x, ce_expires x)) (child_exceptions st (Some eid) True now)) now)))"

definition meta_text :: "entity \<Rightarrow> string \<Rightarrow> string" where
  "meta_text e k = json_str (jget (e_meta e) k)"

definition child_device_of :: "db \<Rightarrow> entity \<Rightarrow> store_err + child_device" where
  "child_device_of st e = bind_res (schedule_of st (e_id e)) (\<lambda>s.
     Inr \<lparr>cd_id = e_id e, cd_name = e_name e, cd_ip = meta_text e ''ip'', cd_mac = meta_text e ''mac'',
          cd_rules = sc_rules s, cd_allow_extra = child_domains st (e_id e) Allow,
          cd_deny_extra = child_domains st (e_id e) Deny\<rparr>)"

definition child_policy_of :: "db \<Rightarrow> store_err + child_policy" where
  "child_policy_of st = bind_res (map_res (child_device_of st) (child_devices st)) (\<lambda>devs.
     case child_house_lists st of (ls, svc) \<Rightarrow>
       Inr \<lparr>cp_devices = devs, cp_lists = ls, cp_always_services = svc\<rparr>)"

section \<open>The snapshot of the host job\<close>

definition cexc_json :: "cexc_row \<Rightarrow> json" where
  "cexc_json x = JObj [(''id'', JStr (ce_id x)), (''target'', JStr (ce_target x)), (''created_at'', JStr (ce_created x)),
     (''expires_at'', JStr (iso_text (ce_expires x))), (''expires_ts'', JInt (timestamp (ce_expires x))),
     (''created_by'', shown_name (ce_by x))]"

definition snap_device_of :: "db \<Rightarrow> dtime \<Rightarrow> entity \<Rightarrow> store_err + snap_device" where
  "snap_device_of st now e = bind_res (schedule_of st (e_id e)) (\<lambda>s.
     Inr \<lparr>sd_id = JStr (e_id e), sd_ip = jget (e_meta e) ''ip'', sd_name = JStr (e_name e),
          sd_guardrails = e_guardrails e, sd_rules = rules_json (sc_rules s),
          sd_allow_extra = map JStr (child_domains st (e_id e) Allow),
          sd_deny_extra = map JStr (child_domains st (e_id e) Deny),
          sd_exceptions = map cexc_json (child_exceptions st (Some (e_id e)) True now)\<rparr>)"

definition child_snapshot :: "db \<Rightarrow> dtime \<Rightarrow> store_err + snapshot" where
  "child_snapshot st now = bind_res (map_res (snap_device_of st now) (child_devices st)) (\<lambda>devs.
     case child_house_lists st of (ls, svc) \<Rightarrow>
       Inr \<lparr>sn_schema = JInt 1, sn_devices = devs, sn_allow_always = sort (l_allow_always ls), sn_always_services = sort svc\<rparr>)"

text \<open>
  \<open>_publish_child\<close>: nothing to publish without a device, the problems of a snapshot that breaks an
  invariant, or the snapshot that is written.
\<close>

datatype child_publication = Nothing | Refused "snap_problem list" | Written snapshot

definition publish_child :: "db \<Rightarrow> dtime \<Rightarrow> store_err + child_publication" where
  "publish_child st now =
     (if child_devices st = [] then Inr Nothing
      else bind_res (child_snapshot st now) (\<lambda>s.
           bind_res (lift_py (verify_snapshot s)) (\<lambda>ps.
             Inr (if ps = [] then Written s else Refused ps))))"

section \<open>Exceptions\<close>

definition add_child_exception :: "dtime \<Rightarrow> string \<Rightarrow> actor \<Rightarrow> string \<Rightarrow> string \<Rightarrow> json \<Rightarrow> bool \<Rightarrow> db
    \<Rightarrow> store_err + (db \<times> string)" where
  "add_child_exception now0 fresh a eid target minutes until_eod st =
     bind_res (child_entity st eid) (\<lambda>ent.
     bind_res (check_editor a ent) (\<lambda>_.
     let now = stored now0 in
     bind_res (lift_py (validate_child_exception (e_guardrails ent) target minutes until_eod now)) (\<lambda>(e, probs).
     bind_res (require_none probs) (\<lambda>_.
     let expires = the e; xid = CHR ''c'' # fresh;
         old = map ce_id (filter (\<lambda>x. ce_target x = target) (child_exceptions st (Some eid) True now));
         rows = map (\<lambda>x. if ce_id x \<in> set old then x\<lparr>ce_status := ''replaced'', ce_ended := Some now\<rparr> else x) (db_cexc st)
     in bind_res (require (list_all (\<lambda>x. ce_id x \<noteq> xid) (db_cexc st)) (Raised IntegrityError)) (\<lambda>_.
        Inr (audit_st now a ''child_exception_add'' (Some eid) JNull
               (JObj [(''id'', JStr xid), (''target'', JStr target), (''expires_at'', JStr (iso_text expires)),
                  (''minutes'', minutes), (''until_end_of_day'', JBool until_eod)])
               (st\<lparr>db_cexc := rows @ [\<lparr>ce_id = xid, ce_entity = eid, ce_target = target, ce_created = iso_text now,
                  ce_expires = stored expires, ce_by = a, ce_status = ''active'', ce_ended = None\<rparr>]\<rparr>), xid))))))"

definition set_cexc :: "string \<Rightarrow> string \<Rightarrow> (cexc_row \<Rightarrow> dtime) \<Rightarrow> db \<Rightarrow> db" where
  "set_cexc xid status ended st = st\<lparr>db_cexc :=
     map (\<lambda>x. if ce_id x = xid then x\<lparr>ce_status := status, ce_ended := Some (ended x)\<rparr> else x) (db_cexc st)\<rparr>"

definition cancel_child_exception :: "dtime \<Rightarrow> actor \<Rightarrow> string \<Rightarrow> string \<Rightarrow> db \<Rightarrow> store_err + db" where
  "cancel_child_exception now0 a eid xid st =
     bind_res (child_entity st eid) (\<lambda>ent.
     bind_res (check_editor a ent) (\<lambda>_.
     let now = stored now0 in
     case find (\<lambda>x. ce_id x = xid \<and> ce_entity x = eid) (db_cexc st) of
       None \<Rightarrow> Inl (NotFound xid)
     | Some x \<Rightarrow>
         bind_res (require (cexc_active now x) (NotFound xid)) (\<lambda>_.
           Inr (audit_st now a ''child_exception_cancel'' (Some eid)
             (JObj [(''id'', JStr xid), (''target'', JStr (ce_target x)), (''expires_at'', JStr (iso_text (ce_expires x)))])
             (JObj [(''id'', JStr xid), (''ended_at'', JStr (iso_text now))])
             (set_cexc xid ''cancelled'' (\<lambda>_. now) st)))))"

definition expire_cexc :: "dtime \<Rightarrow> db \<Rightarrow> cexc_row \<Rightarrow> db" where
  "expire_cexc now st x = set_cexc (ce_id x) ''expired'' ce_expires
     (audit_st now (system_actor ''system'') ''child_exception_expire'' (Some (ce_entity x))
       (JObj [(''id'', JStr (ce_id x)), (''target'', JStr (ce_target x))]) (JObj [(''id'', JStr (ce_id x))]) st)"

definition expire_child_exceptions :: "dtime \<Rightarrow> db \<Rightarrow> db \<times> nat" where
  "expire_child_exceptions now0 st =
     (let now = stored now0;
          over = filter (\<lambda>x. ce_status x = ''active'' \<and> dt_less (dt_add (ce_expires x) EXCEPTION_GRACE_S) now)
            (child_exceptions st None False now)
      in (foldl (expire_cexc now) st over, length over))"

section \<open>Domain lists\<close>

definition lists_json :: "db \<Rightarrow> string \<Rightarrow> json" where
  "lists_json st eid = JObj [(''allow'', JList (map JStr (child_domains st eid Allow))),
     (''deny'', JList (map JStr (child_domains st eid Deny)))]"

definition kind_text :: "list_kind \<Rightarrow> string" where
  "kind_text k = (case k of Allow \<Rightarrow> ''allow'' | Deny \<Rightarrow> ''deny'')"

definition other_kind :: "list_kind \<Rightarrow> list_kind" where
  "other_kind k = (case k of Allow \<Rightarrow> Deny | Deny \<Rightarrow> Allow)"

definition parse_kind :: "string \<Rightarrow> list_kind option" where
  "parse_kind s = (if s = ''allow'' then Some Allow else if s = ''deny'' then Some Deny else None)"

definition normal_domain :: "json \<Rightarrow> string" where
  "normal_domain v = (case v of JStr s \<Rightarrow> rstrip_by (\<lambda>c. c = CHR ''.'') (py_lower (py_strip s)) | _ \<Rightarrow> [])"

definition drop_domain :: "string \<Rightarrow> list_kind \<Rightarrow> string \<Rightarrow> dom_row list \<Rightarrow> dom_row list" where
  "drop_domain eid k d rows = filter (\<lambda>r. \<not> (dm_entity r = eid \<and> dm_kind r = k \<and> dm_domain r = d)) rows"

definition change_child_domain :: "dtime \<Rightarrow> actor \<Rightarrow> string \<Rightarrow> string \<Rightarrow> json \<Rightarrow> bool \<Rightarrow> db \<Rightarrow> store_err + db" where
  "change_child_domain now a eid kd domain add st =
     (case parse_kind kd of None \<Rightarrow> Inl (ValidationError [prob ''kind'' ''kind'' ''kind must be allow or deny''])
      | Some k \<Rightarrow>
        let d = normal_domain domain in
        bind_res (require_none (if domain_re d then [] else [prob ''domain'' ''domain'' (''not a plain domain name: '' @ quoted d)])) (\<lambda>_.
        bind_res (require_none (if k = Deny \<and> add then (case deny_breaks_baseline d of None \<Rightarrow> []
            | Some h \<Rightarrow> [prob ''invariant'' ''domain'' (''blocking '' @ d @ '' would block the always-on host '' @ h @ '': the always-on list cannot be removed'')])
          else [])) (\<lambda>_.
        bind_res (child_entity st eid) (\<lambda>ent.
        bind_res (check_editor a ent) (\<lambda>_.
        let present = d \<in> set (child_domains st eid k);
            change = JObj [(''kind'', JStr kd), (''domain'', JStr d), (''add'', JBool add)];
            finish = (\<lambda>rows. let st1 = st\<lparr>db_domains := rows\<rparr>
              in Inr (audit_st now a (if add then ''child_domain_add'' else ''child_domain_remove'') (Some eid)
                   (JObj [(''lists'', lists_json st eid), (''change'', change)]) (JObj [(''lists'', lists_json st1 eid)]) st1))
        in if add then
             (if present then Inr st
              else finish (drop_domain eid (other_kind k) d (db_domains st) @ [\<lparr>dm_entity = eid, dm_kind = k, dm_domain = d\<rparr>]))
           else if present then finish (drop_domain eid k d (db_domains st))
           else Inl (NotFound d))))))"

text \<open>The lists written in an audit row.\<close>

definition str_list :: "json \<Rightarrow> string list" where
  "str_list v = (case v of JList xs \<Rightarrow> map json_str xs | _ \<Rightarrow> [])"

definition domain_rows :: "string \<Rightarrow> list_kind \<Rightarrow> string list \<Rightarrow> dom_row list" where
  "domain_rows eid k ds = map (\<lambda>d. \<lparr>dm_entity = eid, dm_kind = k, dm_domain = d\<rparr>) ds"

definition undo_child_domain :: "dtime \<Rightarrow> actor \<Rightarrow> string \<Rightarrow> db \<Rightarrow> store_err + db" where
  "undo_child_domain now a eid st =
     bind_res (child_entity st eid) (\<lambda>ent.
     bind_res (check_editor a ent) (\<lambda>_.
     case filter (\<lambda>r. a_action r \<in> {''child_domain_add'', ''child_domain_remove'', ''child_domain_undo''})
            (audit_list (Some eid) 200 None (db_audit st)) of
       [] \<Rightarrow> Inl (NotFound (''nothing to undo for '' @ quoted eid))
     | r # rs \<Rightarrow>
         let want = field_of (a_before r) ''lists'';
             rows = filter (\<lambda>x. dm_entity x \<noteq> eid) (db_domains st)
               @ domain_rows eid Allow (str_list (field_of want ''allow''))
               @ domain_rows eid Deny (str_list (field_of want ''deny''))
         in Inr (audit_st now a ''child_domain_undo'' (Some eid)
              (JObj [(''lists'', field_of (a_after r) ''lists'')]) (JObj [(''lists'', want)]) (st\<lparr>db_domains := rows\<rparr>))))"

section \<open>The cutover switch\<close>

definition set_child_cutover :: "dtime \<Rightarrow> actor \<Rightarrow> bool \<Rightarrow> string \<Rightarrow> db \<Rightarrow> store_err + db" where
  "set_child_cutover now a d note st =
     bind_res (check_admin a ''the cutover switch is admin-only'') (\<lambda>_.
       Inr (audit_st now a (if d then ''child_cutover'' else ''child_cutover_rollback'') None JNull (JObj [(''note'', JStr note)])
         (st\<lparr>db_cutover := (if d then Some (JObj [(''at'', JStr (iso_text now)), (''note'', JStr note)]) else None)\<rparr>)))"

end
