(* ===== verification/Child_Admin.thy ===== *)
theory Child_Admin
  imports Child_Store
begin

text \<open>
  \<open>child_store.py\<close>, the administrator's part: the import of the running policy, the migration that
  made Maps always open, and the set of child devices (add, rename, remove with an undo of 24 hours,
  restore).  \<open>fresh\<close> numbers the identifiers an operation draws; \<open>fromiso\<close> is
  \<open>datetime.fromisoformat\<close> on the texts of the old runtime file (wall seconds and offset).
\<close>

section \<open>Import\<close>

definition PROPOSED_GUARDRAILS :: guardrails where
  "PROPOSED_GUARDRAILS = no_guardrails\<lparr>g_allowed_from := Some ''08:00'', g_allowed_to := Some ''21:00'',
     g_max_open_minutes_per_day := Some 240\<rparr>"

definition CHILD_FLAGS :: flags where
  "CHILD_FLAGS = \<lparr>f_household_editable = Some True, f_guardrails_proposed = Some False\<rparr>"

definition guards_or_proposed :: "entity option \<Rightarrow> guardrails" where
  "guards_or_proposed old = (case old of Some e \<Rightarrow> if e_guardrails e \<noteq> no_guardrails then e_guardrails e else PROPOSED_GUARDRAILS
     | None \<Rightarrow> PROPOSED_GUARDRAILS)"

definition flags_or_default :: "entity option \<Rightarrow> flags" where
  "flags_or_default old = (case old of Some e \<Rightarrow> if e_flags e \<noteq> no_flags then e_flags e else CHILD_FLAGS
     | None \<Rightarrow> CHILD_FLAGS)"

definition jget_or :: "fields \<Rightarrow> string \<Rightarrow> json \<Rightarrow> json" where \<comment> \<open>\<open>d.get(k, default)\<close>\<close>
  "jget_or f k v = (case map_of f k of None \<Rightarrow> v | Some x \<Rightarrow> x)"

record new_device =
  nd_id :: string
  nd_name :: string
  nd_ip :: string
  nd_mac :: string
  nd_rules :: "rule list"
  nd_guard :: guardrails
  nd_flags :: flags
  nd_allow :: "string list"
  nd_deny :: "string list"

text \<open>\<open>sorted(set((d.get(kind) or []) + lists.get(kind, [])))\<close>: anything but a list of strings raises.\<close>

definition extra_list :: "json \<Rightarrow> string list \<Rightarrow> py_exn + string list" where
  "extra_list v house = (if \<not> truthy v then Inr (sorted_set house)
     else case v of JList xs \<Rightarrow> if list_all is_jstr xs then Inr (sorted_set (map json_str xs @ house)) else Inl TypeError
        | _ \<Rightarrow> Inl TypeError)"

type_synonym import_state = "problem list \<times> string list \<times> new_device list \<times> (string \<times> string) list"

definition domain_problems :: "string \<Rightarrow> string \<Rightarrow> string list \<Rightarrow> problem list" where
  "domain_problems eid k ds = (if list_all domain_re ds then []
     else [prob ''domains'' (''devices.'' @ k) (eid @ '': '' @ k @ '' must be plain domain names'')])"

definition deny_problems_of :: "string \<Rightarrow> string list \<Rightarrow> problem list" where
  "deny_problems_of eid ds = concat (map (\<lambda>x. if deny_breaks_baseline x = None then []
     else [prob ''invariant'' ''devices.deny_extra'' (eid @ '': blocking '' @ x @ '' would block an always-on host'')]) ds)"

definition import_fields :: "db \<Rightarrow> child_lists \<Rightarrow> string \<Rightarrow> fields \<Rightarrow> py_exn + (problem list \<times> new_device)" where
  "import_fields st ls eid d =
     (let old = find (\<lambda>e. e_id e = eid) (child_devices st);
          guard = guards_or_proposed old; flags = flags_or_default old
      in bind_res (validate_rules Child_window guard (jget_or d ''rules'' (JList []))) (\<lambda>(rs, rp).
         bind_res (extra_list (jget d ''allow_extra'') (l_allow_extra ls)) (\<lambda>al.
         bind_res (extra_list (jget d ''deny_extra'') (l_deny_extra ls)) (\<lambda>dn.
         Inr (prefixed (eid @ '': '') rp @ domain_problems eid ''allow_extra'' al
                @ domain_problems eid ''deny_extra'' dn @ deny_problems_of eid dn,
              \<lparr>nd_id = eid, nd_name = json_str (jget d ''name''), nd_ip = json_str (jget d ''ip''),
                 nd_mac = py_lower (json_str (jget d ''mac'')), nd_rules = rs, nd_guard = guard, nd_flags = flags,
                 nd_allow = al, nd_deny = dn\<rparr>)))))"

definition import_device :: "db \<Rightarrow> child_lists \<Rightarrow> import_state \<Rightarrow> json \<Rightarrow> py_exn + import_state" where
  "import_device st ls acc dv = (case acc of (probs, seen, devs, by_ip) \<Rightarrow>
     bind_res (validate_device dv) (\<lambda>dp.
     if dp \<noteq> [] then Inr (probs @ dp, seen, devs, by_ip)
     else case dv of
       JObj d \<Rightarrow>
         (let eid = json_str (jget d ''id'') in
          if \<not> dollar entity_id_body eid \<or> eid \<in> set seen
          then Inr (probs @ [prob ''format'' ''devices'' (''bad or duplicate device id '' @ quoted eid)], seen, devs, by_ip)
          else bind_res (import_fields st ls eid d) (\<lambda>(ps, nd).
            Inr (probs @ ps, eid # seen, devs @ [nd], by_ip @ [(nd_ip nd, eid)])))
     | _ \<Rightarrow> Inl TypeError))"

text \<open>An exception of the old file: entity, target, text of its creation, end.\<close>

type_synonym old_exception = "string \<times> string \<times> json \<times> dtime"

definition zoned :: "int \<times> int option \<Rightarrow> dtime" where
  "zoned x = (case x of (w, None) \<Rightarrow> Prague w False | (w, Some off) \<Rightarrow> Fixed w off)"

definition import_exception :: "(string \<Rightarrow> (int \<times> int option) option) \<Rightarrow> dtime \<Rightarrow> (string \<times> string) list
    \<Rightarrow> problem list \<times> old_exception list \<Rightarrow> json \<Rightarrow> py_exn + (problem list \<times> old_exception list)" where
  "import_exception fromiso now by_ip acc xv = (case acc of (probs, exs) \<Rightarrow>
     let bad = prob ''exception'' ''exceptions'' ''an exception needs client, target and an ISO expires'';
         unknown = prob ''exception'' ''exceptions'' ''unknown client or target''
     in case xv of
          JObj x \<Rightarrow>
            (case jget x ''expires'' of
               JStr s \<Rightarrow>
                 (case fromiso s of None \<Rightarrow> Inr (probs @ [bad], exs)
                  | Some t \<Rightarrow>
                      if dt_le (zoned t) now then Inr (probs, exs)
                      else if \<not> hashable (jget x ''client'') then Inl TypeError
                      else case (jget x ''client'', jget x ''target'') of
                          (JStr c, JStr tg) \<Rightarrow>
                            (case map_of (rev by_ip) c of
                               Some eid \<Rightarrow>
                                 if tg \<in> set EXCEPTION_TARGETS
                                 then Inr (probs, exs @ [(eid, tg, jget x ''created'', zoned t)])
                                 else Inr (probs @ [unknown], exs)
                             | None \<Rightarrow> Inr (probs @ [unknown], exs))
                        | _ \<Rightarrow> Inr (probs @ [unknown], exs))
             | _ \<Rightarrow> Inr (probs @ [bad], exs))
        | _ \<Rightarrow> Inr (probs @ [bad], exs))"

text \<open>\<open>x.get("created") or now\<close> as the value bound to a text column.\<close>

definition created_text :: "dtime \<Rightarrow> json \<Rightarrow> py_exn + string" where
  "created_text now v = (if \<not> truthy v then Inr (iso_text now)
     else case v of JStr s \<Rightarrow> Inr s | JInt i \<Rightarrow> Inr (str_int i) | JBool b \<Rightarrow> Inr ''1''
       | JFloat m k \<Rightarrow> Inr (float_repr m k) | _ \<Rightarrow> Inl ProgrammingError)"

definition bad_exception :: problem where
  "bad_exception = prob ''exception'' ''exceptions'' ''an exception needs client, target and an ISO expires''"

definition import_exceptions :: "(string \<Rightarrow> (int \<times> int option) option) \<Rightarrow> dtime \<Rightarrow> (string \<times> string) list
    \<Rightarrow> problem list \<Rightarrow> json \<Rightarrow> py_exn + (problem list \<times> old_exception list)" where
  "import_exceptions fromiso now by_ip probs v =
     (if \<not> truthy v then Inr (probs, [])
      else case v of
        JList xs \<Rightarrow> fold_res (import_exception fromiso now by_ip) (probs, []) xs
      | JObj kvs \<Rightarrow> Inr (probs @ map (\<lambda>_. bad_exception) kvs, [])
      | JStr s \<Rightarrow> Inr (probs @ map (\<lambda>_. bad_exception) s, [])
      | _ \<Rightarrow> Inl TypeError)"

definition services_problems :: "json \<Rightarrow> problem list" where
  "services_problems svc =
     (let bad = [prob ''value'' ''always_services'' (''always_services may only name '' @ quoted ''telegram'')]
      in case svc of
           JList xs \<Rightarrow> if \<not> list_all (\<lambda>x. x = JStr ''telegram'') xs then bad
             else if xs = [] then [prob ''invariant'' ''always_services'' ''Telegram must stay in the always-on services (invariant)'']
             else []
         | _ \<Rightarrow> bad)"

definition missing_problems :: "child_lists \<Rightarrow> problem list" where
  "missing_problems ls = (let missing = missing_always (l_allow_always ls)
     in if missing = [] then [] else [prob ''invariant'' ''lists.allow_always''
          (''the always-on list lost required hosts: '' @ join_with '', '' (take 5 missing))])"

text \<open>What an import would store: the devices, the house-wide lists, the services, the live exceptions.\<close>

type_synonym import_plan = "new_device list \<times> child_lists \<times> string list \<times> old_exception list"

definition import_checks :: "(string \<Rightarrow> (int \<times> int option) option) \<Rightarrow> dtime \<Rightarrow> db \<Rightarrow> json \<Rightarrow> store_err + import_plan" where
  "import_checks fromiso now st payload =
     (let no_devices = Inl (ValidationError [prob ''type'' ''devices'' ''devices must be a non-empty list'']) in
      case payload of
        JObj p \<Rightarrow>
          (case jget p ''devices'' of
             JList (dv # dvs) \<Rightarrow>
               (case validate_lists (jget_or p ''lists'' (JObj [])) of (ls, lp) \<Rightarrow>
                let svc = jget_or p ''always_services'' (JList []);
                    p0 = lp @ services_problems svc @ missing_problems ls
                in bind_res (lift_py (fold_res (import_device st ls) (p0, [], [], []) (dv # dvs))) (\<lambda>(probs, seen, devs, by_ip).
                   bind_res (lift_py (import_exceptions fromiso now by_ip probs (jget p ''exceptions''))) (\<lambda>(probs2, exs).
                   bind_res (require_none probs2) (\<lambda>_. Inr (devs, ls, str_list svc, exs)))))
           | _ \<Rightarrow> no_devices)
      | _ \<Rightarrow> no_devices)"

text \<open>The transaction: every child device and what belongs to it goes, the new ones come.\<close>

definition is_child_id :: "db \<Rightarrow> string \<Rightarrow> bool" where
  "is_child_id st eid \<longleftrightarrow> list_ex (\<lambda>r. e_id (en_entity r) = eid \<and> e_kind (en_entity r) = Child_window) (db_entities st)"

definition drop_children :: "(string \<Rightarrow> bool) \<Rightarrow> db \<Rightarrow> db" where
  "drop_children gone st = st\<lparr>
     db_exceptions := filter (\<lambda>x. \<not> gone (xr_entity x)) (db_exceptions st),
     db_cexc := filter (\<lambda>x. \<not> gone (ce_entity x)) (db_cexc st),
     db_domains := filter (\<lambda>x. \<not> gone (dm_entity x)) (db_domains st),
     db_schedules := filter (\<lambda>x. \<not> gone (sc_entity x)) (db_schedules st),
     db_entities := filter (\<lambda>r. \<not> gone (e_id (en_entity r))) (db_entities st)\<rparr>"

definition new_child :: "new_device \<Rightarrow> entity" where
  "new_child d = \<lparr>e_id = nd_id d, e_kind = Child_window, e_name = nd_name d, e_ha_target = None, e_managed = False,
     e_flags = nd_flags d, e_guardrails = nd_guard d, e_meta = [(''ip'', JStr (nd_ip d)), (''mac'', JStr (nd_mac d))]\<rparr>"

definition insert_child :: "dtime \<Rightarrow> entity \<Rightarrow> rule list \<Rightarrow> string list \<Rightarrow> string list \<Rightarrow> int \<Rightarrow> db \<Rightarrow> db" where
  "insert_child now ent rs al dn pos st = st\<lparr>
     db_entities := db_entities st @ [\<lparr>en_entity = ent, en_position = pos\<rparr>],
     db_schedules := db_schedules st @ [\<lparr>sc_entity = e_id ent, sc_version = 1, sc_rules = rs, sc_updated = stored now\<rparr>],
     db_domains := db_domains st @ domain_rows (e_id ent) Allow al @ domain_rows (e_id ent) Deny dn\<rparr>"

definition import_one :: "dtime \<Rightarrow> int \<Rightarrow> db \<Rightarrow> nat \<times> new_device \<Rightarrow> store_err + db" where
  "import_one now pos st x = (case x of (i, d) \<Rightarrow>
     bind_res (require_none (if list_ex (\<lambda>r. e_id (en_entity r) = nd_id d) (db_entities st)
       then [prob ''duplicate'' ''devices'' (''id '' @ nd_id d @ '' clashes with a non-child entity'')] else [])) (\<lambda>_.
       Inr (insert_child now (new_child d) (nd_rules d) (nd_allow d) (nd_deny d) (pos + int i) st)))"

definition insert_old :: "dtime \<Rightarrow> (nat \<Rightarrow> string) \<Rightarrow> db \<Rightarrow> nat \<times> old_exception \<Rightarrow> store_err + db" where
  "insert_old now fresh st x = (case x of (i, (eid, tg, created, expires)) \<Rightarrow>
     let xid = CHR ''c'' # fresh i in
     bind_res (lift_py (created_text now created)) (\<lambda>c.
     bind_res (require (list_all (\<lambda>r. ce_id r \<noteq> xid) (db_cexc st)) (Raised IntegrityError)) (\<lambda>_.
       Inr (st\<lparr>db_cexc := db_cexc st @ [\<lparr>ce_id = xid, ce_entity = eid, ce_target = tg, ce_created = c,
          ce_expires = stored expires, ce_by = system_actor ''migrated-overrides'', ce_status = ''active'', ce_ended = None\<rparr>]\<rparr>))))"

text \<open>The summary's counts; its digest of the payload is left out.\<close>

definition import_summary :: "import_plan \<Rightarrow> json" where
  "import_summary p = (case p of (devs, ls, svc, exs) \<Rightarrow>
     JObj [(''devices'', JList (map (\<lambda>d. JStr (nd_id d)) devs)),
       (''lists'', JObj [(''allow_always'', JInt (int (length (l_allow_always ls)))), (''allow_weekdays'', JInt (int (length (l_allow_weekdays ls)))),
          (''allow_extra'', JInt (int (length (l_allow_extra ls)))), (''deny_extra'', JInt (int (length (l_deny_extra ls))))]),
       (''per_child_lists'', JObj (map (\<lambda>d. (nd_id d, JObj [(''allow_extra'', JInt (int (length (nd_allow d)))),
          (''deny_extra'', JInt (int (length (nd_deny d))))])) devs)),
       (''always_services'', JList (map JStr (sort svc))), (''exceptions_migrated'', JInt (int (length exs))), (''dry_run'', JBool False)])"

definition import_child_policy :: "dtime \<Rightarrow> (nat \<Rightarrow> string) \<Rightarrow> (string \<Rightarrow> (int \<times> int option) option) \<Rightarrow> actor \<Rightarrow> json \<Rightarrow> bool
    \<Rightarrow> db \<Rightarrow> store_err + db" where
  "import_child_policy now0 fresh fromiso a payload dry_run st =
     bind_res (check_admin a ''importing the child policy is admin-only'') (\<lambda>_.
     bind_res (require (db_cutover st = None \<or> dry_run) (Forbidden ''the child policy has been cut over: the model is the source now and a re-import would overwrite the edits (use dry_run)'')) (\<lambda>_.
     let now = stored now0 in
     bind_res (import_checks fromiso now st payload) (\<lambda>plan. case plan of (devs, ls, svc, exs) \<Rightarrow>
       if dry_run then Inr st
       else
         let before = JObj [(''devices'', JList (map (\<lambda>e. JStr (e_id e)) (child_devices st)))];
             st1 = drop_children (is_child_id st) st; pos = max_position st1 + 1
         in bind_res (fold_res (import_one now pos) st1 (zip [0..<length devs] devs)) (\<lambda>st2.
            bind_res (fold_res (insert_old now fresh) st2 (zip [0..<length exs] exs)) (\<lambda>st3.
            Inr (audit_st now a ''import_child_policy'' None before (import_summary plan)
              (st3\<lparr>db_lists := Some (\<lparr>l_allow_always = l_allow_always ls, l_allow_weekdays = l_allow_weekdays ls,
                 l_allow_extra = [], l_deny_extra = []\<rparr>, sort svc)\<rparr>)))))))"

end
