(* ===== verification/Child_Devices.thy ===== *)
theory Child_Devices
  imports Child_Admin
begin

text \<open>
  \<open>child_store.py\<close>, the set of child devices and the Maps migration.  Names are made of characters
  up to 255, so the transliteration table of the source (Cyrillic) never applies.
\<close>

section \<open>The Maps migration\<close>

definition MAPS_DOMAINS :: "string list" where
  "MAPS_DOMAINS = [''maps.google.com'', ''maps.googleapis.com'', ''maps.gstatic.com'']"

definition opens_maps :: "rule \<Rightarrow> bool" where
  "opens_maps r \<longleftrightarrow> ''maps'' \<in> set (rule_opens r)"

definition with_maps :: "db \<Rightarrow> (string \<times> rule list) list" where
  "with_maps st = filter (\<lambda>(eid, rs). list_ex opens_maps rs)
     (map (\<lambda>e. (e_id e, case schedule_of st (e_id e) of Inl x \<Rightarrow> [] | Inr s \<Rightarrow> sc_rules s)) (child_devices st))"

definition maps_exceptions :: "db \<Rightarrow> dtime \<Rightarrow> cexc_row list" where
  "maps_exceptions st now = filter (\<lambda>x. ce_target x = ''maps'' \<and> ce_status x = ''active'') (child_exceptions st None False now)"

definition maps_migration_pending :: "db \<Rightarrow> dtime \<Rightarrow> bool" where
  "maps_migration_pending st now = (case db_lists st of None \<Rightarrow> False
     | Some (ls, svc) \<Rightarrow> with_maps st \<noteq> [] \<or> maps_exceptions st now \<noteq> [] \<or> l_allow_weekdays ls \<noteq> []
         \<or> \<not> list_all (\<lambda>d. d \<in> set (l_allow_always ls)) MAPS_DOMAINS)"

text \<open>A rule without the target: unchanged, narrowed, or gone when it opened nothing else.\<close>

definition without_maps :: "rule \<Rightarrow> rule list" where
  "without_maps r = (let kept = filter (\<lambda>t. t \<noteq> ''maps'') (rule_opens r)
     in if kept = rule_opens r then [r]
        else if kept = [] then []
        else [r\<lparr>r_vars := map_option (dict_set ''opens'' (JStr (join_with '','' kept))) (r_vars r)\<rparr>])"

definition migrate_one :: "dtime \<Rightarrow> db \<Rightarrow> string \<times> rule list \<Rightarrow> store_err + db" where
  "migrate_one now st x = (case x of (eid, rs) \<Rightarrow>
     bind_res (entity_of st eid) (\<lambda>ent.
     bind_res (lift_py (validate_rules (e_kind ent) (e_guardrails ent) (rules_json (concat (map without_maps rs))))) (\<lambda>(good, probs).
     bind_res (require_none probs) (\<lambda>_.
       Inr (set_sched eid (\<lambda>r. r\<lparr>sc_version := sc_version r + 1, sc_rules := good, sc_updated := stored now\<rparr>) st)))))"

definition strs :: "string list \<Rightarrow> json" where
  "strs ss = JList (map JStr ss)"

definition maps_before :: "db \<Rightarrow> dtime \<Rightarrow> child_lists \<Rightarrow> json" where
  "maps_before st now ls = JObj [(''allow_always'', strs (sorted_set (l_allow_always ls))),
     (''allow_weekdays'', strs (sorted_set (l_allow_weekdays ls))),
     (''rules'', JObj (map (\<lambda>(eid, rs). (eid, rules_json rs)) (with_maps st))),
     (''versions'', JObj (map (\<lambda>(eid, rs). (eid, case schedule_of st eid of Inl x \<Rightarrow> JNull | Inr s \<Rightarrow> JInt (sc_version s))) (with_maps st))),
     (''exceptions'', JList (map (\<lambda>x. JObj [(''id'', JStr (ce_id x)), (''entity'', JStr (ce_entity x)), (''target'', JStr (ce_target x)),
        (''created_at'', JStr (ce_created x)), (''expires_at'', JStr (iso_text (ce_expires x)))]) (maps_exceptions st now)))]"

definition migrate_maps :: "dtime \<Rightarrow> actor \<Rightarrow> db \<Rightarrow> store_err + db" where
  "migrate_maps now0 a st =
     (let now = stored now0 in
      case db_lists st of None \<Rightarrow> Inr st
      | Some (ls, svc) \<Rightarrow>
         let exs = maps_exceptions st now; always = l_allow_always ls; weekdays = l_allow_weekdays ls;
             want = sorted_set (always @ weekdays @ MAPS_DOMAINS)
         in if with_maps st = [] \<and> exs = [] \<and> weekdays = [] \<and> set want = set always then Inr st
            else bind_res (fold_res (migrate_one now) st (with_maps st)) (\<lambda>st1.
              let gone = map ce_id exs;
                  st2 = st1\<lparr>db_cexc := map (\<lambda>x. if ce_id x \<in> set gone then x\<lparr>ce_status := ''cancelled'', ce_ended := Some now\<rparr> else x) (db_cexc st1),
                            db_lists := Some (ls\<lparr>l_allow_always := want, l_allow_weekdays := []\<rparr>, svc)\<rparr>;
                  rules_after = map (\<lambda>(eid, rs). (eid, case schedule_of st1 eid of Inl x \<Rightarrow> JNull | Inr s \<Rightarrow> rules_json (sc_rules s))) (with_maps st)
              in Inr (audit_st now a ''child_maps_always_open'' None (maps_before st now ls)
                   (JObj [(''allow_always'', strs want), (''allow_weekdays'', JList []), (''rules'', JObj rules_after),
                      (''exceptions_cancelled'', strs gone), (''maps_domains'', strs MAPS_DOMAINS)]) st2)))"

section \<open>Adding a device\<close>

definition ICONS :: "string list" where
  "ICONS = [''phone'', ''tablet'', ''laptop'', ''console'', ''tv'', ''other'']"

definition is_alnum :: "char \<Rightarrow> bool" where
  "is_alnum c = (let n = of_char c :: nat in
     is_digit c \<or> is_lower c \<or> is_upper c \<or> n \<in> {0xAA, 0xB2, 0xB3, 0xB5, 0xB9, 0xBA, 0xBC, 0xBD, 0xBE}
     \<or> 0xC0 \<le> n \<and> n \<noteq> 0xD7 \<and> n \<noteq> 0xF7)"

text \<open>\<open>re.sub(r"[^a-z0-9]+", "_", t)\<close>: a run of other characters becomes one underscore.\<close>

fun collapse :: "bool \<Rightarrow> string \<Rightarrow> string" where
  "collapse inside [] = []"
| "collapse inside (c # cs) =
     (if is_label_char c then c # collapse False cs
      else if inside then collapse True cs else CHR ''_'' # collapse True cs)"

definition strip_by :: "(char \<Rightarrow> bool) \<Rightarrow> string \<Rightarrow> string" where
  "strip_by p s = lstrip_by p (rstrip_by p s)"

definition slug :: "string \<Rightarrow> string" where
  "slug s = strip_by (\<lambda>c. c = CHR ''_'') (collapse False (py_lower s))"

definition child_id :: "string \<Rightarrow> string \<Rightarrow> string" where
  "child_id full ip = (let s = slug full; t = (if s = [] then ''dev_'' @ replace_char (CHR ''.'') (CHR ''_'') ip else s)
     in rstrip_by (\<lambda>c. c = CHR ''_'') (take 40 (''child_'' @ t)))"

definition dup_name :: "string \<Rightarrow> string \<Rightarrow> entity \<Rightarrow> bool" where
  "dup_name eid name e \<longleftrightarrow> e_id e = eid \<or> py_lower (e_name e) = py_lower name"

definition dup_mac :: "string \<Rightarrow> entity \<Rightarrow> bool" where
  "dup_mac mac e \<longleftrightarrow> mac \<noteq> [] \<and> meta_text e ''mac'' = mac"

definition duplicate_problems :: "db \<Rightarrow> string \<Rightarrow> string \<Rightarrow> string \<Rightarrow> string \<Rightarrow> problem list" where
  "duplicate_problems st eid name ip mac = concat (map (\<lambda>e.
     (if dup_name eid name e then [prob ''duplicate'' ''name'' (''a child device named '' @ quoted (e_name e) @ '' already exists'')] else [])
     @ (if jget (e_meta e) ''ip'' = JStr ip then [prob ''duplicate'' ''ip'' (ip @ '' already belongs to '' @ e_name e)] else [])
     @ (if dup_mac mac e then [prob ''duplicate'' ''mac'' (mac @ '' already belongs to '' @ e_name e)] else [])) (child_devices st))"

definition id_taken :: "db \<Rightarrow> string \<Rightarrow> bool" where
  "id_taken st eid \<longleftrightarrow> list_ex (\<lambda>r. e_id (en_entity r) = eid) (db_entities st)"

definition standard_rules :: json where
  "standard_rules = JList [JObj [(''id'', JStr ''yt_roblox''), (''days'', JList (map JInt [1, 2, 3, 4, 5, 6])),
     (''start'', JStr ''16:00''), (''end'', JStr ''19:00''), (''variables'', JObj [(''opens'', JStr ''youtube,roblox'')])]]"

definition name_problems :: "string \<Rightarrow> string \<Rightarrow> string \<Rightarrow> problem list" where
  "name_problems name label icon =
     (if name = [] \<or> length name > 40 \<or> length label > 40 \<or> \<not> list_ex is_alnum name
      then [prob ''name'' ''name'' ''the name must be 1-40 characters with a letter or digit, the device label at most 40''] else [])
     @ (if icon \<in> set ICONS then [] else [prob ''icon'' ''icon'' (''icon must be one of '' @ join_with '', '' ICONS)])"

definition copied_domains :: "db \<Rightarrow> string \<Rightarrow> string \<Rightarrow> dom_row list" where
  "copied_domains st src eid = domain_rows eid Allow (child_domains st src Allow) @ domain_rows eid Deny (child_domains st src Deny)"

definition add_child_device :: "dtime \<Rightarrow> actor \<Rightarrow> string \<Rightarrow> string \<Rightarrow> string \<Rightarrow> string option \<Rightarrow> string \<Rightarrow> string \<Rightarrow> bool
    \<Rightarrow> db \<Rightarrow> store_err + (db \<times> string)" where
  "add_child_device now a name0 ip mac0 like label0 icon closed st =
     bind_res (check_admin a ''adding a child device is admin-only'') (\<lambda>_.
     let name = py_strip name0; label = py_strip label0; full = py_strip (name @ '' '' @ label);
         mac = py_lower (py_strip mac0); eid = child_id full ip;
         dev = JObj [(''id'', JStr eid), (''name'', JStr full), (''ip'', JStr ip), (''mac'', JStr mac)];
         wants = (case like of Some l \<Rightarrow> l \<noteq> [] | None \<Rightarrow> False);
         src = (if wants then find (\<lambda>e. e_id e = the like) (child_devices st) else None)
     in bind_res (lift_py (if name = [] then Inr [] else validate_device dev)) (\<lambda>dp.
        let dups = duplicate_problems st eid full ip mac;
            guard = guards_or_proposed src;
            rules = (case src of Some e \<Rightarrow> (case schedule_of st (e_id e) of Inl x \<Rightarrow> JNull | Inr s \<Rightarrow> rules_json (sc_rules s))
              | None \<Rightarrow> if closed then JList [] else standard_rules)
        in bind_res (lift_py (validate_rules Child_window guard rules)) (\<lambda>(rs, rp).
           bind_res (require_none (name_problems name label icon @ dp
             @ (if dollar entity_id_body eid then [] else [prob ''name'' ''name'' ''the name must contain letters or digits''])
             @ dups
             @ (if id_taken st eid \<and> dups = [] then [prob ''duplicate'' ''name'' (''the id '' @ eid @ '' clashes with another entity'')] else [])
             @ (if wants \<and> src = None then [prob ''like'' ''like'' (''no child device '' @ quoted (the like) @ '' to copy the windows from'')] else [])
             @ (if wants \<and> closed then [prob ''template'' ''like'' ''give either a template to copy or closed, not both''] else [])
             @ rp)) (\<lambda>_.
           let ent = \<lparr>e_id = eid, e_kind = Child_window, e_name = full, e_ha_target = None, e_managed = False,
                 e_flags = flags_or_default src, e_guardrails = guard,
                 e_meta = [(''ip'', JStr ip), (''mac'', JStr mac), (''label'', JStr label), (''icon'', JStr icon), (''child'', JStr name)]\<rparr>;
               al = (case src of None \<Rightarrow> [] | Some e \<Rightarrow> child_domains st (e_id e) Allow);
               dn = (case src of None \<Rightarrow> [] | Some e \<Rightarrow> child_domains st (e_id e) Deny)
           in Inr (audit_st now a ''child_device_add'' (Some eid) JNull
                (JObj [(''name'', JStr full), (''ip'', JStr ip), (''mac'', JStr mac), (''label'', JStr label), (''icon'', JStr icon),
                   (''like'', jopt JStr like), (''closed'', JBool closed), (''rules'', rules_json rs)])
                (insert_child now ent rs al dn (max_position st + 1) st), eid)))))"

section \<open>Display, removal, restoration\<close>

definition dict_pop :: "string \<Rightarrow> fields \<Rightarrow> fields" where
  "dict_pop k f = filter (\<lambda>(x, v). x \<noteq> k) f"

definition shown_fields :: "fields \<Rightarrow> json" where
  "shown_fields m = JObj [(''display_name'', jget m ''display_name''), (''icon'', jget m ''icon'')]"

definition display_meta :: "string option \<Rightarrow> string option \<Rightarrow> fields \<Rightarrow> fields" where
  "display_meta display icon m =
     (let m1 = (case display of None \<Rightarrow> m
            | Some d \<Rightarrow> if py_strip d \<noteq> [] then dict_set ''display_name'' (JStr (py_strip d)) m else dict_pop ''display_name'' m)
      in case icon of None \<Rightarrow> m1 | Some i \<Rightarrow> dict_set ''icon'' (JStr i) m1)"

definition set_child_display :: "dtime \<Rightarrow> actor \<Rightarrow> string \<Rightarrow> string option \<Rightarrow> string option \<Rightarrow> db \<Rightarrow> store_err + db" where
  "set_child_display now a eid display icon st =
     bind_res (check_admin a ''renaming a child device is admin-only'') (\<lambda>_.
     bind_res (require_none
       ((case display of None \<Rightarrow> [] | Some d \<Rightarrow>
           if length (py_strip d) > 40 \<or> py_strip d \<noteq> [] \<and> \<not> list_ex is_alnum d
           then [prob ''name'' ''display_name'' ''the display name must be at most 40 characters with a letter or digit (empty clears it)''] else [])
        @ (case icon of None \<Rightarrow> [] | Some i \<Rightarrow> if i \<in> set ICONS then [] else [prob ''icon'' ''icon'' (''icon must be one of '' @ join_with '', '' ICONS)]))) (\<lambda>_.
     bind_res (child_entity st eid) (\<lambda>ent.
       let m = display_meta display icon (e_meta ent)
       in if m = e_meta ent then Inr st
          else Inr (audit_st now a ''child_device_display'' (Some eid) (shown_fields (e_meta ent)) (shown_fields m)
                 (set_entity eid (\<lambda>e. e\<lparr>e_meta := m\<rparr>) st)))))"

definition definition_of :: "db \<Rightarrow> dtime \<Rightarrow> entity \<Rightarrow> store_err + child_definition" where
  "definition_of st now e = bind_res (schedule_of st (e_id e)) (\<lambda>s.
     Inr \<lparr>df_id = e_id e, df_name = e_name e, df_meta = e_meta e, df_guardrails = e_guardrails e, df_flags = e_flags e,
          df_rules = sc_rules s, df_allow = child_domains st (e_id e) Allow, df_deny = child_domains st (e_id e) Deny,
          df_exceptions = map (\<lambda>x. (ce_target x, ce_created x, ce_expires x)) (child_exceptions st (Some (e_id e)) True now)\<rparr>)"

definition definition_json :: "child_definition \<Rightarrow> json" where
  "definition_json d = JObj [(''id'', JStr (df_id d)), (''name'', JStr (df_name d)), (''meta'', JObj (df_meta d)),
     (''guardrails'', guardrails_json (df_guardrails d)), (''flags'', flags_json (df_flags d)), (''rules'', rules_json (df_rules d)),
     (''domains'', JObj [(''allow'', strs (df_allow d)), (''deny'', strs (df_deny d))]),
     (''exceptions'', JList (map (\<lambda>(t, c, e). JObj [(''target'', JStr t), (''created_at'', JStr c), (''expires_at'', JStr (iso_text e))]) (df_exceptions d)))]"

definition remove_child_device :: "dtime \<Rightarrow> string \<Rightarrow> actor \<Rightarrow> string \<Rightarrow> bool \<Rightarrow> db \<Rightarrow> store_err + (db \<times> string)" where
  "remove_child_device now0 fresh a eid keep st =
     bind_res (check_admin a ''removing a child device is admin-only'') (\<lambda>_.
     bind_res (child_entity st eid) (\<lambda>ent.
     bind_res (require_none (if length (child_devices st) \<le> 1 then [prob ''last_device'' ''id''
       ''the last child device cannot be removed: a snapshot without a device would lift every restriction''] else [])) (\<lambda>_.
     let now = stored now0; rid = CHR ''r'' # fresh in
     bind_res (definition_of st now ent) (\<lambda>d.
     bind_res (require (keep \<longrightarrow> list_all (\<lambda>r. rm_id r \<noteq> rid) (db_removed st)) (Raised IntegrityError)) (\<lambda>_.
       let kept = (if keep then db_removed st @ [\<lparr>rm_id = rid, rm_entity = eid, rm_name = e_name ent, rm_at = now, rm_by = a, rm_def = d\<rparr>]
             else db_removed st)
       in Inr (audit_st now a ''child_device_remove'' (Some eid) (definition_json d) (JObj [(''removal'', JStr rid)])
            ((drop_children (\<lambda>x. x = eid) st)\<lparr>db_removed := kept\<rparr>), rid))))))"

text \<open>The removals that can still be undone; the older ones, by the text of their time, are dropped.\<close>

definition REMOVAL_UNDO_HOURS :: int where "REMOVAL_UNDO_HOURS = 24"

definition purge_removed :: "dtime \<Rightarrow> db \<Rightarrow> db" where
  "purge_removed now st = (let cutoff = iso_text (dt_add now (- REMOVAL_UNDO_HOURS * 3600))
     in st\<lparr>db_removed := filter (\<lambda>r. \<not> iso_text (rm_at r) < cutoff) (db_removed st)\<rparr>)"

definition child_removed :: "dtime \<Rightarrow> db \<Rightarrow> db \<times> removed_row list" where
  "child_removed now st = (let st1 = purge_removed now st in (st1, rev (sort_key (\<lambda>r. iso_text (rm_at r)) (db_removed st1))))"

definition restore_problems :: "db \<Rightarrow> child_definition \<Rightarrow> problem list" where
  "restore_problems st d = (let ip = jget (df_meta d) ''ip''; mac = json_str (jget (df_meta d) ''mac'') in
     concat (map (\<lambda>e.
       (if dup_name (df_id d) (df_name d) e then [prob ''duplicate'' ''name'' (''a device named '' @ quoted (e_name e) @ '' exists now'')] else [])
       @ (if jget (e_meta e) ''ip'' = ip then [prob ''duplicate'' ''ip'' (json_str ip @ '' belongs to '' @ e_name e @ '' now'')] else [])
       @ (if dup_mac mac e then [prob ''duplicate'' ''mac'' (mac @ '' belongs to '' @ e_name e @ '' now'')] else [])) (child_devices st))
     @ (if id_taken st (df_id d) then [prob ''duplicate'' ''id'' (''the id '' @ df_id d @ '' is taken by another entity'')] else [])
     @ (case device_ip_problem (json_str ip) of None \<Rightarrow> [] | Some why \<Rightarrow> [prob ''protected_ip'' ''ip'' why]))"

definition restore_child_device :: "dtime \<Rightarrow> (nat \<Rightarrow> string) \<Rightarrow> actor \<Rightarrow> string \<Rightarrow> db \<Rightarrow> store_err + (db \<times> string)" where
  "restore_child_device now0 fresh a rid st0 =
     bind_res (check_admin a ''restoring a child device is admin-only'') (\<lambda>_.
     let now = stored now0; st = purge_removed now st0 in
     case find (\<lambda>r. rm_id r = rid) (db_removed st) of
       None \<Rightarrow> Inl (NotFound rid)
     | Some row \<Rightarrow>
         let d = rm_def row in
         bind_res (lift_py (validate_rules Child_window (df_guardrails d) (rules_json (df_rules d)))) (\<lambda>(rs, rp).
         bind_res (require_none (restore_problems st d @ rp)) (\<lambda>_.
         let ent = \<lparr>e_id = df_id d, e_kind = Child_window, e_name = df_name d, e_ha_target = None, e_managed = False,
               e_flags = df_flags d, e_guardrails = df_guardrails d, e_meta = df_meta d\<rparr>;
             live = filter (\<lambda>(t, c, e). dt_less now e) (df_exceptions d);
             st1 = insert_child now ent rs (df_allow d) (df_deny d) (max_position st + 1) st;
             new = map (\<lambda>(i, t, c, e). \<lparr>ce_id = CHR ''c'' # fresh i, ce_entity = df_id d, ce_target = t, ce_created = c,
               ce_expires = e, ce_by = system_actor ''restored'', ce_status = ''active'', ce_ended = None\<rparr>) (zip [0..<length live] live)
         in bind_res (require (distinct (map ce_id (db_cexc st @ new))) (Raised IntegrityError)) (\<lambda>_.
            Inr (audit_st now a ''child_device_restore'' (Some (df_id d)) (JObj [(''removal'', JStr rid)])
                 (JObj [(''name'', JStr (df_name d)), (''ip'', jget (df_meta d) ''ip''), (''exceptions_kept'', JInt (int (length live)))])
                 (st1\<lparr>db_cexc := db_cexc st @ new, db_removed := filter (\<lambda>r. rm_id r \<noteq> rid) (db_removed st)\<rparr>), df_id d)))))"

end
