(* ===== verification/Revalidate.thy ===== *)
theory Revalidate
  imports Sched_Rules_Props
begin

text \<open>
  Validating a stored schedule again under other guardrails: when nothing is reported, the rules come
  out as they are.  The guardrail update of the store rests on it, for it checks the stored rules and
  keeps them.
\<close>

text \<open>A stored rule in normal form, whatever the guardrails.\<close>

definition rule_normal :: "kind \<Rightarrow> rule \<Rightarrow> bool" where
  "rule_normal k r \<longleftrightarrow> weekdays_ok (r_days r) \<and> sorted (r_days r)
     \<and> (if k = Plug \<or> k = Child_window then r_end r \<noteq> None else r_end r = None)"

lemma rule_sound_normal: "rule_sound k g r \<Longrightarrow> rule_normal k r"
  by (auto simp: rule_sound_def rule_normal_def window_sound_def split: option.splits)

lemma jopt_JInt_inj: "jopt JInt x = jopt JInt y \<Longrightarrow> x = y"
  by (cases x; cases y) simp_all

lemma check_body_fixed:
  assumes n: "rule_normal k u" and ok: "check_body k g (r_id u) (rule_fields u) = Inr v"
  shows "v = u"
proof -
  let ?f = "''rule '' @ quoted (r_id u)" and ?r = "rule_fields u"
  obtain ds s e vars lvl where
    ds: "check_days ?f (jget ?r ''days'') = Inr ds" and
    vars: "check_variables ?f (jget ?r ''variables'') = Inr vars" and
    lvl: "check_level g ?f (jget ?r ''level'') = Inr lvl" and
    v: "v = normalise_rule k (r_id u) ds ?r lvl vars"
    using ok by (auto simp: check_body_def Let_def bind_res_Inr_iff split: if_splits)
  have "ds = r_days u" using ds n check_days_stored [of "r_days u" ?f] by (simp add: rule_normal_def)
  moreover have "lvl = r_level u" using check_level_Inr [OF lvl] by (auto intro: jopt_JInt_inj sym)
  moreover have "vars = r_vars u" using check_variables_Inr [OF vars]
    by (cases vars; cases "r_vars u") auto
  moreover have "sort (r_days u) = r_days u" using n by (simp add: rule_normal_def sorted_sort_id)
  ultimately show ?thesis using n
    by (cases "r_end u") (auto simp: v normalise_rule_def rule_normal_def json_str_def str_opt_def)
qed

lemma check_rule_fixed:
  assumes n: "rule_normal k u" and ok: "check_rule k g (ps, seen, good) (i, JObj (rule_fields u)) = Inr (ps', seen', good')"
  shows "ps' = ps \<and> good' = good @ [u] \<or> (\<exists>p ps''. ps' = ps @ p # ps'')"
proof (cases "dollar rule_id_body (r_id u) \<and> r_id u \<notin> set seen")
  case True
  then show ?thesis using ok check_body_fixed [OF n, of g]
    by (cases "check_body k g (r_id u) (rule_fields u)")
      (auto simp: check_rule_def Let_def split: rule_err.splits)
next
  case False
  then show ?thesis using ok by (auto simp: check_rule_def Let_def split: if_splits)
qed

lemma rules_loop_fixed:
  assumes "list_all (rule_normal k) rs" "length is = length rs"
    and "fold_res (check_rule k g) (ps, seen, good) (zip is (map (\<lambda>r. JObj (rule_fields r)) rs)) = Inr (ps, seen', good')"
  shows "good' = good @ rs"
  using assms
proof (induction rs arbitrary: seen good "is")
  case Nil
  then show ?case by simp
next
  case (Cons u rs)
  obtain i js where i: "is = i # js" "length js = length rs" using Cons.prems(2) by (cases "is") auto
  obtain ps1 seen1 good1 where
    1: "check_rule k g (ps, seen, good) (i, JObj (rule_fields u)) = Inr (ps1, seen1, good1)"
    and 2: "fold_res (check_rule k g) (ps1, seen1, good1) (zip js (map (\<lambda>r. JObj (rule_fields r)) rs)) = Inr (ps, seen', good')"
    using Cons.prems(3) i by (auto simp: bind_res_Inr_iff)
  obtain extra where "ps = ps1 @ extra" using rules_loop_grows [OF 2] by blast
  then have g1: "ps1 = ps" "good1 = good @ [u]"
    using check_rule_fixed [OF _ 1] Cons.prems(1) by auto
  show ?case using Cons.IH [OF _ i(2) 2 [unfolded g1]] Cons.prems(1) by simp
qed

lemma revalidate:
  assumes S: "rules_sound k g rs" and ok: "validate_rules k g' (rules_json rs) = Inr (rs', [])"
  shows "rs' = rs" "rules_sound k g' rs"
proof -
  let ?js = "map (\<lambda>r. JObj (rule_fields r)) rs"
  have kk: "known_kind k" and len: "length rs \<le> MAX_RULES" and srt: "sorted (map rule_key rs)"
    and norm: "list_all (rule_normal k) rs"
    using S rule_sound_normal by (auto simp: rules_sound_def list_all_iff)
  obtain ps seen good cps where
    loop: "fold_res (check_rule k g') ([], [], []) (zip [0..<length ?js] ?js) = Inr (ps, seen, good)" and
    out: "rs' = sort_key rule_key good" "ps @ cross_problems k g' good @ trigger_problems g' good @ cps = []"
    using ok kk len unfolding validate_rules_def rules_json_def
    by (auto simp: bind_res_Inr_iff Let_def)
  have "ps = []" using out(2) by simp
  then have "good = [] @ rs"
    by (intro rules_loop_fixed [OF norm _ loop [unfolded \<open>ps = []\<close>]]) simp
  then have "good = rs" by simp
  then show "rs' = rs" using srt out(1) by (simp add: sort_key_id_if_sorted)
  then show "rules_sound k g' rs" using validate_rules_sound [OF ok] by simp
qed

end
