(* ===== verification/Sched_Props.thy ===== *)
theory Sched_Props
  imports Sched_Runs
begin

text \<open>
  Properties of the schedule model: what acceptance of a rule list guarantees, what the edges and the
  next edge mean for a plug, and what an accepted timed run or children's exception keeps.  The
  examples at the end of each property evaluate it on a concrete schedule.
\<close>

section \<open>Example schedule\<close>

definition ex_guards :: guardrails where
  "ex_guards = no_guardrails\<lparr>g_max_on_minutes := Some 180, g_min_gap_minutes := Some 30,
     g_allowed_from := Some ''06:00'', g_allowed_to := Some ''22:00'',
     g_max_open_minutes_per_day := Some 120\<rparr>"

definition ex_plug_rules :: "rule list" where
  "ex_plug_rules = [\<lparr>r_id = ''morning'', r_days = [1, 5], r_start = ''08:00'', r_end = Some ''09:30'',
     r_level = None, r_vars = None\<rparr>]"

definition ex_child_rules :: "rule list" where
  "ex_child_rules = [\<lparr>r_id = ''after_school'', r_days = [1, 2], r_start = ''15:00'', r_end = Some ''16:30'',
     r_level = None, r_vars = Some [(''opens'', JStr ''youtube'')]\<rparr>]"

lemma ex_plug_sound: "rules_sound Plug ex_guards ex_plug_rules"
  by code_simp

lemma ex_child_sound: "rules_sound Child_window ex_guards ex_child_rules"
  by code_simp

section \<open>Acceptance of a rule list\<close>


text \<open>
  validating what was stored gives it back unchanged, so a copy, an export or an undo of a stored
  schedule is accepted again under the same guardrails.
\<close>

theorem accepted_restores:
  assumes "validate_rules k g body = Inr (rs, [])"
  shows "validate_rules k g (rules_json rs) = Inr (rs, [])"
  using assms by (intro validate_rules_stored validate_rules_sound)

lemma ex_plug_accepted: "validate_rules Plug ex_guards (rules_json ex_plug_rules) = Inr (ex_plug_rules, [])"
  by (rule validate_rules_stored [OF ex_plug_sound])

lemma ex_child_accepted:
  "validate_rules Child_window ex_guards (rules_json ex_child_rules) = Inr (ex_child_rules, [])"
  by (rule validate_rules_stored [OF ex_child_sound])

lemma accepted_restores_witness:
  "validate_rules Plug ex_guards (rules_json ex_plug_rules) = Inr (ex_plug_rules, [])"
  by (rule accepted_restores [OF ex_plug_accepted])

text \<open>
  in an accepted schedule, any two windows that switch the same thing (the plug, or one gated
  service), of different rules or on different weekdays, are disjoint and at least the guardrail's
  minimum gap apart, on the circle of the week as well as inside it.
\<close>

theorem accepted_windows_apart:
  assumes "validate_rules k g body = Inr (rs, [])" "r \<in> set rs" "q \<in> set rs"
    and "d \<in> set (r_days r)" "c \<in> set (r_days q)"
    and "grp \<in> set (rule_groups k r)" "grp \<in> set (rule_groups k q)" and "r \<noteq> q \<or> d \<noteq> c"
  shows "(d - 1) * 1440 + end_of r + max 0 (gap_of g) \<le> (c - 1) * 1440 + start_of q
       \<or> (c - 1) * 1440 + end_of q + max 0 (gap_of g) \<le> (d - 1) * 1440 + start_of r"
  using sound_windows_apart [OF validate_rules_sound [OF assms(1)] assms(2-8)] .

lemma accepted_windows_apart_witness:
  "(1 - 1) * 1440 + end_of (hd ex_plug_rules) + max 0 (gap_of ex_guards) \<le> (5 - 1) * 1440 + start_of (hd ex_plug_rules)
   \<or> (5 - 1) * 1440 + end_of (hd ex_plug_rules) + max 0 (gap_of ex_guards) \<le> (1 - 1) * 1440 + start_of (hd ex_plug_rules)"
  by (rule accepted_windows_apart [OF ex_plug_accepted, where grp = "[]"]) (simp_all add: ex_plug_rules_def rule_groups_def)

section \<open>Children: the daily total\<close>

lemma open_windows_covered:
  "covered (open_windows rs d) = {t. \<exists>r\<in>set rs. d \<in> set (r_days r) \<and> start_of r \<le> t \<and> t < end_of r}"
  by (auto simp: covered_def open_windows_def)

lemma open_total_None:
  assumes "open_total_problems mx rs = []" "d \<in> set [1, 2, 3, 4, 5, 6, 7]"
  shows "open_windows rs d = [] \<or> open_minutes rs d \<le> mx"
proof -
  have "find (\<lambda>d. open_windows rs d \<noteq> [] \<and> open_minutes rs d > mx) [1, 2, 3, 4, 5, 6, 7] = None"
    using assms(1) unfolding open_total_problems_def by (simp only: split: option.splits) simp
  from find_None_D [OF this assms(2)] show ?thesis by (simp add: not_less)
qed

lemma child_total:
  assumes S: "rules_sound Child_window g rs" and mx: "g_max_open_minutes_per_day g = Some mx" "0 \<le> mx"
    and d: "1 \<le> d" "d \<le> 7"
  shows "int (card (covered (open_windows (filter opens_gated rs) d))) \<le> mx"
proof -
  let ?gs = "filter opens_gated rs"
  have c: "child_problems g rs = Inr []" and ok: "list_all (rule_sound Child_window g) rs"
    using S by (simp_all add: rules_sound_def)
  have none: "?gs = [] \<or> open_total_problems mx ?gs = []"
    using c mx by (simp add: child_problems_def Let_def split: if_splits option.splits)
  have "open_windows ?gs d = [] \<or> open_minutes ?gs d \<le> mx"
  proof (cases "?gs = []")
    case True
    then show ?thesis by (simp add: open_windows_def)
  next
    case False
    have "d \<in> set [1, 2, 3, 4, 5, 6, 7]" using d by auto
    then show ?thesis using none False open_total_None by blast
  qed
  moreover have "\<forall>x\<in>set (open_windows ?gs d). fst x \<le> snd x"
    using ok rule_sound_times(3) by (fastforce simp: open_windows_def list_all_iff)
  then have "open_minutes ?gs d = int (card (covered (open_windows ?gs d)))"
    unfolding open_minutes_def by (rule merge_minutes_card)
  ultimately show ?thesis using mx(2) by auto
qed

text \<open>
  in an accepted children's schedule, the number of minutes of a weekday at which at least one
  gated service is open, overlapping windows counted once, is at most the guardrail
  \<open>max_open_minutes_per_day\<close>.
\<close>

theorem accepted_daily_total:
  assumes "validate_rules Child_window g body = Inr (rs, [])"
    and "g_max_open_minutes_per_day g = Some mx" "0 \<le> mx" "1 \<le> d" "d \<le> 7"
  shows "int (card {t. \<exists>r\<in>set rs. opens_gated r \<and> d \<in> set (r_days r) \<and> start_of r \<le> t \<and> t < end_of r}) \<le> mx"
proof -
  have "{t. \<exists>r\<in>set rs. opens_gated r \<and> d \<in> set (r_days r) \<and> start_of r \<le> t \<and> t < end_of r}
      = covered (open_windows (filter opens_gated rs) d)"
    by (auto simp: open_windows_covered)
  then show ?thesis using child_total [OF validate_rules_sound [OF assms(1)] assms(2-5)] by simp
qed

lemma accepted_daily_total_witness:
  "int (card {t. \<exists>r\<in>set ex_child_rules. opens_gated r \<and> 2 \<in> set (r_days r) \<and> start_of r \<le> t \<and> t < end_of r}) \<le> 120"
  by (rule accepted_daily_total [OF ex_child_accepted]) (simp_all add: ex_guards_def)

section \<open>Edges\<close>

text \<open>
  C4: for an accepted plug schedule, carrying out the day's edges in their order up to a minute
  leaves the plug in the state that the reconciler's \<open>target_state\<close> computes for that time, on
  skipped dates as well.
\<close>

theorem edges_realise_target:
  assumes "validate_rules Plug g body = Inr (rs, [])"
  shows "target_state Plug rs at skips
    = Some (replay (day_edges Plug rs (date_of (astimezone at)) skips) (minute_of_day (astimezone at)))"
proof -
  have S: "rules_sound Plug g rs" using assms by (rule validate_rules_sound)
  let ?d = "date_of (astimezone at)" and ?m = "minute_of_day (astimezone at)"
  show ?thesis
  proof (cases "?d \<notin> set skips \<and> (\<exists>r\<in>set (rules_on rs ?d). in_window r ?m)")
    case True
    then obtain r where r: "r \<in> set (rules_on rs ?d)" "start_of r \<le> ?m" "?m < end_of r" "?d \<notin> set skips"
      by (auto simp: in_window_def)
    then show ?thesis using replay_on [OF S r(1,4,2,3)]
      by (auto simp: target_state_def Let_def list_ex_iff rules_on_def in_window_def)
  next
    case False
    then show ?thesis using replay_off [OF S, of ?d skips ?m]
      by (auto simp: target_state_def Let_def list_ex_iff rules_on_def)
  qed
qed

lemma edges_realise_target_witness:
  "target_state Plug ex_plug_rules (at_minute 739002 500) []
    = Some (replay (day_edges Plug ex_plug_rules (date_of (astimezone (at_minute 739002 500))) [])
        (minute_of_day (astimezone (at_minute 739002 500))))"
  by (rule edges_realise_target [OF ex_plug_accepted])

section \<open>Boundaries and the change of the clocks\<close>

lemma boundary_no_change:
  assumes "0 \<le> m" "m \<le> 1440" "\<not> dst_forbidden m"
  shows "\<not> change_hour (d * 86400 + m * 60)"
proof -
  have "(d * 86400 + m * 60) mod 86400 = (m * 60) mod 86400" by simp
  also have "\<dots> = (if m = 1440 then 0 else m * 60)" using assms by auto
  finally show ?thesis using assms
    by (auto simp: change_hour_def second_of_day_def dst_forbidden_def)
qed

text \<open>
  both boundaries of every window of an accepted schedule exist exactly once on every date: one
  instant only shows that wall clock time in Prague, also on the days the clocks change.
\<close>

theorem boundaries_exactly_once:
  assumes "validate_rules k g body = Inr (rs, [])" "r \<in> set rs"
  shows "(\<exists>!u. wall (prague_of_instant u) = d * 86400 + start_of r * 60)
       \<and> (\<exists>!u. wall (prague_of_instant u) = d * 86400 + end_of r * 60)"
proof -
  have "rule_sound k g r" using validate_rules_sound [OF assms(1)] assms(2)
    by (auto simp: rules_sound_def list_all_iff)
  note t = rule_sound_times [OF this]
  have "\<not> change_hour (d * 86400 + start_of r * 60)"
    using t(1,2,8) by (intro boundary_no_change) simp_all
  moreover have "\<not> change_hour (d * 86400 + end_of r * 60)"
    using t(1,3,4,9) by (intro boundary_no_change) simp_all
  ultimately show ?thesis using prague.exactly_once by simp
qed

lemma boundaries_exactly_once_witness:
  "(\<exists>!u. wall (prague_of_instant u) = 739918 * 86400 + start_of (hd ex_plug_rules) * 60)
   \<and> (\<exists>!u. wall (prague_of_instant u) = 739918 * 86400 + end_of (hd ex_plug_rules) * 60)"
  by (rule boundaries_exactly_once [OF ex_plug_accepted]) (simp add: ex_plug_rules_def)

section \<open>The next edge\<close>

lemma dt_cmp_prague [simp]:
  "dt_less (Prague w f) (Prague v h) \<longleftrightarrow> w < v"
  "dt_le (Prague w f) (Prague v h) \<longleftrightarrow> w \<le> v"
  by (simp_all add: dt_less_def dt_le_def dt_sub_def same_zone_def)

lemma astimezone_Prague: "\<exists>w f. astimezone t = Prague w f"
  by (cases t) (auto simp: prague_of_instant_def Let_def)

lemma astimezone_idem [simp]: "astimezone (astimezone t) = astimezone t"
  using astimezone_Prague [of t] by auto

lemma at_minute_Prague: "at_minute d m = Prague (d * 86400 + m * 60) False"
  by (rule at_minute_def)

lemma day_edge_minutes:
  assumes "rules_sound k g rs" "(m, a, i) \<in> set (day_edges k rs d skips)"
  shows "0 \<le> m" "m \<le> 1440"
proof -
  obtain r where r: "r \<in> set rs" "m = start_of r \<or> m = end_of r"
    using assms(2) by (auto simp: day_edges_def rule_edges_def rules_on_def split: if_splits)
  then have "rule_sound k g r" using assms(1) by (auto simp: rules_sound_def list_all_iff)
  then show "0 \<le> m" "m \<le> 1440" using rule_sound_times [of k g r] r(2) by auto
qed

text \<open>The candidates, as a set.\<close>

lemma edges_between_mem:
  assumes S: "rules_sound k g rs" and less: "w \<le> v"
  shows "(t, a, i) \<in> set (edges_between k rs (Prague w f) (Prague v h) skips) \<longleftrightarrow>
    (\<exists>d m. (m, a, i) \<in> set (day_edges k rs d skips) \<and> t = at_minute d m \<and> w \<le> wall t \<and> wall t < v)"
    (is "?l \<longleftrightarrow> ?r")
proof
  assume ?l
  then show ?r by (fastforce simp: edges_between_def Let_def timed_edges_def at_minute_Prague)
next
  assume ?r
  then obtain d m where e: "(m, a, i) \<in> set (day_edges k rs d skips)" "t = at_minute d m"
    "w \<le> d * 86400 + m * 60" "d * 86400 + m * 60 < v" by (auto simp: at_minute_Prague)
  note m = day_edge_minutes [OF S e(1)]
  have "w div 86400 - 1 \<le> d" "d \<le> v div 86400 + 1"
    using m e(3,4) by auto
  then have "d \<in> set [w div 86400 - 1..v div 86400 + 1]" by simp
  then show ?l using e
    by (auto simp: edges_between_def Let_def timed_edges_def at_minute_Prague date_of_def intro!: bexI [of _ d])
qed

lemma sorted_find_first:
  assumes "find P xs = Some x" "sorted (map f xs)" "y \<in> set xs" "P y"
  shows "f x \<le> (f y :: 'b::linorder)"
  using assms
proof (induction xs)
  case (Cons z xs)
  then show ?case by (auto split: if_splits)
qed simp

lemma next_edge_Some:
  assumes S: "rules_sound k g rs" and at: "astimezone at = Prague w f"
    and n: "next_edge k rs at skips = Some (t, a, i)"
  shows "\<exists>d m. (m, a, i) \<in> set (day_edges k rs d skips) \<and> t = at_minute d m \<and> w < wall t
      \<and> wall t < w + 9 * 86400"
    and "(m, b, j) \<in> set (day_edges k rs d skips) \<Longrightarrow> w < wall (at_minute d m) \<Longrightarrow> wall t \<le> wall (at_minute d m)"
proof -
  let ?es = "edges_between k rs (Prague w f) (Prague (w + 9 * 86400) False) skips"
  have fnd: "find (\<lambda>(t, a, i). dt_less (Prague w f) t) ?es = Some (t, a, i)"
    using n at by (simp add: next_edge_def Let_def)
  note found = find_Some_iff_in [OF fnd]
  note mem = edges_between_mem [OF S, of w "w + 9 * 86400" _ _ _ f False skips]
  have tm: "(t, a, i) \<in> set ?es" "dt_less (Prague w f) t" using found by auto
  then obtain d' m' where e: "(m', a, i) \<in> set (day_edges k rs d' skips)" "t = at_minute d' m'"
    "w \<le> wall t" "wall t < w + 9 * 86400" using mem by auto
  have "w < wall t" using tm(2) e(2) by (simp add: at_minute_Prague)
  then show "\<exists>d m. (m, a, i) \<in> set (day_edges k rs d skips) \<and> t = at_minute d m \<and> w < wall t
      \<and> wall t < w + 9 * 86400" using e by blast
  assume b: "(m, b, j) \<in> set (day_edges k rs d skips)" "w < wall (at_minute d m)"
  show "wall t \<le> wall (at_minute d m)"
  proof (cases "wall (at_minute d m) < w + 9 * 86400")
    case True
    then have bm: "(at_minute d m, b, j) \<in> set ?es" using mem b by auto
    have "sorted (map (\<lambda>(t, a, i). (wall t, a, i)) ?es)"
      by (simp add: edges_between_def Let_def)
    from sorted_find_first [OF fnd this bm] b(2) show ?thesis
      by (auto simp: at_minute_Prague less_eq_prod_def)
  next
    case False
    then show ?thesis using e(4) by simp
  qed
qed

text \<open>
  the next edge of an accepted schedule is an edge of some date, strictly later than the time
  asked about, and no edge of any date lies between them: the search of nine days misses none.
\<close>

theorem next_edge_is_next:
  assumes "validate_rules k g body = Inr (rs, [])" "next_edge k rs at skips = Some (t, a, i)"
  shows "(\<exists>d m. (m, a, i) \<in> set (day_edges k rs d skips) \<and> t = at_minute d m)
    \<and> dt_less (astimezone at) t
    \<and> (\<forall>d. \<forall>(m, b, j)\<in>set (day_edges k rs d skips).
        dt_less (astimezone at) (at_minute d m) \<longrightarrow> dt_le t (at_minute d m))"
proof -
  obtain w f where at: "astimezone at = Prague w f" using astimezone_Prague by blast
  note n = next_edge_Some [OF validate_rules_sound [OF assms(1)] at assms(2)]
  show ?thesis using n(1) n(2) by (fastforce simp: at at_minute_Prague)
qed

lemma next_edge_is_next_witness:
  "dt_less (astimezone (at_minute 739002 500)) (at_minute 739002 570)
   \<and> (at_minute 739002 570, ''off'', ''morning'') = (at_minute 739002 570, ''off'', ''morning'')"
proof -
  have "next_edge Plug ex_plug_rules (at_minute 739002 500) [] = Some (at_minute 739002 570, ''off'', ''morning'')"
    by code_simp
  from next_edge_is_next [OF ex_plug_accepted this] show ?thesis by simp
qed

lemma weekday_ahead:
  assumes "1 \<le> c" "c \<le> 7"
  shows "\<exists>d. d0 < d \<and> d \<le> d0 + 7 \<and> isoweekday d = c"
proof -
  let ?d = "d0 + 1 + (c - (d0 + 1)) mod 7"
  have "?d mod 7 = c mod 7" by (simp only: mod_add_right_eq) simp
  then have "isoweekday ?d = c" using assms by (cases "c = 7") (simp_all add: isoweekday_def)
  moreover have "0 \<le> (c - (d0 + 1)) mod 7" "(c - (d0 + 1)) mod 7 < 7" by simp_all
  then have "d0 < ?d" "?d \<le> d0 + 7" by linarith+
  ultimately show ?thesis by blast
qed

text \<open>
  a plug with an accepted, non-empty schedule always has a next edge, within eight days, however
  many dates are skipped: a skipped date loses its ON edges and keeps its OFF edges.
\<close>

theorem plug_next_edge_exists:
  assumes "validate_rules Plug g body = Inr (rs, [])" "rs \<noteq> []"
  shows "\<exists>t a i. next_edge Plug rs at skips = Some (t, a, i) \<and> dt_less t (dt_add (astimezone at) (8 * 86400))"
proof -
  have S: "rules_sound Plug g rs" using assms(1) by (rule validate_rules_sound)
  obtain w f where at: "astimezone at = Prague w f" using astimezone_Prague by blast
  obtain r where r: "r \<in> set rs" using assms(2) by (cases rs) auto
  have sound: "rule_sound Plug g r" using S r by (auto simp: rules_sound_def list_all_iff)
  obtain c where c: "c \<in> set (r_days r)" "1 \<le> c" "c \<le> 7"
    using sound by (cases "r_days r") (auto simp: rule_sound_def weekdays_ok_def)
  obtain d where d: "w div 86400 < d" "d \<le> w div 86400 + 7" "isoweekday d = c"
    using weekday_ahead [OF c(2,3)] by blast
  let ?m = "end_of r"
  have e: "(?m, ''off'', r_id r) \<in> set (day_edges Plug rs d skips)"
    using r c(1) d(3) by (auto simp: plug_edges_mem rules_on_def)
  have m: "0 \<le> ?m" "?m < 1440" using rule_sound_times [OF sound] by auto
  have later: "w < d * 86400 + ?m * 60" "d * 86400 + ?m * 60 < w + 8 * 86400" using d m by auto
  have "(at_minute d ?m, ''off'', r_id r) \<in> set (edges_between Plug rs (Prague w f) (Prague (w + 9 * 86400) False) skips)"
    using e later by (subst edges_between_mem [OF S]) (auto simp: at_minute_Prague)
  from find_None_D [OF _ this, of "\<lambda>(t, a, i). dt_less (Prague w f) t"]
  have "next_edge Plug rs at skips \<noteq> None"
    using later(1) by (auto simp: next_edge_def at Let_def at_minute_Prague simp del: not_None_eq)
  then obtain t a i where n: "next_edge Plug rs at skips = Some (t, a, i)"
    by (cases "next_edge Plug rs at skips") auto
  have "wall t \<le> d * 86400 + ?m * 60"
    using next_edge_Some(2) [OF S at n e] later(1) by (simp add: at_minute_Prague)
  moreover obtain x y where "t = Prague x y"
    using next_edge_Some(1) [OF S at n] by (auto simp: at_minute_Prague)
  ultimately have "dt_less t (dt_add (astimezone at) (8 * 86400))" using later(2) by (simp add: at)
  then show ?thesis using n by blast
qed

lemma plug_next_edge_exists_witness:
  "\<exists>t a i. next_edge Plug ex_plug_rules (at_minute 739002 500) [739003, 739006] = Some (t, a, i)
     \<and> dt_less t (dt_add (astimezone (at_minute 739002 500)) (8 * 86400))"
  by (rule plug_next_edge_exists [OF ex_plug_accepted]) (simp add: ex_plug_rules_def)

end
