(* ===== verification/HA_Props.thy ===== *)
theory HA_Props
  imports HA_Render Sched_Props
begin

text \<open>
  The rendered Home Assistant set: its time automations fire at the edges of the schedule model, every
  managed plug gets its fail-safe, and rendering never fails on stored entities.
\<close>

section \<open>When an automation fires\<close>

text \<open>
  Home Assistant's reading of an automation: the trigger's time, and every condition.  What a Jinja
  template yields on a date is a parameter, \<open>tmpl\<close>.
\<close>

definition trigger_at :: "fields \<Rightarrow> json" where
  "trigger_at it = (case jget it ''trigger'' of
     JList (JObj f # rest) \<Rightarrow> if jget f ''platform'' = JStr ''time'' then jget f ''at'' else JNull | _ \<Rightarrow> JNull)"

definition cond_true :: "(json \<Rightarrow> int \<Rightarrow> bool) \<Rightarrow> int \<Rightarrow> json \<Rightarrow> bool" where
  "cond_true tmpl d c = (case c of JObj f \<Rightarrow>
     (if jget f ''condition'' = JStr ''time''
      then (case jget f ''weekday'' of JList ds \<Rightarrow> JStr (day_name (isoweekday d)) \<in> set ds | _ \<Rightarrow> False)
      else tmpl (jget f ''value_template'') d) | _ \<Rightarrow> False)"

definition fires :: "(json \<Rightarrow> int \<Rightarrow> bool) \<Rightarrow> int \<Rightarrow> int \<Rightarrow> fields \<Rightarrow> bool" where
  "fires tmpl d m it \<longleftrightarrow> trigger_at it = JStr (at_text m)
     \<and> (case jget it ''condition'' of JList cs \<Rightarrow> list_all (cond_true tmpl d) cs | _ \<Rightarrow> True)"

lemma at_text_inj:
  assumes "at_text m = at_text n" "0 \<le> m" "m < 1440" "0 \<le> n" "n < 1440"
  shows "m = n"
proof -
  have "at_text x = fmt_hhmm x @ '':00''" for x by (simp add: at_text_def fmt_hhmm_def)
  then have "fmt_hhmm m = fmt_hhmm n" using assms(1) by simp
  then show ?thesis using parse_fmt_hhmm assms(2-5) by (metis option.inject)
qed

lemma day_name_inj:
  assumes "day_name c = day_name d" "1 \<le> c" "c \<le> 7" "1 \<le> d" "d \<le> 7"
  shows "c = d"
proof -
  have "distinct DAYS" "length DAYS = 7" by code_simp+
  then have "nat (c - 1) = nat (d - 1)"
    using assms by (simp add: day_name_def nth_eq_iff_index_eq)
  then show ?thesis using assms by linarith
qed

lemma all_weekdays:
  assumes "weekdays_ok ds" "length ds = 7"
  shows "set ds = {1..7}"
proof (rule card_subset_eq)
  show "set ds \<subseteq> {1..7}" using assms(1) by (auto simp: weekdays_ok_def list_all_iff)
  show "card (set ds) = card {1..7::int}" using assms by (simp add: weekdays_ok_def distinct_card)
qed simp

lemma weekday_cond_true:
  assumes "weekdays_ok ds"
  shows "list_all (cond_true tmpl d) (weekday_cond ds) \<longleftrightarrow> isoweekday d \<in> set ds"
proof (cases "length ds = 7")
  case True
  then show ?thesis using all_weekdays [OF assms] isoweekday_range [of d] by (simp add: weekday_cond_def)
next
  case False
  have "JStr (day_name (isoweekday d)) \<in> (\<lambda>d. JStr (day_name d)) ` set ds \<longleftrightarrow> isoweekday d \<in> set ds"
    using assms isoweekday_range [of d] day_name_inj by (auto simp: weekdays_ok_def list_all_iff)
  then show ?thesis using False by (simp add: weekday_cond_def cond_true_def jget_def)
qed

lemma fires_item:
  "fires tmpl d m (fst (ha_item lbl (single i @ [(''trigger'', time_trigger n), (''condition'', JList cs), (''action'', x)])))
    \<longleftrightarrow> at_text n = at_text m \<and> list_all (cond_true tmpl d) cs"
  by (simp add: fires_def trigger_at_def ha_item_def single_def jget_def time_trigger_def Let_def)

lemma rule_fires:
  assumes S: "rules_sound Plug g rs" and m: "0 \<le> m" "m < 1440" and r: "r \<in> set rs"
    and tmpl: "list_all (cond_true tmpl d) (skip_cond skips) \<longleftrightarrow> d \<notin> set skips"
  shows "fires tmpl d m (fst (on_automation eid t skips r))
      \<longleftrightarrow> start_of r = m \<and> isoweekday d \<in> set (r_days r) \<and> d \<notin> set skips"
    and "fires tmpl d m (fst (off_automation eid t [] r))
      \<longleftrightarrow> end_of r = m \<and> isoweekday d \<in> set (r_days r)"
proof -
  have snd: "rule_sound Plug g r" using S r by (auto simp: rules_sound_def list_all_iff)
  then have wd: "weekdays_ok (r_days r)" by (simp add: rule_sound_def)
  have se: "at_text (start_of r) = at_text m \<longleftrightarrow> start_of r = m" "at_text (end_of r) = at_text m \<longleftrightarrow> end_of r = m"
    using at_text_inj m rule_sound_times [OF snd] by auto
  show "fires tmpl d m (fst (on_automation eid t skips r))
      \<longleftrightarrow> start_of r = m \<and> isoweekday d \<in> set (r_days r) \<and> d \<notin> set skips"
    unfolding on_automation_def fires_item list_all_append weekday_cond_true [OF wd] tmpl se by simp
  show "fires tmpl d m (fst (off_automation eid t [] r)) \<longleftrightarrow> end_of r = m \<and> isoweekday d \<in> set (r_days r)"
    unfolding off_automation_def fires_item list_all_append weekday_cond_true [OF wd] se
    by (simp add: not_in_run_cond_def)
qed



section \<open>Identifiers\<close>

text \<open>
  the id of an automation does not determine its entity and rule: a rule \<open>p_x\<close> of the entity
  \<open>e\<close> and a rule \<open>x\<close> of the entity \<open>e_p\<close> give the same id, though both pairs of names
  are accepted; Home Assistant keeps only one of two automations with one id.
\<close>

theorem automation_id_collision:
  "jget (fst (on_automation e t skips (r\<lparr>r_id := p @ ''_'' @ x\<rparr>))) ''id''
    = jget (fst (on_automation (e @ ''_'' @ p) t' skips' (r'\<lparr>r_id := x\<rparr>))) ''id''"
  by (simp add: on_automation_def ha_item_def single_def jget_def Let_def)

section \<open>Rendering stored entities\<close>

lemma plug_has_max_on:
  assumes "validate_guardrails Plug gv = (g, [])"
  shows "g_max_on_minutes g \<noteq> None"
proof -
  obtain kvs where gv: "gv = JObj kvs" using assms by (cases gv) (simp_all add: validate_guardrails_def)
  have "\<exists>p. snd (validate_guardrails Plug (JObj kvs)) = required_guards Plug (fst (validate_guardrails Plug (JObj kvs))) p"
    by (simp add: validate_guardrails_def Let_def case_prod_unfold) blast
  then obtain p where "required_guards Plug g p = []" using assms gv by (metis fst_conv snd_conv)
  then show ?thesis by (auto simp: required_guards_def Let_def simp del: not_None_eq split: if_splits)
qed

definition stored_guards :: "snap_entity \<Rightarrow> bool" where
  "stored_guards s \<longleftrightarrow> (\<exists>gv. validate_guardrails (e_kind (se_entity s)) gv = (e_guardrails (se_entity s), []))"

lemma bind_res_total: "\<exists>x. m = Inr x \<Longrightarrow> (\<And>x. \<exists>y. f x = Inr y) \<Longrightarrow> \<exists>y. bind_res m f = Inr y"
  by (auto simp: bind_res_Inr_iff)

lemma render_entity_total:
  assumes "stored_guards s"
  shows "\<exists>st'. render_entity st s = Inr st'"
proof -
  have "e_kind (se_entity s) = Plug \<Longrightarrow> \<exists>mx. g_max_on_minutes (e_guardrails (se_entity s)) = Some mx"
    using assms plug_has_max_on unfolding stored_guards_def by (metis not_None_eq)
  then have items: "\<exists>items. (if e_kind (se_entity s) = Plug
      then plug_automations eid t (e_guardrails (se_entity s)) rules skips runs else Inr vs) = Inr items"
    for eid t rules skips runs and vs :: "(fields \<times> string) list"
    by (cases "e_kind (se_entity s) = Plug") (auto simp: plug_automations_def)
  show ?thesis
  proof (cases "e_managed (se_entity s) \<and> renderable (e_kind (se_entity s))")
    case False
    then show ?thesis by (cases st) (simp add: render_entity_def Let_def)
  next
    case True
    obtain files exp_a exp_s keys where st: "st = (files, exp_a, exp_s, keys)" by (cases st)
    show ?thesis using True unfolding render_entity_def st prod.case Let_def
      by (simp only: simp_thms if_False de_Morgan_conj not_not, intro bind_res_total items)
        (simp add: case_prod_unfold)
  qed
qed

lemma fold_render_total: "list_all stored_guards ss \<Longrightarrow> \<exists>st'. fold_res render_entity st ss = Inr st'"
proof (induction ss arbitrary: st)
  case (Cons s ss)
  from Cons.prems have s: "stored_guards s" and ss: "list_all stored_guards ss" by simp_all
  obtain st1 where "render_entity st s = Inr st1" using render_entity_total [OF s] by blast
  then show ?case using Cons.IH [OF ss, of st1] by simp
qed (simp del: split_paired_Ex)

lemma render_total:
  assumes "list_all stored_guards ss"
  shows "\<exists>rd. render ss = Inr rd"
proof -
  obtain st where "fold_res render_entity ([], [], [], []) ss = Inr st" using fold_render_total [OF assms] by blast
  then show ?thesis by (cases st) (simp add: render_def Let_def split: prod.splits)
qed

text \<open>
  rendering never fails on entities whose guardrails the service accepted, and every managed plug
  among them has its fail-safe automation: each minute, a plug that has been on longer than
  \<open>max_on_minutes\<close> is switched off.
\<close>

theorem render_total_failsafe:
  assumes "list_all stored_guards ss"
  shows "(\<exists>rd. render ss = Inr rd)
    \<and> (\<forall>s\<in>set ss. e_kind (se_entity s) = Plug \<longrightarrow>
        (\<exists>mx items. g_max_on_minutes (e_guardrails (se_entity s)) = Some mx
          \<and> plug_automations (e_id (se_entity s)) (e_ha_target (se_entity s)) (e_guardrails (se_entity s))
              (se_rules s) (se_skips s) (se_runs s) = Inr items
          \<and> failsafe_automation (e_id (se_entity s)) (e_ha_target (se_entity s)) mx \<in> set items))"
proof -
  have "\<exists>rd. render ss = Inr rd" using assms by (rule render_total)
  moreover have "\<exists>mx. g_max_on_minutes (e_guardrails (se_entity s)) = Some mx"
    if "s \<in> set ss" "e_kind (se_entity s) = Plug" for s
    using assms that plug_has_max_on unfolding stored_guards_def list_all_iff by (metis not_None_eq)
  ultimately show ?thesis unfolding plug_automations_def by fastforce
qed

definition ex_plug_body :: json where
  "ex_plug_body = JObj [(''max_on_minutes'', JInt 180), (''min_gap_minutes'', JInt 30), (''allowed_from'', JStr ''06:00''),
     (''allowed_to'', JStr ''22:00''), (''max_open_minutes_per_day'', JInt 120)]"

lemma render_total_failsafe_witness:
  "\<exists>rd. render [\<lparr>se_entity = \<lparr>e_id = ''boiler'', e_kind = Plug, e_name = ''Boiler'', e_ha_target = Some ''switch.boiler'',
      e_managed = True, e_flags = no_flags, e_guardrails = ex_guards, e_meta = []\<rparr>,
      se_rules = ex_plug_rules, se_skips = [], se_runs = []\<rparr>] = Inr rd"
proof -
  have "validate_guardrails Plug ex_plug_body = (ex_guards, [])" by code_simp
  then show ?thesis
    using render_total_failsafe [of "[\<lparr>se_entity = \<lparr>e_id = ''boiler'', e_kind = Plug, e_name = ''Boiler'', e_ha_target = Some ''switch.boiler'',
      e_managed = True, e_flags = no_flags, e_guardrails = ex_guards, e_meta = []\<rparr>,
      se_rules = ex_plug_rules, se_skips = [], se_runs = []\<rparr>]"]
    by (auto simp: stored_guards_def)
qed

end
