(* ===== verification/Store_Inv.thy ===== *)
theory Store_Inv
  imports Child_Devices Revalidate HA_Props
begin

text \<open>
  The invariant of the store and that every write keeps it: each entity has exactly one schedule,
  sound for its kind and its accepted guardrails; the audit chain is intact; a plug has at most one
  active run.
\<close>

section \<open>The invariant\<close>

definition guards_ok :: "kind \<Rightarrow> guardrails \<Rightarrow> bool" where
  "guards_ok k g \<longleftrightarrow> (\<exists>gv. validate_guardrails k gv = (g, []))"

definition row_sound :: "ent_row \<Rightarrow> sched_row \<Rightarrow> bool" where
  "row_sound r s \<longleftrightarrow> sc_entity s = e_id (en_entity r)
     \<and> guards_ok (e_kind (en_entity r)) (e_guardrails (en_entity r))
     \<and> rules_sound (e_kind (en_entity r)) (e_guardrails (en_entity r)) (sc_rules s)"

definition tables_ok :: "ent_row list \<Rightarrow> sched_row list \<Rightarrow> bool" where
  "tables_ok es ss \<longleftrightarrow> list_all2 row_sound es ss \<and> distinct (map (e_id \<circ> en_entity) es)"

definition active_of :: "string \<Rightarrow> run_row list \<Rightarrow> run_row list" where
  "active_of eid rs = filter (\<lambda>r. rr_entity r = eid \<and> rr_status r = ''active'') rs"

definition runs_ok :: "run_row list \<Rightarrow> bool" where
  "runs_ok rs \<longleftrightarrow> distinct (map rr_id rs) \<and> (\<forall>eid. length (active_of eid rs) \<le> 1)"

definition removed_ok :: "removed_row list \<Rightarrow> bool" where
  "removed_ok rs \<longleftrightarrow> list_all (\<lambda>r. guards_ok Child_window (df_guardrails (rm_def r))) rs"

definition store_inv :: "db \<Rightarrow> bool" where
  "store_inv st \<longleftrightarrow> tables_ok (db_entities st) (db_schedules st) \<and> audit_ok (db_audit st)
     \<and> runs_ok (db_runs st) \<and> removed_ok (db_removed st)"

section \<open>The entity and schedule tables\<close>

lemma tables_nth:
  assumes "tables_ok es ss"
  shows "length es = length ss" "i < length es \<Longrightarrow> row_sound (es ! i) (ss ! i)"
  using assms by (auto simp: tables_ok_def list_all2_conv_all_nth)

lemma tables_same:
  assumes "tables_ok es ss" "i < length es" "j < length es" "e_id (en_entity (es ! i)) = e_id (en_entity (es ! j))"
  shows "i = j"
proof -
  have "distinct (map (e_id \<circ> en_entity) es)" using assms(1) by (simp add: tables_ok_def)
  then show ?thesis using assms(2-4) by (metis comp_apply distinct_conv_nth length_map nth_map)
qed

lemma entity_of_nth:
  assumes "entity_of st eid = Inr e"
  shows "\<exists>i<length (db_entities st). en_entity (db_entities st ! i) = e \<and> e_id e = eid"
  using assms by (auto simp: entity_of_def find_Some_iff split: option.splits)

lemma schedule_of_nth:
  assumes "schedule_of st eid = Inr s"
  shows "\<exists>i<length (db_schedules st). db_schedules st ! i = s \<and> sc_entity s = eid"
  using assms by (auto simp: schedule_of_def find_Some_iff split: option.splits)

lemma entity_schedule_sound:
  assumes inv: "tables_ok (db_entities st) (db_schedules st)"
    and e: "entity_of st eid = Inr e" and s: "schedule_of st eid = Inr s"
  shows "guards_ok (e_kind e) (e_guardrails e)" "rules_sound (e_kind e) (e_guardrails e) (sc_rules s)"
proof -
  obtain i where i: "i < length (db_entities st)" "en_entity (db_entities st ! i) = e" "e_id e = eid"
    using entity_of_nth [OF e] by blast
  obtain j where j: "j < length (db_schedules st)" "db_schedules st ! j = s" "sc_entity s = eid"
    using schedule_of_nth [OF s] by blast
  note n = tables_nth [OF inv]
  have rj: "row_sound (db_entities st ! j) s" using n j(1,2) by metis
  then have "i = j" using tables_same [OF inv i(1)] i(2,3) j(1,3) n(1) by (simp add: row_sound_def)
  then show "guards_ok (e_kind e) (e_guardrails e)" "rules_sound (e_kind e) (e_guardrails e) (sc_rules s)"
    using rj i(2) by (simp_all add: row_sound_def)
qed

lemma entity_guards:
  assumes inv: "tables_ok (db_entities st) (db_schedules st)" and e: "entity_of st eid = Inr e"
  shows "guards_ok (e_kind e) (e_guardrails e)"
  using entity_of_nth [OF e] tables_nth [OF inv] by (auto simp: row_sound_def)

text \<open>Changing one row of either table.\<close>

lemma tables_ok_set_sched:
  assumes inv: "tables_ok (db_entities st) (db_schedules st)" and e: "entity_of st eid = Inr e"
    and f: "\<And>r. sc_entity r = eid \<Longrightarrow> sc_entity (f r) = eid \<and> rules_sound (e_kind e) (e_guardrails e) (sc_rules (f r))"
  shows "tables_ok (db_entities st) (db_schedules (set_sched eid f st))"
proof -
  obtain i where i: "i < length (db_entities st)" "en_entity (db_entities st ! i) = e" "e_id e = eid"
    using entity_of_nth [OF e] by blast
  note n = tables_nth [OF inv]
  have "row_sound (db_entities st ! j) (if sc_entity (db_schedules st ! j) = eid then f (db_schedules st ! j) else db_schedules st ! j)"
    if j: "j < length (db_entities st)" for j
  proof (cases "sc_entity (db_schedules st ! j) = eid")
    case True
    have rj: "row_sound (db_entities st ! j) (db_schedules st ! j)" using n(2) [OF j] .
    then have "i = j" using tables_same [OF inv i(1) j] i(2,3) True by (simp add: row_sound_def)
    then show ?thesis using rj f [OF True] i(2,3) True by (simp add: row_sound_def)
  next
    case False
    then show ?thesis using n(2) [OF j] by simp
  qed
  then show ?thesis using inv n(1)
    by (simp add: tables_ok_def set_sched_def list_all2_conv_all_nth)
qed

lemma map_entity_ids:
  "(\<And>e. e_id e = eid \<Longrightarrow> e_id (f e) = eid) \<Longrightarrow>
     map (e_id \<circ> en_entity) (db_entities (set_entity eid f st)) = map (e_id \<circ> en_entity) (db_entities st)"
  by (simp add: set_entity_def)

lemma tables_ok_set_entity:
  assumes inv: "tables_ok (db_entities st) (db_schedules st)" and e: "entity_of st eid = Inr e"
    and s: "schedule_of st eid = Inr s"
    and f: "e_id (f e) = eid" "guards_ok (e_kind (f e)) (e_guardrails (f e))"
      "rules_sound (e_kind (f e)) (e_guardrails (f e)) (sc_rules s)"
  shows "tables_ok (db_entities (set_entity eid f st)) (db_schedules st)"
proof -
  obtain i where i: "i < length (db_entities st)" "en_entity (db_entities st ! i) = e" "e_id e = eid"
    using entity_of_nth [OF e] by blast
  obtain j where j: "j < length (db_schedules st)" "db_schedules st ! j = s" "sc_entity s = eid"
    using schedule_of_nth [OF s] by blast
  note n = tables_nth [OF inv]
  have "row_sound (db_entities st ! j) s" using n j by metis
  then have ij: "i = j" using tables_same [OF inv i(1)] i(2,3) j(1,3) n(1) by (simp add: row_sound_def)
  let ?g = "\<lambda>r. if e_id (en_entity r) = eid then r\<lparr>en_entity := f (en_entity r)\<rparr> else r"
  have only: "e_id (en_entity (db_entities st ! k)) = eid \<longleftrightarrow> k = i" if "k < length (db_entities st)" for k
    using tables_same [OF inv that i(1)] i(2,3) by auto
  have "row_sound (?g (db_entities st ! k)) (db_schedules st ! k)" if k: "k < length (db_entities st)" for k
  proof (cases "k = i")
    case True
    then show ?thesis using f i(2,3) j(2,3) ij by (simp add: row_sound_def)
  next
    case False
    then show ?thesis using only [OF k] n(2) [OF k] by simp
  qed
  moreover have ids: "map (e_id \<circ> en_entity) (map ?g (db_entities st)) = map (e_id \<circ> en_entity) (db_entities st)"
  proof (rule nth_equalityI)
    fix k assume "k < length (map (e_id \<circ> en_entity) (map ?g (db_entities st)))"
    then have k: "k < length (db_entities st)" by simp
    show "map (e_id \<circ> en_entity) (map ?g (db_entities st)) ! k = map (e_id \<circ> en_entity) (db_entities st) ! k"
      using only [OF k] k i(2,3) f(1) by (cases "k = i") auto
  qed simp
  have "distinct (map (e_id \<circ> en_entity) (map ?g (db_entities st)))"
    unfolding ids using inv by (simp only: tables_ok_def)
  ultimately show ?thesis using n(1)
    unfolding tables_ok_def by (simp add: set_entity_def list_all2_conv_all_nth)
qed

lemma tables_ok_snoc:
  assumes "tables_ok es ss" "row_sound r s" "e_id (en_entity r) \<notin> (e_id \<circ> en_entity) ` set es"
  shows "tables_ok (es @ [r]) (ss @ [s])"
  using assms by (auto simp: tables_ok_def intro: list_all2_appendI)

lemma list_all2_filter:
  assumes "list_all2 R xs ys" "\<And>x y. R x y \<Longrightarrow> P x = Q y"
  shows "list_all2 R (filter P xs) (filter Q ys)"
  using assms(1) by (induction rule: list_all2_induct) (auto dest: assms(2))

lemma tables_ok_filter:
  assumes "tables_ok es ss"
  shows "tables_ok (filter (\<lambda>r. \<not> gone (e_id (en_entity r))) es) (filter (\<lambda>s. \<not> gone (sc_entity s)) ss)"
  using assms by (auto simp: tables_ok_def row_sound_def distinct_map_filter intro!: list_all2_filter)

lemma tables_ok_drop: "tables_ok (db_entities st) (db_schedules st)
    \<Longrightarrow> tables_ok (db_entities (drop_children gone st)) (db_schedules (drop_children gone st))"
  by (simp add: drop_children_def tables_ok_filter)

section \<open>Frames\<close>

lemma audit_st_fields [simp]:
  "db_entities (audit_st now a act e b c st) = db_entities st"
  "db_schedules (audit_st now a act e b c st) = db_schedules st"
  "db_runs (audit_st now a act e b c st) = db_runs st"
  "db_removed (audit_st now a act e b c st) = db_removed st"
  "db_domains (audit_st now a act e b c st) = db_domains st"
  "db_tokens (audit_st now a act e b c st) = db_tokens st"
  "db_cexc (audit_st now a act e b c st) = db_cexc st"
  "db_lists (audit_st now a act e b c st) = db_lists st"
  "db_exceptions (audit_st now a act e b c st) = db_exceptions st"
  by (simp_all add: audit_st_def)

lemma audit_st_ok [simp]: "audit_ok (db_audit st) \<Longrightarrow> audit_ok (db_audit (audit_st now a act e b c st))"
  by (simp add: audit_st_def audit_ok_append)

lemma set_fields [simp]:
  "db_entities (set_sched eid f st) = db_entities st" "db_audit (set_sched eid f st) = db_audit st"
  "db_runs (set_sched eid f st) = db_runs st" "db_removed (set_sched eid f st) = db_removed st"
  "db_schedules (set_entity eid g st) = db_schedules st" "db_audit (set_entity eid g st) = db_audit st"
  "db_runs (set_entity eid g st) = db_runs st" "db_removed (set_entity eid g st) = db_removed st"
  "db_entities (set_run rid h st) = db_entities st" "db_schedules (set_run rid h st) = db_schedules st"
  "db_audit (set_run rid h st) = db_audit st" "db_removed (set_run rid h st) = db_removed st"
  "db_audit (drop_children gone st) = db_audit st" "db_runs (drop_children gone st) = db_runs st"
  "db_removed (drop_children gone st) = db_removed st"
  by (simp_all add: set_sched_def set_entity_def set_run_def drop_children_def)

end
