(* ===== verification/Store_Steps.thy ===== *)
theory Store_Steps
  imports Store_Inv
begin

text \<open>
  Every write of the store keeps the invariant, one lemma per operation, and the runs of a plug: the
  closing of runs, starting, extending, cancelling.
\<close>

lemmas op_simps = bind_res_Inr_iff Let_def

lemma store_invI:
  assumes "tables_ok (db_entities st) (db_schedules st)" "audit_ok (db_audit st)" "runs_ok (db_runs st)" "removed_ok (db_removed st)"
  shows "store_inv st"
  using assms by (simp add: store_inv_def)

lemma store_invD:
  assumes "store_inv st"
  shows "tables_ok (db_entities st) (db_schedules st)" "audit_ok (db_audit st)" "runs_ok (db_runs st)" "removed_ok (db_removed st)"
  using assms by (simp_all add: store_inv_def)

section \<open>Schedules, guardrails, entities\<close>

lemma put_schedule_cases:
  assumes "put_schedule now a eid rules im act st = Inr (st', c)"
  shows "\<exists>ent cur rs. entity_of st eid = Inr ent \<and> check_editor a ent = Inr () \<and> schedule_of st eid = Inr cur
    \<and> im = sc_version cur \<and> validate_rules (e_kind ent) (e_guardrails ent) rules = Inr (rs, [])
    \<and> c = (rs \<noteq> sc_rules cur)
    \<and> st' = (if rs = sc_rules cur then st else audit_st now a act (Some eid) (version_rules (sc_version cur) (sc_rules cur))
         (version_rules (sc_version cur + 1) rs)
         (set_sched eid (\<lambda>r. r\<lparr>sc_version := sc_version cur + 1, sc_rules := rs, sc_updated := stored now\<rparr>) st))"
proof -
  obtain ent cur rs where *: "entity_of st eid = Inr ent" "check_editor a ent = Inr ()" "schedule_of st eid = Inr cur"
    "im = sc_version cur" "validate_rules (e_kind ent) (e_guardrails ent) rules = Inr (rs, [])"
    using assms unfolding put_schedule_def by (auto simp: op_simps)
  have "c = (rs \<noteq> sc_rules cur) \<and> st' = (if rs = sc_rules cur then st else
      audit_st now a act (Some eid) (version_rules (sc_version cur) (sc_rules cur)) (version_rules (sc_version cur + 1) rs)
         (set_sched eid (\<lambda>r. r\<lparr>sc_version := sc_version cur + 1, sc_rules := rs, sc_updated := stored now\<rparr>) st))"
    using assms unfolding put_schedule_def * by (auto simp: op_simps * require_def require_none_def lift_py_def)
  then show ?thesis using * by blast
qed

lemma put_schedule_inv:
  assumes inv: "store_inv st" and ok: "put_schedule now a eid rules im act st = Inr (st', c)"
  shows "store_inv st'"
proof -
  obtain ent and cur :: sched_row and rs where p: "entity_of st eid = Inr ent"
    "validate_rules (e_kind ent) (e_guardrails ent) rules = Inr (rs, [])"
    "st' = (if rs = sc_rules cur then st else audit_st now a act (Some eid) (version_rules (sc_version cur) (sc_rules cur))
         (version_rules (sc_version cur + 1) rs)
         (set_sched eid (\<lambda>r. r\<lparr>sc_version := sc_version cur + 1, sc_rules := rs, sc_updated := stored now\<rparr>) st))"
    using put_schedule_cases [OF ok] by blast
  note i = store_invD [OF inv]
  have "rules_sound (e_kind ent) (e_guardrails ent) rs" using p(2) by (rule validate_rules_sound)
  then have "tables_ok (db_entities st) (db_schedules (set_sched eid
      (\<lambda>r. r\<lparr>sc_version := sc_version cur + 1, sc_rules := rs, sc_updated := stored now\<rparr>) st))"
    by (intro tables_ok_set_sched [OF i(1) p(1)]) simp
  then show ?thesis using i inv by (auto simp: p(3) intro!: store_invI)
qed

lemma undo_inv:
  assumes "store_inv st" "undo now a eid st = Inr (st', c)"
  shows "store_inv st'"
  using assms put_schedule_inv by (fastforce simp: undo_def op_simps split: option.splits)

lemma set_guardrails_inv:
  assumes inv: "store_inv st" and ok: "set_guardrails now a eid gv st = Inr (st', c)"
  shows "store_inv st'"
proof -
  note i = store_invD [OF inv]
  obtain ent g cur rs where p: "entity_of st eid = Inr ent" "validate_guardrails (e_kind ent) gv = (g, [])"
    "schedule_of st eid = Inr cur" "validate_rules (e_kind ent) g (rules_json (sc_rules cur)) = Inr (rs, [])"
    and st': "st' = st \<or> st' = audit_st now a ''guardrails'' (Some eid) (guardrails_json (e_guardrails ent)) (guardrails_json g)
                   (set_entity eid (\<lambda>e. e\<lparr>e_guardrails := g\<rparr>) st)"
  proof -
    obtain ent where e: "entity_of st eid = Inr ent"
      using ok by (auto simp: set_guardrails_def op_simps)
    obtain g probs where g: "validate_guardrails (e_kind ent) gv = (g, probs)" by (cases "validate_guardrails (e_kind ent) gv")
    show thesis using ok unfolding set_guardrails_def
      by (auto simp: op_simps e g prefixed_def split: if_splits intro: that [OF e])
  qed
  have "e_id ent = eid" using entity_of_nth [OF p(1)] by auto
  moreover have "rules_sound (e_kind ent) g (sc_rules cur)"
    using revalidate(2) [OF entity_schedule_sound(2) [OF i(1) p(1,3)] p(4)] .
  moreover have "guards_ok (e_kind ent) g" using p(2) by (auto simp: guards_ok_def)
  ultimately have "tables_ok (db_entities (set_entity eid (\<lambda>e. e\<lparr>e_guardrails := g\<rparr>) st)) (db_schedules st)"
    by (intro tables_ok_set_entity [OF i(1) p(1,3)]) simp_all
  then show ?thesis using st' i inv by (auto intro!: store_invI)
qed

lemma not_taken_ids:
  "\<not> id_taken st eid \<longleftrightarrow> eid \<notin> (e_id \<circ> en_entity) ` set (db_entities st)"
  by (auto simp: id_taken_def list_ex_iff)

lemma set_entities: "set (entities st) = en_entity ` set (db_entities st)"
  by (auto simp: entities_def)

lemma add_plug_inv:
  assumes inv: "store_inv st" and ok: "add_plug now a eid name target like k st = Inr st'"
  shows "store_inv st'"
proof -
  note i = store_invD [OF inv]
  let ?src = "find (\<lambda>e. e_id e = like \<and> e_kind e = k) (entities st)"
  obtain e0 s nm b f where src: "?src = Some e0" and s: "schedule_of st (e_id e0) = Inr s"
    and new: "new_entity_problems (entities st) eid target = []"
    and st': "st' = audit_st now a ''entity_add'' (Some eid) JNull b (insert_entity now
        \<lparr>e_id = eid, e_kind = k, e_name = nm, e_ha_target = Some target, e_managed = False,
         e_flags = f, e_guardrails = e_guardrails e0, e_meta = []\<rparr> (sc_rules s) st)"
    using ok unfolding add_plug_def
    by (auto simp: op_simps simp del: find.simps split: if_splits)
  have e0: "e0 \<in> set (entities st)" "e_kind e0 = k" using src by (auto dest!: find_Some_iff_in)
  have "\<exists>e. entity_of st (e_id e0) = Inr e"
    using e0(1) by (auto simp: entity_of_def set_entities find_None_iff split: option.splits)
  then obtain e where e: "entity_of st (e_id e0) = Inr e" by blast
  have "e = e0"
  proof -
    obtain j where j: "j < length (db_entities st)" "en_entity (db_entities st ! j) = e" "e_id e = e_id e0"
      using entity_of_nth [OF e] by blast
    obtain m where m: "m < length (db_entities st)" "en_entity (db_entities st ! m) = e0"
      using e0(1) by (auto simp: set_entities in_set_conv_nth)
    then show ?thesis using tables_same [OF i(1) j(1) m(1)] j by auto
  qed
  note sound = entity_schedule_sound [OF i(1) e s, unfolded \<open>e = e0\<close> e0(2)]
  have "e_id x \<noteq> eid" if "x \<in> set (entities st)" for x
    using new that unfolding new_entity_problems_def concat_map_Nil by (auto split: if_splits)
  then have "eid \<notin> (e_id \<circ> en_entity) ` set (db_entities st)" by (auto simp: set_entities)
  then show ?thesis using i sound unfolding st'
    by (intro store_invI) (auto simp: insert_entity_def row_sound_def intro!: tables_ok_snoc)
qed

lemma patched_keeps:
  "e_id (fst (patched ents p e)) = e_id e" "e_kind (fst (patched ents p e)) = e_kind e"
  "e_guardrails (fst (patched ents p e)) = e_guardrails e"
  by (auto simp: patched_def patch_name_def patch_flags_def Let_def split: prod.splits option.splits json.splits if_splits)

lemma schedule_exists:
  assumes inv: "tables_ok (db_entities st) (db_schedules st)" and e: "entity_of st eid = Inr e"
  shows "\<exists>s. schedule_of st eid = Inr s"
proof -
  obtain i where i: "i < length (db_entities st)" "en_entity (db_entities st ! i) = e" "e_id e = eid"
    using entity_of_nth [OF e] by blast
  then have "row_sound (db_entities st ! i) (db_schedules st ! i)" "i < length (db_schedules st)"
    using tables_nth [OF inv] by auto
  then have "db_schedules st ! i \<in> set (db_schedules st)" "sc_entity (db_schedules st ! i) = eid"
    using i by (auto simp: row_sound_def)
  then show ?thesis by (auto simp: schedule_of_def find_None_iff split: option.splits)
qed

lemma set_entity_keeps:
  assumes inv: "tables_ok (db_entities st) (db_schedules st)" and e: "entity_of st eid = Inr e"
    and f: "e_id (f e) = e_id e" "e_kind (f e) = e_kind e" "e_guardrails (f e) = e_guardrails e"
  shows "tables_ok (db_entities (set_entity eid f st)) (db_schedules st)"
proof -
  obtain s where s: "schedule_of st eid = Inr s" using schedule_exists [OF inv e] by blast
  have "e_id e = eid" using entity_of_nth [OF e] by auto
  then show ?thesis using entity_schedule_sound [OF inv e s] f
    by (intro tables_ok_set_entity [OF inv e s]) simp_all
qed

lemma patch_entity_inv:
  assumes inv: "store_inv st" and ok: "patch_entity now a eid p st = Inr (st', c)"
  shows "store_inv st'"
proof -
  note i = store_invD [OF inv]
  obtain ent where e: "entity_of st eid = Inr ent" using ok by (auto simp: patch_entity_def op_simps)
  obtain new probs where new: "patched (entities st) p ent = (new, probs)" by (cases "patched (entities st) p ent")
  then have keep: "e_id new = e_id ent" "e_kind new = e_kind ent" "e_guardrails new = e_guardrails ent"
    using patched_keeps [of "entities st" p ent] by simp_all
  have "tables_ok (db_entities (set_entity eid (\<lambda>e. new) st)) (db_schedules st)"
    using keep by (intro set_entity_keeps [OF i(1) e])
  moreover have "st' = st \<or> st' = audit_st now a ''entity'' (Some eid) (settings_json ent) (settings_json new) (set_entity eid (\<lambda>e. new) st)"
    using ok unfolding patch_entity_def by (auto simp: op_simps e new split: if_splits)
  ultimately show ?thesis using i inv by (auto intro!: store_invI)
qed

lemma seed_one_inv:
  assumes inv: "store_inv st" and ok: "seed_one now a st x = Inr st'"
  shows "store_inv st'"
proof -
  note i = store_invD [OF inv]
  obtain pos w where x: "x = (pos, w)" by (cases x)
  obtain g gp where g: "validate_guardrails (sw_kind w) (sw_guardrails w) = (g, gp)"
    by (cases "validate_guardrails (sw_kind w) (sw_guardrails w)")
  obtain fl fp where fl: "validate_flags (sw_flags w) = (fl, fp)" by (cases "validate_flags (sw_flags w)")
  let ?e = "\<lparr>en_entity = \<lparr>e_id = sw_id w, e_kind = sw_kind w, e_name = sw_name w, e_ha_target = sw_ha_target w,
      e_managed = sw_managed w, e_flags = fl, e_guardrails = g, e_meta = []\<rparr>, en_position = int pos\<rparr>"
  obtain rs where r: "validate_rules (sw_kind w) g (sw_rules w) = Inr (rs, [])" "gp = []"
    and fresh: "\<forall>r\<in>set (db_entities st). e_id (en_entity r) \<noteq> sw_id w"
    and st': "db_entities st' = db_entities st @ [?e]"
      "db_schedules st' = db_schedules st @ [\<lparr>sc_entity = sw_id w, sc_version = 1, sc_rules = rs, sc_updated = stored now\<rparr>]"
      "db_runs st' = db_runs st" "db_removed st' = db_removed st" "audit_ok (db_audit st')"
    using ok i(2) unfolding seed_one_def x by (auto simp: op_simps g fl prefixed_def list_all_iff)
  have "rules_sound (sw_kind w) g rs" "guards_ok (sw_kind w) g"
    using validate_rules_sound [OF r(1)] g r(2) by (auto simp: guards_ok_def)
  then have "tables_ok (db_entities st') (db_schedules st')"
    using fresh unfolding st' by (auto simp: row_sound_def intro!: tables_ok_snoc i(1))
  then show ?thesis using i st' by (intro store_invI) simp_all
qed

lemma seed_inv:
  assumes inv: "store_inv st" and ok: "seed now a ws st = Inr (st', n)"
  shows "store_inv st'"
proof -
  have "fold_res (seed_one now a) st (zip [0..<length ws] ws) = Inr st'"
    using ok by (auto simp: seed_def op_simps)
  then show ?thesis by (rule fold_res_invariant) (use inv seed_one_inv in auto)
qed

section \<open>Skipped dates and tokens\<close>

lemma small_ops_inv:
  assumes "store_inv st"
  shows "add_exception now fresh a eid body today st = Inr (st', x) \<Longrightarrow> store_inv st'"
    and "delete_exception now a xid st = Inr st' \<Longrightarrow> store_inv st'"
    and "create_token now fresh secret a name role expires gateway st = Inr (st', y) \<Longrightarrow> store_inv st'"
    and "revoke_token now a tid st = Inr st' \<Longrightarrow> store_inv st'"
    and "store_inv (touch_token now tid st)" "store_inv (record_apply now a status st)"
  using store_invD [OF assms]
  by (auto simp: add_exception_def delete_exception_def create_token_def revoke_token_def touch_token_def record_apply_def
      op_simps split: prod.splits option.splits intro!: store_invI)

section \<open>Runs\<close>

lemma set_run_ids: "(\<And>r. rr_id (f r) = rr_id r) \<Longrightarrow> map rr_id (db_runs (set_run rid f st)) = map rr_id (db_runs st)"
  by (simp add: set_run_def)

lemma runs_ok_set_run:
  assumes ok: "runs_ok (db_runs st)"
    and f: "\<And>r. rr_id (f r) = rr_id r" "\<And>r. rr_entity (f r) = rr_entity r"
      "\<And>r. r \<in> set (db_runs st) \<Longrightarrow> rr_id r = rid \<Longrightarrow> rr_status (f r) = ''active'' \<Longrightarrow> rr_status r = ''active''"
  shows "runs_ok (db_runs (set_run rid f st))"
proof -
  have "length (active_of eid (map (\<lambda>r. if rr_id r = rid then f r else r) rs)) \<le> length (active_of eid rs)"
    if "set rs \<subseteq> set (db_runs st)" for eid rs
    using that
  proof (induction rs)
    case (Cons r rs)
    then show ?case using f(2) [of r] f(3) [of r] by (auto simp: active_of_def)
  qed (simp add: active_of_def)
  then have "length (active_of eid (db_runs (set_run rid f st))) \<le> 1" for eid
    using ok by (auto simp: runs_ok_def set_run_def intro: order_trans)
  then show ?thesis using ok f(1) by (simp add: runs_ok_def set_run_ids)
qed

lemma close_run_inv: "store_inv st \<Longrightarrow> store_inv (close_run now r st)"
  using store_invD [of st]
  by (auto simp: close_run_def Let_def intro!: store_invI runs_ok_set_run)

lemma fold_close_inv: "store_inv st \<Longrightarrow> store_inv (foldl (\<lambda>s r. close_run now r s) st rs)"
  by (induction rs arbitrary: st) (simp_all add: close_run_inv)

lemma set_runs_of:
  "set (runs_of st (Some eid) True None) = {r \<in> set (db_runs st). rr_entity r = eid \<and> rr_status r = ''active''}"
  by (auto simp: runs_of_def)

lemma start_run_inv:
  assumes inv: "store_inv st0" and ok: "start_run now0 fresh a eid minutes st0 = Inr (st', rid)"
  shows "store_inv st'"
proof -
  let ?st = "close_over (stored now0) eid st0"
  have "store_inv ?st" unfolding close_over_def using inv by (rule fold_close_inv)
  note i = store_invD [OF this]
  obtain ent where e: "entity_of st0 eid = Inr ent" using ok by (auto simp: start_run_def op_simps)
  have none: "runs_of ?st (Some eid) True None = []"
    using ok by (cases "runs_of ?st (Some eid) True None") (auto simp: start_run_def op_simps)
  obtain s where s: "schedule_of ?st eid = Inr s"
    using ok none by (auto simp: start_run_def op_simps)
  obtain ends probs where v: "validate_run ent (sc_rules s) (skips_of ?st eid) minutes (stored now0) (previous_end ?st eid) None = (ends, probs)"
    by (cases "validate_run ent (sc_rules s) (skips_of ?st eid) minutes (stored now0) (previous_end ?st eid) None")
  obtain rw where st': "db_runs st' = db_runs ?st @ [rw]" "db_entities st' = db_entities ?st"
      "db_schedules st' = db_schedules ?st" "db_removed st' = db_removed ?st" "audit_ok (db_audit st')"
    and rw: "rr_id rw = rid" "rr_entity rw = eid" "\<forall>r\<in>set (db_runs ?st). rr_id r \<noteq> rid"
    using ok none i(2) unfolding start_run_def by (auto simp: op_simps e s v list_all_iff)
  have "active_of eid (db_runs ?st) = []"
    using none set_runs_of [of ?st eid] by (auto simp: active_of_def filter_empty_conv)
  then have "length (active_of d (db_runs ?st @ [rw])) \<le> 1" for d
    using i(3) rw(2) by (cases "d = eid") (auto simp: runs_ok_def active_of_def)
  then have "runs_ok (db_runs st')" using i(3) rw by (auto simp: runs_ok_def st')
  then show ?thesis using i st' by (intro store_invI) simp_all
qed

lemma extend_run_inv:
  assumes inv: "store_inv st" and ok: "extend_run now a rid minutes st = Inr st'"
  shows "store_inv st'"
proof -
  note i = store_invD [OF inv]
  obtain r ent s where r: "run_of st rid = Inr r" "entity_of st (rr_entity r) = Inr ent" "schedule_of st (rr_entity r) = Inr s"
    using ok by (auto simp: extend_run_def op_simps)
  obtain e probs where v: "validate_run ent (sc_rules s) (skips_of st (rr_entity r)) minutes (rr_ends r) None (Some (rr_started r)) = (e, probs)"
    by (cases "validate_run ent (sc_rules s) (skips_of st (rr_entity r)) minutes (rr_ends r) None (Some (rr_started r))")
  show ?thesis using ok i unfolding extend_run_def
    by (auto simp: op_simps r v intro!: store_invI runs_ok_set_run)
qed

lemma cancel_run_inv:
  assumes inv: "store_inv st" and ok: "cancel_run now a rid withdraw st = Inr st'"
  shows "store_inv st'"
  using ok store_invD [OF inv] unfolding cancel_run_def
  by (auto simp: op_simps intro!: store_invI runs_ok_set_run split: if_splits)

lemma expire_runs_inv: "store_inv st \<Longrightarrow> store_inv (fst (expire_runs now st))"
  by (simp add: expire_runs_def Let_def fold_close_inv)

end
