(* ===== verification/Child_Steps.thy ===== *)
theory Child_Steps
  imports Store_Steps
begin

text \<open>
  The writes of \<open>child_store.py\<close> keep the store's invariant.
\<close>

section \<open>Writes that leave the entity and schedule tables alone\<close>

lemma set_cexc_fields [simp]:
  "db_entities (set_cexc xid s f st) = db_entities st" "db_schedules (set_cexc xid s f st) = db_schedules st"
  "db_runs (set_cexc xid s f st) = db_runs st" "db_removed (set_cexc xid s f st) = db_removed st"
  "db_audit (set_cexc xid s f st) = db_audit st" "db_domains (set_cexc xid s f st) = db_domains st"
  "db_lists (set_cexc xid s f st) = db_lists st"
  by (simp_all add: set_cexc_def)

lemma add_child_exception_inv:
  assumes inv: "store_inv st" and ok: "add_child_exception now fresh a eid tg m eod st = Inr (st', x)"
  shows "store_inv st'"
  using ok store_invD [OF inv] unfolding add_child_exception_def
  by (auto simp: op_simps intro!: store_invI)

lemma cancel_child_exception_inv:
  assumes inv: "store_inv st" and ok: "cancel_child_exception now a eid xid st = Inr st'"
  shows "store_inv st'"
  using ok store_invD [OF inv] unfolding cancel_child_exception_def
  by (auto simp: op_simps intro!: store_invI split: option.splits)

lemma expire_cexc_inv: "store_inv st \<Longrightarrow> store_inv (expire_cexc now st x)"
  using store_invD [of st] by (auto simp: expire_cexc_def intro!: store_invI)

lemma expire_child_exceptions_inv: "store_inv st \<Longrightarrow> store_inv (fst (expire_child_exceptions now st))"
proof -
  have "store_inv st \<Longrightarrow> store_inv (foldl (expire_cexc t) st xs)" for t xs
    by (induction xs arbitrary: st) (simp_all add: expire_cexc_inv)
  then show "store_inv st \<Longrightarrow> store_inv (fst (expire_child_exceptions now st))"
    by (simp add: expire_child_exceptions_def Let_def)
qed

lemma change_child_domain_inv:
  assumes inv: "store_inv st" and ok: "change_child_domain now a eid kd d add st = Inr st'"
  shows "store_inv st'"
  using ok store_invD [OF inv] inv unfolding change_child_domain_def
  by (auto simp: op_simps intro!: store_invI split: option.splits if_splits)

lemma undo_child_domain_inv:
  assumes inv: "store_inv st" and ok: "undo_child_domain now a eid st = Inr st'"
  shows "store_inv st'"
  using ok store_invD [OF inv] unfolding undo_child_domain_def
  by (auto simp: op_simps intro!: store_invI split: list.splits)

lemma set_child_cutover_inv:
  assumes inv: "store_inv st" and ok: "set_child_cutover now a d note st = Inr st'"
  shows "store_inv st'"
  using ok store_invD [OF inv] unfolding set_child_cutover_def
  by (auto simp: op_simps intro!: store_invI)

section \<open>Guardrails of new devices\<close>

lemma proposed_ok: "guards_ok Child_window PROPOSED_GUARDRAILS"
proof -
  have "validate_guardrails Child_window (guardrails_json PROPOSED_GUARDRAILS) = (PROPOSED_GUARDRAILS, [])"
    by code_simp
  then show ?thesis unfolding guards_ok_def by blast
qed

lemma child_devices_guards:
  assumes "tables_ok (db_entities st) (db_schedules st)" "e \<in> set (child_devices st)"
  shows "guards_ok Child_window (e_guardrails e)"
proof -
  have "e \<in> en_entity ` set (db_entities st)" "e_kind e = Child_window"
    using assms(2) by (auto simp: child_devices_def set_entities)
  then obtain i where "i < length (db_entities st)" "en_entity (db_entities st ! i) = e" "e_kind e = Child_window"
    by (auto simp: in_set_conv_nth)
  then show ?thesis using tables_nth(2) [OF assms(1)] unfolding row_sound_def by metis
qed

lemma guards_or_proposed_ok:
  assumes inv: "tables_ok (db_entities st) (db_schedules st)" and src: "src = None \<or> (\<exists>e. src = Some e \<and> e \<in> set (child_devices st))"
  shows "guards_ok Child_window (guards_or_proposed src)"
  using src child_devices_guards [OF inv] proposed_ok by (auto simp: guards_or_proposed_def)

section \<open>Import\<close>

definition device_ok :: "new_device \<Rightarrow> bool" where
  "device_ok d \<longleftrightarrow> guards_ok Child_window (nd_guard d) \<and> rules_sound Child_window (nd_guard d) (nd_rules d)"

lemma find_child_device:
  "find P (child_devices st) = None \<or> (\<exists>e. find P (child_devices st) = Some e \<and> e \<in> set (child_devices st))"
  using find_Some_iff_in [of P "child_devices st"] by (cases "find P (child_devices st)") auto

definition plan_device_ok :: "new_device \<Rightarrow> bool" where
  "plan_device_ok d \<longleftrightarrow> device_ok d \<and> list_all domain_re (nd_allow d) \<and> list_all domain_re (nd_deny d)
     \<and> list_all (\<lambda>x. deny_breaks_baseline x = None) (nd_deny d)"

lemma domain_problems_Nil: "domain_problems eid k ds = [] \<longleftrightarrow> list_all domain_re ds"
  by (simp add: domain_problems_def)

lemma deny_check_Nil: "deny_problems_of eid ds = [] \<longleftrightarrow> list_all (\<lambda>x. deny_breaks_baseline x = None) ds"
  unfolding deny_problems_of_def concat_map_Nil list_all_iff by simp

lemma import_fields_ok:
  assumes inv: "tables_ok (db_entities st) (db_schedules st)" and ok: "import_fields st ls eid d = Inr (ps, nd)"
  shows "ps = [] \<Longrightarrow> plan_device_ok nd"
proof -
  let ?g = "guards_or_proposed (find (\<lambda>e. e_id e = eid) (child_devices st))"
  obtain rs rp where r: "validate_rules Child_window ?g (jget_or d ''rules'' (JList [])) = Inr (rs, rp)"
    using ok unfolding import_fields_def Let_def
    by (cases "validate_rules Child_window ?g (jget_or d ''rules'' (JList []))") auto
  obtain al where al: "extra_list (jget d ''allow_extra'') (l_allow_extra ls) = Inr al"
    using ok unfolding import_fields_def Let_def r
    by (cases "extra_list (jget d ''allow_extra'') (l_allow_extra ls)") auto
  obtain dn where dn: "extra_list (jget d ''deny_extra'') (l_deny_extra ls) = Inr dn"
    using ok unfolding import_fields_def Let_def r
    by (cases "extra_list (jget d ''deny_extra'') (l_deny_extra ls)") (auto simp: al)
  have nd: "nd_rules nd = rs" "nd_guard nd = ?g" "nd_allow nd = al" "nd_deny nd = dn"
    and ps: "ps = prefixed (eid @ '': '') rp @ domain_problems eid ''allow_extra'' al
                @ domain_problems eid ''deny_extra'' dn @ deny_problems_of eid dn"
    using ok unfolding import_fields_def Let_def r by (auto simp: al dn)
  have "guards_ok Child_window ?g" by (rule guards_or_proposed_ok [OF inv find_child_device])
  moreover assume "ps = []"
  then have "rp = []" "list_all domain_re al" "list_all domain_re dn" "list_all (\<lambda>x. deny_breaks_baseline x = None) dn"
    unfolding ps by (simp_all add: prefixed_def domain_problems_Nil deny_check_Nil)
  moreover have "rules_sound Child_window ?g rs" using r \<open>rp = []\<close> by (auto intro: validate_rules_sound)
  ultimately show "plan_device_ok nd" by (simp add: plan_device_ok_def device_ok_def nd)
qed

lemma import_device_ok:
  assumes inv: "tables_ok (db_entities st) (db_schedules st)"
    and ok: "import_device st ls (probs, seen, devs, by_ip) dv = Inr (probs', seen', devs', by_ip')"
  shows "\<exists>more. probs' = probs @ more \<and> (more = [] \<longrightarrow> (\<exists>d. devs' = devs @ [d] \<and> plan_device_ok d))"
proof -
  obtain dp where dp: "validate_device dv = Inr dp"
    using ok unfolding import_device_def by (cases "validate_device dv") auto
  show ?thesis
  proof (cases "dp = []")
    case False
    then have "probs' = probs @ dp" using ok dp unfolding import_device_def by simp
    then show ?thesis using False by blast
  next
    case True
    then obtain d where dv: "dv = JObj d"
      using ok dp unfolding import_device_def by (cases dv) simp_all
    let ?eid = "json_str (jget d ''id'')"
    show ?thesis
    proof (cases "\<not> dollar entity_id_body ?eid \<or> ?eid \<in> set seen")
      case bad: True
      have "probs' = probs @ [prob ''format'' ''devices'' (''bad or duplicate device id '' @ quoted ?eid)]"
        using ok unfolding import_device_def Let_def dv using bad dp [unfolded dv] True by simp
      then show ?thesis by blast
    next
      case fresh: False
      have *: "bind_res (import_fields st ls ?eid d) (\<lambda>(ps, nd).
            Inr (probs @ ps, ?eid # seen, devs @ [nd], by_ip @ [(nd_ip nd, ?eid)])) = Inr (probs', seen', devs', by_ip')"
        using ok unfolding import_device_def Let_def dv using fresh dp [unfolded dv] True by simp
      obtain ps nd where f: "import_fields st ls ?eid d = Inr (ps, nd)"
        using * by (cases "import_fields st ls ?eid d") auto
      show ?thesis using * import_fields_ok [OF inv f] by (auto simp: f)
    qed
  qed
qed

lemma import_devices_ok:
  assumes inv: "tables_ok (db_entities st) (db_schedules st)"
  shows "fold_res (import_device st ls) (probs, seen, devs, by_ip) dvs = Inr (probs', seen', devs', by_ip')
     \<Longrightarrow> (\<exists>more. probs' = probs @ more) \<and> (probs' = [] \<longrightarrow> list_all plan_device_ok devs \<longrightarrow> list_all plan_device_ok devs')"
proof (induction dvs arbitrary: probs seen devs by_ip)
  case (Cons dv dvs)
  obtain p2 s2 d2 b2 where one: "import_device st ls (probs, seen, devs, by_ip) dv = Inr (p2, s2, d2, b2)"
    and rest: "fold_res (import_device st ls) (p2, s2, d2, b2) dvs = Inr (probs', seen', devs', by_ip')"
    using Cons.prems by (cases "import_device st ls (probs, seen, devs, by_ip) dv") auto
  obtain more where more: "p2 = probs @ more" "more = [] \<longrightarrow> (\<exists>d. d2 = devs @ [d] \<and> plan_device_ok d)"
    using import_device_ok [OF inv one] unfolding plan_device_ok_def by blast
  obtain more' where more': "probs' = p2 @ more'" "probs' = [] \<longrightarrow> list_all plan_device_ok d2 \<longrightarrow> list_all plan_device_ok devs'"
    using Cons.IH [OF rest] by blast
  show ?case using more more' by auto
qed simp

lemma insert_child_tables:
  assumes inv: "tables_ok (db_entities st) (db_schedules st)" and new: "\<not> id_taken st (e_id ent)"
    and ok: "e_kind ent = Child_window" "guards_ok Child_window (e_guardrails ent)"
      "rules_sound Child_window (e_guardrails ent) rs"
  shows "tables_ok (db_entities (insert_child now ent rs al dn pos st)) (db_schedules (insert_child now ent rs al dn pos st))"
proof -
  have "e_id ent \<notin> (e_id \<circ> en_entity) ` set (db_entities st)" using new by (simp add: not_taken_ids)
  then show ?thesis using ok unfolding insert_child_def
    by (auto simp: row_sound_def intro!: tables_ok_snoc [OF inv])
qed

lemma insert_child_fields [simp]:
  "db_runs (insert_child now ent rs al dn pos st) = db_runs st" "db_audit (insert_child now ent rs al dn pos st) = db_audit st"
  "db_removed (insert_child now ent rs al dn pos st) = db_removed st" "db_lists (insert_child now ent rs al dn pos st) = db_lists st"
  "db_domains (insert_child now ent rs al dn pos st) = db_domains st @ domain_rows (e_id ent) Allow al @ domain_rows (e_id ent) Deny dn"
  by (simp_all add: insert_child_def)

lemma insert_child_inv:
  assumes "store_inv st" "\<not> id_taken st (e_id ent)" "e_kind ent = Child_window"
    and "guards_ok Child_window (e_guardrails ent)" "rules_sound Child_window (e_guardrails ent) rs"
  shows "store_inv (insert_child now ent rs al dn pos st)"
  using store_invD [OF assms(1)] insert_child_tables [OF _ assms(2-5)] by (auto intro!: store_invI)

lemma drop_children_inv: "store_inv st \<Longrightarrow> store_inv (drop_children gone st)"
  using store_invD [of st] tables_ok_drop by (auto intro!: store_invI)

text \<open>What a passed check of an import promises.\<close>

lemma services_problems_Nil: "services_problems svc = [] \<Longrightarrow> set (str_list svc) = {''telegram''}"
  by (cases svc) (auto simp: services_problems_def str_list_def list_all_iff json_str_def neq_Nil_conv split: if_splits)

lemma missing_problems_Nil: "missing_problems ls = [] \<longleftrightarrow> missing_always (l_allow_always ls) = []"
  by (simp add: missing_problems_def Let_def)

lemma import_exception_grows:
  "import_exception f now by_ip (ps, xs) v = Inr (ps', xs') \<Longrightarrow> \<exists>more. ps' = ps @ more"
  unfolding import_exception_def by (auto simp: Let_def split: json.splits option.splits prod.splits if_splits)

lemma import_exceptions_grow:
  assumes "import_exceptions f now by_ip ps v = Inr (ps', xs)"
  shows "\<exists>more. ps' = ps @ more"
proof -
  have fold: "fold_res (import_exception f now by_ip) (q, ys) vs = Inr (ps', xs) \<Longrightarrow> \<exists>more. ps' = q @ more" for q ys vs
  proof (induction vs arbitrary: q ys)
    case (Cons w vs)
    obtain q2 ys2 where one: "import_exception f now by_ip (q, ys) w = Inr (q2, ys2)"
      using Cons.prems by (cases "import_exception f now by_ip (q, ys) w") auto
    obtain m1 where m1: "q2 = q @ m1" using import_exception_grows [OF one] by blast
    obtain m2 where "ps' = q2 @ m2" using Cons.IH Cons.prems one by fastforce
    then show ?case using m1 by simp
  qed simp
  show ?thesis using assms fold [of ps "[]"] unfolding import_exceptions_def
    by (cases v) (auto split: if_splits)
qed

lemma import_checks_ok:
  assumes inv: "tables_ok (db_entities st) (db_schedules st)"
    and ok: "import_checks f now st payload = Inr (devs, ls, svc, exs)"
  shows "list_all plan_device_ok devs" "missing_always (l_allow_always ls) = []" "set svc = {''telegram''}"
proof -
  obtain p where p: "payload = JObj p" using ok by (cases payload) (auto simp: import_checks_def)
  obtain dv dvs where d: "jget p ''devices'' = JList (dv # dvs)"
    using ok unfolding import_checks_def p Let_def
    by (cases "jget p ''devices''") (simp_all split: list.splits del: fold_res.simps)
  obtain ls' lp where l: "validate_lists (jget_or p ''lists'' (JObj [])) = (ls', lp)"
    by (cases "validate_lists (jget_or p ''lists'' (JObj []))")
  let ?svc = "jget_or p ''always_services'' (JList [])"
  let ?p0 = "lp @ services_problems ?svc @ missing_problems ls'"
  let ?fold = "fold_res (import_device st ls') (?p0, [], [], []) (dv # dvs)"
  have body: "bind_res (lift_py ?fold) (\<lambda>(probs, seen, devs, by_ip).
       bind_res (lift_py (import_exceptions f now by_ip probs (jget p ''exceptions''))) (\<lambda>(probs2, exs).
       bind_res (require_none probs2) (\<lambda>_. Inr (devs, ls', str_list ?svc, exs)))) = Inr (devs, ls, svc, exs)"
    using ok unfolding import_checks_def p Let_def by (simp add: d l del: fold_res.simps)
  obtain probs seen devs' by_ip where f: "?fold = Inr (probs, seen, devs', by_ip)"
    using body by (cases ?fold) (auto simp: lift_py_def simp del: fold_res.simps)
  obtain probs2 exs' where x: "import_exceptions f now by_ip probs (jget p ''exceptions'') = Inr (probs2, exs')"
    using body unfolding f by (cases "import_exceptions f now by_ip probs (jget p ''exceptions'')") (auto simp: lift_py_def)
  have none: "probs2 = []" and eqs: "devs' = devs" "ls' = ls" "svc = str_list ?svc"
    using body unfolding f by (auto simp: lift_py_def x bind_res_Inr_iff)
  have "probs = []" using import_exceptions_grow [OF x] none by simp
  note d = import_devices_ok [OF inv f]
  then show "list_all plan_device_ok devs" using eqs \<open>probs = []\<close> by auto
  have "services_problems ?svc = []" "missing_problems ls' = []" using d \<open>probs = []\<close> by auto
  then show "missing_always (l_allow_always ls) = []" "set svc = {''telegram''}"
    using services_problems_Nil missing_problems_Nil eqs by auto
qed

end
