(* ===== verification/Child_Inv.thy ===== *)
theory Child_Inv
  imports Child_Steps
begin

text \<open>
  The administrator's writes of \<open>child_store.py\<close> keep the store's invariant: the import, the Maps
  migration, and adding, renaming, removing and restoring a device.
\<close>

lemma store_inv_audit [simp]: "store_inv st \<Longrightarrow> store_inv (audit_st now a act e b c st)"
  using store_invD [of st] by (auto intro!: store_invI)

lemma store_inv_fields [simp]:
  "store_inv (st\<lparr>db_lists := ls\<rparr>) = store_inv st" "store_inv (st\<lparr>db_cexc := xs\<rparr>) = store_inv st"
  by (simp_all add: store_inv_def)

lemma import_one_inv:
  assumes inv: "store_inv st" and d: "plan_device_ok d" and ok: "import_one now pos st (i, d) = Inr st'"
  shows "store_inv st'"
proof -
  have "\<not> id_taken st (nd_id d)" and st': "st' = insert_child now (new_child d) (nd_rules d) (nd_allow d) (nd_deny d) (pos + int i) st"
    using ok unfolding import_one_def id_taken_def by (auto simp: bind_res_Inr_iff)
  then show ?thesis using d inv unfolding st' plan_device_ok_def device_ok_def
    by (intro insert_child_inv) (simp_all add: new_child_def)
qed

lemma insert_old_fields:
  assumes "insert_old now fresh st x = Inr st'"
  shows "db_entities st' = db_entities st" "db_schedules st' = db_schedules st" "db_runs st' = db_runs st"
    "db_removed st' = db_removed st" "db_audit st' = db_audit st" "db_domains st' = db_domains st" "db_lists st' = db_lists st"
  using assms unfolding insert_old_def by (auto simp: op_simps split: prod.splits)

lemma insert_old_inv: "store_inv st \<Longrightarrow> insert_old now fresh st x = Inr st' \<Longrightarrow> store_inv st'"
  using store_invD [of st] insert_old_fields [of now fresh st x st'] by (auto intro!: store_invI)

lemma set_zip_devices: "x \<in> set (zip is ds) \<Longrightarrow> snd x \<in> set ds"
  by (cases x) (auto dest: set_zip_rightD)

lemma import_cases:
  assumes "import_child_policy now fresh fromiso a payload dry st = Inr st'"
  shows "st' = st \<or> (\<exists>devs ls svc exs st2 st3. import_checks fromiso (stored now) st payload = Inr (devs, ls, svc, exs)
     \<and> fold_res (import_one (stored now) (max_position (drop_children (is_child_id st) st) + 1)) (drop_children (is_child_id st) st)
         (zip [0..<length devs] devs) = Inr st2
     \<and> fold_res (insert_old (stored now) fresh) st2 (zip [0..<length exs] exs) = Inr st3
     \<and> (\<exists>b c. st' = audit_st (stored now) a ''import_child_policy'' None b c
         (st3\<lparr>db_lists := Some (\<lparr>l_allow_always = l_allow_always ls, l_allow_weekdays = l_allow_weekdays ls,
            l_allow_extra = [], l_deny_extra = []\<rparr>, sort svc)\<rparr>)))"
  using assms unfolding import_child_policy_def
  by (auto simp: op_simps split: if_splits prod.splits) blast+

lemma import_inv:
  assumes inv: "store_inv st" and ok: "import_child_policy now fresh fromiso a payload dry st = Inr st'"
  shows "store_inv st'"
proof -
  consider "st' = st" | devs ls svc exs st2 st3 b c where
      "import_checks fromiso (stored now) st payload = Inr (devs, ls, svc, exs)"
      "fold_res (import_one (stored now) (max_position (drop_children (is_child_id st) st) + 1)) (drop_children (is_child_id st) st)
         (zip [0..<length devs] devs) = Inr st2"
      "fold_res (insert_old (stored now) fresh) st2 (zip [0..<length exs] exs) = Inr st3"
      "st' = audit_st (stored now) a ''import_child_policy'' None b c
         (st3\<lparr>db_lists := Some (\<lparr>l_allow_always = l_allow_always ls, l_allow_weekdays = l_allow_weekdays ls,
            l_allow_extra = [], l_deny_extra = []\<rparr>, sort svc)\<rparr>)"
    using import_cases [OF ok] by blast
  then show ?thesis
  proof cases
    case 2
    have plan: "list_all plan_device_ok devs"
      by (rule import_checks_ok(1) [OF store_invD(1) [OF inv] 2(1)])
    have "store_inv st2"
    proof (rule fold_res_invariant [OF 2(2)])
      show "store_inv (drop_children (is_child_id st) st)" by (rule drop_children_inv [OF inv])
    next
      fix s x s'
      assume *: "x \<in> set (zip [0..<length devs] devs)" "store_inv s"
        "import_one (stored now) (max_position (drop_children (is_child_id st) st) + 1) s x = Inr s'"
      obtain i d where x: "x = (i, d)" by (cases x)
      have "plan_device_ok d" using plan set_zip_devices [OF *(1)] by (simp add: x list_all_iff)
      then show "store_inv s'" using *(2,3) import_one_inv unfolding x by blast
    qed
    then have "store_inv st3" by (rule fold_res_invariant [OF 2(3)]) (rule insert_old_inv)
    then show ?thesis unfolding 2(4) by (intro store_inv_audit) simp
  qed (simp add: inv)
qed

section \<open>The Maps migration\<close>

lemma migrate_one_inv:
  assumes inv: "store_inv st" and ok: "migrate_one now st x = Inr st'"
  shows "store_inv st'"
proof -
  obtain eid rs where x: "x = (eid, rs)" by (cases x)
  obtain ent good where e: "entity_of st eid = Inr ent"
      "validate_rules (e_kind ent) (e_guardrails ent) (rules_json (concat (map without_maps rs))) = Inr (good, [])"
    and st': "st' = set_sched eid (\<lambda>r. r\<lparr>sc_version := sc_version r + 1, sc_rules := good, sc_updated := stored now\<rparr>) st"
    using ok unfolding migrate_one_def x by (auto simp: op_simps)
  note i = store_invD [OF inv]
  have "rules_sound (e_kind ent) (e_guardrails ent) good" using e(2) by (rule validate_rules_sound)
  then have "tables_ok (db_entities st) (db_schedules st')"
    unfolding st' by (intro tables_ok_set_sched [OF i(1) e(1)]) simp
  then show ?thesis using i unfolding st' by (intro store_invI) simp_all
qed

lemma migrate_maps_cases:
  assumes "migrate_maps now a st = Inr st'"
  shows "st' = st \<or> (\<exists>ls svc st1 rows b c. db_lists st = Some (ls, svc)
     \<and> fold_res (migrate_one (stored now)) st (with_maps st) = Inr st1
     \<and> st' = audit_st (stored now) a ''child_maps_always_open'' None b c (st1\<lparr>db_cexc := rows,
         db_lists := Some (ls\<lparr>l_allow_always := sorted_set (l_allow_always ls @ l_allow_weekdays ls @ MAPS_DOMAINS), l_allow_weekdays := []\<rparr>, svc)\<rparr>))"
  using assms unfolding migrate_maps_def Let_def
  by (auto simp: bind_res_Inr_iff simp del: fold_res.simps split: option.splits if_splits prod.splits)

lemma migrate_maps_inv:
  assumes inv: "store_inv st" and ok: "migrate_maps now a st = Inr st'"
  shows "store_inv st'"
proof -
  consider "st' = st" | ls svc st1 rows b c where "fold_res (migrate_one (stored now)) st (with_maps st) = Inr st1"
      "st' = audit_st (stored now) a ''child_maps_always_open'' None b c (st1\<lparr>db_cexc := rows,
         db_lists := Some (ls\<lparr>l_allow_always := sorted_set (l_allow_always ls @ l_allow_weekdays ls @ MAPS_DOMAINS), l_allow_weekdays := []\<rparr>, svc)\<rparr>)"
    using migrate_maps_cases [OF ok] by blast
  then show ?thesis
  proof cases
    case 2
    have "store_inv st1" by (rule fold_res_invariant [OF 2(1), where P = store_inv]) (rule inv, rule migrate_one_inv)
    then show ?thesis unfolding 2(2) by (intro store_inv_audit) simp
  qed (simp add: inv)
qed

section \<open>The set of devices\<close>

lemma dup_id_problems:
  assumes "id_taken st eid" "duplicate_problems st eid name ip mac = []"
  shows "(if id_taken st eid \<and> duplicate_problems st eid name ip mac = [] then [p] else []) \<noteq> []"
  using assms by simp

lemma add_child_device_cases:
  assumes "add_child_device now a name0 ip mac0 like label0 icon closed st = Inr (st', eid)"
  shows "\<exists>ent rs src al dn b c. \<not> id_taken st (e_id ent) \<and> e_kind ent = Child_window \<and> e_id ent = eid
     \<and> e_guardrails ent = guards_or_proposed src
     \<and> (src = None \<or> (\<exists>e. src = Some e \<and> e \<in> set (child_devices st)))
     \<and> (\<exists>rj. validate_rules Child_window (guards_or_proposed src) rj = Inr (rs, []))
     \<and> al = (case src of None \<Rightarrow> [] | Some e \<Rightarrow> child_domains st (e_id e) Allow)
     \<and> dn = (case src of None \<Rightarrow> [] | Some e \<Rightarrow> child_domains st (e_id e) Deny)
     \<and> st' = audit_st now a ''child_device_add'' (Some eid) b c (insert_child now ent rs al dn (max_position st + 1) st)"
proof -
  let ?name = "py_strip name0" let ?label = "py_strip label0" let ?full = "py_strip (py_strip name0 @ '' '' @ py_strip label0)"
  let ?mac = "py_lower (py_strip mac0)" let ?eid = "child_id ?full ip"
  let ?dev = "JObj [(''id'', JStr ?eid), (''name'', JStr ?full), (''ip'', JStr ip), (''mac'', JStr ?mac)]"
  let ?wants = "case like of Some l \<Rightarrow> l \<noteq> [] | None \<Rightarrow> False"
  define src where "src = (if ?wants then find (\<lambda>e. e_id e = the like) (child_devices st) else None)"
  define dups where "dups = duplicate_problems st ?eid ?full ip ?mac"
  define rj where "rj = (case src of Some e \<Rightarrow> (case schedule_of st (e_id e) of Inl x \<Rightarrow> JNull | Inr s \<Rightarrow> rules_json (sc_rules s))
              | None \<Rightarrow> if closed then JList [] else standard_rules)"
  note unf = add_child_device_def Let_def src_def [symmetric] dups_def [symmetric] rj_def [symmetric]
  obtain dp where dp: "(if ?name = [] then Inr [] else validate_device ?dev) = Inr dp"
    using assms unfolding unf by (auto simp: bind_res_Inr_iff)
  obtain rs rp where r: "validate_rules Child_window (guards_or_proposed src) rj = Inr (rs, rp)"
    using assms unfolding unf dp by (auto simp: bind_res_Inr_iff)
  have ok: "rp = []" "dups = [] \<and> \<not> (id_taken st ?eid \<and> dups = [])"
    and eid: "eid = ?eid"
    using assms unfolding unf dp r by (auto simp: bind_res_Inr_iff lift_py_def split: if_splits)
  have src: "src = None \<or> (\<exists>e. src = Some e \<and> e \<in> set (child_devices st))"
    unfolding src_def using find_child_device by auto
  let ?ent = "\<lparr>e_id = ?eid, e_kind = Child_window, e_name = ?full, e_ha_target = None, e_managed = False,
     e_flags = flags_or_default src, e_guardrails = guards_or_proposed src,
     e_meta = [(''ip'', JStr ip), (''mac'', JStr ?mac), (''label'', JStr ?label), (''icon'', JStr icon), (''child'', JStr ?name)]\<rparr>"
  have "\<exists>b c. st' = audit_st now a ''child_device_add'' (Some ?eid) b c (insert_child now ?ent rs
      (case src of None \<Rightarrow> [] | Some e \<Rightarrow> child_domains st (e_id e) Allow)
      (case src of None \<Rightarrow> [] | Some e \<Rightarrow> child_domains st (e_id e) Deny) (max_position st + 1) st)"
    using assms unfolding unf dp r by (auto simp: bind_res_Inr_iff lift_py_def)
  then show ?thesis using ok src r eid by (intro exI [of _ ?ent] exI [of _ rs] exI [of _ src]) auto
qed

lemma add_child_device_inv:
  assumes inv: "store_inv st" and ok: "add_child_device now a name0 ip mac0 like label0 icon closed st = Inr (st', eid)"
  shows "store_inv st'"
proof -
  obtain ent rs src al dn b c rj where p: "\<not> id_taken st (e_id ent)" "e_kind ent = Child_window"
      "e_guardrails ent = guards_or_proposed src" "src = None \<or> (\<exists>e. src = Some e \<and> e \<in> set (child_devices st))"
      "validate_rules Child_window (guards_or_proposed src) rj = Inr (rs, [])"
      "st' = audit_st now a ''child_device_add'' (Some eid) b c (insert_child now ent rs al dn (max_position st + 1) st)"
    using add_child_device_cases [OF ok] by blast
  have "guards_ok Child_window (e_guardrails ent)"
    using guards_or_proposed_ok [OF store_invD(1) [OF inv] p(4)] by (simp add: p(3))
  moreover have "rules_sound Child_window (e_guardrails ent) rs" using p(3,5) validate_rules_sound by simp
  ultimately have "store_inv (insert_child now ent rs al dn (max_position st + 1) st)"
    by (intro insert_child_inv [OF inv p(1,2)])
  then show ?thesis unfolding p(6) by (rule store_inv_audit)
qed

lemma set_child_display_inv:
  assumes inv: "store_inv st" and ok: "set_child_display now a eid d icon st = Inr st'"
  shows "store_inv st'"
proof -
  obtain ent where e: "child_entity st eid = Inr ent"
    using ok unfolding set_child_display_def by (auto simp: bind_res_Inr_iff)
  then have "entity_of st eid = Inr ent" by (auto simp: child_entity_def bind_res_Inr_iff split: if_splits)
  note i = store_invD [OF inv]
  let ?m = "display_meta d icon (e_meta ent)"
  have "tables_ok (db_entities (set_entity eid (\<lambda>e. e\<lparr>e_meta := ?m\<rparr>) st)) (db_schedules st)"
    by (rule set_entity_keeps [OF i(1) \<open>entity_of st eid = Inr ent\<close>]) simp_all
  then have "store_inv (set_entity eid (\<lambda>e. e\<lparr>e_meta := ?m\<rparr>) st)" using i by (intro store_invI) simp_all
  then show ?thesis using ok inv e unfolding set_child_display_def by (auto simp: bind_res_Inr_iff Let_def split: if_splits)
qed

lemma child_entity_D:
  "child_entity st eid = Inr e \<Longrightarrow> entity_of st eid = Inr e \<and> e_kind e = Child_window"
  by (auto simp: child_entity_def bind_res_Inr_iff split: if_splits)

lemma remove_child_device_cases:
  assumes "remove_child_device now fresh a eid keep st = Inr (st', rid)"
  shows "\<exists>ent d b c. ac_role a = ''admin'' \<and> child_entity st eid = Inr ent \<and> 1 < length (child_devices st) \<and> definition_of st (stored now) ent = Inr d
     \<and> rid = CHR ''r'' # fresh \<and> (keep \<longrightarrow> (\<forall>r\<in>set (db_removed st). rm_id r \<noteq> rid))
     \<and> st' = audit_st (stored now) a ''child_device_remove'' (Some eid) b c ((drop_children (\<lambda>x. x = eid) st)\<lparr>db_removed :=
         (if keep then db_removed st @ [\<lparr>rm_id = rid, rm_entity = eid, rm_name = e_name ent, rm_at = stored now, rm_by = a, rm_def = d\<rparr>]
          else db_removed st)\<rparr>)"
proof -
  obtain ent d where e: "child_entity st eid = Inr ent" "definition_of st (stored now) ent = Inr d"
    using assms unfolding remove_child_device_def by (auto simp: bind_res_Inr_iff Let_def)
  show ?thesis using assms unfolding remove_child_device_def
    by (intro exI [of _ ent] exI [of _ d])
      (auto simp: e bind_res_Inr_iff Let_def check_admin_def list_all_iff split: if_splits)
qed

lemma definition_fields:
  assumes "definition_of st now e = Inr d"
  shows "df_id d = e_id e" "df_guardrails d = e_guardrails e" "df_name d = e_name e" "df_meta d = e_meta e" "df_flags d = e_flags e"
    "df_allow d = child_domains st (e_id e) Allow" "df_deny d = child_domains st (e_id e) Deny"
  using assms by (auto simp: definition_of_def bind_res_Inr_iff)

lemma remove_child_device_inv:
  assumes inv: "store_inv st" and ok: "remove_child_device now fresh a eid keep st = Inr (st', rid)"
  shows "store_inv st'"
proof -
  obtain ent d b c where p: "child_entity st eid = Inr ent" "definition_of st (stored now) ent = Inr d"
    and st': "st' = audit_st (stored now) a ''child_device_remove'' (Some eid) b c ((drop_children (\<lambda>x. x = eid) st)\<lparr>db_removed :=
         (if keep then db_removed st @ [\<lparr>rm_id = rid, rm_entity = eid, rm_name = e_name ent, rm_at = stored now, rm_by = a, rm_def = d\<rparr>]
          else db_removed st)\<rparr>)"
    using remove_child_device_cases [OF ok] by blast
  note i = store_invD [OF inv]
  have "guards_ok Child_window (df_guardrails d)"
    using entity_guards [OF i(1)] child_entity_D [OF p(1)] definition_fields(2) [OF p(2)] by metis
  then show ?thesis using i tables_ok_drop [OF i(1)] unfolding st'
    by (intro store_inv_audit store_invI) (simp_all add: removed_ok_def)
qed

lemma purge_removed_inv: "store_inv st \<Longrightarrow> store_inv (purge_removed now st)"
  using store_invD [of st] by (auto simp: purge_removed_def Let_def removed_ok_def list_all_iff intro!: store_invI)

lemma restore_child_device_cases:
  assumes "restore_child_device now fresh a rid st0 = Inr (st', eid)"
  shows "\<exists>row rs ent new b c. row \<in> set (db_removed (purge_removed (stored now) st0)) \<and> rm_id row = rid
     \<and> eid = df_id (rm_def row)
     \<and> validate_rules Child_window (df_guardrails (rm_def row)) (rules_json (df_rules (rm_def row))) = Inr (rs, [])
     \<and> restore_problems (purge_removed (stored now) st0) (rm_def row) = []
     \<and> ent = \<lparr>e_id = df_id (rm_def row), e_kind = Child_window, e_name = df_name (rm_def row), e_ha_target = None, e_managed = False,
               e_flags = df_flags (rm_def row), e_guardrails = df_guardrails (rm_def row), e_meta = df_meta (rm_def row)\<rparr>
     \<and> st' = audit_st (stored now) a ''child_device_restore'' (Some eid) b c
         ((insert_child (stored now) ent rs (df_allow (rm_def row)) (df_deny (rm_def row)) (max_position (purge_removed (stored now) st0) + 1)
             (purge_removed (stored now) st0))
          \<lparr>db_cexc := new, db_removed := filter (\<lambda>r. rm_id r \<noteq> rid) (db_removed (purge_removed (stored now) st0))\<rparr>)"
proof -
  let ?st = "purge_removed (stored now) st0"
  obtain row where row: "find (\<lambda>r. rm_id r = rid) (db_removed ?st) = Some row"
    using assms unfolding restore_child_device_def by (auto simp: bind_res_Inr_iff Let_def split: option.splits)
  then have "row \<in> set (db_removed ?st)" "rm_id row = rid" by (auto dest: find_Some_iff_in)
  obtain rs rp where r: "validate_rules Child_window (df_guardrails (rm_def row)) (rules_json (df_rules (rm_def row))) = Inr (rs, rp)"
    using assms unfolding restore_child_device_def Let_def by (auto simp: bind_res_Inr_iff row)
  have none: "rp = []" "restore_problems ?st (rm_def row) = []" and eid: "eid = df_id (rm_def row)"
    using assms unfolding restore_child_device_def Let_def by (auto simp: bind_res_Inr_iff row r lift_py_def)
  show ?thesis using assms \<open>row \<in> set (db_removed ?st)\<close> \<open>rm_id row = rid\<close> none eid r unfolding restore_child_device_def Let_def
    by (intro exI [of _ row] exI [of _ rs]) (auto simp: bind_res_Inr_iff row lift_py_def)
qed

lemma restore_child_device_inv:
  assumes inv: "store_inv st0" and ok: "restore_child_device now fresh a rid st0 = Inr (st', eid)"
  shows "store_inv st'"
proof -
  let ?st = "purge_removed (stored now) st0"
  obtain row rs ent new b c where p: "row \<in> set (db_removed ?st)" "restore_problems ?st (rm_def row) = []"
      "validate_rules Child_window (df_guardrails (rm_def row)) (rules_json (df_rules (rm_def row))) = Inr (rs, [])"
      "ent = \<lparr>e_id = df_id (rm_def row), e_kind = Child_window, e_name = df_name (rm_def row), e_ha_target = None, e_managed = False,
               e_flags = df_flags (rm_def row), e_guardrails = df_guardrails (rm_def row), e_meta = df_meta (rm_def row)\<rparr>"
      "st' = audit_st (stored now) a ''child_device_restore'' (Some eid) b c
         ((insert_child (stored now) ent rs (df_allow (rm_def row)) (df_deny (rm_def row)) (max_position ?st + 1) ?st)
          \<lparr>db_cexc := new, db_removed := filter (\<lambda>r. rm_id r \<noteq> rid) (db_removed ?st)\<rparr>)"
    using restore_child_device_cases [OF ok] by blast
  have inv': "store_inv ?st" by (rule purge_removed_inv [OF inv])
  note i = store_invD [OF inv']
  have g: "guards_ok Child_window (df_guardrails (rm_def row))" using i(4) p(1) by (auto simp: removed_ok_def list_all_iff)
  have "\<not> id_taken ?st (df_id (rm_def row))" using p(2) by (auto simp: restore_problems_def Let_def)
  then have "store_inv (insert_child (stored now) ent rs (df_allow (rm_def row)) (df_deny (rm_def row)) (max_position ?st + 1) ?st)"
    using g validate_rules_sound [OF p(3)] by (intro insert_child_inv [OF inv']) (simp_all add: p(4))
  then have "store_inv ((insert_child (stored now) ent rs (df_allow (rm_def row)) (df_deny (rm_def row)) (max_position ?st + 1) ?st)
      \<lparr>db_cexc := new, db_removed := filter (\<lambda>r. rm_id r \<noteq> rid) (db_removed ?st)\<rparr>)"
    using i(4) by (auto simp: store_inv_def removed_ok_def list_all_iff)
  then show ?thesis unfolding p(5) by (rule store_inv_audit)
qed

end
