(* ===== verification/Store_System.thy ===== *)
theory Store_System
  imports Child_Inv
begin

text \<open>
  The service's store as a transition system: every committed write is a step, with any clock, actor
  and arguments, and every state it can reach from the empty database keeps the invariant.
\<close>

section \<open>Steps\<close>

definition empty_db :: db where
  "empty_db = \<lparr>db_entities = [], db_schedules = [], db_exceptions = [], db_runs = [], db_tokens = [], db_audit = [],
     db_cexc = [], db_domains = [], db_removed = [], db_lists = None, db_cutover = None, db_last_apply = None\<rparr>"

inductive store_step :: "db \<Rightarrow> db \<Rightarrow> bool" where
  seed: "seed now a ws st = Inr (st', n) \<Longrightarrow> store_step st st'"
| put_schedule: "put_schedule now a eid rules im ''update'' st = Inr (st', c) \<Longrightarrow> store_step st st'"
| undo: "undo now a eid st = Inr (st', c) \<Longrightarrow> store_step st st'"
| set_guardrails: "set_guardrails now a eid gv st = Inr (st', c) \<Longrightarrow> store_step st st'"
| add_plug: "add_plug now a eid name target like k st = Inr st' \<Longrightarrow> store_step st st'"
| patch_entity: "patch_entity now a eid p st = Inr (st', c) \<Longrightarrow> store_step st st'"
| add_exception: "add_exception now fresh a eid body today st = Inr (st', xid) \<Longrightarrow> store_step st st'"
| delete_exception: "delete_exception now a xid st = Inr st' \<Longrightarrow> store_step st st'"
| start_run: "start_run now fresh a eid minutes st = Inr (st', rid) \<Longrightarrow> store_step st st'"
| extend_run: "extend_run now a rid minutes st = Inr st' \<Longrightarrow> store_step st st'"
| cancel_run: "cancel_run now a rid withdraw st = Inr st' \<Longrightarrow> store_step st st'"
| expire_runs: "expire_runs now st = (st', n) \<Longrightarrow> store_step st st'"
| create_token: "create_token now fresh secret a nm role expires gateway st = Inr (st', y) \<Longrightarrow> store_step st st'"
| revoke_token: "revoke_token now a tid st = Inr st' \<Longrightarrow> store_step st st'"
| touch_token: "store_step st (touch_token now tid st)"
| record_apply: "store_step st (record_apply now a status st)"
| add_child_exception: "add_child_exception now fresh a eid tg m eod st = Inr (st', xid) \<Longrightarrow> store_step st st'"
| cancel_child_exception: "cancel_child_exception now a eid xid st = Inr st' \<Longrightarrow> store_step st st'"
| expire_child_exceptions: "expire_child_exceptions now st = (st', n) \<Longrightarrow> store_step st st'"
| change_child_domain: "change_child_domain now a eid kd d add st = Inr st' \<Longrightarrow> store_step st st'"
| undo_child_domain: "undo_child_domain now a eid st = Inr st' \<Longrightarrow> store_step st st'"
| set_child_cutover: "set_child_cutover now a d note st = Inr st' \<Longrightarrow> store_step st st'"
| import_child_policy: "import_child_policy now freshn fromiso a payload dry st = Inr st' \<Longrightarrow> store_step st st'"
| migrate_maps: "migrate_maps now a st = Inr st' \<Longrightarrow> store_step st st'"
| add_child_device: "add_child_device now a name ip mac likeo label icon closed st = Inr (st', eid) \<Longrightarrow> store_step st st'"
| set_child_display: "set_child_display now a eid disp icono st = Inr st' \<Longrightarrow> store_step st st'"
| remove_child_device: "remove_child_device now fresh a eid keep st = Inr (st', rid) \<Longrightarrow> store_step st st'"
| purge_removed: "child_removed now st = (st', rows) \<Longrightarrow> store_step st st'"
| restore_child_device: "restore_child_device now freshn a rid st = Inr (st', eid) \<Longrightarrow> store_step st st'"

inductive reachable :: "db \<Rightarrow> bool" where
  reachable_empty: "reachable empty_db"
| reachable_step: "reachable st \<Longrightarrow> store_step st st' \<Longrightarrow> reachable st'"

lemma empty_db_inv: "store_inv empty_db"
  by (simp add: empty_db_def store_inv_def tables_ok_def runs_ok_def active_of_def removed_ok_def audit_ok_Nil)

lemmas step_invs = seed_inv put_schedule_inv undo_inv set_guardrails_inv add_plug_inv patch_entity_inv
  small_ops_inv start_run_inv extend_run_inv cancel_run_inv expire_runs_inv add_child_exception_inv
  cancel_child_exception_inv expire_child_exceptions_inv change_child_domain_inv undo_child_domain_inv
  set_child_cutover_inv import_inv migrate_maps_inv add_child_device_inv set_child_display_inv
  remove_child_device_inv purge_removed_inv restore_child_device_inv

lemma store_step_inv: "store_step st st' \<Longrightarrow> store_inv st \<Longrightarrow> store_inv st'"
proof (induction rule: store_step.induct)
  case (expire_runs now st st' n)
  then show ?case using expire_runs_inv [of st now] by simp
next
  case (expire_child_exceptions now st st' n)
  then show ?case using expire_child_exceptions_inv [of st now] by simp
next
  case (purge_removed now st st' rows)
  then show ?case using purge_removed_inv [of st now] by (auto simp: child_removed_def Let_def)
qed (metis step_invs)+

lemma reachable_inv: "reachable st \<Longrightarrow> store_inv st"
  by (induction rule: reachable.induct) (auto intro: empty_db_inv store_step_inv)

end
