(* ===== verification/Child_Baseline.thy ===== *)
theory Child_Baseline
  imports Store_System
begin

text \<open>
  The children's invariant of the store: no deny entry, of a device, of a removed device that can come
  back or of a list in the audit that an undo can restore, covers an always-on host, every entry is a
  plain domain name, and the house-wide lists keep the required hosts and Telegram.
\<close>

section \<open>The invariant\<close>

definition dom_ok :: "list_kind \<Rightarrow> string \<Rightarrow> bool" where
  "dom_ok k d \<longleftrightarrow> domain_re d \<and> (k = Deny \<longrightarrow> deny_breaks_baseline d = None)"

definition lists_ok :: "json \<Rightarrow> bool" where
  "lists_ok j \<longleftrightarrow> list_all (dom_ok Allow) (str_list (field_of j ''allow'')) \<and> list_all (dom_ok Deny) (str_list (field_of j ''deny''))"

definition DOMAIN_ACTIONS :: "string set" where
  "DOMAIN_ACTIONS = {''child_domain_add'', ''child_domain_remove'', ''child_domain_undo''}"

definition audit_lists_ok :: "audit_row \<Rightarrow> bool" where
  "audit_lists_ok r \<longleftrightarrow> (a_action r \<in> DOMAIN_ACTIONS \<longrightarrow>
     lists_ok (field_of (a_before r) ''lists'') \<and> lists_ok (field_of (a_after r) ''lists''))"

definition definition_ok :: "child_definition \<Rightarrow> bool" where
  "definition_ok d \<longleftrightarrow> list_all (dom_ok Allow) (df_allow d) \<and> list_all (dom_ok Deny) (df_deny d)"

definition house_ok :: "(child_lists \<times> string list) option \<Rightarrow> bool" where
  "house_ok x = (case x of None \<Rightarrow> True | Some (ls, svc) \<Rightarrow>
     missing_always (l_allow_always ls) = [] \<and> set svc = {''telegram''} \<and> l_deny_extra ls = [])"

definition baseline_inv :: "db \<Rightarrow> bool" where
  "baseline_inv st \<longleftrightarrow> list_all (\<lambda>r. dom_ok (dm_kind r) (dm_domain r)) (db_domains st)
     \<and> list_all (definition_ok \<circ> rm_def) (db_removed st) \<and> list_all audit_lists_ok (db_audit st) \<and> house_ok (db_lists st)"

section \<open>What leaves it alone\<close>

lemma new_row_fields [simp]:
  "a_action (new_row ts ac act e b c rows) = act" "a_before (new_row ts ac act e b c rows) = b"
  "a_after (new_row ts ac act e b c rows) = c" "a_entity (new_row ts ac act e b c rows) = e"
  "a_actor (new_row ts ac act e b c rows) = ac"
  by (simp_all add: new_row_def Let_def)

lemma audit_st_audit:
  "db_audit (audit_st now a act e b c st) = db_audit st @ [new_row (iso_text now) (actor_json a) act e b c (db_audit st)]"
  by (simp add: audit_st_def audit_append_def)

lemma baseline_audit [simp]:
  "act \<notin> DOMAIN_ACTIONS \<Longrightarrow> baseline_inv (audit_st now a act e b c st) = baseline_inv st"
  by (simp add: baseline_inv_def audit_st_audit audit_lists_ok_def)

lemma baseline_other [simp]:
  "baseline_inv (set_sched eid f st) = baseline_inv st" "baseline_inv (set_entity eid g st) = baseline_inv st"
  "baseline_inv (set_run rid h st) = baseline_inv st" "baseline_inv (insert_entity now ent rs st) = baseline_inv st"
  "baseline_inv (set_cexc xid s t st) = baseline_inv st"
  "baseline_inv (st\<lparr>db_runs := rr\<rparr>) = baseline_inv st" "baseline_inv (st\<lparr>db_exceptions := xx\<rparr>) = baseline_inv st"
  "baseline_inv (st\<lparr>db_tokens := tt\<rparr>) = baseline_inv st" "baseline_inv (st\<lparr>db_cexc := cc\<rparr>) = baseline_inv st"
  "baseline_inv (st\<lparr>db_cutover := cu\<rparr>) = baseline_inv st" "baseline_inv (st\<lparr>db_last_apply := la\<rparr>) = baseline_inv st"
  "baseline_inv (st\<lparr>db_entities := es, db_schedules := ss\<rparr>) = baseline_inv st"
  by (simp_all add: baseline_inv_def set_sched_def set_entity_def set_run_def insert_entity_def set_cexc_def)

lemma baseline_close_run [simp]: "baseline_inv (close_run now r st) = baseline_inv st"
  by (simp add: close_run_def Let_def DOMAIN_ACTIONS_def)

lemma baseline_fold_close [simp]: "baseline_inv (foldl (\<lambda>s r. close_run now r s) st rs) = baseline_inv st"
  by (induction rs arbitrary: st) simp_all

lemma baseline_close_over [simp]: "baseline_inv (close_over now eid st) = baseline_inv st"
  by (simp add: close_over_def)

lemma baseline_expire_cexc [simp]: "baseline_inv (foldl (expire_cexc now) st xs) = baseline_inv st"
  by (induction xs arbitrary: st) (simp_all add: expire_cexc_def DOMAIN_ACTIONS_def)

lemmas not_domain_action = DOMAIN_ACTIONS_def

lemma put_schedule_baseline:
  "put_schedule now a eid rules im act st = Inr (st', c) \<Longrightarrow> act \<notin> DOMAIN_ACTIONS \<Longrightarrow> baseline_inv st' = baseline_inv st"
  by (auto dest!: put_schedule_cases)

lemma undo_baseline: "undo now a eid st = Inr (st', c) \<Longrightarrow> baseline_inv st' = baseline_inv st"
  by (auto simp: undo_def op_simps DOMAIN_ACTIONS_def dest!: put_schedule_baseline split: option.splits)

text \<open>The shape of what the plug settings write.\<close>

lemma set_guardrails_writes:
  assumes "set_guardrails now a eid gv st = Inr (st', c)"
  shows "st' = st \<or> (\<exists>b d g. st' = audit_st now a ''guardrails'' (Some eid) b d (set_entity eid (\<lambda>e. e\<lparr>e_guardrails := g\<rparr>) st))"
proof -
  obtain ent where e: "entity_of st eid = Inr ent" using assms unfolding set_guardrails_def by (auto simp: op_simps)
  obtain g probs where g: "validate_guardrails (e_kind ent) gv = (g, probs)" by (cases "validate_guardrails (e_kind ent) gv")
  show ?thesis using assms unfolding set_guardrails_def by (auto simp: op_simps e g split: if_splits)
qed

lemma patch_entity_writes:
  assumes "patch_entity now a eid p st = Inr (st', c)"
  shows "st' = st \<or> (\<exists>b d new. st' = audit_st now a ''entity'' (Some eid) b d (set_entity eid (\<lambda>e. new) st))"
proof -
  obtain ent where e: "entity_of st eid = Inr ent" using assms by (auto simp: patch_entity_def op_simps)
  obtain new probs where new: "patched (entities st) p ent = (new, probs)" by (cases "patched (entities st) p ent")
  show ?thesis using assms unfolding patch_entity_def by (auto simp: op_simps e new split: if_splits)
qed

lemma add_plug_writes:
  assumes "add_plug now a eid name target like k st = Inr st'"
  shows "\<exists>b d ent rs. st' = audit_st now a ''entity_add'' (Some eid) b d (insert_entity now ent rs st)"
  using assms unfolding add_plug_def by (auto simp: op_simps simp del: find.simps split: if_splits)

lemma plug_ops_baseline:
  "set_guardrails now a eid gv st = Inr (st', c) \<Longrightarrow> baseline_inv st' = baseline_inv st"
  "add_plug now a eid name target like k st = Inr st' \<Longrightarrow> baseline_inv st' = baseline_inv st"
  "patch_entity now a eid p st = Inr (st', c) \<Longrightarrow> baseline_inv st' = baseline_inv st"
  by (auto dest!: set_guardrails_writes add_plug_writes patch_entity_writes simp: DOMAIN_ACTIONS_def)

text \<open>An entity of the seed adds one row to either table.\<close>

lemma seed_one_writes:
  assumes "seed_one now a st x = Inr st'"
  shows "\<exists>eid c es ss. st' = audit_st now a ''import'' (Some eid) JNull c (st\<lparr>db_entities := es, db_schedules := ss\<rparr>)"
proof -
  obtain pos w where x: "x = (pos, w)" by (cases x)
  obtain g gp where g: "validate_guardrails (sw_kind w) (sw_guardrails w) = (g, gp)"
    by (cases "validate_guardrails (sw_kind w) (sw_guardrails w)")
  obtain fl fp where fl: "validate_flags (sw_flags w) = (fl, fp)" by (cases "validate_flags (sw_flags w)")
  show ?thesis using assms unfolding seed_one_def x by (auto simp: op_simps g fl)
qed

lemma seed_baseline:
  assumes "seed now a ws st = Inr (st', n)"
  shows "baseline_inv st' = baseline_inv st"
proof -
  have one: "seed_one now a s x = Inr s' \<Longrightarrow> baseline_inv s' = baseline_inv s" for s s' x
    by (auto dest!: seed_one_writes simp: DOMAIN_ACTIONS_def)
  have "fold_res (seed_one now a) st (zip [0..<length ws] ws) = Inr st'"
    using assms by (auto simp: seed_def bind_res_Inr_iff)
  then show ?thesis
    by (rule fold_res_invariant [where P = "\<lambda>q. baseline_inv q = baseline_inv st"]) (simp_all add: one)
qed

lemma small_ops_baseline:
  "add_exception now fresh a eid body today st = Inr (st', x) \<Longrightarrow> baseline_inv st' = baseline_inv st"
  "delete_exception now a xid st = Inr st' \<Longrightarrow> baseline_inv st' = baseline_inv st"
  "create_token now fresh secret a name role expires gateway st = Inr (st', y) \<Longrightarrow> baseline_inv st' = baseline_inv st"
  "revoke_token now a tid st = Inr st' \<Longrightarrow> baseline_inv st' = baseline_inv st"
  "baseline_inv (touch_token now tid st) = baseline_inv st" "baseline_inv (record_apply now a status st) = baseline_inv st"
  by (auto simp: add_exception_def delete_exception_def create_token_def revoke_token_def touch_token_def record_apply_def
      op_simps DOMAIN_ACTIONS_def split: prod.splits option.splits)

lemma start_run_writes:
  assumes "start_run now fresh a eid minutes st = Inr (st', rid)"
  shows "\<exists>b c rw. st' = (audit_st (stored now) a ''run_start'' (Some eid) b c (close_over (stored now) eid st))
       \<lparr>db_runs := db_runs (close_over (stored now) eid st) @ [rw]\<rparr>"
proof -
  let ?st = "close_over (stored now) eid st"
  obtain ent where e: "entity_of st eid = Inr ent" using assms by (auto simp: start_run_def op_simps)
  have none: "runs_of ?st (Some eid) True None = []"
    using assms by (cases "runs_of ?st (Some eid) True None") (auto simp: start_run_def op_simps)
  obtain s where s: "schedule_of ?st eid = Inr s" using assms none by (auto simp: start_run_def op_simps)
  obtain ends probs where v: "validate_run ent (sc_rules s) (skips_of ?st eid) minutes (stored now) (previous_end ?st eid) None = (ends, probs)"
    by (cases "validate_run ent (sc_rules s) (skips_of ?st eid) minutes (stored now) (previous_end ?st eid) None")
  show ?thesis using assms none unfolding start_run_def by (auto simp: op_simps e s v)
qed

lemma extend_run_writes:
  assumes "extend_run now a rid minutes st = Inr st'"
  shows "\<exists>eid b c f. st' = set_run rid f (audit_st now a ''run_extend'' (Some eid) b c st)"
proof -
  obtain r ent s where r: "run_of st rid = Inr r" "entity_of st (rr_entity r) = Inr ent" "schedule_of st (rr_entity r) = Inr s"
    using assms by (auto simp: extend_run_def op_simps)
  obtain e probs where v: "validate_run ent (sc_rules s) (skips_of st (rr_entity r)) minutes (rr_ends r) None (Some (rr_started r)) = (e, probs)"
    by (cases "validate_run ent (sc_rules s) (skips_of st (rr_entity r)) minutes (rr_ends r) None (Some (rr_started r))")
  show ?thesis using assms unfolding extend_run_def by (auto simp: op_simps r v)
qed

lemma cancel_run_writes:
  assumes "cancel_run now a rid withdraw st = Inr st'"
  shows "\<exists>eid b c f. st' = set_run rid f (audit_st (stored now) a (if withdraw then ''run_withdraw'' else ''run_cancel'') (Some eid) b c st)"
  using assms unfolding cancel_run_def by (auto simp: op_simps) blast+

lemma run_ops_baseline:
  "start_run now fresh a eid minutes st = Inr (st', rid) \<Longrightarrow> baseline_inv st' = baseline_inv st"
  "extend_run now a rid minutes st = Inr st' \<Longrightarrow> baseline_inv st' = baseline_inv st"
  "cancel_run now a rid withdraw st = Inr st' \<Longrightarrow> baseline_inv st' = baseline_inv st"
  "baseline_inv (fst (expire_runs now st)) = baseline_inv st"
  by (auto dest!: start_run_writes extend_run_writes cancel_run_writes simp: expire_runs_def Let_def DOMAIN_ACTIONS_def)

section \<open>Domain lists\<close>

lemma str_list_strs [simp]: "str_list (JList (map JStr xs)) = xs"
  by (induction xs) (simp_all add: str_list_def json_str_def)

lemma field_of_JObj [simp]: "field_of (JObj f) k = jget f k"
  by (simp add: field_of_def)

lemma child_domains_ok:
  assumes "baseline_inv st"
  shows "list_all (dom_ok k) (child_domains st eid k)"
  using assms by (auto simp: baseline_inv_def child_domains_def list_all_iff)

lemma lists_json_ok: "baseline_inv st \<Longrightarrow> lists_ok (lists_json st eid)"
  using child_domains_ok [of st Allow eid] child_domains_ok [of st Deny eid]
  by (simp add: lists_ok_def lists_json_def jget_def)

lemma domain_rows_ok: "list_all (\<lambda>r. dom_ok (dm_kind r) (dm_domain r)) (domain_rows eid k ds) = list_all (dom_ok k) ds"
  by (simp add: domain_rows_def list_all_iff)

lemma baseline_domains:
  assumes "baseline_inv st" "list_all (\<lambda>r. dom_ok (dm_kind r) (dm_domain r)) rows"
  shows "baseline_inv (st\<lparr>db_domains := rows\<rparr>)"
  using assms by (simp add: baseline_inv_def)

lemma baseline_domain_audit:
  assumes "baseline_inv st" "lists_ok (field_of b ''lists'')" "lists_ok (field_of c ''lists'')"
  shows "baseline_inv (audit_st now a act e b c st)"
  using assms by (simp add: baseline_inv_def audit_st_audit audit_lists_ok_def)

lemma change_child_domain_writes:
  assumes "change_child_domain now a eid kd domain add st = Inr st'"
  shows "st' = st \<or> (\<exists>k rows ch. parse_kind kd = Some k \<and> domain_re (normal_domain domain)
     \<and> (k = Deny \<and> add \<longrightarrow> deny_breaks_baseline (normal_domain domain) = None)
     \<and> rows = (if add then drop_domain eid (other_kind k) (normal_domain domain) (db_domains st)
           @ [\<lparr>dm_entity = eid, dm_kind = k, dm_domain = normal_domain domain\<rparr>]
         else drop_domain eid k (normal_domain domain) (db_domains st))
     \<and> st' = audit_st now a (if add then ''child_domain_add'' else ''child_domain_remove'') (Some eid)
         (JObj [(''lists'', lists_json st eid), (''change'', ch)]) (JObj [(''lists'', lists_json (st\<lparr>db_domains := rows\<rparr>) eid)])
         (st\<lparr>db_domains := rows\<rparr>))"
proof -
  obtain k where k: "parse_kind kd = Some k" using assms by (cases "parse_kind kd") (auto simp: change_child_domain_def)
  show ?thesis using assms k unfolding change_child_domain_def Let_def
    by (auto simp: bind_res_Inr_iff split: if_splits option.splits)
qed

lemma change_child_domain_baseline:
  assumes inv: "baseline_inv st" and ok: "change_child_domain now a eid kd domain add st = Inr st'"
  shows "baseline_inv st'"
proof -
  consider "st' = st" | k rows ch where "domain_re (normal_domain domain)"
      "k = Deny \<and> add \<longrightarrow> deny_breaks_baseline (normal_domain domain) = None"
      "rows = (if add then drop_domain eid (other_kind k) (normal_domain domain) (db_domains st)
           @ [\<lparr>dm_entity = eid, dm_kind = k, dm_domain = normal_domain domain\<rparr>]
         else drop_domain eid k (normal_domain domain) (db_domains st))"
      "st' = audit_st now a (if add then ''child_domain_add'' else ''child_domain_remove'') (Some eid)
         (JObj [(''lists'', lists_json st eid), (''change'', ch)]) (JObj [(''lists'', lists_json (st\<lparr>db_domains := rows\<rparr>) eid)])
         (st\<lparr>db_domains := rows\<rparr>)"
    using change_child_domain_writes [OF ok] by blast
  then show ?thesis
  proof cases
    case 2
    have "list_all (\<lambda>r. dom_ok (dm_kind r) (dm_domain r)) rows"
      using inv 2(1,2) by (auto simp: 2(3) baseline_inv_def drop_domain_def list_all_iff dom_ok_def)
    then have "baseline_inv (st\<lparr>db_domains := rows\<rparr>)" by (rule baseline_domains [OF inv])
    then show ?thesis using lists_json_ok [OF inv] lists_json_ok
      unfolding 2(4) by (intro baseline_domain_audit) (simp_all add: jget_def)
  qed (simp add: inv)
qed

lemma undo_child_domain_writes:
  assumes "undo_child_domain now a eid st = Inr st'"
  shows "\<exists>r rows. r \<in> set (db_audit st) \<and> a_action r \<in> DOMAIN_ACTIONS
     \<and> rows = filter (\<lambda>x. dm_entity x \<noteq> eid) (db_domains st)
         @ domain_rows eid Allow (str_list (field_of (field_of (a_before r) ''lists'') ''allow''))
         @ domain_rows eid Deny (str_list (field_of (field_of (a_before r) ''lists'') ''deny''))
     \<and> st' = audit_st now a ''child_domain_undo'' (Some eid) (JObj [(''lists'', field_of (a_after r) ''lists'')])
         (JObj [(''lists'', field_of (a_before r) ''lists'')]) (st\<lparr>db_domains := rows\<rparr>)"
proof -
  let ?rs = "filter (\<lambda>r. a_action r \<in> {''child_domain_add'', ''child_domain_remove'', ''child_domain_undo''})
     (audit_list (Some eid) 200 None (db_audit st))"
  obtain r rs where r: "?rs = r # rs"
    using assms unfolding undo_child_domain_def by (auto simp: bind_res_Inr_iff split: list.splits)
  have "r \<in> set ?rs" by (simp only: r list.set_intros)
  then have "r \<in> set (db_audit st)" "a_action r \<in> DOMAIN_ACTIONS"
    by (auto simp: audit_list_def DOMAIN_ACTIONS_def dest!: in_set_takeD)
  then show ?thesis using assms unfolding undo_child_domain_def r
    by (intro exI [of _ r]) (auto simp: bind_res_Inr_iff Let_def)
qed

lemma undo_child_domain_baseline:
  assumes inv: "baseline_inv st" and ok: "undo_child_domain now a eid st = Inr st'"
  shows "baseline_inv st'"
proof -
  obtain r rows where r: "r \<in> set (db_audit st)" "a_action r \<in> DOMAIN_ACTIONS"
      "rows = filter (\<lambda>x. dm_entity x \<noteq> eid) (db_domains st)
         @ domain_rows eid Allow (str_list (field_of (field_of (a_before r) ''lists'') ''allow''))
         @ domain_rows eid Deny (str_list (field_of (field_of (a_before r) ''lists'') ''deny''))"
      "st' = audit_st now a ''child_domain_undo'' (Some eid) (JObj [(''lists'', field_of (a_after r) ''lists'')])
         (JObj [(''lists'', field_of (a_before r) ''lists'')]) (st\<lparr>db_domains := rows\<rparr>)"
    using undo_child_domain_writes [OF ok] by blast
  have l: "lists_ok (field_of (a_before r) ''lists'')" "lists_ok (field_of (a_after r) ''lists'')"
    using inv r(1,2) by (auto simp: baseline_inv_def audit_lists_ok_def list_all_iff)
  have "list_all (\<lambda>x. dom_ok (dm_kind x) (dm_domain x)) rows"
    using inv l(1) unfolding r(3) by (simp add: domain_rows_ok lists_ok_def) (auto simp: baseline_inv_def list_all_iff)
  then show ?thesis unfolding r(4) using l
    by (intro baseline_domain_audit baseline_domains [OF inv]) (simp_all add: jget_def)
qed

section \<open>Devices\<close>

lemma baseline_insert_child:
  "baseline_inv st \<Longrightarrow> list_all (dom_ok Allow) al \<Longrightarrow> list_all (dom_ok Deny) dn
     \<Longrightarrow> baseline_inv (insert_child now ent rs al dn pos st)"
  by (simp add: baseline_inv_def domain_rows_ok)

lemma drop_children_fields [simp]:
  "db_domains (drop_children gone st) = filter (\<lambda>x. \<not> gone (dm_entity x)) (db_domains st)"
  "db_lists (drop_children gone st) = db_lists st"
  by (simp_all add: drop_children_def)

lemma baseline_drop_children: "baseline_inv st \<Longrightarrow> baseline_inv (drop_children gone st)"
  by (auto simp: baseline_inv_def list_all_iff)

lemma import_one_baseline:
  assumes "baseline_inv st" "plan_device_ok d" "import_one now pos st (i, d) = Inr st'"
  shows "baseline_inv st'"
proof -
  have st': "st' = insert_child now (new_child d) (nd_rules d) (nd_allow d) (nd_deny d) (pos + int i) st"
    using assms(3) unfolding import_one_def by (auto simp: bind_res_Inr_iff)
  show ?thesis using assms(2) unfolding st'
    by (intro baseline_insert_child [OF assms(1)]) (auto simp: plan_device_ok_def dom_ok_def list_all_iff)
qed

lemma insert_old_baseline: "baseline_inv st \<Longrightarrow> insert_old now fresh st x = Inr st' \<Longrightarrow> baseline_inv st'"
  using insert_old_fields [of now fresh st x st'] by (simp add: baseline_inv_def)

lemma import_baseline:
  assumes inv: "store_inv st" "baseline_inv st" and ok: "import_child_policy now fresh fromiso a payload dry st = Inr st'"
  shows "baseline_inv st'"
proof -
  consider "st' = st" | devs ls svc exs st2 st3 b c where
      "import_checks fromiso (stored now) st payload = Inr (devs, ls, svc, exs)"
      "fold_res (import_one (stored now) (max_position (drop_children (is_child_id st) st) + 1)) (drop_children (is_child_id st) st)
         (zip [0..<length devs] devs) = Inr st2"
      "fold_res (insert_old (stored now) fresh) st2 (zip [0..<length exs] exs) = Inr st3"
      "st' = audit_st (stored now) a ''import_child_policy'' None b c
         (st3\<lparr>db_lists := Some (\<lparr>l_allow_always = l_allow_always ls, l_allow_weekdays = l_allow_weekdays ls,
            l_allow_extra = [], l_deny_extra = []\<rparr>, sort svc)\<rparr>)"
    using import_cases [OF ok] by blast
  then show ?thesis
  proof cases
    case 2
    note plan = import_checks_ok [OF store_invD(1) [OF inv(1)] 2(1)]
    have "baseline_inv st2"
    proof (rule fold_res_invariant [OF 2(2)])
      show "baseline_inv (drop_children (is_child_id st) st)" by (rule baseline_drop_children [OF inv(2)])
    next
      fix s x s'
      assume *: "x \<in> set (zip [0..<length devs] devs)" "baseline_inv s"
        "import_one (stored now) (max_position (drop_children (is_child_id st) st) + 1) s x = Inr s'"
      obtain i d where x: "x = (i, d)" by (cases x)
      have "plan_device_ok d" using plan(1) set_zip_devices [OF *(1)] by (simp add: x list_all_iff)
      then show "baseline_inv s'" using *(2,3) import_one_baseline unfolding x by blast
    qed
    then have "baseline_inv st3" by (rule fold_res_invariant [OF 2(3)]) (rule insert_old_baseline)
    then show ?thesis using plan(2,3) unfolding 2(4)
      by (simp add: DOMAIN_ACTIONS_def) (simp add: baseline_inv_def house_ok_def)
  qed (simp add: inv)
qed

lemma sorted_set_Nil: "sorted_set xs = [] \<longleftrightarrow> xs = []"
  by (metis set_empty sorted_set_props(3))

lemma missing_always_mono:
  "missing_always xs = [] \<Longrightarrow> set xs \<subseteq> set ys \<Longrightarrow> missing_always ys = []"
  by (auto simp: missing_always_def sorted_set_Nil filter_empty_conv)

lemma migrate_maps_baseline:
  assumes inv: "baseline_inv st" and ok: "migrate_maps now a st = Inr st'"
  shows "baseline_inv st'"
proof -
  consider "st' = st" | ls svc st1 rows b c where "db_lists st = Some (ls, svc)"
      "fold_res (migrate_one (stored now)) st (with_maps st) = Inr st1"
      "st' = audit_st (stored now) a ''child_maps_always_open'' None b c (st1\<lparr>db_cexc := rows,
         db_lists := Some (ls\<lparr>l_allow_always := sorted_set (l_allow_always ls @ l_allow_weekdays ls @ MAPS_DOMAINS), l_allow_weekdays := []\<rparr>, svc)\<rparr>)"
    using migrate_maps_cases [OF ok] by blast
  then show ?thesis
  proof cases
    case 2
    have one: "migrate_one (stored now) s x = Inr s' \<Longrightarrow> baseline_inv s' = baseline_inv s" for s s' x
      unfolding migrate_one_def by (auto simp: op_simps split: prod.splits)
    have "baseline_inv st1"
      by (rule fold_res_invariant [OF 2(2), where P = baseline_inv]) (rule inv, simp add: one)
    moreover have "house_ok (Some (ls, svc))" using inv 2(1) by (simp add: baseline_inv_def)
    then have "house_ok (Some (ls\<lparr>l_allow_always := sorted_set (l_allow_always ls @ l_allow_weekdays ls @ MAPS_DOMAINS), l_allow_weekdays := []\<rparr>, svc))"
      unfolding house_ok_def by (simp add: missing_always_mono [of "l_allow_always ls"])
    ultimately show ?thesis unfolding 2(3) by (simp add: DOMAIN_ACTIONS_def) (simp add: baseline_inv_def)
  qed (simp add: inv)
qed

lemma device_ops_baseline:
  "add_child_exception now fresh a eid tg m eod st = Inr (st', xid) \<Longrightarrow> baseline_inv st' = baseline_inv st"
  "cancel_child_exception now a eid xid st = Inr st' \<Longrightarrow> baseline_inv st' = baseline_inv st"
  "baseline_inv (fst (expire_child_exceptions now st)) = baseline_inv st"
  "set_child_cutover now a d note st = Inr st' \<Longrightarrow> baseline_inv st' = baseline_inv st"
  "set_child_display now a eid disp icono st = Inr st' \<Longrightarrow> baseline_inv st' = baseline_inv st"
  by (auto simp: add_child_exception_def cancel_child_exception_def expire_child_exceptions_def set_child_cutover_def
      set_child_display_def op_simps DOMAIN_ACTIONS_def split: prod.splits option.splits if_splits)

lemma add_child_device_writes:
  assumes "add_child_device now a name0 ip mac0 like label0 icon closed st = Inr (st', eid)"
  shows "\<exists>(src :: entity option) b c ent rs. st' = audit_st now a ''child_device_add'' (Some eid) b c (insert_child now ent rs
     (case src of None \<Rightarrow> [] | Some e \<Rightarrow> child_domains st (e_id e) Allow)
     (case src of None \<Rightarrow> [] | Some e \<Rightarrow> child_domains st (e_id e) Deny) (max_position st + 1) st)"
  using add_child_device_cases [OF assms] by blast

lemma add_child_device_baseline:
  assumes inv: "baseline_inv st" and ok: "add_child_device now a name0 ip mac0 like label0 icon closed st = Inr (st', eid)"
  shows "baseline_inv st'"
proof -
  obtain src :: "entity option" and b c ent rs where p: "st' = audit_st now a ''child_device_add'' (Some eid) b c (insert_child now ent rs
     (case src of None \<Rightarrow> [] | Some e \<Rightarrow> child_domains st (e_id e) Allow)
     (case src of None \<Rightarrow> [] | Some e \<Rightarrow> child_domains st (e_id e) Deny) (max_position st + 1) st)"
    using add_child_device_writes [OF ok] by (elim exE) (rule that)
  have "list_all (dom_ok Allow) (case src of None \<Rightarrow> [] | Some e \<Rightarrow> child_domains st (e_id e) Allow)"
    "list_all (dom_ok Deny) (case src of None \<Rightarrow> [] | Some e \<Rightarrow> child_domains st (e_id e) Deny)"
    using child_domains_ok [OF inv] by (simp_all split: option.splits)
  then show ?thesis unfolding p by (simp add: DOMAIN_ACTIONS_def baseline_insert_child [OF inv])
qed

lemma remove_child_device_baseline:
  assumes inv: "baseline_inv st" and ok: "remove_child_device now fresh a eid keep st = Inr (st', rid)"
  shows "baseline_inv st'"
proof -
  obtain ent d b c where p: "definition_of st (stored now) ent = Inr d"
    and st': "st' = audit_st (stored now) a ''child_device_remove'' (Some eid) b c ((drop_children (\<lambda>x. x = eid) st)\<lparr>db_removed :=
         (if keep then db_removed st @ [\<lparr>rm_id = rid, rm_entity = eid, rm_name = e_name ent, rm_at = stored now, rm_by = a, rm_def = d\<rparr>]
          else db_removed st)\<rparr>)"
    using remove_child_device_cases [OF ok] by blast
  have "definition_ok d" using definition_fields [OF p] child_domains_ok [OF inv] by (simp add: definition_ok_def)
  then show ?thesis using baseline_drop_children [OF inv, of "\<lambda>x. x = eid"] unfolding st'
    by (simp add: DOMAIN_ACTIONS_def) (simp add: baseline_inv_def)
qed

lemma purge_removed_baseline: "baseline_inv st \<Longrightarrow> baseline_inv (purge_removed now st)"
  by (auto simp: purge_removed_def Let_def baseline_inv_def list_all_iff)

lemma restore_child_device_baseline:
  assumes inv: "baseline_inv st0" and ok: "restore_child_device now fresh a rid st0 = Inr (st', eid)"
  shows "baseline_inv st'"
proof -
  let ?st = "purge_removed (stored now) st0"
  obtain row rs ent new b c where p: "row \<in> set (db_removed ?st)"
      "st' = audit_st (stored now) a ''child_device_restore'' (Some eid) b c
         ((insert_child (stored now) ent rs (df_allow (rm_def row)) (df_deny (rm_def row)) (max_position ?st + 1) ?st)
          \<lparr>db_cexc := new, db_removed := filter (\<lambda>r. rm_id r \<noteq> rid) (db_removed ?st)\<rparr>)"
    using restore_child_device_cases [OF ok] by blast
  have inv': "baseline_inv ?st" by (rule purge_removed_baseline [OF inv])
  then have "definition_ok (rm_def row)" using p(1) by (auto simp: baseline_inv_def list_all_iff)
  then have "baseline_inv (insert_child (stored now) ent rs (df_allow (rm_def row)) (df_deny (rm_def row)) (max_position ?st + 1) ?st)"
    by (intro baseline_insert_child [OF inv']) (simp_all add: definition_ok_def)
  then show ?thesis using inv' unfolding p(2)
    by (simp add: DOMAIN_ACTIONS_def) (auto simp: baseline_inv_def list_all_iff)
qed

section \<open>Every reachable state\<close>

lemma empty_db_baseline: "baseline_inv empty_db"
  by (simp add: empty_db_def baseline_inv_def house_ok_def)

lemma store_step_baseline: "store_step st st' \<Longrightarrow> store_inv st \<Longrightarrow> baseline_inv st \<Longrightarrow> baseline_inv st'"
proof (induction rule: store_step.induct)
  case (put_schedule now a eid rules im st st' c)
  then show ?case using put_schedule_baseline [OF put_schedule.hyps] by (simp add: DOMAIN_ACTIONS_def)
next
  case (expire_runs now st st' n)
  then show ?case using run_ops_baseline(4) [of now st] by simp
next
  case (expire_child_exceptions now st st' n)
  then show ?case using device_ops_baseline(3) [of now st] by simp
next
  case (purge_removed now st st' rows)
  then show ?case using purge_removed_baseline [of st now] by (auto simp: child_removed_def Let_def)
qed (metis seed_baseline undo_baseline plug_ops_baseline small_ops_baseline run_ops_baseline device_ops_baseline
    change_child_domain_baseline undo_child_domain_baseline import_baseline migrate_maps_baseline
    add_child_device_baseline remove_child_device_baseline restore_child_device_baseline)+

lemma reachable_baseline: "reachable st \<Longrightarrow> baseline_inv st"
  by (induction rule: reachable.induct) (auto intro: empty_db_baseline store_step_baseline reachable_inv)

end
