(* ===== verification/Store_Props.thy ===== *)
theory Store_Props
  imports Child_Baseline
begin

text \<open>
  Properties of the store: what every reachable state promises, how one write changes it, and what
  the audit shows of it.
\<close>

section \<open>Reachable states\<close>

text \<open>
  C1: in every state the service can reach from the empty database, by any sequence of its writes with
  any actors and clocks, each stored schedule satisfies the specification of the house rules under the
  guardrails stored with its entity, and those guardrails are accepted ones; so a change of guardrails,
  an undo, an import, a migration, a removal or a restoration can never leave an unsound schedule.
\<close>

theorem reachable_schedules_sound:
  assumes "reachable st" "entity_of st eid = Inr e"
  shows "\<exists>s. schedule_of st eid = Inr s \<and> rules_sound (e_kind e) (e_guardrails e) (sc_rules s)
    \<and> (\<exists>gv. validate_guardrails (e_kind e) gv = (e_guardrails e, []))"
proof -
  note i = store_invD(1) [OF reachable_inv [OF assms(1)]]
  obtain s where s: "schedule_of st eid = Inr s" using schedule_exists [OF i assms(2)] by blast
  then show ?thesis using entity_schedule_sound [OF i assms(2) s] by (auto simp: guards_ok_def)
qed

text \<open>A small reachable state: a seeded database with one plug.\<close>

definition ex_seed :: seed_entity where
  "ex_seed = \<lparr>sw_id = ''boiler'', sw_kind = Plug, sw_name = ''Boiler'', sw_ha_target = Some ''switch.boiler'', sw_managed = True,
     sw_flags = JObj [(''household_editable'', JBool True)], sw_guardrails = ex_plug_body, sw_rules = rules_json ex_plug_rules\<rparr>"

definition ex_boiler :: entity where
  "ex_boiler = \<lparr>e_id = ''boiler'', e_kind = Plug, e_name = ''Boiler'', e_ha_target = Some ''switch.boiler'',
     e_managed = True, e_flags = \<lparr>f_household_editable = Some True, f_guardrails_proposed = None\<rparr>, e_guardrails = ex_guards, e_meta = []\<rparr>"

definition ex_now :: dtime where
  "ex_now = Fixed (739002 * 86400 + 10 * 3600) 3600"

definition ex_admin :: actor where
  "ex_admin = \<lparr>ac_token = ''t1'', ac_name = ''root'', ac_role = ''admin'', ac_more = []\<rparr>"

definition ex_db :: db where
  "ex_db = audit_st ex_now ex_admin ''import'' (Some ''boiler'') JNull
     (JObj [(''entity'', JObj [(''kind'', JStr ''plug''), (''name'', JStr ''Boiler''), (''ha_target'', JStr ''switch.boiler'')]),
        (''guardrails'', guardrails_json ex_guards), (''flags'', flags_json (e_flags ex_boiler)), (''rules'', rules_json ex_plug_rules)])
     (empty_db\<lparr>db_entities := [\<lparr>en_entity = ex_boiler, en_position = 0\<rparr>],
        db_schedules := [\<lparr>sc_entity = ''boiler'', sc_version = 1, sc_rules = ex_plug_rules, sc_updated = stored ex_now\<rparr>]\<rparr>)"

lemma ex_seed_valid:
  "validate_guardrails Plug ex_plug_body = (ex_guards, [])"
  "validate_flags (JObj [(''household_editable'', JBool True)]) = (e_flags ex_boiler, [])"
  "dollar entity_id_body ''boiler''"
  by code_simp+

lemma ex_db_reachable: "reachable ex_db"
proof -
  have "seed_one ex_now ex_admin empty_db (0, ex_seed) = Inr ex_db"
    unfolding seed_one_def ex_seed_def
    by (simp add: ex_seed_valid ex_plug_accepted known_kind_def require_none_def prefixed_def ex_db_def ex_boiler_def
        empty_db_def kind_name_def require_def lift_py_def)
  then have "seed ex_now ex_admin [ex_seed] empty_db = Inr (ex_db, 1)"
    by (simp add: seed_def empty_db_def require_def)
  then show ?thesis by (rule reachable_step [OF reachable_empty store_step.seed])
qed

lemma ex_db_reads: "entity_of ex_db ''boiler'' = Inr ex_boiler"
  "schedule_of ex_db ''boiler'' = Inr \<lparr>sc_entity = ''boiler'', sc_version = 1, sc_rules = ex_plug_rules, sc_updated = stored ex_now\<rparr>"
  by (simp_all add: ex_db_def entity_of_def schedule_of_def ex_boiler_def audit_st_def)

lemma reachable_schedules_sound_witness: "rules_sound Plug ex_guards ex_plug_rules"
  using reachable_schedules_sound [OF ex_db_reachable ex_db_reads(1)] by (simp add: ex_db_reads ex_boiler_def)

text \<open>
  a plug never has two active runs in a reachable state: two active rows of one plug are the same
  row of the table.
\<close>

theorem reachable_one_run:
  assumes "reachable st" "i < length (db_runs st)" "j < length (db_runs st)"
    and "rr_entity (db_runs st ! i) = rr_entity (db_runs st ! j)"
    and "rr_status (db_runs st ! i) = ''active''" "rr_status (db_runs st ! j) = ''active''"
  shows "i = j"
proof (rule ccontr)
  assume ne: "i \<noteq> j"
  let ?e = "rr_entity (db_runs st ! i)"
  let ?P = "\<lambda>r. rr_entity r = ?e \<and> rr_status r = ''active''"
  have "{i, j} \<subseteq> {k. k < length (db_runs st) \<and> ?P (db_runs st ! k)}" using assms by auto
  then have "card {i, j} \<le> length (filter ?P (db_runs st))"
    by (auto simp: length_filter_conv_card intro: card_mono)
  moreover have "length (filter ?P (db_runs st)) \<le> 1"
    using store_invD(3) [OF reachable_inv [OF assms(1)]] by (simp add: runs_ok_def active_of_def)
  ultimately show False using ne by simp
qed

definition ex_start :: dtime where
  "ex_start = Fixed (739002 * 86400 + 10 * 3600 + 15) 3600"

definition ex_run_row :: run_row where
  "ex_run_row = \<lparr>rr_id = ''r1'', rr_entity = ''boiler'', rr_started = ex_start,
     rr_ends = Fixed (739002 * 86400 + 10 * 3600 + 46 * 60) 3600, rr_minutes = 45, rr_status = ''active'', rr_ended = None,
     rr_by = ex_admin, rr_rev = 2\<rparr>"

definition ex_run_db :: db where
  "ex_run_db = (audit_st ex_start ex_admin ''run_start'' (Some ''boiler'') JNull
     (JObj [(''id'', JStr ''r1''), (''minutes'', JInt 45), (''started_at'', JStr (iso_text ex_start)),
        (''ends_at'', JStr (iso_text (Fixed (739002 * 86400 + 10 * 3600 + 46 * 60) 3600)))]) ex_db)\<lparr>db_runs := [ex_run_row]\<rparr>"

lemma ex_boiler_run: "validate_run ex_boiler ex_plug_rules [] (JInt 45) ex_start None None
    = (Some (Fixed (739002 * 86400 + 10 * 3600 + 46 * 60) 3600), [])"
  by code_simp

lemma ex_db_runs: "db_runs ex_db = []" "db_exceptions ex_db = []"
  by (simp_all add: ex_db_def empty_db_def audit_st_def)

lemma ex_db_seq: "seq_of (audit_st now a act e b c ex_db) = 2"
  by (simp add: seq_of_def ex_db_def audit_st_audit audit_seq_def new_row_def Let_def audit_st_def audit_append_def empty_db_def)

lemma ex_run_reachable: "reachable ex_run_db"
proof -
  have st: "stored ex_start = ex_start" by (simp add: ex_start_def stored_def)
  have no: "runs_of ex_db e o' t = []" for e o' t by (simp add: runs_of_def ex_db_runs split: option.splits)
  have "skips_of ex_db ''boiler'' = []"
    by (simp add: skips_of_def exceptions_for_model_def exceptions_of_def ex_db_runs skip_dates_def)
  then have "start_run ex_start ''1'' ex_admin ''boiler'' (JInt 45) ex_db = Inr (ex_run_db, ''r1'')"
    by (simp add: start_run_def ex_db_reads check_runner_def ex_admin_def [symmetric] st close_over_def no previous_end_def
        Let_def ex_boiler_run require_def require_none_def ex_db_runs ex_db_seq ex_run_db_def ex_run_row_def
        latest_time.simps) (simp add: ex_admin_def ex_boiler_def ex_start_def stored_def dt_sub_def same_zone_def audit_st_def instant_def)
  then show ?thesis by (rule reachable_step [OF ex_db_reachable store_step.start_run])
qed

lemma reachable_one_run_witness: "db_runs ex_run_db ! 0 = ex_run_row \<and> (0::nat) = 0"
  using reachable_one_run [OF ex_run_reachable, of 0 0] by (simp add: ex_run_db_def ex_run_row_def)



text \<open>
  C11: no reachable state holds a deny entry that would block an always-on host, for any device, and
  the house-wide allow list keeps every required host once a policy is imported: not by an edit, an
  undo of an older edit, a copy from another device, an import, or by restoring a removed device.
\<close>

theorem reachable_baseline_kept:
  assumes "reachable st"
  shows "(\<forall>d\<in>set (child_domains st eid Deny). deny_breaks_baseline d = None)
    \<and> (\<forall>ls svc. db_lists st = Some (ls, svc) \<longrightarrow> set REQUIRED_ALWAYS \<subseteq> set (l_allow_always ls) \<and> set svc = {''telegram''} \<and> l_deny_extra ls = [])"
proof -
  have inv: "baseline_inv st" by (rule reachable_baseline [OF assms])
  then show ?thesis using child_domains_ok [OF inv, of Deny eid]
    by (auto simp: list_all_iff dom_ok_def baseline_inv_def house_ok_def missing_always_def sorted_set_Nil filter_empty_conv)
qed

text \<open>A device is added and a domain denied on it.\<close>

lemma ex_child_pieces:
  "py_strip ''Anna'' = ''Anna''" "py_strip ''tablet'' = ''tablet''" "py_strip ''Anna tablet'' = ''Anna tablet''"
  "py_lower (py_strip []) = []" "child_id ''Anna tablet'' ''192.168.31.40'' = ''child_anna_tablet''"
  "validate_device (JObj [(''id'', JStr ''child_anna_tablet''), (''name'', JStr ''Anna tablet''), (''ip'', JStr ''192.168.31.40''), (''mac'', JStr [])]) = Inr []"
  "name_problems ''Anna'' ''tablet'' ''tablet'' = []" "dollar entity_id_body ''child_anna_tablet''"
  "normal_domain (JStr ''Ads.Example.com'') = ''ads.example.com''" "domain_re ''ads.example.com''"
  "deny_breaks_baseline ''ads.example.com'' = None"
  by code_simp+

lemma ex_standard_rules: "validate_rules Child_window PROPOSED_GUARDRAILS standard_rules
    = Inr ([\<lparr>r_id = ''yt_roblox'', r_days = [1, 2, 3, 4, 5, 6], r_start = ''16:00'', r_end = Some ''19:00'', r_level = None,
        r_vars = Some [(''opens'', JStr ''youtube,roblox'')]\<rparr>], [])"
  by code_simp

lemma ex_db_entities: "db_entities ex_db = [\<lparr>en_entity = ex_boiler, en_position = 0\<rparr>]" "child_devices ex_db = []"
  by (simp_all add: ex_db_def child_devices_def entities_def ex_boiler_def)

lemma ex_child_step: "\<exists>st ent. add_child_device ex_now ex_admin ''Anna'' ''192.168.31.40'' [] None ''tablet'' ''tablet'' False ex_db
    = Inr (st, ''child_anna_tablet'') \<and> db_entities st = [\<lparr>en_entity = ex_boiler, en_position = 0\<rparr>, \<lparr>en_entity = ent, en_position = 1\<rparr>]
      \<and> e_id ent = ''child_anna_tablet'' \<and> e_kind ent = Child_window \<and> db_domains st = []"
  unfolding add_child_device_def
  by (simp add: ex_child_pieces ex_standard_rules duplicate_problems_def ex_db_entities id_taken_def guards_or_proposed_def
      check_admin_def ex_admin_def require_def require_none_def lift_py_def Let_def insert_child_def max_position_def domain_rows_def)
    (simp add: ex_db_def audit_st_def empty_db_def ex_boiler_def)

lemma ex_denied_reachable: "\<exists>st. reachable st \<and> child_domains st ''child_anna_tablet'' Deny = [''ads.example.com'']"
proof -
  obtain st ent where st: "add_child_device ex_now ex_admin ''Anna'' ''192.168.31.40'' [] None ''tablet'' ''tablet'' False ex_db
      = Inr (st, ''child_anna_tablet'')" "db_entities st = [\<lparr>en_entity = ex_boiler, en_position = 0\<rparr>, \<lparr>en_entity = ent, en_position = 1\<rparr>]"
      "e_id ent = ''child_anna_tablet''" "e_kind ent = Child_window" "db_domains st = []"
    using ex_child_step by blast
  have r: "reachable st" by (rule reachable_step [OF ex_db_reachable store_step.add_child_device [OF st(1)]])
  have e: "child_entity st ''child_anna_tablet'' = Inr ent"
    by (simp add: child_entity_def entity_of_def st ex_boiler_def)
  have "\<exists>st'. change_child_domain ex_now ex_admin ''child_anna_tablet'' ''deny'' (JStr ''Ads.Example.com'') True st = Inr st'
      \<and> db_domains st' = [\<lparr>dm_entity = ''child_anna_tablet'', dm_kind = Deny, dm_domain = ''ads.example.com''\<rparr>]"
    by (simp add: change_child_domain_def parse_kind_def ex_child_pieces e check_editor_def ex_admin_def child_domains_def st
        Let_def require_none_def drop_domain_def)
  then obtain st' where "change_child_domain ex_now ex_admin ''child_anna_tablet'' ''deny'' (JStr ''Ads.Example.com'') True st = Inr st'"
      "db_domains st' = [\<lparr>dm_entity = ''child_anna_tablet'', dm_kind = Deny, dm_domain = ''ads.example.com''\<rparr>]" by blast
  then have "reachable st' \<and> child_domains st' ''child_anna_tablet'' Deny = [''ads.example.com'']"
    using reachable_step [OF r store_step.change_child_domain] by (auto simp: child_domains_def)
  then show ?thesis by blast
qed

lemma reachable_baseline_kept_witness:
  "\<exists>st. reachable st \<and> ''ads.example.com'' \<in> set (child_domains st ''child_anna_tablet'' Deny) \<and> deny_breaks_baseline ''ads.example.com'' = None"
  using ex_denied_reachable reachable_baseline_kept [of _ "''child_anna_tablet''"] by fastforce

end
