(* ===== verification/Write_Props.thy ===== *)
theory Write_Props
  imports Store_Props
begin

text \<open>
  What one write does: the audit it leaves, the version check of a schedule, undo, rights and tokens.
\<close>

section \<open>The audit\<close>

definition audited :: "db \<Rightarrow> db \<Rightarrow> bool" where
  "audited st st' \<longleftrightarrow> (\<exists>rows. db_audit st' = db_audit st @ rows
     \<and> (rows = [] \<longrightarrow> st' = st\<lparr>db_tokens := db_tokens st', db_removed := db_removed st'\<rparr>))"

lemma audited_refl: "audited st st"
  by (simp add: audited_def)

lemma audited_snoc: "db_audit st1 = db_audit st @ rows \<Longrightarrow> db_audit st' = db_audit st1 @ [x] \<Longrightarrow> audited st st'"
  by (simp add: audited_def)

lemma audited_st [simp]: "db_audit st1 = db_audit st \<Longrightarrow> audited st (audit_st now a act e b c st1)"
  by (rule audited_snoc [of st1 st "[]"]) (simp_all add: audit_st_audit)

lemma insert_entity_audit [simp]: "db_audit (insert_entity now ent rs st) = db_audit st"
  by (simp add: insert_entity_def)

lemma close_run_audit: "\<exists>x. db_audit (close_run now r st) = db_audit st @ [x]"
  by (simp add: close_run_def Let_def audit_st_audit)

lemma fold_close_audit: "\<exists>rows. length rows = length rs \<and> db_audit (foldl (\<lambda>s r. close_run now r s) st rs) = db_audit st @ rows"
proof (induction rs arbitrary: st)
  case (Cons r rs)
  obtain x where "db_audit (close_run now r st) = db_audit st @ [x]" using close_run_audit by blast
  then show ?case using Cons.IH [of "close_run now r st"] by fastforce
qed simp

lemma expire_cexc_audit: "\<exists>rows. length rows = length xs \<and> db_audit (foldl (expire_cexc now) st xs) = db_audit st @ rows"
proof (induction xs arbitrary: st)
  case (Cons x xs)
  have "\<exists>y. db_audit (expire_cexc now st x) = db_audit st @ [y]" by (simp add: expire_cexc_def audit_st_audit)
  then show ?case using Cons.IH [of "expire_cexc now st x"] by fastforce
qed simp

lemma put_schedule_audited: "put_schedule now a eid rules im act st = Inr (st', c) \<Longrightarrow> audited st st'"
  by (auto dest!: put_schedule_cases simp: audited_refl)

lemma seed_audited:
  assumes "seed now a ws st = Inr (st', n)"
  shows "audited st st'"
proof (cases "ws = []")
  case True
  then show ?thesis using assms by (simp add: seed_def bind_res_Inr_iff audited_refl)
next
  case False
  have one: "seed_one now a s x = Inr s' \<Longrightarrow> \<exists>r. db_audit s' = db_audit s @ [r]" for s s' x
    by (auto dest!: seed_one_writes simp: audit_st_audit)
  have fold: "fold_res (seed_one now a) s xs = Inr s' \<Longrightarrow> \<exists>rows. length rows = length xs \<and> db_audit s' = db_audit s @ rows" for s s' xs
  proof (induction xs arbitrary: s)
    case (Cons x xs)
    obtain s1 where s1: "seed_one now a s x = Inr s1" "fold_res (seed_one now a) s1 xs = Inr s'"
      using Cons.prems by (auto simp: bind_res_Inr_iff)
    obtain r where "db_audit s1 = db_audit s @ [r]" using one [OF s1(1)] by blast
    moreover obtain rows where "length rows = length xs" "db_audit s' = db_audit s1 @ rows"
      using Cons.IH [OF s1(2)] by blast
    ultimately show ?case by (intro exI [of _ "r # rows"]) simp
  qed simp
  have "fold_res (seed_one now a) st (zip [0..<length ws] ws) = Inr st'"
    using assms by (auto simp: seed_def bind_res_Inr_iff)
  from fold [OF this] obtain rows where "length rows = length ws" "db_audit st' = db_audit st @ rows" by auto
  then show ?thesis using False by (auto simp: audited_def)
qed

lemma small_ops_audited:
  "undo now a eid st = Inr (st', c) \<Longrightarrow> audited st st'"
  "set_guardrails now a eid gv st = Inr (st', c) \<Longrightarrow> audited st st'"
  "add_plug now a eid name target like k st = Inr st' \<Longrightarrow> audited st st'"
  "patch_entity now a eid p st = Inr (st', c) \<Longrightarrow> audited st st'"
  "add_exception now fresh a eid body today st = Inr (st', x) \<Longrightarrow> audited st st'"
  "delete_exception now a xid st = Inr st' \<Longrightarrow> audited st st'"
  "create_token now fresh secret a name' role expires gateway st = Inr (st', y) \<Longrightarrow> audited st st'"
  "revoke_token now a tid st = Inr st' \<Longrightarrow> audited st st'"
  "audited st (touch_token now tid st)" "audited st (record_apply now a status st)"
         apply (auto simp: undo_def op_simps dest!: put_schedule_audited split: option.splits)[1]
        apply (auto dest!: set_guardrails_writes add_plug_writes patch_entity_writes simp: audited_refl)[3]
  by (auto simp: add_exception_def delete_exception_def create_token_def revoke_token_def touch_token_def record_apply_def
      op_simps audited_def audit_st_audit split: prod.splits option.splits)

lemma run_ops_audited:
  "start_run now fresh a eid minutes st = Inr (st', rid) \<Longrightarrow> audited st st'"
  "extend_run now a rid minutes st = Inr st' \<Longrightarrow> audited st st'"
  "cancel_run now a rid withdraw st = Inr st' \<Longrightarrow> audited st st'"
  "audited st (fst (expire_runs now st))"
proof -
  show "audited st st'" if *: "start_run now fresh a eid minutes st = Inr (st', rid)"
  proof -
    obtain b c rw where "st' = (audit_st (stored now) a ''run_start'' (Some eid) b c (close_over (stored now) eid st))
       \<lparr>db_runs := db_runs (close_over (stored now) eid st) @ [rw]\<rparr>" using start_run_writes [OF *] by blast
    moreover obtain rows where "db_audit (close_over (stored now) eid st) = db_audit st @ rows"
      using fold_close_audit unfolding close_over_def by blast
    ultimately show ?thesis by (intro audited_snoc [of "close_over (stored now) eid st"]) (auto simp: audit_st_audit)
  qed
  show "extend_run now a rid minutes st = Inr st' \<Longrightarrow> audited st st'" "cancel_run now a rid withdraw st = Inr st' \<Longrightarrow> audited st st'"
    by (auto dest!: extend_run_writes cancel_run_writes simp: audited_def audit_st_audit)
  let ?over = "filter (\<lambda>r. timestamp now > end_ts r + RUN_GRACE_S) (runs_of st None True None)"
  obtain rows where "length rows = length ?over" "db_audit (foldl (\<lambda>s r. close_run now r s) st ?over) = db_audit st @ rows"
    using fold_close_audit by blast
  then show "audited st (fst (expire_runs now st))" by (auto simp: expire_runs_def Let_def audited_def)
qed

lemma child_ops_audited:
  "add_child_exception now fresh a eid tg m eod st = Inr (st', xid) \<Longrightarrow> audited st st'"
  "cancel_child_exception now a eid yid st = Inr st' \<Longrightarrow> audited st st'"
  "audited st (fst (expire_child_exceptions now st))"
  "change_child_domain now a eid kd d add st = Inr st' \<Longrightarrow> audited st st'"
  "undo_child_domain now a eid st = Inr st' \<Longrightarrow> audited st st'"
  "set_child_cutover now a dn note st = Inr st' \<Longrightarrow> audited st st'"
  "set_child_display now a eid disp icono st = Inr st' \<Longrightarrow> audited st st'"
proof -
  show "add_child_exception now fresh a eid tg m eod st = Inr (st', xid) \<Longrightarrow> audited st st'"
    by (auto simp: add_child_exception_def op_simps audited_def audit_st_audit split: prod.splits)
  show "cancel_child_exception now a eid yid st = Inr st' \<Longrightarrow> audited st st'"
    by (auto simp: cancel_child_exception_def op_simps audited_def audit_st_audit split: option.splits)
  show "change_child_domain now a eid kd d add st = Inr st' \<Longrightarrow> audited st st'"
    by (auto dest!: change_child_domain_writes simp: audited_refl)
  show "undo_child_domain now a eid st = Inr st' \<Longrightarrow> audited st st'"
    by (auto dest!: undo_child_domain_writes)
  show "set_child_cutover now a dn note st = Inr st' \<Longrightarrow> audited st st'"
    by (auto simp: set_child_cutover_def op_simps)
  show "set_child_display now a eid disp icono st = Inr st' \<Longrightarrow> audited st st'"
    by (auto simp: set_child_display_def op_simps audited_refl split: if_splits)
  let ?xs = "filter (\<lambda>x. ce_status x = ''active'' \<and> dt_less (dt_add (ce_expires x) EXCEPTION_GRACE_S) (stored now))
      (child_exceptions st None False (stored now))"
  obtain rows where "length rows = length ?xs" "db_audit (foldl (expire_cexc (stored now)) st ?xs) = db_audit st @ rows"
    using expire_cexc_audit by blast
  then show "audited st (fst (expire_child_exceptions now st))"
    by (auto simp: expire_child_exceptions_def Let_def audited_def)
qed

lemma import_one_audit: "import_one now pos s x = Inr s' \<Longrightarrow> db_audit s' = db_audit s"
  by (auto simp: import_one_def bind_res_Inr_iff split: prod.splits)

lemma migrate_one_audit: "migrate_one now s x = Inr s' \<Longrightarrow> db_audit s' = db_audit s"
  by (auto simp: migrate_one_def op_simps split: prod.splits)

lemma fold_audit:
  assumes "fold_res f s xs = Inr s'" "\<And>s x s'. f s x = Inr s' \<Longrightarrow> db_audit s' = db_audit s"
  shows "db_audit s' = db_audit s"
  by (rule fold_res_invariant [OF assms(1), where P = "\<lambda>q. db_audit q = db_audit s"]) (auto dest: assms(2))

lemma device_ops_audited:
  "import_child_policy now freshn fromiso a payload dry st = Inr st' \<Longrightarrow> audited st st'"
  "migrate_maps now a st = Inr st' \<Longrightarrow> audited st st'"
  "add_child_device now a name ip mac likeo label icon closed st = Inr (st', eid) \<Longrightarrow> audited st st'"
  "remove_child_device now fresh a eid keep st = Inr (st', rid) \<Longrightarrow> audited st st'"
  "restore_child_device now freshn a rid st = Inr (st', eid) \<Longrightarrow> audited st st'"
proof -
  show "audited st st'" if *: "import_child_policy now freshn fromiso a payload dry st = Inr st'"
    using import_cases [OF *]
  proof (elim disjE exE conjE)
    fix devs ls svc exs st2 st3 b c
    assume "fold_res (import_one (stored now) (max_position (drop_children (is_child_id st) st) + 1)) (drop_children (is_child_id st) st)
         (zip [0..<length devs] devs) = Inr st2"
      and "fold_res (insert_old (stored now) freshn) st2 (zip [0..<length exs] exs) = Inr st3"
      and st': "st' = audit_st (stored now) a ''import_child_policy'' None b c (st3\<lparr>db_lists := Some (\<lparr>l_allow_always = l_allow_always ls,
         l_allow_weekdays = l_allow_weekdays ls, l_allow_extra = [], l_deny_extra = []\<rparr>, sort svc)\<rparr>)"
    then have "db_audit st3 = db_audit st" using fold_audit [of "import_one (stored now) _" _ _ st2] import_one_audit
        fold_audit [of "insert_old (stored now) freshn" st2 _ st3] insert_old_fields(5) by (metis set_fields(13))
    then show "audited st st'" unfolding st' by simp
  qed (simp add: audited_refl)
  show "audited st st'" if *: "migrate_maps now a st = Inr st'"
  proof -
    have "fold_res (migrate_one (stored now)) st (with_maps st) = Inr s \<Longrightarrow> db_audit s = db_audit st" for s
      by (rule fold_audit) (auto dest: migrate_one_audit)
    then show ?thesis using migrate_maps_cases [OF *] by (auto simp: audited_refl)
  qed
  show "add_child_device now a name ip mac likeo label icon closed st = Inr (st', eid) \<Longrightarrow> audited st st'"
    by (auto dest!: add_child_device_writes)
  show "remove_child_device now fresh a eid keep st = Inr (st', rid) \<Longrightarrow> audited st st'"
    by (auto dest!: remove_child_device_cases)
  show "restore_child_device now freshn a rid st = Inr (st', eid) \<Longrightarrow> audited st st'"
    by (auto dest!: restore_child_device_cases simp: purge_removed_def Let_def)
qed

lemma step_audited: "store_step st st' \<Longrightarrow> audited st st'"
proof (induction rule: store_step.induct)
  case (put_schedule now a eid rules im st st' c)
  then show ?case by (rule put_schedule_audited)
next
  case (expire_runs now st st' n)
  then show ?case using run_ops_audited(4) [of st now] by simp
next
  case (expire_child_exceptions now st st' n)
  then show ?case using child_ops_audited(3) [of st now] by simp
next
  case (purge_removed now st st' rows)
  then show ?case by (auto simp: child_removed_def Let_def purge_removed_def audited_def)
qed (metis seed_audited small_ops_audited run_ops_audited child_ops_audited device_ops_audited)+





end
