(* ===== verification/Edit_Props.thy ===== *)
theory Edit_Props
  imports Write_Props
begin

text \<open>
  Edits of a schedule by several people: the version check, undo, rights; and tokens.
\<close>

section \<open>Versions\<close>

lemma find_map_same:
  "find P xs = Some x \<Longrightarrow> (\<And>y. P y \<Longrightarrow> P (f y)) \<Longrightarrow> (\<And>y. \<not> P y \<Longrightarrow> f y = y)
     \<Longrightarrow> find P (map f xs) = Some (f x)"
  by (induction xs) (auto split: if_splits)

lemma schedule_of_set_sched:
  assumes "schedule_of st eid = Inr s" "\<And>r. sc_entity (f r) = sc_entity r"
  shows "schedule_of (set_sched eid f st) eid = Inr (f s)"
proof -
  have s: "find (\<lambda>r. sc_entity r = eid) (db_schedules st) = Some s"
    using assms(1) by (auto simp: schedule_of_def split: option.splits)
  then have "sc_entity s = eid" by (auto dest: find_Some_iff_in)
  then have "find (\<lambda>r. sc_entity r = eid) (map (\<lambda>r. if sc_entity r = eid then f r else r) (db_schedules st)) = Some (f s)"
    using find_map_same [OF s, of "\<lambda>r. if sc_entity r = eid then f r else r"] assms(2) by auto
  then show ?thesis by (simp add: schedule_of_def set_sched_def)
qed

lemma schedule_of_audit [simp]: "schedule_of (audit_st now a act e b c st) eid = schedule_of st eid"
  "entity_of (audit_st now a act e b c st) eid = entity_of st eid"
  by (simp_all add: schedule_of_def entity_of_def)

lemma entity_of_set_sched [simp]: "entity_of (set_sched eid f st) d = entity_of st d"
  by (simp add: entity_of_def)

text \<open>What the stored row is after a successful write.\<close>

lemma put_schedule_row:
  assumes "put_schedule now a eid rules im act st = Inr (st', c)"
  shows "\<exists>s rs. schedule_of st eid = Inr s \<and> im = sc_version s \<and> c = (rs \<noteq> sc_rules s)
    \<and> schedule_of st' eid = Inr (if c then s\<lparr>sc_version := sc_version s + 1, sc_rules := rs, sc_updated := stored now\<rparr> else s)"
proof -
  obtain ent and s :: sched_row and rs where p: "schedule_of st eid = Inr s" "im = sc_version s" "c = (rs \<noteq> sc_rules s)"
    "st' = (if rs = sc_rules s then st else audit_st now a act (Some eid) (version_rules (sc_version s) (sc_rules s))
         (version_rules (sc_version s + 1) rs)
         (set_sched eid (\<lambda>r. r\<lparr>sc_version := sc_version s + 1, sc_rules := rs, sc_updated := stored now\<rparr>) st))"
    using put_schedule_cases [OF assms] by blast
  then show ?thesis using schedule_of_set_sched [OF p(1), of "\<lambda>r. r\<lparr>sc_version := sc_version s + 1, sc_rules := rs, sc_updated := stored now\<rparr>"]
    by (intro exI [of _ s] exI [of _ rs]) auto
qed

text \<open>
  C34: no update is lost: a write of a schedule succeeds only with the version that is stored, a change
  raises it by one, and from then on a second editor who still holds the old version is refused,
  whatever the rules, until the schedule is read again.
\<close>

theorem no_lost_update:
  assumes "put_schedule now a eid rules im act st = Inr (st', c)"
  shows "\<exists>s s'. schedule_of st eid = Inr s \<and> schedule_of st' eid = Inr s' \<and> im = sc_version s
    \<and> (\<not> c \<longrightarrow> st' = st)
    \<and> (c \<longrightarrow> sc_version s' = sc_version s + 1 \<and> sc_updated s' = stored now \<and> sc_rules s' \<noteq> sc_rules s
         \<and> (\<forall>now2 b rules2 act2 r. put_schedule now2 b eid rules2 im act2 st' \<noteq> Inr r))"
proof -
  obtain s :: sched_row and rs where p: "schedule_of st eid = Inr s" "im = sc_version s" "c = (rs \<noteq> sc_rules s)"
    "schedule_of st' eid = Inr (if c then s\<lparr>sc_version := sc_version s + 1, sc_rules := rs, sc_updated := stored now\<rparr> else s)"
    using put_schedule_row [OF assms] by blast
  have "put_schedule now2 b eid rules2 im act2 st' \<noteq> Inr r" if c for now2 b rules2 act2 r
  proof
    assume "put_schedule now2 b eid rules2 im act2 st' = Inr r"
    then obtain st2 c2 where "put_schedule now2 b eid rules2 im act2 st' = Inr (st2, c2)" by (cases r) auto
    from put_schedule_row [OF this] obtain s2 :: sched_row where s2: "schedule_of st' eid = Inr s2" "im = sc_version s2" by blast
    then have "s2 = s\<lparr>sc_version := sc_version s + 1, sc_rules := rs, sc_updated := stored now\<rparr>" using p(4) that by simp
    then have "sc_version s2 = sc_version s + 1" by simp
    then show False using p(2) s2(2) by simp
  qed
  moreover have "\<not> c \<longrightarrow> st' = st" using put_schedule_cases [OF assms] by auto
  ultimately show ?thesis using p
    by (intro exI [of _ s] exI [of _ "if c then s\<lparr>sc_version := sc_version s + 1, sc_rules := rs, sc_updated := stored now\<rparr> else s"]) auto
qed

definition ex_late_rules :: "rule list" where
  "ex_late_rules = [\<lparr>r_id = ''late'', r_days = [6], r_start = ''18:00'', r_end = Some ''20:00'', r_level = None, r_vars = None\<rparr>]"

lemma ex_late_accepted: "validate_rules Plug ex_guards (rules_json ex_late_rules) = Inr (ex_late_rules, [])"
  by code_simp

lemma ex_put: "\<exists>st. put_schedule ex_now ex_admin ''boiler'' (rules_json ex_late_rules) 1 ''update'' ex_db = Inr (st, True)"
proof -
  have "ex_late_rules \<noteq> ex_plug_rules" by (simp add: ex_late_rules_def ex_plug_rules_def)
  then show ?thesis using ex_late_accepted
    by (simp add: put_schedule_def ex_db_reads check_editor_def ex_admin_def ex_boiler_def lift_py_def Let_def require_def require_none_def)
qed

lemma no_lost_update_witness:
  "\<exists>st. put_schedule ex_now ex_admin ''boiler'' (rules_json ex_late_rules) 1 ''update'' ex_db = Inr (st, True)
     \<and> (\<forall>r. put_schedule ex_start ex_admin ''boiler'' (JList []) 1 ''update'' st \<noteq> Inr r)"
  using ex_put no_lost_update by blast

section \<open>Undo\<close>

lemma audit_list_hd:
  assumes "db_audit st = rows @ [x]" "a_entity x = Some eid"
  shows "\<exists>xs. audit_list (Some eid) 200 None (db_audit st) = x # xs"
  using assms by (simp add: audit_list_def)

lemma put_schedule_ok:
  assumes "entity_of st eid = Inr ent" "check_editor a ent = Inr ()" "schedule_of st eid = Inr s"
    and "validate_rules (e_kind ent) (e_guardrails ent) rules = Inr (rs, [])" "rs \<noteq> sc_rules s"
  shows "\<exists>st'. put_schedule now a eid rules (sc_version s) act st = Inr (st', True)
    \<and> schedule_of st' eid = Inr (s\<lparr>sc_version := sc_version s + 1, sc_rules := rs, sc_updated := stored now\<rparr>)"
proof -
  have "\<exists>st'. put_schedule now a eid rules (sc_version s) act st = Inr (st', True)"
    unfolding put_schedule_def using assms by (simp add: lift_py_def require_def require_none_def Let_def)
  then obtain st' where "put_schedule now a eid rules (sc_version s) act st = Inr (st', True)" by blast
  moreover from put_schedule_cases [OF this] assms
  have "schedule_of st' eid = Inr (s\<lparr>sc_version := sc_version s + 1, sc_rules := rs, sc_updated := stored now\<rparr>)"
    using schedule_of_set_sched [OF assms(3)] by auto
  ultimately show ?thesis by blast
qed

text \<open>
  C37: undoing an edit right after it restores exactly the rules from before it, as a new change: by the
  same editor, or by an administrator, an undo of a changed schedule of a reachable state succeeds,
  stores the old rules and raises the version once more.
\<close>

theorem undo_restores_rules:
  assumes reach: "reachable st" and s: "schedule_of st eid = Inr s" and e: "entity_of st eid = Inr ent"
    and put: "put_schedule now a eid rules im ''update'' st = Inr (st1, True)"
    and b: "check_editor b ent = Inr ()" "ac_role b = ''admin'' \<or> ac_token b = ac_token a"
  shows "\<exists>st2 s2. undo now2 b eid st1 = Inr (st2, True) \<and> schedule_of st2 eid = Inr s2
    \<and> sc_rules s2 = sc_rules s \<and> sc_version s2 = sc_version s + 2"
proof -
  obtain rs where new: "rs \<noteq> sc_rules s" and st1: "st1 = audit_st now a ''update'' (Some eid) (version_rules (sc_version s) (sc_rules s))
         (version_rules (sc_version s + 1) rs)
         (set_sched eid (\<lambda>r. r\<lparr>sc_version := sc_version s + 1, sc_rules := rs, sc_updated := stored now\<rparr>) st)"
    using put_schedule_cases [OF put] s e by auto
  let ?x = "new_row (iso_text now) (actor_json a) ''update'' (Some eid) (version_rules (sc_version s) (sc_rules s))
      (version_rules (sc_version s + 1) rs) (db_audit st)"
  have "db_audit st1 = db_audit st @ [?x]" by (simp add: st1 audit_st_audit)
  then obtain xs where "audit_list (Some eid) 200 None (db_audit st1) = ?x # xs" using audit_list_hd [of st1 _ ?x eid] by auto
  then have row: "undo_row st1 eid = Some ?x" by (simp add: undo_row_def)
  have s1: "schedule_of st1 eid = Inr (s\<lparr>sc_version := sc_version s + 1, sc_rules := rs, sc_updated := stored now\<rparr>)"
    using schedule_of_set_sched [OF s] by (simp add: st1)
  have e1: "entity_of st1 eid = Inr ent" by (simp add: st1 e)
  have before: "field_of (version_rules (sc_version s) (sc_rules s)) ''rules'' = rules_json (sc_rules s)"
    by (simp add: version_rules_def jget_def)
  have "rules_sound (e_kind ent) (e_guardrails ent) (sc_rules s)"
    by (rule entity_schedule_sound(2) [OF store_invD(1) [OF reachable_inv [OF reach]] e s])
  then have valid: "validate_rules (e_kind ent) (e_guardrails ent) (rules_json (sc_rules s)) = Inr (sc_rules s, [])"
    by (rule validate_rules_stored)
  have ne: "sc_rules s \<noteq> sc_rules (s\<lparr>sc_version := sc_version s + 1, sc_rules := rs, sc_updated := stored now\<rparr>)" using new by simp
  obtain st2 where st2: "put_schedule now2 b eid (rules_json (sc_rules s)) (sc_version s + 1) ''undo'' st1 = Inr (st2, True)"
      "schedule_of st2 eid = Inr (s\<lparr>sc_version := sc_version s + 1 + 1, sc_rules := sc_rules s, sc_updated := stored now2\<rparr>)"
    using put_schedule_ok [OF e1 b(1) s1 valid ne, of now2 "''undo''"] by auto
  have "field_of (actor_json a) ''token'' = JStr (ac_token a)" by (simp add: actor_json_def jget_def)
  then have "undo now2 b eid st1 = Inr (st2, True)"
    unfolding undo_def using e1 b row s1 st2(1) before by (auto simp: require_def)
  then show ?thesis using st2(2) by auto
qed

lemma undo_restores_rules_witness:
  "\<exists>st1 st2 s2. put_schedule ex_now ex_admin ''boiler'' (rules_json ex_late_rules) 1 ''update'' ex_db = Inr (st1, True)
     \<and> undo ex_start ex_admin ''boiler'' st1 = Inr (st2, True) \<and> schedule_of st2 ''boiler'' = Inr s2
     \<and> sc_rules s2 = ex_plug_rules \<and> sc_version s2 = 3"
proof -
  obtain st1 where st1: "put_schedule ex_now ex_admin ''boiler'' (rules_json ex_late_rules) 1 ''update'' ex_db = Inr (st1, True)"
    using ex_put by blast
  have "check_editor ex_admin ex_boiler = Inr ()" by (simp add: check_editor_def ex_admin_def)
  then show ?thesis using undo_restores_rules [OF ex_db_reachable ex_db_reads(2,1) st1, of ex_admin ex_start] st1 by auto
qed

section \<open>Rights\<close>

lemma check_admin_iff [simp]: "check_admin a why = Inr u \<longleftrightarrow> ac_role a = ''admin''"
  by (simp add: check_admin_def)

lemma check_editor_iff: "check_editor a e = Inr u \<longleftrightarrow>
    ac_role a = ''admin'' \<or> ac_role a = ''household'' \<and> f_household_editable (e_flags e) = Some True"
  by (simp add: check_editor_def)

text \<open>The writes that only an administrator may make, and those of an editor of the entity.\<close>

definition admin_write :: "actor \<Rightarrow> db \<Rightarrow> db \<Rightarrow> bool" where
  "admin_write a st st' \<longleftrightarrow> (\<exists>now eid gv c. set_guardrails now a eid gv st = Inr (st', c))
     \<or> (\<exists>now eid name t like k. add_plug now a eid name t like k st = Inr st')
     \<or> (\<exists>now eid p c. patch_entity now a eid p st = Inr (st', c))
     \<or> (\<exists>now d note. set_child_cutover now a d note st = Inr st')
     \<or> (\<exists>now fresh f payload dry. import_child_policy now fresh f a payload dry st = Inr st')
     \<or> (\<exists>now nm ip mac like label icon closed eid. add_child_device now a nm ip mac like label icon closed st = Inr (st', eid))
     \<or> (\<exists>now eid disp icon. set_child_display now a eid disp icon st = Inr st')
     \<or> (\<exists>now fresh eid keep rid. remove_child_device now fresh a eid keep st = Inr (st', rid))
     \<or> (\<exists>now fresh rid eid. restore_child_device now fresh a rid st = Inr (st', eid))"

definition edit_write :: "actor \<Rightarrow> string \<Rightarrow> db \<Rightarrow> db \<Rightarrow> bool" where
  "edit_write a eid st st' \<longleftrightarrow> (\<exists>now rules im act c. put_schedule now a eid rules im act st = Inr (st', c))
     \<or> (\<exists>now c. undo now a eid st = Inr (st', c))
     \<or> (\<exists>now fresh body today x. add_exception now fresh a eid body today st = Inr (st', x))
     \<or> (\<exists>now fresh t m eod x. add_child_exception now fresh a eid t m eod st = Inr (st', x))
     \<or> (\<exists>now x. cancel_child_exception now a eid x st = Inr st')
     \<or> (\<exists>now kd d add. change_child_domain now a eid kd d add st = Inr st')
     \<or> (\<exists>now. undo_child_domain now a eid st = Inr st')"

lemma admin_write_role: "admin_write a st st' \<Longrightarrow> ac_role a = ''admin''"
  unfolding admin_write_def set_guardrails_def add_plug_def patch_entity_def set_child_cutover_def
    import_child_policy_def add_child_device_def set_child_display_def remove_child_device_def restore_child_device_def
  by (elim disjE exE) (auto simp only: bind_res_Inr_iff check_admin_iff)

lemma edit_write_editor: "edit_write a eid st st' \<Longrightarrow> \<exists>e. entity_of st eid = Inr e \<and> check_editor a e = Inr ()"
  unfolding edit_write_def
proof (elim disjE exE)
  fix now fresh body today x assume "add_exception now fresh a eid body today st = Inr (st', x)"
  then show ?thesis by (auto simp: add_exception_def op_simps)
next
  fix now fresh t m eod x assume "add_child_exception now fresh a eid t m eod st = Inr (st', x)"
  then show ?thesis by (auto simp: add_child_exception_def op_simps dest: child_entity_D)
next
  fix now x assume "cancel_child_exception now a eid x st = Inr st'"
  then show ?thesis by (auto simp: cancel_child_exception_def op_simps dest: child_entity_D)
next
  fix now kd d add assume "change_child_domain now a eid kd d add st = Inr st'"
  then show ?thesis by (auto simp: change_child_domain_def op_simps dest: child_entity_D split: option.splits)
next
  fix now assume "undo_child_domain now a eid st = Inr st'"
  then show ?thesis by (auto simp: undo_child_domain_def op_simps dest: child_entity_D)
qed (auto simp: put_schedule_def undo_def op_simps)

text \<open>
  rights are enforced by the store itself: only an administrator changes guardrails, settings, the
  set of plugs and child devices, the import and the cutover; a schedule, a skipped date, a child's
  exception or domain list is changed only by an administrator or, where the entity allows it, by a
  household actor; a plug's run only by one of the two.
\<close>

theorem store_rights:
  "(admin_write a st st' \<longrightarrow> ac_role a = ''admin'')
   \<and> (edit_write a eid st st' \<longrightarrow> (\<exists>e. entity_of st eid = Inr e \<and> (ac_role a = ''admin''
        \<or> ac_role a = ''household'' \<and> f_household_editable (e_flags e) = Some True)))
   \<and> (start_run now fresh a eid minutes st = Inr (st', rid) \<longrightarrow> ac_role a \<in> {''admin'', ''household''})"
proof -
  have "start_run now fresh a eid minutes st = Inr (st', rid) \<longrightarrow> ac_role a \<in> {''admin'', ''household''}"
    by (auto simp: start_run_def check_runner_def op_simps split: if_splits)
  then show ?thesis using admin_write_role [of a st st'] edit_write_editor [of a eid st st']
    by (simp only: check_editor_iff) blast
qed

lemma store_rights_witness:
  "\<exists>st. edit_write ex_admin ''boiler'' ex_db st \<and> (\<exists>e. entity_of ex_db ''boiler'' = Inr e \<and> (ac_role ex_admin = ''admin''
        \<or> ac_role ex_admin = ''household'' \<and> f_household_editable (e_flags e) = Some True))"
  using ex_put store_rights [of ex_admin ex_db _ "''boiler''"] unfolding edit_write_def by meson

section \<open>Tokens\<close>

text \<open>
  a token is accepted only while it is live: the row found for a secret has that secret's hash, is
  not revoked and has no expiry before the clock; and from its revocation on, a token is never found
  again, by any secret at any time.
\<close>

theorem token_live:
  assumes "find_token now secret st = Some t"
  shows "t \<in> set (db_tokens st) \<and> tk_sha256 t = sha256_hex secret \<and> \<not> tk_revoked t
    \<and> (\<forall>e. tk_expires t = Some e \<and> e \<noteq> [] \<longrightarrow> iso_text now \<le> e)
    \<and> (\<forall>now2 a st2. revoke_token now2 a (tk_id t) st = Inr st2 \<and> tk_id t \<notin> tk_name ` set (db_tokens st)
         \<longrightarrow> (\<forall>now3 secret2 u. find_token now3 secret2 st2 = Some u \<longrightarrow> tk_id u \<noteq> tk_id t))"
proof -
  have found: "u \<in> set (db_tokens s) \<and> tk_sha256 u = sha256_hex sec \<and> \<not> tk_revoked u
      \<and> (\<forall>e. tk_expires u = Some e \<and> e \<noteq> [] \<longrightarrow> iso_text n \<le> e)" if *: "find_token n sec s = Some u" for n sec s u
  proof -
    let ?ts = "filter (\<lambda>t. \<not> tk_revoked t \<and> tk_sha256 t = sha256_hex sec) (db_tokens s)"
    obtain x xs where x: "rev ?ts = x # xs" using * by (cases "rev ?ts") (auto simp: find_token_def Let_def)
    have "x \<in> set ?ts" using x by (metis list.set_intros(1) set_rev)
    moreover have "u = x \<and> (\<forall>e. tk_expires x = Some e \<and> e \<noteq> [] \<longrightarrow> \<not> e < iso_text n)"
      using * by (auto simp: find_token_def Let_def x split: option.splits if_splits)
    ultimately show ?thesis by auto
  qed
  have "tk_id u \<noteq> tk_id t" if r: "revoke_token now2 a (tk_id t) st = Inr st2" "tk_id t \<notin> tk_name ` set (db_tokens st)"
    and u: "find_token now3 secret2 st2 = Some u" for now2 a st2 now3 secret2 u
  proof -
    obtain q where q: "find (\<lambda>x. tk_id x = tk_id t \<or> tk_name x = tk_id t) (db_tokens st) = Some q"
      using r(1) by (auto simp: revoke_token_def split: option.splits)
    then have id: "tk_id q = tk_id t" using r(2) find_Some_iff_in [OF q] by (metis imageI)
    have "db_tokens st2 = map (\<lambda>x. if tk_id x = tk_id t then x\<lparr>tk_revoked := True\<rparr> else x) (db_tokens st)"
      using r(1) id by (auto simp: revoke_token_def q)
    then show ?thesis using found [OF u] by auto
  qed
  then show ?thesis using found [OF assms] by blast
qed

definition ex_token :: token_row where
  "ex_token = \<lparr>tk_id = ''t9'', tk_name = ''phone'', tk_role = ''household'', tk_sha256 = sha256_hex ''secret'', tk_created = ex_now,
     tk_expires = None, tk_last_used = None, tk_revoked = False, tk_gateway = False\<rparr>"

lemma token_live_witness:
  "\<exists>st2. revoke_token ex_now ex_admin ''t9'' (empty_db\<lparr>db_tokens := [ex_token]\<rparr>) = Inr st2
     \<and> find_token ex_now ''secret'' (empty_db\<lparr>db_tokens := [ex_token]\<rparr>) = Some ex_token
     \<and> (\<forall>u. find_token ex_start ''secret'' st2 = Some u \<longrightarrow> tk_id u \<noteq> ''t9'')"
proof -
  let ?st = "empty_db\<lparr>db_tokens := [ex_token]\<rparr>"
  have f: "find_token ex_now ''secret'' ?st = Some ex_token" by (simp add: find_token_def ex_token_def Let_def)
  have "\<exists>st2. revoke_token ex_now ex_admin ''t9'' ?st = Inr st2" by (simp add: revoke_token_def ex_token_def)
  then obtain st2 where r: "revoke_token ex_now ex_admin ''t9'' ?st = Inr st2" by blast
  have "tk_id ex_token \<notin> tk_name ` set (db_tokens ?st)" "tk_id ex_token = ''t9''" by (simp_all add: ex_token_def)
  then show ?thesis using token_live [OF f] r f by auto
qed

end
