(* ===== verification/Run_Props.thy ===== *)
theory Run_Props
  imports Sched_Props Child_Policy
begin

text \<open>
  What an accepted timed run and an accepted children's exception keep, and the errors of the two
  validators.
\<close>

section \<open>Timed runs\<close>

lemma ceil_minute_bounds:
  "wall t \<le> wall (ceil_minute t)" "wall (ceil_minute t) < wall t + 60" "wall (ceil_minute t) mod 60 = 0"
proof -
  have "0 \<le> wall t mod 60" "wall t mod 60 < 60" by simp_all
  then show "wall t \<le> wall (ceil_minute t)" "wall (ceil_minute t) < wall t + 60"
    by (auto simp: ceil_minute_def)
  have "(wall t + (60 - wall t mod 60)) mod 60 = (wall t - wall t mod 60) mod 60"
    by (metis add.commute add_diff_eq diff_add_eq mod_add_self2)
  then show "wall (ceil_minute t) mod 60 = 0" by (simp add: ceil_minute_def minus_mod_eq_mult_div)
qed

lemma overlaps_mem:
  "window_overlaps rules skips start end = [] \<longleftrightarrow>
     (\<forall>d\<in>set (overlap_dates start end). d \<notin> set skips \<longrightarrow>
        (\<forall>r\<in>set (rules_on rules d). \<not> overlaps_on r d start end))"
  unfolding window_overlaps_def concat_map_Nil by (auto simp: filter_empty_conv)

definition run_first :: "dtime \<Rightarrow> dtime option \<Rightarrow> dtime" where
  "run_first started_at real_start = (case real_start of None \<Rightarrow> started_at | Some t \<Rightarrow> t)"

lemma validate_run_Some:
  assumes "validate_run ent rules skips minutes started_at previous_end real_start = (Some e, ps)"
  shows "ps = []" "e_kind ent = Plug" "e_managed ent"
    and "\<exists>n. minutes = JInt n \<and> 1 \<le> n \<and> n \<le> 1440 \<and> e = ceil_minute (dt_add started_at (60 * n))"
    and "run_max_on (real_start \<noteq> None) (e_guardrails ent) (dt_sub e (run_first started_at real_start)) = []"
    and "run_range (e_guardrails ent) (astimezone (run_first started_at real_start)) (astimezone e) = []"
    and "run_gap (real_start \<noteq> None) (e_guardrails ent) started_at previous_end = []"
    and "window_overlaps rules skips (run_first started_at real_start) e = []"
proof -
  obtain n where n: "minutes = JInt n" using assms
    by (cases minutes) (auto simp: validate_run_def Let_def split: if_splits)
  note v = assms [unfolded validate_run_def Let_def n json.case run_first_def [symmetric]]
  have k: "e_kind ent = Plug" and b: "1 \<le> n" "n \<le> 1440"
    using v by (auto split: if_splits)
  show "e_kind ent = Plug" by fact
  show "ps = []" "e_managed ent" using v k b by (auto split: if_splits)
  have "e = ceil_minute (dt_add started_at (60 * n))" using v k b by (simp split: if_splits)
  then show "\<exists>n. minutes = JInt n \<and> 1 \<le> n \<and> n \<le> 1440 \<and> e = ceil_minute (dt_add started_at (60 * n))"
    using n b by blast
  note e = this
  show "run_max_on (real_start \<noteq> None) (e_guardrails ent) (dt_sub e (run_first started_at real_start)) = []"
    and "run_range (e_guardrails ent) (astimezone (run_first started_at real_start)) (astimezone e) = []"
    and "run_gap (real_start \<noteq> None) (e_guardrails ent) started_at previous_end = []"
    and "window_overlaps rules skips (run_first started_at real_start) e = []"
    using v k b by (auto split: if_splits)
qed

text \<open>
  C9: an accepted run of a plug, or the extension of one, ends on a whole minute, at least the asked
  minutes and less than one minute more after its start (or the old end); from its real start it
  lasts at most \<open>max_on_minutes\<close>, starts and ends on one Prague date, and crosses no window of
  that date which is not skipped.
\<close>

theorem accepted_run_safe:
  assumes "validate_run ent rules skips minutes started_at previous_end real_start = (Some e, ps)"
  defines "first \<equiv> run_first started_at real_start"
  defines "day \<equiv> date_of (astimezone first)"
  shows "e_kind ent = Plug \<and> e_managed ent \<and> wall e mod 60 = 0
    \<and> (\<exists>n. minutes = JInt n \<and> wall started_at + 60 * n \<le> wall e \<and> wall e < wall started_at + 60 * n + 60)
    \<and> (\<forall>mx. g_max_on_minutes (e_guardrails ent) = Some mx \<longrightarrow> dt_sub e first \<le> 60 * mx)
    \<and> date_of (astimezone e) = day
    \<and> (day \<notin> set skips \<longrightarrow> (\<forall>r\<in>set (rules_on rules day).
         \<not> (dt_less (at_minute day (start_of r)) e \<and> dt_less first (at_minute day (end_of r)))))"
proof -
  note v = validate_run_Some [OF assms(1)]
  obtain n where n: "minutes = JInt n" "e = ceil_minute (dt_add started_at (60 * n))" using v(4) by blast
  have "date_of (astimezone e) = day" using v(6) by (auto simp: run_range_def day_def first_def split: if_splits)
  moreover have "\<forall>mx. g_max_on_minutes (e_guardrails ent) = Some mx \<longrightarrow> dt_sub e first \<le> 60 * mx"
    using v(5) by (auto simp: run_max_on_def first_def split: if_splits)
  moreover have "day \<in> set (overlap_dates first e)" by (simp add: overlap_dates_def day_def)
  then have "day \<notin> set skips \<longrightarrow> (\<forall>r\<in>set (rules_on rules day).
       \<not> (dt_less (at_minute day (start_of r)) e \<and> dt_less first (at_minute day (end_of r))))"
    using v(8) by (auto simp: overlaps_mem overlaps_on_def first_def)
  ultimately show ?thesis using v(2,3) n ceil_minute_bounds [of "dt_add started_at (60 * n)"] by simp
qed

definition ex_plug :: entity where
  "ex_plug = \<lparr>e_id = ''boiler'', e_kind = Plug, e_name = ''Boiler'', e_ha_target = Some ''switch.boiler'',
     e_managed = True, e_flags = no_flags, e_guardrails = ex_guards, e_meta = []\<rparr>"

lemma ex_run: "validate_run ex_plug ex_plug_rules [] (JInt 45) (Fixed (739002 * 86400 + 10 * 3600 + 15) 3600) None None
    = (Some (Fixed (739002 * 86400 + 10 * 3600 + 46 * 60) 3600), [])"
  by code_simp

lemma accepted_run_safe_witness:
  "e_kind ex_plug = Plug
   \<and> dt_sub (Fixed (739002 * 86400 + 10 * 3600 + 46 * 60) 3600) (Fixed (739002 * 86400 + 10 * 3600 + 15) 3600) \<le> 60 * 180"
  using accepted_run_safe [OF ex_run] by (simp add: run_first_def ex_plug_def ex_guards_def)

text \<open>
  an accepted run also stays in the allowed hours, touches neither end of 02:00-03:59, and, unless
  it extends one, starts at least the minimum gap after the previous run ended.
\<close>

theorem accepted_run_hours:
  assumes "validate_run ent rules skips minutes started_at previous_end real_start = (Some e, ps)"
  defines "s \<equiv> minute_of_day (astimezone (run_first started_at real_start))"
    and "t \<equiv> minute_of_day (astimezone e)" and "g \<equiv> e_guardrails ent"
  shows "(\<forall>lo. opt_hhmm (g_allowed_from g) = Some lo \<longrightarrow> lo \<le> s)
    \<and> (\<forall>hi. opt_hhmm (g_allowed_to g) = Some hi \<longrightarrow> t \<le> hi)
    \<and> \<not> dst_forbidden s \<and> \<not> dst_forbidden t
    \<and> (\<forall>p m. real_start = None \<and> previous_end = Some p \<and> g_min_gap_minutes g = Some m
         \<longrightarrow> 60 * m \<le> dt_sub started_at p)"
proof -
  note v = validate_run_Some [OF assms(1)]
  have "(\<forall>lo. opt_hhmm (g_allowed_from g) = Some lo \<longrightarrow> lo \<le> s)
    \<and> (\<forall>hi. opt_hhmm (g_allowed_to g) = Some hi \<longrightarrow> t \<le> hi) \<and> \<not> dst_forbidden s \<and> \<not> dst_forbidden t"
    using v(6) unfolding s_def t_def g_def by (auto simp: run_range_def Let_def split: if_splits option.splits)
  moreover have "\<forall>p m. real_start = None \<and> previous_end = Some p \<and> g_min_gap_minutes g = Some m
      \<longrightarrow> 60 * m \<le> dt_sub started_at p"
    using v(7) by (auto simp: run_gap_def g_def split: if_splits)
  ultimately show ?thesis by blast
qed

lemma accepted_run_hours_witness:
  "\<not> dst_forbidden (minute_of_day (astimezone (Fixed (739002 * 86400 + 10 * 3600 + 46 * 60) 3600)))"
  using accepted_run_hours [OF ex_run] by blast

section \<open>Children's exceptions\<close>

text \<open>The time guardrails that \<open>validate_guardrails\<close> stores are times.\<close>

lemma time_guard_ok: "fst (time_guard g k) = Some t \<Longrightarrow> parse_hhmm_str False t \<noteq> None"
  by (auto simp: time_guard_def Let_def split: json.splits if_splits)

lemma guardrails_times_ok:
  assumes "g = fst (validate_guardrails k gv)"
  shows "g_exception_latest_end g = Some t \<Longrightarrow> parse_hhmm_str False t \<noteq> None"
    and "g_all_latest_end g = Some t \<Longrightarrow> parse_hhmm_str False t \<noteq> None"
    and "g_allowed_from g = Some t \<Longrightarrow> parse_hhmm_str False t \<noteq> None"
    and "g_allowed_to g = Some t \<Longrightarrow> parse_hhmm_str False t \<noteq> None"
  using time_guard_ok assms
  by (auto simp: validate_guardrails_def no_guardrails_def Let_def split: json.splits prod.splits)
    (metis fst_conv)+

lemma exception_latest_range:
  assumes "g = fst (validate_guardrails k gv)"
  shows "0 \<le> exception_latest g target \<and> exception_latest g target < 1440"
proof -
  have "0 \<le> the (parse_hhmm_str False t) \<and> the (parse_hhmm_str False t) < 1440"
    if "parse_hhmm_str False t \<noteq> None" for t
    using that parse_hhmm_str_range [of False t] by auto
  then show ?thesis using guardrails_times_ok(1,2) [OF assms]
    by (auto simp: exception_latest_def split: option.splits)
qed

lemma replace_minute_parts:
  assumes "0 \<le> m" "m < 1440"
  shows "date_of (replace_minute t m) = date_of t" "wall (replace_minute t m) = date_of t * 86400 + m * 60"
proof -
  have "(wall t div 86400 * 86400 + m * 60) div 86400 = wall t div 86400" using assms by simp
  then show "date_of (replace_minute t m) = date_of t" "wall (replace_minute t m) = date_of t * 86400 + m * 60"
    by (cases t; simp add: date_of_def)+
qed

text \<open>
  an accepted exception of a child's device, under guardrails the service stored, opens one of the
  known targets, ends later than now on the same Prague date, not after the latest end for that
  target, and, when given in minutes, lasts at most \<open>max_exception_minutes\<close>.
\<close>

theorem accepted_exception_safe:
  assumes g: "g = fst (validate_guardrails k gv)"
    and v: "validate_child_exception g target minutes until_eod now = Inr (Some e, ps)"
  shows "ps = [] \<and> target \<in> set EXCEPTION_TARGETS
    \<and> date_of e = date_of (astimezone now) \<and> wall (astimezone now) < wall e
    \<and> wall e \<le> date_of (astimezone now) * 86400 + exception_latest g target * 60
    \<and> (\<not> until_eod \<longrightarrow> (\<exists>n. minutes = JInt n \<and> wall e = wall (astimezone now) + 60 * n
         \<and> (\<forall>mx. g_max_exception_minutes g = Some mx \<longrightarrow> n \<le> mx)))"
proof -
  obtain w f where now: "astimezone now = Prague w f" using astimezone_Prague by blast
  note L = exception_latest_range [OF g, of target]
  note R = replace_minute_parts [of "exception_latest g target" "Prague w f"]
  define D where "D = date_of (Prague w f)"
  obtain w' f' where lt: "replace_minute (Prague w f) (exception_latest g target) = Prague w' f'"
    "w' = D * 86400 + exception_latest g target * 60"
    using R(2) L by (simp add: D_def)
  have D': "date_of (Prague w' f') = D" using R(1) L lt(1) by (simp add: D_def)
  have tgt: "target \<notin> set LEGACY_TARGETS" "target \<in> set EXCEPTION_TARGETS" "\<not> (until_eod \<and> minutes \<noteq> JNull)"
    using v by (auto simp: validate_child_exception_def split: if_splits)
  note v' = v [unfolded validate_child_exception_def Let_def now lt(1)]
  show ?thesis
  proof (cases until_eod)
    case True
    then have "e = Prague w' f'" "ps = []" "w + 60 < w'" using v' tgt by (auto split: if_splits)
    then show ?thesis using True tgt lt(2) D' by (simp add: now D_def)
  next
    case False
    then obtain n where n: "as_jint minutes = Some n" "1 \<le> n"
      using v' tgt by (auto split: option.splits if_splits)
    then have m: "minutes = JInt n" by (cases minutes) auto
    define p1 where "p1 = (case g_max_exception_minutes g of None \<Rightarrow> []
       | Some mx \<Rightarrow> if n > mx then [prob ''max_exception'' ''minutes''
           (''an exception may last at most '' @ str_int mx @ '' min, you asked for '' @ str_int n)] else [])"
    have r: "e = Prague (w + 60 * n) False" "ps = []" "p1 = []" "date_of e = D" "w + 60 * n \<le> w'"
      using v' False tgt n m
      by (auto simp: dt_add_checked_def bind_res_Inr_iff p1_def [symmetric] D_def split: if_splits)
    then show ?thesis using False tgt lt(2) n m
      by (auto simp: now D_def p1_def split: option.splits if_splits)
  qed
qed

definition ex_child_body :: json where
  "ex_child_body = JObj [(''max_exception_minutes'', JInt 60), (''exception_latest_end'', JStr ''20:30'')]"

lemma accepted_exception_safe_witness:
  "wall (Prague (739002 * 86400 + 19 * 3600 + 45 * 60) False)
     \<le> date_of (astimezone (at_minute 739002 1140)) * 86400
        + exception_latest (fst (validate_guardrails Child_window ex_child_body)) ''youtube'' * 60"
proof -
  have "validate_child_exception (fst (validate_guardrails Child_window ex_child_body)) ''youtube'' (JInt 45) False
      (at_minute 739002 1140) = Inr (Some (Prague (739002 * 86400 + 19 * 3600 + 45 * 60) False), [])"
    by code_simp
  from accepted_exception_safe [OF refl this] show ?thesis by simp
qed

text \<open>
  a length in minutes past the last year of the calendar is not a problem of the list but an
  exception of the function, even when \<open>max_exception_minutes\<close> forbids it: the end is computed
  before the guardrail is looked at.
\<close>

theorem exception_overflow:
  assumes "target \<in> set EXCEPTION_TARGETS" "1 \<le> n" "MAX_WALL \<le> wall (astimezone now) + 60 * n"
  shows "validate_child_exception g target (JInt n) False now = Inl OverflowError"
proof -
  have "target \<notin> set LEGACY_TARGETS"
    using assms(1) by (auto simp: EXCEPTION_TARGETS_def CHILD_TARGETS_def LEGACY_TARGETS_def)
  then show ?thesis using assms by (simp add: validate_child_exception_def dt_add_checked_def)
qed

lemma exception_overflow_witness:
  "validate_child_exception (no_guardrails\<lparr>g_max_exception_minutes := Some 60\<rparr>) ''all'' (JInt 10000000000) False
     (at_minute 739002 1140) = Inl OverflowError"
proof (rule exception_overflow)
  show "''all'' \<in> set EXCEPTION_TARGETS" by code_simp
  show "MAX_WALL \<le> wall (astimezone (at_minute 739002 1140)) + 60 * 10000000000" by code_simp
qed simp

section \<open>Times of day and malformed rules\<close>

text \<open>
  every minute of the day is printed as a time that is read back as the same minute, and reading
  ignores one newline at the end, which the pattern lets through.
\<close>

theorem hhmm_roundtrip:
  assumes "0 \<le> m" "m < 1440"
  shows "parse_hhmm a (JStr (fmt_hhmm m)) = Some m \<and> parse_hhmm False (JStr (fmt_hhmm m @ [newline])) = Some m"
  using parse_fmt_hhmm [OF assms] parse_hhmm_newline [OF assms] by (simp add: parse_hhmm_def)

lemma hhmm_roundtrip_witness: "parse_hhmm False (JStr (fmt_hhmm 485)) = Some 485 \<and> fmt_hhmm 485 = ''08:05''"
  using hhmm_roundtrip [of 485 False] by (simp, code_simp)

text \<open>
  a weekday that is a list or an object makes the whole validation raise \<open>TypeError\<close> (the
  weekdays are put into a set before they are checked), in a list of this one rule.
\<close>

theorem unhashable_weekday_raises:
  assumes "known_kind k" "dollar rule_id_body rid" "list_ex (\<lambda>d. \<not> hashable d) ds"
    and "jget r ''id'' = JStr rid" "jget r ''days'' = JList ds"
  shows "validate_rules k g (JList [JObj r]) = Inl TypeError"
  using assms
  by (simp add: validate_rules_def MAX_RULES_def check_rule_def check_body_def check_days_def Let_def)

lemma unhashable_weekday_raises_witness:
  "validate_rules Plug no_guardrails (JList [JObj [(''id'', JStr ''a''), (''days'', JList [JList [JInt 1]])]]) = Inl TypeError"
  by (rule unhashable_weekday_raises [where rid = "''a''" and ds = "[JList [JInt 1]]"]) code_simp+

end
