(* ===== verification/Child_Props.thy ===== *)
theory Child_Props
  imports Run_Props
begin

text \<open>
  Invariants of the children's policy: what the rendered block contains for every device, that
  the renderer and the status view agree on what is open, and what an accepted snapshot guarantees.
\<close>

section \<open>The lines of one device\<close>

lemma rule_line_inj [simp]:
  "allow_rule ip d = allow_rule ip d' \<longleftrightarrow> d = d'"
  "deny_rule ip d = deny_rule ip d' \<longleftrightarrow> d = d'"
  "allow_rule ip d \<noteq> deny_rule ip' d'" "allow_rule ip d \<noteq> block_rule ip'"
  by (simp_all add: allow_rule_def deny_rule_def block_rule_def)

lemma allow_rule_mem:
  "allow_rule (cd_ip dev) d \<in> set (device_lines p svc now ov dev) \<longleftrightarrow>
     ''all'' \<notin> set (override_targets ov (cd_ip dev))
     \<and> d \<in> set (allowed_domains p svc now (override_targets ov (cd_ip dev)) dev)
     \<and> \<not> is_under d (deny_list p dev)"
  unfolding device_lines_def Let_def by (auto simp del: in_set_conv_decomp)


text \<open>
  the deny rules of a device are always rendered, and its catch-all block comes first unless
  an exception lifts everything for its address.
\<close>

theorem device_restricted:
  assumes "dev \<in> set (cp_devices p)"
  shows "(\<forall>d\<in>set (deny_list p dev). deny_rule (cd_ip dev) d \<in> set (render_block p svc now ov))
    \<and> ((cd_ip dev, ''all'') \<notin> set ov \<longrightarrow>
         block_rule (cd_ip dev) \<in> set (render_block p svc now ov)
         \<and> hd (device_lines p svc now ov dev) = block_rule (cd_ip dev))"
proof -
  have lines: "set (device_lines p svc now ov dev) \<subseteq> set (render_block p svc now ov)"
    using assms by (auto simp: render_block_def)
  have "deny_rule (cd_ip dev) d \<in> set (device_lines p svc now ov dev)" if "d \<in> set (deny_list p dev)" for d
    using that by (auto simp: device_lines_def Let_def)
  moreover have "''all'' \<in> set (override_targets ov (cd_ip dev)) \<longleftrightarrow> (cd_ip dev, ''all'') \<in> set ov"
    by (force simp: override_targets_def)
  then have "(cd_ip dev, ''all'') \<notin> set ov \<Longrightarrow>
      block_rule (cd_ip dev) \<in> set (device_lines p svc now ov dev)
      \<and> hd (device_lines p svc now ov dev) = block_rule (cd_ip dev)"
    by (simp add: device_lines_def Let_def)
  ultimately show ?thesis using lines by blast
qed

definition ex_tablet :: child_device where
  "ex_tablet = \<lparr>cd_id = ''tablet'', cd_name = ''Tablet'', cd_ip = ''192.168.31.40'', cd_mac = [],
     cd_rules = ex_child_rules, cd_allow_extra = [], cd_deny_extra = [''ads.example.com'']\<rparr>"

definition ex_policy :: child_policy where
  "ex_policy = \<lparr>cp_devices = [ex_tablet],
     cp_lists = \<lparr>l_allow_always = REQUIRED_ALWAYS, l_allow_weekdays = [], l_allow_extra = [], l_deny_extra = []\<rparr>,
     cp_always_services = [''telegram'']\<rparr>"

lemma device_restricted_witness:
  "block_rule ''192.168.31.40'' \<in> set (render_block ex_policy (\<lambda>s. [s @ ''.com'']) (at_minute 739002 960) [])"
  using device_restricted [of ex_tablet ex_policy "\<lambda>s. [s @ ''.com'']" "at_minute 739002 960" "[]"]
  by (simp add: ex_policy_def ex_tablet_def)

section \<open>The baseline survives\<close>

lemma deny_keeps_required:
  assumes "\<forall>d\<in>set ds. deny_breaks_baseline d = None" "h \<in> set (REQUIRED_ALWAYS @ TELEGRAM_CORE)"
  shows "\<not> is_under h ds"
proof
  assume "is_under h ds"
  then obtain d where d: "d \<in> set ds" "is_under1 h d" by (auto simp: is_under_def list_ex_iff)
  then have "find (\<lambda>h. is_under1 h d \<or> is_under1 d h) (REQUIRED_ALWAYS @ TELEGRAM_CORE) = None"
    using assms(1) unfolding deny_breaks_baseline_def by blast
  from find_None_D [OF this assms(2)] d(2) show False by simp
qed

text \<open>
  under a policy whose baseline list contains the required hosts and whose deny lists pass
  \<open>deny_breaks_baseline\<close>, every required host has its allow rule in every device's lines that
  has the catch-all block, at every time and under every exception.
\<close>

theorem baseline_survives:
  assumes "set REQUIRED_ALWAYS \<subseteq> set (l_allow_always (cp_lists p))"
    and "\<forall>d\<in>set (l_deny_extra (cp_lists p) @ cd_deny_extra dev). deny_breaks_baseline d = None"
    and "h \<in> set REQUIRED_ALWAYS" "(cd_ip dev, ''all'') \<notin> set ov"
  shows "allow_rule (cd_ip dev) h \<in> set (device_lines p svc now ov dev)"
proof -
  have "\<not> is_under h (deny_list p dev)"
    using assms(2,3) by (intro deny_keeps_required) (simp_all only: deny_list_def sorted_set_props set_append Un_iff, blast+)
  moreover have "h \<in> set (allowed_domains p svc now (override_targets ov (cd_ip dev)) dev)"
    using assms(1,3) by (simp only: allowed_domains_def Let_def set_append Un_iff) blast
  moreover have "''all'' \<notin> set (override_targets ov (cd_ip dev))"
    using assms(4) by (force simp: override_targets_def)
  ultimately show ?thesis using allow_rule_mem by blast
qed

lemma baseline_survives_witness:
  "allow_rule ''192.168.31.40'' ''mtalk.google.com''
     \<in> set (device_lines ex_policy (\<lambda>s. [s @ ''.com'']) (at_minute 739002 960) [] ex_tablet)"
proof -
  have "set REQUIRED_ALWAYS \<subseteq> set (l_allow_always (cp_lists ex_policy))" by (simp add: ex_policy_def)
  moreover have "\<forall>d\<in>set (l_deny_extra (cp_lists ex_policy) @ cd_deny_extra ex_tablet). deny_breaks_baseline d = None"
    by code_simp
  moreover have "''mtalk.google.com'' \<in> set REQUIRED_ALWAYS" by code_simp
  moreover have "(cd_ip ex_tablet, ''all'') \<notin> set []" by simp
  ultimately have "allow_rule (cd_ip ex_tablet) ''mtalk.google.com''
      \<in> set (device_lines ex_policy (\<lambda>s. [s @ ''.com'']) (at_minute 739002 960) [] ex_tablet)"
    by (rule baseline_survives)
  then show ?thesis by (simp add: ex_tablet_def)
qed

section \<open>Renderer and status agree\<close>

lemma minute_cmp: "60 * m \<le> x \<longleftrightarrow> m \<le> x div 60" "x < 60 * m \<longleftrightarrow> x div 60 < m" for m x :: int
  by auto

lemma clip_prague:
  "py_max (Prague a f) (Prague b g) = (if a < b then Prague b g else Prague a f)"
  "py_min (Prague a f) (Prague b g) = (if b < a then Prague b g else Prague a f)"
  by (simp_all add: py_max_def py_min_def)

lemma clipped_contains:
  assumes "(f, t, x) \<in> set (rule_open_on (Prague w b) (Prague (w + e) c) d r)" "0 < e"
  shows "dt_le f (Prague w b) \<longleftrightarrow> d * 86400 + 60 * start_of r \<le> w"
    and "dt_less (Prague w b) t \<longleftrightarrow> w < d * 86400 + 60 * end_of r"
proof -
  have "f = (if d * 86400 + 60 * start_of r < w then Prague w b else Prague (d * 86400 + 60 * start_of r) False)"
    and "t = (if w + e < d * 86400 + 60 * end_of r then Prague (w + e) c else Prague (d * 86400 + 60 * end_of r) False)"
    using assms(1) by (simp_all add: rule_open_on_def Let_def clip_prague split: if_splits)
  then show "dt_le f (Prague w b) \<longleftrightarrow> d * 86400 + 60 * start_of r \<le> w"
    and "dt_less (Prague w b) t \<longleftrightarrow> w < d * 86400 + 60 * end_of r" using assms(2) by simp_all
qed

lemma in_day_window:
  assumes "rule_sound Child_window g r"
  shows "d * 86400 + 60 * start_of r \<le> w \<and> w < d * 86400 + 60 * end_of r
    \<longleftrightarrow> d = w div 86400 \<and> start_of r \<le> w mod 86400 div 60 \<and> w mod 86400 div 60 < end_of r"
proof -
  have t: "0 \<le> start_of r" "end_of r \<le> 1440" using rule_sound_times [OF assms] by auto
  have m: "0 \<le> w mod 86400" "w mod 86400 < 86400" "w = w div 86400 * 86400 + w mod 86400" by simp_all
  show ?thesis
  proof (cases "d = w div 86400")
    case True
    then show ?thesis using m(3) minute_cmp [of _ "w mod 86400"] by linarith
  next
    case False
    then have "d \<le> w div 86400 - 1 \<or> w div 86400 + 1 \<le> d" by linarith
    then show ?thesis using False t m by linarith
  qed
qed

lemma open_interval_now:
  assumes "rule_sound Child_window g r" and e: "0 < e"
  shows "(f, t, x) \<in> set (rule_open_on (Prague w b) (Prague (w + e) c) d r)
      \<and> dt_le f (Prague w b) \<and> dt_less (Prague w b) t
    \<longleftrightarrow> d = w div 86400 \<and> start_of r \<le> w mod 86400 div 60 \<and> w mod 86400 div 60 < end_of r
      \<and> (f, t, x) \<in> set (rule_open_on (Prague w b) (Prague (w + e) c) d r)"
  using clipped_contains [OF _ e] in_day_window [OF assms(1)] by blast

lemma open_now_targets:
  assumes "rules_sound Child_window g rs"
  shows "set (concat (map (\<lambda>(f, t, x). x) (open_now rs (Prague w b)))) = set (open_targets rs (Prague w b))"
    (is "?l = ?r")
proof -
  have ok: "rule_sound Child_window g r" if "r \<in> set rs" for r
    using assms that by (simp add: rules_sound_def list_all_iff)
  let ?E = "2 * 86400 :: int" and ?m = "w mod 86400 div 60"
  have mem: "(f, t, x) \<in> set (open_now rs (Prague w b)) \<longleftrightarrow>
      (\<exists>r\<in>set rs. isoweekday (w div 86400) \<in> set (r_days r) \<and> start_of r \<le> ?m \<and> ?m < end_of r
         \<and> (f, t, x) \<in> set (rule_open_on (Prague w b) (Prague (w + ?E) False) (w div 86400) r))" for f t x
  proof -
    have "(f, t, x) \<in> set (open_now rs (Prague w b)) \<longleftrightarrow>
        (\<exists>d\<in>{w div 86400 - 1..(w + ?E) div 86400}. \<exists>r\<in>set rs. isoweekday d \<in> set (r_days r)
          \<and> (f, t, x) \<in> set (rule_open_on (Prague w b) (Prague (w + ?E) False) d r)
          \<and> dt_le f (Prague w b) \<and> dt_less (Prague w b) t)"
      unfolding open_now_def child_open_intervals_def Let_def date_of_def rules_on_def
      by (simp add: Bex_def) blast
    also have "\<dots> \<longleftrightarrow> (\<exists>d\<in>{w div 86400 - 1..(w + ?E) div 86400}. \<exists>r\<in>set rs. isoweekday d \<in> set (r_days r)
          \<and> d = w div 86400 \<and> start_of r \<le> ?m \<and> ?m < end_of r
          \<and> (f, t, x) \<in> set (rule_open_on (Prague w b) (Prague (w + ?E) False) d r))"
    proof (intro bex_cong refl)
      fix d r assume "r \<in> set rs"
      from open_interval_now [OF ok [OF this], of ?E f t x w b False d]
      show "(isoweekday d \<in> set (r_days r)
          \<and> (f, t, x) \<in> set (rule_open_on (Prague w b) (Prague (w + ?E) False) d r)
          \<and> dt_le f (Prague w b) \<and> dt_less (Prague w b) t)
        = (isoweekday d \<in> set (r_days r) \<and> d = w div 86400 \<and> start_of r \<le> ?m \<and> ?m < end_of r
          \<and> (f, t, x) \<in> set (rule_open_on (Prague w b) (Prague (w + ?E) False) d r))"
        by simp
    qed
    finally show ?thesis by auto
  qed
  have opens: "(\<exists>f t. (f, t, x) \<in> set (rule_open_on (Prague w b) (Prague (w + ?E) False) (w div 86400) r))
      \<longleftrightarrow> x = sort (rule_opens r)"
    if "r \<in> set rs" "start_of r \<le> ?m" "?m < end_of r" for r x
  proof -
    have "w = w div 86400 * 86400 + w mod 86400" by simp
    then have "w div 86400 * 86400 + 60 * start_of r \<le> w" "w < w div 86400 * 86400 + 60 * end_of r"
      using that(2,3) minute_cmp [of _ "w mod 86400"] by linarith+
    then show ?thesis by (auto simp: rule_open_on_def Let_def)
  qed
  define on where "on r \<longleftrightarrow> isoweekday (w div 86400) \<in> set (r_days r) \<and> start_of r \<le> ?m \<and> ?m < end_of r" for r
  have l: "y \<in> ?l \<longleftrightarrow> (\<exists>r\<in>set rs. on r \<and> y \<in> set (rule_opens r))" for y
  proof -
    have "y \<in> ?l \<longleftrightarrow> (\<exists>x f t. (f, t, x) \<in> set (open_now rs (Prague w b)) \<and> y \<in> set x)" by force
    also have "\<dots> \<longleftrightarrow> (\<exists>r\<in>set rs. on r \<and> (\<exists>x. (\<exists>f t. (f, t, x) \<in>
        set (rule_open_on (Prague w b) (Prague (w + ?E) False) (w div 86400) r)) \<and> y \<in> set x))"
      unfolding mem on_def by blast
    also have "\<dots> \<longleftrightarrow> (\<exists>r\<in>set rs. on r \<and> y \<in> set (rule_opens r))"
      by (rule bex_cong [OF refl], rule conj_cong [OF refl]) (metis on_def opens set_sort)
    finally show ?thesis .
  qed
  have "y \<in> ?r \<longleftrightarrow> (\<exists>r\<in>set rs. on r \<and> y \<in> set (rule_opens r))" for y
    unfolding open_targets_def date_of_def minute_of_day_def on_def set_concat set_map
    by auto
  with l show ?thesis by blast
qed

text \<open>
  for accepted windows, the services the status view of a device lists as open are exactly the
  targets that the renderer opens at that time and the targets of the exceptions still running: what
  the parent reads is what the filter lets through.
\<close>

theorem status_shows_rendered:
  assumes "validate_rules Child_window g body = Inr (rs, [])"
  shows "cs_open_services (child_status rs xs now)
    = sorted_set (open_targets rs (astimezone now)
        @ map fst (filter (\<lambda>(x, e). dt_less (astimezone now) e) xs))"
proof -
  obtain w f where now: "astimezone now = Prague w f" using astimezone_Prague by blast
  have "set (opened_targets rs xs (Prague w f)) = set (open_targets rs (Prague w f)
      @ map fst (filter (\<lambda>(x, e). dt_less (Prague w f) e) xs))"
    using open_now_targets [OF validate_rules_sound [OF assms]]
    by (simp only: opened_targets_def set_append)
  then show ?thesis by (simp add: child_status_def Let_def now sorted_set_eq_iff)
qed

lemma status_shows_rendered_witness:
  "cs_open_services (child_status ex_child_rules [(''roblox'', at_minute 739005 980)] (at_minute 739005 960))
     = [''roblox'', ''youtube'']"
proof -
  have "sorted_set (open_targets ex_child_rules (astimezone (at_minute 739005 960))
      @ map fst (filter (\<lambda>(x, e). dt_less (astimezone (at_minute 739005 960)) e) [(''roblox'', at_minute 739005 980)]))
    = [''roblox'', ''youtube'']" by code_simp
  then show ?thesis using status_shows_rendered [OF ex_child_accepted] by simp
qed

section \<open>An accepted snapshot\<close>

definition snap_device_sound :: "snap_device \<Rightarrow> bool" where
  "snap_device_sound d \<longleftrightarrow> device_shape_ok d \<and> device_ip_problem (json_str (sd_ip d)) = None
     \<and> list_all is_domain (sd_allow_extra d) \<and> list_all is_domain (sd_deny_extra d)
     \<and> (\<forall>host. JStr host \<in> set (sd_deny_extra d) \<longrightarrow> deny_breaks_baseline host = None)
     \<and> list_all snap_exception_ok (sd_exceptions d)
     \<and> (\<exists>rs. validate_rules Child_window (sd_guardrails d)
             (if truthy (sd_rules d) then sd_rules d else JList []) = Inr (rs, []))"

lemma extra_problems_Nil: "extra_problems did kd ds = [] \<longleftrightarrow> list_all is_domain ds"
  unfolding extra_problems_def concat_map_Nil by (simp add: list_all_iff)

lemma deny_problems_Nil:
  "deny_problems did ds = [] \<Longrightarrow> JStr host \<in> set ds \<Longrightarrow> deny_breaks_baseline host = None"
  unfolding deny_problems_def concat_map_Nil by (fastforce split: option.splits)

lemma device_problems_Nil:
  assumes "device_shape_ok d" "snap_device_problems devs seen i d = Inr []"
  shows "snap_device_sound d" "json_str (sd_id d) \<notin> set seen"
    "sd_ip d \<notin> set (map fst (filter (\<lambda>(x, j). j \<noteq> i) (zip (map sd_ip devs) [0..<length devs])))"
proof -
  note v = assms(2) [unfolded snap_device_problems_def Let_def]
  obtain rs rp where r: "validate_rules Child_window (sd_guardrails d)
      (if truthy (sd_rules d) then sd_rules d else JList []) = Inr (rs, rp)"
    using v unfolding bind_res_Inr_iff by auto
  note w = v [unfolded r bind_res_simps prod.case sum.inject append_is_Nil_conv]
  have "rp = []" using w by simp
  moreover have "list_all snap_exception_ok (sd_exceptions d)"
    using w unfolding concat_map_Nil list_all_iff by (auto split: if_splits)
  moreover have "device_ip_problem (json_str (sd_ip d)) = None" using w by (auto split: option.splits)
  moreover have "list_all is_domain (sd_allow_extra d)" "list_all is_domain (sd_deny_extra d)"
    using w extra_problems_Nil by blast+
  moreover have "\<forall>host. JStr host \<in> set (sd_deny_extra d) \<longrightarrow> deny_breaks_baseline host = None"
    using w deny_problems_Nil by blast
  ultimately show "snap_device_sound d"
    unfolding snap_device_sound_def using assms(1) r by blast
  have "\<not> (json_str (sd_id d) \<in> set seen \<or>
      sd_ip d \<in> set (map fst (filter (\<lambda>(x, j). j \<noteq> i) (zip (map sd_ip devs) [0..<length devs]))))"
    using w by (auto split: if_splits)
  then show "json_str (sd_id d) \<notin> set seen"
    "sd_ip d \<notin> set (map fst (filter (\<lambda>(x, j). j \<noteq> i) (zip (map sd_ip devs) [0..<length devs])))"
    by blast+
qed

lemma devices_loop_Nil:
  assumes "snap_devices_loop devs seen xs = Inr []"
  shows "(\<forall>(i, d)\<in>set xs. snap_device_sound d
      \<and> sd_ip d \<notin> set (map fst (filter (\<lambda>(x, j). j \<noteq> i) (zip (map sd_ip devs) [0..<length devs]))))
    \<and> distinct (map (json_str \<circ> sd_id \<circ> snd) xs) \<and> (json_str \<circ> sd_id \<circ> snd) ` set xs \<inter> set seen = {}"
  using assms
proof (induction devs seen xs rule: snap_devices_loop.induct)
  case (2 devs seen i d ds)
  have shape: "device_shape_ok d" using "2.prems" by (auto simp: bind_res_Inr_iff split: if_splits)
  then have p: "snap_device_problems devs seen i d = Inr []"
    and rest: "snap_devices_loop devs (json_str (sd_id d) # seen) ds = Inr []"
    using "2.prems" by (auto simp: bind_res_Inr_iff)
  show ?case using "2.IH"(2) [OF _ rest] shape device_problems_Nil [OF shape p] by force
qed simp

lemma verify_devices:
  assumes "verify_snapshot s = Inr []" "d \<in> set (sn_devices s)"
  shows "snap_device_sound d"
proof -
  have loop: "snap_devices_loop (sn_devices s) [] (zip [0..<length (sn_devices s)] (sn_devices s)) = Inr []"
    using assms(1) by (auto simp: verify_snapshot_def bind_res_Inr_iff split: if_splits)
  obtain i where "i < length (sn_devices s)" "d = sn_devices s ! i"
    using assms(2) by (auto simp: in_set_conv_nth)
  then have "(i, d) \<in> set (zip [0..<length (sn_devices s)] (sn_devices s))"
    by (auto simp: set_zip intro!: exI [of _ i])
  then show ?thesis using devices_loop_Nil [OF loop] by blast
qed

text \<open>
  a snapshot the host job accepts keeps every invariant: it has devices, with distinct ids and
  addresses, none of them house infrastructure or outside the private networks; the required hosts
  and Telegram stay allowed; no deny rule of a device covers a required host; and every device's
  windows pass the validation of the service.
\<close>

theorem accepted_snapshot_invariants:
  assumes "verify_snapshot s = Inr []"
  shows "sn_devices s \<noteq> [] \<and> set REQUIRED_ALWAYS \<subseteq> set (sn_allow_always s)
    \<and> set REQUIRED_SERVICES \<subseteq> set (sn_always_services s)
    \<and> list_all snap_device_sound (sn_devices s)
    \<and> distinct (map (json_str \<circ> sd_id) (sn_devices s)) \<and> distinct (map sd_ip (sn_devices s))"
proof -
  let ?ds = "sn_devices s" and ?xs = "zip [0..<length (sn_devices s)] (sn_devices s)"
  have loop: "snap_devices_loop ?ds [] ?xs = Inr []" and ne: "?ds \<noteq> []"
    and always: "missing_always (sn_allow_always s) = []"
    and svc: "list_all (\<lambda>s'. s' \<in> set (sn_always_services s)) REQUIRED_SERVICES"
    using assms by (auto simp: verify_snapshot_def bind_res_Inr_iff split: if_splits)
  have "set (missing_always (sn_allow_always s)) = {}" using always by simp
  then have "set REQUIRED_ALWAYS \<subseteq> set (sn_allow_always s)"
    unfolding missing_always_def sorted_set_props set_filter by blast
  moreover have L: "(\<forall>(i, d)\<in>set ?xs. snap_device_sound d
      \<and> sd_ip d \<notin> set (map fst (filter (\<lambda>(x, j). j \<noteq> i) (zip (map sd_ip ?ds) [0..<length ?ds]))))
    \<and> distinct (map (json_str \<circ> sd_id \<circ> snd) ?xs)"
    using devices_loop_Nil [OF loop] by blast
  have nth: "(i, ?ds ! i) \<in> set ?xs" if "i < length ?ds" for i
    using that by (auto simp: set_zip intro!: exI [of _ i])
  have "list_all snap_device_sound ?ds" using verify_devices [OF assms] by (simp add: list_all_iff)
  moreover have "map (json_str \<circ> sd_id \<circ> snd) ?xs = map (json_str \<circ> sd_id) (map snd ?xs)"
    unfolding map_map by (simp only: comp_assoc)
  then have "distinct (map (json_str \<circ> sd_id) ?ds)" using L by simp
  moreover have "sd_ip (?ds ! i) \<noteq> sd_ip (?ds ! j)" if "i < length ?ds" "j < length ?ds" "i \<noteq> j" for i j
  proof
    assume "sd_ip (?ds ! i) = sd_ip (?ds ! j)"
    then have "(sd_ip (?ds ! i), j) \<in> set (zip (map sd_ip ?ds) [0..<length ?ds])"
      using that by (auto simp: set_zip intro!: exI [of _ j])
    then show False using L nth [OF that(1)] that(3) by force
  qed
  then have "distinct (map sd_ip ?ds)" by (simp add: distinct_conv_nth)
  moreover have "set REQUIRED_SERVICES \<subseteq> set (sn_always_services s)"
    using svc by (auto simp: list_all_iff)
  ultimately show ?thesis using ne by blast
qed

definition ex_snapshot :: snapshot where
  "ex_snapshot = \<lparr>sn_schema = JInt 1,
     sn_devices = [\<lparr>sd_id = JStr ''tablet'', sd_ip = JStr ''192.168.31.40'', sd_name = JStr ''Tablet'',
        sd_guardrails = ex_guards, sd_rules = rules_json ex_child_rules, sd_allow_extra = [],
        sd_deny_extra = [JStr ''ads.example.com''], sd_exceptions = []\<rparr>],
     sn_allow_always = REQUIRED_ALWAYS, sn_always_services = [''telegram'']\<rparr>"

lemma accepted_snapshot_invariants_witness:
  "list_all snap_device_sound (sn_devices ex_snapshot) \<and> sn_devices ex_snapshot \<noteq> []"
proof -
  have "verify_snapshot ex_snapshot = Inr []" by code_simp
  from accepted_snapshot_invariants [OF this] show ?thesis by blast
qed

section \<open>Domain names\<close>

text \<open>
  the domain pattern of the validators also accepts a domain with a newline after it, so an imported
  list can hold a value that breaks the rule line it is rendered into.
\<close>

theorem domain_newline_accepted:
  assumes "domain_body d"
  shows "is_domain (JStr d) \<and> is_domain (JStr (d @ [newline]))
    \<and> list_value [(''deny_extra'', JList [JStr (d @ [newline])])] ''deny_extra'' = Some [d @ [newline]]"
  using assms by (simp add: is_domain_def domain_re_def dollar_def list_value_def sorted_set_def json_str_def)

lemma domain_newline_accepted_witness: "is_domain (JStr (''a.cz'' @ [newline]))"
proof -
  have "domain_body ''a.cz''" by code_simp
  then show ?thesis using domain_newline_accepted by blast
qed

end
