(* ===== verification/Api_Views.thy ===== *)
theory Api_Views
  imports Store_System
begin

text \<open>
  What the services answer with: the JSON forms of the stored things (\<open>store.py\<close>,
  \<open>child_store.py\<close>) and of what the handlers of \<open>api.py\<close> build from them, and
  Python's \<open>int\<close> on the text of a query parameter or a header.
\<close>

section \<open>Numbers in texts\<close>

text \<open>\<open>int(s)\<close>: blanks around, a sign, digits with single underscores between them.\<close>

fun py_digits :: "bool \<Rightarrow> int \<Rightarrow> string \<Rightarrow> int option" where
  "py_digits after_digit v [] = (if after_digit then Some v else None)"
| "py_digits after_digit v (c # cs) =
     (if is_digit c then py_digits True (v * 10 + digit_val c) cs
      else if c = CHR ''_'' \<and> after_digit then py_digits False v cs else None)"

definition py_int :: "string \<Rightarrow> int option" where
  "py_int s = (case py_strip s of [] \<Rightarrow> None
     | c # cs \<Rightarrow> if c = CHR ''-'' then map_option uminus (py_digits False 0 cs)
         else if c = CHR ''+'' then py_digits False 0 cs else py_digits False 0 (c # cs))"

text \<open>\<open>s.isdigit()\<close> also holds of the superscript digits, which \<open>int\<close> refuses.\<close>

definition py_isdigit :: "string \<Rightarrow> bool" where
  "py_isdigit s \<longleftrightarrow> s \<noteq> [] \<and> list_all (\<lambda>c. is_digit c \<or> (of_char c :: nat) \<in> {178, 179, 185}) s"

lemma py_digits_str_nat_acc:
  "py_digits b v (str_nat n @ cs) = py_digits True (v * 10 ^ length (str_nat n) + int n) cs"
proof (induction n arbitrary: b v cs rule: str_nat.induct)
  case (1 n)
  show ?case
  proof (cases "n < 10")
    case True
    then show ?thesis by (simp add: str_nat.simps)
  next
    case False
    moreover have "int n = int (n div 10) * 10 + int (n mod 10)"
      by (metis div_mult_mod_eq of_nat_add of_nat_mult of_nat_numeral)
    ultimately show ?thesis using 1 by (subst (1 2) str_nat.simps) (simp add: algebra_simps)
  qed
qed

lemma py_digits_str_nat: "py_digits b 0 (str_nat n) = Some (int n)"
  using py_digits_str_nat_acc [of b 0 n "[]"] by simp

lemma str_nat_digits: "list_all is_digit (str_nat n)"
proof (induction n rule: str_nat.induct)
  case (1 n)
  then show ?case by (subst str_nat.simps) simp
qed

lemma str_nat_not_Nil: "str_nat n \<noteq> []"
  by (subst str_nat.simps) simp

lemma is_digit_not_space: "is_digit c \<Longrightarrow> \<not> is_space c \<and> c \<noteq> CHR ''-'' \<and> c \<noteq> CHR ''+'' \<and> c \<noteq> CHR 0x22"
  by (auto simp: is_digit_def char_in_def is_space_def Let_def)

lemma strip_none: "list_all (\<lambda>c. \<not> p c) s \<Longrightarrow> rstrip_by p (lstrip_by p s) = s"
proof -
  have *: "dropWhile p s = s" if "list_all (\<lambda>c. \<not> p c) s" for s :: string using that by (cases s) auto
  assume "list_all (\<lambda>c. \<not> p c) s"
  then show ?thesis using * [of s] * [of "rev s"] by (simp add: rstrip_by_def lstrip_by_def)
qed

lemma py_strip_str_nat: "py_strip (str_nat n) = str_nat n"
  unfolding py_strip_def
  by (rule strip_none) (use str_nat_digits is_digit_not_space in \<open>auto simp: list_all_iff\<close>)

lemma py_int_str_nat: "py_int (str_nat n) = Some (int n)"
proof -
  obtain c cs where c: "str_nat n = c # cs" using str_nat_not_Nil by (cases "str_nat n") auto
  then have "is_digit c" using str_nat_digits [of n] by simp
  then have "c \<noteq> CHR ''-''" "c \<noteq> CHR ''+''" using is_digit_not_space by auto
  then show ?thesis using py_digits_str_nat [of False n] c
    unfolding py_int_def py_strip_str_nat by (simp del: py_digits.simps)
qed

section \<open>Stored things\<close>

definition dt_json :: "dtime \<Rightarrow> json" where
  "dt_json t = JStr (iso_text t)"

definition problem_json :: "problem \<Rightarrow> json" where
  "problem_json p = JObj [(''code'', JStr (p_code p)), (''field'', JStr (p_field p)), (''message'', JStr (p_message p))]"

definition entity_json :: "entity \<Rightarrow> json" where
  "entity_json e = JObj [(''id'', JStr (e_id e)), (''kind'', JStr (kind_name (e_kind e))), (''name'', JStr (e_name e)),
     (''ha_target'', jopt JStr (e_ha_target e)), (''managed'', JBool (e_managed e)), (''flags'', flags_json (e_flags e)),
     (''guardrails'', guardrails_json (e_guardrails e)), (''meta'', JObj (e_meta e))]"

definition exception_json :: "exc_row \<Rightarrow> json" where
  "exception_json x = JObj [(''id'', JStr (xr_id x)), (''entity'', JStr (xr_entity x)), (''kind'', JStr ''skip_date''),
     (''date'', JStr (iso_date (xr_date x))), (''until'', JNull), (''state'', JNull),
     (''created_by'', actor_json (xr_by x)), (''created_at'', dt_json (xr_at x))]"

definition token_json :: "token_row \<Rightarrow> json" where
  "token_json t = JObj [(''id'', JStr (tk_id t)), (''name'', JStr (tk_name t)), (''role'', JStr (tk_role t)),
     (''created'', dt_json (tk_created t)), (''expires'', jopt JStr (tk_expires t)),
     (''last_used'', jopt dt_json (tk_last_used t)), (''revoked'', JBool (tk_revoked t)), (''gateway'', JBool (tk_gateway t))]"

definition tokens_view :: "db \<Rightarrow> json list" where
  "tokens_view st = map token_json (sort_key (\<lambda>t. iso_text (tk_created t)) (db_tokens st))"

definition audit_json :: "audit_row \<Rightarrow> json" where
  "audit_json r = JObj [(''seq'', JInt (int (a_seq r))), (''ts'', JStr (a_ts r)), (''actor'', a_actor r), (''action'', JStr (a_action r)),
     (''entity'', jopt JStr (a_entity r)), (''before'', a_before r), (''after'', a_after r)]"

definition live_exception_json :: "dtime \<Rightarrow> cexc_row \<Rightarrow> json" where
  "live_exception_json now x = JObj [(''id'', JStr (ce_id x)), (''entity'', JStr (ce_entity x)), (''target'', JStr (ce_target x)),
     (''created_at'', JStr (ce_created x)), (''expires_at'', dt_json (ce_expires x)), (''expires_ts'', JInt (timestamp (ce_expires x))),
     (''status'', JStr (ce_status x)), (''created_by'', shown_name (ce_by x)),
     (''remaining_s'', JInt (max 0 (dt_sub (ce_expires x) now)))]"

definition state_text :: "child_state \<Rightarrow> string" where
  "state_text s = (case s of Open \<Rightarrow> ''open'' | Restricted \<Rightarrow> ''restricted'' | Closed \<Rightarrow> ''closed'')"

section \<open>Views of the handlers\<close>

definition sched_view :: "db \<Rightarrow> string \<Rightarrow> store_err + (int \<times> fields)" where
  "sched_view st eid = bind_res (schedule_of st eid) (\<lambda>s.
     Inr (sc_version s, [(''entity'', JStr eid), (''version'', JInt (sc_version s)), (''tz'', JStr ''Europe/Prague''),
       (''updated_at'', dt_json (sc_updated s)), (''rules'', rules_json (sc_rules s))]))"

definition run_view :: "dtime \<Rightarrow> apply_status option \<Rightarrow> run_row \<Rightarrow> json" where
  "run_view now status r =
     (let active = rr_status r = ''active''; over = active \<and> end_ts r \<le> timestamp now
      in JObj [(''id'', JStr (rr_id r)), (''entity'', JStr (rr_entity r)),
           (''status'', JStr (if over then ''ended'' else rr_status r)), (''started_at'', dt_json (rr_started r)),
           (''ends_at'', dt_json (rr_ends r)), (''ended_at'', if over then dt_json (rr_ends r) else jopt dt_json (rr_ended r)),
           (''minutes_total'', JInt (rr_minutes r)), (''started_by'', shown_name (rr_by r)),
           (''remaining_s'', JInt (if active then max 0 (end_ts r - timestamp now) else 0)),
           (''armed'', JBool (run_armed r status))])"

definition child_status_json :: "child_status_view \<Rightarrow> json list \<Rightarrow> json" where
  "child_status_json v ex = JObj [(''state'', JStr (state_text (cs_state v))),
     (''open_services'', JList (map JStr (cs_open_services v))), (''open_until'', jopt dt_json (cs_open_until v)),
     (''opens_at'', jopt dt_json (cs_opens_at v)), (''exceptions'', JList ex)]"

text \<open>\<open>ent["meta"].get(k) or ""\<close>.\<close>

definition meta_or_empty :: "entity \<Rightarrow> string \<Rightarrow> json" where
  "meta_or_empty e k = (let v = jget (e_meta e) k in if truthy v then v else JStr [])"

definition child_detail :: "db \<Rightarrow> string \<Rightarrow> dtime \<Rightarrow> store_err + json" where
  "child_detail st eid now =
     bind_res (child_entity st eid) (\<lambda>ent.
     bind_res (schedule_of st eid) (\<lambda>sch.
     bind_res (child_status_of st eid now) (\<lambda>status.
     let ex = map (live_exception_json now) (child_exceptions st (Some eid) True now)
     in Inr (JObj [(''id'', JStr eid), (''name'', JStr (e_name ent)), (''ip'', jget (e_meta ent) ''ip''), (''mac'', jget (e_meta ent) ''mac''),
          (''label'', meta_or_empty ent ''label''), (''icon'', meta_or_empty ent ''icon''),
          (''display_name'', meta_or_empty ent ''display_name''), (''child'', meta_or_empty ent ''child''),
          (''version'', JInt (sc_version sch)), (''tz'', JStr ''Europe/Prague''), (''updated_at'', dt_json (sc_updated sch)),
          (''rules'', rules_json (sc_rules sch)), (''guardrails'', guardrails_json (e_guardrails ent)),
          (''flags'', flags_json (e_flags ent)), (''exceptions'', JList ex), (''domains'', lists_json st eid),
          (''status'', child_status_json status ex)]))))"

definition edge_json :: "dtime \<times> string \<times> string \<Rightarrow> json" where
  "edge_json x = (case x of (t, a, i) \<Rightarrow> JObj [(''at'', dt_json t), (''action'', JStr a), (''rule'', JStr i)])"

definition effective_json :: "effective_view \<Rightarrow> json" where
  "effective_json v = JObj [(''entity'', JStr (v_entity v)), (''at'', dt_json (v_at v)), (''state'', jopt JStr (v_state v)),
     (''skipped_today'', JBool (v_skipped_today v)), (''next_edge'', jopt edge_json (v_next_edge v))]"

text \<open>The answers to a removal and to the list of the removals that can be undone.\<close>

definition removed_json :: "removed_row \<Rightarrow> json" where
  "removed_json r = JObj [(''removal_id'', JStr (rm_id r)), (''child_id'', JStr (rm_entity r)), (''name'', JStr (rm_name r)),
     (''ip'', jget (df_meta (rm_def r)) ''ip''), (''removed_at'', dt_json (rm_at r)),
     (''restorable_until'', dt_json (dt_add (rm_at r) (REMOVAL_UNDO_HOURS * 3600))), (''removed_by'', shown_name (rm_by r))]"

definition removal_json :: "dtime \<Rightarrow> entity \<Rightarrow> string \<Rightarrow> json" where
  "removal_json now e rid = JObj [(''removal_id'', JStr rid), (''child_id'', JStr (e_id e)), (''name'', JStr (e_name e)),
     (''removed_at'', dt_json now), (''restorable_until'', dt_json (dt_add now (REMOVAL_UNDO_HOURS * 3600)))]"

section \<open>Policy, snapshot, preview\<close>

text \<open>\<open>child_policy(with_lists)\<close> as the answer shows it.\<close>

definition policy_device_json :: "db \<Rightarrow> entity \<Rightarrow> store_err + json" where
  "policy_device_json st e = bind_res (schedule_of st (e_id e)) (\<lambda>s.
     Inr (JObj [(''id'', JStr (e_id e)), (''name'', JStr (e_name e)), (''ip'', jget (e_meta e) ''ip''), (''mac'', jget (e_meta e) ''mac''),
       (''rules'', rules_json (sc_rules s)), (''allow_extra'', strs (child_domains st (e_id e) Allow)),
       (''deny_extra'', strs (child_domains st (e_id e) Deny))]))"

definition lists_fields :: "(string list \<Rightarrow> string list) \<Rightarrow> child_lists \<Rightarrow> fields" where
  "lists_fields f ls = [(''allow_always'', strs (f (l_allow_always ls))), (''allow_weekdays'', strs (f (l_allow_weekdays ls))),
     (''allow_extra'', strs (f (l_allow_extra ls))), (''deny_extra'', strs (f (l_deny_extra ls)))]"

definition policy_view :: "db \<Rightarrow> bool \<Rightarrow> store_err + json" where
  "policy_view st with_lists = bind_res (map_res (policy_device_json st) (child_devices st)) (\<lambda>devs.
     case child_house_lists st of (ls, svc) \<Rightarrow>
       Inr (JObj ([(''devices'', JList devs), (''always_services'', strs svc)]
         @ (if with_lists then [(''lists'', JObj (lists_fields id ls))] else []))))"

text \<open>
  The snapshot with its checksum: the checksum covers everything but the moment and the audit's
  number.
\<close>

definition snapshot_device_json :: "db \<Rightarrow> dtime \<Rightarrow> entity \<Rightarrow> store_err + json" where
  "snapshot_device_json st now e = bind_res (schedule_of st (e_id e)) (\<lambda>s.
     Inr (JObj [(''id'', JStr (e_id e)), (''name'', JStr (e_name e)), (''ip'', jget (e_meta e) ''ip''), (''mac'', jget (e_meta e) ''mac''),
       (''rules'', rules_json (sc_rules s)), (''version'', JInt (sc_version s)),
       (''allow_extra'', strs (child_domains st (e_id e) Allow)), (''deny_extra'', strs (child_domains st (e_id e) Deny)),
       (''guardrails'', guardrails_json (e_guardrails e)),
       (''exceptions'', JList (map cexc_json (child_exceptions st (Some (e_id e)) True now)))]))"

definition snapshot_core :: "db \<Rightarrow> dtime \<Rightarrow> store_err + fields" where
  "snapshot_core st now = bind_res (map_res (snapshot_device_json st now) (child_devices st)) (\<lambda>devs.
     case child_house_lists st of (ls, svc) \<Rightarrow>
       Inr [(''schema'', JInt 1), (''always_services'', strs (sort svc)),
         (''guardrails_proposed'', JBool (list_ex (\<lambda>e. f_guardrails_proposed (e_flags e) = Some True) (child_devices st))),
         (''lists'', JObj (lists_fields sort ls)), (''devices'', JList devs)])"

definition policy_checksum :: "fields \<Rightarrow> string" where
  "policy_checksum core = sha256_hex (canon (JObj core))"

definition snapshot_view :: "db \<Rightarrow> dtime \<Rightarrow> store_err + json" where
  "snapshot_view st now = bind_res (snapshot_core st now) (\<lambda>core.
     Inr (JObj (core @ [(''audit_seq'', JInt (int (seq_of st))), (''generated_at'', dt_json now),
       (''checksum'', JStr (policy_checksum core))])))"

text \<open>The preview of a valid rule list: what changes, and the next seven days.\<close>

definition rule_json :: "rule \<Rightarrow> json" where
  "rule_json r = JObj (rule_fields r)"

definition rule_with_id :: "rule list \<Rightarrow> string \<Rightarrow> rule option" where
  "rule_with_id rs i = find (\<lambda>r. r_id r = i) rs"

definition rules_diff :: "rule list \<Rightarrow> rule list \<Rightarrow> json" where
  "rules_diff cur new = JObj [
     (''added'', JList (map rule_json (filter (\<lambda>r. rule_with_id cur (r_id r) = None) new))),
     (''removed'', JList (map rule_json (filter (\<lambda>r. rule_with_id new (r_id r) = None) cur))),
     (''changed'', JList (List.map_filter (\<lambda>r. case rule_with_id cur (r_id r) of None \<Rightarrow> None
        | Some old \<Rightarrow> if old = r then None else Some (JObj [(''before'', rule_json old), (''after'', rule_json r)])) new))]"

definition interval_json :: "open_interval \<Rightarrow> json" where
  "interval_json x = (case x of (f, t, o') \<Rightarrow> JObj [(''from'', dt_json f), (''to'', dt_json t), (''opens'', strs o')])"

definition next_week :: "kind \<Rightarrow> rule list \<Rightarrow> int list \<Rightarrow> dtime \<Rightarrow> string \<times> json" where
  "next_week k rules skips start = (let end = dt_add start (7 * 86400) in
     if k = Child_window then (''open_next_7_days'', JList (map interval_json (child_open_intervals rules start end)))
     else (''next_7_days'', JList (map edge_json (edges_between k rules start end skips))))"

section \<open>Texts of values\<close>

text \<open>\<open>str(v)\<close> and \<open>repr(v)\<close> of a JSON value.\<close>

definition repr_char :: "char \<Rightarrow> char \<Rightarrow> string" where
  "repr_char quote c = (let n = (of_char c :: nat) in
     if c = quote \<or> c = CHR 0x5C then [CHR 0x5C, c]
     else if n = 10 then [CHR 0x5C, CHR ''n''] else if n = 13 then [CHR 0x5C, CHR ''r'']
     else if n = 9 then [CHR 0x5C, CHR ''t'']
     else if n < 32 \<or> (127 \<le> n \<and> n \<le> 160) \<or> n = 173 then [CHR 0x5C, CHR ''x''] @ drop 2 (hex4 n) else [c])"

definition repr_str :: "string \<Rightarrow> string" where
  "repr_str s = (let quote = (if CHR 0x27 \<in> set s \<and> CHR 0x22 \<notin> set s then CHR 0x22 else CHR 0x27)
     in quote # concat (map (repr_char quote) s) @ [quote])"

fun py_repr :: "json \<Rightarrow> string" where
  "py_repr JNull = ''None''"
| "py_repr (JBool b) = (if b then ''True'' else ''False'')"
| "py_repr (JInt i) = str_int i"
| "py_repr (JFloat m k) = float_repr m k"
| "py_repr (JStr s) = repr_str s"
| "py_repr (JList xs) = ''['' @ join_with '', '' (map py_repr xs) @ '']''"
| "py_repr (JObj kvs) = [CHR 0x7B] @ join_with '', '' (map (\<lambda>(k, v). repr_str k @ '': '' @ py_repr v) kvs) @ [CHR 0x7D]"

definition py_str :: "json \<Rightarrow> string" where
  "py_str v = (case v of JStr s \<Rightarrow> s | _ \<Rightarrow> py_repr v)"

end
