(* ===== verification/Sched_Api.thy ===== *)
theory Sched_Api
  imports Complex_Main Api_Views
begin

text \<open>
  \<open>api.py\<close>: authentication with its rate limit, the request body, the translation of the store's
  exceptions, and every handler with the check of its body and the order of its early exits.  A request
  is what Starlette hands to a handler; \<open>env\<close> holds what a handler takes from outside: the store's
  clock, the limiter's clock (seconds), fresh identifiers and a new secret, the status files, and
  \<open>datetime.fromisoformat\<close> as wall seconds and offset.
\<close>

section \<open>Requests and answers\<close>

datatype payload = Empty_body | Json_body json | Bad_body

record request =
  rq_ip :: string
  rq_headers :: "(string \<times> string) list" \<comment> \<open>names in lower case\<close>
  rq_query :: "(string \<times> string) list"
  rq_params :: "(string \<times> string) list" \<comment> \<open>path parameters\<close>
  rq_size :: nat
  rq_payload :: payload

record response =
  rs_status :: nat
  rs_headers :: "(string \<times> string) list"
  rs_body :: "json option"

record env =
  ev_now :: dtime
  ev_clock :: rat
  ev_fresh :: "nat \<Rightarrow> string"
  ev_secret :: string
  ev_fromiso :: "string \<Rightarrow> (int \<times> int option) option"
  ev_status :: fields
  ev_ready :: fields
  ev_snapshot :: fields
  ev_child_apply :: json
  ev_publish_error :: "string option"
  ev_child_publish_error :: "string option"

record app =
  ap_db :: db
  ap_fails :: "string \<Rightarrow> rat list"

definition header :: "request \<Rightarrow> string \<Rightarrow> string option" where
  "header rq k = map_of (rq_headers rq) k"

definition query :: "request \<Rightarrow> string \<Rightarrow> string option" where
  "query rq k = map_of (rq_query rq) k"

definition param :: "request \<Rightarrow> string \<Rightarrow> string" where
  "param rq k = (case map_of (rq_params rq) k of None \<Rightarrow> [] | Some v \<Rightarrow> v)"

text \<open>\<open>q.get(k) in ("1", "true")\<close>, and the empty filter of the store's \<open>if entity:\<close>.\<close>

definition query_flag :: "request \<Rightarrow> string \<Rightarrow> bool" where
  "query_flag rq k \<longleftrightarrow> query rq k = Some ''1'' \<or> query rq k = Some ''true''"

definition query_entity :: "request \<Rightarrow> string option" where
  "query_entity rq = (case query rq ''entity'' of None \<Rightarrow> None | Some e \<Rightarrow> if e = [] then None else Some e)"

definition reply :: "nat \<Rightarrow> json \<Rightarrow> response" where
  "reply s v = \<lparr>rs_status = s, rs_headers = [], rs_body = Some v\<rparr>"

definition no_content :: response where
  "no_content = \<lparr>rs_status = 204, rs_headers = [], rs_body = None\<rparr>"

definition err :: "nat \<Rightarrow> string \<Rightarrow> string \<Rightarrow> json list \<Rightarrow> (string \<times> string) list \<Rightarrow> response" where
  "err status code message problems headers = \<lparr>rs_status = status, rs_headers = headers,
     rs_body = Some (JObj [(''error'', JObj ([(''code'', JStr code), (''message'', JStr message)]
       @ (if problems = [] then [] else [(''problems'', JList problems)])))])\<rparr>"

text \<open>An exception no handler catches is answered by the server: 500.\<close>

definition server_error :: response where
  "server_error = \<lparr>rs_status = 500, rs_headers = [], rs_body = None\<rparr>"

definition etag :: "int \<Rightarrow> string" where
  "etag v = [CHR 0x22] @ str_int v @ [CHR 0x22]"

definition conflict_message :: "string \<Rightarrow> string" where
  "conflict_message code = (if code = ''run_active'' then ''a timed run is already active for this plug; extend or end it''
     else ''this run has already ended'')"

definition guard_error :: "store_err \<Rightarrow> response" where
  "guard_error e = (case e of
     ValidationError ps \<Rightarrow> err 422 ''validation_failed'' ''the change was rejected by the guardrails'' (map problem_json ps) []
   | NotFound x \<Rightarrow> err 404 ''not_found'' (''not found: '' @ x) [] []
   | Forbidden m \<Rightarrow> err 403 ''forbidden'' m [] []
   | RunConflict c r \<Rightarrow> err 409 c (conflict_message c)
       (case r of None \<Rightarrow> [] | Some x \<Rightarrow> [JObj [(''code'', JStr c), (''field'', JStr ''run''), (''message'', JStr (rr_id x))]]) []
   | Conflict cur \<Rightarrow> err 412 ''version_conflict'' ''the schedule changed since you read it; reload and retry'' []
       [(''ETag'', etag (sc_version cur))]
   | Raised x \<Rightarrow> server_error)"

section \<open>Authentication\<close>

definition RANK :: "string \<Rightarrow> int option" where
  "RANK role = map_of [(''readonly'', 1), (''household'', 2), (''admin'', 3)] role"

definition FAIL_WINDOW :: rat where "FAIL_WINDOW = 300"

definition FAIL_LIMIT :: nat where "FAIL_LIMIT = 10"

definition MAX_BODY :: nat where "MAX_BODY = 64 * 1024"

definition is_acting_char :: "char \<Rightarrow> bool" where
  "is_acting_char c \<longleftrightarrow> is_lower c \<or> is_digit c \<or> c = CHR ''_'' \<or> c = CHR ''-''"

definition acting_id :: "string \<Rightarrow> bool" where
  "acting_id s \<longleftrightarrow> s \<noteq> [] \<and> length s \<le> 40 \<and> list_all is_acting_char s"

text \<open>\<open>person=<id>;phone=<id>\<close>; the class of the ids holds neither separator.\<close>

definition acting_body :: "string \<Rightarrow> (string \<times> string) option" where
  "acting_body s = (case split_on (CHR '';'') s of
     [a, b] \<Rightarrow>
       if starts_with ''person='' a \<and> starts_with ''phone='' b \<and> acting_id (drop 7 a) \<and> acting_id (drop 6 b)
       then Some (drop 7 a, drop 6 b) else None
   | _ \<Rightarrow> None)"

definition acting_re :: "string \<Rightarrow> (string \<times> string) option" where
  "acting_re s = (case acting_body s of Some x \<Rightarrow> Some x
     | None \<Rightarrow> if s \<noteq> [] \<and> last s = newline then acting_body (butlast s) else None)"

definition bearer :: "request \<Rightarrow> string" where
  "bearer rq = (let h = (case header rq ''authorization'' of None \<Rightarrow> [] | Some x \<Rightarrow> x)
     in if starts_with ''bearer '' (py_lower h) then py_strip (drop 7 h) else [])"

definition recent_fails :: "rat \<Rightarrow> rat list \<Rightarrow> rat list" where
  "recent_fails now q = dropWhile (\<lambda>t. t < now - FAIL_WINDOW) q"

definition set_fails :: "string \<Rightarrow> rat list \<Rightarrow> app \<Rightarrow> app" where
  "set_fails ip q ap = ap\<lparr>ap_fails := (ap_fails ap)(ip := q)\<rparr>"

definition actor_of :: "request \<Rightarrow> token_row \<Rightarrow> fields \<Rightarrow> actor" where
  "actor_of rq t extra = \<lparr>ac_token = tk_id t, ac_name = tk_name t, ac_role = tk_role t,
     ac_more = [(''gateway'', JBool (tk_gateway t)), (''ip'', JStr (rq_ip rq))] @ extra\<rparr>"

definition acting_fields :: "string \<times> string \<Rightarrow> fields" where
  "acting_fields x = [(''acting'', JObj [(''person'', JStr (fst x)), (''phone'', JStr (snd x))])]"

text \<open>Whom a live token speaks for: the header counts only for a token of the gateway.\<close>

definition acting_actor :: "request \<Rightarrow> token_row \<Rightarrow> response + actor" where
  "acting_actor rq t = (case header rq ''x-acting-user'' of None \<Rightarrow> Inr (actor_of rq t [])
     | Some h \<Rightarrow> if \<not> tk_gateway t then Inr (actor_of rq t [])
         else (case acting_re h of
             None \<Rightarrow> Inl (err 400 ''bad_acting_user'' ''X-Acting-User must look like person=<id>;phone=<id|->'' [] [])
           | Some x \<Rightarrow> Inr (actor_of rq t (acting_fields x))))"

definition authenticate :: "env \<Rightarrow> request \<Rightarrow> string \<Rightarrow> app \<Rightarrow> app \<times> (response + actor)" where
  "authenticate ev rq need ap0 =
     (let q = recent_fails (ev_clock ev) (ap_fails ap0 (rq_ip rq)); ap = set_fails (rq_ip rq) q ap0
      in if FAIL_LIMIT \<le> length q
         then (ap, Inl (err 429 ''rate_limited'' ''too many failed attempts from this address'' [] [(''Retry-After'', ''300'')]))
         else let tok = bearer rq; who = (if tok = [] then None else find_token (ev_now ev) tok (ap_db ap))
         in case who of
              None \<Rightarrow> (set_fails (rq_ip rq) (q @ [ev_clock ev]) ap,
                Inl (err 401 ''unauthorized'' ''a valid bearer token is required'' [] [(''WWW-Authenticate'', ''Bearer'')]))
            | Some t \<Rightarrow>
                (case (RANK (tk_role t), RANK need) of
                   (Some have, Some want) \<Rightarrow>
                     if have < want then (ap, Inl (err 403 ''forbidden'' (''role '' @ quoted (tk_role t) @ '' may not do this'') [] []))
                     else (ap\<lparr>ap_db := touch_token (ev_now ev) (tk_id t) (ap_db ap)\<rparr>, acting_actor rq t)
                 | _ \<Rightarrow> (ap, Inl server_error)))"

section \<open>The frame of a handler\<close>

text \<open>
  What every handler starts with: \<open>who, e = self.authenticate(request, need)\<close>.  A handler then
  works on the database; \<open>with_body\<close> reads the body, \<open>answer\<close> is a guarded read,
  \<open>commit\<close> a guarded write whose answer is built after the commit.
\<close>

type_synonym action = "env \<Rightarrow> request \<Rightarrow> actor \<Rightarrow> db \<Rightarrow> db \<times> response"

definition authed :: "string \<Rightarrow> action \<Rightarrow> env \<Rightarrow> request \<Rightarrow> app \<Rightarrow> app \<times> response" where
  "authed need h ev rq ap0 = (case authenticate ev rq need ap0 of
     (ap, Inl r) \<Rightarrow> (ap, r)
   | (ap, Inr who) \<Rightarrow> (case h ev rq who (ap_db ap) of (st, r) \<Rightarrow> (ap\<lparr>ap_db := st\<rparr>, r)))"

definition body :: "request \<Rightarrow> response + json" where
  "body rq = (if MAX_BODY < rq_size rq then Inl (err 413 ''too_large'' ''request body too large'' [] [])
     else case rq_payload rq of Empty_body \<Rightarrow> Inr JNull | Json_body v \<Rightarrow> Inr v
       | Bad_body \<Rightarrow> Inl (err 400 ''bad_json'' ''the body is not valid JSON'' [] []))"

definition with_body :: "request \<Rightarrow> db \<Rightarrow> (json \<Rightarrow> db \<times> response) \<Rightarrow> db \<times> response" where
  "with_body rq st f = (case body rq of Inl r \<Rightarrow> (st, r) | Inr v \<Rightarrow> f v)"

definition answer :: "db \<Rightarrow> (store_err + response) \<Rightarrow> db \<times> response" where
  "answer st m = (st, case m of Inl e \<Rightarrow> guard_error e | Inr r \<Rightarrow> r)"

definition commit :: "db \<Rightarrow> (store_err + 'a) \<Rightarrow> ('a \<Rightarrow> db \<times> (store_err + response)) \<Rightarrow> db \<times> response" where
  "commit st m f = (case m of Inl e \<Rightarrow> (st, guard_error e) | Inr x \<Rightarrow> (case f x of (st', r) \<Rightarrow> answer st' r))"

definition bad_body :: "db \<Rightarrow> string \<Rightarrow> db \<times> response" where
  "bad_body st m = (st, err 400 ''bad_body'' m [] [])"

text \<open>\<open>isinstance(data, dict)\<close>.\<close>

definition with_object :: "request \<Rightarrow> db \<Rightarrow> string \<Rightarrow> (fields \<Rightarrow> bool) \<Rightarrow> (fields \<Rightarrow> db \<times> response) \<Rightarrow> db \<times> response" where
  "with_object rq st m ok f = with_body rq st (\<lambda>data. case data of
     JObj d \<Rightarrow> if ok d then f d else bad_body st m | _ \<Rightarrow> bad_body st m)"

text \<open>\<open>set(data) <= keys\<close>, and a string under a key.\<close>

definition only_keys :: "string list \<Rightarrow> fields \<Rightarrow> bool" where
  "only_keys ks d \<longleftrightarrow> list_all (\<lambda>k. k \<in> set ks) (jkeys d)"

definition has_key :: "fields \<Rightarrow> string \<Rightarrow> bool" where
  "has_key d k \<longleftrightarrow> k \<in> set (jkeys d)"

definition str_at :: "fields \<Rightarrow> string \<Rightarrow> string" where
  "str_at d k = json_str (jget d k)"

text \<open>\<open>data.get(k)\<close> that is None or a string; \<open>data.get(k) or default\<close> of such a value.\<close>

definition opt_str_at :: "fields \<Rightarrow> string \<Rightarrow> string option" where
  "opt_str_at d k = (case jget d k of JStr s \<Rightarrow> Some s | _ \<Rightarrow> None)"

definition str_or :: "fields \<Rightarrow> string \<Rightarrow> string \<Rightarrow> string" where
  "str_or d k dflt = (case opt_str_at d k of Some s \<Rightarrow> if s = [] then dflt else s | None \<Rightarrow> dflt)"

definition now_of :: "env \<Rightarrow> dtime" where \<comment> \<open>\<open>store._now()\<close>\<close>
  "now_of ev = stored (ev_now ev)"

definition today_of :: "env \<Rightarrow> int" where
  "today_of ev = date_of (astimezone (ev_now ev))"

definition status_of :: "env \<Rightarrow> apply_status option" where
  "status_of ev = (let f = ev_status ev in if f = [] then None
     else Some \<lparr>as_result = json_str (jget f ''result''), as_loaded_ok = (jget f ''loaded_ok'' = JBool True),
       as_seq = (case jget f ''seq'' of JInt n \<Rightarrow> nat n | _ \<Rightarrow> 0)\<rparr>)"

end
