(* ===== verification/Api_Handlers.thy ===== *)
theory Api_Handlers
  imports Sched_Api
begin

text \<open>
  The handlers of \<open>api.py\<close> in the order of the source, and the table of the routes.  Not modelled:
  \<open>child_policy_render\<close>, a preview over lists of any JSON values that changes nothing.
\<close>

section \<open>Entities\<close>

definition health :: "env \<Rightarrow> request \<Rightarrow> app \<Rightarrow> app \<times> response" where
  "health ev rq ap = (case header rq ''authorization'' of
     None \<Rightarrow> (ap, reply 200 (JObj [(''status'', JStr ''ok'')]))
   | Some h \<Rightarrow> if h = [] then (ap, reply 200 (JObj [(''status'', JStr ''ok'')]))
       else authed ''readonly'' (\<lambda>ev rq who st.
         case verify_audit (db_audit st) of (ok, rows, bad) \<Rightarrow>
         let status = ev_status ev; ready = ev_ready ev; snap = ev_snapshot ev;
             in_sync = (truthy (jget ready ''set_hash'') \<and> jget ready ''set_hash'' = jget status ''set_hash''
               \<and> jget status ''result'' = JStr ''applied'' \<and> jget status ''loaded_ok'' = JBool True);
             healthy = (ok \<and> ev_publish_error ev \<in> {None, Some []} \<and> ev_child_publish_error ev \<in> {None, Some []})
         in (st, reply 200 (JObj [(''status'', JStr (if healthy then ''ok'' else ''degraded'')), (''version'', JStr ''1.0.0''),
              (''entities'', JInt (int (length (entities st)))), (''audit_seq'', JInt (int (seq_of st))),
              (''audit_chain'', JObj [(''ok'', JBool ok), (''rows'', JInt (int rows)), (''first_bad_seq'', jopt (\<lambda>n. JInt (int n)) bad)]),
              (''data_checksum'', jget ready ''data_checksum''), (''publish_error'', jopt JStr (ev_publish_error ev)),
              (''render'', JObj [(''set_hash'', jget ready ''set_hash''), (''audit_seq'', jget ready ''audit_seq'')]),
              (''apply'', JObj [(''result'', jget status ''result''), (''set_hash'', jget status ''set_hash''),
                 (''audit_seq'', jget status ''seq''), (''at'', jget status ''at''), (''detail'', jget status ''detail''),
                 (''loaded_ok'', jget status ''loaded_ok''), (''verified_at'', jget status ''verified_at'')]),
              (''child_policy'', JObj [(''checksum'', jget snap ''checksum''), (''generated_at'', jget snap ''generated_at''),
                 (''publish_error'', jopt JStr (ev_child_publish_error ev)),
                 (''devices'', JInt (case jget snap ''devices'' of JList ds \<Rightarrow> int (length ds) | _ \<Rightarrow> 0)),
                 (''cutover'', jopt id (db_cutover st)), (''applied'', ev_child_apply ev)]),
              (''in_sync'', JBool in_sync)]))) ev rq ap)"

definition h_entities :: action where
  "h_entities ev rq who st = (st, reply 200 (JObj [(''entities'', JList (map entity_json (entities st)))]))"

definition parse_entity_kind :: "string \<Rightarrow> kind" where
  "parse_entity_kind s = (if s = ''plug'' then Plug else if s = ''vacuum_plan'' then Vacuum_plan
     else if s = ''child_window'' then Child_window else if s = ''dimmer'' then Dimmer else Other_kind s)"

text \<open>A guarded answer with an entity as it is stored afterwards.\<close>

definition entity_answer :: "nat \<Rightarrow> db \<Rightarrow> string \<Rightarrow> store_err + response" where
  "entity_answer status st eid = bind_res (entity_of st eid) (\<lambda>e. Inr (reply status (entity_json e)))"

definition entity_add :: action where
  "entity_add ev rq who st =
     with_object rq st ''an object with id, name, ha_target and like (strings), and optionally kind (plug | vacuum_plan), is required''
       (\<lambda>d. list_all (has_key d) [''id'', ''name'', ''ha_target'', ''like'']
          \<and> only_keys [''id'', ''name'', ''ha_target'', ''like'', ''kind''] d \<and> list_all (\<lambda>(k, v). is_jstr v) d)
       (\<lambda>d. let eid = str_at d ''id''; k = (if has_key d ''kind'' then str_at d ''kind'' else ''plug'')
         in commit st (add_plug (ev_now ev) who eid (str_at d ''name'') (str_at d ''ha_target'') (str_at d ''like'') (parse_entity_kind k) st)
              (\<lambda>st'. (st', entity_answer 201 st' eid)))"

definition entity_patch :: action where
  "entity_patch ev rq who st = with_object rq st ''an object is required'' (\<lambda>d. True) (\<lambda>d.
     let eid = param rq ''id''
     in commit st (patch_entity (ev_now ev) who eid d st) (\<lambda>(st', c). (st', entity_answer 200 st' eid)))"

definition guardrails_put :: action where
  "guardrails_put ev rq who st = with_object rq st ''an object is required'' (\<lambda>d. True) (\<lambda>d.
     let eid = param rq ''id''
     in commit st (set_guardrails (ev_now ev) who eid (JObj d) st) (\<lambda>(st', c). (st', entity_answer 200 st' eid)))"

section \<open>Schedules\<close>

definition h_schedules :: action where
  "h_schedules ev rq who st = answer st (bind_res (map_res (\<lambda>e. sched_view st (e_id e)) (entities st)) (\<lambda>vs.
     Inr (reply 200 (JObj [(''schedules'', JList (map (\<lambda>(v, f). JObj f) vs))]))))"

definition tagged :: "int \<Rightarrow> fields \<Rightarrow> response" where
  "tagged v f = \<lparr>rs_status = 200, rs_headers = [(''ETag'', etag v)], rs_body = Some (JObj f)\<rparr>"

definition schedule_get :: action where
  "schedule_get ev rq who st = (let eid = param rq ''id'' in
     answer st (bind_res (sched_view st eid) (\<lambda>(v, f). bind_res (entity_of st eid) (\<lambda>e.
       Inr (tagged v (f @ [(''guardrails'', guardrails_json (e_guardrails e))]))))))"

text \<open>\<open>_if_match\<close>: none, the number between the quotes, -1 for anything else; \<open>int\<close> may raise.\<close>

definition if_match_header :: "request \<Rightarrow> py_exn + int option" where
  "if_match_header rq = (case header rq ''if-match'' of None \<Rightarrow> Inr None
     | Some h \<Rightarrow> let v = strip_by (\<lambda>c. c = CHR 0x22) (py_strip h)
         in if py_isdigit v then (case py_int v of None \<Rightarrow> Inl ValueError | Some n \<Rightarrow> Inr (Some n)) else Inr (Some (- 1)))"

definition changed_answer :: "db \<Rightarrow> string \<Rightarrow> bool \<Rightarrow> store_err + response" where
  "changed_answer st eid c = bind_res (sched_view st eid) (\<lambda>(v, f). Inr (tagged v (f @ [(''changed'', JBool c)])))"

definition schedule_put :: action where
  "schedule_put ev rq who st = (case if_match_header rq of
     Inl x \<Rightarrow> (st, server_error)
   | Inr None \<Rightarrow> (st, err 428 ''precondition_required'' ''send If-Match with the ETag you read'' [] [])
   | Inr (Some im) \<Rightarrow> with_object rq st (''an object with '' @ quoted ''rules'' @ '' is required'') (\<lambda>d. has_key d ''rules'') (\<lambda>d.
       let eid = param rq ''id''
       in commit st (put_schedule (ev_now ev) who eid (jget d ''rules'') im ''update'' st)
            (\<lambda>(st', c). (st', changed_answer st' eid c))))"

definition schedule_preview :: action where
  "schedule_preview ev rq who st =
     with_object rq st (''an object with '' @ quoted ''rules'' @ '' is required'') (\<lambda>d. has_key d ''rules'') (\<lambda>d.
       let eid = param rq ''id''
       in answer st (bind_res (entity_of st eid) (\<lambda>ent. bind_res (schedule_of st eid) (\<lambda>cur.
          bind_res (lift_py (validate_rules (e_kind ent) (e_guardrails ent) (jget d ''rules''))) (\<lambda>(new, probs).
          Inr (reply 200 (JObj ([(''entity'', JStr eid), (''current_version'', JInt (sc_version cur)), (''valid'', JBool (probs = [])),
              (''problems'', JList (map problem_json probs))]
            @ (if probs = [] then [(''diff'', rules_diff (sc_rules cur) new),
                 next_week (e_kind ent) new (skips_of st eid) (astimezone (ev_now ev))] else [])))))))))"

definition schedule_undo :: action where
  "schedule_undo ev rq who st = (let eid = param rq ''id'' in
     commit st (undo (ev_now ev) who eid st) (\<lambda>(st', c). (st', changed_answer st' eid c)))"

definition exceptions_list :: action where
  "exceptions_list ev rq who st =
     (st, reply 200 (JObj [(''exceptions'', JList (map exception_json (exceptions_of st (query_entity rq))))]))"

definition exception_add :: action where
  "exception_add ev rq who st = with_object rq st (''an object with '' @ quoted ''entity_id'' @ '' is required'')
     (\<lambda>d. is_jstr (jget d ''entity_id'')) (\<lambda>d.
       commit st (add_exception (ev_now ev) (ev_fresh ev 0) who (str_at d ''entity_id'') (dict_pop ''entity_id'' d) (today_of ev) st)
         (\<lambda>(st', xid). (st', Inr (reply 201 (JObj [(''id'', JStr xid)])))))"

definition exception_delete :: action where
  "exception_delete ev rq who st =
     commit st (delete_exception (ev_now ev) who (param rq ''id'') st) (\<lambda>st'. (st', Inr no_content))"

section \<open>Timed runs\<close>

definition run_answer :: "env \<Rightarrow> nat \<Rightarrow> db \<Rightarrow> string \<Rightarrow> store_err + response" where
  "run_answer ev status st rid = bind_res (run_of st rid) (\<lambda>r. Inr (reply status (run_view (now_of ev) (status_of ev) r)))"

definition runs_list :: action where
  "runs_list ev rq who st = (let active = query_flag rq ''active'';
       since = (if active then None else Some (timestamp (now_of ev) - 36 * 3600))
     in (st, reply 200 (JObj [(''runs'', JList (map (run_view (now_of ev) (status_of ev)) (runs_of st (query_entity rq) active since)))])))"

definition run_get :: action where
  "run_get ev rq who st = answer st (run_answer ev 200 st (param rq ''id''))"

definition run_create :: action where
  "run_create ev rq who st = with_object rq st ''an object with entity_id and minutes is required''
     (\<lambda>d. is_jstr (jget d ''entity_id'') \<and> only_keys [''entity_id'', ''minutes''] d) (\<lambda>d.
       commit st (start_run (ev_now ev) (ev_fresh ev 0) who (str_at d ''entity_id'') (jget d ''minutes'') st)
         (\<lambda>(st', rid). (st', run_answer ev 201 st' rid)))"

definition run_extend :: action where
  "run_extend ev rq who st = with_object rq st ''an object with minutes is required'' (only_keys [''minutes'']) (\<lambda>d.
     let rid = param rq ''id''
     in commit st (extend_run (ev_now ev) who rid (jget d ''minutes'') st) (\<lambda>st'. (st', run_answer ev 200 st' rid)))"

definition run_cancel :: action where
  "run_cancel ev rq who st = (let rid = param rq ''id'' in
     commit st (cancel_run (ev_now ev) who rid (query_flag rq ''withdraw'') st) (\<lambda>st'. (st', run_answer ev 200 st' rid)))"

section \<open>The children\<close>

definition detail_answer :: "env \<Rightarrow> nat \<Rightarrow> db \<Rightarrow> string \<Rightarrow> store_err + response" where
  "detail_answer ev status st eid = bind_res (child_detail st eid (now_of ev)) (\<lambda>v. Inr (reply status v))"

definition child_list :: action where
  "child_list ev rq who st = answer st (bind_res (map_res (\<lambda>e. child_detail st (e_id e) (now_of ev)) (child_devices st)) (\<lambda>vs.
     Inr (reply 200 (JObj [(''children'', JList vs)]))))"

definition child_get :: action where
  "child_get ev rq who st = answer st (detail_answer ev 200 st (param rq ''id''))"

definition child_device_add :: action where
  "child_device_add ev rq who st =
     with_object rq st ''an object with name and ip (and optional mac, like, label, icon, closed) is required''
       (\<lambda>d. only_keys [''name'', ''ip'', ''mac'', ''like'', ''label'', ''icon'', ''closed''] d
          \<and> is_jstr (jget d ''name'') \<and> is_jstr (jget d ''ip'')
          \<and> list_all (\<lambda>k. jget d k = JNull \<or> is_jstr (jget d k)) [''mac'', ''like'', ''label'', ''icon'']
          \<and> (has_key d ''closed'' \<longrightarrow> jget d ''closed'' \<in> {JBool True, JBool False}))
       (\<lambda>d. commit st (add_child_device (ev_now ev) who (str_at d ''name'') (str_at d ''ip'') (str_or d ''mac'' [])
              (opt_str_at d ''like'') (str_or d ''label'' []) (str_or d ''icon'' ''other'') (truthy (jget d ''closed'')) st)
            (\<lambda>(st', eid). (st', detail_answer ev 201 st' eid)))"

definition child_device_patch :: action where
  "child_device_patch ev rq who st = with_object rq st ''an object with display_name and/or icon (strings) is required''
     (\<lambda>d. d \<noteq> [] \<and> only_keys [''display_name'', ''icon''] d \<and> list_all (\<lambda>(k, v). is_jstr v) d) (\<lambda>d.
       let eid = param rq ''id''
       in commit st (set_child_display (ev_now ev) who eid (opt_str_at d ''display_name'') (opt_str_at d ''icon'') st)
            (\<lambda>st'. (st', detail_answer ev 200 st' eid)))"

definition child_device_remove :: action where
  "child_device_remove ev rq who st = (let eid = param rq ''id'' in
     commit st (remove_child_device (ev_now ev) (ev_fresh ev 0) who eid (\<not> query_flag rq ''forget'') st)
       (\<lambda>(st', rid). (st', bind_res (entity_of st eid) (\<lambda>e. Inr (reply 200 (removal_json (now_of ev) e rid))))))"

definition child_removed_list :: action where
  "child_removed_list ev rq who st = (case child_removed (now_of ev) st of
     (st', rows) \<Rightarrow> (st', reply 200 (JObj [(''removed'', JList (map removed_json rows))])))"

definition child_removed_restore :: action where
  "child_removed_restore ev rq who st =
     commit st (restore_child_device (ev_now ev) (ev_fresh ev) who (param rq ''rid'') st) (\<lambda>(st', eid). (st', detail_answer ev 201 st' eid))"

definition child_exception_add :: action where
  "child_exception_add ev rq who st = with_object rq st ''an object with target and minutes OR until_end_of_day is required''
     (\<lambda>d. only_keys [''target'', ''minutes'', ''until_end_of_day''] d \<and> is_jstr (jget d ''target'')) (\<lambda>d.
       let eod = jget d ''until_end_of_day'' in
       if eod \<notin> {JNull, JBool True, JBool False} then bad_body st ''until_end_of_day must be true or false''
       else commit st (add_child_exception (ev_now ev) (ev_fresh ev 0) who (param rq ''id'') (str_at d ''target'') (jget d ''minutes'') (truthy eod) st)
         (\<lambda>(st', xid). (st', (case find (\<lambda>x. ce_id x = xid) (child_exceptions st' (Some (param rq ''id'')) True (now_of ev)) of
            None \<Rightarrow> Inl (Raised IndexError) | Some x \<Rightarrow> Inr (reply 201 (live_exception_json (now_of ev) x))))))"

definition child_exception_cancel :: action where
  "child_exception_cancel ev rq who st =
     commit st (cancel_child_exception (ev_now ev) who (param rq ''id'') (param rq ''xid'') st) (\<lambda>st'. (st', Inr no_content))"

definition lists_answer :: "db \<Rightarrow> string \<Rightarrow> store_err + response" where
  "lists_answer st eid = Inr (reply 200 (lists_json st eid))"

definition child_domain_add :: action where
  "child_domain_add ev rq who st = with_object rq st ''an object with kind (allow|deny) and domain is required''
     (\<lambda>d. only_keys [''kind'', ''domain''] d \<and> is_jstr (jget d ''kind'')) (\<lambda>d.
       let eid = param rq ''id''
       in commit st (change_child_domain (ev_now ev) who eid (str_at d ''kind'') (jget d ''domain'') True st) (\<lambda>st'. (st', lists_answer st' eid)))"

definition child_domain_remove :: action where
  "child_domain_remove ev rq who st = (case (query rq ''kind'', query rq ''domain'') of
     (Some k, Some d) \<Rightarrow>
       if k \<in> {''allow'', ''deny''} \<and> d \<noteq> [] then
         commit st (change_child_domain (ev_now ev) who (param rq ''id'') k (JStr d) False st) (\<lambda>st'. (st', lists_answer st' (param rq ''id'')))
       else (st, err 400 ''bad_query'' ''kind (allow|deny) and domain are required'' [] [])
   | _ \<Rightarrow> (st, err 400 ''bad_query'' ''kind (allow|deny) and domain are required'' [] []))"

definition child_domain_undo :: action where
  "child_domain_undo ev rq who st =
     commit st (undo_child_domain (ev_now ev) who (param rq ''id'') st) (\<lambda>st'. (st', lists_answer st' (param rq ''id'')))"

definition child_cutover :: action where
  "child_cutover ev rq who st = with_object rq st ''an object with done (true|false) and an optional note is required''
     (\<lambda>d. jget d ''done'' \<in> {JBool True, JBool False} \<and> only_keys [''done'', ''note''] d) (\<lambda>d.
       commit st (set_child_cutover (ev_now ev) who (truthy (jget d ''done'')) (if truthy (jget d ''note'') then take 200 (py_str (jget d ''note'')) else []) st)
         (\<lambda>st'. (st', Inr (reply 200 (JObj [(''cutover'', jopt id (db_cutover st'))])))))"

section \<open>Reads, tokens, import\<close>

text \<open>\<open>_parse_at\<close>: now without a value, none for a text that is no date-time.\<close>

definition parse_at :: "env \<Rightarrow> string option \<Rightarrow> dtime option" where
  "parse_at ev v = (case v of None \<Rightarrow> Some (astimezone (ev_now ev))
     | Some s \<Rightarrow> if s = [] then Some (astimezone (ev_now ev)) else map_option zoned (ev_fromiso ev s))"

definition effective_get :: action where
  "effective_get ev rq who st = (case query_entity rq of
     None \<Rightarrow> (st, err 400 ''bad_query'' ''entity is required'' [] [])
   | Some eid \<Rightarrow> (case parse_at ev (query rq ''at'') of
       None \<Rightarrow> (st, err 400 ''bad_query'' ''at must be an ISO 8601 date-time'' [] [])
     | Some t \<Rightarrow> answer st (bind_res (entity_of st eid) (\<lambda>ent. bind_res (schedule_of st eid) (\<lambda>s.
         Inr (reply 200 (effective_json (effective ent (sc_rules s) (exceptions_for_model st eid) t))))))))"

text \<open>A number before which rows are asked for is bound to a 64-bit column.\<close>

definition audit_get :: action where
  "audit_get ev rq who st =
     (let limit = (case query rq ''limit'' of None \<Rightarrow> Some 50 | Some s \<Rightarrow> py_int s);
          before = (case query rq ''before'' of None \<Rightarrow> Some None | Some s \<Rightarrow> map_option Some (py_int s))
      in case (limit, before) of
           (Some n, Some b) \<Rightarrow>
             if (case b of None \<Rightarrow> True | Some i \<Rightarrow> - (2 ^ 63) \<le> i \<and> i < 2 ^ 63)
             then (st, reply 200 (JObj [(''audit'', JList (map audit_json (audit_list (query rq ''entity'') n b (db_audit st))))]))
             else (st, server_error)
         | _ \<Rightarrow> (st, err 400 ''bad_query'' ''limit and before must be integers'' [] []))"

definition tokens_list :: action where
  "tokens_list ev rq who st = (st, reply 200 (JObj [(''tokens'', JList (tokens_view st))]))"

definition token_create :: action where
  "token_create ev rq who st = with_object rq st ''an object is required'' (\<lambda>d. True) (\<lambda>d.
     commit st (create_token (ev_now ev) (ev_fresh ev 0) (ev_secret ev) who (jget d ''name'') (jget d ''role'') (jget d ''expires'') False st)
       (\<lambda>(st', tid, secret). (st', Inr \<lparr>rs_status = 201, rs_headers = [(''Cache-Control'', ''no-store'')],
          rs_body = Some (JObj [(''id'', JStr tid), (''name'', jget d ''name''), (''role'', jget d ''role''), (''token'', JStr secret)])\<rparr>)))"

definition token_revoke :: action where
  "token_revoke ev rq who st =
     commit st (revoke_token (ev_now ev) who (param rq ''id'') st) (\<lambda>st'. (st', Inr no_content))"

section \<open>The children's policy\<close>

definition child_snapshot_get :: action where
  "child_snapshot_get ev rq who st = answer st (bind_res (snapshot_view st (now_of ev)) (\<lambda>v. Inr (reply 200 v)))"

definition child_policy_get :: action where
  "child_policy_get ev rq who st = answer st (bind_res (policy_view st (ac_role who \<noteq> ''household'')) (\<lambda>v. Inr (reply 200 v)))"

definition child_policy_import :: action where
  "child_policy_import ev rq who st = with_body rq st (\<lambda>data.
     let dry = query_flag rq ''dry_run'' in
     commit st (import_child_policy (ev_now ev) (ev_fresh ev) (ev_fromiso ev) who data dry st) (\<lambda>st'.
       (st', bind_res (import_checks (ev_fromiso ev) (now_of ev) st data) (\<lambda>plan.
          Inr (reply 200 (case import_summary plan of JObj f \<Rightarrow> JObj (dict_set ''dry_run'' (JBool dry) f) | v \<Rightarrow> v))))))"

section \<open>Routes\<close>

text \<open>\<open>build\<close>: method, path, role and handler; \<open>{x}\<close> stands for one non-empty segment.\<close>

definition role_routes :: "(string \<times> string \<times> string \<times> action) list" where
  "role_routes = [
     (''GET'', ''/v1/entities'', ''readonly'', h_entities),
     (''POST'', ''/v1/entities'', ''admin'', entity_add),
     (''PATCH'', ''/v1/entities/{id}'', ''admin'', entity_patch),
     (''PUT'', ''/v1/entities/{id}/guardrails'', ''admin'', guardrails_put),
     (''GET'', ''/v1/schedules'', ''readonly'', h_schedules),
     (''GET'', ''/v1/schedules/{id}'', ''readonly'', schedule_get),
     (''PUT'', ''/v1/schedules/{id}'', ''household'', schedule_put),
     (''POST'', ''/v1/schedules/{id}/preview'', ''readonly'', schedule_preview),
     (''POST'', ''/v1/schedules/{id}/undo'', ''household'', schedule_undo),
     (''GET'', ''/v1/exceptions'', ''readonly'', exceptions_list),
     (''POST'', ''/v1/exceptions'', ''household'', exception_add),
     (''DELETE'', ''/v1/exceptions/{id}'', ''household'', exception_delete),
     (''GET'', ''/v1/runs'', ''readonly'', runs_list),
     (''POST'', ''/v1/runs'', ''household'', run_create),
     (''GET'', ''/v1/runs/{id}'', ''readonly'', run_get),
     (''DELETE'', ''/v1/runs/{id}'', ''household'', run_cancel),
     (''POST'', ''/v1/runs/{id}/extend'', ''household'', run_extend),
     (''GET'', ''/v1/child'', ''readonly'', child_list),
     (''POST'', ''/v1/child'', ''admin'', child_device_add),
     (''GET'', ''/v1/child/snapshot'', ''readonly'', child_snapshot_get),
     (''GET'', ''/v1/child/removed'', ''admin'', child_removed_list),
     (''POST'', ''/v1/child/removed/{rid}/restore'', ''admin'', child_removed_restore),
     (''PUT'', ''/v1/child/cutover'', ''admin'', child_cutover),
     (''GET'', ''/v1/child/{id}'', ''readonly'', child_get),
     (''PATCH'', ''/v1/child/{id}'', ''admin'', child_device_patch),
     (''DELETE'', ''/v1/child/{id}'', ''admin'', child_device_remove),
     (''POST'', ''/v1/child/{id}/exceptions'', ''household'', child_exception_add),
     (''DELETE'', ''/v1/child/{id}/exceptions/{xid}'', ''household'', child_exception_cancel),
     (''POST'', ''/v1/child/{id}/domains'', ''household'', child_domain_add),
     (''DELETE'', ''/v1/child/{id}/domains'', ''household'', child_domain_remove),
     (''POST'', ''/v1/child/{id}/domains/undo'', ''household'', child_domain_undo),
     (''GET'', ''/v1/effective'', ''readonly'', effective_get),
     (''GET'', ''/v1/audit'', ''readonly'', audit_get),
     (''GET'', ''/v1/child-policy'', ''readonly'', child_policy_get),
     (''PUT'', ''/v1/child-policy/import'', ''admin'', child_policy_import),
     (''GET'', ''/v1/tokens'', ''admin'', tokens_list),
     (''POST'', ''/v1/tokens'', ''admin'', token_create),
     (''DELETE'', ''/v1/tokens/{id}'', ''admin'', token_revoke)]"

fun match_segments :: "string list \<Rightarrow> string list \<Rightarrow> (string \<times> string) list option" where
  "match_segments [] [] = Some []"
| "match_segments (p # ps) (s # ss) =
     (case match_segments ps ss of None \<Rightarrow> None
      | Some b \<Rightarrow> if starts_with [CHR 0x7B] p then (if s = [] then None else Some ((tl (butlast p), s) # b))
          else if p = s then Some b else None)"
| "match_segments _ _ = None"

definition match_path :: "string \<Rightarrow> string \<Rightarrow> (string \<times> string) list option" where
  "match_path pat path = match_segments (split_on (CHR ''/'') pat) (split_on (CHR ''/'') path)"

fun find_route :: "(string \<times> string \<times> string \<times> action) list \<Rightarrow> string \<Rightarrow> string \<Rightarrow> ((string \<times> string) list \<times> string \<times> action) option" where
  "find_route [] m path = None"
| "find_route ((rm, pat, need, h) # rs) m path =
     (case match_path pat path of None \<Rightarrow> find_route rs m path
      | Some b \<Rightarrow> if rm = m then Some (b, need, h) else find_route rs m path)"

text \<open>The handler the router calls; none for what it answers itself.\<close>

definition dispatch :: "env \<Rightarrow> string \<Rightarrow> string \<Rightarrow> request \<Rightarrow> app \<Rightarrow> (app \<times> response) option" where
  "dispatch ev m path rq ap =
     (if m = ''GET'' \<and> path = ''/v1/health'' then Some (health ev rq ap)
      else map_option (\<lambda>(b, need, h). authed need h ev (rq\<lparr>rq_params := b\<rparr>) ap) (find_route role_routes m path))"

section \<open>The background loop\<close>

text \<open>
  One round of \<open>background\<close>: a new result of the applier is audited once, runs and exceptions that
  are over are closed.  \<open>last\<close> is the key the loop remembers.
\<close>

definition apply_key :: "fields \<Rightarrow> json list" where
  "apply_key f = [jget f ''seq'', jget f ''result'', jget f ''at'']"

definition background_round :: "env \<Rightarrow> json list option \<times> db \<Rightarrow> json list option \<times> db" where
  "background_round ev s0 = (case s0 of (last_key, st) \<Rightarrow>
     let f = ev_status ev; key = apply_key f;
         (lk, st1) = (if jget f ''result'' \<in> {JStr ''applied'', JStr ''failed''} \<and> last_key \<noteq> Some key
           then (Some key, if db_last_apply st = Some (JList key) then st else record_apply (ev_now ev) (system_actor ''applier'') f st)
           else (last_key, st));
         st2 = fst (expire_runs (now_of ev) st1)
     in (lk, fst (expire_child_exceptions (ev_now ev) st2)))"

end
