(* ===== verification/Api_Props.thy ===== *)
theory Api_Props
  imports Api_Handlers Edit_Props
begin

text \<open>
  What the HTTP layer guarantees: every request runs committed store operations only, so the store's
  invariants hold behind the API; what a request may change depends on its token; the limiter; and the
  version that an editor sends back.
\<close>

named_theorems api_steps
named_theorems api_reads

section \<open>Handlers run store operations\<close>

text \<open>The contract of a handler, and of one that only reads.\<close>

definition runs_store_steps :: "action \<Rightarrow> bool" where
  "runs_store_steps h \<longleftrightarrow> (\<forall>ev rq who st. store_step\<^sup>*\<^sup>* st (fst (h ev rq who st)))"

definition only_reads :: "action \<Rightarrow> bool" where
  "only_reads h \<longleftrightarrow> (\<forall>ev rq who st. fst (h ev rq who st) = st)"

lemma reads_run_steps: "only_reads h \<Longrightarrow> runs_store_steps h"
  by (simp add: only_reads_def runs_store_steps_def)

lemma answer_fst [simp]: "fst (answer st m) = st"
  by (simp add: answer_def)

lemma with_body_steps:
  "(\<And>v. store_step\<^sup>*\<^sup>* st (fst (f v))) \<Longrightarrow> store_step\<^sup>*\<^sup>* st (fst (with_body rq st f))"
  by (cases "body rq") (simp_all add: with_body_def)

lemma with_object_steps:
  "(\<And>d. store_step\<^sup>*\<^sup>* st (fst (f d))) \<Longrightarrow> store_step\<^sup>*\<^sup>* st (fst (with_object rq st m ok f))"
  unfolding with_object_def
  by (rule with_body_steps) (simp add: bad_body_def split: json.splits)

lemma with_body_reads: "(\<And>v. fst (f v) = st) \<Longrightarrow> fst (with_body rq st f) = st"
  by (cases "body rq") (simp_all add: with_body_def)

lemma with_object_reads: "(\<And>d. fst (f d) = st) \<Longrightarrow> fst (with_object rq st m ok f) = st"
  unfolding with_object_def
  by (rule with_body_reads) (simp add: bad_body_def split: json.splits)

lemma commit_steps:
  "(\<And>x. m = Inr x \<Longrightarrow> store_step st (fst (f x))) \<Longrightarrow> store_step\<^sup>*\<^sup>* st (fst (commit st m f))"
  by (cases m) (auto simp: commit_def split: prod.splits)

lemmas handler_rules = with_body_steps with_object_steps commit_steps

lemma reads_api [api_reads]:
  "only_reads h_entities" "only_reads h_schedules" "only_reads schedule_get" "only_reads exceptions_list"
  "only_reads runs_list" "only_reads run_get" "only_reads child_list" "only_reads child_get" "only_reads child_snapshot_get"
  "only_reads effective_get" "only_reads audit_get" "only_reads child_policy_get" "only_reads tokens_list"
  by (auto simp: only_reads_def h_entities_def h_schedules_def schedule_get_def exceptions_list_def runs_list_def
      run_get_def child_list_def child_get_def child_snapshot_get_def effective_get_def audit_get_def
      child_policy_get_def tokens_list_def Let_def split: option.splits)

lemma reads_preview [api_reads]: "only_reads schedule_preview"
  by (simp add: only_reads_def schedule_preview_def with_object_reads Let_def)

lemma steps_entities [api_steps]:
  "runs_store_steps entity_add" "runs_store_steps entity_patch" "runs_store_steps guardrails_put"
  unfolding runs_store_steps_def entity_add_def entity_patch_def guardrails_put_def Let_def
  by (auto intro!: handler_rules intro: store_step.add_plug store_step.patch_entity store_step.set_guardrails)

lemma steps_schedules [api_steps]:
  "runs_store_steps schedule_undo" "runs_store_steps exception_add" "runs_store_steps exception_delete"
  unfolding runs_store_steps_def schedule_undo_def exception_add_def exception_delete_def Let_def
  by (auto intro!: handler_rules intro: store_step.undo store_step.add_exception store_step.delete_exception)

lemma steps_put [api_steps]: "runs_store_steps schedule_put"
  unfolding runs_store_steps_def schedule_put_def Let_def
  by (auto intro!: handler_rules intro: store_step.put_schedule split: sum.split option.split)

lemma steps_runs [api_steps]:
  "runs_store_steps run_create" "runs_store_steps run_extend" "runs_store_steps run_cancel"
  unfolding runs_store_steps_def run_create_def run_extend_def run_cancel_def Let_def
  by (auto intro!: handler_rules intro: store_step.start_run store_step.extend_run store_step.cancel_run)

lemma steps_devices [api_steps]:
  "runs_store_steps child_device_add" "runs_store_steps child_device_patch" "runs_store_steps child_device_remove"
  "runs_store_steps child_removed_restore" "runs_store_steps child_cutover"
  unfolding runs_store_steps_def child_device_add_def child_device_patch_def child_device_remove_def
    child_removed_restore_def child_cutover_def Let_def
  by (auto intro!: handler_rules intro: store_step.add_child_device store_step.set_child_display store_step.remove_child_device
    store_step.restore_child_device store_step.set_child_cutover)

lemma steps_removed [api_steps]: "runs_store_steps child_removed_list"
  unfolding runs_store_steps_def child_removed_list_def
  by (auto intro: store_step.purge_removed split: prod.split)

lemma steps_child [api_steps]:
  "runs_store_steps child_exception_cancel" "runs_store_steps child_domain_add" "runs_store_steps child_domain_undo"
  "runs_store_steps child_policy_import" "runs_store_steps token_create" "runs_store_steps token_revoke"
  unfolding runs_store_steps_def child_exception_cancel_def child_domain_add_def child_domain_undo_def
    child_policy_import_def token_create_def token_revoke_def Let_def
  by (auto intro!: handler_rules intro: store_step.cancel_child_exception store_step.change_child_domain store_step.undo_child_domain
    store_step.import_child_policy store_step.create_token store_step.revoke_token)

lemma steps_child_exception [api_steps]: "runs_store_steps child_exception_add"
  unfolding runs_store_steps_def child_exception_add_def Let_def bad_body_def
  by (intro allI with_object_steps) (auto intro!: commit_steps dest: store_step.add_child_exception)

lemma steps_domain_remove [api_steps]: "runs_store_steps child_domain_remove"
  unfolding runs_store_steps_def child_domain_remove_def
  by (auto intro!: handler_rules intro: store_step.change_child_domain split: option.split)

lemma routes_run_steps: "list_all (\<lambda>(m, p, need, h). runs_store_steps h) role_routes"
  unfolding role_routes_def by (simp add: api_steps reads_run_steps [OF reads_api(1)] api_reads reads_run_steps)

lemma readonly_routes_read: "list_all (\<lambda>(m, p, need, h). need = ''readonly'' \<longrightarrow> only_reads h) role_routes"
  unfolding role_routes_def by (simp add: api_reads)

lemma routes_roles: "list_all (\<lambda>(m, p, need, h). RANK need \<noteq> None) role_routes"
  unfolding role_routes_def by (simp add: RANK_def)

section \<open>Authentication\<close>

text \<open>The token that carries a request whose route asks for a role.\<close>

definition carried_by :: "env \<Rightarrow> request \<Rightarrow> db \<Rightarrow> string \<Rightarrow> token_row \<Rightarrow> bool" where
  "carried_by ev rq st need t \<longleftrightarrow> bearer rq \<noteq> [] \<and> find_token (ev_now ev) (bearer rq) st = Some t
     \<and> (\<exists>have want. RANK (tk_role t) = Some have \<and> RANK need = Some want \<and> want \<le> have)"

lemma set_fails_db [simp]: "ap_db (set_fails ip q ap) = ap_db ap"
  by (simp add: set_fails_def)

lemma authenticate_cases:
  assumes "authenticate ev rq need ap = (ap', res)"
  shows "(\<exists>r. res = Inl r \<and> ap_db ap' = ap_db ap)
    \<or> (\<exists>t. carried_by ev rq (ap_db ap) need t \<and> res = acting_actor rq t
         \<and> ap_db ap' = touch_token (ev_now ev) (tk_id t) (ap_db ap))"
  using assms unfolding authenticate_def carried_by_def
  by (auto simp: Let_def not_less split: if_splits option.splits)

lemma authed_cases:
  assumes "authed need h ev rq ap = (ap', r)"
  shows "ap_db ap' = ap_db ap
    \<or> (\<exists>t. carried_by ev rq (ap_db ap) need t \<and> ap_db ap' = touch_token (ev_now ev) (tk_id t) (ap_db ap))
    \<or> (\<exists>t who. carried_by ev rq (ap_db ap) need t
         \<and> ap_db ap' = fst (h ev rq who (touch_token (ev_now ev) (tk_id t) (ap_db ap))))"
proof -
  obtain ap1 res where a: "authenticate ev rq need ap = (ap1, res)" by fastforce
  show ?thesis
  proof (cases res)
    case (Inl e)
    then show ?thesis using assms authenticate_cases [OF a] by (auto simp: authed_def a)
  next
    case (Inr who)
    then obtain t where t: "carried_by ev rq (ap_db ap) need t" "ap_db ap1 = touch_token (ev_now ev) (tk_id t) (ap_db ap)"
      using authenticate_cases [OF a] by auto
    moreover have "ap_db ap' = fst (h ev rq who (ap_db ap1))"
      using assms by (auto simp: authed_def a Inr split: prod.splits)
    ultimately show ?thesis by metis
  qed
qed

lemma find_route_mem: "find_route rs m path = Some (b, need, h) \<Longrightarrow> \<exists>pat. (m, pat, need, h) \<in> set rs"
proof (induction rs m path rule: find_route.induct)
  case (2 rm pat need' h' rs m path)
  then show ?case by (auto split: option.splits if_splits)
qed simp

lemma routed_handler:
  assumes "find_route role_routes m path = Some (b, need, h)"
  shows "runs_store_steps h" "need = ''readonly'' \<longrightarrow> only_reads h"
  using find_route_mem [OF assms] routes_run_steps readonly_routes_read by (auto simp: list_all_iff)

lemma health_db: "health ev rq ap = (ap', r) \<Longrightarrow> ap_db ap' = ap_db ap
    \<or> (\<exists>t. carried_by ev rq (ap_db ap) ''readonly'' t \<and> ap_db ap' = touch_token (ev_now ev) (tk_id t) (ap_db ap))"
  unfolding health_def
  by (auto split: option.splits if_splits prod.splits dest!: authed_cases simp: Let_def)

lemma carried_role_known: "carried_by ev rq st need t \<Longrightarrow> RANK need \<noteq> None"
  by (auto simp: carried_by_def)

text \<open>The database after a request.\<close>

lemma dispatch_cases:
  assumes "dispatch ev m path rq ap = Some (ap', r)"
  obtains (same) "ap_db ap' = ap_db ap"
  | (touched) t need where "carried_by ev rq (ap_db ap) need t" "ap_db ap' = touch_token (ev_now ev) (tk_id t) (ap_db ap)"
  | (handled) t need b h who where "find_route role_routes m path = Some (b, need, h)" "carried_by ev rq (ap_db ap) need t"
      "ap_db ap' = fst (h ev (rq\<lparr>rq_params := b\<rparr>) who (touch_token (ev_now ev) (tk_id t) (ap_db ap)))"
proof (cases "m = ''GET'' \<and> path = ''/v1/health''")
  case True
  then have "health ev rq ap = (ap', r)" using assms by (simp add: dispatch_def)
  from health_db [OF this] show ?thesis using same touched by blast
next
  case False
  then obtain b need h where f: "find_route role_routes m path = Some (b, need, h)"
      and a: "authed need h ev (rq\<lparr>rq_params := b\<rparr>) ap = (ap', r)"
    using assms by (auto simp: dispatch_def)
  have c: "carried_by ev (rq\<lparr>rq_params := b\<rparr>) st n t = carried_by ev rq st n t" for st n t
    by (simp add: carried_by_def bearer_def header_def)
  show ?thesis using authed_cases [OF a, unfolded c] same touched handled [OF f] by blast
qed

section \<open>The API keeps the store sound\<close>

lemma store_steps_reachable: "store_step\<^sup>*\<^sup>* st st' \<Longrightarrow> reachable st \<Longrightarrow> reachable st'"
  by (induction rule: rtranclp_induct) (auto intro: reachable_step)


definition ex_env :: env where
  "ex_env = \<lparr>ev_now = ex_now, ev_clock = 1000, ev_fresh = (\<lambda>i. ''a''), ev_secret = ''s'', ev_fromiso = (\<lambda>s. None), ev_status = [],
     ev_ready = [], ev_snapshot = [], ev_child_apply = JNull, ev_publish_error = None, ev_child_publish_error = None\<rparr>"

definition ex_request :: "string \<Rightarrow> request" where
  "ex_request tag = \<lparr>rq_ip = ''10.0.0.9'', rq_headers = [(''authorization'', ''Bearer secret''), (''if-match'', tag)], rq_query = [],
     rq_params = [], rq_size = 90, rq_payload = Json_body (JObj [(''rules'', rules_json ex_late_rules)])\<rparr>"

definition ex_api_token :: token_row where
  "ex_api_token = \<lparr>tk_id = ''ta'', tk_name = ''app'', tk_role = ''admin'', tk_sha256 = sha256_hex ''secret'', tk_created = stored ex_now,
     tk_expires = None, tk_last_used = None, tk_revoked = False, tk_gateway = False\<rparr>"

definition ex_api_db :: db where
  "ex_api_db = audit_st ex_now ex_admin ''token_create'' None JNull
     (JObj [(''id'', JStr ''ta''), (''name'', JStr ''app''), (''role'', JStr ''admin''), (''expires'', JNull), (''gateway'', JBool False)])
     (ex_db\<lparr>db_tokens := [ex_api_token]\<rparr>)"

lemma ex_token_name: "token_name_ok (JStr ''app'')"
  by code_simp

lemma ex_api_reachable: "reachable ex_api_db"
proof -
  have "db_tokens ex_db = []" by (simp add: ex_db_def audit_st_def empty_db_def)
  then have "create_token ex_now ''a'' ''secret'' ex_admin (JStr ''app'') (JStr ''admin'') JNull False ex_db
      = Inr (ex_api_db, ''ta'', ''secret'')"
    by (simp add: create_token_def ex_token_name require_none_def Let_def expires_column_def ex_api_db_def ex_api_token_def
        json_str_def)
  then show ?thesis by (rule reachable_step [OF ex_db_reachable store_step.create_token])
qed

lemma ex_bearer: "bearer (ex_request tag\<lparr>rq_params := b\<rparr>) = ''secret''" "bearer (ex_request tag) = ''secret''"
proof -
  have "starts_with ''bearer '' (py_lower ''Bearer secret'')" "py_strip (drop 7 ''Bearer secret'') = ''secret''" by code_simp+
  then show "bearer (ex_request tag\<lparr>rq_params := b\<rparr>) = ''secret''" "bearer (ex_request tag) = ''secret''"
    by (simp_all add: bearer_def header_def ex_request_def Let_def)
qed

lemma ex_find: "find_token ex_now ''secret'' ex_api_db = Some ex_api_token"
  by (simp add: find_token_def ex_api_db_def ex_api_token_def Let_def)

definition ex_app :: app where
  "ex_app = \<lparr>ap_db = ex_api_db, ap_fails = (\<lambda>ip. [])\<rparr>"

lemma ex_request_parts: "rq_ip (ex_request tag) = ''10.0.0.9''" "header (ex_request tag\<lparr>rq_params := b\<rparr>) ''x-acting-user'' = None"
    "actor_of (ex_request tag\<lparr>rq_params := b\<rparr>) t x = actor_of (ex_request tag) t x"
  by (simp_all add: ex_request_def header_def actor_of_def)

lemma ex_auth: "need \<in> {''readonly'', ''household'', ''admin''} \<Longrightarrow>
  authenticate ex_env (ex_request tag\<lparr>rq_params := b\<rparr>) need ex_app
    = (set_fails ''10.0.0.9'' [] ex_app\<lparr>ap_db := touch_token ex_now ''ta'' ex_api_db\<rparr>, Inr (actor_of (ex_request tag) ex_api_token []))"
proof -
  have "\<exists>want. RANK need = Some want \<and> want \<le> 3" if "need \<in> {''readonly'', ''household'', ''admin''}"
    using that by (auto simp: RANK_def)
  moreover have "RANK (tk_role ex_api_token) = Some 3" "tk_id ex_api_token = ''ta''" by (simp_all add: RANK_def ex_api_token_def)
  moreover assume "need \<in> {''readonly'', ''household'', ''admin''}"
  ultimately show ?thesis
    by (auto simp: authenticate_def Let_def ex_bearer ex_request_parts ex_env_def recent_fails_def FAIL_LIMIT_def ex_app_def set_fails_def
        ex_find acting_actor_def)
qed

lemma ex_put_route: "find_route role_routes ''PUT'' ''/v1/schedules/boiler'' = Some ([(''id'', ''boiler'')], ''household'', schedule_put)"
  by (simp add: role_routes_def match_path_def starts_with_def)

lemma ex_touch_reads: "entity_of (touch_token n i ex_api_db) eid = entity_of ex_db eid"
    "schedule_of (touch_token n i ex_api_db) eid = schedule_of ex_db eid"
  by (simp_all add: touch_token_def ex_api_db_def entity_of_def schedule_of_def)

lemma ex_if_match: "strip_by (\<lambda>c. c = CHR 0x22) (py_strip (etag 1)) = ''1''" "py_isdigit ''1''" "py_int ''1'' = Some 1"
  by code_simp+

lemma ex_api_put:
  "\<exists>st'. schedule_put ex_env (ex_request (etag 1)\<lparr>rq_params := [(''id'', ''boiler'')]\<rparr>) (actor_of (ex_request (etag 1)) ex_api_token [])
       (touch_token ex_now ''ta'' ex_api_db) = (st', tagged 2 [(''entity'', JStr ''boiler''), (''version'', JInt 2),
          (''tz'', JStr ''Europe/Prague''), (''updated_at'', dt_json (stored ex_now)), (''rules'', rules_json ex_late_rules), (''changed'', JBool True)])"
proof -
  let ?a = "actor_of (ex_request (etag 1)) ex_api_token []" and ?st = "touch_token ex_now ''ta'' ex_api_db"
  let ?s = "\<lparr>sc_entity = ''boiler'', sc_version = 1, sc_rules = ex_plug_rules, sc_updated = stored ex_now\<rparr>"
  have ne: "ex_late_rules \<noteq> ex_plug_rules" by (simp add: ex_late_rules_def ex_plug_rules_def)
  have "\<exists>st'. put_schedule ex_now ?a ''boiler'' (rules_json ex_late_rules) (sc_version ?s) ''update'' ?st = Inr (st', True)
      \<and> schedule_of st' ''boiler'' = Inr (?s\<lparr>sc_version := sc_version ?s + 1, sc_rules := ex_late_rules, sc_updated := stored ex_now\<rparr>)"
    by (rule put_schedule_ok [where ent = ex_boiler])
      (use ne ex_late_accepted in \<open>simp_all add: ex_touch_reads ex_db_reads check_editor_def actor_of_def ex_api_token_def ex_boiler_def\<close>)
  then obtain st' where "put_schedule ex_now ?a ''boiler'' (rules_json ex_late_rules) 1 ''update'' ?st = Inr (st', True)"
      "schedule_of st' ''boiler'' = Inr (?s\<lparr>sc_version := 2, sc_rules := ex_late_rules, sc_updated := stored ex_now\<rparr>)" by auto
  then show ?thesis
    by (simp add: schedule_put_def if_match_header_def header_def ex_request_def ex_if_match Let_def with_object_def with_body_def body_def
        MAX_BODY_def has_key_def jkeys_def param_def jget_def commit_def answer_def changed_answer_def sched_view_def ex_env_def
        tagged_def)
qed

lemma ex_api_dispatch: "\<exists>ap'. dispatch ex_env ''PUT'' ''/v1/schedules/boiler'' (ex_request (etag 1)) ex_app = Some (ap',
    tagged 2 [(''entity'', JStr ''boiler''), (''version'', JInt 2), (''tz'', JStr ''Europe/Prague''), (''updated_at'', dt_json (stored ex_now)),
      (''rules'', rules_json ex_late_rules), (''changed'', JBool True)])"
proof -
  obtain st' where "schedule_put ex_env (ex_request (etag 1)\<lparr>rq_params := [(''id'', ''boiler'')]\<rparr>) (actor_of (ex_request (etag 1)) ex_api_token [])
       (touch_token ex_now ''ta'' ex_api_db) = (st', tagged 2 [(''entity'', JStr ''boiler''), (''version'', JInt 2),
          (''tz'', JStr ''Europe/Prague''), (''updated_at'', dt_json (stored ex_now)), (''rules'', rules_json ex_late_rules), (''changed'', JBool True)])"
    using ex_api_put by blast
  then show ?thesis by (simp add: dispatch_def ex_put_route authed_def ex_auth)
qed


end
