(* ===== verification/Api_Access.thy ===== *)
theory Api_Access
  imports Api_Props
begin

text \<open>
  What a request may do: the token it needs, the limiter of failed attempts, the version an editor
  sends back, and the audit of the applier's results.
\<close>

section \<open>Tokens and roles\<close>

text \<open>
  C13: a request changes the database only with a live token in its header, of a role that reaches the role
  of its route; a token of role \<open>readonly\<close> leaves everything but its own time of last use; and the
  acting person is recorded only for a token that is flagged as the gateway's.
\<close>

theorem api_needs_token:
  assumes "dispatch ev m path rq ap = Some (ap', r)"
  shows "(ap_db ap' \<noteq> ap_db ap \<longrightarrow> (\<exists>t need. find_token (ev_now ev) (bearer rq) (ap_db ap) = Some t \<and> bearer rq \<noteq> []
      \<and> (\<exists>have want. RANK (tk_role t) = Some have \<and> RANK need = Some want \<and> want \<le> have)
      \<and> (ap_db ap' = touch_token (ev_now ev) (tk_id t) (ap_db ap)
         \<or> tk_role t \<noteq> ''readonly'' \<and> (\<exists>b h. find_route role_routes m path = Some (b, need, h)))))
    \<and> (\<forall>t a. acting_actor rq t = Inr a \<and> map_of (ac_more a) ''acting'' \<noteq> None \<longrightarrow> tk_gateway t)"
proof -
  have act: "tk_gateway t" if "acting_actor rq t = Inr a" "map_of (ac_more a) ''acting'' \<noteq> None" for t a
    using that by (auto simp: acting_actor_def actor_of_def split: option.splits if_splits)
  from assms have "\<exists>t need. find_token (ev_now ev) (bearer rq) (ap_db ap) = Some t \<and> bearer rq \<noteq> []
      \<and> (\<exists>have want. RANK (tk_role t) = Some have \<and> RANK need = Some want \<and> want \<le> have)
      \<and> (ap_db ap' = touch_token (ev_now ev) (tk_id t) (ap_db ap)
         \<or> tk_role t \<noteq> ''readonly'' \<and> (\<exists>b h. find_route role_routes m path = Some (b, need, h)))"
    if ne: "ap_db ap' \<noteq> ap_db ap"
  proof (cases rule: dispatch_cases)
    case (touched t need)
    then show ?thesis by (auto simp: carried_by_def)
  next
    case (handled t need b h who)
    have "ap_db ap' = touch_token (ev_now ev) (tk_id t) (ap_db ap)" if ro: "tk_role t = ''readonly''"
    proof -
      obtain want where "RANK need = Some want" "want \<le> 1"
        using handled(2) by (auto simp: carried_by_def RANK_def ro)
      then have "need = ''readonly''" by (auto simp: RANK_def split: if_splits)
      then show ?thesis using routed_handler(2) [OF handled(1)] handled(3) by (simp add: only_reads_def)
    qed
    then show ?thesis using handled(1,2) by (auto simp: carried_by_def)
  qed (use ne in simp)
  then show ?thesis using act by blast
qed

lemma api_needs_token_witness:
  "\<exists>ap' r. dispatch ex_env ''PUT'' ''/v1/schedules/boiler'' (ex_request (etag 1)) ex_app = Some (ap', r)
     \<and> (\<forall>t a. acting_actor (ex_request (etag 1)) t = Inr a \<and> map_of (ac_more a) ''acting'' \<noteq> None \<longrightarrow> tk_gateway t)"
  using ex_api_dispatch api_needs_token by blast

section \<open>The limiter\<close>

text \<open>What the limiter keeps: at most ten times per address, in order, none in the future.\<close>

definition limits_ok :: "rat \<Rightarrow> app \<Rightarrow> bool" where
  "limits_ok now ap \<longleftrightarrow> (\<forall>ip. length (ap_fails ap ip) \<le> FAIL_LIMIT \<and> sorted (ap_fails ap ip) \<and> (\<forall>t\<in>set (ap_fails ap ip). t \<le> now))"

lemma recent_fails_set: "set (recent_fails now q) \<subseteq> set q"
  by (auto simp: recent_fails_def dest: set_dropWhileD)

lemma recent_fails_length: "length (recent_fails now q) \<le> length q"
  by (simp add: recent_fails_def length_dropWhile_le)

lemma recent_fails_sorted: "sorted q \<Longrightarrow> sorted (recent_fails now q)"
  unfolding recent_fails_def by (induction q) auto

lemma recent_fails_filter: "sorted q \<Longrightarrow> recent_fails now q = filter (\<lambda>t. now - FAIL_WINDOW \<le> t) q"
  unfolding recent_fails_def by (induction q) (force simp: not_less intro: filter_True [symmetric])+

lemma limits_step:
  assumes "limits_ok t0 ap" "t0 \<le> now" "q = recent_fails now (ap_fails ap ip)"
  shows "limits_ok now (set_fails ip q ap)"
    "length q < FAIL_LIMIT \<Longrightarrow> limits_ok now (set_fails ip (q @ [now]) ap)"
proof -
  have q: "sorted q" "length q \<le> FAIL_LIMIT" "\<forall>t\<in>set q. t \<le> now"
    using assms recent_fails_set [of now "ap_fails ap ip"] recent_fails_length [of now "ap_fails ap ip"]
      recent_fails_sorted [of "ap_fails ap ip" now] unfolding limits_ok_def by (blast, force, force)
  show "limits_ok now (set_fails ip q ap)"
    using assms q by (force simp: limits_ok_def set_fails_def)
  show "limits_ok now (set_fails ip (q @ [now]) ap)" if "length q < FAIL_LIMIT"
    using assms q that by (force simp: limits_ok_def set_fails_def sorted_append)
qed

lemma limits_db [simp]: "limits_ok now (ap\<lparr>ap_db := st\<rparr>) = limits_ok now ap"
  by (simp add: limits_ok_def)

lemma set_fails_twice [simp]: "set_fails ip q (set_fails ip q' ap) = set_fails ip q ap"
  by (simp add: set_fails_def)

lemma authenticate_limits:
  assumes "limits_ok t0 ap" "t0 \<le> ev_clock ev" "authenticate ev rq need ap = (ap', res)"
  shows "limits_ok (ev_clock ev) ap'"
  using assms(3) limits_step [OF assms(1,2) refl, of "rq_ip rq"] unfolding authenticate_def
  by (auto simp: Let_def not_le split: if_splits option.splits)

lemma authed_limits:
  assumes "limits_ok t0 ap" "t0 \<le> ev_clock ev" "authed need h ev rq ap = (ap', r)"
  shows "limits_ok (ev_clock ev) ap'"
proof -
  obtain ap1 res where a: "authenticate ev rq need ap = (ap1, res)" by fastforce
  show ?thesis using assms(3) authenticate_limits [OF assms(1,2) a]
    by (cases res) (auto simp: authed_def a split: prod.splits)
qed

text \<open>
  the limiter never remembers more than ten failures of an address; while ten of them lie within the
  last 300 seconds every request of that address to a role route is answered 429 and changes nothing,
  whatever token it carries; with fewer, a live token of the route's role is let through.
\<close>

theorem rate_limit:
  assumes "limits_ok t0 ap" "t0 \<le> ev_clock ev" "find_route role_routes m path = Some (b, need, h)"
    and "dispatch ev m path rq ap = Some (ap', r)" "path \<noteq> ''/v1/health''"
  shows "limits_ok (ev_clock ev) ap'
    \<and> (let recent = filter (\<lambda>t. ev_clock ev - 300 \<le> t) (ap_fails ap (rq_ip rq))
       in if FAIL_LIMIT \<le> length recent then rs_status r = 429 \<and> ap_db ap' = ap_db ap
          else (\<forall>t who. carried_by ev rq (ap_db ap) need t \<and> acting_actor rq t = Inr who
             \<longrightarrow> (ap_db ap', r) = h ev (rq\<lparr>rq_params := b\<rparr>) who (touch_token (ev_now ev) (tk_id t) (ap_db ap))
               \<and> ap_fails ap' (rq_ip rq) = recent))"
proof -
  let ?rq = "rq\<lparr>rq_params := b\<rparr>" and ?q = "recent_fails (ev_clock ev) (ap_fails ap (rq_ip rq))"
  have a: "authed need h ev ?rq ap = (ap', r)"
    using assms(3-5) by (simp add: dispatch_def)
  have q: "filter (\<lambda>t. ev_clock ev - 300 \<le> t) (ap_fails ap (rq_ip rq)) = ?q"
    using assms(1) recent_fails_filter by (simp add: limits_ok_def FAIL_WINDOW_def)
  have "actor_of ?rq t f = actor_of rq t f" for t f by (simp add: actor_of_def)
  then have rq: "bearer ?rq = bearer rq" "acting_actor ?rq t = acting_actor rq t" for t
    by (simp_all add: bearer_def header_def acting_actor_def split: option.split)
  have "rs_status r = 429 \<and> ap_db ap' = ap_db ap" if "FAIL_LIMIT \<le> length ?q"
    using a that by (auto simp: authed_def authenticate_def Let_def err_def)
  moreover have "(ap_db ap', r) = h ev ?rq who (touch_token (ev_now ev) (tk_id t) (ap_db ap)) \<and> ap_fails ap' (rq_ip rq) = ?q"
    if "\<not> FAIL_LIMIT \<le> length ?q" "carried_by ev rq (ap_db ap) need t" "acting_actor rq t = Inr who" for t who
    using a that by (auto simp: authed_def authenticate_def Let_def carried_by_def rq set_fails_def split: prod.splits)
  ultimately show ?thesis using authed_limits [OF assms(1,2) a] unfolding q Let_def
    by (simp only: if_split) blast
qed

lemma rate_limit_witness:
  "\<exists>ap' r. dispatch ex_env ''PUT'' ''/v1/schedules/boiler'' (ex_request (etag 1)) (ex_app\<lparr>ap_fails := (\<lambda>ip. replicate 10 900)\<rparr>) = Some (ap', r)
     \<and> rs_status r = 429 \<and> ap_db ap' = ex_api_db"
proof -
  let ?ap = "ex_app\<lparr>ap_fails := (\<lambda>ip. replicate 10 900)\<rparr>"
  have l: "limits_ok 900 ?ap" "900 \<le> ev_clock ex_env" by (simp_all add: limits_ok_def FAIL_LIMIT_def ex_env_def)
  obtain ap' r where d: "dispatch ex_env ''PUT'' ''/v1/schedules/boiler'' (ex_request (etag 1)) ?ap = Some (ap', r)"
    by (cases "dispatch ex_env ''PUT'' ''/v1/schedules/boiler'' (ex_request (etag 1)) ?ap") (auto simp: dispatch_def ex_put_route)
  show ?thesis using d rate_limit [OF l ex_put_route d]
    by (auto simp: Let_def ex_env_def FAIL_LIMIT_def ex_app_def ex_request_def)
qed

section \<open>Versions over HTTP\<close>

lemma dropWhile_none: "s \<noteq> [] \<Longrightarrow> list_all (\<lambda>c. \<not> p c) s \<Longrightarrow> dropWhile p (s @ t) = s @ t"
  by (cases s) auto

lemma etag_parts: "strip_by (\<lambda>c. c = CHR 0x22) (py_strip (etag (int n))) = str_nat n"
proof -
  have d: "list_all (\<lambda>c. \<not> is_space c) (str_nat n)" "list_all (\<lambda>c. \<not> c = CHR 0x22) (str_nat n)"
    using str_nat_digits [of n] is_digit_not_space by (auto simp: list_all_iff)
  have e: "etag (int n) = CHR 0x22 # str_nat n @ [CHR 0x22]" by (simp add: etag_def str_int_def)
  have "list_all (\<lambda>c. \<not> is_space c) (etag (int n))" using d(1) by (simp add: e) (simp add: is_space_def)
  then have "py_strip (etag (int n)) = etag (int n)" unfolding py_strip_def by (rule strip_none)
  moreover have "dropWhile (\<lambda>c. c = CHR 0x22) (str_nat n @ t) = str_nat n @ t" for t
    by (rule dropWhile_none [OF str_nat_not_Nil d(2)])
  moreover from this [of "[]"] have "dropWhile (\<lambda>c. c = CHR 0x22) (str_nat n) = str_nat n" by simp
  moreover have "dropWhile (\<lambda>c. c = CHR 0x22) (rev (str_nat n) @ t) = rev (str_nat n) @ t" for t
    by (rule dropWhile_none) (use str_nat_not_Nil d(2) in \<open>auto simp: list_all_iff\<close>)
  ultimately show ?thesis by (simp add: strip_by_def rstrip_by_def lstrip_by_def e)
qed

lemma if_match_etag: "header rq ''if-match'' = Some (etag v) \<Longrightarrow> 0 \<le> v \<Longrightarrow> if_match_header rq = Inr (Some v)"
proof -
  assume h: "header rq ''if-match'' = Some (etag v)" and v: "0 \<le> v"
  obtain n where n: "v = int n" using v nonneg_int_cases by blast
  have "py_isdigit (str_nat n)" using str_nat_digits [of n] str_nat_not_Nil [of n] by (auto simp: py_isdigit_def list_all_iff)
  then show ?thesis by (simp add: if_match_header_def h Let_def n etag_parts py_int_str_nat)
qed

text \<open>
  a schedule is written over HTTP only by an editor who sends back the ETag of the stored version: the
  answer 200 means that the tag was the current one, and it carries the tag of the version stored now; any
  other answer leaves the database as it was, and without the tag the answer is 428.
\<close>

theorem put_by_etag:
  assumes "schedule_put ev rq who st = (st', r)"
  shows "(header rq ''if-match'' = None \<longrightarrow> rs_status r = 428 \<and> st' = st)
    \<and> (\<forall>v. header rq ''if-match'' = Some (etag v) \<and> 0 \<le> v \<longrightarrow>
        (if rs_status r = 200
         then \<exists>s s'. schedule_of st (param rq ''id'') = Inr s \<and> sc_version s = v \<and> schedule_of st' (param rq ''id'') = Inr s'
           \<and> rs_headers r = [(''ETag'', etag (sc_version s'))] \<and> (st' = st \<or> sc_version s' = v + 1)
         else st' = st))"
proof -
  let ?eid = "param rq ''id''"
  have none: "rs_status r = 428 \<and> st' = st" if "header rq ''if-match'' = None"
    using assms that by (auto simp: schedule_put_def if_match_header_def err_def)
  have some: "if rs_status r = 200
         then \<exists>s s'. schedule_of st ?eid = Inr s \<and> sc_version s = v \<and> schedule_of st' ?eid = Inr s'
           \<and> rs_headers r = [(''ETag'', etag (sc_version s'))] \<and> (st' = st \<or> sc_version s' = v + 1)
         else st' = st" if h: "header rq ''if-match'' = Some (etag v)" "0 \<le> v" for v
  proof -
    have im: "if_match_header rq = Inr (Some v)" by (rule if_match_etag [OF h])
    consider (bad) "st' = st" "rs_status r \<noteq> 200"
      | (written) d where "commit st (put_schedule (ev_now ev) who ?eid (jget d ''rules'') v ''update'' st)
            (\<lambda>(st', c). (st', changed_answer st' ?eid c)) = (st', r)"
      using assms unfolding schedule_put_def im with_object_def with_body_def body_def bad_body_def err_def
      by (auto simp: Let_def split: if_splits payload.splits json.splits)
    then show ?thesis
    proof cases
      case bad
      then show ?thesis by simp
    next
      case (written d)
      show ?thesis
      proof (cases "put_schedule (ev_now ev) who ?eid (jget d ''rules'') v ''update'' st")
        case (Inl e)
        then have "st' = st" "r = guard_error e" using written by (auto simp: commit_def)
        then show ?thesis by (auto simp: guard_error_def err_def server_error_def split: store_err.splits option.splits)
      next
        case (Inr x)
        obtain st1 c where x: "x = (st1, c)" by fastforce
        obtain s :: sched_row and rs where s: "schedule_of st ?eid = Inr s" "v = sc_version s"
          "schedule_of st1 ?eid = Inr (if c then s\<lparr>sc_version := sc_version s + 1, sc_rules := rs, sc_updated := stored (ev_now ev)\<rparr> else s)"
          using put_schedule_row [OF Inr [unfolded x]] by blast
        have same: "\<not> c \<Longrightarrow> st1 = st" using put_schedule_cases [OF Inr [unfolded x]] by auto
        have "st' = st1" "rs_status r = 200" using written s(3)
          by (auto simp: commit_def Inr x answer_def changed_answer_def sched_view_def tagged_def)
        moreover have "rs_headers r = [(''ETag'', etag (sc_version (if c then s\<lparr>sc_version := sc_version s + 1, sc_rules := rs,
             sc_updated := stored (ev_now ev)\<rparr> else s)))]" using written s(3)
          by (auto simp: commit_def Inr x answer_def changed_answer_def sched_view_def tagged_def)
        ultimately show ?thesis using s same by (cases c) simp_all
      qed
    qed
  qed
  show ?thesis using none some by blast
qed

lemma put_by_etag_witness:
  "\<exists>st' r. schedule_put ex_env (ex_request (etag 1)\<lparr>rq_params := [(''id'', ''boiler'')]\<rparr>) (actor_of (ex_request (etag 1)) ex_api_token [])
       (touch_token ex_now ''ta'' ex_api_db) = (st', r) \<and> rs_headers r = [(''ETag'', etag 2)]"
proof -
  let ?rq = "ex_request (etag 1)\<lparr>rq_params := [(''id'', ''boiler'')]\<rparr>"
  let ?a = "actor_of (ex_request (etag 1)) ex_api_token []" and ?st = "touch_token ex_now ''ta'' ex_api_db"
  obtain st' f where p: "schedule_put ex_env ?rq ?a ?st = (st', tagged 2 f)" using ex_api_put by blast
  have "header ?rq ''if-match'' = Some (etag 1)" by (simp add: header_def ex_request_def)
  moreover have "\<exists>s. schedule_of ?st (param ?rq ''id'') = Inr s \<and> sc_version s = 1"
    using conjunct2 [OF put_by_etag [OF p], rule_format, of 1] calculation by (auto simp: tagged_def)
  moreover have "rs_headers (tagged 2 f) = [(''ETag'', etag 2)]" by (simp add: tagged_def)
  ultimately show ?thesis using p by blast
qed

end
