(* ===== verification/Relay_Url.thy ===== *)
theory Relay_Url
  imports Complex_Main Child_Policy
begin

text \<open>
  \<open>relay/relay.py\<close>, what may be asked: the allow-list with its per-host limits, the rules for a URL
  (with \<open>urllib.parse.urlsplit\<close> and \<open>ipaddress\<close> as far as they are used) and for the address
  a name resolves to.  Floats of the source are rational numbers; the encoding of a non-ASCII host name
  (IDNA) is the parameter \<open>idna\<close>.
\<close>

section \<open>Texts\<close>

text \<open>\<open>s.partition(c)\<close> without the separator.\<close>

definition before_char :: "char \<Rightarrow> string \<Rightarrow> string" where
  "before_char c s = takeWhile (\<lambda>x. x \<noteq> c) s"

definition after_char :: "char \<Rightarrow> string \<Rightarrow> string" where
  "after_char c s = drop 1 (dropWhile (\<lambda>x. x \<noteq> c) s)"

lemma before_after_char: "c \<in> set s \<Longrightarrow> before_char c s @ [c] @ after_char c s = s"
proof (induction s)
  case (Cons x xs)
  then show ?case by (auto simp: before_char_def after_char_def)
qed simp

section \<open>Floats\<close>

datatype py_float = Float_num rat | Float_inf | Float_neg_inf | Float_nan

definition dec_digits :: "string \<Rightarrow> bool" where \<comment> \<open>digits with single underscores between them\<close>
  "dec_digits s \<longleftrightarrow> s \<noteq> [] \<and> list_all (\<lambda>p. p \<noteq> [] \<and> list_all is_digit p) (split_on (CHR ''_'') s)"

definition digits_of :: "string \<Rightarrow> string" where
  "digits_of s = filter (\<lambda>c. c \<noteq> CHR ''_'') s"

definition mantissa :: "string \<Rightarrow> rat option" where
  "mantissa s = (let a = before_char (CHR ''.'') s; b = after_char (CHR ''.'') s; db = digits_of b in
     if (dec_digits a \<or> a = []) \<and> (dec_digits b \<or> b = []) \<and> (a \<noteq> [] \<or> b \<noteq> [])
     then Some (of_int (dec_val (digits_of a @ db)) / 10 ^ length db) else None)"

definition exponent :: "string \<Rightarrow> int option" where
  "exponent s = (case s of [] \<Rightarrow> None
     | c # cs \<Rightarrow> if c = CHR ''-'' then (if dec_digits cs then Some (- dec_val (digits_of cs)) else None)
         else let d = (if c = CHR ''+'' then cs else s) in if dec_digits d then Some (dec_val (digits_of d)) else None)"

definition unsigned_float :: "string \<Rightarrow> py_float option" where
  "unsigned_float s =
     (if s = ''inf'' \<or> s = ''infinity'' then Some Float_inf else if s = ''nan'' then Some Float_nan
      else if CHR ''e'' \<in> set s
      then (case (mantissa (before_char (CHR ''e'') s), exponent (after_char (CHR ''e'') s)) of
          (Some m, Some x) \<Rightarrow> Some (Float_num (if x < 0 then m / 10 ^ nat (- x) else m * 10 ^ nat x)) | _ \<Rightarrow> None)
      else map_option Float_num (mantissa s))"

text \<open>\<open>float(s)\<close> of a text in lower case.\<close>

definition py_float_of :: "string \<Rightarrow> py_float option" where
  "py_float_of s = (case py_strip s of [] \<Rightarrow> None
     | c # cs \<Rightarrow> if c = CHR ''-'' then map_option (\<lambda>f. case f of Float_num x \<Rightarrow> Float_num (- x) | Float_inf \<Rightarrow> Float_neg_inf | y \<Rightarrow> y) (unsigned_float cs)
         else if c = CHR ''+'' then unsigned_float cs else unsigned_float (c # cs))"

section \<open>The allow-list\<close>

type_synonym allow_rule_line = "string \<times> string list" \<comment> \<open>pattern, flags in the order the set is iterated\<close>

definition parse_rule :: "string \<Rightarrow> allow_rule_line option" where
  "parse_rule line = (let l = py_lower (py_strip (before_char (CHR ''#'') line)) in
     case py_words l of [] \<Rightarrow> None | host # fl \<Rightarrow> Some (host, remdups fl))"

definition load_allowlist :: "string option \<Rightarrow> allow_rule_line list" where \<comment> \<open>\<open>None\<close>: the file cannot be read\<close>
  "load_allowlist text = (case text of None \<Rightarrow> [] | Some t \<Rightarrow> List.map_filter parse_rule (split_on newline t))"

definition HARD_MAX :: "string \<Rightarrow> rat option" where
  "HARD_MAX k = map_of [(''rate'', 5), (''burst'', 10), (''concurrency'', 6)] k"

record relay_conf =
  cf_secret :: string
  cf_allowlist :: "string option"
  cf_ts_window :: int
  cf_max_body :: nat
  cf_total_timeout :: rat
  cf_rate :: rat
  cf_burst :: rat
  cf_host_concurrency :: int
  cf_global_concurrency :: nat
  cf_daily_cap :: int
  cf_breaker_threshold :: int
  cf_breaker_cooldown :: rat
  cf_auth_fail_per_min :: nat
  cf_trusted_proxies :: "string list"

text \<open>\<open>max(0.1, min(v, mx))\<close>; a comparison with a not-a-number is false.\<close>

definition clamp :: "py_float \<Rightarrow> rat \<Rightarrow> rat" where
  "clamp v mx = (case v of Float_num x \<Rightarrow> max (1 / 10) (min x mx) | Float_inf \<Rightarrow> max (1 / 10) mx | _ \<Rightarrow> 1 / 10)"

type_synonym limits = "rat \<times> rat \<times> rat" \<comment> \<open>rate, burst, concurrency before it is made whole\<close>

definition set_limit :: "limits \<Rightarrow> string \<Rightarrow> limits" where
  "set_limit mx f = (case mx of (r, b, c) \<Rightarrow>
     if CHR ''='' \<notin> set f then mx
     else let k = before_char (CHR ''='') f in
       case (HARD_MAX k, py_float_of (after_char (CHR ''='') f)) of
         (Some cap, Some v) \<Rightarrow> let x = clamp v cap in
           if k = ''rate'' then (x, b, c) else if k = ''burst'' then (r, x, c) else (r, b, x)
       | _ \<Rightarrow> mx)"

definition host_limits :: "relay_conf \<Rightarrow> string list \<Rightarrow> rat \<times> rat \<times> nat" where
  "host_limits cf fl = (case foldl set_limit (cf_rate cf, cf_burst cf, of_int (cf_host_concurrency cf)) fl of
     (r, b, c) \<Rightarrow> (r, b, nat (max 1 \<lfloor>c\<rfloor>)))"

definition host_matches :: "string \<Rightarrow> string \<Rightarrow> bool" where
  "host_matches pat host \<longleftrightarrow> (if starts_with ''*.'' pat then ends_with (drop 1 pat) host \<and> host \<noteq> drop 2 pat else host = pat)"

definition match_allowlist :: "relay_conf \<Rightarrow> string \<Rightarrow> allow_rule_line option" where
  "match_allowlist cf host = find (\<lambda>(pat, fl). host_matches pat host) (load_allowlist (cf_allowlist cf))"

section \<open>Addresses\<close>

definition ip4_octet :: "string \<Rightarrow> bool" where
  "ip4_octet s \<longleftrightarrow> s \<noteq> [] \<and> length s \<le> 3 \<and> list_all is_digit s \<and> (length s = 1 \<or> hd s \<noteq> CHR ''0'') \<and> dec_val s \<le> 255"

definition is_ip4 :: "string \<Rightarrow> bool" where
  "is_ip4 s \<longleftrightarrow> (let ps = split_on (CHR ''.'') s in length ps = 4 \<and> list_all ip4_octet ps)"

definition is_hextet :: "string \<Rightarrow> bool" where
  "is_hextet s \<longleftrightarrow> s \<noteq> [] \<and> length s \<le> 4 \<and> list_all is_hex s"

text \<open>
  \<open>IPv6Address\<close>: the parts between colons, a dotted quad at the end counting as two; at most one
  empty part inside, which stands for at least one group; an empty first or last part only next to it.
\<close>

definition ip6_parts :: "string list \<Rightarrow> bool" where
  "ip6_parts ps \<longleftrightarrow> (let n = length ps; gaps = filter (\<lambda>i. ps ! i = []) [1..<n - 1] in
     n \<le> 9 \<and> (case gaps of
       [] \<Rightarrow> n = 8 \<and> list_all is_hextet ps
     | [g] \<Rightarrow> (let hi = (if hd ps = [] then g - 1 else g); lo = (if last ps = [] then n - g - 2 else n - g - 1)
         in (hd ps = [] \<longrightarrow> hi = 0) \<and> (last ps = [] \<longrightarrow> lo = 0) \<and> hi + lo < 8 \<and> list_all (\<lambda>p. p = [] \<or> is_hextet p) ps)
     | _ \<Rightarrow> False))"

definition is_ip6 :: "string \<Rightarrow> bool" where
  "is_ip6 s \<longleftrightarrow> (let addr = before_char (CHR ''%'') s; zone = after_char (CHR ''%'') s; ps = split_on (CHR '':'') addr
     in (CHR ''%'' \<in> set s \<longrightarrow> zone \<noteq> [] \<and> CHR ''%'' \<notin> set zone) \<and> CHR ''/'' \<notin> set s \<and> 3 \<le> length ps
      \<and> (if CHR ''.'' \<in> set (last ps) then is_ip4 (last ps) \<and> ip6_parts (butlast ps @ [''0'', ''0'']) else ip6_parts ps))"

definition is_ip :: "string \<Rightarrow> bool" where
  "is_ip s \<longleftrightarrow> is_ip4 s \<or> is_ip6 s"

text \<open>\<open>is_global\<close> of an IPv4 address: neither private nor in 100.64.0.0/10.\<close>

definition v4_global :: "int list \<Rightarrow> bool" where
  "v4_global q \<longleftrightarrow> \<not> v4_private q \<and> (case q of [a, b, c, d] \<Rightarrow> \<not> (a = 100 \<and> 64 \<le> b \<and> b \<le> 127) | _ \<Rightarrow> False)"

definition v4_multicast :: "int list \<Rightarrow> bool" where
  "v4_multicast q \<longleftrightarrow> (case q of a # rest \<Rightarrow> 224 \<le> a \<and> a \<le> 239 | _ \<Rightarrow> False)"

definition is_public_v4 :: "string \<Rightarrow> bool" where
  "is_public_v4 addr \<longleftrightarrow> is_ip4 addr \<and> v4_global (quad_values addr) \<and> \<not> v4_multicast (quad_values addr)"

section \<open>URLs\<close>

record refusal =
  rf_status :: nat
  rf_reason :: string
  rf_detail :: string

definition refuse :: "nat \<Rightarrow> string \<Rightarrow> string \<Rightarrow> refusal" where
  "refuse s r d = \<lparr>rf_status = s, rf_reason = r, rf_detail = d\<rparr>"

record split_url =
  su_scheme :: string
  su_netloc :: string
  su_path :: string
  su_query :: string
  su_fragment :: string

definition scheme_char :: "char \<Rightarrow> bool" where
  "scheme_char c \<longleftrightarrow> is_lower c \<or> is_upper c \<or> is_digit c \<or> c \<in> {CHR ''+'', CHR ''-'', CHR ''.''}"

text \<open>Scheme and rest: the text before the first colon when it is made of scheme characters.\<close>

definition split_scheme :: "string \<Rightarrow> string \<times> string" where
  "split_scheme url = (let s = before_char (CHR '':'') url in
     if CHR '':'' \<in> set url \<and> s \<noteq> [] \<and> (is_lower (hd s) \<or> is_upper (hd s)) \<and> list_all scheme_char s
     then (py_lower s, after_char (CHR '':'') url) else ([], url))"

definition url_delim :: "char \<Rightarrow> bool" where
  "url_delim c \<longleftrightarrow> c \<in> {CHR ''/'', CHR ''?'', CHR ''#''}"

text \<open>A bracketed host must be an IPv6 literal, or of the future form \<open>v1.x\<close>.\<close>

definition bracketed_ok :: "string \<Rightarrow> bool" where
  "bracketed_ok h \<longleftrightarrow> (if starts_with ''v'' h
     then (let t = drop 1 h; x = before_char (CHR ''.'') t in x \<noteq> [] \<and> list_all is_hex x \<and> CHR ''.'' \<in> set t \<and> after_char (CHR ''.'') t \<noteq> [])
     else is_ip6 h)"

text \<open>What stands before and after the brackets: nothing, and nothing or a port.\<close>

definition brackets_ok :: "string \<Rightarrow> bool" where
  "brackets_ok netloc \<longleftrightarrow> (let o' = CHR ''[''; c = CHR '']'' in
     (o' \<in> set netloc) = (c \<in> set netloc)
     \<and> (o' \<in> set netloc \<longrightarrow>
         (let h = (if CHR ''@'' \<in> set netloc then rev (before_char (CHR ''@'') (rev netloc)) else netloc);
              b = after_char o' h; rest = after_char c b
          in if o' \<in> set h
             then before_char o' h = [] \<and> (rest = [] \<or> starts_with '':'' rest) \<and> bracketed_ok (before_char c b)
             else bracketed_ok (before_char (CHR '':'') h))))"

definition urlsplit :: "string \<Rightarrow> split_url option" where \<comment> \<open>of a text without control characters and blanks\<close>
  "urlsplit url = (case split_scheme url of (scheme, r0) \<Rightarrow>
     let has = starts_with ''//'' r0;
         netloc = (if has then takeWhile (\<lambda>c. \<not> url_delim c) (drop 2 r0) else []);
         r1 = (if has then dropWhile (\<lambda>c. \<not> url_delim c) (drop 2 r0) else r0);
         r2 = before_char (CHR ''#'') r1
     in if brackets_ok netloc
        then Some \<lparr>su_scheme = scheme, su_netloc = netloc, su_path = before_char (CHR ''?'') r2,
               su_query = after_char (CHR ''?'') r2, su_fragment = after_char (CHR ''#'') r1\<rparr>
        else None)"

text \<open>\<open>_hostinfo\<close> of a netloc without user information: host and port text.\<close>

definition hostinfo :: "string \<Rightarrow> string \<times> string" where
  "hostinfo netloc = (if CHR ''['' \<in> set netloc
     then (let b = after_char (CHR ''['') netloc in (before_char (CHR '']'') b, after_char (CHR '':'') (after_char (CHR '']'') b)))
     else (before_char (CHR '':'') netloc, after_char (CHR '':'') netloc))"

text \<open>\<open>u.port\<close>: none, a number up to 65535, or an error.\<close>

definition url_port :: "string \<Rightarrow> unit + int option" where
  "url_port netloc = (let p = snd (hostinfo netloc) in
     if p = [] then Inr None
     else if list_all is_digit p \<and> dec_val p \<le> 65535 then Inr (Some (dec_val p)) else Inl ())"

text \<open>\<open>u.hostname\<close>: in lower case up to a zone.\<close>

definition url_hostname :: "string \<Rightarrow> string" where
  "url_hostname netloc = (let h = fst (hostinfo netloc) in
     if CHR ''%'' \<in> set h then py_lower (before_char (CHR ''%'') h) @ CHR ''%'' # after_char (CHR ''%'') h else py_lower h)"

definition is_ascii :: "string \<Rightarrow> bool" where
  "is_ascii s \<longleftrightarrow> list_all (\<lambda>c. (of_char c :: nat) < 128) s"

text \<open>\<open>host.encode("idna")\<close>: the labels of an ASCII name are only measured.\<close>

definition idna_labels_ok :: "string \<Rightarrow> bool" where
  "idna_labels_ok s \<longleftrightarrow> (let ls = split_on (CHR ''.'') s in
     list_all (\<lambda>l. l \<noteq> [] \<and> length l < 64) (butlast ls) \<and> length (last ls) < 64)"

definition encode_idna :: "(string \<Rightarrow> string option) \<Rightarrow> string \<Rightarrow> string option" where
  "encode_idna idna s = (if is_ascii s then (if idna_labels_ok s then Some s else None) else idna s)"

definition MAX_URL_LEN :: nat where "MAX_URL_LEN = 2048"

definition MAX_REDIRECTS :: nat where "MAX_REDIRECTS = 3"

definition bad_url_char :: "char \<Rightarrow> bool" where
  "bad_url_char c \<longleftrightarrow> (of_char c :: nat) \<le> 32 \<or> (of_char c :: nat) = 127 \<or> c = CHR 0x5C"

record target =
  tg_host :: string
  tg_path :: string
  tg_flags :: "string list"

definition check_host :: "relay_conf \<Rightarrow> (string \<Rightarrow> string option) \<Rightarrow> split_url \<Rightarrow> refusal + target" where
  "check_host cf idna u =
     (let raw = py_lower (rstrip_by (\<lambda>c. c = CHR ''.'') (url_hostname (su_netloc u))) in
      if raw = [] then Inl (refuse 400 ''url_no_host'' [])
      else case encode_idna idna raw of
          None \<Rightarrow> Inl (refuse 400 ''url_bad_idn'' [])
        | Some host \<Rightarrow>
            if is_ip host then Inl (refuse 403 ''ip_literal_host'' [])
            else (case match_allowlist cf host of
                None \<Rightarrow> Inl (refuse 403 ''host_not_allowlisted'' host)
              | Some (pat, fl) \<Rightarrow>
                  Inr \<lparr>tg_host = host, tg_path = (if su_path u = [] then ''/'' else su_path u)
                        @ (if su_query u = [] then [] else CHR ''?'' # su_query u), tg_flags = fl\<rparr>))"

definition validate_url :: "relay_conf \<Rightarrow> (string \<Rightarrow> string option) \<Rightarrow> string \<Rightarrow> refusal + target" where
  "validate_url cf idna raw =
     (if MAX_URL_LEN < length raw then Inl (refuse 400 ''url_too_long'' [])
      else if list_ex bad_url_char raw then Inl (refuse 400 ''url_bad_chars'' [])
      else case urlsplit raw of None \<Rightarrow> Inl (refuse 400 ''url_unparsable'' [])
        | Some u \<Rightarrow>
            if su_scheme u \<noteq> ''https'' then Inl (refuse 403 ''scheme_not_https'' [])
            else if CHR ''@'' \<in> set (su_netloc u) then Inl (refuse 403 ''userinfo_in_url'' [])
            else (case url_port (su_netloc u) of
                Inl e \<Rightarrow> Inl (refuse 400 ''url_bad_port'' [])
              | Inr p \<Rightarrow> if p \<notin> {None, Some 443} then Inl (refuse 403 ''port_not_allowed'' [])
                  else check_host cf idna u))"

end
