(* ===== verification/Relay_State.thy ===== *)
theory Relay_State
  imports Relay_Url Sha256 Api_Views
begin

text \<open>
  \<open>relay.py\<close>, what it remembers: the token bucket of each host, the circuit breaker and the day's use
  (the file \<open>relay.json\<close>), the signatures seen and the failed attempts of each source, and the check of
  a signature.  Times are the readings of the clocks the source uses, as rational seconds.
\<close>

section \<open>The token bucket\<close>

record host_gate =
  hg_limits :: "rat \<times> rat \<times> nat"
  hg_tokens :: rat
  hg_at :: rat

definition gate_rate :: "host_gate \<Rightarrow> rat" where "gate_rate g = fst (hg_limits g)"

definition gate_burst :: "host_gate \<Rightarrow> rat" where "gate_burst g = fst (snd (hg_limits g))"

definition new_gate :: "rat \<Rightarrow> rat \<times> rat \<times> nat \<Rightarrow> host_gate" where
  "new_gate now limits = \<lparr>hg_limits = limits, hg_tokens = fst (snd limits), hg_at = now\<rparr>"

definition refill :: "rat \<Rightarrow> host_gate \<Rightarrow> host_gate" where
  "refill now g = g\<lparr>hg_tokens := min (gate_burst g) (hg_tokens g + (now - hg_at g) * gate_rate g), hg_at := now\<rparr>"

definition try_take :: "rat \<Rightarrow> host_gate \<Rightarrow> bool \<times> host_gate" where
  "try_take now g = (let g' = refill now g in
     if 1 \<le> hg_tokens g' then (True, g'\<lparr>hg_tokens := hg_tokens g' - 1\<rparr>) else (False, g'))"

text \<open>
  \<open>take\<close>: one try per 0.1 s until the wait is over; a tick holds the reading of the try and the one
  compared with the end.  None: the readings given do not reach the end.
\<close>

fun gate_take :: "rat \<Rightarrow> (rat \<times> rat) list \<Rightarrow> host_gate \<Rightarrow> (bool \<times> host_gate) option" where
  "gate_take stop [] g = None"
| "gate_take stop ((now, later) # ticks) g =
     (case try_take now g of (True, g') \<Rightarrow> Some (True, g')
      | (False, g') \<Rightarrow> if stop \<le> later then Some (False, g') else gate_take stop ticks g')"

definition WAIT_MAX :: rat where "WAIT_MAX = 3"

section \<open>The state\<close>

datatype relay_event = Private_address string string | Breaker_open string | Cap80 int | Auth_fail string

record relay =
  ry_killed :: bool
  ry_daily :: "(string \<times> int \<times> bool) option" \<comment> \<open>day, used, alerted\<close>
  ry_breaker :: "string \<Rightarrow> (int \<times> rat) option" \<comment> \<open>streak, open until\<close>
  ry_gates :: "string \<Rightarrow> host_gate option"
  ry_seen :: "(string \<times> rat) list" \<comment> \<open>signature, expiry\<close>
  ry_fails :: "string \<Rightarrow> rat list"
  ry_events :: "relay_event list"
  ry_counts :: "string list" \<comment> \<open>the reasons counted, latest last\<close>

definition event :: "relay_event \<Rightarrow> relay \<Rightarrow> relay" where
  "event e st = st\<lparr>ry_events := ry_events st @ [e]\<rparr>"

definition count_reason :: "string \<Rightarrow> relay \<Rightarrow> relay" where
  "count_reason r st = st\<lparr>ry_counts := ry_counts st @ [r]\<rparr>"

definition gate_for :: "relay_conf \<Rightarrow> rat \<Rightarrow> string \<Rightarrow> string list \<Rightarrow> relay \<Rightarrow> host_gate" where
  "gate_for cf now host fl st = (let limits = host_limits cf fl in
     case ry_gates st host of Some g \<Rightarrow> if hg_limits g = limits then g else new_gate now limits
       | None \<Rightarrow> new_gate now limits)"

definition set_gate :: "string \<Rightarrow> host_gate \<Rightarrow> relay \<Rightarrow> relay" where
  "set_gate host g st = st\<lparr>ry_gates := (ry_gates st)(host := Some g)\<rparr>"

section \<open>Circuit breaker and daily use\<close>

definition breaker_check :: "rat \<Rightarrow> string \<Rightarrow> relay \<Rightarrow> refusal option" where
  "breaker_check now host st = (case ry_breaker st host of None \<Rightarrow> None
     | Some (streak, until) \<Rightarrow> if now < until
         then Some (refuse 503 ''circuit_open'' (host @ '' until '' @ str_int \<lfloor>until\<rfloor>)) else None)"

definition breaker_record :: "relay_conf \<Rightarrow> rat \<Rightarrow> string \<Rightarrow> bool \<Rightarrow> relay \<Rightarrow> relay" where
  "breaker_record cf now host bad st =
     (case (case ry_breaker st host of None \<Rightarrow> (0, 0) | Some b \<Rightarrow> b) of (streak, until) \<Rightarrow>
      let set = (\<lambda>b. st\<lparr>ry_breaker := (ry_breaker st)(host := Some b)\<rparr>) in
      if \<not> bad then set (0, until)
      else if cf_breaker_threshold cf \<le> streak + 1
      then event (Breaker_open host) (set (0, now + cf_breaker_cooldown cf))
      else set (streak + 1, until))"

definition daily_count :: "string \<Rightarrow> relay \<Rightarrow> int \<times> bool" where
  "daily_count today st = (case ry_daily st of None \<Rightarrow> (0, False)
     | Some (day, n, alerted) \<Rightarrow> if day = today then (n, alerted) else (0, False))"

definition daily_use :: "relay_conf \<Rightarrow> string \<Rightarrow> bool \<Rightarrow> relay \<Rightarrow> int \<times> relay" where
  "daily_use cf today increment st = (case daily_count today st of (n, alerted) \<Rightarrow>
     if \<not> increment then (n, st\<lparr>ry_daily := Some (today, n, alerted)\<rparr>)
     else let m = n + 1 in
       if (4 / 5) * of_int (cf_daily_cap cf) \<le> (of_int m :: rat) \<and> \<not> alerted
       then (m, event (Cap80 m) (st\<lparr>ry_daily := Some (today, m, True)\<rparr>))
       else (m, st\<lparr>ry_daily := Some (today, m, alerted)\<rparr>))"

section \<open>Signatures\<close>

text \<open>\<open>hmac.new(key, msg, sha256).hexdigest()\<close> of RFC 2104.\<close>

definition word_bytes :: "32 word \<Rightarrow> int list" where
  "word_bytes w = map (\<lambda>i. uint w div 256 ^ (3 - i) mod 256) [0..<4]"

definition sha256_bytes :: "int list \<Rightarrow> int list" where
  "sha256_bytes bs = concat (map word_bytes (sha256_words bs))"

definition hmac_key :: "int list \<Rightarrow> int list" where
  "hmac_key k = (let k' = (if 64 < length k then sha256_bytes k else k) in k' @ replicate (64 - length k') 0)"

definition hmac_hex :: "int list \<Rightarrow> int list \<Rightarrow> string" where
  "hmac_hex k m = (let key = hmac_key k in
     concat (map word_hex (sha256_words (map (\<lambda>b. b XOR 92) key @ sha256_bytes (map (\<lambda>b. b XOR 54) key @ m)))))"

definition sign :: "relay_conf \<Rightarrow> string \<Rightarrow> string \<Rightarrow> string" where
  "sign cf ts url = hmac_hex (utf8 (cf_secret cf)) (utf8 (ts @ newline # url))"

record relay_request =
  rx_peer :: string
  rx_headers :: "(string \<times> string) list" \<comment> \<open>names in lower case\<close>
  rx_line :: nat \<comment> \<open>length of the request's path with its query\<close>
  rx_path :: string
  rx_url :: string \<comment> \<open>the parameter \<open>url\<close>, empty when it is missing\<close>

definition rx_header :: "relay_request \<Rightarrow> string \<Rightarrow> string" where
  "rx_header rq k = (case map_of (rx_headers rq) k of None \<Rightarrow> [] | Some v \<Rightarrow> v)"

definition source_of :: "relay_conf \<Rightarrow> relay_request \<Rightarrow> string" where
  "source_of cf rq =
     (if rx_peer rq \<in> set (cf_trusted_proxies cf) then
        let cfip = rx_header rq ''cf-connecting-ip''; xf = (if cfip = [] then rx_header rq ''x-forwarded-for'' else cfip)
        in if xf \<noteq> [] then take 45 (py_strip (before_char (CHR '','') xf)) else rx_peer rq
      else rx_peer rq)"

datatype relay_err = Refused refusal | Crashed py_exn

definition AUTH_WINDOW :: rat where "AUTH_WINDOW = 60"

definition live_fails :: "rat \<Rightarrow> rat list \<Rightarrow> rat list" where
  "live_fails now fails = filter (\<lambda>t. now - t < AUTH_WINDOW) fails"

text \<open>
  Whether the signature is right and in time.  \<open>compare_digest\<close> refuses a text that is not ASCII with
  an exception.
\<close>

definition signature_ok :: "relay_conf \<Rightarrow> rat \<Rightarrow> string \<Rightarrow> string \<Rightarrow> string \<Rightarrow> py_exn + bool" where
  "signature_ok cf now ts sig url =
     (if sig = [] then Inr False
      else case py_int ts of None \<Rightarrow> Inr False
        | Some t \<Rightarrow> if of_int (cf_ts_window cf) < \<bar>now - of_int t\<bar> then Inr False
            else if \<not> is_ascii sig then Inl TypeError else Inr (sig = sign cf ts url))"

definition live_seen :: "rat \<Rightarrow> (string \<times> rat) list \<Rightarrow> (string \<times> rat) list" where
  "live_seen now seen = filter (\<lambda>(s, e). now \<le> e) seen"

definition auth_failed :: "rat \<Rightarrow> string \<Rightarrow> relay \<Rightarrow> relay" where
  "auth_failed now src st = event (Auth_fail src) (st\<lparr>ry_fails := (ry_fails st)(src := ry_fails st src @ [now])\<rparr>)"

definition check_auth :: "relay_conf \<Rightarrow> rat \<Rightarrow> relay_request \<Rightarrow> relay \<Rightarrow> relay \<times> (relay_err + unit)" where
  "check_auth cf now rq st0 =
     (let ts = rx_header rq ''x-relay-ts''; sig = rx_header rq ''x-relay-sig''; src = source_of cf rq;
          fails = live_fails now (ry_fails st0 src); st = st0\<lparr>ry_fails := (ry_fails st0)(src := fails)\<rparr>;
          bad = Inl (Refused (refuse 401 ''bad_signature'' []))
      in if cf_auth_fail_per_min cf \<le> length fails then (st, Inl (Refused (refuse 429 ''auth_rate_limited'' [])))
         else case signature_ok cf now ts sig (rx_url rq) of
             Inl x \<Rightarrow> (st, Inl (Crashed x))
           | Inr False \<Rightarrow> (auth_failed now src st, bad)
           | Inr True \<Rightarrow>
               let seen = live_seen now (ry_seen st) in
               if sig \<in> fst ` set seen then (auth_failed now src (count_reason ''replay'' (st\<lparr>ry_seen := seen\<rparr>)), bad)
               else (st\<lparr>ry_seen := seen @ [(sig, now + 2 * of_int (cf_ts_window cf))]\<rparr>, Inr ()))"

end
