(* ===== verification/Relay_Fetch.thy ===== *)
theory Relay_Fetch
  imports Relay_State
begin

text \<open>
  \<open>relay.py\<close>, the fetch: resolution to a pinned public address, one hop with its response shaping,
  the redirect loop, and the front end.  Outside the program, and parameters here: the name service, the
  peer (what a connection to an address yields), \<open>zlib\<close> (\<open>inflate\<close>: the chunks so far, the next one and the
  output limit give the output and whether input is left over) and whether a semaphore is got in time.
\<close>

section \<open>Resolution\<close>

definition resolve_public :: "(string \<Rightarrow> string list option) \<Rightarrow> string \<Rightarrow> relay \<Rightarrow> relay \<times> (refusal + string)" where
  "resolve_public dns host st = (case dns host of
     None \<Rightarrow> (st, Inl (refuse 502 ''dns_failed'' host))
   | Some addrs \<Rightarrow>
       if addrs = [] then (st, Inl (refuse 502 ''dns_no_ipv4'' host))
       else (case filter (\<lambda>a. \<not> is_public_v4 a) addrs of
           [] \<Rightarrow> (st, Inr (hd addrs))
         | a # rest \<Rightarrow> (event (Private_address host a) st, Inl (refuse 403 ''private_address'' (host @ '' -> '' @ a)))))"

section \<open>One hop\<close>

datatype chunk_read = Chunk string | Read_timeout | Read_error rat string

record upstream =
  up_status :: int
  up_location :: "string option"
  up_ctype :: "string option"
  up_encoding :: "string option"
  up_cookies :: "string list"
  up_lang :: "string option"
  up_stream :: "(rat \<times> chunk_read) list" \<comment> \<open>clock before each read; the end of the list is the end of the body\<close>

datatype net_reply = No_connection string | Request_failed rat string | Answered upstream

record hop_result =
  hr_status :: int
  hr_loc :: "string option"
  hr_body :: string
  hr_ctype :: string
  hr_cookies :: "string list"
  hr_lang :: "string option"

record hop_env =
  he_wall :: rat \<comment> \<open>\<open>time.time()\<close>\<close>
  he_mono :: rat \<comment> \<open>\<open>time.monotonic()\<close>\<close>
  he_sem :: bool
  he_ticks :: "(rat \<times> rat) list"
  he_dns :: "string \<Rightarrow> string list option"
  he_net :: "string \<Rightarrow> string \<Rightarrow> string \<Rightarrow> (string \<times> string) list \<Rightarrow> net_reply" \<comment> \<open>address, host, path, headers\<close>

definition TEXT_TYPES :: "string list" where
  "TEXT_TYPES = [''text/'', ''application/json'', ''application/xhtml+xml'', ''application/xml'', ''application/ld+json'']"

definition IMAGE_TYPES :: "string list" where
  "IMAGE_TYPES = [''image/jpeg'', ''image/png'', ''image/webp'', ''image/gif'']"

definition BROWSER_UA :: string where
  "BROWSER_UA = ''Mozilla/5.0 (Windows NT 10.0; Win64; x64) AppleWebKit/537.36 (KHTML, like Gecko) Chrome/129.0.0.0 Safari/537.36''"

definition put_header :: "(string \<times> string) list \<Rightarrow> string \<times> string \<Rightarrow> (string \<times> string) list" where
  "put_header hs h = (if fst h \<in> fst ` set hs then map (\<lambda>x. if fst x = fst h then h else x) hs else hs @ [h])"

definition hop_headers :: "string list \<Rightarrow> (string \<times> string) list \<Rightarrow> (string \<times> string) list" where
  "hop_headers fl caller = foldl put_header
     [(''User-Agent'', BROWSER_UA), (''Accept-Encoding'', ''gzip''), (''Connection'', ''close'')]
     (filter (\<lambda>(k, v). k = ''Cookie'' \<longrightarrow> ''cookies'' \<in> set fl) caller)"

definition media_type :: "string option \<Rightarrow> string" where
  "media_type v = (case v of None \<Rightarrow> [] | Some s \<Rightarrow> py_lower (py_strip (before_char (CHR '';'') s)))"

definition type_allowed :: "string list \<Rightarrow> string \<Rightarrow> bool" where
  "type_allowed fl ctype \<longleftrightarrow> list_ex (\<lambda>t. starts_with t ctype) (TEXT_TYPES @ (if ''images'' \<in> set fl then IMAGE_TYPES else []))"

definition net_error :: "rat \<Rightarrow> rat \<Rightarrow> string \<Rightarrow> refusal" where
  "net_error deadline now e = (if deadline \<le> now then refuse 504 ''timeout'' [] else refuse 502 ''upstream_error'' e)"

text \<open>The loop that reads the body: deadline, decompression with a capped output, size.\<close>

fun read_body :: "relay_conf \<Rightarrow> (string list \<Rightarrow> string \<Rightarrow> nat \<Rightarrow> (string \<times> bool) option) \<Rightarrow> bool \<Rightarrow> rat \<Rightarrow> string list \<Rightarrow> string
    \<Rightarrow> (rat \<times> chunk_read) list \<Rightarrow> refusal + string" where
  "read_body cf inflate gz deadline past acc [] = Inr acc"
| "read_body cf inflate gz deadline past acc ((now, c) # rest) =
     (if deadline < now then Inl (refuse 504 ''timeout_reading_body'' [])
      else case c of
          Read_timeout \<Rightarrow> Inl (refuse 504 ''timeout_reading_body'' [])
        | Read_error t e \<Rightarrow> Inl (net_error deadline t e)
        | Chunk raw \<Rightarrow>
            if raw = [] then Inr acc
            else (case (if gz then inflate past raw (cf_max_body cf + 1 - length acc) else Some (raw, False)) of
                None \<Rightarrow> Inl (net_error deadline now ''error'')
              | Some (out, left_over) \<Rightarrow>
                  if cf_max_body cf < length acc + length out then Inl (refuse 502 ''body_too_large'' [])
                  else read_body cf inflate gz deadline (past @ [raw]) (acc @ out) rest))"

definition shape_reply :: "relay_conf \<Rightarrow> (string list \<Rightarrow> string \<Rightarrow> nat \<Rightarrow> (string \<times> bool) option) \<Rightarrow> string list \<Rightarrow> rat \<Rightarrow> upstream
    \<Rightarrow> refusal + hop_result" where
  "shape_reply cf inflate fl deadline u =
     (let ctype = media_type (up_ctype u); enc = py_lower (case up_encoding u of None \<Rightarrow> [] | Some s \<Rightarrow> s) in
      if 300 \<le> up_status u \<and> up_status u < 400 \<and> up_status u \<noteq> 304
      then Inr \<lparr>hr_status = up_status u, hr_loc = up_location u, hr_body = [], hr_ctype = ctype, hr_cookies = up_cookies u, hr_lang = None\<rparr>
      else if up_status u \<notin> {204, 304} \<and> \<not> type_allowed fl ctype
      then Inl (refuse 502 ''content_type_not_allowed'' (if ctype = [] then ''none'' else ctype))
      else if enc \<notin> {[], ''gzip'', ''identity''} then Inl (refuse 502 ''content_encoding_unsupported'' enc)
      else bind_res (read_body cf inflate (enc = ''gzip'') deadline [] [] (up_stream u)) (\<lambda>b.
        Inr \<lparr>hr_status = up_status u, hr_loc = None, hr_body = b, hr_ctype = ctype, hr_cookies = up_cookies u, hr_lang = up_lang u\<rparr>))"

definition fetch_hop :: "relay_conf \<Rightarrow> (string list \<Rightarrow> string \<Rightarrow> nat \<Rightarrow> (string \<times> bool) option) \<Rightarrow> hop_env \<Rightarrow> target
    \<Rightarrow> (string \<times> string) list \<Rightarrow> rat \<Rightarrow> relay \<Rightarrow> relay \<times> (refusal + hop_result)" where
  "fetch_hop cf inflate he tg caller deadline st =
     (case resolve_public (he_dns he) (tg_host tg) st of
        (st1, Inl r) \<Rightarrow> (st1, Inl r)
      | (st1, Inr ip) \<Rightarrow>
          (st1, if deadline \<le> he_mono he then Inl (refuse 504 ''timeout'' [])
             else case he_net he ip (tg_host tg) (tg_path tg) (hop_headers (tg_flags tg) caller) of
                 No_connection e \<Rightarrow> Inl (refuse 502 ''connect_failed'' e)
               | Request_failed t e \<Rightarrow> Inl (net_error deadline t e)
               | Answered u \<Rightarrow> shape_reply cf inflate (tg_flags tg) deadline u))"

text \<open>A challenge page instead of the content.\<close>

fun contains :: "string \<Rightarrow> string \<Rightarrow> bool" where
  "contains p [] = (p = [])"
| "contains p (c # cs) = (starts_with p (c # cs) \<or> contains p cs)"

definition CHALLENGE_MARKERS :: "string list" where
  "CHALLENGE_MARKERS = [''just a moment'', ''cf-chl'', ''captcha'', ''access denied'', ''attention required'']"

definition ascii_lower :: "char \<Rightarrow> char" where
  "ascii_lower c = (if is_upper c then char_of ((of_char c :: nat) + 32) else c)"

definition ascii_space :: "char \<Rightarrow> bool" where
  "ascii_space c \<longleftrightarrow> (of_char c :: nat) \<in> {9, 10, 11, 12, 13, 32}"

definition looks_blocked :: "int \<Rightarrow> string \<Rightarrow> string \<Rightarrow> bool" where
  "looks_blocked status body ctype =
     (if status = 403 \<or> status = 429 then True
      else let head = map ascii_lower (take 2000 body) in
        if contains ''json'' ctype \<and> starts_with ''<'' (lstrip_by ascii_space head) then True
        else status = 200 \<and> list_ex (\<lambda>m. contains m head) CHALLENGE_MARKERS \<and> contains ''<html'' head \<and> length body < 20000)"

section \<open>Redirects\<close>

text \<open>\<open>urljoin\<close> on an https base: the parameters of the last segment set aside, dot segments removed.\<close>

definition split_params :: "string \<Rightarrow> string \<times> string" where
  "split_params p = (let segs = split_on (CHR ''/'') p; l = last segs in
     if CHR '';'' \<in> set l then (join_with ''/'' (butlast segs @ [before_char (CHR '';'') l]), after_char (CHR '';'') l) else (p, []))"

definition dot_step :: "string list \<Rightarrow> string \<Rightarrow> string list" where
  "dot_step acc s = (if s = ''..'' then butlast acc else if s = ''.'' then acc else acc @ [s])"

definition join_path :: "string \<Rightarrow> string \<Rightarrow> string" where
  "join_path bpath path =
     (let b = split_on (CHR ''/'') bpath; base = (if last b \<noteq> [] then butlast b else b);
          segs0 = (if starts_with ''/'' path then split_on (CHR ''/'') path else base @ split_on (CHR ''/'') path);
          segs = (if length segs0 < 2 then segs0 else hd segs0 # filter (\<lambda>s. s \<noteq> []) (butlast (tl segs0)) @ [last segs0]);
          r0 = foldl dot_step [] segs; r = (if last segs \<in> {''.'', ''..''} then r0 @ [[]] else r0);
          t = join_with ''/'' r
      in if t = [] then ''/'' else t)"

definition url_text :: "string \<Rightarrow> string \<Rightarrow> string \<Rightarrow> string \<Rightarrow> string \<Rightarrow> string" where
  "url_text netloc path params query frag =
     (let p = (if params = [] then path else path @ CHR '';'' # params); p' = (if p \<noteq> [] \<and> hd p \<noteq> CHR ''/'' then CHR ''/'' # p else p)
      in ''https://'' @ netloc @ p' @ (if query = [] then [] else CHR ''?'' # query) @ (if frag = [] then [] else CHR ''#'' # frag))"

definition clean_url :: "string \<Rightarrow> string" where
  "clean_url s = filter (\<lambda>c. (of_char c :: nat) \<notin> {9, 10, 13}) (dropWhile (\<lambda>c. (of_char c :: nat) \<le> 32) s)"

definition urljoin :: "string \<Rightarrow> string \<Rightarrow> string option" where \<comment> \<open>None: the split raises\<close>
  "urljoin base loc = (if loc = [] then Some base
     else case (urlsplit base, urlsplit (clean_url loc)) of
         (Some b, Some u) \<Rightarrow>
           if su_scheme u \<notin> {[], ''https''} then Some loc
           else (case (split_params (su_path u), split_params (su_path b)) of ((path, params), (bpath, bparams)) \<Rightarrow>
             if su_netloc u \<noteq> [] then Some (url_text (su_netloc u) path params (su_query u) (su_fragment u))
             else if path = [] \<and> params = []
             then Some (url_text (su_netloc b) bpath bparams (if su_query u = [] then su_query b else su_query u) (su_fragment u))
             else Some (url_text (su_netloc b) (join_path bpath path) params (su_query u) (su_fragment u)))
       | _ \<Rightarrow> None)"

definition cookie_name :: "string \<Rightarrow> string" where
  "cookie_name pair = before_char (CHR ''='') pair"

definition add_cookie :: "string list \<Rightarrow> string \<Rightarrow> string list" where
  "add_cookie cookies c = (let pair = before_char (CHR '';'') c in
     filter (\<lambda>x. cookie_name x \<noteq> cookie_name pair) cookies @ [pair])"

text \<open>The checks and the fetch of one hop.\<close>

definition one_hop :: "relay_conf \<Rightarrow> (string \<Rightarrow> string option) \<Rightarrow> (string list \<Rightarrow> string \<Rightarrow> nat \<Rightarrow> (string \<times> bool) option) \<Rightarrow> hop_env
    \<Rightarrow> (string \<times> string) list \<Rightarrow> rat \<Rightarrow> string \<Rightarrow> relay \<Rightarrow> relay \<times> (refusal + target \<times> hop_result)" where
  "one_hop cf idna inflate he caller deadline cur st =
     (case validate_url cf idna cur of Inl r \<Rightarrow> (st, Inl r)
      | Inr tg \<Rightarrow>
     (case breaker_check (he_wall he) (tg_host tg) st of Some r \<Rightarrow> (st, Inl r)
      | None \<Rightarrow>
     (let g = gate_for cf (he_mono he) (tg_host tg) (tg_flags tg) st; st1 = set_gate (tg_host tg) g st in
      if \<not> he_sem he then (st1, Inl (refuse 429 ''host_concurrency'' []))
      else case gate_take (he_mono he + WAIT_MAX) (he_ticks he) g of
          None \<Rightarrow> (st1, Inl (refuse 429 ''host_rate_limit'' (tg_host tg)))
        | Some (False, g') \<Rightarrow> (set_gate (tg_host tg) g' st1, Inl (refuse 429 ''host_rate_limit'' (tg_host tg)))
        | Some (True, g') \<Rightarrow>
            (case fetch_hop cf inflate he tg caller deadline (set_gate (tg_host tg) g' st1) of
               (st2, Inl r) \<Rightarrow> (st2, Inl r) | (st2, Inr res) \<Rightarrow> (st2, Inr (tg, res))))))"

record fetched =
  ft_host :: string
  ft_path :: string
  ft_result :: hop_result
  ft_cookies :: "string list"

text \<open>\<open>do_fetch\<close>: \<open>left\<close> redirects may still be followed; \<open>hops\<close> counts the hops made.\<close>

fun fetch_from :: "relay_conf \<Rightarrow> (string \<Rightarrow> string option) \<Rightarrow> (string list \<Rightarrow> string \<Rightarrow> nat \<Rightarrow> (string \<times> bool) option) \<Rightarrow> (nat \<Rightarrow> hop_env)
    \<Rightarrow> (string \<times> string) list \<Rightarrow> rat \<Rightarrow> nat \<Rightarrow> string \<Rightarrow> string list \<Rightarrow> relay \<Rightarrow> relay \<times> (relay_err + fetched)" where
  "fetch_from cf idna inflate env caller deadline left cur cookies st =
     (let he = env (MAX_REDIRECTS - left) in
      case one_hop cf idna inflate he caller deadline cur st of
        (st1, Inl r) \<Rightarrow> (st1, Inl (Refused r))
      | (st1, Inr (tg, res)) \<Rightarrow>
          let jar = (if ''cookies'' \<in> set (tg_flags tg) then foldl add_cookie cookies (hr_cookies res) else cookies) in
          (case hr_loc res of
             None \<Rightarrow> (breaker_record cf (he_wall he) (tg_host tg) (looks_blocked (hr_status res) (hr_body res) (hr_ctype res)) st1,
               Inr \<lparr>ft_host = tg_host tg, ft_path = tg_path tg, ft_result = res, ft_cookies = jar\<rparr>)
           | Some loc \<Rightarrow> (case left of
               0 \<Rightarrow> (st1, Inl (Refused (refuse 502 ''too_many_redirects'' [])))
             | Suc m \<Rightarrow> (case urljoin (''https://'' @ tg_host tg @ tg_path tg) loc of
                 None \<Rightarrow> (st1, Inl (Crashed ValueError))
               | Some nxt \<Rightarrow> (case validate_url cf idna nxt of
                   Inl r \<Rightarrow> (st1, Inl (Refused (refuse 502 (''redirect_refused:'' @ rf_reason r) (take 120 nxt))))
                 | Inr tg2 \<Rightarrow> fetch_from cf idna inflate env caller deadline m nxt jar st1)))))"

declare fetch_from.simps [simp del]

definition do_fetch :: "relay_conf \<Rightarrow> (string \<Rightarrow> string option) \<Rightarrow> (string list \<Rightarrow> string \<Rightarrow> nat \<Rightarrow> (string \<times> bool) option) \<Rightarrow> (nat \<Rightarrow> hop_env)
    \<Rightarrow> (string \<times> string) list \<Rightarrow> string \<Rightarrow> relay \<Rightarrow> relay \<times> (relay_err + fetched)" where
  "do_fetch cf idna inflate env caller url st =
     fetch_from cf idna inflate env caller (he_mono (env 0) + cf_total_timeout cf) MAX_REDIRECTS url [] st"

section \<open>The front end\<close>

record relay_reply =
  ry_status :: int
  ry_reason :: string
  ry_body :: string
  ry_ctype :: string
  ry_lang :: "string option"
  ry_cookies :: "string list"
  ry_origin :: string

definition send_plain :: "nat \<Rightarrow> string \<Rightarrow> relay_reply" where
  "send_plain status reason = \<lparr>ry_status = int status,
     ry_reason = (if reason \<noteq> [] \<and> status \<noteq> 401 then take 40 (before_char (CHR '':'') reason) else []),
     ry_body = [], ry_ctype = [], ry_lang = None, ry_cookies = [], ry_origin = ''relay''\<rparr>"

definition FORWARD_HEADERS :: "(string \<times> string) list" where
  "FORWARD_HEADERS = [(''x-fwd-user-agent'', ''User-Agent''), (''x-fwd-accept'', ''Accept''), (''x-fwd-accept-language'', ''Accept-Language''),
     (''x-fwd-referer'', ''Referer''), (''x-fwd-cookie'', ''Cookie'')]"

definition forwarded :: "relay_request \<Rightarrow> (string \<times> string) list" where
  "forwarded rq = List.map_filter (\<lambda>(k, canonical). let v = rx_header rq k in if v = [] then None else Some (canonical, take 4096 v)) FORWARD_HEADERS"

definition target_reply :: "fetched \<Rightarrow> relay_reply" where
  "target_reply f = (let r = ft_result f in \<lparr>ry_status = hr_status r, ry_reason = [], ry_body = hr_body r,
     ry_ctype = (if hr_ctype r = [] then ''application/octet-stream'' else hr_ctype r),
     ry_lang = (case hr_lang r of None \<Rightarrow> None | Some l \<Rightarrow> if l = [] then None else Some (take 20 l)),
     ry_cookies = take 30 (ft_cookies f), ry_origin = ''target''\<rparr>)"

definition error_reply :: "relay_err \<Rightarrow> relay \<Rightarrow> relay \<times> relay_reply" where
  "error_reply e st = (case e of
     Refused r \<Rightarrow> (count_reason (before_char (CHR '':'') (rf_reason r)) st, send_plain (rf_status r) (rf_reason r))
   | Crashed x \<Rightarrow> (count_reason ''internal_error'' st, send_plain 500 ''internal''))"

definition guarded_fetch :: "relay_conf \<Rightarrow> (string \<Rightarrow> string option) \<Rightarrow> (string list \<Rightarrow> string \<Rightarrow> nat \<Rightarrow> (string \<times> bool) option)
    \<Rightarrow> (nat \<Rightarrow> hop_env) \<Rightarrow> rat \<Rightarrow> string \<Rightarrow> bool \<Rightarrow> relay_request \<Rightarrow> relay \<Rightarrow> relay \<times> (relay_err + fetched)" where
  "guarded_fetch cf idna inflate env now today got rq st0 =
     (if ry_killed st0 then (st0, Inl (Refused (refuse 503 ''killed'' [])))
      else case daily_use cf today False st0 of (n, st1) \<Rightarrow>
        if cf_daily_cap cf \<le> n then (st1, Inl (Refused (refuse 503 ''daily_cap'' [])))
        else (case check_auth cf now rq st1 of (st2, Inl e) \<Rightarrow> (st2, Inl e)
          | (st2, Inr u) \<Rightarrow>
              if \<not> got then (st2, Inl (Refused (refuse 503 ''global_concurrency'' [])))
              else do_fetch cf idna inflate env (forwarded rq) (rx_url rq) (snd (daily_use cf today True st2))))"

definition do_GET :: "relay_conf \<Rightarrow> (string \<Rightarrow> string option) \<Rightarrow> (string list \<Rightarrow> string \<Rightarrow> nat \<Rightarrow> (string \<times> bool) option)
    \<Rightarrow> (nat \<Rightarrow> hop_env) \<Rightarrow> rat \<Rightarrow> string \<Rightarrow> bool \<Rightarrow> relay_request \<Rightarrow> relay \<Rightarrow> relay \<times> relay_reply" where
  "do_GET cf idna inflate env now today got rq st =
     (if MAX_URL_LEN + 256 < rx_line rq then (st, send_plain 414 ''request_uri_too_long'')
      else if rx_path rq = ''/healthz''
      then (st, \<lparr>ry_status = 200, ry_reason = [], ry_body = ''ok'', ry_ctype = [], ry_lang = None, ry_cookies = [], ry_origin = []\<rparr>)
      else if rx_path rq \<noteq> ''/fetch'' then (st, send_plain 404 ''no_such_path'')
      else (case guarded_fetch cf idna inflate env now today got rq st of
          (st1, Inl e) \<Rightarrow> error_reply e st1 | (st1, Inr f) \<Rightarrow> (st1, target_reply f)))"

end
