(* ===== verification/Relay_Props.thy ===== *)
theory Relay_Props
  imports Relay_Fetch
begin

text \<open>
  What the relay guarantees: it contacts only public addresses of allow-listed names, a signature is
  worth one request, a host is asked at a bounded rate, and an answer has a bounded size.
\<close>

section \<open>Whom it contacts\<close>

text \<open>The peers an answer may depend on.\<close>

definition may_contact :: "relay_conf \<Rightarrow> string \<Rightarrow> string \<Rightarrow> bool" where
  "may_contact cf ip host \<longleftrightarrow> is_public_v4 ip \<and> match_allowlist cf host \<noteq> None \<and> \<not> is_ip host"

lemma check_host_Inr:
  "check_host cf idna u = Inr tg \<Longrightarrow> (\<exists>pat. match_allowlist cf (tg_host tg) = Some (pat, tg_flags tg)) \<and> \<not> is_ip (tg_host tg)"
  by (auto simp: check_host_def Let_def split: if_splits option.splits)

lemma validate_url_Inr:
  assumes "validate_url cf idna raw = Inr tg"
  shows "match_allowlist cf (tg_host tg) \<noteq> None" "\<not> is_ip (tg_host tg)"
    and "\<exists>u. urlsplit raw = Some u \<and> su_scheme u = ''https'' \<and> CHR ''@'' \<notin> set (su_netloc u)
      \<and> url_port (su_netloc u) \<in> {Inr None, Inr (Some 443)}"
  using assms check_host_Inr [of cf idna _ tg]
  by (auto simp: validate_url_def split: if_splits option.splits sum.splits) blast+

lemma resolve_public_Inr:
  assumes "resolve_public dns host st = (st', Inr ip)"
  shows "is_public_v4 ip \<and> (\<exists>addrs. dns host = Some addrs \<and> ip \<in> set addrs \<and> list_all is_public_v4 addrs)"
proof -
  obtain addrs where a: "dns host = Some addrs" "addrs \<noteq> []" "filter (\<lambda>a. \<not> is_public_v4 a) addrs = []" "ip = hd addrs"
    using assms by (auto simp: resolve_public_def split: option.splits if_splits list.splits)
  then have "list_all is_public_v4 addrs" by (auto simp: filter_empty_conv list_all_iff)
  then show ?thesis using a by (auto simp: list_all_iff)
qed

text \<open>An environment whose peers answer otherwise.\<close>

definition other_net :: "(string \<Rightarrow> string \<Rightarrow> string \<Rightarrow> (string \<times> string) list \<Rightarrow> net_reply) \<Rightarrow> hop_env \<Rightarrow> hop_env" where
  "other_net net he = he\<lparr>he_net := net\<rparr>"

definition agrees :: "relay_conf \<Rightarrow> (string \<Rightarrow> string \<Rightarrow> string \<Rightarrow> (string \<times> string) list \<Rightarrow> net_reply) \<Rightarrow> hop_env \<Rightarrow> bool" where
  "agrees cf net he \<longleftrightarrow> (\<forall>ip host path hs. may_contact cf ip host \<longrightarrow> net ip host path hs = he_net he ip host path hs)"

lemma other_net_simps [simp]:
  "he_wall (other_net net he) = he_wall he" "he_mono (other_net net he) = he_mono he" "he_sem (other_net net he) = he_sem he"
  "he_ticks (other_net net he) = he_ticks he" "he_dns (other_net net he) = he_dns he" "he_net (other_net net he) = net"
  by (simp_all add: other_net_def)

lemma fetch_hop_other:
  assumes "agrees cf net he" "match_allowlist cf (tg_host tg) \<noteq> None" "\<not> is_ip (tg_host tg)"
  shows "fetch_hop cf inflate (other_net net he) tg caller deadline st = fetch_hop cf inflate he tg caller deadline st"
proof (cases "resolve_public (he_dns he) (tg_host tg) st")
  case (Pair st1 x)
  show ?thesis
  proof (cases x)
    case (Inr ip)
    then have "may_contact cf ip (tg_host tg)" using resolve_public_Inr [OF Pair [unfolded Inr]] assms by (simp add: may_contact_def)
    then show ?thesis using assms(1) by (simp add: fetch_hop_def Pair Inr agrees_def)
  qed (simp add: fetch_hop_def Pair)
qed

lemma one_hop_other:
  assumes "agrees cf net he"
  shows "one_hop cf idna inflate (other_net net he) caller deadline cur st = one_hop cf idna inflate he caller deadline cur st"
proof (cases "validate_url cf idna cur")
  case (Inr tg)
  note f = fetch_hop_other [OF assms validate_url_Inr(1,2) [OF Inr]]
  show ?thesis unfolding one_hop_def Inr sum.case other_net_simps f ..
qed (simp add: one_hop_def)

lemma fetch_from_other:
  assumes "\<And>i. agrees cf (net i) (env i)"
  shows "fetch_from cf idna inflate (\<lambda>i. other_net (net i) (env i)) caller deadline left cur cookies st
    = fetch_from cf idna inflate env caller deadline left cur cookies st"
proof (induction left arbitrary: cur cookies st)
  case 0
  show ?case by (subst (1 2) fetch_from.simps) (unfold one_hop_other [OF assms] other_net_simps Let_def nat.case, rule refl)
next
  case (Suc n)
  show ?case by (subst (1 2) fetch_from.simps) (unfold one_hop_other [OF assms] other_net_simps Let_def nat.case Suc, rule refl)
qed


text \<open>A configuration with one allowed host, and an honest peer for it.\<close>

definition ex_conf :: relay_conf where
  "ex_conf = \<lparr>cf_secret = ''0123456789abcdef01234567'', cf_allowlist = Some ''www.example.com cookies'', cf_ts_window = 60,
     cf_max_body = 5000, cf_total_timeout = 20, cf_rate = 1, cf_burst = 3, cf_host_concurrency = 2, cf_global_concurrency = 8,
     cf_daily_cap = 2000, cf_breaker_threshold = 5, cf_breaker_cooldown = 1800, cf_auth_fail_per_min = 10, cf_trusted_proxies = []\<rparr>"

definition ex_up :: upstream where
  "ex_up = \<lparr>up_status = 200, up_location = None, up_ctype = Some ''text/html'', up_encoding = None, up_cookies = [], up_lang = None,
     up_stream = [(6, Chunk ''hello'')]\<rparr>"

definition ex_hop :: "nat \<Rightarrow> hop_env" where
  "ex_hop i = \<lparr>he_wall = 1000, he_mono = 5, he_sem = True, he_ticks = [(5, 5)], he_dns = (\<lambda>h. Some [''93.184.216.34'']),
     he_net = (\<lambda>ip h p hs. Answered ex_up)\<rparr>"

definition ex_relay :: relay where
  "ex_relay = \<lparr>ry_killed = False, ry_daily = None, ry_breaker = (\<lambda>h. None), ry_gates = (\<lambda>h. None), ry_seen = [], ry_fails = (\<lambda>s. []),
     ry_events = [], ry_counts = []\<rparr>"

definition ex_ask :: "string \<Rightarrow> relay_request" where
  "ex_ask ts = \<lparr>rx_peer = ''172.18.0.2'', rx_headers = [(''x-relay-ts'', ts), (''x-relay-sig'', sign ex_conf ts ''https://www.example.com/a'')],
     rx_line = 60, rx_path = ''/fetch'', rx_url = ''https://www.example.com/a''\<rparr>"

lemma sign_ascii: "sign cf ts url \<noteq> []" "is_ascii (sign cf ts url)"
proof -
  let ?ws = "sha256_words (map (\<lambda>b. b XOR 92) (hmac_key (utf8 (cf_secret cf))) @ sha256_bytes (map (\<lambda>b. b XOR 54) (hmac_key (utf8 (cf_secret cf))) @ utf8 (ts @ newline # url)))"
  have e: "sign cf ts url = concat (map word_hex ?ws)" by (simp add: sign_def hmac_hex_def Let_def)
  have "list_all (\<lambda>c. (of_char c :: nat) < 128) ''0123456789abcdef''" by simp
  then show "is_ascii (sign cf ts url)" unfolding e is_ascii_def list_all_iff using hex_digit_word by fastforce
  have "?ws \<noteq> []" using length_sha256_words by (metis list.size(3) zero_neq_numeral)
  then show "sign cf ts url \<noteq> []" unfolding e by (cases ?ws) (auto simp: word_hex_def)
qed

lemma ex_target: "validate_url ex_conf (\<lambda>h. None) ''https://www.example.com/a''
    = Inr \<lparr>tg_host = ''www.example.com'', tg_path = ''/a'', tg_flags = [''cookies'']\<rparr>"
  by code_simp

lemma ex_bits: "is_public_v4 ''93.184.216.34''" "host_limits ex_conf [''cookies''] = (1, 3, 2)" "py_int ''1000'' = Some 1000"
    "py_int ''5000'' = Some 5000" "shape_reply ex_conf inflate [''cookies''] 25 ex_up
      = Inr \<lparr>hr_status = 200, hr_loc = None, hr_body = ''hello'', hr_ctype = ''text/html'', hr_cookies = [], hr_lang = None\<rparr>"
    "looks_blocked 200 ''hello'' ''text/html'' = False"
  by code_simp+

lemma ex_conf_parts: "cf_ts_window ex_conf = 60" "cf_auth_fail_per_min ex_conf = 10" "cf_trusted_proxies ex_conf = []"
  by (simp_all add: ex_conf_def)

lemma ex_auth_ok:
  assumes "py_int ts = Some t" "ry_seen st = []" "ry_fails st = (\<lambda>s. [])"
  shows "check_auth ex_conf (of_int t) (ex_ask ts) st
    = (st\<lparr>ry_seen := [(sign ex_conf ts ''https://www.example.com/a'', of_int t + 120)]\<rparr>, Inr ())"
proof -
  have "st\<lparr>ry_fails := (\<lambda>s. [])(x := [])\<rparr> = st" for x using assms(3) by (cases st) auto
  then show ?thesis using assms sign_ascii [of ex_conf ts "''https://www.example.com/a''"]
    by (simp add: check_auth_def Let_def signature_ok_def ex_ask_def rx_header_def source_of_def live_fails_def live_seen_def ex_conf_parts
        fun_upd_def)
qed

lemma ex_fetch: "\<exists>st. do_GET ex_conf (\<lambda>h. None) inflate ex_hop 1000 ''2026-11-19'' True (ex_ask ''1000'') ex_relay
    = (st, \<lparr>ry_status = 200, ry_reason = [], ry_body = ''hello'', ry_ctype = ''text/html'', ry_lang = None, ry_cookies = [], ry_origin = ''target''\<rparr>)"
proof -
  let ?tg = "\<lparr>tg_host = ''www.example.com'', tg_path = ''/a'', tg_flags = [''cookies'']\<rparr>"
  have hop: "\<exists>s1. one_hop ex_conf (\<lambda>h. None) inflate (ex_hop i) caller 25 ''https://www.example.com/a'' s = (s1, Inr (?tg,
      \<lparr>hr_status = 200, hr_loc = None, hr_body = ''hello'', hr_ctype = ''text/html'', hr_cookies = [], hr_lang = None\<rparr>))"
    if "ry_breaker s = (\<lambda>h. None)" "ry_gates s = (\<lambda>h. None)" for s i caller
    using that by (simp add: one_hop_def ex_target breaker_check_def ex_hop_def gate_for_def ex_bits Let_def new_gate_def try_take_def
        refill_def gate_burst_def gate_rate_def fetch_hop_def resolve_public_def)
  have "\<exists>st. fetch_from ex_conf (\<lambda>h. None) inflate ex_hop caller 25 MAX_REDIRECTS ''https://www.example.com/a'' [] s = (st, Inr \<lparr>ft_host = ''www.example.com'',
      ft_path = ''/a'', ft_result = \<lparr>hr_status = 200, hr_loc = None, hr_body = ''hello'', hr_ctype = ''text/html'', hr_cookies = [], hr_lang = None\<rparr>,
      ft_cookies = []\<rparr>)" if br: "ry_breaker s = (\<lambda>h. None)" "ry_gates s = (\<lambda>h. None)" for s caller
  proof -
    obtain s1 where "one_hop ex_conf (\<lambda>h. None) inflate (ex_hop (MAX_REDIRECTS - MAX_REDIRECTS)) caller 25 ''https://www.example.com/a'' s = (s1, Inr (?tg,
      \<lparr>hr_status = 200, hr_loc = None, hr_body = ''hello'', hr_ctype = ''text/html'', hr_cookies = [], hr_lang = None\<rparr>))"
      using hop [OF br] by blast
    then show ?thesis by (subst fetch_from.simps) (simp add: Let_def)
  qed
  note f = this
  let ?s2 = "snd (daily_use ex_conf ''2026-11-19'' False ex_relay)\<lparr>ry_seen := [(sign ex_conf ''1000'' ''https://www.example.com/a'', 1120)]\<rparr>"
  have a: "check_auth ex_conf 1000 (ex_ask ''1000'') (snd (daily_use ex_conf ''2026-11-19'' False ex_relay)) = (?s2, Inr ())"
    using ex_auth_ok [OF ex_bits(3), of "snd (daily_use ex_conf ''2026-11-19'' False ex_relay)"]
    by (simp add: daily_use_def daily_count_def ex_relay_def)
  have d: "fst (daily_use ex_conf ''2026-11-19'' False ex_relay) = 0" "cf_daily_cap ex_conf = 2000" "\<not> ry_killed ex_relay"
      "he_mono (ex_hop 0) + cf_total_timeout ex_conf = 25"
    by (simp_all add: daily_use_def daily_count_def ex_relay_def ex_conf_def ex_hop_def)
  have s2: "ry_breaker (snd (daily_use ex_conf ''2026-11-19'' True ?s2)) = (\<lambda>h. None)" "ry_gates (snd (daily_use ex_conf ''2026-11-19'' True ?s2)) = (\<lambda>h. None)"
    by (simp_all add: daily_use_def daily_count_def ex_relay_def event_def ex_conf_def)
  obtain st where st: "do_fetch ex_conf (\<lambda>h. None) inflate ex_hop (forwarded (ex_ask ''1000'')) ''https://www.example.com/a'' (snd (daily_use ex_conf ''2026-11-19'' True ?s2)) = (st,
      Inr \<lparr>ft_host = ''www.example.com'', ft_path = ''/a'', ft_result = \<lparr>hr_status = 200, hr_loc = None, hr_body = ''hello'', hr_ctype = ''text/html'', hr_cookies = [], hr_lang = None\<rparr>,
      ft_cookies = []\<rparr>)" using f [OF s2] by (auto simp: do_fetch_def d)
  have rq: "rx_line (ex_ask ''1000'') = 60" "rx_path (ex_ask ''1000'') = ''/fetch''" "rx_url (ex_ask ''1000'') = ''https://www.example.com/a''"
    by (simp_all add: ex_ask_def)
  have "guarded_fetch ex_conf (\<lambda>h. None) inflate ex_hop 1000 ''2026-11-19'' True (ex_ask ''1000'') ex_relay = (st,
      Inr \<lparr>ft_host = ''www.example.com'', ft_path = ''/a'', ft_result = \<lparr>hr_status = 200, hr_loc = None, hr_body = ''hello'', hr_ctype = ''text/html'', hr_cookies = [], hr_lang = None\<rparr>,
      ft_cookies = []\<rparr>)"
    using a d st by (simp add: guarded_fetch_def rq case_prod_beta)
  then show ?thesis by (simp add: do_GET_def rq MAX_URL_LEN_def target_reply_def)
qed


section \<open>Signatures\<close>

text \<open>The checks of a sequence of requests, each at its clock reading.\<close>

fun auth_all :: "relay_conf \<Rightarrow> relay \<Rightarrow> (rat \<times> relay_request) list \<Rightarrow> (relay_err + unit) list" where
  "auth_all cf st [] = []"
| "auth_all cf st ((now, rq) # rqs) = (case check_auth cf now rq st of (st', r) \<Rightarrow> r # auth_all cf st' rqs)"

lemma length_auth_all [simp]: "length (auth_all cf st rqs) = length rqs"
  by (induction cf st rqs rule: auth_all.induct) (auto split: prod.splits)

text \<open>A signature is remembered at least as long as its timestamp is in the window.\<close>

definition remembered :: "string \<Rightarrow> rat \<Rightarrow> rat \<Rightarrow> relay \<Rightarrow> bool" where
  "remembered sig limit now st \<longleftrightarrow> (now \<le> limit \<longrightarrow> (\<exists>e\<ge>limit. (sig, e) \<in> set (ry_seen st)))"

lemma check_auth_seen:
  assumes "check_auth cf now rq st = (st', r)"
  shows "ry_seen st' = ry_seen st \<or> (\<exists>xs. ry_seen st' = live_seen now (ry_seen st) @ xs)"
  using assms by (auto simp: check_auth_def Let_def auth_failed_def event_def count_reason_def split: if_splits sum.splits bool.splits)

lemma remembered_step:
  assumes "remembered sig limit t st" "t \<le> now" "check_auth cf now rq st = (st', r)"
  shows "remembered sig limit now st'"
  using assms check_auth_seen [OF assms(3)] by (fastforce simp: remembered_def live_seen_def)

lemma check_auth_Inr:
  assumes "check_auth cf now rq st = (st', Inr u)"
  obtains t where "py_int (rx_header rq ''x-relay-ts'') = Some t" "\<bar>now - of_int t\<bar> \<le> of_int (cf_ts_window cf)"
    and "rx_header rq ''x-relay-sig'' = sign cf (rx_header rq ''x-relay-ts'') (rx_url rq)"
    and "rx_header rq ''x-relay-sig'' \<notin> fst ` set (live_seen now (ry_seen st))"
    and "(rx_header rq ''x-relay-sig'', now + 2 * of_int (cf_ts_window cf)) \<in> set (ry_seen st')"
  using assms
  by (auto simp: check_auth_def Let_def signature_ok_def not_less split: if_splits sum.splits bool.splits option.splits)

lemma remembered_after:
  assumes "check_auth cf now rq st = (st', Inr u)" "py_int (rx_header rq ''x-relay-ts'') = Some t"
  shows "remembered (rx_header rq ''x-relay-sig'') (of_int t + of_int (cf_ts_window cf)) now st'"
proof (rule check_auth_Inr [OF assms(1)])
  fix t'
  assume "py_int (rx_header rq ''x-relay-ts'') = Some t'" "\<bar>now - of_int t'\<bar> \<le> of_int (cf_ts_window cf)"
    and m: "(rx_header rq ''x-relay-sig'', now + 2 * of_int (cf_ts_window cf)) \<in> set (ry_seen st')"
  then have "of_int t + of_int (cf_ts_window cf) \<le> now + 2 * of_int (cf_ts_window cf)" using assms(2) by simp
  then show ?thesis using m unfolding remembered_def by (intro impI exI conjI)
qed

lemma remembered_refuses:
  assumes "remembered (rx_header rq ''x-relay-sig'') (of_int t + of_int (cf_ts_window cf)) now st"
    and "py_int (rx_header rq ''x-relay-ts'') = Some t"
  shows "check_auth cf now rq st \<noteq> (st', Inr u)"
proof
  assume "check_auth cf now rq st = (st', Inr u)"
  then obtain t' where "py_int (rx_header rq ''x-relay-ts'') = Some t'" "\<bar>now - of_int t'\<bar> \<le> of_int (cf_ts_window cf)"
    "rx_header rq ''x-relay-sig'' \<notin> fst ` set (live_seen now (ry_seen st))" by (rule check_auth_Inr)
  then show False using assms by (force simp: remembered_def live_seen_def)
qed

lemma remembered_all:
  assumes "remembered sig (of_int t + of_int (cf_ts_window cf)) t0 st" "sorted (t0 # map fst rqs)" "j < length rqs"
    and "rx_header (snd (rqs ! j)) ''x-relay-sig'' = sig" "py_int (rx_header (snd (rqs ! j)) ''x-relay-ts'') = Some t"
  shows "auth_all cf st rqs ! j \<noteq> Inr ()"
  using assms
proof (induction rqs arbitrary: st t0 j)
  case (Cons x rqs)
  obtain now rq where x: "x = (now, rq)" by fastforce
  obtain st' r where c: "check_auth cf now rq st = (st', r)" by fastforce
  have mem: "remembered sig (of_int t + of_int (cf_ts_window cf)) now st"
    using Cons.prems(1,2) by (auto simp: remembered_def x)
  show ?case
  proof (cases j)
    case 0
    then show ?thesis using remembered_refuses [of rq t cf now st] mem Cons.prems(4,5) c by (auto simp: x)
  next
    case (Suc i)
    have "remembered sig (of_int t + of_int (cf_ts_window cf)) now st'" by (rule remembered_step [OF mem _ c]) simp
    then show ?thesis using Cons.IH [of now st' i] Cons.prems Suc by (simp add: x c)
  qed
qed simp



section \<open>Politeness\<close>

text \<open>The tries at some clock readings: how many are let through, and the bucket afterwards.\<close>

fun grants :: "host_gate \<Rightarrow> rat list \<Rightarrow> nat \<times> host_gate" where
  "grants g [] = (0, g)"
| "grants g (now # ts) = (case try_take now g of (b, g') \<Rightarrow> case grants g' ts of (n, g'') \<Rightarrow> (if b then Suc n else n, g''))"

lemma try_take_props:
  assumes "try_take now g = (b, g')" "hg_at g \<le> now" "0 \<le> hg_tokens g" "0 \<le> gate_rate g" "0 \<le> gate_burst g"
  shows "hg_limits g' = hg_limits g" "hg_at g' = now" "0 \<le> hg_tokens g'"
    "hg_tokens g' + (if b then 1 else 0) \<le> hg_tokens g + (now - hg_at g) * gate_rate g"
  using assms by (auto simp: try_take_def refill_def Let_def gate_burst_def split: if_splits)

lemma grants_bound:
  assumes "sorted (hg_at g # ts)" "0 \<le> hg_tokens g" "0 \<le> gate_rate g" "0 \<le> gate_burst g"
  shows "of_nat (fst (grants g ts)) \<le> hg_tokens g + gate_rate g * (last (hg_at g # ts) - hg_at g)"
  using assms
proof (induction ts arbitrary: g)
  case (Cons now ts)
  obtain b g' where t: "try_take now g = (b, g')" by fastforce
  have le: "hg_at g \<le> now" using Cons.prems(1) by simp
  note p = try_take_props [OF t le Cons.prems(2,3,4)]
  have r: "gate_rate g' = gate_rate g" "gate_burst g' = gate_burst g" using p(1) by (simp_all add: gate_rate_def gate_burst_def)
  have "of_nat (fst (grants g' ts)) \<le> hg_tokens g' + gate_rate g * (last (now # ts) - now)"
    using Cons.IH [of g'] Cons.prems p(2,3) r by simp
  then have "of_nat (fst (grants g (now # ts))) \<le> hg_tokens g + (now - hg_at g) * gate_rate g + gate_rate g * (last (now # ts) - now)"
    using p(4) t by (cases b) (auto split: prod.splits)
  also have "\<dots> = hg_tokens g + gate_rate g * (last (hg_at g # now # ts) - hg_at g)" by (simp add: algebra_simps)
  finally show ?case .
qed simp

lemma clamp_bounds: "0 \<le> mx \<Longrightarrow> 0 \<le> clamp v mx \<and> clamp v mx \<le> max (1 / 10) mx"
  by (cases v) (auto simp: clamp_def)

lemma set_limit_bounds:
  assumes "0 \<le> r" "r \<le> max R 5" "0 \<le> b" "b \<le> max B 10" "set_limit (r, b, c) f = (r', b', c')"
  shows "0 \<le> r' \<and> r' \<le> max R 5 \<and> 0 \<le> b' \<and> b' \<le> max B 10"
proof (cases "\<exists>cap v. HARD_MAX (before_char (CHR ''='') f) = Some cap \<and> py_float_of (after_char (CHR ''='') f) = Some v")
  case True
  then obtain cap v where v: "HARD_MAX (before_char (CHR ''='') f) = Some cap" "py_float_of (after_char (CHR ''='') f) = Some v" by blast
  have k: "before_char (CHR ''='') f = ''rate'' \<Longrightarrow> cap = 5" "before_char (CHR ''='') f = ''burst'' \<Longrightarrow> cap = 10" "0 \<le> cap"
    using v(1) by (auto simp: HARD_MAX_def split: if_splits)
  show ?thesis using assms k clamp_bounds [OF k(3), of v] by (auto simp: set_limit_def Let_def v split: if_splits)
next
  case False
  then have "set_limit (r, b, c) f = (r, b, c)" by (auto simp: set_limit_def Let_def split: option.splits)
  then show ?thesis using assms by simp
qed

lemma set_limits_bounds:
  "0 \<le> r \<Longrightarrow> r \<le> max R 5 \<Longrightarrow> 0 \<le> b \<Longrightarrow> b \<le> max B 10 \<Longrightarrow> foldl set_limit (r, b, c) fl = (r', b', c')
    \<Longrightarrow> 0 \<le> r' \<and> r' \<le> max R 5 \<and> 0 \<le> b' \<and> b' \<le> max B 10"
proof (induction fl arbitrary: r b c)
  case (Cons f fl)
  obtain r1 b1 c1 where 1: "set_limit (r, b, c) f = (r1, b1, c1)" using prod_cases3 by blast
  show ?case using Cons.IH [of r1 b1 c1] set_limit_bounds [OF Cons.prems(1-4) 1] Cons.prems(5) by (simp add: 1)
qed simp

lemma host_limits_bounds:
  assumes "0 \<le> cf_rate cf" "0 \<le> cf_burst cf" "host_limits cf fl = (r, b, n)"
  shows "0 \<le> r \<and> r \<le> max (cf_rate cf) 5 \<and> 0 \<le> b \<and> b \<le> max (cf_burst cf) 10 \<and> 1 \<le> n"
proof -
  obtain r' b' c' where f: "foldl set_limit (cf_rate cf, cf_burst cf, of_int (cf_host_concurrency cf)) fl = (r', b', c')"
    using prod_cases3 by blast
  then show ?thesis using set_limits_bounds [OF assms(1) _ assms(2) _ f, of "cf_rate cf" "cf_burst cf"] assms(3)
    by (auto simp: host_limits_def)
qed

text \<open>
  however the allow-list sets the limits of a host, the number of tries that its bucket lets through
  in an interval is at most the burst plus the rate times the length of the interval, the burst and the
  rate being at most the larger of the configured default and the hard maximum (10, and 5 per second).
\<close>

theorem host_rate_bounded:
  assumes "0 \<le> cf_rate cf" "0 \<le> cf_burst cf" "sorted (t0 # ts)"
  shows "of_nat (fst (grants (new_gate t0 (host_limits cf fl)) ts))
    \<le> max (cf_burst cf) 10 + max (cf_rate cf) 5 * (last (t0 # ts) - t0)"
proof -
  obtain r b n where l: "host_limits cf fl = (r, b, n)" using prod_cases3 by blast
  note bd = host_limits_bounds [OF assms(1,2) l]
  have "t0 \<le> last (t0 # ts)" using assms(3) by (cases ts) auto
  then have "r * (last (t0 # ts) - t0) \<le> max (cf_rate cf) 5 * (last (t0 # ts) - t0)"
    using bd by (intro mult_right_mono) auto
  moreover have "of_nat (fst (grants (new_gate t0 (host_limits cf fl)) ts)) \<le> b + r * (last (t0 # ts) - t0)"
    using grants_bound [of "new_gate t0 (host_limits cf fl)" ts] assms(3) bd
    by (simp add: new_gate_def l gate_rate_def gate_burst_def)
  ultimately show ?thesis using bd by linarith
qed

lemma host_rate_bounded_witness:
  "fst (grants (new_gate 0 (host_limits ex_conf [''rate=50''])) [0, 0, 0, 0, 1]) = 4 \<and> (4::rat) \<le> 10 + 5 * 1"
proof -
  have "fst (grants (new_gate 0 (host_limits ex_conf [''rate=50''])) [0, 0, 0, 0, 1]) = 4" by code_simp
  then show ?thesis using host_rate_bounded [of ex_conf 0 "[0, 0, 0, 0, 1]" "[''rate=50'']"] by (simp add: ex_conf_def)
qed

section \<open>Answers\<close>

lemma read_body_bound:
  "read_body cf inflate gz deadline past acc s = Inr b \<Longrightarrow> length acc \<le> cf_max_body cf \<Longrightarrow> length b \<le> cf_max_body cf"
proof (induction cf inflate gz deadline past acc s rule: read_body.induct)
  case (2 cf inflate gz deadline past acc now c rest)
  then show ?case by (auto split: if_splits chunk_read.splits option.splits prod.splits)
qed simp

end
