(* ===== verification/Child_Job.thy ===== *)
theory Child_Job
  imports Api_Views
begin

text \<open>
  \<open>adguard/childpolicy.py\<close>, \<open>childsnapshot.py\<close>, \<open>overrides.py\<close>: the job that every minute turns the
  published snapshot (or, before the cutover, the text files) into AdGuard's rules.  AdGuard itself is
  outside: its answers are parameters and the job's effect is the list of its calls.  A file is its
  content, None when it cannot be read or parsed; what the checks of a snapshot file look at is the
  typed record of \<open>Child_Policy\<close>.
\<close>

section \<open>Text files\<close>

definition line_end :: "char \<Rightarrow> bool" where
  "line_end c \<longleftrightarrow> (of_char c :: nat) \<in> {10, 11, 12, 13, 28, 29, 30, 133}"

text \<open>\<open>str.splitlines\<close>: carriage return and line feed together end one line.\<close>

fun py_splitlines :: "string \<Rightarrow> string list" where
  "py_splitlines [] = []"
| "py_splitlines [c] = (if line_end c then [[]] else [[c]])"
| "py_splitlines (c # d # cs) =
     (if c = CHR 0x0D \<and> d = CHR 0x0A then py_splitlines (d # cs)
      else if line_end c then [] # py_splitlines (d # cs)
      else (case py_splitlines (d # cs) of [] \<Rightarrow> [[c]] | l # ls \<Rightarrow> (c # l) # ls))"

definition strip_comment :: "string \<Rightarrow> string" where
  "strip_comment l = py_strip (takeWhile (\<lambda>c. c \<noteq> CHR ''#'') l)"

definition read_list :: "string \<Rightarrow> string list" where
  "read_list text = filter (\<lambda>l. l \<noteq> []) (map strip_comment (py_splitlines text))"

definition job_mode :: "string option \<Rightarrow> string" where
  "job_mode text = (case text of None \<Rightarrow> ''files''
     | Some t \<Rightarrow> (case read_list t of [] \<Rightarrow> ''files'' | m # ms \<Rightarrow> if m = ''snapshot'' then m else ''files''))"

record policy_files =
  pf_allow_always :: string
  pf_allow_weekdays :: string
  pf_allow_extra :: "string option"
  pf_deny_extra :: "string option"
  pf_clients :: string

definition read_optional :: "string option \<Rightarrow> string list" where
  "read_optional t = (case t of None \<Rightarrow> [] | Some s \<Rightarrow> read_list s)"

definition extra_text :: "string list \<Rightarrow> string" where
  "extra_text ds = join_with [newline]
     ([''# Managed from the admin page (child-ui). One domain per line; subdomains are included.'',
       ''# allow-extra: always allowed. deny-extra: always blocked, even when everything is opened.''] @ sorted_set ds) @ [newline]"

text \<open>\<open>extra_change\<close>; None: not a domain name.  A domain put on one list leaves the other.\<close>

definition extra_change :: "bool \<Rightarrow> string \<Rightarrow> bool \<Rightarrow> policy_files \<Rightarrow> policy_files option" where
  "extra_change allow domain0 add f =
     (let domain = rstrip_by (\<lambda>c. c = CHR ''.'') (py_lower (py_strip domain0));
          without = (\<lambda>t. filter (\<lambda>d. d \<noteq> domain) (read_optional t));
          mine = without (if allow then pf_allow_extra f else pf_deny_extra f) @ (if add then [domain] else []);
          other = extra_text (without (if allow then pf_deny_extra f else pf_allow_extra f))
      in if \<not> domain_re domain then None
         else if allow then Some ((if add then f\<lparr>pf_deny_extra := Some other\<rparr> else f)\<lparr>pf_allow_extra := Some (extra_text mine)\<rparr>)
         else Some ((if add then f\<lparr>pf_allow_extra := Some other\<rparr> else f)\<lparr>pf_deny_extra := Some (extra_text mine)\<rparr>))"

type_synonym client_entry = "string \<times> string \<times> string" \<comment> \<open>address, name, MAC\<close>

definition client_line :: "string \<Rightarrow> py_exn + client_entry" where
  "client_line l = (case py_words l of ip # name # rest \<Rightarrow> Inr (ip, name, case rest of [] \<Rightarrow> [] | m # ms \<Rightarrow> m) | _ \<Rightarrow> Inl ValueError)"

definition load_clients :: "policy_files \<Rightarrow> py_exn + client_entry list" where
  "load_clients f = map_res client_line (read_list (pf_clients f))"

section \<open>Temporary exceptions of the files\<close>

record override =
  ov_client :: string
  ov_target :: string
  ov_created :: string
  ov_expires :: dtime

definition OVERRIDE_TARGETS :: "string list" where
  "OVERRIDE_TARGETS = [''youtube'', ''roblox'', ''maps'', ''all'']"

definition active_entries :: "dtime \<Rightarrow> override list \<Rightarrow> override list" where
  "active_entries now es = filter (\<lambda>e. dt_less now (ov_expires e)) es"

definition add_override :: "dtime \<Rightarrow> string \<Rightarrow> string \<Rightarrow> int option \<Rightarrow> override list \<Rightarrow> py_exn + override list" where
  "add_override now client target minutes es =
     (if target \<notin> set OVERRIDE_TARGETS then Inl ValueError
      else bind_res (case minutes of None \<Rightarrow> Inr (dt_add (replace_minute now 1439) 59) | Some m \<Rightarrow> dt_add_checked now (60 * m)) (\<lambda>expires.
        Inr (filter (\<lambda>e. \<not> (ov_client e = client \<and> ov_target e = target)) (active_entries now es)
          @ [\<lparr>ov_client = client, ov_target = target, ov_created = iso_text now, ov_expires = stored expires\<rparr>])))"

definition remove_override :: "dtime \<Rightarrow> string option \<Rightarrow> string option \<Rightarrow> override list \<Rightarrow> override list \<times> nat" where
  "remove_override now client target es =
     (let keep = filter (\<lambda>e. \<not> ((client = None \<or> client = Some (ov_client e)) \<and> (target = None \<or> target = Some (ov_target e))))
            (active_entries now es)
      in (keep, length (active_entries now es) - length keep))"

section \<open>The snapshot file\<close>

text \<open>
  The file: the part its checksum covers, the checksum, and the same content typed: the schema, the devices
  with their MACs, the house lists and the services that are always on.
\<close>

record policy_file =
  fl_core :: fields
  fl_checksum :: json
  fl_schema :: json
  fl_devices :: "(snap_device \<times> string) list"
  fl_lists :: child_lists
  fl_services :: "string list"

definition file_snapshot :: "policy_file \<Rightarrow> snapshot" where
  "file_snapshot f = \<lparr>sn_schema = fl_schema f, sn_devices = map fst (fl_devices f),
     sn_allow_always = l_allow_always (fl_lists f), sn_always_services = fl_services f\<rparr>"

definition checksum_ok :: "policy_file \<Rightarrow> bool" where
  "checksum_ok f \<longleftrightarrow> fl_checksum f = JStr (policy_checksum (fl_core f))"

definition CHECKSUM_MESSAGE :: string where
  "CHECKSUM_MESSAGE = ''the checksum does not match the content''"

definition file_problems :: "policy_file \<Rightarrow> py_exn + snap_problem list" where
  "file_problems f = bind_res (verify_snapshot (file_snapshot f)) (\<lambda>ps.
     Inr ((if checksum_ok f then [] else [(''checksum'', CHECKSUM_MESSAGE)]) @ ps))"

record loaded =
  ld_snap :: "policy_file option"
  ld_source :: string
  ld_live_problem :: "string option"

text \<open>
  \<open>load\<close>: the live file when nothing is wrong with it (it is then kept as the last good one), else the last
  good one, checked again.  \<open>why\<close> is the text of the exception when the live file cannot be read.
\<close>

definition load_last_good :: "policy_file option \<Rightarrow> string \<Rightarrow> py_exn + loaded" where
  "load_last_good last_good problem = (case last_good of
     None \<Rightarrow> Inr \<lparr>ld_snap = None, ld_source = ''none'', ld_live_problem = Some problem\<rparr>
   | Some g \<Rightarrow> bind_res (file_problems g) (\<lambda>ps.
       Inr (if ps = [] then \<lparr>ld_snap = Some g, ld_source = ''last_good'', ld_live_problem = Some problem\<rparr>
            else \<lparr>ld_snap = None, ld_source = ''none'', ld_live_problem = Some problem\<rparr>)))"

definition load_snapshot :: "string \<Rightarrow> policy_file option \<Rightarrow> policy_file option \<Rightarrow> py_exn + (loaded \<times> policy_file option)" where
  "load_snapshot why live last_good = (case live of
     None \<Rightarrow> bind_res (load_last_good last_good why) (\<lambda>l. Inr (l, last_good))
   | Some f \<Rightarrow> bind_res (file_problems f) (\<lambda>ps.
       if ps = [] then Inr (\<lparr>ld_snap = Some f, ld_source = ''live'', ld_live_problem = None\<rparr>, Some f)
       else bind_res (load_last_good last_good (join_with ''; '' (map snd (take 3 ps)))) (\<lambda>l. Inr (l, last_good))))"

text \<open>The file that the service writes: nothing without a device or when an invariant is broken.\<close>

definition sorted_lists :: "child_lists \<Rightarrow> child_lists" where
  "sorted_lists ls = \<lparr>l_allow_always = sort (l_allow_always ls), l_allow_weekdays = sort (l_allow_weekdays ls),
     l_allow_extra = sort (l_allow_extra ls), l_deny_extra = sort (l_deny_extra ls)\<rparr>"

definition written_file :: "db \<Rightarrow> dtime \<Rightarrow> store_err + policy_file option" where
  "written_file st now = bind_res (publish_child st now) (\<lambda>r. case r of
     Written s \<Rightarrow> bind_res (snapshot_core st now) (\<lambda>core.
       Inr (Some \<lparr>fl_core = core, fl_checksum = JStr (policy_checksum core), fl_schema = sn_schema s,
         fl_devices = zip (sn_devices s) (map (\<lambda>e. meta_text e ''mac'') (child_devices st)),
         fl_lists = sorted_lists (fst (child_house_lists st)), fl_services = sn_always_services s\<rparr>))
   | _ \<Rightarrow> Inr None)"

section \<open>From the snapshot to the rules\<close>

text \<open>A rule as the renderer reads it from the file.\<close>

definition json_int :: "json \<Rightarrow> int" where
  "json_int v = (case v of JInt i \<Rightarrow> i | _ \<Rightarrow> 0)"

definition rule_of_fields :: "fields \<Rightarrow> rule" where
  "rule_of_fields r = \<lparr>r_id = json_str (jget r ''id''),
     r_days = (case jget r ''days'' of JList ds \<Rightarrow> map json_int ds | _ \<Rightarrow> []), r_start = json_str (jget r ''start''),
     r_end = str_opt (jget r ''end''), r_level = (case jget r ''level'' of JInt i \<Rightarrow> Some i | _ \<Rightarrow> None),
     r_vars = (case jget r ''variables'' of JObj v \<Rightarrow> Some v | _ \<Rightarrow> None)\<rparr>"

definition rules_of_json :: "json \<Rightarrow> rule list" where
  "rules_of_json v = (case v of JList rs \<Rightarrow> List.map_filter (\<lambda>r. case r of JObj f \<Rightarrow> Some (rule_of_fields f) | _ \<Rightarrow> None) rs | _ \<Rightarrow> [])"

definition snap_policy_device :: "snap_device \<times> string \<Rightarrow> child_device" where
  "snap_policy_device x = (case x of (d, mac) \<Rightarrow>
     \<lparr>cd_id = json_str (sd_id d), cd_name = json_str (sd_name d), cd_ip = json_str (sd_ip d), cd_mac = mac,
      cd_rules = rules_of_json (sd_rules d), cd_allow_extra = map json_str (sd_allow_extra d),
      cd_deny_extra = filter (\<lambda>h. deny_breaks_baseline h = None) (map json_str (sd_deny_extra d))\<rparr>)"

definition ignored_denies :: "snap_device \<Rightarrow> string list" where
  "ignored_denies d = map (\<lambda>h. json_str (sd_id d) @ '': '' @ h) (filter (\<lambda>h. deny_breaks_baseline h \<noteq> None) (map json_str (sd_deny_extra d)))"

definition policy_from :: "policy_file \<Rightarrow> child_policy \<times> string list" where
  "policy_from f = (\<lparr>cp_devices = map snap_policy_device (fl_devices f), cp_lists = fl_lists f,
       cp_always_services = fl_services f\<rparr>, concat (map (ignored_denies \<circ> fst) (fl_devices f)))"

definition after_now :: "json \<Rightarrow> int \<Rightarrow> bool" where \<comment> \<open>\<open>x["expires_ts"] > now_ts\<close>\<close>
  "after_now v now_ts = (case v of JInt i \<Rightarrow> now_ts < i | JFloat m k \<Rightarrow> now_ts * 10 ^ k < m | JBool b \<Rightarrow> now_ts < (if b then 1 else 0) | _ \<Rightarrow> False)"

definition device_overrides :: "int \<Rightarrow> snap_device \<Rightarrow> (string \<times> string) list" where
  "device_overrides now_ts d = List.map_filter (\<lambda>v. case v of
     JObj x \<Rightarrow> if after_now (jget x ''expires_ts'') now_ts then Some (json_str (sd_ip d), json_str (jget x ''target'')) else None
   | _ \<Rightarrow> None) (sd_exceptions d)"

definition active_overrides :: "policy_file \<Rightarrow> int \<Rightarrow> (string \<times> string) list" where
  "active_overrides f now_ts = concat (map (device_overrides now_ts \<circ> fst) (fl_devices f))"

definition clients_from :: "policy_file \<Rightarrow> client_entry list" where
  "clients_from f = map (\<lambda>(d, mac). (json_str (sd_ip d), json_str (sd_name d), mac)) (fl_devices f)"

definition job_render :: "(string \<Rightarrow> string list) \<Rightarrow> policy_file \<Rightarrow> dtime \<Rightarrow> string list \<times> string list" where
  "job_render svc f now = (case policy_from f of (p, ignored) \<Rightarrow> (render_block p svc now (active_overrides f (timestamp now)), ignored))"

section \<open>The old rendering from the files\<close>

definition schedule_state :: "dtime \<Rightarrow> bool \<times> bool" where
  "schedule_state now = (let sunday = isoweekday (date_of now) = 7; hour = minute_of_day now div 60
     in (sunday, \<not> sunday \<and> 16 \<le> hour \<and> hour < 19))"

definition files_device_lines :: "policy_files \<Rightarrow> (string \<Rightarrow> string list) \<Rightarrow> dtime \<Rightarrow> override list \<Rightarrow> string \<Rightarrow> string list" where
  "files_device_lines f svc now active ip =
     (case schedule_state now of (sunday, in_hours) \<Rightarrow>
      let base = read_list (pf_allow_always f) @ svc ''telegram''; maps = read_list (pf_allow_weekdays f);
          deny = sorted_set (read_optional (pf_deny_extra f));
          targets = map ov_target (filter (\<lambda>e. ov_client e = ip) active);
          deny_rules = map (deny_rule ip) deny;
          allowed = base @ read_optional (pf_allow_extra f) @ (if \<not> sunday \<or> ''maps'' \<in> set targets then maps else [])
            @ concat (map (\<lambda>t. if in_hours \<or> t \<in> set targets then svc t else []) [''youtube'', ''roblox''])
      in if ''all'' \<in> set targets then deny_rules
         else block_rule ip # deny_rules @ map (allow_rule ip) (sorted_set (filter (\<lambda>d. \<not> is_under d deny) allowed)))"

definition files_block :: "policy_files \<Rightarrow> (string \<Rightarrow> string list) \<Rightarrow> client_entry list \<Rightarrow> dtime \<Rightarrow> override list \<Rightarrow> string list" where
  "files_block f svc clients now active =
     BEGIN_MARK # concat (map (\<lambda>(ip, name, mac). files_device_lines f svc now active ip) clients) @ [END_MARK]"

section \<open>AdGuard\<close>

text \<open>The domains of a service: its rules of the form \<open>||domain^\<close>.\<close>

definition rule_domain :: "string \<Rightarrow> string option" where
  "rule_domain r = (if starts_with ''||'' r \<and> ends_with ''^'' r then Some (drop 2 (butlast r)) else None)"

definition service_domains :: "(string \<times> string list) list \<Rightarrow> string \<Rightarrow> string list" where
  "service_domains services ident = concat (map (\<lambda>(i, rules). if i = ident then List.map_filter rule_domain rules else []) services)"

fun merge_from :: "bool \<Rightarrow> string list \<Rightarrow> string list" where
  "merge_from skipping [] = []"
| "merge_from skipping (r # rs) =
     (if r = BEGIN_MARK then merge_from True rs
      else if r = END_MARK then merge_from False rs
      else if skipping then merge_from skipping rs else r # merge_from skipping rs)"

definition merge_rules :: "string list \<Rightarrow> string list \<Rightarrow> string list" where
  "merge_rules existing block = merge_from False existing @ block"

definition SAFE_SEARCH :: fields where
  "SAFE_SEARCH = [(''enabled'', JBool True), (''bing'', JBool True), (''duckduckgo'', JBool True), (''ecosia'', JBool False),
     (''google'', JBool True), (''pixabay'', JBool False), (''yandex'', JBool False), (''youtube'', JBool True)]"

definition desired_client :: "client_entry \<Rightarrow> fields" where
  "desired_client c = (case c of (ip, name, mac) \<Rightarrow>
     [(''name'', JStr name), (''ids'', JList (map JStr (ip # (if mac = [] then [] else [mac])))), (''tags'', JList []), (''upstreams'', JList []),
      (''use_global_settings'', JBool False), (''filtering_enabled'', JBool True), (''parental_enabled'', JBool False),
      (''safe_search'', JObj SAFE_SEARCH), (''use_global_blocked_services'', JBool False), (''blocked_services'', JList [])])"

definition sorted_ids :: "json \<Rightarrow> string list" where
  "sorted_ids v = sort (case v of JList xs \<Rightarrow> map (\<lambda>x. py_lower (json_str x)) xs | _ \<Rightarrow> [])"

definition client_matches :: "fields \<Rightarrow> fields \<Rightarrow> bool" where
  "client_matches existing want \<longleftrightarrow>
     list_all (\<lambda>k. jget existing k = jget want k)
       [''use_global_settings'', ''filtering_enabled'', ''parental_enabled'', ''use_global_blocked_services'', ''blocked_services'']
     \<and> sorted_ids (jget existing ''ids'') = sorted_ids (jget want ''ids'')
     \<and> (let ss = (case jget existing ''safe_search'' of JObj f \<Rightarrow> f | _ \<Rightarrow> []) in list_all (\<lambda>(k, v). jget ss k = v) SAFE_SEARCH)"

datatype agh_call = Set_rules "string list" | Add_client fields | Update_client string fields

text \<open>\<open>ensure_client\<close> against the clients AdGuard lists; the last one of a name counts.\<close>

definition ensure_client :: "(string \<times> fields) list \<Rightarrow> client_entry \<Rightarrow> agh_call list" where
  "ensure_client existing c = (case c of (ip, name, mac) \<Rightarrow>
     (case map_of (rev existing) name of
        None \<Rightarrow> [Add_client (desired_client c)]
      | Some e \<Rightarrow> if client_matches e (desired_client c) then [] else [Update_client name (desired_client c)]))"

record agh =
  ag_services :: "(string \<times> string list) list"
  ag_rules :: "string list"
  ag_clients :: "(string \<times> fields) list"

text \<open>A server that answers as AdGuard's API documents it: the instance of the parameter \<open>after\<close> below.\<close>

definition apply_call :: "agh \<Rightarrow> agh_call \<Rightarrow> agh" where
  "apply_call g c = (case c of
     Set_rules rs \<Rightarrow> g\<lparr>ag_rules := rs\<rparr>
   | Add_client f \<Rightarrow> g\<lparr>ag_clients := ag_clients g @ [(json_str (jget f ''name''), f)]\<rparr>
   | Update_client n f \<Rightarrow> g\<lparr>ag_clients := map (\<lambda>(x, d). if x = n then (json_str (jget f ''name''), f) else (x, d)) (ag_clients g)\<rparr>)"

text \<open>\<open>after\<close>: what AdGuard answers after a call; the clients are read again for each device.\<close>

fun ensure_clients :: "(agh \<Rightarrow> agh_call \<Rightarrow> agh) \<Rightarrow> agh \<Rightarrow> client_entry list \<Rightarrow> agh_call list" where
  "ensure_clients after g [] = []"
| "ensure_clients after g (c # cs) =
     (let calls = ensure_client (ag_clients g) c in calls @ ensure_clients after (foldl after g calls) cs)"

section \<open>One run\<close>

record job_inputs =
  ji_mode :: "string option"
  ji_live :: "policy_file option"
  ji_why :: string
  ji_last_good :: "policy_file option"
  ji_files :: policy_files
  ji_overrides :: "override list"

datatype job_result = Job_failed | Job_done "agh_call list" "string list" \<comment> \<open>calls, ignored denies\<close>

definition JOB_SERVICES :: "string list" where \<comment> \<open>the services whose domains the job looks up\<close>
  "JOB_SERVICES = [''telegram'', ''youtube'', ''roblox'']"

definition job_source :: "job_inputs \<Rightarrow> (string \<Rightarrow> string list) \<Rightarrow> dtime \<Rightarrow> py_exn + (string list \<times> string list \<times> client_entry list) option" where
  "job_source ji svc now =
     (if job_mode (ji_mode ji) = ''snapshot''
      then bind_res (load_snapshot (ji_why ji) (ji_live ji) (ji_last_good ji)) (\<lambda>(l, kept).
        case ld_snap l of None \<Rightarrow> Inr None
          | Some f \<Rightarrow> if set (fl_services f) \<subseteq> set JOB_SERVICES
              then (case job_render svc f now of (block, ignored) \<Rightarrow> Inr (Some (block, ignored, clients_from f)))
              else Inl KeyError)
      else bind_res (load_clients (ji_files ji)) (\<lambda>clients.
        Inr (Some (files_block (ji_files ji) svc clients now (active_entries now (ji_overrides ji)), [], clients))))"

definition run_job :: "job_inputs \<Rightarrow> (agh \<Rightarrow> agh_call \<Rightarrow> agh) \<Rightarrow> agh \<Rightarrow> dtime \<Rightarrow> py_exn + job_result" where
  "run_job ji after g now = bind_res (job_source ji (service_domains (ag_services g)) now) (\<lambda>src.
     case src of None \<Rightarrow> Inr Job_failed
     | Some (block, ignored, clients) \<Rightarrow>
         let merged = merge_rules (ag_rules g) block; rule_calls = (if merged = ag_rules g then [] else [Set_rules merged])
         in Inr (Job_done (rule_calls @ ensure_clients after (foldl after g rule_calls) clients) ignored))"

section \<open>Alerts about failures\<close>

datatype job_alert = Alert int | Cleared

definition record_result :: "bool \<Rightarrow> int \<Rightarrow> int \<times> job_alert list" where
  "record_result ok n = (if ok then (0, if 5 \<le> n then [Cleared] else [])
     else (n + 1, if 5 \<le> n + 1 then [Alert (n + 1)] else []))"

text \<open>How a run ends: an outage of AdGuard is another watcher's alert, every other failure counts here.\<close>

datatype run_end = Applied | Unreachable | Failed_run

definition job_main :: "run_end \<Rightarrow> int \<Rightarrow> int \<times> int \<times> job_alert list" where \<comment> \<open>exit code, failures in a row, alerts\<close>
  "job_main e n = (case e of
     Unreachable \<Rightarrow> (0, n, [])
   | Applied \<Rightarrow> (0, record_result True n)
   | Failed_run \<Rightarrow> (1, record_result False n))"

text \<open>The hash of the block that the status file shows.\<close>

definition rules_hash :: "string list \<Rightarrow> string" where
  "rules_hash ls = take 16 (sha256_hex (join_with [newline] ls))"

end
