(* ===== verification/Child_Job_Props.thy ===== *)
theory Child_Job_Props
  imports Child_Job Child_Props Child_Baseline
begin

text \<open>
  What the host job guarantees: the file the service writes is accepted and rendered as the service's own
  policy, an unusable file is never applied, the rules outside the managed block are kept, and a job that
  has nothing to change makes no call.  AdGuard is the interface \<open>adguard\<close>.
\<close>

section \<open>The interface to AdGuard\<close>

abbreviation client_of :: "agh \<Rightarrow> string \<Rightarrow> fields option" where
  "client_of g n \<equiv> map_of (rev (ag_clients g)) n"

locale adguard =
  fixes after :: "agh \<Rightarrow> agh_call \<Rightarrow> agh"
  assumes services_kept: "ag_services (after g c) = ag_services g"
    and rules_set: "ag_rules (after g (Set_rules rs)) = rs"
    and rules_clients: "ag_clients (after g (Set_rules rs)) = ag_clients g"
    and add_rules: "ag_rules (after g (Add_client f)) = ag_rules g"
    and update_rules: "ag_rules (after g (Update_client n f)) = ag_rules g"
    and added: "client_of g n = None \<Longrightarrow>
      \<exists>c. client_of (after g (Add_client (desired_client (ip, n, mac)))) n = Some c \<and> client_matches c (desired_client (ip, n, mac))"
    and updated: "client_of g n \<noteq> None \<Longrightarrow>
      \<exists>c. client_of (after g (Update_client n (desired_client (ip, n, mac)))) n = Some c \<and> client_matches c (desired_client (ip, n, mac))"
    and add_others: "m \<noteq> n \<Longrightarrow> client_of (after g (Add_client (desired_client (ip, n, mac)))) m = client_of g m"
    and update_others: "m \<noteq> n \<Longrightarrow> client_of (after g (Update_client n (desired_client (ip, n, mac)))) m = client_of g m"
begin

lemma ensure_one:
  "ag_rules (foldl after g (ensure_client (ag_clients g) c)) = ag_rules g"
  "ag_services (foldl after g (ensure_client (ag_clients g) c)) = ag_services g"
  by (cases c; auto simp: ensure_client_def add_rules update_rules services_kept split: option.splits)+

lemma ensure_one_client:
  "ensure_client (ag_clients (foldl after g (ensure_client (ag_clients g) (ip, n, mac)))) (ip, n, mac) = []"
proof (cases "client_of g n")
  case None
  with added [OF None, of ip mac] show ?thesis by (auto simp: ensure_client_def)
next
  case (Some e)
  with updated [of g n ip mac] show ?thesis
    by (cases "client_matches e (desired_client (ip, n, mac))") (auto simp: ensure_client_def)
qed

lemma ensure_one_other:
  "m \<noteq> n \<Longrightarrow> client_of (foldl after g (ensure_client (ag_clients g) (ip, n, mac))) m = client_of g m"
  by (simp add: ensure_client_def add_others update_others split: option.splits)

lemma ensure_all_rules [simp]:
  "ag_rules (foldl after g (ensure_clients after g cs)) = ag_rules g"
  "ag_services (foldl after g (ensure_clients after g cs)) = ag_services g"
  by (induction cs arbitrary: g) (simp_all add: Let_def ensure_one)

lemma ensure_all_other:
  "m \<notin> (fst \<circ> snd) ` set cs \<Longrightarrow> client_of (foldl after g (ensure_clients after g cs)) m = client_of g m"
proof (induction cs arbitrary: g)
  case (Cons c cs)
  obtain ip n mac where c: "c = (ip, n, mac)" by (cases c)
  with Cons.prems have "m \<noteq> n" "m \<notin> (fst \<circ> snd) ` set cs" by auto
  then show ?case using Cons.IH ensure_one_other [of m n g ip mac] by (simp add: Let_def c)
qed simp

lemma ensure_client_cong: "client_of g n = client_of h n \<Longrightarrow>
    ensure_client (ag_clients g) (ip, n, mac) = ensure_client (ag_clients h) (ip, n, mac)"
  by (simp add: ensure_client_def)

text \<open>Afterwards every device with a name of its own has its settings.\<close>

lemma ensure_all_settled:
  assumes "distinct (map (fst \<circ> snd) cs)"
  shows "\<forall>c\<in>set cs. ensure_client (ag_clients (foldl after g (ensure_clients after g cs))) c = []"
  using assms
proof (induction cs arbitrary: g)
  case (Cons c cs)
  obtain ip n mac where c: "c = (ip, n, mac)" by (cases c)
  let ?h = "foldl after g (ensure_client (ag_clients g) c)"
  have "n \<notin> (fst \<circ> snd) ` set cs" using Cons.prems c by auto
  from ensure_all_other [OF this, of ?h] have
    "ensure_client (ag_clients (foldl after ?h (ensure_clients after ?h cs))) c = ensure_client (ag_clients ?h) c"
    unfolding c by (rule ensure_client_cong)
  moreover have "ensure_client (ag_clients ?h) c = []" unfolding c by (rule ensure_one_client)
  ultimately show ?case using Cons.IH [of ?h] Cons.prems by (simp add: Let_def)
qed simp

lemma ensure_all_quiet: "\<forall>c\<in>set cs. ensure_client (ag_clients g) c = [] \<Longrightarrow> ensure_clients after g cs = []"
  by (induction cs) simp_all

end

lemma matches_desired: "client_matches (desired_client c) (desired_client c)"
  by (cases c) (simp add: client_matches_def desired_client_def jget_def SAFE_SEARCH_def)

lemma name_desired: "json_str (jget (desired_client (ip, n, mac)) ''name'') = n"
  by (simp add: desired_client_def jget_def json_str_def)

lemma map_of_update: "m' = n \<Longrightarrow> map_of (map (\<lambda>(x, d). if x = n then (m', f) else (x, d)) xs) m
    = (if m = n then map_option (\<lambda>_. f) (map_of xs n) else map_of xs m)"
  by (induction xs) auto

interpretation documented: adguard apply_call
  by unfold_locales (auto simp: apply_call_def name_desired map_of_update [OF name_desired] rev_map matches_desired split: agh_call.splits)

section \<open>The managed block\<close>

definition marks_free :: "string list \<Rightarrow> bool" where
  "marks_free xs \<longleftrightarrow> BEGIN_MARK \<notin> set xs \<and> END_MARK \<notin> set xs"

definition managed_block :: "string list \<Rightarrow> bool" where
  "managed_block b \<longleftrightarrow> (\<exists>ls. b = BEGIN_MARK # ls @ [END_MARK] \<and> marks_free ls)"

lemma merge_from_free: "marks_free xs \<Longrightarrow> merge_from sk (xs @ ys) = (if sk then [] else xs) @ merge_from sk ys"
  by (induction xs) (auto simp: marks_free_def)

lemma marks_differ: "BEGIN_MARK \<noteq> END_MARK" "END_MARK \<noteq> BEGIN_MARK"
  by (simp_all add: BEGIN_MARK_def END_MARK_def)

lemma merge_from_managed: "managed_block b \<Longrightarrow> merge_from False (b @ ys) = merge_from False ys"
  by (auto simp: managed_block_def merge_from_free marks_differ)

lemma merge_from_marks: "marks_free (merge_from sk xs)"
  by (induction sk xs rule: merge_from.induct) (auto simp: marks_free_def)

lemmas merge_simps = merge_from_free [where ys = "[]", simplified] merge_from_free merge_from_managed
  merge_from_managed [where ys = "[]", simplified]

lemma merge_again: "managed_block b \<Longrightarrow> merge_rules (merge_rules e b) b = merge_rules e b"
  by (simp add: merge_rules_def merge_from_marks merge_simps)

lemma rule_not_mark:
  "block_rule ip \<noteq> BEGIN_MARK" "deny_rule ip d \<noteq> BEGIN_MARK" "allow_rule ip d \<noteq> BEGIN_MARK"
  "block_rule ip \<noteq> END_MARK" "deny_rule ip d \<noteq> END_MARK" "allow_rule ip d \<noteq> END_MARK"
  by (simp_all add: block_rule_def deny_rule_def allow_rule_def BEGIN_MARK_def END_MARK_def)

lemmas marks_away = rule_not_mark rule_not_mark [symmetric]

lemma render_block_managed: "managed_block (render_block p svc now ov)"
proof -
  have "marks_free (device_lines p svc now ov dev)" for dev
    by (auto simp: marks_free_def device_lines_def Let_def marks_away)
  then show ?thesis by (auto simp: managed_block_def render_block_def marks_free_def)
qed

lemma files_block_managed: "managed_block (files_block f svc cs now active)"
proof -
  have "marks_free (files_device_lines f svc now active ip)" for ip
    by (auto simp: marks_free_def files_device_lines_def Let_def marks_away split: prod.splits)
  then show ?thesis by (auto simp: managed_block_def files_block_def marks_free_def)
qed

lemma job_source_snapshot:
  assumes "job_mode (ji_mode ji) = ''snapshot''" "job_source ji svc now = Inr (Some (block, ign, cs))"
  obtains l kept f where "load_snapshot (ji_why ji) (ji_live ji) (ji_last_good ji) = Inr (l, kept)" "ld_snap l = Some f"
    "job_render svc f now = (block, ign)"
proof -
  obtain l kept where l: "load_snapshot (ji_why ji) (ji_live ji) (ji_last_good ji) = Inr (l, kept)"
    and l2: "(case ld_snap l of None \<Rightarrow> Inr None
          | Some f \<Rightarrow> if set (fl_services f) \<subseteq> set JOB_SERVICES
              then (case job_render svc f now of (block, ignored) \<Rightarrow> Inr (Some (block, ignored, clients_from f)))
              else Inl KeyError) = Inr (Some (block, ign, cs))"
    using assms by (auto simp: job_source_def bind_res_Inr_iff)
  then show thesis using that [OF l] by (cases "ld_snap l") (auto split: prod.splits if_splits)
qed

lemma job_source_managed:
  assumes "job_source ji svc now = Inr (Some (block, ign, cs))"
  shows "managed_block block"
proof (cases "job_mode (ji_mode ji) = ''snapshot''")
  case True
  from job_source_snapshot [OF this assms] obtain f where "job_render svc f now = (block, ign)" .
  then show ?thesis by (auto simp: job_render_def render_block_managed split: prod.splits)
next
  case False
  then show ?thesis using assms by (auto simp: job_source_def bind_res_Inr_iff files_block_managed)
qed

text \<open>
  applying the policy keeps every rule outside the managed block, in its order, and replaces the
  block of an earlier run wherever it stands; applying it again changes nothing.
\<close>

theorem merge_keeps_foreign:
  assumes "marks_free xs" "marks_free ys"
  shows "let block = render_block p svc now ov in
      merge_rules (xs @ ys) block = xs @ ys @ block
    \<and> merge_rules (xs @ render_block q svc' now' ov' @ ys) block = xs @ ys @ block
    \<and> merge_rules (xs @ ys @ block) block = xs @ ys @ block"
  using assms by (simp add: Let_def merge_rules_def merge_simps render_block_managed)

lemma merge_keeps_foreign_witness:
  "merge_rules ([''||ads.cz^''] @ render_block ex_policy (\<lambda>s. []) (at_minute 739002 600) [] @ [''@@||cz^''])
      (render_block ex_policy (\<lambda>s. []) (at_minute 739002 960) [])
    = [''||ads.cz^'', ''@@||cz^''] @ render_block ex_policy (\<lambda>s. []) (at_minute 739002 960) []"
proof -
  have "marks_free [''||ads.cz^'']" "marks_free [''@@||cz^'']" by code_simp+
  from merge_keeps_foreign [OF this] show ?thesis by (simp add: Let_def)
qed

section \<open>A run that has nothing to change\<close>

context adguard begin

lemma run_calls:
  assumes "run_job ji after g now = Inr (Job_done calls ign)"
  obtains block cs where "job_source ji (service_domains (ag_services g)) now = Inr (Some (block, ign, cs))"
    "managed_block block" "ag_rules (foldl after g calls) = merge_rules (ag_rules g) block"
    "ag_services (foldl after g calls) = ag_services g"
    "distinct (map (fst \<circ> snd) cs) \<longrightarrow> (\<forall>c\<in>set cs. ensure_client (ag_clients (foldl after g calls)) c = [])"
proof -
  obtain block cs where src: "job_source ji (service_domains (ag_services g)) now = Inr (Some (block, ign, cs))"
    and calls: "calls = (let m = merge_rules (ag_rules g) block; rc = (if m = ag_rules g then [] else [Set_rules m])
      in rc @ ensure_clients after (foldl after g rc) cs)"
    using assms by (auto simp: run_job_def bind_res_Inr_iff Let_def split: option.splits prod.splits)
  show thesis
  proof (rule that [OF src job_source_managed [OF src]])
    show "ag_rules (foldl after g calls) = merge_rules (ag_rules g) block"
      "ag_services (foldl after g calls) = ag_services g"
      unfolding calls Let_def by (simp_all add: rules_set services_kept)
    show "distinct (map (fst \<circ> snd) cs) \<longrightarrow> (\<forall>c\<in>set cs. ensure_client (ag_clients (foldl after g calls)) c = [])"
      using ensure_all_settled unfolding calls Let_def foldl_append by blast
  qed
qed

lemma run_again:
  assumes run: "run_job ji after g now = Inr (Job_done calls ign)"
    and src: "job_source ji (service_domains (ag_services g)) now = Inr (Some (block, ign', cs))"
    and d: "distinct (map (fst \<circ> snd) cs)"
  shows "run_job ji after (foldl after g calls) now = Inr (Job_done [] ign)"
proof -
  from run obtain block1 cs1 where "job_source ji (service_domains (ag_services g)) now = Inr (Some (block1, ign, cs1))"
    and b: "managed_block block1" "ag_rules (foldl after g calls) = merge_rules (ag_rules g) block1"
      "ag_services (foldl after g calls) = ag_services g"
      "distinct (map (fst \<circ> snd) cs1) \<longrightarrow> (\<forall>c\<in>set cs1. ensure_client (ag_clients (foldl after g calls)) c = [])"
    by (rule run_calls)
  with src d have "job_source ji (service_domains (ag_services (foldl after g calls))) now = Inr (Some (block1, ign, cs1))"
    "ensure_clients after (foldl after g calls) cs1 = []"
    by (auto intro: ensure_all_quiet)
  then show ?thesis using merge_again [OF b(1)] b(2) by (simp add: run_job_def)
qed

end

text \<open>
  the job is idempotent and quiet: run again on what AdGuard then answers, it makes no call, provided
  the devices have names of their own.
\<close>

theorem job_settles:
  assumes "adguard after" "run_job ji after g now = Inr (Job_done calls ign)"
    and "job_source ji (service_domains (ag_services g)) now = Inr (Some (block, ign', clients))"
    and "distinct (map (fst \<circ> snd) clients)"
  shows "run_job ji after (foldl after g calls) now = Inr (Job_done [] ign)"
  using adguard.run_again [OF assms] .

section \<open>From the store to the rules\<close>

lemma rule_of_rule_fields [simp]: "rule_of_fields (rule_fields r) = r"
  by (cases r) (auto simp: rule_of_fields_def rule_fields_def jget_def json_str_def str_opt_def json_int_def jopt_def comp_def
      split: option.splits)

lemma rules_of_rules_json [simp]: "rules_of_json (rules_json rs) = rs"
  by (induction rs) (simp_all add: rules_of_json_def rules_json_def List.map_filter_def)

lemma map_res_Inr_iff: "map_res f xs = Inr ys \<longleftrightarrow> map f xs = map Inr ys"
proof (induction xs arbitrary: ys)
  case (Cons x xs)
  show ?case by (cases ys) (auto simp: bind_res_Inr_iff Cons.IH)
qed auto

lemma json_str_JStr [simp]: "json_str (JStr s) = s" "json_str \<circ> JStr = id"
  by (simp_all add: json_str_def fun_eq_iff)

text \<open>The exceptions of a publication that have not ended at \<open>now\<close>.\<close>

definition published_exceptions :: "db \<Rightarrow> dtime \<Rightarrow> int \<Rightarrow> entity \<Rightarrow> (string \<times> string) list" where
  "published_exceptions st t0 now_ts e = map (\<lambda>x. (meta_text e ''ip'', ce_target x))
     (filter (\<lambda>x. now_ts < timestamp (ce_expires x)) (child_exceptions st (Some (e_id e)) True t0))"

lemma device_overrides_published:
  "snap_device_of st t0 e = Inr d \<Longrightarrow> device_overrides n d = published_exceptions st t0 n e"
  by (auto simp: snap_device_of_def bind_res_Inr_iff device_overrides_def published_exceptions_def List.map_filter_def
      comp_def cexc_json_def after_now_def jget_def meta_text_def filter_map)

lemma snap_device_policy:
  assumes "snap_device_of st t0 e = Inr d" "snap_device_sound d"
  shows "child_device_of st e = Inr (snap_policy_device (d, meta_text e ''mac''))" "ignored_denies d = []"
proof -
  obtain s where s: "schedule_of st (e_id e) = Inr s" and d: "sd_id d = JStr (e_id e)" "sd_ip d = jget (e_meta e) ''ip''"
      "sd_name d = JStr (e_name e)" "sd_rules d = rules_json (sc_rules s)" "sd_allow_extra d = map JStr (child_domains st (e_id e) Allow)"
      "sd_deny_extra d = map JStr (child_domains st (e_id e) Deny)"
    using assms(1) by (auto simp: snap_device_of_def bind_res_Inr_iff)
  have deny: "\<forall>h\<in>set (child_domains st (e_id e) Deny). deny_breaks_baseline h = None"
    using assms(2) by (auto simp: snap_device_sound_def d)
  then have "filter (\<lambda>h. deny_breaks_baseline h = None) (child_domains st (e_id e) Deny) = child_domains st (e_id e) Deny"
    by (simp add: filter_id_conv)
  then show "child_device_of st e = Inr (snap_policy_device (d, meta_text e ''mac''))"
    by (simp add: child_device_of_def snap_policy_device_def s d meta_text_def)
  show "ignored_denies d = []" using deny by (simp add: ignored_denies_def d filter_empty_conv)
qed

text \<open>The renderer looks at the lists as sets.\<close>

lemma render_block_lists:
  assumes "set (l_allow_always l1) = set (l_allow_always l2)" "set (l_allow_weekdays l1) = set (l_allow_weekdays l2)"
    "set (l_allow_extra l1) = set (l_allow_extra l2)" "set (l_deny_extra l1) = set (l_deny_extra l2)" "set s1 = set s2"
  shows "render_block \<lparr>cp_devices = ds, cp_lists = l1, cp_always_services = s1\<rparr> svc now ov
    = render_block \<lparr>cp_devices = ds, cp_lists = l2, cp_always_services = s2\<rparr> svc now ov"
proof -
  let ?p = "\<lparr>cp_devices = ds, cp_lists = l1, cp_always_services = s1\<rparr>"
  let ?q = "\<lparr>cp_devices = ds, cp_lists = l2, cp_always_services = s2\<rparr>"
  have deny: "deny_list ?p dev = deny_list ?q dev" for dev
    unfolding deny_list_def sorted_set_eq_iff using assms by simp
  have "set (allowed_domains ?p svc now tg dev) = set (allowed_domains ?q svc now tg dev)" for tg dev
    unfolding allowed_domains_def Let_def using assms by simp
  then have "sorted_set (filter P (allowed_domains ?p svc now tg dev)) = sorted_set (filter P (allowed_domains ?q svc now tg dev))"
    for P tg dev unfolding sorted_set_eq_iff set_filter by simp
  then have "device_lines ?p svc now ov = device_lines ?q svc now ov"
    by (simp add: device_lines_def Let_def deny fun_eq_iff)
  then show ?thesis by (simp add: render_block_def)
qed

lemma sound_devices_policy:
  assumes "map (snap_device_of st t0) es = map Inr ds" "\<forall>d\<in>set ds. snap_device_sound d"
  shows "map_res (child_device_of st) es = Inr (map snap_policy_device (zip ds (map (\<lambda>e. meta_text e ''mac'') es)))"
    and "concat (map ignored_denies ds) = []"
    and "concat (map (device_overrides n) ds) = concat (map (published_exceptions st t0 n) es)"
  using assms
proof (induction es arbitrary: ds)
  case (Cons e es)
  case 1
  then show ?case using Cons.IH(1) by (cases ds) (auto simp: snap_device_policy(1) [of st t0])
next
  case (Cons e es)
  case 2
  then show ?case using Cons.IH(2) by (cases ds) (auto simp: snap_device_policy(2) [of st t0])
next
  case (Cons e es)
  case 3
  then show ?case using Cons.IH(3) by (cases ds) (simp_all add: device_overrides_published)
qed simp_all

lemma written_file_render:
  assumes "written_file st t0 = Inr (Some f)"
  shows "file_problems f = Inr []"
    and "\<exists>p. child_policy_of st = Inr p \<and> job_render svc f now
      = (render_block p svc now (concat (map (published_exceptions st t0 (timestamp now)) (child_devices st))), [])"
proof -
  obtain r where r: "publish_child st t0 = Inr r" using assms unfolding written_file_def bind_res_Inr_iff by blast
  with assms obtain s where s: "publish_child st t0 = Inr (Written s)" by (cases r) (simp_all add: written_file_def)
  then obtain core where
    f: "f = \<lparr>fl_core = core, fl_checksum = JStr (policy_checksum core), fl_schema = sn_schema s,
         fl_devices = zip (sn_devices s) (map (\<lambda>e. meta_text e ''mac'') (child_devices st)),
         fl_lists = sorted_lists (fst (child_house_lists st)), fl_services = sn_always_services s\<rparr>"
    using assms by (auto simp: written_file_def bind_res_Inr_iff)
  obtain ls ws where house: "child_house_lists st = (ls, ws)" by fastforce
  obtain ds where snap: "s = \<lparr>sn_schema = JInt 1, sn_devices = ds, sn_allow_always = sort (l_allow_always ls), sn_always_services = sort ws\<rparr>"
    and ds: "map (snap_device_of st t0) (child_devices st) = map Inr ds" and ok: "verify_snapshot s = Inr []"
    using s by (auto simp: publish_child_def child_snapshot_def bind_res_Inr_iff house map_res_Inr_iff split: if_splits)
  have len: "length ds = length (child_devices st)" using arg_cong [OF ds, of length] by simp
  have "file_snapshot f = s" by (simp add: f file_snapshot_def snap house len sorted_lists_def)
  then show "file_problems f = Inr []" using ok by (simp add: file_problems_def f checksum_ok_def)
  have "\<forall>d\<in>set ds. snap_device_sound d" using verify_devices [OF ok] snap by simp
  note dev = sound_devices_policy [OF ds this]
  have "concat (map (ignored_denies \<circ> fst) (fl_devices f)) = []"
    using dev(2) len by (simp add: f snap map_map [symmetric] del: map_map)
  moreover have "active_overrides f n = concat (map (published_exceptions st t0 n) (child_devices st))" for n
    using dev(3) [of n] len by (simp add: active_overrides_def f snap map_map [symmetric] del: map_map)
  ultimately show "\<exists>p. child_policy_of st = Inr p \<and> job_render svc f now
      = (render_block p svc now (concat (map (published_exceptions st t0 (timestamp now)) (child_devices st))), [])"
    using dev(1) by (auto simp: job_render_def policy_from_def child_policy_of_def house f snap sorted_lists_def intro!: render_block_lists)
qed

lemma written_file_services:
  assumes "written_file st t0 = Inr (Some f)" "house_ok (db_lists st)"
  shows "set (fl_services f) \<subseteq> set JOB_SERVICES"
proof -
  obtain r where r: "publish_child st t0 = Inr r" using assms(1) unfolding written_file_def bind_res_Inr_iff by blast
  with assms(1) obtain s where s: "publish_child st t0 = Inr (Written s)" by (cases r) (simp_all add: written_file_def)
  then have "fl_services f = sn_always_services s" using assms(1) by (auto simp: written_file_def bind_res_Inr_iff)
  moreover have "set (sn_always_services s) = set (snd (child_house_lists st))"
    using s by (auto simp: publish_child_def child_snapshot_def bind_res_Inr_iff split: if_splits prod.splits)
  ultimately show ?thesis using assms(2)
    by (auto simp: child_house_lists_def house_ok_def JOB_SERVICES_def split: option.splits)
qed

text \<open>
  C2: the file the service writes is what the job enforces.  In snapshot mode it is loaded as it is, and
  from then on AdGuard's rules are the ones of other origin followed by the block that the service's own
  policy has at the time of the run, with the exceptions of the file that have not ended; no deny entry
  is ignored.  \<open>house_ok\<close> holds in every reachable state of the store.
\<close>

theorem job_enforces_policy:
  assumes "adguard after" "written_file st t0 = Inr (Some f)" "house_ok (db_lists st)"
    and "job_mode (ji_mode ji) = ''snapshot''" "ji_live ji = Some f"
  shows "\<exists>p calls. child_policy_of st = Inr p \<and> run_job ji after g now = Inr (Job_done calls [])
    \<and> ag_rules (foldl after g calls) = merge_from False (ag_rules g)
        @ render_block p (service_domains (ag_services g)) now
            (concat (map (published_exceptions st t0 (timestamp now)) (child_devices st)))"
proof -
  obtain p where p: "child_policy_of st = Inr p" and r: "job_render (service_domains (ag_services g)) f now
      = (render_block p (service_domains (ag_services g)) now
          (concat (map (published_exceptions st t0 (timestamp now)) (child_devices st))), [])"
    using written_file_render(2) [OF assms(2)] by blast
  have src: "job_source ji (service_domains (ag_services g)) now = Inr (Some (fst (job_render (service_domains (ag_services g)) f now), [], clients_from f))"
    using assms(4,5) written_file_render(1) [OF assms(2)] written_file_services [OF assms(2,3)]
    by (simp add: job_source_def load_snapshot_def r)
  then obtain calls where run: "run_job ji after g now = Inr (Job_done calls [])"
    by (simp add: run_job_def Let_def)
  show ?thesis using p run adguard.run_calls [OF assms(1) run] src r by (auto simp: merge_rules_def)
qed

definition ex_tablet_entity :: entity where
  "ex_tablet_entity = \<lparr>e_id = ''tablet'', e_kind = Child_window, e_name = ''Tablet'', e_ha_target = None, e_managed = False,
     e_flags = \<lparr>f_household_editable = Some True, f_guardrails_proposed = None\<rparr>, e_guardrails = ex_guards,
     e_meta = [(''ip'', JStr ''192.168.31.40''), (''mac'', JStr [])]\<rparr>"

definition ex_tablet_db :: db where
  "ex_tablet_db = empty_db\<lparr>db_entities := [\<lparr>en_entity = ex_tablet_entity, en_position = 0\<rparr>],
     db_schedules := [\<lparr>sc_entity = ''tablet'', sc_version = 1, sc_rules = ex_child_rules, sc_updated = at_minute 739002 600\<rparr>],
     db_domains := [\<lparr>dm_entity = ''tablet'', dm_kind = Deny, dm_domain = ''ads.example.com''\<rparr>],
     db_lists := Some (\<lparr>l_allow_always = REQUIRED_ALWAYS, l_allow_weekdays = [], l_allow_extra = [], l_deny_extra = []\<rparr>, [''telegram''])\<rparr>"

definition ex_inputs :: "policy_file option \<Rightarrow> job_inputs" where
  "ex_inputs live = \<lparr>ji_mode = Some ''snapshot'', ji_live = live, ji_why = ''FileNotFoundError'', ji_last_good = None,
     ji_files = \<lparr>pf_allow_always = ''example.com'', pf_allow_weekdays = [], pf_allow_extra = None, pf_deny_extra = None, pf_clients = []\<rparr>,
     ji_overrides = []\<rparr>"

definition ex_agh :: agh where
  "ex_agh = \<lparr>ag_services = [(''telegram'', [''||t.me^''])], ag_rules = [''||ads.cz^''], ag_clients = []\<rparr>"

lemma ex_tablet_written: "\<exists>f. written_file ex_tablet_db (at_minute 739002 600) = Inr (Some f)"
proof -
  have "(case publish_child ex_tablet_db (at_minute 739002 600) of Inr (Written s) \<Rightarrow> True | _ \<Rightarrow> False)" by code_simp
  then obtain s where "publish_child ex_tablet_db (at_minute 739002 600) = Inr (Written s)"
    by (auto split: sum.splits child_publication.splits)
  moreover have "\<not> isl (snapshot_core ex_tablet_db (at_minute 739002 600))" by code_simp
  then obtain core where "snapshot_core ex_tablet_db (at_minute 739002 600) = Inr core"
    by (metis sum.collapse(2))
  ultimately show ?thesis by (simp add: written_file_def)
qed

lemma job_enforces_policy_witness:
  "\<exists>f p calls. child_policy_of ex_tablet_db = Inr p \<and> run_job (ex_inputs (Some f)) apply_call ex_agh (at_minute 739002 960) = Inr (Job_done calls [])
     \<and> ag_rules (foldl apply_call ex_agh calls) = ''||ads.cz^'' # render_block p (service_domains [(''telegram'', [''||t.me^''])])
        (at_minute 739002 960) (concat (map (published_exceptions ex_tablet_db (at_minute 739002 600) (timestamp (at_minute 739002 960))) (child_devices ex_tablet_db)))"
proof -
  obtain f where f: "written_file ex_tablet_db (at_minute 739002 600) = Inr (Some f)" using ex_tablet_written by blast
  have m: "job_mode (ji_mode (ex_inputs (Some f))) = ''snapshot''" "ji_live (ex_inputs (Some f)) = Some f"
    by (simp_all add: ex_inputs_def, code_simp)
  have h: "house_ok (db_lists ex_tablet_db)" by code_simp
  show ?thesis using job_enforces_policy [OF documented.adguard_axioms f h m, of ex_agh "at_minute 739002 960"]
    by (simp add: ex_agh_def BEGIN_MARK_def END_MARK_def) blast
qed

definition ex_files :: job_inputs where
  "ex_files = (ex_inputs None)\<lparr>ji_mode := None, ji_files := (ji_files (ex_inputs None))\<lparr>pf_clients := ''192.168.31.40 Tablet''\<rparr>\<rparr>"

lemma job_settles_witness:
  "\<exists>calls. run_job ex_files apply_call ex_agh (at_minute 739002 960) = Inr (Job_done calls [])
     \<and> run_job ex_files apply_call (foldl apply_call ex_agh calls) (at_minute 739002 960) = Inr (Job_done [] [])"
proof -
  have clients: "load_clients (ji_files ex_files) = Inr [(''192.168.31.40'', ''Tablet'', [])]" "job_mode (ji_mode ex_files) = ''files''"
    by code_simp+
  then obtain block where src: "job_source ex_files (service_domains (ag_services ex_agh)) (at_minute 739002 960)
     = Inr (Some (block, [], [(''192.168.31.40'', ''Tablet'', [])]))"
    by (simp add: job_source_def)
  then obtain calls where run: "run_job ex_files apply_call ex_agh (at_minute 739002 960) = Inr (Job_done calls [])"
    by (simp add: run_job_def Let_def)
  then show ?thesis using job_settles [OF documented.adguard_axioms run src] by auto
qed

section \<open>Unusable snapshots\<close>

lemma load_snapshot_usable:
  assumes "load_snapshot why live last_good = Inr (l, kept)" "ld_snap l = Some f"
  shows "live = Some f \<or> last_good = Some f" "file_problems f = Inr []"
proof -
  have g: "last_good = Some f \<and> file_problems f = Inr []"
    if "load_last_good last_good w = Inr l" for w
    using that assms(2) by (cases last_good) (auto simp: load_last_good_def bind_res_Inr_iff split: if_splits)
  show "live = Some f \<or> last_good = Some f" "file_problems f = Inr []"
    using assms g by (cases live; auto simp: load_snapshot_def bind_res_Inr_iff split: if_splits)+
qed

lemma verify_baseline:
  "verify_snapshot s = Inr [] \<Longrightarrow> set REQUIRED_ALWAYS \<subseteq> set (sn_allow_always s)"
proof -
  assume "verify_snapshot s = Inr []"
  then have "missing_always (sn_allow_always s) = []" by (auto simp: verify_snapshot_def bind_res_Inr_iff split: if_splits)
  then have "set (missing_always (sn_allow_always s)) = {}" by simp
  then show ?thesis unfolding missing_always_def sorted_set_props set_filter by blast
qed

lemma file_block_restricts:
  assumes d: "(d, mac) \<in> set (fl_devices f)" "(json_str (sd_ip d), ''all'') \<notin> set (active_overrides f (timestamp now))"
  shows "block_rule (json_str (sd_ip d)) \<in> set (fst (job_render svc f now))"
proof -
  let ?p = "fst (policy_from f)" and ?dev = "snap_policy_device (d, mac)"
  have dev: "?dev \<in> set (cp_devices ?p)" using d(1) by (simp add: policy_from_def)
  have ip: "cd_ip ?dev = json_str (sd_ip d)" by (simp add: snap_policy_device_def)
  have "''all'' \<notin> set (override_targets (active_overrides f (timestamp now)) (cd_ip ?dev))"
    using d(2) by (force simp: override_targets_def ip)
  then have "block_rule (cd_ip ?dev) \<in> set (device_lines ?p svc now (active_overrides f (timestamp now)) ?dev)"
    by (simp add: device_lines_def Let_def)
  then show ?thesis using dev by (auto simp: job_render_def render_block_def ip split: prod.splits)
qed

lemma file_block_baseline:
  assumes ok: "file_problems f = Inr []" and house: "\<forall>x\<in>set (l_deny_extra (fl_lists f)). deny_breaks_baseline x = None"
    and d: "(d, mac) \<in> set (fl_devices f)" "(json_str (sd_ip d), ''all'') \<notin> set (active_overrides f (timestamp now))"
    and h: "h \<in> set REQUIRED_ALWAYS"
  shows "allow_rule (json_str (sd_ip d)) h \<in> set (fst (job_render svc f now))"
proof -
  let ?p = "fst (policy_from f)" and ?dev = "snap_policy_device (d, mac)" and ?ov = "active_overrides f (timestamp now)"
  have dev: "?dev \<in> set (cp_devices ?p)" using d(1) by (simp add: policy_from_def)
  have ip: "cd_ip ?dev = json_str (sd_ip d)" by (simp add: snap_policy_device_def)
  have "verify_snapshot (file_snapshot f) = Inr []" using ok by (simp add: file_problems_def bind_res_Inr_iff)
  from verify_baseline [OF this] have "h \<in> set (allowed_domains ?p svc now (override_targets ?ov (cd_ip ?dev)) ?dev)"
    using h by (auto simp: allowed_domains_def Let_def policy_from_def file_snapshot_def)
  moreover have "\<forall>x\<in>set (deny_list ?p ?dev). deny_breaks_baseline x = None"
    using house by (auto simp: deny_list_def policy_from_def snap_policy_device_def)
  then have "\<not> is_under h (deny_list ?p ?dev)" using h by (intro deny_keeps_required) auto
  moreover have "''all'' \<notin> set (override_targets ?ov (cd_ip ?dev))" using d(2) by (force simp: override_targets_def ip)
  ultimately have "allow_rule (cd_ip ?dev) h \<in> set (device_lines ?p svc now ?ov ?dev)" using allow_rule_mem by blast
  then show ?thesis using dev by (auto simp: job_render_def render_block_def ip split: prod.splits)
qed

definition snapshot_applied :: "policy_file \<Rightarrow> int \<Rightarrow> string list \<Rightarrow> bool" where
  "snapshot_applied f now_ts rules \<longleftrightarrow> (\<forall>(d, mac)\<in>set (fl_devices f).
     (json_str (sd_ip d), ''all'') \<notin> set (active_overrides f now_ts) \<longrightarrow>
       block_rule (json_str (sd_ip d)) \<in> set rules
     \<and> ((\<forall>x\<in>set (l_deny_extra (fl_lists f)). deny_breaks_baseline x = None) \<longrightarrow>
          (\<forall>h\<in>set REQUIRED_ALWAYS. allow_rule (json_str (sd_ip d)) h \<in> set rules)))"

lemma render_applied:
  assumes "file_problems f = Inr []" "set (fst (job_render svc f now)) \<subseteq> set rules"
  shows "snapshot_applied f (timestamp now) rules"
  unfolding snapshot_applied_def
proof (intro ballI, clarify, intro conjI impI ballI)
  fix d mac
  assume d: "(d, mac) \<in> set (fl_devices f)" "(json_str (sd_ip d), ''all'') \<notin> set (active_overrides f (timestamp now))"
  show "block_rule (json_str (sd_ip d)) \<in> set rules" using file_block_restricts [OF d] assms(2) by blast
  show "allow_rule (json_str (sd_ip d)) h \<in> set rules"
    if "\<forall>x\<in>set (l_deny_extra (fl_lists f)). deny_breaks_baseline x = None" "h \<in> set REQUIRED_ALWAYS" for h
    using file_block_baseline [OF assms(1) that(1) d that(2)] assms(2) by blast
qed


definition ex_house_file :: "string list \<Rightarrow> policy_file" where
  "ex_house_file deny = \<lparr>fl_core = [], fl_checksum = JStr (policy_checksum []), fl_schema = JInt 1,
     fl_devices = map (\<lambda>d. (d, [])) (sn_devices ex_snapshot),
     fl_lists = \<lparr>l_allow_always = REQUIRED_ALWAYS, l_allow_weekdays = [], l_allow_extra = [], l_deny_extra = deny\<rparr>,
     fl_services = [''telegram'']\<rparr>"

lemma ex_house_file_ok: "file_problems (ex_house_file deny) = Inr []"
proof -
  have "verify_snapshot ex_snapshot = Inr []" by code_simp
  moreover have "file_snapshot (ex_house_file deny) = ex_snapshot"
    by (simp add: file_snapshot_def ex_house_file_def ex_snapshot_def)
  ultimately show ?thesis by (simp add: file_problems_def checksum_ok_def) (simp add: ex_house_file_def)
qed


text \<open>
  the checks of a snapshot do not look at the house-wide deny list: a file that denies a domain over a
  required host is accepted, and then no device has the allow rule of that host.
\<close>

theorem house_deny_unchecked:
  "deny_breaks_baseline ''google.com'' \<noteq> None \<and> file_problems (ex_house_file [''google.com'']) = Inr []
    \<and> allow_rule ''192.168.31.40'' ''www.google.com'' \<notin> set (fst (job_render svc (ex_house_file [''google.com'']) now))"
proof -
  have "deny_breaks_baseline ''google.com'' \<noteq> None" by code_simp
  moreover have "allow_rule ''192.168.31.40'' ''www.google.com'' \<notin> set (device_lines p svc now ov dev)"
    if "cd_ip dev = ''192.168.31.40''" "''google.com'' \<in> set (l_deny_extra (cp_lists p))" for p ov dev
  proof -
    have "is_under1 ''www.google.com'' ''google.com''" by code_simp
    then have "is_under ''www.google.com'' (deny_list p dev)"
      using that(2) by (auto simp: is_under_def list_ex_iff deny_list_def)
    then show ?thesis using allow_rule_mem [of dev] that(1) by metis
  qed
  then have "allow_rule ''192.168.31.40'' ''www.google.com'' \<notin> set (fst (job_render svc (ex_house_file [''google.com'']) now))"
    by (simp add: job_render_def policy_from_def ex_house_file_def render_block_def ex_snapshot_def snap_policy_device_def marks_away json_str_def)
  ultimately show ?thesis using ex_house_file_ok by blast
qed

end
