(* ===== verification/Map_Decode.thy ===== *)
theory Map_Decode
  imports Prelude "HOL-Library.Word"
begin

text \<open>
  \<open>robots/tuya-map/tuya_map\<close>: the decoder of a vacuum robot's map files, \<open>lz4block.py\<close>, \<open>layout.py\<close> and
  \<open>path.py\<close>.  Bytes are \<open>8 word\<close>, a \<open>MapError\<close> is its message.  Coordinates, which the code holds as
  tenths in floats, are the tenths; the name of a room is its bytes before decoding.
\<close>

unbundle bit_operations_syntax

type_synonym byte = "8 word"
type_synonym 'a decoded = "string + 'a"

lemma bind_res_cong [fundef_cong]:
  "m = m' \<Longrightarrow> (\<And>x. m' = Inr x \<Longrightarrow> f x = f' x) \<Longrightarrow> bind_res m f = bind_res m' f'"
  by (cases m') auto

definition check :: "bool \<Rightarrow> string \<Rightarrow> unit decoded" where \<comment> \<open>\<open>if not b: raise MapError(m)\<close>\<close>
  "check b m = (if b then Inr () else Inl m)"

lemma check_iff [simp]: "check b m = Inr x \<longleftrightarrow> b" "check b m = Inl e \<longleftrightarrow> \<not> b \<and> e = m"
  by (auto simp: check_def)

lemma check_simps [simp]: "check True m = Inr ()" "check False m = Inl m"
  by (simp_all add: check_def)

section \<open>LZ4 blocks\<close>

definition DEFAULT_MAX_SIZE :: nat where
  "DEFAULT_MAX_SIZE = 64 * 1024 * 1024"

text \<open>\<open>_extend\<close>: bytes of 255 go on, any other ends the length.\<close>

function len_extend :: "byte list \<Rightarrow> nat \<Rightarrow> nat \<Rightarrow> (nat \<times> nat) decoded" where
  "len_extend src pos len =
     (if length src \<le> pos then Inl ''truncated LZ4 data (length extension)''
      else let b = src ! pos in
        if b \<noteq> 255 then Inr (len + unat b, pos + 1) else len_extend src (pos + 1) (len + unat b))"
  by auto
termination by (relation "measure (\<lambda>(src, pos, len). length src - pos)") auto

declare len_extend.simps [simp del]

text \<open>The bytes a match appends: position by position, so an overlapping match repeats the pattern.\<close>

fun copy_bytes :: "byte list \<Rightarrow> nat \<Rightarrow> nat \<Rightarrow> byte list" where
  "copy_bytes out start 0 = out"
| "copy_bytes out start (Suc n) = copy_bytes (out @ [out ! start]) (start + 1) n"

definition copy_match :: "byte list \<Rightarrow> nat \<Rightarrow> nat \<Rightarrow> byte list" where
  "copy_match out offset mlen =
     (let start = length out - offset
      in if mlen \<le> offset then out @ take mlen (drop start out) else copy_bytes out start mlen)"

text \<open>One sequence: \<open>Ended\<close> after the literals that end the input, else where the next one starts.\<close>

datatype sequence_end = Ended "byte list" | Goes_on nat "byte list"

definition literals :: "byte list \<Rightarrow> nat \<Rightarrow> nat \<Rightarrow> byte list \<Rightarrow> (byte \<times> nat \<times> byte list) decoded" where
  "literals src max_size pos out =
     (let token = src ! pos; lit = unat (drop_bit 4 token) in
      bind_res (if lit = 15 then len_extend src (pos + 1) lit else Inr (lit, pos + 1)) (\<lambda>(lit, pos).
      bind_res (check (pos + lit \<le> length src) ''truncated LZ4 data (literals)'') (\<lambda>_.
      bind_res (check (length out + lit \<le> max_size) ''LZ4 output exceeds the allowed size'') (\<lambda>_.
        Inr (token, pos + lit, out @ take lit (drop pos src))))))"

definition match_part :: "byte list \<Rightarrow> nat \<Rightarrow> byte \<Rightarrow> nat \<Rightarrow> byte list \<Rightarrow> (nat \<times> byte list) decoded" where
  "match_part src max_size token pos out =
     bind_res (check (pos + 2 \<le> length src) ''truncated LZ4 data (offset)'') (\<lambda>_.
     let offset = unat (src ! pos) OR push_bit 8 (unat (src ! (pos + 1))) in
     bind_res (check (offset \<noteq> 0 \<and> offset \<le> length out) ''invalid LZ4 match offset'') (\<lambda>_.
     let mlen = unat (token AND 15) in
     bind_res (if mlen = 15 then len_extend src (pos + 2) mlen else Inr (mlen, pos + 2)) (\<lambda>(mlen, pos).
     let mlen = mlen + 4 in
     bind_res (check (length out + mlen \<le> max_size) ''LZ4 output exceeds the allowed size'') (\<lambda>_.
       Inr (pos, copy_match out offset mlen)))))"

definition sequence_at :: "byte list \<Rightarrow> nat \<Rightarrow> nat \<Rightarrow> byte list \<Rightarrow> sequence_end decoded" where
  "sequence_at src max_size pos out =
     bind_res (literals src max_size pos out) (\<lambda>(token, pos, out).
       if length src \<le> pos then Inr (Ended out)
       else bind_res (match_part src max_size token pos out) (\<lambda>(pos, out). Inr (Goes_on pos out)))"

lemma extend_increases: "len_extend src pos len = Inr (l, p) \<Longrightarrow> pos < p \<and> p \<le> length src \<and> len \<le> l"
proof (induction src pos len rule: len_extend.induct)
  case (1 src pos len)
  then show ?case by (subst (asm) (2) len_extend.simps) (fastforce simp: Let_def split: if_splits)
qed

lemma literals_increases:
  assumes "literals src m pos out = Inr (t, p, o')"
  shows "pos < p"
proof -
  obtain lit q where "(if unat (drop_bit 4 (src ! pos)) = 15 then len_extend src (pos + 1) (unat (drop_bit 4 (src ! pos)))
      else Inr (unat (drop_bit 4 (src ! pos)), pos + 1)) = Inr (lit, q)" "p = q + lit"
    using assms by (auto simp: literals_def Let_def bind_res_Inr_iff)
  then show ?thesis using extend_increases by (fastforce split: if_splits)
qed

lemma match_part_increases:
  assumes "match_part src m t pos out = Inr (p, o')"
  shows "pos < p"
proof -
  obtain len where "(if unat (t AND 15) = 15 then len_extend src (pos + 2) (unat (t AND 15)) else Inr (unat (t AND 15), pos + 2)) = Inr (len, p)"
    using assms by (auto simp: match_part_def Let_def bind_res_Inr_iff)
  then show ?thesis using extend_increases by (fastforce split: if_splits)
qed

lemma sequence_increases: "sequence_at src m pos out = Inr (Goes_on p o') \<Longrightarrow> pos < p"
  by (auto simp: sequence_at_def bind_res_Inr_iff split: if_splits dest!: literals_increases match_part_increases)

text \<open>The loop ends because every sequence consumes its token.\<close>

function decode_from :: "byte list \<Rightarrow> nat \<Rightarrow> nat \<Rightarrow> byte list \<Rightarrow> byte list decoded" where
  "decode_from src max_size pos out =
     (if pos < length src
      then bind_res (sequence_at src max_size pos out) (\<lambda>s. case s of
        Ended out \<Rightarrow> Inr out | Goes_on pos out \<Rightarrow> decode_from src max_size pos out)
      else Inr out)"
  by auto
termination by (relation "measure (\<lambda>(src, m, pos, out). length src - pos)") (auto dest!: sequence_increases)

declare decode_from.simps [simp del]

definition decompress :: "byte list \<Rightarrow> nat \<Rightarrow> byte list decoded" where
  "decompress src max_size =
     (if src = [] then Inl ''empty LZ4 data'' else decode_from src max_size 0 [])"

section \<open>Layout files\<close>

definition MAX_PIXELS :: nat where "MAX_PIXELS = 16 * 1024 * 1024"
definition HEADER_V01 :: nat where "HEADER_V01 = 24"
definition HEADER_V152 :: nat where "HEADER_V152 = 18"
definition ROOM_RECORD :: nat where "ROOM_RECORD = 47"
definition ROOM_NAME_MAX :: nat where "ROOM_NAME_MAX = 20"

record room =
  rm_room_id :: nat
  rm_order :: nat
  rm_sweep_count :: nat
  rm_mop_count :: nat
  rm_room_name :: "byte list"

record layout =
  lo_version :: nat
  lo_map_id :: nat
  lo_kind :: nat
  lo_width :: nat
  lo_height :: nat
  lo_origin_x :: nat
  lo_origin_y :: nat
  lo_resolution :: nat
  lo_pile_x :: nat
  lo_pile_y :: nat
  lo_pixels :: "byte list"
  lo_rooms :: "room list"

definition u16 :: "byte list \<Rightarrow> nat \<Rightarrow> nat" where
  "u16 b i = push_bit 8 (unat (b ! i)) OR unat (b ! (i + 1))"

text \<open>The room table: a byte that is ignored, the count, the records.\<close>

fun room_records :: "nat \<Rightarrow> byte list \<Rightarrow> room list decoded" where
  "room_records 0 bs = Inr []"
| "room_records (Suc n) bs =
     (let rec = take ROOM_RECORD bs in
      bind_res (check (ROOM_RECORD \<le> length rec) ''truncated room table'') (\<lambda>_.
      let name_len = unat (rec ! 26) in
      bind_res (check (name_len \<le> ROOM_NAME_MAX) ''implausible room name length'') (\<lambda>_.
      bind_res (room_records n (drop ROOM_RECORD bs)) (\<lambda>rs.
        Inr (\<lparr>rm_room_id = u16 rec 0, rm_order = u16 rec 2, rm_sweep_count = u16 rec 4, rm_mop_count = u16 rec 6,
          rm_room_name = take name_len (drop 27 rec)\<rparr> # rs)))))"

definition parse_rooms :: "byte list \<Rightarrow> room list decoded" where
  "parse_rooms extra = (if length extra < 2 then Inr [] else room_records (unat (extra ! 1)) (drop 2 extra))"

definition V0_CODES :: "byte list" where
  "V0_CODES = [0x00, 0xF1, 0xF2, 0xFF]"

definition v0_pixels :: "byte \<Rightarrow> byte list" where
  "v0_pixels b = map (\<lambda>k. V0_CODES ! unat (drop_bit k b AND 3)) [6, 4, 2, 0]"

definition SHORT_BITMAP :: string where
  "SHORT_BITMAP = ''layout bitmap is shorter than width*height''"

definition unpack_v0 :: "byte list \<Rightarrow> nat \<Rightarrow> byte list decoded" where
  "unpack_v0 packed n_px =
     (let out = concat (map v0_pixels packed) in bind_res (check (n_px \<le> length out) SHORT_BITMAP) (\<lambda>_. Inr (take n_px out)))"

definition bitmap :: "nat \<Rightarrow> byte list \<Rightarrow> nat \<Rightarrow> (byte list \<times> room list) decoded" where \<comment> \<open>lines 118-138\<close>
  "bitmap version data n_px =
     (if version = 152
      then bind_res (decompress (drop HEADER_V152 data) DEFAULT_MAX_SIZE) (\<lambda>pixels.
           bind_res (check (n_px \<le> length pixels) SHORT_BITMAP) (\<lambda>_. Inr (take n_px pixels, [])))
      else bind_res (check (HEADER_V01 \<le> length data) ''layout too short for a header'') (\<lambda>_.
           let clen = u16 data 22 in
           bind_res (check (clen \<noteq> 0) ''uncompressed layouts are not supported'') (\<lambda>_.
           let body = take clen (drop HEADER_V01 data) in
           bind_res (check (clen \<le> length body) ''layout body is shorter than its declared compressed length'') (\<lambda>_.
           bind_res (decompress body DEFAULT_MAX_SIZE) (\<lambda>raw.
             if version = 0 then bind_res (unpack_v0 raw n_px) (\<lambda>pixels. Inr (pixels, []))
             else bind_res (check (n_px \<le> length raw) SHORT_BITMAP) (\<lambda>_.
                  bind_res (parse_rooms (drop n_px raw)) (\<lambda>rooms. Inr (take n_px raw, rooms))))))))"

definition parse_layout :: "byte list \<Rightarrow> layout decoded" where
  "parse_layout data =
     bind_res (check (HEADER_V152 \<le> length data) ''layout too short for a header'') (\<lambda>_.
     let version = unat (data ! 0); width = u16 data 4; height = u16 data 6 in
     bind_res (check (version \<in> {0, 1, 152}) (''unsupported layout version '' @ str_nat version)) (\<lambda>_.
     bind_res (check (width \<noteq> 0 \<and> height \<noteq> 0 \<and> width * height \<le> MAX_PIXELS)
       (''implausible layout size '' @ str_nat width @ ''x'' @ str_nat height)) (\<lambda>_.
     bind_res (bitmap version data (width * height)) (\<lambda>(pixels, rooms).
       Inr \<lparr>lo_version = version, lo_map_id = u16 data 1, lo_kind = unat (data ! 3), lo_width = width, lo_height = height,
         lo_origin_x = u16 data 8, lo_origin_y = u16 data 10, lo_resolution = u16 data 12, lo_pile_x = u16 data 14,
         lo_pile_y = u16 data 16, lo_pixels = pixels, lo_rooms = rooms\<rparr>))))"

datatype pixel_class = Floor nat | Wall | Zone | Background | Unknown_pixel

definition classify :: "nat \<Rightarrow> pixel_class" where
  "classify v =
     (if v < 240 then (if v mod 4 = 0 then Floor (v div 4) else if v mod 4 \<in> {1, 3} then Wall else Unknown_pixel)
      else if v = 240 then Zone
      else if v \<in> {241, 248, 249, 251, 252, 253} then Wall
      else if v \<in> {243, 255} then Background else Unknown_pixel)"

section \<open>Path files\<close>

definition PATH_HEADER :: nat where "PATH_HEADER = 13"
definition HEADER_V12 :: nat where "HEADER_V12 = 8"
definition MAX_POINTS :: nat where "MAX_POINTS = 4 * 1024 * 1024"

record robot_path =
  pa_version :: nat
  pa_map_id :: nat
  pa_points :: "(int \<times> int) list" \<comment> \<open>tenths of a map cell\<close>

definition signed16 :: "nat \<Rightarrow> int" where
  "signed16 v = (if 32768 < v then int v - 65536 else int v)"

definition path_point :: "byte list \<Rightarrow> bool \<Rightarrow> nat \<Rightarrow> int \<times> int" where
  "path_point body mirror i =
     (let x = signed16 (u16 body i); y = signed16 (u16 body (i + 2)) in (x, if mirror then - y else y))"

definition path_body :: "byte list \<Rightarrow> (byte list \<times> bool) decoded" where
  "path_body data =
     (if unat (data ! 0) = 12 then Inr (drop HEADER_V12 data, False)
      else bind_res (check (PATH_HEADER \<le> length data) ''path too short for a header'') (\<lambda>_.
        let clen = u16 data 11; raw = drop PATH_HEADER data in
        if clen = 0 then Inr (raw, True)
        else bind_res (check (clen \<le> length raw) ''path body is shorter than its declared compressed length'') (\<lambda>_.
             bind_res (decompress (take clen raw) DEFAULT_MAX_SIZE) (\<lambda>raw. Inr (raw, True)))))"

definition parse_path :: "byte list \<Rightarrow> robot_path decoded" where
  "parse_path data =
     bind_res (check (HEADER_V12 \<le> length data) ''path too short for a header'') (\<lambda>_.
     bind_res (path_body data) (\<lambda>(body, mirror).
     bind_res (check (length body mod 4 = 0) ''path body is not a whole number of points'') (\<lambda>_.
     bind_res (check (length body div 4 \<le> MAX_POINTS) ''implausible number of path points'') (\<lambda>_.
       Inr \<lparr>pa_version = unat (data ! 0), pa_map_id = u16 data 1,
         pa_points = map (\<lambda>k. path_point body mirror (4 * k)) [0..<length body div 4]\<rparr>))))"

end
