(* ===== verification/Map_Props.thy ===== *)
theory Map_Props
  imports Map_Decode
begin

text \<open>
  The LZ4 decoder accepts exactly the blocks of the format and expands them as the format says; what the
  parsers of layouts and paths return is complete and can be read back.
\<close>

lemma ex3I: "P x y z \<Longrightarrow> \<exists>x y z. P x y z" and ex4I: "Q x y z u \<Longrightarrow> \<exists>x y z u. Q x y z u"
  by blast+

section \<open>Bytes\<close>

lemma unat_byte_less: "unat (b :: byte) < 256"
  using unsigned_less [of b] by simp

lemma unat_of_nat_byte: "n < 256 \<Longrightarrow> unat (of_nat n :: byte) = n"
  by (simp add: unat_of_nat)

lemma byte_eq_of_nat: "n < 256 \<Longrightarrow> (b = of_nat n) = (unat b = n)" for b :: byte
  by (auto simp: word_unat_eq_iff unat_of_nat_byte)

lemma or_push_nat: "a < 256 \<Longrightarrow> push_bit 8 b OR a = 256 * b + a" "a < 256 \<Longrightarrow> a OR push_bit 8 b = 256 * b + a" for a b :: nat
proof -
  assume a: "a < 256"
  then have "take_bit 8 a = a" by (simp add: take_bit_nat_eq_self)
  then have "\<not> bit (push_bit 8 b) n \<or> \<not> bit a n" for n
    by (metis bit_push_bit_iff bit_take_bit_iff not_le)
  then have "push_bit 8 b + a = push_bit 8 b OR a" by (intro disjunctive_add) blast
  then show "push_bit 8 b OR a = 256 * b + a" "a OR push_bit 8 b = 256 * b + a"
    by (simp_all add: push_bit_eq_mult or.commute)
qed

lemma u16_value: "u16 b i = 256 * unat (b ! i) + unat (b ! (i + 1))"
  unfolding u16_def by (rule or_push_nat) (rule unat_byte_less)

lemma high_nibble: "unat (drop_bit 4 (t :: byte)) = unat t div 16"
  by (simp add: drop_bit_eq_div unat_div_distrib)

lemma low_nibble: "unat (t AND 15 :: byte) = unat t mod 16"
proof -
  have "(15 :: byte) = mask 4" by (simp add: mask_eq_exp_minus_1)
  then have "t AND 15 = take_bit 4 t" by (simp only: take_bit_eq_mask)
  then show ?thesis by (simp only: unsigned_take_bit_eq) (simp add: take_bit_eq_mod)
qed

section \<open>The format\<close>

text \<open>
  A block is a list of sequences, literals and a match each, and at most one last sequence of literals only,
  whose low nibble is free.
\<close>

datatype lz4_seq = Seq "byte list" nat nat \<comment> \<open>literals, offset, length\<close>

type_synonym lz4_block = "lz4_seq list \<times> (byte list \<times> nat) option"

function len_ext :: "nat \<Rightarrow> byte list" where
  "len_ext n = (if n < 255 then [of_nat n] else 255 # len_ext (n - 255))"
  by auto
termination by (relation "measure id") auto

declare len_ext.simps [simp del]

definition ext_of :: "nat \<Rightarrow> byte list" where
  "ext_of n = (if n < 15 then [] else len_ext (n - 15))"

definition enc_head :: "byte list \<Rightarrow> nat \<Rightarrow> byte list" where
  "enc_head l nib = of_nat (16 * min (length l) 15 + nib) # ext_of (length l) @ l"

definition enc_match :: "nat \<Rightarrow> nat \<Rightarrow> byte list" where
  "enc_match off m = [of_nat (off mod 256), of_nat (off div 256)] @ ext_of (m - 4)"

fun enc_seq :: "lz4_seq \<Rightarrow> byte list" where
  "enc_seq (Seq l off m) = enc_head l (min (m - 4) 15) @ enc_match off m"

definition enc_last :: "(byte list \<times> nat) option \<Rightarrow> byte list" where
  "enc_last x = (case x of None \<Rightarrow> [] | Some (l, nib) \<Rightarrow> enc_head l nib)"

definition lz4_encode :: "lz4_block \<Rightarrow> byte list" where
  "lz4_encode b = concat (map enc_seq (fst b)) @ enc_last (snd b)"

text \<open>What a block stands for: a match repeats bytes from \<open>off\<close> back, one after the other.\<close>

fun exp_seq :: "byte list \<Rightarrow> lz4_seq \<Rightarrow> byte list" where
  "exp_seq out (Seq l off m) = copy_bytes (out @ l) (length out + length l - off) m"

definition lz4_expand :: "byte list \<Rightarrow> lz4_block \<Rightarrow> byte list" where
  "lz4_expand out b = foldl exp_seq out (fst b) @ (case snd b of None \<Rightarrow> [] | Some (l, nib) \<Rightarrow> l)"

fun valid_seq :: "byte list \<Rightarrow> lz4_seq \<Rightarrow> bool" where
  "valid_seq out (Seq l off m) \<longleftrightarrow> 1 \<le> off \<and> off \<le> length out + length l \<and> off < 65536 \<and> 4 \<le> m"

fun valid_seqs :: "byte list \<Rightarrow> lz4_seq list \<Rightarrow> bool" where
  "valid_seqs out [] = True"
| "valid_seqs out (s # ss) \<longleftrightarrow> valid_seq out s \<and> valid_seqs (exp_seq out s) ss"

definition valid_block :: "byte list \<Rightarrow> lz4_block \<Rightarrow> bool" where
  "valid_block out b \<longleftrightarrow> valid_seqs out (fst b) \<and> (case snd b of None \<Rightarrow> True | Some (l, nib) \<Rightarrow> nib < 16)"

section \<open>Reading at a position\<close>

lemma drop_Cons: "pos < length src \<Longrightarrow> drop pos src = src ! pos # drop (pos + 1) src"
  by (simp add: Cons_nth_drop_Suc)

lemma len_ext_not_Nil [simp]: "len_ext n \<noteq> []"
  by (subst len_ext.simps) simp

lemma extend_iff:
  "len_extend src pos len = Inr (l, p) \<longleftrightarrow>
     (\<exists>n rest. l = len + n \<and> drop pos src = len_ext n @ rest \<and> p = pos + length (len_ext n))"
proof (induction src pos len arbitrary: l p rule: len_extend.induct)
  case (1 src pos len)
  show ?case
  proof (cases "length src \<le> pos")
    case True
    then show ?thesis by (subst len_extend.simps) auto
  next
    case False
    then have d: "drop pos src = src ! pos # drop (pos + 1) src" by (simp add: drop_Cons)
    show ?thesis
    proof (cases "src ! pos = 255")
      case True
      have "len_extend src pos len = Inr (l, p) \<longleftrightarrow> len_extend src (pos + 1) (len + 255) = Inr (l, p)"
        using False True by (subst len_extend.simps) simp
      also have "\<dots> \<longleftrightarrow> (\<exists>n rest. l = len + 255 + n \<and> drop (pos + 1) src = len_ext n @ rest \<and> p = pos + 1 + length (len_ext n))"
        using "1.IH" [OF False refl, of l p] True by simp
      also have "\<dots> \<longleftrightarrow> (\<exists>n rest. l = len + n \<and> drop pos src = len_ext n @ rest \<and> p = pos + length (len_ext n))"
      proof (intro iffI; elim exE conjE)
        fix n rest
        assume "l = len + 255 + n" "drop (pos + 1) src = len_ext n @ rest" "p = pos + 1 + length (len_ext n)"
        then show "\<exists>n rest. l = len + n \<and> drop pos src = len_ext n @ rest \<and> p = pos + length (len_ext n)"
          using d True by (intro exI [of _ "n + 255"]  exI [of _ rest]) (simp add: len_ext.simps [of "n + 255"])
      next
        fix n rest
        assume *: "l = len + n" "drop pos src = len_ext n @ rest" "p = pos + length (len_ext n)"
        have "\<not> n < 255"
        proof
          assume "n < 255"
          then have "src ! pos = of_nat n" using *(2) d by (simp add: len_ext.simps [of n])
          then have "unat (src ! pos) = n" using \<open>n < 255\<close> byte_eq_of_nat [of n] by simp
          with True \<open>n < 255\<close> show False by simp
        qed
        then show "\<exists>n rest. l = len + 255 + n \<and> drop (pos + 1) src = len_ext n @ rest \<and> p = pos + 1 + length (len_ext n)"
          using * d by (intro exI [of _ "n - 255"]  exI [of _ rest]) (simp add: len_ext.simps [of n])
      qed
      finally show ?thesis .
    next
      case other: False
      have "unat (src ! pos) \<noteq> 255" using other byte_eq_of_nat [of 255 "src ! pos"] by simp
      then have less: "unat (src ! pos) < 255" using unat_byte_less [of "src ! pos"] by linarith
      have "len_extend src pos len = Inr (l, p) \<longleftrightarrow> l = len + unat (src ! pos) \<and> p = pos + 1"
        using False other by (subst len_extend.simps) auto
      moreover have "(\<exists>n rest. l = len + n \<and> drop pos src = len_ext n @ rest \<and> p = pos + length (len_ext n))
          \<longleftrightarrow> l = len + unat (src ! pos) \<and> p = pos + 1"
      proof (intro iffI; (elim exE conjE)?)
        fix n rest
        assume *: "l = len + n" "drop pos src = len_ext n @ rest" "p = pos + length (len_ext n)"
        have "n < 255" using *(2) d other by (subst (asm) len_ext.simps) (auto split: if_splits)
        then show "l = len + unat (src ! pos) \<and> p = pos + 1"
          using * d by (simp add: len_ext.simps [of n] unat_of_nat_byte)
      next
        assume "l = len + unat (src ! pos)" "p = pos + 1"
        then show "\<exists>n rest. l = len + n \<and> drop pos src = len_ext n @ rest \<and> p = pos + length (len_ext n)"
          using d less by (intro exI [of _ "unat (src ! pos)"]  exI [of _ "drop (pos + 1) src"]) (simp add: len_ext.simps)
      qed
      ultimately show ?thesis by simp
    qed
  qed
qed

text \<open>A length of which the token holds at most 15.\<close>

lemma coded_length_iff:
  assumes "v \<le> 15"
  shows "(if v = 15 then len_extend src pos v else Inr (v, pos)) = Inr (l, p) \<longleftrightarrow>
     v = min l 15 \<and> (\<exists>rest. drop pos src = ext_of l @ rest \<and> p = pos + length (ext_of l))"
proof (cases "v = 15")
  case True
  have "(\<exists>n rest. l = 15 + n \<and> drop pos src = len_ext n @ rest \<and> p = pos + length (len_ext n))
      \<longleftrightarrow> 15 = min l 15 \<and> (\<exists>rest. drop pos src = ext_of l @ rest \<and> p = pos + length (ext_of l))"
    by (auto simp: ext_of_def min_def split: if_splits intro!: exI [of _ "l - 15"])
  then show ?thesis using True by (simp add: extend_iff)
next
  case False
  then show ?thesis using assms by (auto simp: ext_of_def min_def)
qed

lemma drop_prefix: "drop pos src = xs @ rest \<Longrightarrow> drop (pos + length xs) src = rest"
  by (metis add.commute append_eq_conv_conj drop_drop)

lemma token_nibbles:
  assumes "nib < 16" "k < 16"
  shows "unat (of_nat (16 * k + nib) :: byte) = 16 * k + nib"
  using assms by (intro unat_of_nat_byte) simp

lemma literals_iff:
  assumes "pos < length src"
  shows "literals src m pos out = Inr (t, p, o') \<longleftrightarrow>
     (\<exists>l nib rest. nib < 16 \<and> drop pos src = enc_head l nib @ rest \<and> p = pos + length (enc_head l nib)
        \<and> t = of_nat (16 * min (length l) 15 + nib) \<and> o' = out @ l \<and> length o' \<le> m)" (is "?L \<longleftrightarrow> ?R")
proof
  note d = drop_Cons [OF assms]
  have hi: "unat (src ! pos) div 16 \<le> 15" using unat_byte_less [of "src ! pos"] by (simp add: less_mult_imp_div_less flip: less_Suc_eq_le)
  assume ?L
  then obtain lit q where len: "(if unat (src ! pos) div 16 = 15 then len_extend src (pos + 1) (unat (src ! pos) div 16)
      else Inr (unat (src ! pos) div 16, pos + 1)) = Inr (lit, q)"
    and r: "q + lit \<le> length src" "length out + lit \<le> m" "t = src ! pos" "p = q + lit" "o' = out @ take lit (drop q src)"
    by (auto simp: literals_def Let_def bind_res_Inr_iff high_nibble)
  from len obtain rest where e: "unat (src ! pos) div 16 = min lit 15" "drop (pos + 1) src = ext_of lit @ rest" "q = pos + 1 + length (ext_of lit)"
    unfolding coded_length_iff [OF hi] by blast
  define l where "l = take lit (drop q src)"
  have rest: "drop q src = rest" using drop_prefix [OF e(2)] e(3) by simp
  have l: "length l = lit" using r(1) by (simp add: l_def)
  have "drop pos src = enc_head l (unat (src ! pos) mod 16) @ drop (q + lit) src"
  proof -
    have "src ! pos = of_nat (16 * min (length l) 15 + unat (src ! pos) mod 16)"
      using e(1) l by (metis div_mult_mod_eq mult.commute of_nat_unat ucast_id)
    moreover have "rest = l @ drop (q + lit) src" by (metis add.commute append_take_drop_id drop_drop l_def rest)
    ultimately show ?thesis using d e(2) l by (simp add: enc_head_def)
  qed
  moreover have "unat (src ! pos) mod 16 < 16" by simp
  moreover have "t = of_nat (16 * min (length l) 15 + unat (src ! pos) mod 16)"
    using e(1) l r(3) by (metis div_mult_mod_eq mult.commute of_nat_unat ucast_id)
  moreover have "p = pos + length (enc_head l (unat (src ! pos) mod 16))" using r(4) e(3) l by (simp add: enc_head_def)
  moreover have "o' = out @ l" "length o' \<le> m" using r l by (simp_all add: l_def)
  ultimately show ?R by blast
next
  note d = drop_Cons [OF assms]
  assume ?R
  then obtain l nib rest where r: "nib < 16" "drop pos src = enc_head l nib @ rest" "p = pos + length (enc_head l nib)"
      "t = of_nat (16 * min (length l) 15 + nib)" "o' = out @ l" "length o' \<le> m" by blast
  have t: "src ! pos = t" "drop (pos + 1) src = ext_of (length l) @ l @ rest"
    using r(2,4) d by (simp_all add: enc_head_def)
  have u: "unat t = 16 * min (length l) 15 + nib" unfolding r(4) by (rule token_nibbles [OF r(1)]) simp
  then have v: "unat t div 16 = min (length l) 15" using r(1) by simp
  let ?q = "pos + 1 + length (ext_of (length l))"
  have "(if unat t div 16 = 15 then len_extend src (pos + 1) (unat t div 16) else Inr (unat t div 16, pos + 1)) = Inr (length l, ?q)"
    by (subst coded_length_iff) (use v t(2) in auto)
  moreover have q: "drop ?q src = l @ rest" using drop_prefix [OF t(2)] by simp
  then have "?q + length l \<le> length src"
    using arg_cong [OF t(2), of length] assms by simp
  ultimately show ?L using r t(1) q
    by (auto simp: literals_def Let_def high_nibble enc_head_def)
qed

lemma length_copy_bytes [simp]: "length (copy_bytes out st n) = length out + n"
  by (induction out st n rule: copy_bytes.induct) simp_all

lemma copy_bytes_apart: "st + n \<le> length out \<Longrightarrow> copy_bytes out st n = out @ take n (drop st out)"
proof (induction out st n rule: copy_bytes.induct)
  case (2 out st n)
  then have "drop st out = out ! st # drop (st + 1) out" by (simp add: drop_Cons)
  with 2 show ?case by simp
qed simp

lemma copy_match_bytes: "off \<le> length out \<Longrightarrow> copy_match out off n = copy_bytes out (length out - off) n"
  by (simp add: copy_match_def Let_def copy_bytes_apart)

lemma match_part_iff:
  "match_part src m t pos out = Inr (p, o') \<longleftrightarrow>
     (\<exists>off mlen rest. 1 \<le> off \<and> off \<le> length out \<and> off < 65536 \<and> 4 \<le> mlen \<and> unat t mod 16 = min (mlen - 4) 15
        \<and> drop pos src = enc_match off mlen @ rest \<and> p = pos + length (enc_match off mlen)
        \<and> o' = copy_bytes out (length out - off) mlen \<and> length out + mlen \<le> m)" (is "?L \<longleftrightarrow> ?R")
proof
  assume ?L
  then obtain len where two: "pos + 2 \<le> length src"
    and off: "256 * unat (src ! (pos + 1)) + unat (src ! pos) \<noteq> 0" "256 * unat (src ! (pos + 1)) + unat (src ! pos) \<le> length out"
    and len: "(if unat t mod 16 = 15 then len_extend src (pos + 2) (unat t mod 16) else Inr (unat t mod 16, pos + 2)) = Inr (len, p)"
    and r: "length out + (len + 4) \<le> m"
      "o' = copy_match out (256 * unat (src ! (pos + 1)) + unat (src ! pos)) (len + 4)"
    by (auto simp: match_part_def Let_def bind_res_Inr_iff low_nibble or_push_nat(2) [OF unat_byte_less])
  have "unat t mod 16 \<le> 15" by simp
  from len obtain rest where e: "unat t mod 16 = min len 15" "drop (pos + 2) src = ext_of len @ rest" "p = pos + 2 + length (ext_of len)"
    unfolding coded_length_iff [OF \<open>unat t mod 16 \<le> 15\<close>] by blast
  let ?off = "256 * unat (src ! (pos + 1)) + unat (src ! pos)"
  have b: "unat (src ! pos) < 256" "unat (src ! (pos + 1)) < 256" by (rule unat_byte_less)+
  have "drop pos src = src ! pos # src ! (pos + 1) # drop (pos + 2) src"
    using two drop_Cons [of pos src] drop_Cons [of "pos + 1" src] by simp
  then have d: "drop pos src = enc_match ?off (len + 4) @ rest" using e(2) b by (simp add: enc_match_def)
  have lt: "?off < 65536" using b by linarith
  obtain w where w: "?off = w" by simp
  show ?R using off e r d lt copy_match_bytes [OF off(2)] unfolding w
    by (intro ex3I [of _ w "len + 4" rest]) (simp add: enc_match_def)
next
  assume ?R
  then obtain off mlen rest where r: "1 \<le> off" "off \<le> length out" "off < 65536" "4 \<le> mlen" "unat t mod 16 = min (mlen - 4) 15"
      "drop pos src = enc_match off mlen @ rest" "p = pos + length (enc_match off mlen)"
      "o' = copy_bytes out (length out - off) mlen" "length out + mlen \<le> m" by blast
  have two: "pos + 2 \<le> length src" using arg_cong [OF r(6), of length] by (simp add: enc_match_def)
  then have d: "drop pos src = src ! pos # src ! (pos + 1) # drop (pos + 2) src"
    using drop_Cons [of pos src] drop_Cons [of "pos + 1" src] by simp
  have src: "src ! pos = of_nat (off mod 256)" "src ! (pos + 1) = of_nat (off div 256)" "drop (pos + 2) src = ext_of (mlen - 4) @ rest"
    using r(6) unfolding d by (simp_all add: enc_match_def)
  have "unat (src ! pos) = off mod 256" unfolding src(1) by (rule unat_of_nat_byte) simp
  moreover have "unat (src ! (pos + 1)) = off div 256" unfolding src(2) using r(3) by (intro unat_of_nat_byte) linarith
  ultimately have o: "256 * unat (src ! (pos + 1)) + unat (src ! pos) = off" by simp
  have "(if unat t mod 16 = 15 then len_extend src (pos + 2) (unat t mod 16) else Inr (unat t mod 16, pos + 2)) = Inr (mlen - 4, p)"
    by (subst coded_length_iff) (use r(5,7) src(3) in \<open>auto simp: enc_match_def\<close>)
  then show ?L using r(1,2,4,8,9) two o copy_match_bytes [OF r(2)]
    by (auto simp: match_part_def Let_def bind_res_Inr_iff low_nibble or_push_nat(2) [OF unat_byte_less])
qed

section \<open>Blocks\<close>

lemma length_exp_seq: "length out \<le> length (exp_seq out s)"
  by (cases s) simp

lemma length_expand: "length out \<le> length (lz4_expand out b)"
proof -
  have "length out \<le> length (foldl exp_seq out ss)" for ss
    by (induction ss arbitrary: out) (simp, metis foldl_Cons le_trans length_exp_seq)
  then show ?thesis by (simp add: lz4_expand_def trans_le_add1)
qed

lemma encode_Cons: "lz4_encode (Seq l off k # ss, fin) = enc_head l (min (k - 4) 15) @ enc_match off k @ lz4_encode (ss, fin)"
  by (simp add: lz4_encode_def)

lemma expand_Cons: "lz4_expand out (s # ss, fin) = lz4_expand (exp_seq out s) (ss, fin)"
  by (simp add: lz4_expand_def)

lemma encode_Nil: "lz4_encode ([], fin) = (case fin of None \<Rightarrow> [] | Some (l, nib) \<Rightarrow> enc_head l nib)"
  by (simp add: lz4_encode_def enc_last_def)

lemma enc_head_not_Nil [simp]: "enc_head l nib \<noteq> []"
  by (simp add: enc_head_def)

lemma encode_empty: "lz4_encode b = [] \<longleftrightarrow> b = ([], None)" "[] = lz4_encode b \<longleftrightarrow> b = ([], None)"
proof -
  obtain ss fin where b: "b = (ss, fin)" by (cases b)
  show "lz4_encode b = [] \<longleftrightarrow> b = ([], None)"
  proof (cases ss)
    case Nil
    then show ?thesis by (auto simp: b encode_Nil split: option.splits)
  next
    case (Cons s ss')
    then show ?thesis by (cases s) (simp add: b encode_Cons)
  qed
  then show "[] = lz4_encode b \<longleftrightarrow> b = ([], None)" by metis
qed

lemma sequence_Ended_iff:
  assumes "pos < length src"
  shows "sequence_at src m pos out = Inr (Ended o') \<longleftrightarrow>
    (\<exists>l nib. nib < 16 \<and> drop pos src = enc_head l nib \<and> o' = out @ l \<and> length o' \<le> m)"
proof -
  have "sequence_at src m pos out = Inr (Ended o') \<longleftrightarrow> (\<exists>t p. literals src m pos out = Inr (t, p, o') \<and> length src \<le> p)"
    by (auto simp: sequence_at_def bind_res_Inr_iff split: if_splits)
  also have "\<dots> \<longleftrightarrow> (\<exists>l nib rest. nib < 16 \<and> drop pos src = enc_head l nib @ rest \<and> o' = out @ l \<and> length o' \<le> m
      \<and> length src \<le> pos + length (enc_head l nib))"
    unfolding literals_iff [OF assms] by blast
  also have "\<dots> \<longleftrightarrow> (\<exists>l nib. nib < 16 \<and> drop pos src = enc_head l nib \<and> o' = out @ l \<and> length o' \<le> m)"
  proof -
    have "rest = []" if "drop pos src = enc_head l nib @ rest" "length src \<le> pos + length (enc_head l nib)" for l nib rest
      using drop_prefix [OF that(1)] that(2) by simp
    moreover have "length src \<le> pos + length (enc_head l nib)" if "drop pos src = enc_head l nib" for l nib
      using arg_cong [OF that, of length] by simp
    ultimately show ?thesis by (metis append_Nil2)
  qed
  finally show ?thesis .
qed

lemma sequence_Goes_on_iff:
  assumes "pos < length src"
  shows "sequence_at src m pos out = Inr (Goes_on p o') \<longleftrightarrow>
    (\<exists>l off k rest. valid_seq out (Seq l off k) \<and> drop pos src = enc_seq (Seq l off k) @ rest \<and> p = pos + length (enc_seq (Seq l off k))
       \<and> o' = exp_seq out (Seq l off k) \<and> length o' \<le> m)" (is "?L \<longleftrightarrow> ?R")
proof
  assume ?L
  then obtain t q o1 where 1: "literals src m pos out = Inr (t, q, o1)" and "q < length src" and 2: "match_part src m t q o1 = Inr (p, o')"
    by (auto simp: sequence_at_def bind_res_Inr_iff split: if_splits)
  from 1 obtain l nib rest where l: "nib < 16" "drop pos src = enc_head l nib @ rest" "q = pos + length (enc_head l nib)"
      "t = of_nat (16 * min (length l) 15 + nib)" "o1 = out @ l" unfolding literals_iff [OF assms] by blast
  from 2 obtain off k rest' where k: "1 \<le> off" "off \<le> length o1" "off < 65536" "4 \<le> k" "unat t mod 16 = min (k - 4) 15"
      "drop q src = enc_match off k @ rest'" "p = q + length (enc_match off k)"
      "o' = copy_bytes o1 (length o1 - off) k" "length o1 + k \<le> m" unfolding match_part_iff by blast
  have "unat t = 16 * min (length l) 15 + nib" unfolding l(4) by (rule token_nibbles [OF l(1)]) simp
  then have "nib = min (k - 4) 15" using k(5) l(1) by simp
  moreover have "rest = enc_match off k @ rest'" using k(6) drop_prefix [OF l(2)] l(3) by simp
  ultimately show ?R using l k by (intro ex4I [of _ l off k rest']) simp
next
  assume ?R
  then obtain l off k rest where r: "valid_seq out (Seq l off k)" "drop pos src = enc_seq (Seq l off k) @ rest"
      "p = pos + length (enc_seq (Seq l off k))" "o' = exp_seq out (Seq l off k)" "length o' \<le> m" by blast
  let ?nib = "min (k - 4) 15" and ?t = "of_nat (16 * min (length l) 15 + min (k - 4) 15) :: byte"
  let ?q = "pos + length (enc_head l ?nib)"
  have d: "drop pos src = enc_head l ?nib @ enc_match off k @ rest" using r(2) by simp
  then have 1: "literals src m pos out = Inr (?t, ?q, out @ l)"
    unfolding literals_iff [OF assms] using r(4,5) by (intro exI [of _ l]  exI [of _ ?nib]  exI [of _ "enc_match off k @ rest"]) simp
  have q: "drop ?q src = enc_match off k @ rest" using drop_prefix [OF d] .
  then have "drop ?q src \<noteq> []" by (simp add: enc_match_def)
  then have "?q < length src" by (metis drop_all not_le)
  moreover have "unat ?t mod 16 = ?nib"
  proof -
    have "unat ?t = 16 * min (length l) 15 + ?nib" by (rule token_nibbles) simp_all
    then show ?thesis by simp
  qed
  then have "match_part src m ?t ?q (out @ l) = Inr (p, o')"
    unfolding match_part_iff using r q by (intro ex3I [of _ off k rest]) simp
  ultimately show ?L using 1 by (simp add: sequence_at_def)
qed

lemma decode_from_iff:
  assumes "length out \<le> m" "pos \<le> length src"
  shows "decode_from src m pos out = Inr o' \<longleftrightarrow>
    (\<exists>b. valid_block out b \<and> drop pos src = lz4_encode b \<and> o' = lz4_expand out b \<and> length o' \<le> m)"
  using assms
proof (induction src m pos out arbitrary: o' rule: decode_from.induct)
  case (1 src m pos out)
  show ?case (is "?L \<longleftrightarrow> ?R")
  proof (cases "pos < length src")
    case False
    then have "drop pos src = []" by simp
    then have "?R \<longleftrightarrow> o' = out \<and> length o' \<le> m"
      by (auto simp: encode_empty valid_block_def lz4_expand_def)
    then show ?thesis using False "1.prems"(1) by (subst decode_from.simps) auto
  next
    case True
    have step: "?L \<longleftrightarrow> sequence_at src m pos out = Inr (Ended o')
        \<or> (\<exists>p o1. sequence_at src m pos out = Inr (Goes_on p o1) \<and> decode_from src m p o1 = Inr o')"
    proof (cases "sequence_at src m pos out")
      case (Inr x)
      then show ?thesis using True by (subst decode_from.simps) (cases x; simp)
    qed (use True in \<open>subst decode_from.simps, simp\<close>)
    show ?thesis
    proof
      assume ?L
      then consider "sequence_at src m pos out = Inr (Ended o')"
        | p o1 where "sequence_at src m pos out = Inr (Goes_on p o1)" "decode_from src m p o1 = Inr o'" unfolding step by blast
      then show ?R
      proof cases
        case 1
        then obtain l nib where "nib < 16" "drop pos src = enc_head l nib" "o' = out @ l" "length o' \<le> m"
          unfolding sequence_Ended_iff [OF True] by blast
        then show ?thesis by (intro exI [of _ "([], Some (l, nib))"]) (simp add: valid_block_def encode_Nil lz4_expand_def)
      next
        case (2 p o1)
        from 2(1) obtain l off k rest where r: "valid_seq out (Seq l off k)" "drop pos src = enc_seq (Seq l off k) @ rest"
            "p = pos + length (enc_seq (Seq l off k))" "o1 = exp_seq out (Seq l off k)" "length o1 \<le> m"
          unfolding sequence_Goes_on_iff [OF True] by blast
        have p: "drop p src = rest" using drop_prefix [OF r(2)] r(3) by simp
        have "p \<le> length src" using arg_cong [OF r(2), of length] True r(3) by simp
        from "1.IH" [OF True 2(1) refl r(5) this, of o'] 2(2) obtain b where
          b: "valid_block o1 b" "rest = lz4_encode b" "o' = lz4_expand o1 b" "length o' \<le> m" unfolding p by blast
        obtain ss fin where bb: "b = (ss, fin)" by (cases b)
        show ?thesis using r b unfolding bb
          by (intro exI [of _ "(Seq l off k # ss, fin)"]) (simp add: valid_block_def encode_Cons expand_Cons)
      qed
    next
      assume ?R
      then obtain ss fin where b: "valid_block out (ss, fin)" "drop pos src = lz4_encode (ss, fin)" "o' = lz4_expand out (ss, fin)" "length o' \<le> m"
        by auto
      show ?L
      proof (cases ss)
        case Nil
        then obtain l nib where "fin = Some (l, nib)" using b(2) True by (cases fin) (auto simp: encode_Nil)
        then show ?thesis unfolding step sequence_Ended_iff [OF True] using b Nil
          by (intro disjI1  exI [of _ l]  exI [of _ nib]) (simp add: valid_block_def encode_Nil lz4_expand_def)
      next
        case (Cons s ss')
        obtain l off k where s: "s = Seq l off k" by (cases s)
        let ?o1 = "exp_seq out s" and ?p = "pos + length (enc_seq s)"
        have d: "drop pos src = enc_seq s @ lz4_encode (ss', fin)" using b(2) by (simp add: Cons s encode_Cons)
        have o1: "length ?o1 \<le> m" using b(3,4) length_expand [of ?o1 "(ss', fin)"] by (simp add: Cons expand_Cons)
        have g: "sequence_at src m pos out = Inr (Goes_on ?p ?o1)"
          unfolding s sequence_Goes_on_iff [OF True] using b(1) d o1 unfolding Cons s valid_block_def
          by (intro ex4I [of _ l off k "lz4_encode (ss', fin)"]) simp
        have "?p \<le> length src" using arg_cong [OF d, of length] True by simp
        from "1.IH" [OF True g refl o1 this, of o'] have "decode_from src m ?p ?o1 = Inr o'"
          using b drop_prefix [OF d] by (auto simp: Cons valid_block_def expand_Cons intro!: exI [of _ ss'] exI [of _ fin])
        then show ?thesis unfolding step using g by blast
      qed
    qed
  qed
qed

text \<open>
  C40: the decoder accepts exactly the blocks of the LZ4 format that expand to at most \<open>max_size\<close> bytes, and
  returns their expansion; every other input is a \<open>MapError\<close>.
\<close>

theorem lz4_blocks:
  "decompress src max_size = Inr out \<longleftrightarrow>
     (\<exists>b. b \<noteq> ([], None) \<and> valid_block [] b \<and> src = lz4_encode b \<and> out = lz4_expand [] b \<and> length out \<le> max_size)"
proof (cases "src = []")
  case True
  then show ?thesis by (auto simp: decompress_def encode_empty)
next
  case False
  then have "b \<noteq> ([], None)" if "src = lz4_encode b" for b using that encode_empty by metis
  moreover have "decompress src max_size = decode_from src max_size 0 []" using False by (simp add: decompress_def)
  ultimately show ?thesis using decode_from_iff [of "[]" max_size 0 src out] unfolding drop0 by (metis le0 list.size(3))
qed

section \<open>How much a block can grow\<close>

lemma length_len_ext: "n < 255 * length (len_ext n)"
proof (induction n rule: len_ext.induct)
  case (1 n)
  then show ?case by (subst len_ext.simps) auto
qed

lemma ext_of_bound: "n \<le> 15 + 255 * length (ext_of n)"
  using length_len_ext [of "n - 15"] by (cases "n < 15") (simp_all add: ext_of_def)

lemma exp_seq_bound: "length (exp_seq out s) \<le> length out + 255 * length (enc_seq s)"
proof (cases s)
  case (Seq l off k)
  show ?thesis using ext_of_bound [of "k - 4"] by (simp add: Seq enc_head_def enc_match_def)
qed

lemma expand_bound: "length (lz4_expand out b) \<le> length out + 255 * length (lz4_encode b)"
proof -
  obtain ss fin where b: "b = (ss, fin)" by (cases b)
  have "length (lz4_expand out (ss, fin)) \<le> length out + 255 * length (lz4_encode (ss, fin))"
  proof (induction ss arbitrary: out)
    case Nil
    then show ?case by (auto simp: lz4_expand_def encode_Nil enc_head_def split: option.splits)
  next
    case (Cons s ss)
    have "lz4_encode (s # ss, fin) = enc_seq s @ lz4_encode (ss, fin)" by (simp add: lz4_encode_def)
    then show ?case using Cons.IH [of "exp_seq out s"] exp_seq_bound [of out s] by (simp add: expand_Cons)
  qed
  then show ?thesis by (simp add: b)
qed

text \<open>
  what an accepted block expands to is at most \<open>max_size\<close> bytes and at most 255 times the input: a small
  hostile file cannot make the decoder allocate more.
\<close>

theorem lz4_bounded:
  assumes "decompress src max_size = Inr out"
  shows "length out \<le> max_size \<and> length out \<le> 255 * length src"
proof -
  have "decode_from src max_size 0 [] = Inr out" using assms by (simp add: decompress_def split: if_splits)
  then obtain b where "src = lz4_encode b" "out = lz4_expand [] b" "length out \<le> max_size"
    using decode_from_iff [of "[]" max_size 0 src out] by auto
  then show ?thesis using expand_bound [of "[]" b] by simp
qed

lemma lz4_bounded_witness: "length ([7, 8, 7, 8, 7, 8, 7, 9] :: byte list) \<le> 255 * length ([0x21, 7, 8, 2, 0, 0x10, 9] :: byte list)"
proof -
  have "decompress [0x21, 7, 8, 2, 0, 0x10, 9] 64 = Inr [7, 8, 7, 8, 7, 8, 7, 9]" by code_simp
  from lz4_bounded [OF this] show ?thesis by blast
qed

section \<open>Layouts\<close>

definition be16 :: "nat \<Rightarrow> byte list" where
  "be16 n = [of_nat (n div 256), of_nat (n mod 256)]"

definition room_bytes :: "room \<Rightarrow> byte list" where
  "room_bytes r = be16 (rm_room_id r) @ be16 (rm_order r) @ be16 (rm_sweep_count r) @ be16 (rm_mop_count r) @ replicate 18 0
     @ [of_nat (length (rm_room_name r))] @ rm_room_name r @ replicate (20 - length (rm_room_name r)) 0"

definition room_ok :: "room \<Rightarrow> bool" where
  "room_ok r \<longleftrightarrow> rm_room_id r < 65536 \<and> rm_order r < 65536 \<and> rm_sweep_count r < 65536 \<and> rm_mop_count r < 65536
     \<and> length (rm_room_name r) \<le> 20"

definition layout_ok :: "layout \<Rightarrow> bool" where
  "layout_ok l \<longleftrightarrow> lo_version l = 1 \<and> lo_map_id l < 65536 \<and> lo_kind l < 256 \<and> lo_width l < 65536 \<and> lo_height l < 65536
     \<and> 0 < lo_width l \<and> 0 < lo_height l \<and> lo_width l * lo_height l \<le> MAX_PIXELS \<and> lo_origin_x l < 65536 \<and> lo_origin_y l < 65536
     \<and> lo_resolution l < 65536 \<and> lo_pile_x l < 65536 \<and> lo_pile_y l < 65536 \<and> length (lo_pixels l) = lo_width l * lo_height l
     \<and> length (lo_rooms l) < 256 \<and> list_all room_ok (lo_rooms l)"

text \<open>A version 1 file: the header, four bytes of a total that the parser skips, the length of the block, the block.\<close>

definition layout_bytes :: "layout \<Rightarrow> byte list \<Rightarrow> byte list \<Rightarrow> byte list" where
  "layout_bytes l tot block = [1] @ be16 (lo_map_id l) @ [of_nat (lo_kind l)] @ be16 (lo_width l) @ be16 (lo_height l)
     @ be16 (lo_origin_x l) @ be16 (lo_origin_y l) @ be16 (lo_resolution l) @ be16 (lo_pile_x l) @ be16 (lo_pile_y l)
     @ tot @ be16 (length block) @ block"

definition layout_content :: "layout \<Rightarrow> byte list" where
  "layout_content l = lo_pixels l @ [0, of_nat (length (lo_rooms l))] @ concat (map room_bytes (lo_rooms l))"

lemma be16_value: "n < 65536 \<Longrightarrow> 256 * unat (of_nat (n div 256) :: byte) + unat (of_nat (n mod 256) :: byte) = n"
proof -
  assume "n < 65536"
  then have "unat (of_nat (n div 256) :: byte) = n div 256" by (intro unat_of_nat_byte) linarith
  moreover have "unat (of_nat (n mod 256) :: byte) = n mod 256" by (intro unat_of_nat_byte) simp
  ultimately show ?thesis by simp
qed

lemma length_room_bytes: "length (rm_room_name r) \<le> 20 \<Longrightarrow> length (room_bytes r) = 47"
  by (simp add: room_bytes_def be16_def)

lemma room_records_bytes:
  assumes "list_all room_ok rs"
  shows "room_records (length rs) (concat (map room_bytes rs) @ rest) = Inr rs"
  using assms
proof (induction rs)
  case (Cons r rs)
  then have r: "room_ok r" and IH: "room_records (length rs) (concat (map room_bytes rs) @ rest) = Inr rs" by simp_all
  have len: "length (room_bytes r) = 47" using r by (simp add: room_ok_def length_room_bytes)
  let ?b = "room_bytes r"
  have name: "?b ! 26 = of_nat (length (rm_room_name r))" "drop 27 ?b = rm_room_name r @ replicate (20 - length (rm_room_name r)) 0"
    by (simp_all add: room_bytes_def be16_def nth_append)
  have u: "unat (of_nat (length (rm_room_name r)) :: byte) = length (rm_room_name r)"
    using r by (intro unat_of_nat_byte) (simp add: room_ok_def)
  have "u16 ?b 0 = rm_room_id r" "u16 ?b 2 = rm_order r" "u16 ?b 4 = rm_sweep_count r" "u16 ?b 6 = rm_mop_count r"
    using r unfolding u16_value by (simp_all add: room_bytes_def be16_def be16_value room_ok_def)
  then show ?case using IH r len by (simp add: Let_def ROOM_RECORD_def ROOM_NAME_MAX_def name u room_ok_def)
qed simp

lemma header_u16:
  assumes "layout_ok l" "length tot = 4"
  shows "u16 (layout_bytes l tot block) 1 = lo_map_id l" "u16 (layout_bytes l tot block) 4 = lo_width l"
    "u16 (layout_bytes l tot block) 6 = lo_height l" "u16 (layout_bytes l tot block) 8 = lo_origin_x l"
    "u16 (layout_bytes l tot block) 10 = lo_origin_y l" "u16 (layout_bytes l tot block) 12 = lo_resolution l"
    "u16 (layout_bytes l tot block) 14 = lo_pile_x l" "u16 (layout_bytes l tot block) 16 = lo_pile_y l"
  using assms unfolding u16_value
  by (simp_all add: layout_bytes_def be16_def be16_value layout_ok_def)

lemma header_rest:
  assumes "length tot = 4" "length block < 65536"
  shows "u16 (layout_bytes l tot block) 22 = length block" "drop 24 (layout_bytes l tot block) = block"
    "24 \<le> length (layout_bytes l tot block)" "layout_bytes l tot block ! 0 = 1" "layout_bytes l tot block ! 3 = of_nat (lo_kind l)"
proof -
  obtain a b c d where t: "tot = [a, b, c, d]" using assms(1) by (auto simp: numeral_eq_Suc length_Suc_conv)
  show "u16 (layout_bytes l tot block) 22 = length block" "drop 24 (layout_bytes l tot block) = block"
    "24 \<le> length (layout_bytes l tot block)" "layout_bytes l tot block ! 0 = 1" "layout_bytes l tot block ! 3 = of_nat (lo_kind l)"
    using be16_value [OF assms(2)] unfolding u16_value by (simp_all add: layout_bytes_def be16_def t)
qed

text \<open>
  a layout written as a version 1 file, with any LZ4 block that expands to its pixels and rooms, is read
  back as it was.
\<close>

theorem layout_roundtrip:
  assumes "layout_ok l" "length tot = 4"
    and "valid_block [] b" "lz4_expand [] b = layout_content l" "length (layout_content l) \<le> DEFAULT_MAX_SIZE"
    and "length (lz4_encode b) < 65536"
  shows "parse_layout (layout_bytes l tot (lz4_encode b)) = Inr l"
proof -
  let ?d = "layout_bytes l tot (lz4_encode b)"
  note h = header_u16 [OF assms(1,2)] header_rest [OF assms(2,6)]
  have ne: "lz4_encode b \<noteq> []"
    using assms(4) by (auto simp: encode_empty lz4_expand_def layout_content_def)
  have raw: "decompress (lz4_encode b) DEFAULT_MAX_SIZE = Inr (layout_content l)"
    using decode_from_iff [of "[]" DEFAULT_MAX_SIZE 0 "lz4_encode b" "layout_content l"] assms(3,4,5) ne
    unfolding decompress_def drop0 by (metis le0 list.size(3))
  have kind: "unat (of_nat (lo_kind l) :: byte) = lo_kind l"
    using assms(1) by (intro unat_of_nat_byte) (simp add: layout_ok_def)
  have n: "unat (of_nat (length (lo_rooms l)) :: byte) = length (lo_rooms l)"
    using assms(1) by (intro unat_of_nat_byte) (simp add: layout_ok_def)
  have len: "length (lo_pixels l) = lo_width l * lo_height l" and rooms: "list_all room_ok (lo_rooms l)"
    using assms(1) by (simp_all add: layout_ok_def)
  have "parse_rooms (drop (lo_width l * lo_height l) (layout_content l)) = Inr (lo_rooms l)"
    using room_records_bytes [OF rooms, of "[]"] by (simp add: parse_rooms_def layout_content_def n len [symmetric])
  then have "bitmap 1 ?d (lo_width l * lo_height l) = Inr (lo_pixels l, lo_rooms l)"
    using ne raw len h by (simp add: bitmap_def HEADER_V01_def Let_def layout_content_def)
  moreover have "18 \<le> length ?d" using h(11) [of l] by simp
  moreover have "l = \<lparr>lo_version = 1, lo_map_id = lo_map_id l, lo_kind = lo_kind l, lo_width = lo_width l, lo_height = lo_height l,
      lo_origin_x = lo_origin_x l, lo_origin_y = lo_origin_y l, lo_resolution = lo_resolution l, lo_pile_x = lo_pile_x l,
      lo_pile_y = lo_pile_y l, lo_pixels = lo_pixels l, lo_rooms = lo_rooms l\<rparr>"
    using assms(1) by (intro layout.equality) (simp_all add: layout_ok_def)
  ultimately show ?thesis using assms(1) h kind by (simp add: parse_layout_def HEADER_V152_def Let_def layout_ok_def)
qed

definition ex_layout :: layout where
  "ex_layout = \<lparr>lo_version = 1, lo_map_id = 300, lo_kind = 2, lo_width = 3, lo_height = 2, lo_origin_x = 15, lo_origin_y = 20,
     lo_resolution = 5, lo_pile_x = 15, lo_pile_y = 20, lo_pixels = [255, 1, 0, 0, 4, 241],
     lo_rooms = [\<lparr>rm_room_id = 7, rm_order = 65535, rm_sweep_count = 1, rm_mop_count = 2, rm_room_name = [72, 105]\<rparr>]\<rparr>"

lemma layout_roundtrip_witness:
  "parse_layout (layout_bytes ex_layout [0, 0, 0, 0] (lz4_encode ([], Some (layout_content ex_layout, 0)))) = Inr ex_layout"
proof -
  have len: "length (layout_content ex_layout) = 55"
    by (simp add: layout_content_def ex_layout_def length_room_bytes)
  have "layout_ok ex_layout" by (simp add: layout_ok_def ex_layout_def room_ok_def MAX_PIXELS_def)
  moreover have "length [0, 0, 0, 0 :: byte] = 4" by simp
  moreover have "valid_block [] ([], Some (layout_content ex_layout, 0))" by (simp add: valid_block_def)
  moreover have "lz4_expand [] ([], Some (layout_content ex_layout, 0)) = layout_content ex_layout" by (simp add: lz4_expand_def)
  moreover have "length (layout_content ex_layout) \<le> DEFAULT_MAX_SIZE" by (simp add: len DEFAULT_MAX_SIZE_def)
  moreover have "length (lz4_encode ([], Some (layout_content ex_layout, 0))) < 65536"
    by (simp add: encode_Nil enc_head_def ext_of_def len len_ext.simps)
  ultimately show ?thesis by (rule layout_roundtrip)
qed

end
