(* ===== verification/Map_Render.thy ===== *)
theory Map_Render
  imports Map_Props
begin

text \<open>
  \<open>robots/tuya-map/tuya_map/render.py\<close>: a layout and a path as a PNG.  \<open>zlib\<close> (\<open>crc32\<close>, \<open>compress\<close>) and the
  float arithmetic that puts a map coordinate on the canvas are parameters.  The Bresenham loop may in
  principle run forever, so its value is an option; the theorems show that it returns.
\<close>

section \<open>Colours\<close>

type_synonym rgba = "byte list"

definition ROOM_COLOURS :: "(nat \<times> nat \<times> nat) list" where
  "ROOM_COLOURS = [(249, 66, 79), (253, 208, 43), (70, 168, 144), (91, 140, 235), (200, 120, 220), (240, 150, 80), (120, 200, 90),
     (90, 200, 220), (230, 110, 150), (160, 160, 90), (110, 110, 200), (200, 90, 90), (90, 160, 120), (220, 190, 120), (150, 120, 190),
     (120, 190, 190)]"

definition colour :: "nat \<Rightarrow> nat \<Rightarrow> nat \<Rightarrow> nat \<Rightarrow> rgba" where
  "colour r g b a = map of_nat [r, g, b, a]"

definition pixel_colour :: "bool \<Rightarrow> nat \<Rightarrow> rgba" where
  "pixel_colour transparent v = (case classify v of
     Floor k \<Rightarrow> (case ROOM_COLOURS ! (k mod length ROOM_COLOURS) of (r, g, b) \<Rightarrow> colour r g b 255)
   | Wall \<Rightarrow> colour 50 50 50 255
   | Zone \<Rightarrow> colour 200 200 200 255
   | Background \<Rightarrow> if transparent then colour 0 0 0 0 else colour 0 110 230 255
   | Unknown_pixel \<Rightarrow> colour 20 20 20 255)"

definition map_palette :: "bool \<Rightarrow> rgba list" where
  "map_palette transparent = map (pixel_colour transparent) [0..<256]"

definition PATH_COLOUR :: rgba where "PATH_COLOUR = colour 255 255 255 255"
definition DOCK_COLOUR :: rgba where "DOCK_COLOUR = colour 40 190 80 255"
definition ROBOT_COLOUR :: rgba where "ROBOT_COLOUR = colour 30 90 255 255"
definition MAX_OUTPUT_PIXELS :: nat where "MAX_OUTPUT_PIXELS = 16 * 1024 * 1024"

section \<open>Drawing\<close>

definition put_pixel :: "nat \<Rightarrow> nat \<Rightarrow> rgba \<Rightarrow> byte list \<Rightarrow> int \<Rightarrow> int \<Rightarrow> byte list" where
  "put_pixel w h c buf x y =
     (if 0 \<le> x \<and> x < int w \<and> 0 \<le> y \<and> y < int h
      then let i = nat ((y * int w + x) * 4) in take i buf @ c @ drop (i + 4) buf else buf)"

definition disc_offsets :: "nat \<Rightarrow> (int \<times> int) list" where
  "disc_offsets r = concat (map (\<lambda>dy. map (\<lambda>dx. (dx, dy)) (filter (\<lambda>dx. dx * dx + dy * dy \<le> int r * int r) [- int r..int r])) [- int r..int r])"

definition draw_disc :: "nat \<Rightarrow> nat \<Rightarrow> nat \<Rightarrow> rgba \<Rightarrow> byte list \<Rightarrow> int \<Rightarrow> int \<Rightarrow> byte list" where
  "draw_disc w h r c buf cx cy = foldl (\<lambda>b (dx, dy). put_pixel w h c b (cx + dx) (cy + dy)) buf (disc_offsets r)"

text \<open>The loop of \<open>_line\<close>; \<open>draw\<close> is the disc at a point.\<close>

partial_function (option) line_from :: "('b \<Rightarrow> int \<Rightarrow> int \<Rightarrow> 'b) \<Rightarrow> int \<Rightarrow> int \<Rightarrow> int \<Rightarrow> int \<Rightarrow> int \<Rightarrow> int \<Rightarrow> int \<Rightarrow> 'b \<Rightarrow> int \<Rightarrow> int
    \<Rightarrow> 'b option" where
  "line_from draw dx dy sx sy x1 y1 err buf x0 y0 =
     (let buf' = draw buf x0 y0 in
      if x0 = x1 \<and> y0 = y1 then Some buf'
      else let e2 = 2 * err in
        line_from draw dx dy sx sy x1 y1
          (err + (if dy \<le> e2 then dy else 0) + (if e2 \<le> dx then dx else 0)) buf'
          (if dy \<le> e2 then x0 + sx else x0) (if e2 \<le> dx then y0 + sy else y0))"

definition draw_line :: "('b \<Rightarrow> int \<Rightarrow> int \<Rightarrow> 'b) \<Rightarrow> 'b \<Rightarrow> int \<times> int \<Rightarrow> int \<times> int \<Rightarrow> 'b option" where
  "draw_line draw buf a b = (case (a, b) of ((x0, y0), (x1, y1)) \<Rightarrow>
     let dx = abs (x1 - x0); dy = - abs (y1 - y0)
     in line_from draw dx dy (if x0 < x1 then 1 else -1) (if y0 < y1 then 1 else -1) x1 y1 (dx + dy) buf x0 y0)"

fun draw_lines :: "('b \<Rightarrow> int \<Rightarrow> int \<Rightarrow> 'b) \<Rightarrow> 'b \<Rightarrow> (int \<times> int) list \<Rightarrow> 'b option" where
  "draw_lines draw buf (a # b # ps) = Option.bind (draw_line draw buf a b) (\<lambda>buf. draw_lines draw buf (b # ps))"
| "draw_lines draw buf _ = Some buf"

section \<open>The picture\<close>

definition cell_row :: "rgba list \<Rightarrow> layout \<Rightarrow> nat \<Rightarrow> nat \<Rightarrow> byte list" where
  "cell_row pal l scale y =
     concat (map (\<lambda>x. concat (replicate scale (pal ! unat (lo_pixels l ! (y * lo_width l + x))))) [0..<lo_width l])"

definition set_slice :: "nat \<Rightarrow> nat \<Rightarrow> byte list \<Rightarrow> byte list \<Rightarrow> byte list" where
  "set_slice i j xs buf = take i buf @ xs @ drop j buf"

text \<open>Lines 22-30: each map row fills \<open>scale\<close> rows of the canvas.\<close>

definition cells_drawn :: "rgba list \<Rightarrow> layout \<Rightarrow> nat \<Rightarrow> byte list" where
  "cells_drawn pal l scale =
     (let w = lo_width l * scale in
      foldl (\<lambda>buf (y, k). set_slice ((y * scale + k) * w * 4) ((y * scale + k + 1) * w * 4) (cell_row pal l scale y) buf)
        (replicate (w * (lo_height l * scale) * 4) 0)
        (concat (map (\<lambda>y. map (\<lambda>k. (y, k)) [0..<scale]) [0..<lo_height l])))"

definition be32 :: "nat \<Rightarrow> byte list" where
  "be32 n = map of_nat [n div 16777216, n div 65536, n div 256, n]"

definition ascii_bytes :: "string \<Rightarrow> byte list" where
  "ascii_bytes s = map of_char s"

definition png_chunk :: "(byte list \<Rightarrow> nat) \<Rightarrow> string \<Rightarrow> byte list \<Rightarrow> byte list" where
  "png_chunk crc tag payload = (let body = ascii_bytes tag @ payload in be32 (length payload) @ body @ be32 (crc body))"

definition png_rows :: "nat \<Rightarrow> nat \<Rightarrow> byte list \<Rightarrow> byte list" where
  "png_rows w h buf = concat (map (\<lambda>y. 0 # take (w * 4) (drop (y * (w * 4)) buf)) [0..<h])"

definition png_file :: "(byte list \<Rightarrow> nat) \<Rightarrow> (byte list \<Rightarrow> byte list) \<Rightarrow> nat \<Rightarrow> nat \<Rightarrow> byte list \<Rightarrow> byte list" where
  "png_file crc deflate w h buf =
     [0x89, 0x50, 0x4E, 0x47, 0x0D, 0x0A, 0x1A, 0x0A] @ png_chunk crc ''IHDR'' (be32 w @ be32 h @ [8, 6, 0, 0, 0])
     @ png_chunk crc ''IDAT'' (deflate (png_rows w h buf)) @ png_chunk crc ''IEND'' []"

text \<open>
  \<open>render_png\<close>: None would be a run that never ends.  \<open>to_px\<close> gives the canvas position of a point of
  the path, \<open>dock\<close> that of the layout's origin.
\<close>

definition canvas :: "(int \<times> int \<Rightarrow> int \<times> int) \<Rightarrow> int \<times> int \<Rightarrow> layout \<Rightarrow> robot_path option \<Rightarrow> nat \<Rightarrow> bool \<Rightarrow> byte list option" where
  "canvas to_px dock l path scale transparent =
     (let w = lo_width l * scale; h = lo_height l * scale; thick = max 1 (scale div 2);
          buf = cells_drawn (map_palette transparent) l scale;
          pts = (case path of None \<Rightarrow> [] | Some p \<Rightarrow> map to_px (pa_points p))
      in Option.bind (draw_lines (draw_disc w h thick PATH_COLOUR) buf pts) (\<lambda>buf.
         let buf = (if pts = [] then buf else draw_disc w h (thick * 3) ROBOT_COLOUR buf (fst (last pts)) (snd (last pts)))
         in Some (draw_disc w h (thick * 3) DOCK_COLOUR buf (fst dock) (snd dock))))"

definition render_png :: "(byte list \<Rightarrow> nat) \<Rightarrow> (byte list \<Rightarrow> byte list) \<Rightarrow> (int \<times> int \<Rightarrow> int \<times> int) \<Rightarrow> int \<times> int
    \<Rightarrow> layout \<Rightarrow> robot_path option \<Rightarrow> int \<Rightarrow> bool \<Rightarrow> byte list decoded option" where
  "render_png crc deflate to_px dock l path scale transparent =
     (if scale < 1 \<or> int (lo_width l) * scale * int (lo_height l) * scale > int MAX_OUTPUT_PIXELS then Some (Inl ''output size out of range'')
      else let s = nat scale in
        map_option (\<lambda>buf. Inr (png_file crc deflate (lo_width l * s) (lo_height l * s) buf)) (canvas to_px dock l path s transparent))"

section \<open>Lines end\<close>

text \<open>
  \<open>i\<close> and \<open>j\<close> count the steps taken along the axes, \<open>a\<close> and \<open>b\<close> the steps to take: the distance from the
  ideal line stays within half a step of the longer axis, so neither axis overshoots.
\<close>

lemma step_bounds:
  fixes a b i j :: int
  assumes "0 \<le> i" "i \<le> a" "0 \<le> j" "j \<le> b" "\<not> (i = a \<and> j = b)" "\<bar>2 * (j * a - i * b)\<bar> \<le> max a b"
    and e: "e = 2 * (a - b + (j * a - i * b))"
    and i': "i' = i + (if - b \<le> e then 1 else 0)" and j': "j' = j + (if e \<le> a then 1 else 0)"
  shows "i' \<le> a" "j' \<le> b" "\<bar>2 * (j' * a - i' * b)\<bar> \<le> max a b" "(if b \<le> a then i' else j') = (if b \<le> a then i else j) + 1"
proof -
  define E where "E = j * a - i * b"
  have E': "j' * a - i' * b = E + (if e \<le> a then a else 0) - (if - b \<le> e then b else 0)"
    by (auto simp: i' j' E_def algebra_simps)
  have M: "\<bar>2 * E\<bar> \<le> max a b" and eE: "e = 2 * a - 2 * b + 2 * E" using assms(6) e by (simp_all add: E_def)
  have ab: "0 \<le> a" "0 \<le> b" using assms by linarith+
  show "\<bar>2 * (j' * a - i' * b)\<bar> \<le> max a b"
    unfolding E' using M eE ab by (auto split: if_splits simp: max_def)
  have i_end: "j = b" if "b \<le> a" "i = a"
  proof -
    have "E = a * (j - b)" using that by (simp add: E_def algebra_simps)
    then have "2 * a * \<bar>j - b\<bar> \<le> a" using M that ab by (simp add: abs_mult)
    then show ?thesis using that assms by (cases "a = 0") (auto simp: mult_le_cancel_left)
  qed
  have j_end: "i = a" if "a < b" "j = b"
  proof -
    have "E = b * (a - i)" using that by (simp add: E_def algebra_simps)
    then have "2 * b * \<bar>a - i\<bar> \<le> b * 1" using M that ab by (simp add: abs_mult)
    then have "2 * \<bar>a - i\<bar> \<le> 1" using that ab by (simp add: mult_le_cancel_left mult.assoc mult.left_commute [of 2])
    then show ?thesis by arith
  qed
  have "- b \<le> e" if "b \<le> a" using M eE that by (simp add: max_def abs_le_iff split: if_splits)
  moreover have "e \<le> a" if "\<not> b \<le> a" using M eE that by (simp add: max_def abs_le_iff split: if_splits)
  ultimately show "(if b \<le> a then i' else j') = (if b \<le> a then i else j) + 1" by (simp add: i' j')
  show "i' \<le> a"
  proof (cases "i = a")
    case True
    then have "a < b" "j < b" using i_end assms(4,5) by force+
    then have "a * (j - b) \<le> - a" using ab mult_left_mono [of "j - b" "-1" a] by simp
    then have "E \<le> - a" using True by (simp add: E_def algebra_simps)
    then show ?thesis using True \<open>a < b\<close> ab eE by (simp add: i')
  qed (use assms(2) i' in auto)
  show "j' \<le> b"
  proof (cases "j = b")
    case True
    then have "b \<le> a" "i < a" using j_end assms(2,5) by force+
    then have "b * 1 \<le> b * (a - i)" using ab by (intro mult_left_mono) simp_all
    then have "b \<le> E" using True by (simp add: E_def algebra_simps)
    moreover have "0 < a" using \<open>i < a\<close> assms(1) by linarith
    ultimately show ?thesis using True eE by (simp add: j')
  qed (use assms(4) j' in auto)
qed

definition near :: "int \<times> int \<Rightarrow> int \<times> int \<Rightarrow> bool" where
  "near p q \<longleftrightarrow> \<bar>fst p - fst q\<bar> \<le> 1 \<and> \<bar>snd p - snd q\<bar> \<le> 1"

definition in_box :: "int \<times> int \<Rightarrow> int \<times> int \<Rightarrow> int \<times> int \<Rightarrow> bool" where
  "in_box p q r \<longleftrightarrow> fst r \<in> {min (fst p) (fst q)..max (fst p) (fst q)} \<and> snd r \<in> {min (snd p) (snd q)..max (snd p) (snd q)}"

lemma line_step:
  assumes "\<not> (x0 = x1 \<and> y0 = y1)"
  shows "line_from draw dx dy sx sy x1 y1 err buf x0 y0 =
     line_from draw dx dy sx sy x1 y1 (err + (if dy \<le> 2 * err then dy else 0) + (if 2 * err \<le> dx then dx else 0)) (draw buf x0 y0)
       (if dy \<le> 2 * err then x0 + sx else x0) (if 2 * err \<le> dx then y0 + sy else y0)"
  by (subst line_from.simps) (simp only: Let_def if_not_P [OF assms])

lemma line_from_path:
  fixes a b i j :: int
  assumes "0 \<le> i" "i \<le> a" "0 \<le> j" "j \<le> b" "\<bar>2 * (j * a - i * b)\<bar> \<le> max a b" "sx \<in> {1, -1}" "sy \<in> {1, -1}"
    and "n = nat (max a b - (if b \<le> a then i else j))"
  shows "\<exists>pts. line_from draw a (- b) sx sy (X + sx * a) (Y + sy * b) (a - b + (j * a - i * b)) buf (X + sx * i) (Y + sy * j)
      = Some (foldl (\<lambda>c (x, y). draw c x y) buf pts) \<and> length pts = n + 1 \<and> hd pts = (X + sx * i, Y + sy * j)
      \<and> last pts = (X + sx * a, Y + sy * b) \<and> successively near pts
      \<and> (\<forall>p\<in>set pts. \<exists>i\<in>{0..a}. \<exists>j\<in>{0..b}. p = (X + sx * i, Y + sy * j))"
  using assms
proof (induction n arbitrary: i j buf)
  have at_end: "X + sx * i = X + sx * a \<and> Y + sy * j = Y + sy * b \<longleftrightarrow> i = a \<and> j = b" for i j
    using assms(6,7) by auto
  have stop: "\<exists>pts. line_from draw a (- b) sx sy (X + sx * a) (Y + sy * b) (a - b + (j * a - i * b)) buf (X + sx * i) (Y + sy * j)
      = Some (foldl (\<lambda>c (x, y). draw c x y) buf pts) \<and> length pts = n + 1 \<and> hd pts = (X + sx * i, Y + sy * j)
      \<and> last pts = (X + sx * a, Y + sy * b) \<and> successively near pts
      \<and> (\<forall>p\<in>set pts. \<exists>i\<in>{0..a}. \<exists>j\<in>{0..b}. p = (X + sx * i, Y + sy * j))"
    if "i = a" "j = b" "n = 0" "0 \<le> a" "0 \<le> b" for i j n buf
    using that by (intro exI [of _ "[(X + sx * a, Y + sy * b)]"]) (subst line_from.simps, auto)
  { case 0
    have "i = a \<and> j = b"
    proof (rule ccontr)
      assume ne: "\<not> (i = a \<and> j = b)"
      note st = step_bounds [OF "0.prems"(1-4) ne "0.prems"(5) refl refl refl]
      show False using st(1,2,4) "0.prems"(8) by (auto split: if_splits)
    qed
    then show ?case using stop [of i j 0 buf] "0.prems" by simp
  next
    case (Suc n)
    have ne: "\<not> (i = a \<and> j = b)" using Suc.prems(8) by (auto split: if_splits)
    define e where "e = 2 * (a - b + (j * a - i * b))"
    define i' where "i' = i + (if - b \<le> e then 1 else 0)"
    define j' where "j' = j + (if e \<le> a then 1 else 0)"
    note st = step_bounds [OF Suc.prems(1-4) ne Suc.prems(5) e_def i'_def j'_def]
    have ij: "0 \<le> i'" "0 \<le> j'" "i' \<in> {i, i + 1}" "j' \<in> {j, j + 1}" using Suc.prems(1,3) by (auto simp: i'_def j'_def)
    have n: "n = nat (max a b - (if b \<le> a then i' else j'))" using Suc.prems(8) st(4) by (auto split: if_splits)
    obtain pts where p: "line_from draw a (- b) sx sy (X + sx * a) (Y + sy * b) (a - b + (j' * a - i' * b)) (draw buf (X + sx * i) (Y + sy * j))
          (X + sx * i') (Y + sy * j') = Some (foldl (\<lambda>c (x, y). draw c x y) (draw buf (X + sx * i) (Y + sy * j)) pts)"
        "length pts = n + 1" "hd pts = (X + sx * i', Y + sy * j')" "last pts = (X + sx * a, Y + sy * b)" "successively near pts"
        "\<forall>p\<in>set pts. \<exists>i\<in>{0..a}. \<exists>j\<in>{0..b}. p = (X + sx * i, Y + sy * j)"
      using Suc.IH [OF ij(1) st(1) ij(2) st(2) st(3) Suc.prems(6,7) n, of "draw buf (X + sx * i) (Y + sy * j)"] by blast
    have err: "a - b + (j * a - i * b) + (if - b \<le> e then - b else 0) + (if e \<le> a then a else 0) = a - b + (j' * a - i' * b)"
      by (simp add: i'_def j'_def algebra_simps)
    have xy: "(if - b \<le> e then X + sx * i + sx else X + sx * i) = X + sx * i'" "(if e \<le> a then Y + sy * j + sy else Y + sy * j) = Y + sy * j'"
      by (simp_all add: i'_def j'_def algebra_simps)
    have "line_from draw a (- b) sx sy (X + sx * a) (Y + sy * b) (a - b + (j * a - i * b)) buf (X + sx * i) (Y + sy * j)
        = Some (foldl (\<lambda>c (x, y). draw c x y) buf ((X + sx * i, Y + sy * j) # pts))"
    proof -
      have "\<not> (X + sx * i = X + sx * a \<and> Y + sy * j = Y + sy * b)" using ne at_end by blast
      from line_step [OF this, of draw a "- b" sx sy "a - b + (j * a - i * b)" buf] show ?thesis
        unfolding e_def [symmetric] err xy p(1) by simp
    qed
    moreover have "near (X + sx * i, Y + sy * j) (hd pts)" using Suc.prems(6,7) ij(3,4) p(3) by (auto simp: near_def)
    then have "successively near ((X + sx * i, Y + sy * j) # pts)" using p(5) by (simp add: successively_Cons)
    moreover have "pts \<noteq> []" using p(2) by auto
    ultimately show ?case using p Suc.prems(1-4) by (intro exI [of _ "(X + sx * i, Y + sy * j) # pts"]) auto
  }
qed

lemma line_returns:
  "\<exists>pts. draw_line draw buf p q = Some (foldl (\<lambda>c (x, y). draw c x y) buf pts)
     \<and> length pts = nat (max \<bar>fst q - fst p\<bar> \<bar>snd q - snd p\<bar>) + 1 \<and> hd pts = p \<and> last pts = q
     \<and> successively near pts \<and> (\<forall>r\<in>set pts. in_box p q r)"
proof -
  obtain x0 y0 x1 y1 where pq: "p = (x0, y0)" "q = (x1, y1)" by (cases p, cases q)
  define sx sy :: int where s: "sx = (if x0 < x1 then 1 else -1)" "sy = (if y0 < y1 then 1 else -1)"
  let ?a = "\<bar>x1 - x0\<bar>" and ?b = "\<bar>y1 - y0\<bar>"
  have e: "x0 + sx * ?a = x1" "y0 + sy * ?b = y1" by (simp_all add: s)
  have sxy: "sx \<in> {1, -1}" "sy \<in> {1, -1}" by (simp_all add: s)
  have prem: "(0 :: int) \<le> 0" "0 \<le> ?a" "0 \<le> ?b" "\<bar>2 * (0 * ?a - 0 * ?b)\<bar> \<le> max ?a ?b"
    "nat (max ?a ?b) = nat (max ?a ?b - (if ?b \<le> ?a then 0 else 0))" by auto
  obtain pts where P: "line_from draw ?a (- ?b) sx sy x1 y1 (?a - ?b) buf x0 y0 = Some (foldl (\<lambda>c (x, y). draw c x y) buf pts)"
      "length pts = nat (max ?a ?b) + 1" "hd pts = p" "last pts = q" "successively near pts"
      "\<forall>r\<in>set pts. \<exists>i\<in>{0..?a}. \<exists>j\<in>{0..?b}. r = (x0 + sx * i, y0 + sy * j)"
    using line_from_path [OF prem(1,2,1,3,4) sxy prem(5), of draw x0 y0 buf]
    unfolding e mult_zero_left mult_zero_right diff_self add_0_right pq by blast
  have "in_box p q r" if "r \<in> set pts" for r
    using bspec [OF P(6) that] by (auto simp: in_box_def pq s split: if_splits)
  then show ?thesis using P by (intro exI [of _ pts]) (simp add: draw_line_def pq Let_def s)
qed

text \<open>
  the line from \<open>p\<close> to \<open>q\<close> always ends.  It visits one point more than the longer axis has steps, from \<open>p\<close>
  to \<open>q\<close>, each next to the one before and all within their rectangle.
\<close>

theorem line_drawn:
  "\<exists>pts. draw_line draw buf p q = Some (foldl (\<lambda>c (x, y). draw c x y) buf pts)
     \<and> length pts = nat (max \<bar>fst q - fst p\<bar> \<bar>snd q - snd p\<bar>) + 1 \<and> hd pts = p \<and> last pts = q
     \<and> successively near pts \<and> list_all (in_box p q) pts"
  using line_returns by (simp add: list_all_iff)

section \<open>The canvas\<close>

lemma take_drop_concat:
  assumes "\<forall>x\<in>set xs. length x = L" "k < length xs"
  shows "take L (drop (k * L) (concat xs)) = xs ! k"
  using assms
proof (induction xs arbitrary: k)
  case (Cons x xs)
  then show ?case by (cases k) simp_all
qed simp

lemma length_concat_same: "\<forall>x\<in>set xs. length x = L \<Longrightarrow> length (concat xs) = length xs * L"
  by (induction xs) simp_all

lemma scaled_list: "concat (map (\<lambda>x. replicate s (c x)) [0..<n]) = map (\<lambda>X. c (X div s)) [0..<n * s]"
proof (induction n)
  case (Suc n)
  have "map (\<lambda>X. c (X div s)) [n * s..<n * s + s] = replicate s (c n)"
    by (rule nth_equalityI) simp_all
  moreover have "[0..<Suc n * s] = [0..<n * s] @ [n * s..<n * s + s]"
    by (metis add.commute le_add1 mult_Suc upt_add_eq_append zero_le)
  ultimately show ?case using Suc by simp
qed simp

lemma concat_concat_map: "concat (map (\<lambda>x. concat (f x)) xs) = concat (concat (map f xs))"
  by (induction xs) simp_all

text \<open>Rows written one after the other fill the buffer.\<close>

lemma fill_rows:
  assumes "map g xs = [0..<length xs]" "\<forall>x\<in>set xs. length (f x) = L" "length xs \<le> n"
  shows "foldl (\<lambda>buf x. set_slice (g x * L) ((g x + 1) * L) (f x) buf) (replicate (n * L) 0) xs
    = concat (map f xs) @ replicate ((n - length xs) * L) 0"
  using assms
proof (induction xs rule: rev_induct)
  case (snoc x xs)
  let ?F = "foldl (\<lambda>buf x. set_slice (g x * L) ((g x + 1) * L) (f x) buf)"
  have g: "map g xs = [0..<length xs]" "g x = length xs" using snoc.prems(1) by simp_all
  have fs: "\<forall>x\<in>set xs. length (f x) = L" "length xs \<le> n" using snoc.prems(2,3) by simp_all
  have len: "length (concat (map f xs)) = length xs * L" using fs(1) length_concat_same [of "map f xs" L] by simp
  have "length xs + 1 \<le> n" using snoc.prems(3) by simp
  then obtain m where m: "n = length xs + 1 + m" using le_Suc_ex by blast
  have "?F (replicate (n * L) 0) xs = concat (map f xs) @ replicate (L + m * L) 0"
    using snoc.IH [OF g(1) fs] by (simp add: m)
  moreover have "take (length xs * L) (concat (map f xs) @ replicate (L + m * L) (0 :: byte)) = concat (map f xs)"
    by (simp add: len)
  moreover have "drop ((length xs + 1) * L) (concat (map f xs) @ replicate (L + m * L) (0 :: byte)) = replicate (m * L) 0"
    by (simp add: len)
  ultimately have "?F (replicate (n * L) 0) (xs @ [x]) = concat (map f xs) @ f x @ replicate (m * L) 0"
    by (simp only: foldl_append foldl_Cons foldl_Nil set_slice_def g(2))
  then show ?case by (simp add: m)
qed simp

lemma row_numbers: "map (\<lambda>(y, k). y * s + k) (concat (map (\<lambda>y. map (\<lambda>k. (y, k)) [0..<s]) [0..<h])) = [0..<h * s]"
proof (induction h)
  case (Suc h)
  have "[0..<Suc h * s] = [0..<h * s] @ [h * s..<h * s + s]"
    by (metis add.commute le_add1 mult_Suc upt_add_eq_append zero_le)
  moreover have "map ((+) (h * s)) [0..<s] = [h * s..<h * s + s]" by (rule nth_equalityI) simp_all
  ultimately show ?case using Suc by (simp add: comp_def)
qed simp

definition canvas_row :: "bool \<Rightarrow> layout \<Rightarrow> nat \<Rightarrow> nat \<Rightarrow> rgba list" where
  "canvas_row transparent l s y =
     map (\<lambda>X. map_palette transparent ! unat (lo_pixels l ! (y * lo_width l + X div s))) [0..<lo_width l * s]"

lemma cell_row_eq: "cell_row (map_palette tr) l s y = concat (canvas_row tr l s y)"
  unfolding cell_row_def canvas_row_def concat_concat_map by (subst scaled_list [symmetric]) simp

lemma map_palette_nth: "map_palette tr ! unat (b :: byte) = pixel_colour tr (unat b)"
  using unat_byte_less [of b] by (simp add: map_palette_def)

lemma length_pixel_colour [simp]: "length (pixel_colour tr v) = 4"
  by (simp add: pixel_colour_def colour_def split: pixel_class.splits prod.splits)

lemma length_canvas_row: "\<forall>x\<in>set (canvas_row tr l s y). length x = 4" "length (concat (canvas_row tr l s y)) = lo_width l * s * 4"
proof -
  show *: "\<forall>x\<in>set (canvas_row tr l s y). length x = 4" by (auto simp: canvas_row_def map_palette_nth)
  show "length (concat (canvas_row tr l s y)) = lo_width l * s * 4"
    using length_concat_same [OF *] by (simp add: canvas_row_def)
qed

lemma cells_drawn_eq:
  "cells_drawn (map_palette tr) l s = concat (map (\<lambda>Y. concat (canvas_row tr l s (Y div s))) [0..<lo_height l * s])"
proof -
  let ?xs = "concat (map (\<lambda>y. map (\<lambda>k. (y, k)) [0..<s]) [0..<lo_height l])"
  let ?g = "\<lambda>(y, k). y * s + k" and ?f = "\<lambda>x. cell_row (map_palette tr) l s (fst x)" and ?L = "lo_width l * s * 4"
  have len: "length ?xs = lo_height l * s" using arg_cong [OF row_numbers [of s "lo_height l"], of length] by simp
  have "foldl (\<lambda>buf x. set_slice (?g x * ?L) ((?g x + 1) * ?L) (?f x) buf) (replicate (lo_height l * s * ?L) 0) ?xs = concat (map ?f ?xs)"
    by (subst fill_rows) (use row_numbers [of s "lo_height l"] len in \<open>simp_all add: cell_row_eq length_canvas_row\<close>)
  moreover have "map ?f ?xs = map (\<lambda>Y. cell_row (map_palette tr) l s (Y div s)) [0..<lo_height l * s]"
    by (subst scaled_list [symmetric]) (simp add: map_concat comp_def map_replicate_const)
  moreover have "cells_drawn (map_palette tr) l s
      = foldl (\<lambda>buf x. set_slice (?g x * ?L) ((?g x + 1) * ?L) (?f x) buf) (replicate (lo_height l * s * ?L) 0) ?xs"
  proof -
    have "lo_width l * s * (lo_height l * s) * 4 = lo_height l * s * ?L" by simp
    then show ?thesis by (simp only: cells_drawn_def Let_def case_prod_unfold mult.assoc)
  qed
  ultimately show ?thesis by (simp only: cell_row_eq)
qed

lemma length_cells_drawn: "length (cells_drawn (map_palette tr) l s) = lo_height l * s * (lo_width l * s * 4)"
  unfolding cells_drawn_eq by (subst length_concat_same [where L = "lo_width l * s * 4"]) (auto simp: length_canvas_row)

text \<open>
  before the path is drawn, every pixel of the picture has the colour of its map cell: a cell is a square
  of \<open>scale\<close> times \<open>scale\<close> pixels.
\<close>

theorem cells_scaled:
  assumes "X < lo_width l * s" "Y < lo_height l * s"
  shows "take 4 (drop ((Y * (lo_width l * s) + X) * 4) (cells_drawn (map_palette tr) l s))
    = pixel_colour tr (unat (lo_pixels l ! (Y div s * lo_width l + X div s)))"
proof -
  let ?W = "lo_width l * s" and ?rows = "map (\<lambda>Y. concat (canvas_row tr l s (Y div s))) [0..<lo_height l * s]"
  have rows: "\<forall>x\<in>set ?rows. length x = ?W * 4" by (auto simp: length_canvas_row)
  have row: "take (?W * 4) (drop (Y * (?W * 4)) (concat ?rows)) = concat (canvas_row tr l s (Y div s))"
    using take_drop_concat [OF rows, of Y] assms(2) by simp
  have split: "take 4 (drop (X * 4) (take (?W * 4) zs)) = take 4 (drop (X * 4) zs)" for zs :: "byte list"
  proof -
    have "4 \<le> ?W * 4 - X * 4" using assms(1) by linarith
    then show ?thesis by (simp add: drop_take min_absorb1)
  qed
  have "take 4 (drop ((Y * ?W + X) * 4) (concat ?rows)) = take 4 (drop (X * 4) (concat (canvas_row tr l s (Y div s))))"
    unfolding row [symmetric] split by (simp add: algebra_simps)
  also have "\<dots> = canvas_row tr l s (Y div s) ! X"
    by (rule take_drop_concat) (use length_canvas_row assms(1) in \<open>auto simp: canvas_row_def\<close>)
  also have "\<dots> = pixel_colour tr (unat (lo_pixels l ! (Y div s * lo_width l + X div s)))"
    using assms(1) by (simp add: canvas_row_def map_palette_nth)
  finally show ?thesis unfolding cells_drawn_eq .
qed

lemma cells_scaled_witness:
  "take 4 (drop ((3 * 6 + 5) * 4) (cells_drawn (map_palette False) ex_layout 2)) = colour 50 50 50 255"
  using cells_scaled [of 5 ex_layout 2 3 False] by (simp add: ex_layout_def pixel_colour_def classify_def)

section \<open>Rendering returns\<close>

lemma length_put_pixel:
  assumes "length c = 4" "length buf = h * (w * 4)"
  shows "length (put_pixel w h c buf x y) = length buf"
proof (cases "0 \<le> x \<and> x < int w \<and> 0 \<le> y \<and> y < int h")
  case True
  then obtain m n where mn: "x = int m" "y = int n" "m < w" "n < h" by (metis nonneg_int_cases of_nat_less_iff)
  have "n * w + m < h * w"
    using mn(3,4) mult_le_mono1 [of "Suc n" h w] by simp
  moreover have "nat ((y * int w + x) * 4) = (n * w + m) * 4" by (simp add: mn nat_mult_distrib flip: of_nat_mult of_nat_add)
  ultimately show ?thesis using assms True by (simp add: put_pixel_def Let_def)
next
  case False
  then show ?thesis unfolding put_pixel_def by (simp only: if_not_P if_False)
qed

lemma length_draw_disc:
  assumes "length c = 4" "length buf = h * (w * 4)"
  shows "length (draw_disc w h r c buf cx cy) = length buf"
proof -
  have "length (foldl (\<lambda>b (dx, dy). put_pixel w h c b (cx + dx) (cy + dy)) buf os) = length buf" for os
    using assms(2) by (induction os arbitrary: buf) (auto simp: length_put_pixel [OF assms(1)])
  then show ?thesis by (simp add: draw_disc_def)
qed

lemma draw_lines_length:
  assumes "length c = 4" "length buf = h * (w * 4)"
  shows "\<exists>buf'. draw_lines (draw_disc w h r c) buf ps = Some buf' \<and> length buf' = length buf"
  using assms(2)
proof (induction "draw_disc w h r c" buf ps rule: draw_lines.induct)
  case (1 buf a b ps)
  obtain pts where p: "draw_line (draw_disc w h r c) buf a b = Some (foldl (\<lambda>c' (x, y). draw_disc w h r c c' x y) buf pts)"
    using line_returns [of "draw_disc w h r c" buf a b] by blast
  have "length (foldl (\<lambda>c' (x, y). draw_disc w h r c c' x y) buf qs) = length buf" for qs
    using 1(2) by (induction qs arbitrary: buf) (auto simp: length_draw_disc [OF assms(1)])
  then show ?case using 1(1) [of "foldl (\<lambda>c' (x, y). draw_disc w h r c c' x y) buf pts"] p 1(2) by simp
qed simp_all

text \<open>
  rendering always returns: an error exactly when the size is out of range, else a PNG whose image data,
  before compression, are one filter byte and four bytes a pixel for every row.
\<close>

theorem render_returns:
  "(\<exists>buf. canvas to_px dock l path (nat scale) tr = Some buf
      \<and> length (png_rows (lo_width l * nat scale) (lo_height l * nat scale) buf) = lo_height l * nat scale * (1 + lo_width l * nat scale * 4)
      \<and> render_png crc deflate to_px dock l path scale tr =
        Some (if 1 \<le> scale \<and> int (lo_width l) * scale * int (lo_height l) * scale \<le> int MAX_OUTPUT_PIXELS
              then Inr (png_file crc deflate (lo_width l * nat scale) (lo_height l * nat scale) buf) else Inl ''output size out of range''))"
proof -
  let ?s = "nat scale" and ?w = "lo_width l * nat scale" and ?h = "lo_height l * nat scale"
  let ?buf = "cells_drawn (map_palette tr) l ?s" and ?pts = "case path of None \<Rightarrow> [] | Some p \<Rightarrow> map to_px (pa_points p)"
  have c: "length PATH_COLOUR = 4" "length ROBOT_COLOUR = 4" "length DOCK_COLOUR = 4"
    by (simp_all add: PATH_COLOUR_def ROBOT_COLOUR_def DOCK_COLOUR_def colour_def)
  have len: "length ?buf = ?h * (?w * 4)" by (rule length_cells_drawn)
  obtain buf1 where b1: "draw_lines (draw_disc ?w ?h (max 1 (?s div 2)) PATH_COLOUR) ?buf ?pts = Some buf1" "length buf1 = ?h * (?w * 4)"
    using draw_lines_length [OF c(1) len] len by metis
  then obtain buf where b: "canvas to_px dock l path ?s tr = Some buf" "length buf = ?h * (?w * 4)"
    using c by (auto simp: canvas_def Let_def length_draw_disc)
  have "length (png_rows ?w ?h buf) = length (map (\<lambda>y. 0 # take (?w * 4) (drop (y * (?w * 4)) buf)) [0..<?h]) * (1 + ?w * 4)"
    unfolding png_rows_def
  proof (rule length_concat_same, clarsimp)
    fix y assume "y < ?h"
    then have "Suc y * (?w * 4) \<le> ?h * (?w * 4)" by (intro mult_le_mono1) simp
    then have "?w * 4 + y * (?w * 4) \<le> length buf" using b(2) by simp
    then have "?w * 4 \<le> length buf - y * (?w * 4)" by linarith
    then show "min (length buf - y * (lo_width l * ?s * 4)) (lo_width l * ?s * 4) = lo_width l * ?s * 4" by (rule min_absorb2)
  qed
  then show ?thesis using b by (intro exI [of _ buf]) (auto simp: render_png_def Let_def)
qed

end
