(* ===== verification/Applier.thy ===== *)
theory Applier
  imports HA_Props Child_Job
begin

text \<open>
  \<open>portal/schedules/applier/portal_apply.py\<close>: the host program that puts the published render into the
  generated directory of Home Assistant, asks it to check and reload, compares what it then runs with
  what was rendered, and rolls back.  Files are named texts; times are microseconds.  What the outside
  answers in one pass (Home Assistant, git, the clock) is the record \<open>ap_env\<close>.
\<close>

section \<open>The check of the configuration\<close>

definition ESC :: char where "ESC = CHR 0x1B"

fun ansi_rest :: "string \<Rightarrow> string option" where
  "ansi_rest [] = None"
| "ansi_rest (c # cs) = (if c = CHR ''m'' then Some cs else if is_digit c \<or> c = CHR '';'' then ansi_rest cs else None)"

lemma ansi_rest_shorter: "ansi_rest cs = Some ds \<Longrightarrow> length ds < length cs"
  by (induction cs) (auto split: if_splits)

lemma ansi_rest_tl [termination_simp]: "(if b then ansi_rest (tl cs) else None) = Some ds \<Longrightarrow> length ds < Suc (length cs)"
  using ansi_rest_shorter [of "tl cs" ds] by (auto split: if_splits)

text \<open>\<open>ANSI.sub("", output)\<close>.\<close>

fun strip_ansi :: "string \<Rightarrow> string" where
  "strip_ansi [] = []"
| "strip_ansi (c # cs) =
     (case (if c = ESC \<and> cs \<noteq> [] \<and> hd cs = CHR ''['' then ansi_rest (tl cs) else None) of
        Some ds \<Rightarrow> strip_ansi ds
      | None \<Rightarrow> c # strip_ansi cs)"

definition has_text :: "string \<Rightarrow> string \<Rightarrow> bool" where
  "has_text p s \<longleftrightarrow> list_ex (\<lambda>i. starts_with p (drop i s)) [0..<Suc (length s)]"

definition is_letter :: "char \<Rightarrow> bool" where
  "is_letter c \<longleftrightarrow> is_upper c \<or> is_lower c"

text \<open>\<open>BAD_LINE.search\<close> on a line.\<close>

definition word_first :: "string \<Rightarrow> string \<Rightarrow> bool" where
  "word_first w l \<longleftrightarrow> starts_with w l \<and> (case drop (length w) l of [] \<Rightarrow> True | c # cs \<Rightarrow> \<not> is_letter c)"

definition BAD_LINE :: "string \<Rightarrow> bool" where
  "BAD_LINE l \<longleftrightarrow> (let t = dropWhile (\<lambda>c. c = CHR '' '') l in word_first ''ERROR'' t \<or> word_first ''CRITICAL'' t) \<or> has_text ''Failed config'' l"

definition judge_check_config :: "int \<Rightarrow> string \<Rightarrow> bool \<times> string" where
  "judge_check_config returncode output =
     (let ls = py_splitlines (strip_ansi output); bad = map py_strip (filter BAD_LINE ls) in
      if returncode = 0 \<and> bad = [] then (True, [])
      else let full = filter (\<lambda>l. l \<noteq> []) (map py_strip ls);
               tail = (if take 3 bad \<noteq> [] then take 3 bad else drop (length full - 3) full)
           in (False, take 400 (''rc='' @ str_int returncode @ '': '' @ join_with '' | '' tail)))"

section \<open>What Home Assistant runs\<close>

record ha_row =
  hw_id :: string
  hw_state :: "string option"
  hw_name :: "string option"

type_synonym loaded_set = "string list \<times> (string \<times> string) list" \<comment> \<open>the aliases of automations; the aliases of scripts by key\<close>

definition collect_row :: "loaded_set \<Rightarrow> ha_row \<Rightarrow> loaded_set" where
  "collect_row acc r = (case acc of (autos, scripts) \<Rightarrow>
     if hw_state r \<in> {None, Some [], Some ''unavailable'', Some ''unknown''} then acc
     else case hw_name r of None \<Rightarrow> acc
       | Some name \<Rightarrow> if name = [] then acc
           else if starts_with ''automation.'' (hw_id r) then (autos @ [name], scripts)
           else if starts_with ''script.'' (hw_id r) then (autos, dict_set (drop 7 (hw_id r)) name scripts)
           else acc)"

definition collect_loaded :: "ha_row list \<Rightarrow> loaded_set" where
  "collect_loaded rows = foldl collect_row ([], []) rows"

text \<open>
  One reading: from Home Assistant's own API, or, when that cannot be used for the reason of the given
  name, from the recorder, which may be unreadable too.
\<close>

datatype ha_reading = From_api "ha_row list" | From_recorder string "ha_row list" | No_reading string string

record expected_set =
  ex_autos :: "(string \<times> json) list"
  ex_scripts :: "(string \<times> json) list"

text \<open>\<open>compare\<close>: what is different, as texts for people.\<close>

definition generated_alias :: "string \<Rightarrow> bool" where
  "generated_alias x \<longleftrightarrow> starts_with ''Sch '' x \<and> has_text '' [sch '' x"

definition text_or_None :: "string option \<Rightarrow> string" where
  "text_or_None x = (case x of None \<Rightarrow> ''None'' | Some t \<Rightarrow> t)"

definition compare_sets :: "expected_set \<Rightarrow> loaded_set \<Rightarrow> string list" where
  "compare_sets ex ld = (case ld of (autos, scripts) \<Rightarrow>
     map (\<lambda>(k, a). ''automation '' @ k @ '': '' @ [CHR 0x27] @ py_str a @ [CHR 0x27] @ '' is not loaded'')
       (filter (\<lambda>(k, a). a \<notin> JStr ` set autos) (ex_autos ex))
     @ map (\<lambda>(k, a). ''script '' @ k @ '': expected '' @ [CHR 0x27] @ py_str a @ [CHR 0x27] @ '', loaded '' @ [CHR 0x27] @ text_or_None (map_of scripts k) @ [CHR 0x27])
       (filter (\<lambda>(k, a). jopt JStr (map_of scripts k) \<noteq> a) (ex_scripts ex))
     @ map (\<lambda>a. ''automation '' @ [CHR 0x27] @ a @ [CHR 0x27] @ '' is loaded but not rendered'')
       (filter (\<lambda>a. generated_alias a \<and> JStr a \<notin> snd ` set (ex_autos ex)) (sorted_set autos))
     @ map (\<lambda>k. ''script '' @ k @ '' is loaded but not rendered'')
       (filter (\<lambda>k. starts_with ''sch_'' k \<and> k \<notin> fst ` set (ex_scripts ex)) (sorted_set (map fst scripts))))"

definition reading_diffs :: "expected_set \<Rightarrow> ha_reading \<Rightarrow> string list" where
  "reading_diffs ex r = (case r of
     From_api rows \<Rightarrow> compare_sets ex (collect_loaded rows)
   | From_recorder why rows \<Rightarrow> compare_sets ex (collect_loaded rows)
   | No_reading why sq \<Rightarrow> [''recorder database unreadable ('' @ sq @ '')''])"

definition reading_note :: "ha_reading \<Rightarrow> string list" where
  "reading_note r =
     (let note = (\<lambda>why. [''(checked from the recorder because the HA API was not usable: '' @ why
        @ ''; an automation or script unchanged for 10 days can look missing)'']) in
      case r of From_api rows \<Rightarrow> [] | From_recorder why rows \<Rightarrow> note why | No_reading why sq \<Rightarrow> note why)"

text \<open>
  \<open>verify_loaded\<close>: the readings of the loop and the clock after each; \<open>None\<close> if it goes on after them.
\<close>

fun verify_loaded :: "expected_set \<Rightarrow> int \<Rightarrow> (ha_reading \<times> int) list \<Rightarrow> (bool \<times> string list) option" where
  "verify_loaded ex until [] = None"
| "verify_loaded ex until ((r, now) # rs) =
     (if reading_diffs ex r = [] then Some (True, [])
      else if until \<le> now then Some (False, reading_note r @ reading_diffs ex r)
      else verify_loaded ex until rs)"

section \<open>Files\<close>

type_synonym file_map = "(string \<times> string) list"

definition same_dict :: "('k \<times> 'v) list \<Rightarrow> ('k \<times> 'v) list \<Rightarrow> bool" where
  "same_dict a b \<longleftrightarrow> set (map fst a) = set (map fst b) \<and> list_all (\<lambda>k. map_of a k = map_of b k) (map fst a)"

record render_meta =
  rm_seq :: int
  rm_hash :: string
  rm_files :: "(string \<times> string) list" \<comment> \<open>the SHA-256 of each file\<close>
  rm_expected :: expected_set

text \<open>The directory of the service: \<open>render.json\<close>, \<open>READY\<close> and the files; what is missing or unreadable is \<open>None\<close>.\<close>

record out_dir =
  od_meta :: "render_meta option"
  od_ready :: "string option"
  od_files :: file_map

definition read_file :: "file_map \<Rightarrow> string \<times> string \<Rightarrow> (string \<times> string) option" where
  "read_file have rd = (case map_of have (fst rd) of None \<Rightarrow> None
     | Some b \<Rightarrow> if sha256_hex b = snd rd then Some (fst rd, b) else None)"

definition read_render :: "out_dir \<Rightarrow> (render_meta \<times> file_map) option" where \<comment> \<open>\<open>None\<close>: \<open>OSError\<close> or \<open>ValueError\<close>\<close>
  "read_render od = (case (od_meta od, map_option py_words (od_ready od)) of
     (Some m, Some [seq, h]) \<Rightarrow>
       (if py_int seq = Some (rm_seq m) \<and> h = rm_hash m
        then (let fs = map (read_file (od_files od)) (rm_files m) in if None \<in> set fs then None else Some (m, map the fs))
        else None)
   | _ \<Rightarrow> None)"

definition write_gen :: "file_map \<Rightarrow> file_map \<Rightarrow> file_map" where
  "write_gen files have = filter (\<lambda>(p, d). p \<in> fst ` set files) (foldl (\<lambda>g (p, d). dict_set p d g) have files)"

section \<open>One pass\<close>

record applier =
  ap_gen :: file_map
  ap_status :: fields
  ap_good :: "expected_set option"
  ap_alerts :: "(string \<times> string \<times> bool) list" \<comment> \<open>key, text, whether it clears\<close>

record ap_env =
  ae_out :: out_dir
  ae_force :: bool
  ae_iso :: "string \<Rightarrow> int option" \<comment> \<open>\<open>fromisoformat\<close> and \<open>timestamp\<close>\<close>
  ae_now :: int
  ae_t0 :: string
  ae_t1 :: string
  ae_check :: "int \<times> string"
  ae_reload :: "bool \<times> string"
  ae_start :: int
  ae_polls :: "(ha_reading \<times> int) list"
  ae_reload2 :: "bool \<times> string" \<comment> \<open>of the rollback, as the next two\<close>
  ae_start2 :: int
  ae_polls2 :: "(ha_reading \<times> int) list"
  ae_git :: "bool \<times> string"
  ae_since :: int
  ae_later :: int

definition VERIFY_TIMEOUT :: int where "VERIFY_TIMEOUT = 150 * 1000000"

definition write_status :: "fields \<Rightarrow> applier \<Rightarrow> applier" where
  "write_status kw s = s\<lparr>ap_status := foldl (\<lambda>d (k, v). dict_set k v d) (ap_status s) kw\<rparr>"

definition send_alert :: "string \<Rightarrow> string \<Rightarrow> bool \<Rightarrow> applier \<Rightarrow> applier" where
  "send_alert key text clear s = s\<lparr>ap_alerts := ap_alerts s @ [(key, text, clear)]\<rparr>"

definition jstr_is :: "fields \<Rightarrow> string \<Rightarrow> string \<Rightarrow> bool" where
  "jstr_is st k v \<longleftrightarrow> jget st k = JStr v"

definition micros :: "json \<Rightarrow> int" where
  "micros j = (case j of JFloat m k \<Rightarrow> m * 1000000 div 10 ^ k | JInt i \<Rightarrow> i * 1000000 | _ \<Rightarrow> 0)"

definition failed_text :: "string \<Rightarrow> string list \<Rightarrow> string" where
  "failed_text what diffs = what @ join_with ''; '' diffs"

text \<open>\<open>fail\<close>; \<open>None\<close> if the check of the rollback goes on.\<close>

definition ap_fail :: "ap_env \<Rightarrow> render_meta \<Rightarrow> file_map \<Rightarrow> expected_set option \<Rightarrow> string \<Rightarrow> bool \<Rightarrow> applier \<Rightarrow> (string \<times> applier) option" where
  "ap_fail ev m previous prev why reload_needed s =
     (let s = s\<lparr>ap_gen := write_gen previous (ap_gen s)\<rparr>;
          finish = (\<lambda>rolled. (''failed'', send_alert ''portal-apply''
            (''portal: render #'' @ str_int (rm_seq m) @ '' NOT applied - '' @ why @ ''. Rollback: '' @ rolled
             @ ''. The schedule in the service differs from what Home Assistant runs; undo the change (schedctl undo) or fix the cause.'') False
            (write_status [(''seq'', JInt (rm_seq m)), (''set_hash'', JStr (rm_hash m)), (''result'', JStr ''failed''), (''at'', JStr (ae_t1 ev)),
               (''loaded_ok'', JBool False), (''detail'', JStr (why @ '' ('' @ rolled @ '')''))] s)))
      in if \<not> reload_needed then Some (finish ''files restored'')
         else let rolled = ''files restored; reload '' @ (if fst (ae_reload2 ev) then ''done'' else ''FAILED ('' @ snd (ae_reload2 ev) @ '')'')
           in case (fst (ae_reload2 ev), prev) of
              (True, Some ex) \<Rightarrow> (case verify_loaded ex (ae_start2 ev + VERIFY_TIMEOUT) (ae_polls2 ev) of None \<Rightarrow> None
                | Some (ok, ds) \<Rightarrow> Some (finish (rolled @ ''; previous set '' @ (if ok then ''verified'' else failed_text ''NOT verified: '' (take 2 ds)))))
            | _ \<Rightarrow> Some (finish rolled))"

definition pending_alert :: "ap_env \<Rightarrow> render_meta \<Rightarrow> string \<Rightarrow> applier \<Rightarrow> applier" where
  "pending_alert ev m why s =
     (let since = jget (ap_status s) ''pending_since''; fresh = \<not> truthy since;
          t = (if fresh then ae_since ev else micros since);
          s = (if fresh then write_status [(''pending_since'', JFloat t 6)] s else s)
      in if 900 * 1000000 < ae_later ev - t then send_alert ''portal-pending''
           (''portal: render #'' @ str_int (rm_seq m) @ '' has been waiting '' @ str_int ((ae_later ev - t) div 60000000) @ '' min to be applied ('' @ why @ '')'') False s
         else s)"

definition to_int :: "json \<Rightarrow> py_exn + int" where \<comment> \<open>\<open>int(v)\<close>\<close>
  "to_int j = (case j of JInt i \<Rightarrow> Inr i | JBool b \<Rightarrow> Inr (if b then 1 else 0) | JFloat m k \<Rightarrow> Inr (sgn m * (\<bar>m\<bar> div 10 ^ k))
     | JStr s \<Rightarrow> (case py_int s of None \<Rightarrow> Inl ValueError | Some i \<Rightarrow> Inr i) | _ \<Rightarrow> Inl TypeError)"

definition reverify :: "ap_env \<Rightarrow> render_meta \<Rightarrow> applier \<Rightarrow> (py_exn + string \<times> applier) option" where
  "reverify ev m s = (case verify_loaded (rm_expected m) (ae_start ev) (ae_polls ev) of
     None \<Rightarrow> None
   | Some (True, ds) \<Rightarrow> Some (Inr (''verified'', send_alert ''portal-mismatch'' ''portal: Home Assistant runs the rendered schedule again'' True
        (write_status [(''loaded_ok'', JBool True), (''verified_at'', JStr (ae_t1 ev)), (''mismatch_count'', JInt 0)] s)))
   | Some (False, ds) \<Rightarrow>
       (case to_int (case map_of (ap_status s) ''mismatch_count'' of None \<Rightarrow> JInt 0 | Some j \<Rightarrow> j) of
          Inr c \<Rightarrow>
            (let n = c + 1; s = write_status [(''loaded_ok'', JBool False), (''mismatch_count'', JInt n),
                 (''detail'', JStr (failed_text ''mismatch: '' (take 3 ds)))] s
             in Some (Inr (''mismatch'', if 2 \<le> n then send_alert ''portal-mismatch''
                 (failed_text ''portal: Home Assistant does NOT run the rendered schedule: '' (take 3 ds)) False s else s)))
        | Inl e \<Rightarrow> Some (Inl e)))"

definition held_age :: "ap_env \<Rightarrow> fields \<Rightarrow> py_exn + int" where
  "held_age ev st = (case jget st ''at'' of
     JStr a \<Rightarrow> if a = [] then Inr (10 ^ 15) else (case ae_iso ev a of None \<Rightarrow> Inl ValueError | Some t \<Rightarrow> Inr (ae_now ev - t))
   | j \<Rightarrow> if truthy j then Inl TypeError else Inr (10 ^ 15))"

text \<open>\<open>apply\<close> after the decision to do it.\<close>

definition ap_do :: "ap_env \<Rightarrow> render_meta \<Rightarrow> file_map \<Rightarrow> applier \<Rightarrow> (string \<times> applier) option" where
  "ap_do ev m files s =
     (let previous = ap_gen s; prev = ap_good s;
          s = write_status [(''seq'', JInt (rm_seq m)), (''set_hash'', JStr (rm_hash m)), (''result'', JStr ''pending''), (''at'', JStr (ae_t0 ev)),
            (''detail'', JStr ''applying''), (''loaded_ok'', JBool False)] s;
          s = s\<lparr>ap_gen := write_gen files (ap_gen s)\<rparr>;
          (ok, why) = judge_check_config (fst (ae_check ev)) (snd (ae_check ev))
      in if \<not> ok then ap_fail ev m previous prev (''check_config rejected the generated files: '' @ why) False s
         else if \<not> fst (ae_reload ev) then Some (''pending'', pending_alert ev m (snd (ae_reload ev))
           (write_status [(''result'', JStr ''pending''), (''detail'', JStr (''reload not done ('' @ snd (ae_reload ev) @ ''); will retry'')),
              (''at'', JStr (ae_t1 ev)), (''loaded_ok'', JBool False)] s))
         else case verify_loaded (rm_expected m) (ae_start ev + VERIFY_TIMEOUT) (ae_polls ev) of
           None \<Rightarrow> None
         | Some (False, ds) \<Rightarrow> ap_fail ev m previous prev (failed_text ''HA did not load what was rendered: '' (take 3 ds)) True s
         | Some (True, ds) \<Rightarrow>
             (let s = s\<lparr>ap_good := Some (rm_expected m)\<rparr>;
                  s = write_status [(''seq'', JInt (rm_seq m)), (''set_hash'', JStr (rm_hash m)), (''result'', JStr ''applied''), (''at'', JStr (ae_t0 ev)),
                    (''loaded_ok'', JBool True), (''verified_at'', JStr (ae_t1 ev)), (''detail'', JStr (''applied; git: '' @ snd (ae_git ev))), (''pending_since'', JNull)] s;
                  s = send_alert ''portal-apply'' (''portal: render #'' @ str_int (rm_seq m) @ '' applied again'') True s;
                  s = send_alert ''portal-pending'' ''portal: pending render applied'' True s;
                  s = (if fst (ae_git ev) then send_alert ''portal-push'' ''portal: generated config pushed'' True s
                       else send_alert ''portal-push'' (''portal: the generated HA config is applied but NOT pushed to GitHub ('' @ snd (ae_git ev)
                         @ ''). Run: git -C /srv/compose push'') False s)
              in Some (''applied'', s)))"

definition ap_apply :: "ap_env \<Rightarrow> applier \<Rightarrow> (py_exn + string \<times> applier) option" where
  "ap_apply ev s = (case read_render (ae_out ev) of None \<Rightarrow> Some (Inr (''no-render'', s))
     | Some (m, files) \<Rightarrow>
       let st = ap_status s; same = same_dict (ap_gen s) files in
       if same \<and> jstr_is st ''set_hash'' (rm_hash m) \<and> jstr_is st ''result'' ''applied'' then reverify ev m s
       else if jstr_is st ''result'' ''failed'' \<and> jstr_is st ''set_hash'' (rm_hash m) \<and> \<not> ae_force ev then
         (case held_age ev st of Inl e \<Rightarrow> Some (Inl e)
          | Inr age \<Rightarrow> if age < 3600 * 1000000 then Some (Inr (''failed-held'', s)) else map_option Inr (ap_do ev m files s))
       else map_option Inr (ap_do ev m files s))"

definition ap_exit :: "string \<Rightarrow> nat" where \<comment> \<open>\<open>main\<close>\<close>
  "ap_exit res = (if res \<in> {''applied'', ''verified'', ''no-render'', ''pending'', ''failed-held''} then 0 else 1)"

end
