(* ===== verification/Applier_Props.thy ===== *)
theory Applier_Props
  imports Applier
begin

text \<open>
  What the applier guarantees: which files and which automations Home Assistant has after a pass that
  says so, what a rollback restores and when it does not, that a pass ends, and that a render that
  failed is left alone for an hour.
\<close>

section \<open>Files\<close>

lemma map_of_set_key: "map_of (dict_set k v kvs) = (map_of kvs)(k \<mapsto> v)"
  by (induction kvs) auto

lemma map_of_set_keys: "map_of (foldl (\<lambda>g (p, d). dict_set p d g) have files) = map_of have ++ map_of (rev files)"
  by (induction files arbitrary: "have") (auto simp: map_of_set_key fun_eq_iff map_add_def split: option.splits)

lemma map_of_filter_keys: "map_of (filter (\<lambda>(p, d). P p) kvs) k = (if P k then map_of kvs k else None)"
  by (induction kvs) auto

lemma keys_set_key: "fst ` set (dict_set k v kvs) = insert k (fst ` set kvs)"
  by (simp only: dom_map_of_conv_image_fst [symmetric] map_of_set_key dom_fun_upd option.distinct(2) if_False)

lemma distinct_set_key: "distinct (map fst kvs) \<Longrightarrow> distinct (map fst (dict_set k v kvs))"
proof (induction kvs)
  case (Cons p kvs)
  then show ?case by (cases p) (simp add: keys_set_key)
qed simp

lemma distinct_write_gen: "distinct (map fst g) \<Longrightarrow> distinct (map fst (write_gen files g))"
proof -
  have "distinct (map fst g) \<Longrightarrow> distinct (map fst (foldl (\<lambda>g (p, d). dict_set p d g) g files))"
    by (induction files arbitrary: g) (auto intro: distinct_set_key)
  then show "distinct (map fst g) \<Longrightarrow> ?thesis" by (simp add: write_gen_def distinct_map_filter)
qed

lemma map_of_rev: "distinct (map fst kvs) \<Longrightarrow> map_of (rev kvs) = map_of kvs"
  by (rule map_of_inject_set [THEN iffD2]) (simp_all add: rev_map [symmetric])

lemma write_gen_map: "distinct (map fst files) \<Longrightarrow> map_of (write_gen files g) = map_of files"
  unfolding write_gen_def map_of_filter_keys map_of_set_keys fun_eq_iff
  by (auto simp: map_of_rev map_add_def dom_map_of_conv_image_fst [symmetric] domIff split: option.splits)

lemma same_dict_map: "same_dict a b \<longleftrightarrow> map_of a = map_of b"
proof
  assume s: "same_dict a b"
  show "map_of a = map_of b"
  proof
    fix k
    show "map_of a k = map_of b k"
    proof (cases "k \<in> set (map fst a)")
      case True
      then show ?thesis using s unfolding same_dict_def list_all_iff by blast
    next
      case False
      then have "k \<notin> fst ` set a" "k \<notin> fst ` set b" using s by (simp_all add: same_dict_def)
      then have "map_of a k = None" "map_of b k = None" by (simp_all only: map_of_eq_None_iff not_False_eq_True)
      then show ?thesis by simp
    qed
  qed
next
  assume "map_of a = map_of b"
  then show "same_dict a b" using dom_map_of_conv_image_fst [of a] dom_map_of_conv_image_fst [of b] by (simp add: same_dict_def list_all_iff)
qed

section \<open>Status and alerts change no file\<close>

lemma status_keeps [simp]:
  "ap_gen (write_status kw s) = ap_gen s" "ap_good (write_status kw s) = ap_good s"
  "ap_gen (send_alert k x c s) = ap_gen s" "ap_good (send_alert k x c s) = ap_good s" "ap_status (send_alert k x c s) = ap_status s"
  "ap_gen (pending_alert ev m why s) = ap_gen s" "ap_good (pending_alert ev m why s) = ap_good s"
  by (simp_all add: write_status_def send_alert_def pending_alert_def Let_def)

lemma ap_fail_result:
  assumes "ap_fail ev m previous prev why b s = Some (res, t)"
  shows "res = ''failed''" "ap_gen t = write_gen previous (ap_gen s)" "ap_good t = ap_good s"
    "jget (ap_status t) ''result'' = JStr ''failed''" "jget (ap_status t) ''set_hash'' = JStr (rm_hash m)" "jget (ap_status t) ''at'' = JStr (ae_t1 ev)"
  using assms by (auto simp: ap_fail_def Let_def jget_def write_status_def send_alert_def map_of_set_key split: if_splits option.splits bool.splits)

section \<open>Verification\<close>

lemma compare_sets_Nil:
  "compare_sets ex (autos, scripts) = [] \<longleftrightarrow>
     (\<forall>(k, a)\<in>set (ex_autos ex). a \<in> JStr ` set autos) \<and> (\<forall>(k, a)\<in>set (ex_scripts ex). jopt JStr (map_of scripts k) = a)
     \<and> (\<forall>a\<in>set autos. generated_alias a \<longrightarrow> JStr a \<in> snd ` set (ex_autos ex))
     \<and> (\<forall>k\<in>fst ` set scripts. starts_with ''sch_'' k \<longrightarrow> k \<in> fst ` set (ex_scripts ex))"
  by (auto simp: compare_sets_def filter_empty_conv)

lemma verify_loaded_True: "verify_loaded ex until rs = Some (True, ds) \<Longrightarrow> \<exists>r now. (r, now) \<in> set rs \<and> reading_diffs ex r = []"
  by (induction ex until rs rule: verify_loaded.induct) (auto split: if_splits)

lemma verify_loaded_False: "verify_loaded ex until rs = Some (False, ds) \<Longrightarrow> \<exists>r now. (r, now) \<in> set rs \<and> reading_diffs ex r \<noteq> [] \<and> until \<le> now"
  by (induction ex until rs rule: verify_loaded.induct) (auto split: if_splits)

text \<open>Readings that come at least \<open>step\<close> apart, from \<open>start\<close> on.\<close>

fun paced :: "int \<Rightarrow> int \<Rightarrow> (ha_reading \<times> int) list \<Rightarrow> bool" where
  "paced step start [] = True"
| "paced step start ((r, now) # rs) = (start + step \<le> now \<and> paced step now rs)"

lemma verify_returns: "paced step start rs \<Longrightarrow> until \<le> start + step * int (length rs) \<Longrightarrow> rs \<noteq> [] \<Longrightarrow> verify_loaded ex until rs \<noteq> None"
proof (induction rs arbitrary: start)
  case (Cons p rs)
  obtain r now where p: "p = (r, now)" by (cases p)
  show ?case
  proof (cases "rs = []")
    case True
    then have "until \<le> now" using Cons.prems by (simp add: p)
    then show ?thesis by (cases "reading_diffs ex r = []") (simp_all add: p True)
  next
    case False
    have "until \<le> now + step * int (length rs)" using Cons.prems(1,2) by (simp add: p algebra_simps)
    then have "verify_loaded ex until rs \<noteq> None" using Cons.IH [of now] Cons.prems(1) False by (simp add: p)
    then show ?thesis by (cases "reading_diffs ex r = []"; cases "until \<le> now") (simp_all add: p)
  qed
qed simp

section \<open>A pass\<close>

lemma ap_do_cases:
  assumes "ap_do ev m files s = Some (res, t)"
  obtains (applied) r now where "res = ''applied''" "fst (judge_check_config (fst (ae_check ev)) (snd (ae_check ev)))" "fst (ae_reload ev)"
      "(r, now) \<in> set (ae_polls ev)" "reading_diffs (rm_expected m) r = []"
      "ap_gen t = write_gen files (ap_gen s)" "ap_good t = Some (rm_expected m)"
    | (pending) "res = ''pending''" "\<not> fst (ae_reload ev)" "ap_gen t = write_gen files (ap_gen s)" "ap_good t = ap_good s"
    | (failed) "res = ''failed''" "ap_gen t = write_gen (ap_gen s) (write_gen files (ap_gen s))" "ap_good t = ap_good s"
      "jget (ap_status t) ''result'' = JStr ''failed''" "jget (ap_status t) ''set_hash'' = JStr (rm_hash m)" "jget (ap_status t) ''at'' = JStr (ae_t1 ev)"
proof -
  obtain ok why where j: "judge_check_config (fst (ae_check ev)) (snd (ae_check ev)) = (ok, why)" by fastforce
  have rolled: thesis if "ap_fail ev m (ap_gen s) (ap_good s) w b s1 = Some (res, t)" "ap_gen s1 = write_gen files (ap_gen s)" "ap_good s1 = ap_good s" for w b s1
    using ap_fail_result [OF that(1)] that(2,3) by (intro failed) simp_all
  note d = assms [unfolded ap_do_def Let_def j prod.case]
  show ?thesis
  proof (cases ok)
    case False
    show ?thesis by (rule rolled [OF d [unfolded if_P [OF False]]]) simp_all
  next
    case ok: True
    note d = d [unfolded if_not_P [OF not_not [THEN iffD2, OF ok]]]
    show ?thesis
    proof (cases "fst (ae_reload ev)")
      case False
      then have "res = ''pending''" "ap_gen t = write_gen files (ap_gen s)" "ap_good t = ap_good s" using d by auto
      with False show ?thesis by (intro pending)
    next
      case reload: True
      then obtain b ds where v: "verify_loaded (rm_expected m) (ae_start ev + VERIFY_TIMEOUT) (ae_polls ev) = Some (b, ds)"
        using d by (auto split: option.splits)
      show ?thesis
      proof (cases b)
        case True
        then have a: "res = ''applied''" "ap_gen t = write_gen files (ap_gen s)" "ap_good t = Some (rm_expected m)"
          using d v reload by (auto split: if_splits)
        obtain r now where "(r, now) \<in> set (ae_polls ev)" "reading_diffs (rm_expected m) r = []"
          using verify_loaded_True [OF v [unfolded eqTrueI [OF True]]] by blast
        with a reload ok j show ?thesis by (intro applied) simp_all
      next
        case False
        have "ap_fail ev m (ap_gen s) (ap_good s) (failed_text ''HA did not load what was rendered: '' (take 3 ds)) True
          (write_status [(''seq'', JInt (rm_seq m)), (''set_hash'', JStr (rm_hash m)), (''result'', JStr ''pending''), (''at'', JStr (ae_t0 ev)),
            (''detail'', JStr ''applying''), (''loaded_ok'', JBool False)] s\<lparr>ap_gen := write_gen files (ap_gen s)\<rparr>) = Some (res, t)"
          using d v reload False by simp
        then show ?thesis by (rule rolled) simp_all
      qed
    qed
  qed
qed

lemma ap_apply_done:
  assumes "ap_apply ev s = Some (Inr (res, t))" "res \<in> {''applied'', ''pending'', ''failed''}"
  obtains m files where "read_render (ae_out ev) = Some (m, files)" "ap_do ev m files s = Some (res, t)"
  using assms
  by (auto simp: ap_apply_def Let_def reverify_def split: option.splits prod.splits if_splits sum.splits bool.splits)

lemma read_render_files:
  assumes "read_render od = Some (m, files)"
  shows "od_meta od = Some m" "map fst files = map fst (rm_files m)"
    "(p, b) \<in> set files \<Longrightarrow> (p, sha256_hex b) \<in> set (rm_files m)"
proof -
  obtain fs where m: "od_meta od = Some m" and fs: "fs = map (read_file (od_files od)) (rm_files m)" "None \<notin> set fs" "files = map the fs"
    using assms by (auto simp: read_render_def Let_def split: option.splits list.splits if_splits)
  have one: "\<exists>b. read_file (od_files od) rd = Some (fst rd, b) \<and> sha256_hex b = snd rd" if "rd \<in> set (rm_files m)" for rd
  proof -
    have "read_file (od_files od) rd \<in> set fs" using that fs(1) by simp
    then have "read_file (od_files od) rd \<noteq> None" using fs(2) by metis
    then show ?thesis by (auto simp: read_file_def split: option.splits if_splits)
  qed
  show "od_meta od = Some m" by (rule m)
  show "map fst files = map fst (rm_files m)" using one by (fastforce simp: fs(1,3))
  show "(p, sha256_hex b) \<in> set (rm_files m)" if "(p, b) \<in> set files"
  proof -
    have "(p, b) \<in> (\<lambda>rd. the (read_file (od_files od) rd)) ` set (rm_files m)" using that by (simp add: fs(1,3) image_image)
    then obtain rd where rd: "(p, b) = the (read_file (od_files od) rd)" "rd \<in> set (rm_files m)" by (rule imageE)
    then show ?thesis using one [OF rd(2)] by (cases rd) auto
  qed
qed

section \<open>Properties\<close>

lemma compared_reading:
  assumes "reading_diffs ex r = []"
  obtains autos scripts where "compare_sets ex (autos, scripts) = []" "(\<exists>rows. (autos, scripts) = collect_loaded rows \<and> (r = From_api rows \<or> (\<exists>why. r = From_recorder why rows)))"
  using assms by (cases r) (auto simp: reading_diffs_def, metis surj_pair, metis surj_pair)

text \<open>C21: When a pass reports that it applied what the service published, then every file in the generated directory
  has the hash of the published file, and in a reading during the pass Home Assistant ran, of all automations
  and scripts that look generated, exactly the published ones under their published aliases, which carry the
  hash of their content.\<close>

theorem applied_runs_published:
  assumes "publish db now today = Inr rd"
    and "od_meta (ae_out ev) = Some \<lparr>rm_seq = n, rm_hash = rd_set_hash rd, rm_files = map (\<lambda>(p, t). (p, sha256_hex t)) (rd_files rd),
           rm_expected = \<lparr>ex_autos = rd_automations rd, ex_scripts = rd_scripts rd\<rparr>\<rparr>"
    and "distinct (map fst (rd_files rd))"
    and "ap_apply ev s = Some (Inr (''applied'', t))"
  shows "(\<forall>p. map_option sha256_hex (map_of (ap_gen t) p) = map_option sha256_hex (map_of (rd_files rd) p)) \<and>
    (\<exists>r time autos scripts. (r, time) \<in> set (ae_polls ev) \<and> (\<exists>rows. (autos, scripts) = collect_loaded rows \<and> (r = From_api rows \<or> (\<exists>why. r = From_recorder why rows))) \<and>
      (\<forall>a. generated_alias a \<longrightarrow> (a \<in> set autos \<longleftrightarrow> JStr a \<in> snd ` set (rd_automations rd))) \<and>
      (\<forall>(k, a)\<in>set (rd_scripts rd). jopt JStr (map_of scripts k) = a) \<and>
      (\<forall>k\<in>fst ` set scripts. starts_with ''sch_'' k \<longrightarrow> k \<in> fst ` set (rd_scripts rd)))"
proof -
  obtain m files where m: "read_render (ae_out ev) = Some (m, files)" "ap_do ev m files s = Some (''applied'', t)"
    using assms(4) by (rule ap_apply_done) simp
  note f = read_render_files [OF m(1)]
  have meta: "rm_files m = map (\<lambda>(p, t). (p, sha256_hex t)) (rd_files rd)" "rm_expected m = \<lparr>ex_autos = rd_automations rd, ex_scripts = rd_scripts rd\<rparr>"
    using f(1) assms(2) by auto
  have keys: "map fst files = map fst (rd_files rd)" using f(2) by (simp add: meta(1) case_prod_beta comp_def)
  from m(2) show ?thesis
  proof (cases rule: ap_do_cases)
    case (applied r time)
    have gen: "map_of (ap_gen t) = map_of files" unfolding applied(6) using keys assms(3) by (intro write_gen_map) simp
    have "map_option sha256_hex (map_of files p) = map_option sha256_hex (map_of (rd_files rd) p)" for p
    proof (cases "map_of files p")
      case None
      have "p \<notin> fst ` set (rd_files rd)" using None keys by (metis list.set_map map_of_eq_None_iff)
      then have "map_of (rd_files rd) p = None" by (simp only: map_of_eq_None_iff not_False_eq_True)
      with None show ?thesis by simp
    next
      case (Some b)
      then have "(p, sha256_hex b) \<in> set (rm_files m)" using f(3) map_of_SomeD by metis
      then obtain x where x: "(p, x) \<in> set (rd_files rd)" "sha256_hex x = sha256_hex b" by (auto simp: meta(1))
      then have "map_of (rd_files rd) p = Some x" using assms(3) by simp
      with Some x show ?thesis by simp
    qed
    then have files: "\<forall>p. map_option sha256_hex (map_of (ap_gen t) p) = map_option sha256_hex (map_of (rd_files rd) p)" by (simp add: gen)
    obtain autos scripts where c: "compare_sets (rm_expected m) (autos, scripts) = []"
        "\<exists>rows. (autos, scripts) = collect_loaded rows \<and> (r = From_api rows \<or> (\<exists>why. r = From_recorder why rows))"
      using applied(5) by (rule compared_reading)
    note d = c(1) [unfolded compare_sets_Nil meta(2), simplified]
    have "\<forall>a. generated_alias a \<longrightarrow> (a \<in> set autos \<longleftrightarrow> JStr a \<in> snd ` set (rd_automations rd))" using d by fastforce
    with files c(2) d applied(4) show ?thesis by (intro conjI exI [of _ r] exI [of _ time] exI [of _ autos] exI [of _ scripts]) auto
  qed simp_all
qed

text \<open>C23: A pass that reports failure leaves the generated directory as it found it, and remembers the set that was
  good before.\<close>

theorem failed_restores_files:
  assumes "ap_apply ev s = Some (Inr (''failed'', t))" "distinct (map fst (ap_gen s))"
  shows "same_dict (ap_gen t) (ap_gen s) \<and> ap_good t = ap_good s"
proof -
  obtain m files where m: "ap_do ev m files s = Some (''failed'', t)" using assms(1) by (rule ap_apply_done) simp
  then show ?thesis
  proof (cases rule: ap_do_cases)
    case failed
    then show ?thesis unfolding same_dict_map by (simp add: write_gen_map assms(2))
  qed simp_all
qed

text \<open>C22: The rollback forgets what ran before a pass that had to wait: when Home Assistant could not be asked to
  reload in one pass and rejects the render in the next, then the files that are left after the rollback are
  the rejected ones, not those from before.\<close>

theorem rollback_after_pending:
  assumes "ap_apply ev s = Some (Inr (''pending'', t))" "ap_apply ev' t = Some (Inr (''failed'', u))"
    and "read_render (ae_out ev) = Some (m, files)" "distinct (map fst (rm_files m))" "distinct (map fst (ap_gen s))"
  shows "same_dict (ap_gen u) files"
proof -
  obtain m' files' where p: "read_render (ae_out ev) = Some (m', files')" "ap_do ev m' files' s = Some (''pending'', t)"
    using assms(1) by (rule ap_apply_done) simp
  have e: "m' = m" "files' = files" using p(1) assms(3) by simp_all
  have dist: "distinct (map fst files)" using read_render_files(2) [OF assms(3)] assms(4) by simp
  from p(2) have t: "ap_gen t = write_gen files (ap_gen s)" by (cases rule: ap_do_cases) (simp_all add: e)
  obtain m2 files2 where f: "ap_do ev' m2 files2 t = Some (''failed'', u)" using assms(2) by (rule ap_apply_done) simp
  then have u: "ap_gen u = write_gen (ap_gen t) (write_gen files2 (ap_gen t))" by (cases rule: ap_do_cases) simp_all
  have "distinct (map fst (ap_gen t))" unfolding t using assms(5) by (rule distinct_write_gen)
  then have "map_of (ap_gen u) = map_of (ap_gen t)" unfolding u by (rule write_gen_map)
  then show ?thesis unfolding same_dict_map t by (simp add: write_gen_map dist)
qed

text \<open>A render that failed is left alone: within an hour a pass over it that is not forced changes nothing.\<close>

theorem failed_is_held:
  assumes "ap_apply ev s = Some (Inr (''failed'', t))" "ae_out ev' = ae_out ev" "\<not> ae_force ev'"
    and "ae_t1 ev \<noteq> []" "ae_iso ev' (ae_t1 ev) = Some at" "ae_now ev' - at < 3600 * 1000000"
  shows "ap_apply ev' t = Some (Inr (''failed-held'', t))"
proof -
  obtain m files where m: "read_render (ae_out ev) = Some (m, files)" "ap_do ev m files s = Some (''failed'', t)" using assms(1) by (rule ap_apply_done) simp
  from m(2) show ?thesis
  proof (cases rule: ap_do_cases)
    case failed
    then show ?thesis using assms(2-6) m(1) by (simp add: ap_apply_def Let_def jstr_is_def held_age_def)
  qed simp_all
qed


end
