(* ===== verification/Applier_Witness.thy ===== *)
theory Applier_Witness
  imports Applier_Props
begin

text \<open>
  Passes of the applier over the published set of an empty database and over a small made-up render.
\<close>

lemma distinct_sort_keys: "distinct (map fst xs) \<Longrightarrow> distinct (map fst (sort_key fst xs))"
  by (metis distinct_map distinct_sort set_sort)

lemma w_render:
  "\<exists>rd a b. render [] = Inr rd \<and> rd_automations rd = [] \<and> distinct (map fst (rd_files rd))
     \<and> set (rd_scripts rd) = {(''sch_fingerprint'', JStr a), (''sch_reconcile_all'', JStr b)} \<and> (\<exists>v. rd_set_hash rd = h8 v) \<and> a \<noteq> [] \<and> b \<noteq> []"
proof -
  obtain ra h where ra: "ha_item ''reconcile all managed plugs'' [(''sequence'', JList [JObj [(''delay'', JObj [(''seconds'', JInt 0)])]])] = (ra, h)" by fastforce
  then have al: "jget ra ''alias'' = JStr (alias_of ''reconcile all managed plugs'' h)" by (auto simp: ha_item_def Let_def jget_def)
  show ?thesis unfolding render_def fold_res.simps bind_res_simps prod.case Let_def
    apply (simp add: ra al starts_with_def distinct_sort_keys del: sort_key_simps)
    apply (intro conjI)
     apply (simp only: sort_key_simps)
    apply (intro exI conjI, rule insert_commute, rule refl)
     apply (simp_all add: alias_of_def)
    done
qed

lemma hex_words:
  assumes "set h \<subseteq> set ''0123456789abcdef''" "h \<noteq> []"
  shows "py_words (''1 '' @ h) = [''1'', h]"
proof -
  have "list_all (\<lambda>c. \<not> is_space c \<and> c \<noteq> CHR '' '') ''0123456789abcdef''" by code_simp
  then have p: "\<not> is_space c \<and> c \<noteq> CHR '' ''" if "c \<in> set h" for c using that assms(1) unfolding list_all_iff by blast
  then have "map (\<lambda>c. if is_space c then CHR '' '' else c) h = h" by (intro map_idI) simp
  moreover have "CHR '' '' \<notin> set h" using p by blast
  moreover have "is_space (CHR '' '')" "\<not> is_space (CHR ''1'')" by (simp_all add: is_space_def)
  ultimately show ?thesis using assms(2) by (simp add: py_words_def split_on_no_sep)
qed

definition w_pass :: "out_dir \<Rightarrow> (ha_reading \<times> int) list \<Rightarrow> ap_env" where
  "w_pass out polls = \<lparr>ae_out = out, ae_force = False, ae_iso = (\<lambda>t. Some 0), ae_now = 60000000, ae_t0 = ''2026-11-03T10:00:00+01:00'',
     ae_t1 = ''2026-11-03T10:01:00+01:00'', ae_check = (0, ''Testing configuration at /config''), ae_reload = (True, ''HTTP 200''),
     ae_start = 0, ae_polls = polls, ae_reload2 = (True, ''HTTP 200''), ae_start2 = 0, ae_polls2 = polls, ae_git = (True, ''pushed''),
     ae_since = 0, ae_later = 0\<rparr>"

definition w_applier :: applier where
  "w_applier = \<lparr>ap_gen = [(''automations/old.yaml'', ''[]'')], ap_status = [], ap_good = None, ap_alerts = []\<rparr>"

lemma w_check: "judge_check_config 0 ''Testing configuration at /config'' = (True, [])"
  by code_simp

lemma first_pass:
  assumes "read_render (ae_out ev) = Some (m, files)" "ap_status s = []"
  shows "ap_apply ev s = map_option Inr (ap_do ev m files s)"
proof -
  have "\<not> jstr_is [] ''result'' r" for r by (simp add: jstr_is_def jget_def)
  then show ?thesis by (simp add: ap_apply_def assms Let_def)
qed

text \<open>The services and their schedules are still empty: the fingerprint and one script are all there is.\<close>

lemma applied_runs_published_witness:
  "\<exists>rd ev t. publish empty_db (Fixed 0 0) 0 = Inr rd \<and> ap_apply ev w_applier = Some (Inr (''applied'', t)) \<and>
     (\<forall>p. map_option sha256_hex (map_of (ap_gen t) p) = map_option sha256_hex (map_of (rd_files rd) p))"
proof -
  from w_render obtain rd a b where "render [] = Inr rd \<and> rd_automations rd = [] \<and> distinct (map fst (rd_files rd))
     \<and> set (rd_scripts rd) = {(''sch_fingerprint'', JStr a), (''sch_reconcile_all'', JStr b)} \<and> (\<exists>v. rd_set_hash rd = h8 v) \<and> a \<noteq> [] \<and> b \<noteq> []"
    by (elim exE) rule
  then obtain v where rd: "render [] = Inr rd" "rd_automations rd = []" "distinct (map fst (rd_files rd))"
     "set (rd_scripts rd) = {(''sch_fingerprint'', JStr a), (''sch_reconcile_all'', JStr b)}" "rd_set_hash rd = h8 v" "a \<noteq> []" "b \<noteq> []"
    by (elim conjE exE) rule
  have pub: "publish empty_db (Fixed 0 0) 0 = Inr rd" by (simp add: publish_def snapshot_of_def entities_def empty_db_def rd(1))
  let ?m = "\<lparr>rm_seq = 1, rm_hash = rd_set_hash rd, rm_files = map (\<lambda>(p, t). (p, sha256_hex t)) (rd_files rd),
           rm_expected = \<lparr>ex_autos = rd_automations rd, ex_scripts = rd_scripts rd\<rparr>\<rparr>"
  let ?out = "\<lparr>od_meta = Some ?m, od_ready = Some (''1 '' @ rd_set_hash rd), od_files = rd_files rd\<rparr>"
  let ?row = "\<lambda>k x. \<lparr>hw_id = ''script.'' @ k, hw_state = Some ''off'', hw_name = Some x\<rparr>"
  let ?rows = "[?row ''sch_fingerprint'' a, ?row ''sch_reconcile_all'' b]"
  let ?ev = "w_pass ?out [(From_api ?rows, 1)]"
  have h: "set (rd_set_hash rd) \<subseteq> set ''0123456789abcdef''" "length (rd_set_hash rd) = 8"
    unfolding rd(5) h8_def using set_take_subset set_sha256_hex by (fast, simp)
  then have "py_words (''1 '' @ rd_set_hash rd) = [''1'', rd_set_hash rd]" by (intro hex_words) auto
  moreover have "py_int ''1'' = Some 1" by code_simp
  moreover have fs: "map (read_file (rd_files rd)) (map (\<lambda>(p, t). (p, sha256_hex t)) (rd_files rd)) = map Some (rd_files rd)"
    using rd(3) by (auto simp: read_file_def)
  moreover have "map the (map Some xs) = xs" for xs :: file_map by (simp add: comp_def)
  ultimately have read: "read_render ?out = Some (?m, rd_files rd)" by (simp add: read_render_def Let_def image_iff del: map_map)
  have "collect_loaded ?rows = ([], [(''sch_fingerprint'', a), (''sch_reconcile_all'', b)])"
    using rd(6,7) by (simp add: collect_loaded_def collect_row_def starts_with_def)
  then have ok: "reading_diffs (rm_expected ?m) (From_api ?rows) = []"
    using rd(2,4) by (auto simp: reading_diffs_def compare_sets_Nil)
  have "\<exists>t. ap_do ?ev ?m (rd_files rd) w_applier = Some (''applied'', t)"
    using ok by (simp add: ap_do_def w_pass_def Let_def w_check)
  then obtain t where t: "ap_do ?ev ?m (rd_files rd) w_applier = Some (''applied'', t)" ..
  have out: "ae_out ?ev = ?out" by (simp only: w_pass_def ap_env.select_convs)
  have "ap_apply ?ev w_applier = map_option Inr (ap_do ?ev ?m (rd_files rd) w_applier)"
    by (rule first_pass) (simp only: out read, simp only: w_applier_def applier.select_convs)
  then have t: "ap_apply ?ev w_applier = Some (Inr (''applied'', t))" by (simp only: t option.map)
  have "od_meta (ae_out ?ev) = Some ?m" by (simp add: w_pass_def)
  from applied_runs_published [OF pub this rd(3) t] show ?thesis using pub t by blast
qed

text \<open>A pass whose reload finds no Home Assistant, and the next, whose check is refused.\<close>

definition w_meta :: render_meta where
  "w_meta = \<lparr>rm_seq = 1, rm_hash = ''h'', rm_files = [(''a.yaml'', sha256_hex ''new'')], rm_expected = \<lparr>ex_autos = [], ex_scripts = []\<rparr>\<rparr>"

definition w_out :: out_dir where
  "w_out = \<lparr>od_meta = Some w_meta, od_ready = Some ''1 h'', od_files = [(''a.yaml'', ''new'')]\<rparr>"

lemma w_read: "read_render w_out = Some (w_meta, [(''a.yaml'', ''new'')])"
proof -
  have "py_words ''1 h'' = [''1'', ''h'']" "py_int ''1'' = Some 1" by code_simp+
  then show ?thesis by (simp add: w_out_def read_render_def w_meta_def read_file_def)
qed

definition w_down :: ap_env where
  "w_down = (w_pass w_out [])\<lparr>ae_reload := (False, ''HA unreachable (URLError)'')\<rparr>"

definition w_refused :: ap_env where
  "w_refused = (w_pass w_out [])\<lparr>ae_check := (1, ''Failed config'')\<rparr>"

lemma w_bad: "fst (judge_check_config 1 ''Failed config'') = False"
  by code_simp

lemma w_pending: "\<exists>t. ap_apply w_down w_applier = Some (Inr (''pending'', t))"
  by (simp add: ap_apply_def w_down_def w_pass_def w_read ap_do_def Let_def w_check jstr_is_def w_applier_def jget_def)

lemma w_failed: "jget (ap_status t) ''result'' \<noteq> JStr ''failed'' \<Longrightarrow> jget (ap_status t) ''result'' \<noteq> JStr ''applied''
     \<Longrightarrow> \<exists>u. ap_apply w_refused t = Some (Inr (''failed'', u))"
  using w_bad by (cases "judge_check_config 1 ''Failed config''")
    (simp add: ap_apply_def w_refused_def w_pass_def w_read ap_do_def ap_fail_def Let_def jstr_is_def)

lemma failed_restores_files_witness:
  "\<exists>t. ap_apply w_refused w_applier = Some (Inr (''failed'', t)) \<and> same_dict (ap_gen t) (ap_gen w_applier)"
proof -
  obtain t where t: "ap_apply w_refused w_applier = Some (Inr (''failed'', t))" using w_failed [of w_applier] by (auto simp: w_applier_def jget_def)
  have "distinct (map fst (ap_gen w_applier))" by (simp add: w_applier_def)
  from failed_restores_files [OF t this] show ?thesis using t by blast
qed

lemma rollback_after_pending_witness:
  "\<exists>t u. ap_apply w_down w_applier = Some (Inr (''pending'', t)) \<and> ap_apply w_refused t = Some (Inr (''failed'', u)) \<and>
     same_dict (ap_gen u) [(''a.yaml'', ''new'')] \<and> \<not> same_dict (ap_gen u) (ap_gen w_applier)"
proof -
  obtain t where t: "ap_apply w_down w_applier = Some (Inr (''pending'', t))" using w_pending by blast
  have "jget (ap_status t) ''result'' = JStr ''pending''"
    using t by (auto simp: ap_apply_def w_down_def w_pass_def w_read ap_do_def Let_def w_check jstr_is_def w_applier_def jget_def
        pending_alert_def write_status_def send_alert_def)
  then obtain u where u: "ap_apply w_refused t = Some (Inr (''failed'', u))" using w_failed [of t] by auto
  have s: "same_dict (ap_gen u) [(''a.yaml'', ''new'')]"
  proof (rule rollback_after_pending [OF t u])
    show "read_render (ae_out w_down) = Some (w_meta, [(''a.yaml'', ''new'')])" by (simp add: w_down_def w_pass_def w_read)
    show "distinct (map fst (rm_files w_meta))" by (simp add: w_meta_def)
    show "distinct (map fst (ap_gen w_applier))" by (simp add: w_applier_def)
  qed
  moreover have "\<not> same_dict (ap_gen u) (ap_gen w_applier)"
    using s by (auto simp: same_dict_map w_applier_def fun_eq_iff split: if_splits)
  ultimately show ?thesis using t u by blast
qed

lemma failed_is_held_witness:
  "\<exists>t. ap_apply w_refused w_applier = Some (Inr (''failed'', t)) \<and> ap_apply (w_pass w_out []) t = Some (Inr (''failed-held'', t))"
proof -
  obtain t where t: "ap_apply w_refused w_applier = Some (Inr (''failed'', t))" using w_failed [of w_applier] by (auto simp: w_applier_def jget_def)
  have "ap_apply (w_pass w_out []) t = Some (Inr (''failed-held'', t))"
    by (rule failed_is_held [OF t, where at = 0]) (simp_all add: w_refused_def w_pass_def)
  then show ?thesis using t by blast
qed


end
