(* ===== verification/Gw_Auth.thy ===== *)
theory Gw_Auth
  imports Relay_State
begin

text \<open>
  \<open>portal/gateway/gw/auth.py\<close>: stored passwords, one-time codes (RFC 6238), the codes a person types.
  Bytes are integers from 0 to 255.  scrypt is an argument; \<open>None\<close> is its \<open>ValueError\<close>.
\<close>

unbundle bit_operations_syntax

section \<open>Base 64\<close>

definition B64 :: string where
  "B64 = ''ABCDEFGHIJKLMNOPQRSTUVWXYZabcdefghijklmnopqrstuvwxyz0123456789+/''"

definition b64_char :: "int \<Rightarrow> char" where
  "b64_char i = B64 ! nat i"

fun index_in :: "string \<Rightarrow> char \<Rightarrow> int option" where
  "index_in [] c = None"
| "index_in (d # ds) c = (if d = c then Some 0 else map_option (\<lambda>i. i + 1) (index_in ds c))"

fun b64encode :: "int list \<Rightarrow> string" where
  "b64encode [] = []"
| "b64encode [a] = [b64_char (a div 4), b64_char (a mod 4 * 16), CHR ''='', CHR ''='']"
| "b64encode [a, b] = [b64_char (a div 4), b64_char (a mod 4 * 16 + b div 16), b64_char (b mod 16 * 4), CHR ''='']"
| "b64encode (a # b # c # bs) =
     b64_char (a div 4) # b64_char (a mod 4 * 16 + b div 16) # b64_char (b mod 16 * 4 + c div 64) # b64_char (c mod 64) # b64encode bs"

text \<open>
  The decoder skips what is not of the alphabet and stops at the padding that completes a group of
  four; \<open>q\<close> is the place in the group, \<open>left\<close> the bits carried over, \<open>pads\<close> the padding characters.
\<close>

fun b64_scan :: "nat \<Rightarrow> int \<Rightarrow> nat \<Rightarrow> string \<Rightarrow> int list option" where
  "b64_scan q left pads [] = (if q = 0 then Some [] else None)"
| "b64_scan q left pads (ch # s) =
     (if ch = CHR ''='' then
        if 2 \<le> q \<and> 4 \<le> q + pads + 1 then Some [] else b64_scan q left (if 2 \<le> q then pads + 1 else pads) s
      else case index_in B64 ch of None \<Rightarrow> b64_scan q left pads s
        | Some v \<Rightarrow>
            if q = 0 then b64_scan 1 v 0 s
            else if q = 1 then map_option ((#) (left * 4 + v div 16)) (b64_scan 2 (v mod 16) 0 s)
            else if q = 2 then map_option ((#) (left * 16 + v div 4)) (b64_scan 3 (v mod 4) 0 s)
            else map_option ((#) (left * 64 + v)) (b64_scan 0 0 0 s))"

definition b64decode :: "string \<Rightarrow> int list option" where
  "b64decode s = (if list_all (\<lambda>c. (of_char c :: nat) < 128) s then b64_scan 0 0 0 s else None)"

lemma index_nth: "distinct s \<Longrightarrow> n < length s \<Longrightarrow> index_in s (s ! n) = Some (int n)"
proof (induction s arbitrary: n)
  case (Cons d s)
  then show ?case by (cases n) (auto simp: in_set_conv_nth)
qed simp

lemma B64_plain: "length B64 = 64" "list_all (\<lambda>c. c \<noteq> CHR ''='' \<and> c \<noteq> CHR ''$'' \<and> (of_char c :: nat) < 128) B64"
  by (simp_all add: B64_def)

lemma B64_codes: "map of_char B64 = ([65..<91] @ [97..<123] @ [48..<58] @ [43, 47] :: nat list)"
  by code_simp

lemma distinct_B64: "distinct B64"
proof -
  have "distinct (map of_char B64 :: nat list)" unfolding B64_codes by auto
  then show ?thesis by (simp add: distinct_map)
qed

lemma index_B64:
  assumes "0 \<le> i" "i < 64"
  shows "index_in B64 (b64_char i) = Some i \<and> b64_char i \<noteq> CHR ''='' \<and> b64_char i \<noteq> CHR ''$'' \<and> (of_char (b64_char i) :: nat) < 128"
proof -
  have "nat i < length B64" using assms B64_plain(1) by simp
  then show ?thesis using assms index_nth [OF distinct_B64, of "nat i"] B64_plain(2)
    unfolding b64_char_def list_all_iff by (metis int_nat_eq nth_mem)
qed

definition bytes_ok :: "int list \<Rightarrow> bool" where
  "bytes_ok bs \<longleftrightarrow> list_all (\<lambda>b. 0 \<le> b \<and> b < 256) bs"

lemma bytes_ok_Cons [simp]: "bytes_ok (b # bs) \<longleftrightarrow> 0 \<le> b \<and> b < 256 \<and> bytes_ok bs" "bytes_ok []"
  by (auto simp: bytes_ok_def)

text \<open>The pieces of six bits of a group, as the encoder cuts them.\<close>

lemma six_bits:
  fixes a b c :: int
  assumes "0 \<le> a" "a < 256" "0 \<le> b" "b < 256" "0 \<le> c" "c < 256"
  shows "0 \<le> a div 4" "a div 4 < 64" "0 \<le> a mod 4 * 16" "a mod 4 * 16 < 64" "0 \<le> a mod 4 * 16 + b div 16" "a mod 4 * 16 + b div 16 < 64"
    "0 \<le> b mod 16 * 4" "b mod 16 * 4 < 64" "0 \<le> b mod 16 * 4 + c div 64" "b mod 16 * 4 + c div 64 < 64" "0 \<le> c mod 64" "c mod 64 < 64"
  using assms by linarith+

lemma six_bits_join:
  fixes a b :: int
  assumes "0 \<le> b" "b < 256"
  shows "(a mod 4 * 16 + b div 16) div 16 = a mod 4" "(a mod 4 * 16 + b div 16) mod 16 = b div 16"
    "(a mod 16 * 4 + b div 64) div 4 = a mod 16" "(a mod 16 * 4 + b div 64) mod 4 = b div 64"
  using assms by (simp_all add: zdiv_zmult2_eq)

lemma scan_group:
  assumes "0 \<le> i" "i < 64"
  shows "b64_scan q left pads (b64_char i # s) = (if q = 0 then b64_scan 1 i 0 s
            else if q = 1 then map_option ((#) (left * 4 + i div 16)) (b64_scan 2 (i mod 16) 0 s)
            else if q = 2 then map_option ((#) (left * 16 + i div 4)) (b64_scan 3 (i mod 4) 0 s)
            else map_option ((#) (left * 64 + i)) (b64_scan 0 0 0 s))"
  using index_B64 [OF assms] by simp

lemma scan_four:
  assumes "0 \<le> i" "i < 64" "0 \<le> j" "j < 64" "0 \<le> k" "k < 64"
  shows "0 \<le> m \<Longrightarrow> m < 64 \<Longrightarrow> b64_scan 0 left pads (b64_char i # b64_char j # b64_char k # b64_char m # s)
      = map_option (\<lambda>r. (i * 4 + j div 16) # (j mod 16 * 16 + k div 4) # (k mod 4 * 64 + m) # r) (b64_scan 0 0 0 s)"
    "b64_scan 0 left pads [b64_char i, b64_char j, b64_char k, CHR ''=''] = Some [i * 4 + j div 16, j mod 16 * 16 + k div 4]"
    "b64_scan 0 left pads [b64_char i, b64_char j, CHR ''='', CHR ''=''] = Some [i * 4 + j div 16]"
  using assms by (simp_all add: scan_group option.map_comp comp_def del: b64_scan.simps(2)) simp_all

lemma scan_encode: "bytes_ok bs \<Longrightarrow> b64_scan 0 left pads (b64encode bs) = Some bs"
proof (induction bs arbitrary: left pads rule: b64encode.induct)
  case (2 a)
  then have r: "0 \<le> a" "a < 256" by simp_all
  show ?case unfolding b64encode.simps
    using six_bits(1-4) [OF r, of 0 0] by (subst scan_four(3) [where k = 0]) simp_all
next
  case (3 a b)
  then have r: "0 \<le> a" "a < 256" "0 \<le> b" "b < 256" by simp_all
  show ?case unfolding b64encode.simps
    by (subst scan_four(2)) (simp_all only: six_bits [OF r, of 0] six_bits_join [OF r(3,4)], simp)
next
  case (4 a b c bs)
  then have r: "0 \<le> a" "a < 256" "0 \<le> b" "b < 256" "0 \<le> c" "c < 256" and IH: "b64_scan 0 0 0 (b64encode bs) = Some bs" by simp_all
  show ?case unfolding b64encode.simps
    by (subst scan_four(1)) (simp_all only: six_bits [OF r] six_bits_join [OF r(3,4)] six_bits_join [OF r(5,6)] IH, simp)
qed simp

lemma b64_char_plain: "0 \<le> i \<Longrightarrow> i < 64 \<Longrightarrow> (of_char (b64_char i) :: nat) < 128 \<and> b64_char i \<noteq> CHR ''$''"
  using index_B64 by blast

lemma encode_chars: "bytes_ok bs \<Longrightarrow> list_all (\<lambda>c. (of_char c :: nat) < 128 \<and> c \<noteq> CHR ''$'') (b64encode bs)"
proof (induction bs rule: b64encode.induct)
  case (2 a)
  then have r: "0 \<le> a" "a < 256" by simp_all
  show ?case unfolding b64encode.simps list.pred_inject(2)
    using b64_char_plain [OF six_bits(1,2) [OF r, of 0 0]] b64_char_plain [OF six_bits(3,4) [OF r, of 0 0]] by simp
next
  case (3 a b)
  then have r: "0 \<le> a" "a < 256" "0 \<le> b" "b < 256" by simp_all
  show ?case unfolding b64encode.simps list.pred_inject(2)
    using b64_char_plain [OF six_bits(1,2) [OF r, of 0]] b64_char_plain [OF six_bits(5,6) [OF r, of 0]] b64_char_plain [OF six_bits(7,8) [OF r, of 0]] by simp
next
  case (4 a b c bs)
  then have r: "0 \<le> a" "a < 256" "0 \<le> b" "b < 256" "0 \<le> c" "c < 256"
    and IH: "list_all (\<lambda>c. (of_char c :: nat) < 128 \<and> c \<noteq> CHR ''$'') (b64encode bs)" by simp_all
  show ?case unfolding b64encode.simps list.pred_inject(2)
    using b64_char_plain [OF six_bits(1,2) [OF r]] b64_char_plain [OF six_bits(5,6) [OF r]] b64_char_plain [OF six_bits(9,10) [OF r]]
      b64_char_plain [OF six_bits(11,12) [OF r]] IH by blast
qed simp

lemma b64_roundtrip: "bytes_ok bs \<Longrightarrow> b64decode (b64encode bs) = Some bs"
  using encode_chars [of bs] by (simp add: b64decode_def scan_encode list_all_iff)

section \<open>Passwords\<close>

type_synonym kdf = "int list \<Rightarrow> int list \<Rightarrow> int \<Rightarrow> int \<Rightarrow> int \<Rightarrow> int list option" \<comment> \<open>password, salt, n, r, p\<close>

definition SCRYPT_N :: int where "SCRYPT_N = 16384"
definition SCRYPT_R :: int where "SCRYPT_R = 8"
definition SCRYPT_P :: int where "SCRYPT_P = 1"
definition MIN_PASSWORD :: nat where "MIN_PASSWORD = 12"

definition hash_password :: "kdf \<Rightarrow> int list \<Rightarrow> string \<Rightarrow> string option" where
  "hash_password scrypt salt pw = map_option (\<lambda>h. join_with ''$''
       [''scrypt'', str_int SCRYPT_N, str_int SCRYPT_R, str_int SCRYPT_P, b64encode salt, b64encode h])
     (scrypt (utf8 pw) salt SCRYPT_N SCRYPT_R SCRYPT_P)"

definition verify_password :: "kdf \<Rightarrow> string \<Rightarrow> string \<Rightarrow> bool" where
  "verify_password scrypt pw st =
     (case split_on (CHR ''$'') st of
        [s, n, r, p, salt, h] \<Rightarrow>
          (case (b64decode salt, py_int n, py_int r, py_int p) of
             (Some salt, Some n, Some r, Some p) \<Rightarrow>
               (case (scrypt (utf8 pw) salt n r p, b64decode h) of
                  (Some calc, Some h) \<Rightarrow> calc = h
                | _ \<Rightarrow> False)
           | _ \<Rightarrow> False)
      | _ \<Rightarrow> False)"

definition password_problem :: "json \<Rightarrow> string option" where
  "password_problem j = (case j of
     JStr pw \<Rightarrow> if length pw < MIN_PASSWORD then Some (''the password must be at least '' @ str_nat MIN_PASSWORD @ '' characters'')
       else if 200 < length pw then Some ''the password is too long'' else None
   | _ \<Rightarrow> Some (''the password must be at least '' @ str_nat MIN_PASSWORD @ '' characters''))"

lemma py_int_SCRYPT: "py_int (str_int SCRYPT_N) = Some SCRYPT_N" "py_int (str_int SCRYPT_R) = Some SCRYPT_R" "py_int (str_int SCRYPT_P) = Some SCRYPT_P"
  using py_int_str_nat [of 16384] py_int_str_nat [of 8] py_int_str_nat [of 1]
  by (simp_all add: SCRYPT_N_def SCRYPT_R_def SCRYPT_P_def str_int_def)

lemma str_nat_no_dollar: "CHR ''$'' \<notin> set (str_nat n)"
  using str_nat_digits [of n] by (auto simp: list_all_iff is_digit_def char_in_def)

text \<open>What is stored for a password lets exactly the passwords in that derive the same key.\<close>

lemma verify_hashed:
  assumes "hash_password scrypt salt pw = Some st" "bytes_ok salt" "\<forall>h. scrypt (utf8 pw) salt SCRYPT_N SCRYPT_R SCRYPT_P = Some h \<longrightarrow> bytes_ok h"
  shows "verify_password scrypt pw' st \<longleftrightarrow>
    scrypt (utf8 pw') salt SCRYPT_N SCRYPT_R SCRYPT_P = scrypt (utf8 pw) salt SCRYPT_N SCRYPT_R SCRYPT_P"
proof -
  obtain h where h: "scrypt (utf8 pw) salt SCRYPT_N SCRYPT_R SCRYPT_P = Some h"
    and s: "st = join_with ''$'' [''scrypt'', str_int SCRYPT_N, str_int SCRYPT_R, str_int SCRYPT_P, b64encode salt, b64encode h]"
    using assms(1) by (auto simp: hash_password_def)
  have bh: "bytes_ok h" using assms(3) h by simp
  have "split_on (CHR ''$'') st = [''scrypt'', str_int SCRYPT_N, str_int SCRYPT_R, str_int SCRYPT_P, b64encode salt, b64encode h]"
    unfolding s using encode_chars [OF assms(2)] encode_chars [OF bh]
    by (intro split_join_on)
       (auto simp: list_all_iff SCRYPT_N_def SCRYPT_R_def SCRYPT_P_def str_int_def str_nat_no_dollar)
  then show ?thesis unfolding verify_password_def h
    by (simp add: py_int_SCRYPT b64_roundtrip assms(2) bh split: option.splits)
qed

section \<open>SHA-1 and one-time codes\<close>

definition rotl :: "nat \<Rightarrow> 32 word \<Rightarrow> 32 word" where
  "rotl n x = (push_bit n x OR drop_bit (32 - n) x)"

text \<open>The schedule grows at its front, as for SHA-256.\<close>

fun sha1_schedule :: "nat \<Rightarrow> 32 word list \<Rightarrow> 32 word list" where
  "sha1_schedule 0 ws = ws"
| "sha1_schedule (Suc n) ws = sha1_schedule n (rotl 1 (ws ! 2 XOR ws ! 7 XOR ws ! 13 XOR ws ! 15) # ws)"

type_synonym sha1_regs = "32 word \<times> 32 word \<times> 32 word \<times> 32 word \<times> 32 word"

fun sha1_round :: "sha1_regs \<Rightarrow> nat \<times> 32 word \<Rightarrow> sha1_regs" where
  "sha1_round (a, b, c, d, e) (t, w) =
     (let (f, k) = (if t < 20 then (b AND c OR (NOT b AND d), 1518500249)
        else if t < 40 then (b XOR c XOR d, 1859775393)
        else if t < 60 then (b AND c OR (b AND d) OR (c AND d), 2400959708)
        else (b XOR c XOR d, 3395469782))
      in (rotl 5 a + f + e + k + w, a, rotl 30 b, c, d))"

definition sha1_block :: "sha1_regs \<Rightarrow> 32 word list \<Rightarrow> sha1_regs" where
  "sha1_block h ws = (case (h, foldl sha1_round h (enumerate 0 (rev (sha1_schedule 64 (rev ws))))) of
     ((a, b, c, d, e), (a', b', c', d', e')) \<Rightarrow> (a + a', b + b', c + c', d + d', e + e'))"

definition sha1_bytes :: "int list \<Rightarrow> int list" where
  "sha1_bytes bs = (let ws = be_words (sha_pad bs) in
     case foldl sha1_block (1732584193, 4023233417, 2562383102, 271733878, 3285377520) (chunks16 (length ws) ws) of
       (a, b, c, d, e) \<Rightarrow> concat (map word_bytes [a, b, c, d, e]))"

definition hmac_sha1 :: "int list \<Rightarrow> int list \<Rightarrow> int list" where
  "hmac_sha1 k m = (let k' = (if 64 < length k then sha1_bytes k else k); key = k' @ replicate (64 - length k') 0
     in sha1_bytes (map (\<lambda>b. b XOR 92) key @ sha1_bytes (map (\<lambda>b. b XOR 54) key @ m)))"

text \<open>\<open>base64.b32decode\<close>; \<open>None\<close> is its \<open>ValueError\<close>.\<close>

definition B32 :: string where
  "B32 = ''ABCDEFGHIJKLMNOPQRSTUVWXYZ234567''"

definition int_bytes :: "nat \<Rightarrow> int \<Rightarrow> int list" where
  "int_bytes n v = map (\<lambda>i. v div 256 ^ (n - 1 - i) mod 256) [0..<n]"

fun b32_acc :: "int \<Rightarrow> string \<Rightarrow> int option" where
  "b32_acc acc [] = Some acc"
| "b32_acc acc (c # cs) = (case index_in B32 c of None \<Rightarrow> None | Some v \<Rightarrow> b32_acc (acc * 32 + v) cs)"

fun b32_quanta :: "nat \<Rightarrow> string \<Rightarrow> (int list \<times> int) option" where \<comment> \<open>the bytes before the last group, its value\<close>
  "b32_quanta 0 s = Some ([], 0)"
| "b32_quanta (Suc n) s =
     (case b32_acc 0 (take 8 s) of None \<Rightarrow> None
      | Some acc \<Rightarrow> if length s \<le> 8 then Some ([], acc)
          else map_option (\<lambda>(bs, last). (int_bytes 5 acc @ bs, last)) (b32_quanta n (drop 8 s)))"

definition b32decode :: "string \<Rightarrow> int list option" where
  "b32decode s = (let t = rstrip_by (\<lambda>c. c = CHR ''='') s; pads = length s - length t in
     if length s mod 8 \<noteq> 0 then None
     else if t = [] then (if pads = 0 then Some [] else None)
     else case b32_quanta (length t) t of None \<Rightarrow> None
       | Some (bs, acc) \<Rightarrow> if pads \<notin> {0, 1, 3, 4, 6} then None
           else if pads = 0 then Some (bs @ int_bytes 5 acc)
           else Some (bs @ take ((43 - 5 * pads) div 8) (int_bytes 5 (acc * 32 ^ pads))))"

text \<open>The six digits of a counter; the seed is padded to whole groups of eight.\<close>

definition dynamic_bits :: "int list \<Rightarrow> int" where
  "dynamic_bits d = (let o1 = nat (d ! 19 AND 15)
     in (((d ! o1 * 256 + d ! (o1 + 1)) * 256 + d ! (o1 + 2)) * 256 + d ! (o1 + 3)) AND 2147483647)"

definition str06 :: "int \<Rightarrow> string" where
  "str06 i = pad_left 6 (CHR ''0'') (str_int i)"

definition hotp :: "string \<Rightarrow> int \<Rightarrow> string option" where
  "hotp sd counter = map_option (\<lambda>key. str06 (dynamic_bits (hmac_sha1 key (int_bytes 8 counter)) mod 1000000))
     (b32decode (sd @ replicate ((8 - length sd mod 8) mod 8) (CHR ''='')))"

definition totp_step :: "rat \<Rightarrow> int" where
  "totp_step now = \<lfloor>now / 30\<rfloor>"

text \<open>
  \<open>verify_totp\<close>: the first step from the one before to the one after the present that is later than
  the last one used and has this code.  \<open>compare_digest\<close> refuses a text that is not ASCII.
\<close>

fun first_step :: "string \<Rightarrow> string \<Rightarrow> int \<Rightarrow> int list \<Rightarrow> py_exn + int option" where
  "first_step sd code last_step [] = Inr None"
| "first_step sd code last_step (s # ss) =
     (if s \<le> last_step then first_step sd code last_step ss
      else case hotp sd s of None \<Rightarrow> Inl ValueError
        | Some c \<Rightarrow> if \<not> is_ascii code then Inl TypeError
            else if c = code then Inr (Some s) else first_step sd code last_step ss)"

definition verify_totp :: "string \<Rightarrow> string \<Rightarrow> int \<Rightarrow> rat \<Rightarrow> py_exn + int option" where
  "verify_totp sd code last_step now =
     (if \<not> py_isdigit code \<or> length code \<noteq> 6 then Inr None
      else let cur = totp_step now in first_step sd code last_step [cur - 1, cur, cur + 1])"

lemma first_step_Some:
  "first_step sd code last_step ss = Inr (Some s) \<Longrightarrow> s \<in> set ss \<and> last_step < s \<and> hotp sd s = Some code"
  by (induction ss) (auto split: if_splits option.splits)

lemma verify_totp_Some:
  assumes "verify_totp sd code last_step now = Inr (Some s)"
  shows "last_step < s" "hotp sd s = Some code" "\<bar>s - totp_step now\<bar> \<le> 1"
  using assms first_step_Some [of sd code last_step "[totp_step now - 1, totp_step now, totp_step now + 1]" s]
  by (auto simp: verify_totp_def Let_def simp del: first_step.simps split: if_splits)

section \<open>Enrolment codes\<close>

definition CODE_ALPHABET :: string where
  "CODE_ALPHABET = ''ABCDEFGHJKLMNPQRSTUVWXYZ23456789''"

definition fmt_code :: "string \<Rightarrow> string" where
  "fmt_code raw = join_with ''-'' (map (\<lambda>i. take 4 (drop i raw)) [0, 4, 8])"

text \<open>
  \<open>norm_code\<close>: of the text in upper case only characters of the alphabet stay, so other letters outside
  ASCII than the sharp s are left as they are here.
\<close>

definition upper_char :: "char \<Rightarrow> string" where
  "upper_char c = (let n = (of_char c :: nat) in
     if n = 223 then ''SS'' else if 97 \<le> n \<and> n \<le> 122 then [char_of (n - 32)] else [c])"

definition norm_code :: "string \<Rightarrow> string" where
  "norm_code s = filter (\<lambda>c. c \<in> set CODE_ALPHABET) (concat (map upper_char s))"

lemma code_alphabet: "list_all (\<lambda>c. upper_char c = [c] \<and> c \<noteq> CHR ''-'') CODE_ALPHABET" "upper_char (CHR ''-'') = ''-''"
    "CHR ''-'' \<notin> set CODE_ALPHABET"
  by (simp_all add: CODE_ALPHABET_def upper_char_def)

lemma norm_code_append: "norm_code (s @ t) = norm_code s @ norm_code t"
  by (simp add: norm_code_def)

lemma norm_code_id: "set s \<subseteq> set CODE_ALPHABET \<Longrightarrow> norm_code s = s"
proof (induction s)
  case (Cons c s)
  then show ?case using code_alphabet(1) by (simp add: norm_code_def list_all_iff)
qed (simp add: norm_code_def)

lemma norm_fmt_code:
  assumes "length raw = 12" "set raw \<subseteq> set CODE_ALPHABET"
  shows "norm_code (fmt_code raw) = raw"
proof -
  have "take 4 (drop 8 raw) = drop 8 raw" using assms(1) by simp
  then have r: "take 4 raw @ take 4 (drop 4 raw) @ take 4 (drop 8 raw) = raw"
    using append_take_drop_id [of 4 raw] append_take_drop_id [of 4 "drop 4 raw"] by simp
  have d: "norm_code ''-'' = []" using code_alphabet by (simp add: norm_code_def)
  have n: "norm_code (take 4 (drop i raw)) = take 4 (drop i raw)" for i
    by (intro norm_code_id order_trans [OF _ assms(2)] order_trans [OF set_take_subset] set_drop_subset)
  have "fmt_code raw = take 4 (drop 0 raw) @ ''-'' @ take 4 (drop 4 raw) @ ''-'' @ take 4 (drop 8 raw)"
    by (simp add: fmt_code_def)
  then have "norm_code (fmt_code raw) = take 4 raw @ take 4 (drop 4 raw) @ take 4 (drop 8 raw)"
    by (simp only: norm_code_append n n [of 0, unfolded drop0] d append_Nil drop0)
  then show ?thesis using r by simp
qed

end
