(* ===== verification/Gw_Hub.thy ===== *)
theory Gw_Hub
  imports Complex_Main Json_Text
begin

text \<open>
  \<open>portal/gateway/gw/hub.py\<close>: the events sent to open streams.  A queue is the list of what it holds,
  \<open>None\<close> being the mark that closes the stream; the state changes in the order of the code, and an
  exception leaves what was done before it.
\<close>

definition SSE_RESUME_S :: rat where "SSE_RESUME_S = 300"
definition QUEUE_MAX :: nat where "QUEUE_MAX = 200"

record hub_event =
  ev_id :: nat
  ev_ts :: rat
  ev_type :: string
  ev_data :: json

record stream =
  st_sub :: nat
  st_key :: string
  st_queue :: "hub_event option list"

record hub =
  hb_seq :: nat
  hb_ring :: "hub_event list"
  hb_subs :: "stream list"
  hb_n :: nat

datatype hub_exn = QueueFull

definition empty_hub :: hub where
  "empty_hub = \<lparr>hb_seq = 0, hb_ring = [], hb_subs = [], hb_n = 0\<rparr>"

text \<open>\<open>put_nowait\<close>.\<close>

definition put_nowait :: "hub_event option \<Rightarrow> stream \<Rightarrow> hub_exn + stream" where
  "put_nowait x s = (if length (st_queue s) < QUEUE_MAX then Inr (s\<lparr>st_queue := st_queue s @ [x]\<rparr>) else Inl QueueFull)"

text \<open>The loop over the streams: after a full queue the code tries to put the closing mark there.\<close>

fun deliver :: "hub_event \<Rightarrow> stream list \<Rightarrow> bool \<times> stream list" where
  "deliver ev [] = (True, [])"
| "deliver ev (s # ss) =
     (case (case put_nowait (Some ev) s of Inr s' \<Rightarrow> Inr s' | Inl _ \<Rightarrow> put_nowait None s) of
        Inl _ \<Rightarrow> (False, s # ss)
      | Inr s' \<Rightarrow> (case deliver ev ss of (ok, ss') \<Rightarrow> (ok, s' # ss')))"

definition publish_event :: "rat \<Rightarrow> string \<Rightarrow> json \<Rightarrow> hub \<Rightarrow> (hub_exn + nat) \<times> hub" where
  "publish_event now etype data h =
     (let n = hb_seq h + 1; ev = \<lparr>ev_id = n, ev_ts = now, ev_type = etype, ev_data = data\<rparr>;
          ring = dropWhile (\<lambda>e. ev_ts e < now - SSE_RESUME_S) (hb_ring h @ [ev])
      in case deliver ev (hb_subs h) of (ok, subs) \<Rightarrow>
        (if ok then Inr n else Inl QueueFull, h\<lparr>hb_seq := n, hb_ring := ring, hb_subs := subs\<rparr>))"

definition since :: "nat \<Rightarrow> hub \<Rightarrow> hub_event list" where
  "since last_id h = filter (\<lambda>e. last_id < ev_id e) (hb_ring h)"

definition subscribe :: "string \<Rightarrow> hub \<Rightarrow> nat \<times> hub" where
  "subscribe key h = (let n = hb_n h + 1
     in (n, h\<lparr>hb_n := n, hb_subs := hb_subs h @ [\<lparr>st_sub = n, st_key = key, st_queue = []\<rparr>]\<rparr>))"

definition unsubscribe :: "nat \<Rightarrow> hub \<Rightarrow> hub" where
  "unsubscribe sid h = h\<lparr>hb_subs := filter (\<lambda>s. st_sub s \<noteq> sid) (hb_subs h)\<rparr>"

text \<open>\<open>kick\<close>: the streams of a revoked phone get the closing mark where there is room.\<close>

definition kick :: "string \<Rightarrow> hub \<Rightarrow> hub" where
  "kick phone_id h = h\<lparr>hb_subs := map (\<lambda>s. if st_key s = phone_id then
       (case put_nowait None s of Inr s' \<Rightarrow> s' | Inl _ \<Rightarrow> s) else s) (hb_subs h)\<rparr>"

text \<open>What a reader takes from its stream: the event that is next.\<close>

definition read_event :: "nat \<Rightarrow> hub \<Rightarrow> hub_event option option \<times> hub" where
  "read_event sid h = (case find (\<lambda>s. st_sub s = sid) (hb_subs h) of None \<Rightarrow> (None, h)
     | Some s \<Rightarrow> (case st_queue s of [] \<Rightarrow> (None, h)
         | x # q \<Rightarrow> (Some x, h\<lparr>hb_subs := map (\<lambda>t. if st_sub t = sid then t\<lparr>st_queue := q\<rparr> else t) (hb_subs h)\<rparr>)))"

section \<open>Publishing a series\<close>

fun publish_all :: "(rat \<times> string \<times> json) list \<Rightarrow> hub \<Rightarrow> hub" where
  "publish_all [] h = h"
| "publish_all ((now, etype, data) # ps) h = publish_all ps (snd (publish_event now etype data h))"

definition numbered :: "nat \<Rightarrow> (rat \<times> string \<times> json) list \<Rightarrow> hub_event list" where
  "numbered n ps = map (\<lambda>(i, now, etype, data). \<lparr>ev_id = i, ev_ts = now, ev_type = etype, ev_data = data\<rparr>) (enumerate (Suc n) ps)"

lemma publish_hub [simp]:
  "hb_seq (snd (publish_event now etype data h)) = hb_seq h + 1"
  "hb_ring (snd (publish_event now etype data h)) =
     dropWhile (\<lambda>e. ev_ts e < now - SSE_RESUME_S) (hb_ring h @ [\<lparr>ev_id = hb_seq h + 1, ev_ts = now, ev_type = etype, ev_data = data\<rparr>])"
  by (simp_all add: publish_event_def Let_def split: prod.split)

lemma numbered_simps [simp]:
  "numbered n [] = []"
  "numbered n ((now, etype, data) # ps) = \<lparr>ev_id = Suc n, ev_ts = now, ev_type = etype, ev_data = data\<rparr> # numbered (Suc n) ps"
  by (simp_all add: numbered_def)

lemma numbered_snoc:
  "numbered n (ps @ [(now, etype, data)]) = numbered n ps @ [\<lparr>ev_id = Suc (n + length ps), ev_ts = now, ev_type = etype, ev_data = data\<rparr>]"
  by (simp add: numbered_def enumerate_append_eq)

lemma publish_all_snoc: "publish_all (ps @ [p]) h = publish_all [p] (publish_all ps h)"
  by (induction ps arbitrary: h) auto

lemma publish_all_seq: "hb_seq (publish_all ps h) = hb_seq h + length ps"
  by (induction ps arbitrary: h) auto

lemma numbered_ids: "e \<in> set (numbered n ps) \<Longrightarrow> n < ev_id e \<and> ev_id e \<le> n + length ps"
  by (auto simp: numbered_def in_set_enumerate_eq)

lemma numbered_ts: "map ev_ts (numbered n ps) = map fst ps"
  by (induction ps arbitrary: n) auto

lemma numbered_mem_ts: "e \<in> set (numbered n ps) \<Longrightarrow> ev_ts e \<in> fst ` set ps"
  by (metis image_eqI list.set_map numbered_ts)

lemma sorted_dropWhile_filter: "sorted (map f xs) \<Longrightarrow> dropWhile (\<lambda>e. f e < (c :: 'a :: linorder)) xs = filter (\<lambda>e. c \<le> f e) xs"
  by (induction xs) (auto simp: filter_id_conv not_less intro!: filter_True [symmetric])

text \<open>Events in the order of their times: the ring is what is not older than the window at the last publication.\<close>

lemma ring_window:
  assumes "sorted (map fst ps)" "ps \<noteq> []"
  shows "hb_ring (publish_all ps empty_hub) = filter (\<lambda>e. fst (last ps) - SSE_RESUME_S \<le> ev_ts e) (numbered 0 ps)"
  using assms
proof (induction ps rule: rev_induct)
  case (snoc p ps)
  obtain now etype data where p: "p = (now, etype, data)" by (cases p)
  let ?ev = "\<lparr>ev_id = Suc (length ps), ev_ts = now, ev_type = etype, ev_data = data\<rparr>"
  have srt: "sorted (map ev_ts (numbered 0 ps))" and le: "\<forall>x\<in>set ps. fst x \<le> now"
    using snoc.prems(1) by (auto simp: numbered_ts p sorted_append)
  have ring: "hb_ring (publish_all ps empty_hub) = filter (\<lambda>e. (if ps = [] then now else fst (last ps)) - SSE_RESUME_S \<le> ev_ts e) (numbered 0 ps)"
    using snoc.IH snoc.prems(1) by (auto simp: sorted_append empty_hub_def)
  have "sorted (map ev_ts (filter P (numbered 0 ps)))" for P using srt sorted_filter by blast
  then have "sorted (map ev_ts (hb_ring (publish_all ps empty_hub) @ [?ev]))"
    using le unfolding ring by (auto simp: sorted_append dest!: numbered_mem_ts)
  then have "hb_ring (publish_all (ps @ [p]) empty_hub) = filter (\<lambda>e. now - SSE_RESUME_S \<le> ev_ts e) (hb_ring (publish_all ps empty_hub) @ [?ev])"
    by (simp add: publish_all_snoc p publish_all_seq empty_hub_def sorted_dropWhile_filter)
  moreover have "(if ps = [] then now else fst (last ps)) \<le> now" using le by auto
  ultimately show ?case unfolding ring by (auto simp: p numbered_snoc intro!: filter_cong)
qed simp

text \<open>
  C36: A reader that reconnects with the number of the last event it saw is given every later event that is
  not more than five minutes older than the last one published, in order and once.
\<close>

theorem hub_resume:
  assumes "sorted (map fst ps)" "ps \<noteq> []"
  shows "since k (publish_all ps empty_hub) =
    filter (\<lambda>e. k < ev_id e \<and> fst (last ps) - SSE_RESUME_S \<le> ev_ts e) (numbered 0 ps)"
  using ring_window [OF assms] by (auto simp: since_def intro: filter_cong)

lemma hub_resume_witness:
  "map ev_id (since 1 (publish_all [(0, ''device'', JNull), (10, ''device'', JNull), (305, ''device'', JNull)] empty_hub)) = [2, 3]"
  using hub_resume [of "[(0, ''device'', JNull), (10, ''device'', JNull), (305, ''device'', JNull)]" 1]
  by (simp add: numbered_def SSE_RESUME_S_def)

lemma deliver_full:
  "deliver ev subs = (ok, subs') \<Longrightarrow>
     ok = list_all (\<lambda>s. length (st_queue s) < QUEUE_MAX) subs \<and>
     (\<forall>i < length subs. subs' ! i = (if list_all (\<lambda>s. length (st_queue s) < QUEUE_MAX) (take (Suc i) subs)
        then (subs ! i)\<lparr>st_queue := st_queue (subs ! i) @ [Some ev]\<rparr> else subs ! i)) \<and> length subs' = length subs"
proof (induction subs arbitrary: ok subs')
  case (Cons s ss)
  obtain ok1 ss1 where d: "deliver ev ss = (ok1, ss1)" by fastforce
  note IH = Cons.IH [OF d]
  show ?case
  proof (cases "length (st_queue s) < QUEUE_MAX")
    case True
    then show ?thesis using Cons.prems d IH by (auto simp: put_nowait_def nth_Cons' less_Suc_eq_0_disj)
  next
    case False
    then show ?thesis using Cons.prems by (auto simp: put_nowait_def)
  qed
qed simp

text \<open>
  publishing fails as soon as one stream has a full queue, although a stuck consumer was meant to be
  dropped: that stream gets no closing mark, and no stream from it on gets the event.
\<close>

theorem full_queue_raises:
  assumes "s \<in> set (hb_subs h)" "length (st_queue s) = QUEUE_MAX"
  shows "fst (publish_event now etype data h) = Inl QueueFull \<and>
    (\<exists>as bs. hb_subs h = as @ bs \<and> bs \<noteq> [] \<and> length (st_queue (hd bs)) \<ge> QUEUE_MAX
       \<and> drop (length as) (hb_subs (snd (publish_event now etype data h))) = bs)"
proof -
  let ?n = "hb_seq h + 1" and ?room = "\<lambda>s. length (st_queue s) < QUEUE_MAX"
  let ?ev = "\<lparr>ev_id = ?n, ev_ts = now, ev_type = etype, ev_data = data\<rparr>"
  let ?as = "takeWhile ?room (hb_subs h)" and ?bs = "dropWhile ?room (hb_subs h)"
  obtain ok subs where d: "deliver ?ev (hb_subs h) = (ok, subs)" by fastforce
  note f = deliver_full [OF d]
  have full: "\<exists>x\<in>set (hb_subs h). \<not> ?room x" using assms by (metis less_irrefl)
  then have ne: "?bs \<noteq> []" by (simp add: dropWhile_eq_Nil_conv)
  have bs: "?bs \<noteq> []" "\<not> ?room (hd ?bs)" by (rule ne) (rule hd_dropWhile [OF ne])
  have split: "hb_subs h = ?as @ ?bs" by simp
  have "subs ! i = hb_subs h ! i" if "length ?as \<le> i" "i < length (hb_subs h)" for i
  proof -
    have "hd ?bs = hb_subs h ! length ?as" using bs(1) by (simp add: nth_length_takeWhile hd_dropWhile dropWhile_eq_drop hd_drop_conv_nth)
    then have "hd ?bs \<in> set (take (Suc i) (hb_subs h))" using that by (auto simp: in_set_conv_nth intro!: exI [of _ "length ?as"])
    then show ?thesis using f bs(2) that by (auto simp: list_all_iff)
  qed
  then have "drop (length ?as) subs = ?bs" using f by (auto simp: dropWhile_eq_drop intro!: nth_equalityI)
  moreover have "\<not> ok" using f full by (auto simp: list_all_iff)
  ultimately have "fst (publish_event now etype data h) = Inl QueueFull"
    "drop (length ?as) (hb_subs (snd (publish_event now etype data h))) = ?bs"
    by (simp_all add: publish_event_def Let_def d del: One_nat_def add_Suc_right)
  then show ?thesis using bs split by (metis not_less)
qed

lemma full_queue_raises_witness:
  "fst (publish_event 5 ''device'' JNull \<lparr>hb_seq = 0, hb_ring = [],
     hb_subs = [\<lparr>st_sub = 1, st_key = ''p-1'', st_queue = replicate 200 None\<rparr>], hb_n = 1\<rparr>) = Inl QueueFull"
  by (rule full_queue_raises [THEN conjunct1, of "\<lparr>st_sub = 1, st_key = ''p-1'', st_queue = replicate 200 None\<rparr>"])
     (simp_all add: QUEUE_MAX_def)

end
