(* ===== verification/Gw_State.thy ===== *)
theory Gw_State
  imports Gw_Auth Gw_Hub
begin

text \<open>
  \<open>portal/gateway/gw/db.py\<close>: the tables of the gateway, its audit, and how the methods of the gateway
  compute: each statement is committed at once, so what was written before an exception stays, except
  inside \<open>tx\<close>, which takes it back.  Times are seconds since 1970; one method reads the clock once.
  Rows keep the order in which they were inserted.  Fresh random texts are arguments.
\<close>

section \<open>Tables\<close>

record person_row =
  pe_id :: string
  pe_name :: string
  pe_role :: string
  pe_parent :: bool
  pe_active :: bool
  pe_web :: bool
  pe_created :: rat

record cred_row =
  cr_person :: string
  cr_pw :: string
  cr_seed :: "string option"
  cr_step :: int
  cr_updated :: rat

record link_row =
  sl_id :: string
  sl_person :: string
  sl_hash :: string
  sl_expires :: rat
  sl_used :: bool
  sl_created :: rat

record session_row =
  ss_id :: string
  ss_person :: string
  ss_csrf :: string
  ss_created :: rat
  ss_last :: rat
  ss_abs :: rat
  ss_ip :: string
  ss_phone :: "string option"

record code_row =
  ec_id :: string
  ec_person :: string
  ec_hash :: string
  ec_expires :: rat
  ec_used :: bool
  ec_created :: rat
  ec_by :: string

record phone_row =
  ph_id :: string
  ph_person :: string
  ph_label :: string
  ph_model :: "string option"
  ph_platform :: "string option"
  ph_version :: "string option"
  ph_hash :: string
  ph_created :: rat
  ph_seen :: rat
  ph_expires :: rat
  ph_revoked :: bool
  ph_update :: "string option"

record attempt_row =
  la_ts :: rat
  la_ip :: string
  la_account :: string
  la_ok :: bool

record idem_row =
  im_scope :: string
  im_key :: string
  im_req :: string
  im_status :: nat
  im_response :: json
  im_created :: rat

record gw_audit_row =
  ga_ts :: string
  ga_person :: "string option"
  ga_phone :: "string option"
  ga_action :: string
  ga_target :: "string option"
  ga_before :: json
  ga_after :: json
  ga_ok :: bool
  ga_ip :: "string option"
  ga_prev :: string
  ga_hash :: string

record gw =
  gw_people :: "person_row list"
  gw_creds :: "cred_row list"
  gw_links :: "link_row list"
  gw_sessions :: "session_row list"
  gw_codes :: "code_row list"
  gw_phones :: "phone_row list"
  gw_attempts :: "attempt_row list"
  gw_idem :: "idem_row list"
  gw_meta :: "(string \<times> string) list"
  gw_audit :: "gw_audit_row list"
  gw_hub :: hub
  gw_bad :: "string \<Rightarrow> rat list" \<comment> \<open>the failed bearer attempts the API remembers of an address\<close>

definition empty_gw :: gw where
  "empty_gw = \<lparr>gw_people = [], gw_creds = [], gw_links = [], gw_sessions = [], gw_codes = [], gw_phones = [], gw_attempts = [],
     gw_idem = [], gw_meta = [], gw_audit = [], gw_hub = empty_hub, gw_bad = (\<lambda>ip. [])\<rparr>"

section \<open>Computations\<close>

datatype gw_err = Gw_error nat string string fields | Gw_crash py_exn

type_synonym 'a gwm = "gw \<Rightarrow> (gw_err + 'a) \<times> gw"

definition ret :: "'a \<Rightarrow> 'a gwm" where "ret x s = (Inr x, s)"

definition fail :: "gw_err \<Rightarrow> 'a gwm" where "fail e s = (Inl e, s)"

definition bindg :: "'a gwm \<Rightarrow> ('a \<Rightarrow> 'b gwm) \<Rightarrow> 'b gwm" where
  "bindg m f s = (case m s of (Inl e, t) \<Rightarrow> (Inl e, t) | (Inr x, t) \<Rightarrow> f x t)"

definition reads :: "(gw \<Rightarrow> 'a) \<Rightarrow> 'a gwm" where "reads f s = (Inr (f s), s)"

definition writes :: "(gw \<Rightarrow> gw) \<Rightarrow> unit gwm" where "writes f s = (Inr (), f s)"

definition ensure :: "bool \<Rightarrow> gw_err \<Rightarrow> unit gwm" where
  "ensure b e = (if b then ret () else fail e)"

definition lift_res :: "gw_err + 'a \<Rightarrow> 'a gwm" where
  "lift_res r s = (r, s)"

text \<open>A transaction: an exception rolls the database back.\<close>

definition tx :: "'a gwm \<Rightarrow> 'a gwm" where
  "tx m s = (case m s of (Inl e, t) \<Rightarrow> (Inl e, s) | (Inr x, t) \<Rightarrow> (Inr x, t))"

abbreviation also_do :: "unit gwm \<Rightarrow> 'a gwm \<Rightarrow> 'a gwm" where
  "also_do m n \<equiv> bindg m (\<lambda>_. n)"

lemma gwm_simps [simp]:
  "ret x s = (Inr x, s)" "fail e s = (Inl e, s)" "reads h s = (Inr (h s), s)" "writes g s = (Inr (), g s)"
  "ensure True e = ret ()" "ensure False e = fail e"
  by (simp_all add: ret_def fail_def reads_def writes_def ensure_def)

lemma bindg_simps [simp]:
  "bindg (ret x) f = f x" "bindg (fail e) f = fail e" "bindg (reads g) f s = f (g s) s" "bindg (writes k) h s = h () (k s)"
  by (auto simp: bindg_def fun_eq_iff)

lemma bindg_Inr: "bindg m f s = (Inr y, u) \<longleftrightarrow> (\<exists>x t. m s = (Inr x, t) \<and> f x t = (Inr y, u))"
  by (auto simp: bindg_def split: prod.splits sum.splits)

lemma bindg_ensure: "bindg (ensure b e) f s = (if b then f () s else (Inl e, s))"
  by simp

section \<open>What computations do to the state\<close>

text \<open>
  A computation started in a state with \<open>P\<close> leads to a state in the relation \<open>R\<close>, also when it fails.
  For a relation that is reflexive and transitive this follows step by step; a read adds what it saw to
  \<open>P\<close>, a write may use \<open>P\<close>.
\<close>

definition across :: "(gw \<Rightarrow> bool) \<Rightarrow> (gw \<Rightarrow> gw \<Rightarrow> bool) \<Rightarrow> 'a gwm \<Rightarrow> bool" where
  "across P R m \<longleftrightarrow> (\<forall>s. P s \<longrightarrow> R s (snd (m s)))"

abbreviation anywhere :: "gw \<Rightarrow> bool" where "anywhere \<equiv> \<lambda>s. True"

lemma across_weaken: "across Q R m \<Longrightarrow> (\<And>s. P s \<Longrightarrow> Q s) \<Longrightarrow> across P R m"
  by (simp add: across_def)

lemma across_anywhere: "across anywhere R m \<Longrightarrow> across P R m"
  by (simp add: across_def)

locale history =
  fixes R :: "gw \<Rightarrow> gw \<Rightarrow> bool"
  assumes same: "R s s" and chain: "R s t \<Longrightarrow> R t u \<Longrightarrow> R s u"
begin

lemma across_basic: "across P R (ret x)" "across P R (fail e)" "across P R (reads f)" "across P R (ensure b e)" "across P R (lift_res r)"
  by (simp_all add: across_def same ensure_def lift_res_def)

lemma across_bind: "across P R m \<Longrightarrow> (\<And>x. across anywhere R (f x)) \<Longrightarrow> across P R (bindg m f)"
  unfolding across_def bindg_def by (auto split: prod.splits sum.splits) (metis chain same snd_conv)+

lemma across_read: "(\<And>x. across (\<lambda>s. P s \<and> g s = x) R (f x)) \<Longrightarrow> across P R (bindg (reads g) f)"
  by (simp add: across_def)

lemma across_ensure: "(b \<Longrightarrow> across P R (f ())) \<Longrightarrow> across P R (bindg (ensure b e) f)"
  by (cases b) (simp_all add: across_def same)

lemma across_lift: "(\<And>x. r = Inr x \<Longrightarrow> across P R (f x)) \<Longrightarrow> across P R (bindg (lift_res r) f)"
  by (cases r) (simp_all add: across_def same lift_res_def bindg_def)

lemma across_write:
  "(\<And>s. P s \<Longrightarrow> R s (k s)) \<Longrightarrow> (\<And>s. P s \<Longrightarrow> Q (k s)) \<Longrightarrow> across Q R (f ()) \<Longrightarrow> across P R (bindg (writes k) f)"
  by (auto simp: across_def intro: chain)

lemma across_writes: "(\<And>s. P s \<Longrightarrow> R s (k s)) \<Longrightarrow> across P R (writes k)"
  by (simp add: across_def)

lemma across_tx: "across P R m \<Longrightarrow> across P R (tx m)"
  unfolding across_def tx_def by (auto split: prod.splits sum.splits) (metis same snd_conv)+

lemma across_If: "(b \<Longrightarrow> across P R m) \<Longrightarrow> (\<not> b \<Longrightarrow> across P R n) \<Longrightarrow> across P R (if b then m else n)"
  by simp

lemma across_option: "(opt = None \<Longrightarrow> across P R m) \<Longrightarrow> (\<And>x. opt = Some x \<Longrightarrow> across P R (f x)) \<Longrightarrow> across P R (case_option m f opt)"
  by (cases opt) simp_all

lemma across_pair: "(\<And>x y. p = (x, y) \<Longrightarrow> across P R (f x y)) \<Longrightarrow> across P R (case_prod f p)"
  by (cases p) simp_all

lemma across_json: "(\<And>x. j = JObj x \<Longrightarrow> across P R (f x)) \<Longrightarrow> across P R n \<Longrightarrow> across P R (case j of JObj x \<Rightarrow> f x | _ \<Rightarrow> n)"
  by (cases j) simp_all

lemmas across_rules = across_basic across_ensure across_lift across_read across_If across_option across_pair across_tx across_json

end

section \<open>Inserting and audit\<close>

definition insert_session :: "session_row \<Rightarrow> unit gwm" where
  "insert_session r = bindg (reads (\<lambda>s. ss_id r \<in> ss_id ` set (gw_sessions s))) (\<lambda>dup.
     also_do (ensure (\<not> dup) (Gw_crash IntegrityError)) (writes (\<lambda>s. s\<lparr>gw_sessions := gw_sessions s @ [r]\<rparr>)))"

definition insert_phone :: "phone_row \<Rightarrow> unit gwm" where
  "insert_phone r = bindg (reads (\<lambda>s. ph_id r \<in> ph_id ` set (gw_phones s) \<or> ph_hash r \<in> ph_hash ` set (gw_phones s))) (\<lambda>dup.
     also_do (ensure (\<not> dup) (Gw_crash IntegrityError)) (writes (\<lambda>s. s\<lparr>gw_phones := gw_phones s @ [r]\<rparr>)))"

definition insert_code :: "code_row \<Rightarrow> unit gwm" where
  "insert_code r = bindg (reads (\<lambda>s. ec_id r \<in> ec_id ` set (gw_codes s) \<or> ec_hash r \<in> ec_hash ` set (gw_codes s))) (\<lambda>dup.
     also_do (ensure (\<not> dup) (Gw_crash IntegrityError)) (writes (\<lambda>s. s\<lparr>gw_codes := gw_codes s @ [r]\<rparr>)))"

definition insert_link :: "link_row \<Rightarrow> unit gwm" where
  "insert_link r = bindg (reads (\<lambda>s. sl_id r \<in> sl_id ` set (gw_links s) \<or> sl_hash r \<in> sl_hash ` set (gw_links s))) (\<lambda>dup.
     also_do (ensure (\<not> dup) (Gw_crash IntegrityError)) (writes (\<lambda>s. s\<lparr>gw_links := gw_links s @ [r]\<rparr>)))"

definition add_attempt :: "rat \<Rightarrow> string \<Rightarrow> string \<Rightarrow> bool \<Rightarrow> unit gwm" where
  "add_attempt now ip account ok = writes (\<lambda>s. s\<lparr>gw_attempts :=
     gw_attempts s @ [\<lparr>la_ts = now, la_ip = ip, la_account = account, la_ok = ok\<rparr>]\<rparr>)"

definition meta_get :: "string \<Rightarrow> gw \<Rightarrow> string option" where
  "meta_get k s = map_of (gw_meta s) k"

definition meta_set :: "string \<Rightarrow> string \<Rightarrow> unit gwm" where
  "meta_set k v = writes (\<lambda>s. s\<lparr>gw_meta := (k, v) # filter (\<lambda>(k', _). k' \<noteq> k) (gw_meta s)\<rparr>)"

definition meta_delete :: "string \<Rightarrow> unit gwm" where
  "meta_delete k = writes (\<lambda>s. s\<lparr>gw_meta := filter (\<lambda>(k', _). k' \<noteq> k) (gw_meta s)\<rparr>)"

text \<open>\<open>iso\<close>: the local time with the offset of the zone, which the container sets to Prague.\<close>

definition local_text :: "rat \<Rightarrow> string" where
  "local_text ts = (let t = prague_of_instant (\<lfloor>ts\<rfloor> + unix_epoch); s = wall t mod 86400; off = utcoffset t; m = \<bar>off\<bar> div 60
     in iso_date (date_of t) @ ''T'' @ str02 (s div 3600) @ '':'' @ str02 (s mod 3600 div 60) @ '':'' @ str02 (s mod 60)
        @ (if off < 0 then ''-'' else ''+'') @ str02 (m div 60) @ str02 (m mod 60))"

definition iso_or_null :: "rat \<Rightarrow> json" where
  "iso_or_null ts = (if ts = 0 then JNull else JStr (local_text ts))"

definition gw_body :: "gw_audit_row \<Rightarrow> string" where
  "gw_body r = canon (JObj [(''ts'', JStr (ga_ts r)), (''person'', jopt JStr (ga_person r)), (''phone'', jopt JStr (ga_phone r)),
     (''action'', JStr (ga_action r)), (''target'', jopt JStr (ga_target r)), (''before'', ga_before r), (''after'', ga_after r),
     (''ok'', JBool (ga_ok r)), (''ip'', jopt JStr (ga_ip r))])"

definition gw_link :: "gw_audit_row \<Rightarrow> link" where
  "gw_link r = (gw_body r, ga_prev r, ga_hash r)"

record event_who =
  wh_person :: "string option"
  wh_phone :: "string option"
  wh_ip :: "string option"

definition gw_new_row :: "rat \<Rightarrow> string \<Rightarrow> event_who \<Rightarrow> string option \<Rightarrow> json \<Rightarrow> json \<Rightarrow> bool \<Rightarrow> gw_audit_row list \<Rightarrow> gw_audit_row" where
  "gw_new_row now action who target before after ok rows =
     (let r = \<lparr>ga_ts = local_text now, ga_person = wh_person who, ga_phone = wh_phone who, ga_action = action, ga_target = target,
        ga_before = before, ga_after = after, ga_ok = ok, ga_ip = wh_ip who,
        ga_prev = (if rows = [] then GENESIS else ga_hash (last rows)), ga_hash = []\<rparr>
      in r\<lparr>ga_hash := sha256_hex (ga_prev r @ gw_body r)\<rparr>)"

definition audit :: "rat \<Rightarrow> string \<Rightarrow> event_who \<Rightarrow> string option \<Rightarrow> json \<Rightarrow> json \<Rightarrow> bool \<Rightarrow> unit gwm" where
  "audit now action who target before after ok =
     writes (\<lambda>s. s\<lparr>gw_audit := gw_audit s @ [gw_new_row now action who target before after ok (gw_audit s)]\<rparr>)"

text \<open>The number of a row is its place, the first one being 1.\<close>

definition gw_verify :: "gw \<Rightarrow> bool \<times> nat \<times> nat option" where
  "gw_verify s = (case first_bad sha256_hex GENESIS 0 (map gw_link (gw_audit s)) of
     None \<Rightarrow> (True, length (gw_audit s), None) | Some k \<Rightarrow> (False, k, Some (k + 1)))"

definition audit_rows :: "int \<Rightarrow> int option \<Rightarrow> string option \<Rightarrow> string option \<Rightarrow> string option \<Rightarrow> string option \<Rightarrow> gw \<Rightarrow> (nat \<times> gw_audit_row) list" where
  "audit_rows limit before action person device about s =
     (let given = (\<lambda>x f. case x of None \<Rightarrow> True | Some v \<Rightarrow> v = [] \<or> f v) in
      take (nat (max 1 (min limit 500))) (filter (\<lambda>(seq, r).
          (case before of None \<Rightarrow> True | Some b \<Rightarrow> b = 0 \<or> int seq < b) \<and> given action (\<lambda>v. ga_action r = v)
          \<and> given person (\<lambda>v. ga_person r = Some v) \<and> given device (\<lambda>v. ga_target r = Some v \<or> ga_phone r = Some v)
          \<and> given about (\<lambda>v. ga_person r = Some v))
        (rev (enumerate 1 (gw_audit s)))))"

section \<open>Limits of \<open>config.py\<close>\<close>

definition MAX_PHONES_TOTAL :: nat where "MAX_PHONES_TOTAL = 20"
definition MAX_PHONES_PER_PERSON :: nat where "MAX_PHONES_PER_PERSON = 5"
definition ENROL_TTL_S :: rat where "ENROL_TTL_S = 600"
definition SETUP_TTL_S :: rat where "SETUP_TTL_S = 3600"
definition PHONE_SLIDING_S :: rat where "PHONE_SLIDING_S = 7776000"
definition SESSION_IDLE_S :: rat where "SESSION_IDLE_S = 43200"
definition SESSION_ABS_S :: rat where "SESSION_ABS_S = 604800"
definition IDEM_TTL_S :: rat where "IDEM_TTL_S = 86400"

section \<open>The chain\<close>

definition gw_chain :: "gw \<Rightarrow> bool" where
  "gw_chain s \<longleftrightarrow> chain_ok sha256_hex GENESIS (map gw_link (gw_audit s))"

lemma gw_body_hash [simp]: "gw_body (r\<lparr>ga_hash := h\<rparr>) = gw_body r"
  by (simp add: gw_body_def)

lemma gw_chain_audit: "gw_chain s \<Longrightarrow> gw_chain (s\<lparr>gw_audit := gw_audit s @ [gw_new_row now action who target before after ok (gw_audit s)]\<rparr>)"
  by (auto simp: gw_chain_def chain_ok_append gw_link_def gw_new_row_def Let_def head_hash_def last_map gw_body_def)

lemma gw_verify_ok: "fst (gw_verify s) \<longleftrightarrow> gw_chain s"
  using first_bad_None [of sha256_hex GENESIS 0 "map gw_link (gw_audit s)"]
  by (auto simp: gw_verify_def gw_chain_def split: option.splits)

end
