(* ===== verification/Gw_People.thy ===== *)
theory Gw_People
  imports Gw_State
begin

text \<open>
  \<open>portal/gateway/gw/people.py\<close>, the methods of \<open>People\<close> in the order of the code.  \<open>now\<close> is the clock;
  texts that the code draws at random (tokens, keys, salts) are arguments.
\<close>

definition ROLES :: "string list" where "ROLES = [''admin'', ''household'', ''readonly'']"
definition GW_FAIL_WINDOW :: rat where "GW_FAIL_WINDOW = 900"
definition ACCOUNT_FREE_FAILS :: nat where "ACCOUNT_FREE_FAILS = 3"
definition IP_FAIL_LIMIT :: nat where "IP_FAIL_LIMIT = 20"
definition ENROL_FAIL_LIMIT :: nat where "ENROL_FAIL_LIMIT = 10"

text \<open>The caller of a method: the principal of a request, or the command line tool.\<close>

record principal =
  pr_person :: string
  pr_name :: string
  pr_role :: string
  pr_parent :: bool
  pr_phone :: "string option"
  pr_app :: bool
  pr_via :: string
  pr_csrf :: string
  pr_sid :: "string option"
  pr_ip :: "string option"

definition who_of :: "principal \<Rightarrow> event_who" where
  "who_of a = \<lparr>wh_person = Some (pr_person a), wh_phone = pr_phone a, wh_ip = pr_ip a\<rparr>"

definition who_is :: "string option \<Rightarrow> string \<Rightarrow> event_who" where
  "who_is person ip = \<lparr>wh_person = person, wh_phone = None, wh_ip = Some ip\<rparr>"

definition not_found :: "string \<Rightarrow> string \<Rightarrow> gw_err" where
  "not_found message ident = Gw_error 404 ''not_found'' message [(''id'', JStr ident)]"

definition NAME_RE :: "string \<Rightarrow> bool" where
  "NAME_RE = dollar (\<lambda>s. 1 \<le> length s \<and> length s \<le> 60 \<and> list_all (\<lambda>c. 32 \<le> (of_char c :: nat) \<and> c \<noteq> CHR ''<'' \<and> c \<noteq> CHR ''>'') s)"

text \<open>\<open>slug\<close>; its table of Cyrillic letters is outside the characters modelled.\<close>

definition person_slug :: "string \<Rightarrow> string" where
  "person_slug name = (let s = join_with ''-'' (filter (\<lambda>w. w \<noteq> []) (split_on (CHR ''-'')
       (map (\<lambda>c. if is_lower c \<or> is_digit c then c else CHR ''-'') (py_lower name))))
     in take 30 (if s = [] then ''person'' else s))"

section \<open>People\<close>

record person_view =
  pv_id :: string
  pv_name :: string
  pv_role :: string
  pv_parent :: bool
  pv_active :: bool
  pv_web :: bool
  pv_has_creds :: bool
  pv_phones :: nat

definition live_phone :: "rat \<Rightarrow> phone_row \<Rightarrow> bool" where
  "live_phone now r \<longleftrightarrow> \<not> ph_revoked r \<and> now < ph_expires r"

text \<open>\<open>_active_phones\<close>.\<close>

definition active_phones :: "rat \<Rightarrow> string option \<Rightarrow> gw \<Rightarrow> nat" where
  "active_phones now pid s = length (filter (\<lambda>r. (case pid of None \<Rightarrow> True | Some p \<Rightarrow> ph_person r = p) \<and> live_phone now r) (gw_phones s))"

definition person_by :: "string \<Rightarrow> gw \<Rightarrow> person_row option" where
  "person_by pid s = find (\<lambda>r. pe_id r = pid) (gw_people s)"

definition cred_by :: "string \<Rightarrow> gw \<Rightarrow> cred_row option" where
  "cred_by pid s = find (\<lambda>r. cr_person r = pid) (gw_creds s)"

definition phone_by :: "string \<Rightarrow> gw \<Rightarrow> phone_row option" where
  "phone_by i s = find (\<lambda>r. ph_id r = i) (gw_phones s)"

definition session_by :: "string \<Rightarrow> gw \<Rightarrow> session_row option" where
  "session_by sid s = find (\<lambda>r. ss_id r = sid) (gw_sessions s)"

definition person_view_of :: "rat \<Rightarrow> person_row \<Rightarrow> gw \<Rightarrow> person_view" where \<comment> \<open>\<open>_row\<close>\<close>
  "person_view_of now r s =
     \<lparr>pv_id = pe_id r, pv_name = pe_name r, pv_role = pe_role r, pv_parent = pe_parent r, pv_active = pe_active r, pv_web = pe_web r,
      pv_has_creds = (case cred_by (pe_id r) s of None \<Rightarrow> False
        | Some c \<Rightarrow> cr_pw c \<noteq> [] \<and> (case cr_seed c of None \<Rightarrow> False | Some sd \<Rightarrow> sd \<noteq> [])),
      pv_phones = active_phones now (Some (pe_id r)) s\<rparr>"

definition people_list :: "rat \<Rightarrow> gw \<Rightarrow> person_view list" where
  "people_list now s = map (\<lambda>r. person_view_of now r s) (sort_key (\<lambda>r. (pe_created r, pe_id r)) (gw_people s))"

definition person_get :: "rat \<Rightarrow> string \<Rightarrow> person_view gwm" where
  "person_get now pid = bindg (reads (person_by pid)) (\<lambda>r. case r of
     None \<Rightarrow> fail (not_found ''no such person'' pid)
   | Some r \<Rightarrow> reads (person_view_of now r))"

definition invalid_name :: gw_err where
  "invalid_name = Gw_error 422 ''invalid_name'' ''the name must be 1-60 printable characters'' []"

definition name_of :: "json \<Rightarrow> gw_err + string" where
  "name_of j = (case j of JStr s \<Rightarrow> if NAME_RE (py_strip s) then Inr s else Inl invalid_name | _ \<Rightarrow> Inl invalid_name)"

definition insert_person :: "person_row \<Rightarrow> unit gwm" where
  "insert_person r = writes (\<lambda>s. s\<lparr>gw_people := gw_people s @ [r]\<rparr>)"

definition person_create :: "rat \<Rightarrow> principal \<Rightarrow> json \<Rightarrow> json \<Rightarrow> bool \<Rightarrow> bool option \<Rightarrow> person_view gwm" where
  "person_create now a name role parent web_login =
     bindg (lift_res (name_of name)) (\<lambda>name.
     also_do (ensure (role \<in> JStr ` set ROLES) (Gw_error 422 ''invalid_role'' ''role must be admin, household or readonly''
         [(''allowed'', JList (map JStr ROLES))]))
     (let pid = person_slug name; role = (case role of JStr r \<Rightarrow> r | _ \<Rightarrow> []);
          web = (case web_login of None \<Rightarrow> role = ''admin'' | Some w \<Rightarrow> w) in
      also_do (tx (bindg (reads (person_by pid)) (\<lambda>r.
        also_do (ensure (r = None) (Gw_error 409 ''person_exists'' ''a person with this id exists'' [(''id'', JStr pid)]))
          (insert_person \<lparr>pe_id = pid, pe_name = py_strip name, pe_role = role, pe_parent = parent, pe_active = True,
             pe_web = web, pe_created = now\<rparr>))))
      (also_do (audit now ''person_create'' (who_of a) (Some pid) JNull (JObj [(''role'', JStr role), (''parent'', JBool parent)]) True)
        (person_get now pid))))"

definition patch_fields :: "string list" where
  "patch_fields = [''name'', ''role'', ''parent'', ''active'', ''web_login_enabled'']"

definition invalid_value :: "string \<Rightarrow> gw_err" where
  "invalid_value k = Gw_error 422 ''invalid_value'' (k @ '' must be true or false'') []"

definition bool_field :: "fields \<Rightarrow> string \<Rightarrow> bool \<Rightarrow> gw_err + bool" where
  "bool_field f k old = (case map_of f k of None \<Rightarrow> Inr old | Some (JBool b) \<Rightarrow> Inr b | Some _ \<Rightarrow> Inl (invalid_value k))"

text \<open>The view with the changes of \<open>fields\<close>, or the first thing wrong with them.\<close>

definition person_patched :: "person_view \<Rightarrow> fields \<Rightarrow> gw_err + person_view" where
  "person_patched cur f =
     (let unknown = filter (\<lambda>k. k \<notin> set patch_fields) (jkeys f) in
      if unknown \<noteq> [] then Inl (Gw_error 422 ''unknown_field'' ''unknown field(s)'' [(''fields'', JList (map JStr (sorted_set unknown)))])
      else
        bind_res (case map_of f ''name'' of None \<Rightarrow> Inr (pv_name cur) | Some j \<Rightarrow> map_sum id py_strip (name_of j)) (\<lambda>name.
        bind_res (case map_of f ''role'' of None \<Rightarrow> Inr (pv_role cur)
            | Some j \<Rightarrow> if j \<in> JStr ` set ROLES then Inr (case j of JStr r \<Rightarrow> r | _ \<Rightarrow> [])
                else Inl (Gw_error 422 ''invalid_role'' ''role must be admin, household or readonly'' [])) (\<lambda>role.
        bind_res (bool_field f ''parent'' (pv_parent cur)) (\<lambda>parent.
        bind_res (bool_field f ''active'' (pv_active cur)) (\<lambda>active.
        bind_res (bool_field f ''web_login_enabled'' (pv_web cur)) (\<lambda>web.
          Inr (cur\<lparr>pv_name := name, pv_role := role, pv_parent := parent, pv_active := active, pv_web := web\<rparr>)))))))"

definition other_admins :: "string \<Rightarrow> gw \<Rightarrow> person_row list" where
  "other_admins pid s = filter (\<lambda>r. pe_role r = ''admin'' \<and> pe_active r \<and> pe_id r \<noteq> pid) (gw_people s)"

definition update_person :: "string \<Rightarrow> person_view \<Rightarrow> gw \<Rightarrow> gw" where
  "update_person pid new s = s\<lparr>gw_people := map (\<lambda>r. if pe_id r = pid then r\<lparr>pe_name := pv_name new, pe_role := pv_role new,
     pe_parent := pv_parent new, pe_active := pv_active new, pe_web := pv_web new\<rparr> else r) (gw_people s)\<rparr>"

definition drop_sessions :: "(session_row \<Rightarrow> bool) \<Rightarrow> gw \<Rightarrow> gw" where
  "drop_sessions p s = s\<lparr>gw_sessions := filter (\<lambda>r. \<not> p r) (gw_sessions s)\<rparr>"

definition revoke_where :: "(phone_row \<Rightarrow> bool) \<Rightarrow> gw \<Rightarrow> gw" where
  "revoke_where p s = s\<lparr>gw_phones := map (\<lambda>r. if p r then r\<lparr>ph_revoked := True\<rparr> else r) (gw_phones s)\<rparr>"

definition kick_all :: "string list \<Rightarrow> gw \<Rightarrow> gw" where
  "kick_all ids s = s\<lparr>gw_hub := fold kick ids (gw_hub s)\<rparr>"

definition flags_of :: "person_view \<Rightarrow> json" where
  "flags_of v = JObj [(''role'', JStr (pv_role v)), (''parent'', JBool (pv_parent v)), (''active'', JBool (pv_active v)),
     (''web_login_enabled'', JBool (pv_web v))]"

definition person_patch :: "rat \<Rightarrow> principal \<Rightarrow> string \<Rightarrow> fields \<Rightarrow> person_view gwm" where
  "person_patch now a pid f =
     bindg (person_get now pid) (\<lambda>cur.
     bindg (lift_res (person_patched cur f)) (\<lambda>new.
     bindg (reads (other_admins pid)) (\<lambda>others.
     also_do (ensure (\<not> (pv_role cur = ''admin'' \<and> pv_active cur \<and> (pv_role new \<noteq> ''admin'' \<or> \<not> pv_active new) \<and> others = []))
         (Gw_error 409 ''last_admin'' ''this is the last active admin'' []))
     (also_do (tx (also_do (writes (update_person pid new))
        (also_do (writes (\<lambda>s. if \<not> pv_active new then drop_sessions (\<lambda>r. ss_person r = pid) s
             else if \<not> pv_web new then drop_sessions (\<lambda>r. ss_person r = pid \<and> ss_phone r = None) s else s))
          (writes (\<lambda>s. if pv_active new then s
             else let mine = (\<lambda>r. ph_person r = pid \<and> \<not> ph_revoked r)
               in kick_all (map ph_id (filter mine (gw_phones s))) (revoke_where mine s))))))
     (also_do (audit now ''person_patch'' (who_of a) (Some pid) (flags_of cur) (flags_of new) True)
       (person_get now pid))))))"

section \<open>Setup links\<close>

definition create_setup_link :: "rat \<Rightarrow> string \<Rightarrow> string \<Rightarrow> principal \<Rightarrow> string \<Rightarrow> (string \<times> rat) gwm" where
  "create_setup_link now raw link_id a pid =
     bindg (person_get now pid) (\<lambda>p.
     also_do (ensure (pv_active p) (Gw_error 409 ''person_inactive'' ''the person is not active'' []))
     (also_do (ensure (pv_web p) (Gw_error 409 ''web_login_disabled'' ''web login is not enabled for this person'' []))
     (also_do (tx (also_do (writes (\<lambda>s. s\<lparr>gw_links := map (\<lambda>r. if sl_person r = pid \<and> \<not> sl_used r then r\<lparr>sl_used := True\<rparr> else r) (gw_links s)\<rparr>))
        (insert_link \<lparr>sl_id = CHR ''s'' # link_id, sl_person = pid, sl_hash = sha256_hex raw, sl_expires = now + SETUP_TTL_S,
           sl_used = False, sl_created = now\<rparr>)))
     (also_do (audit now ''setup_link_create'' (who_of a) (Some pid) JNull JNull True)
       (ret (raw, now + SETUP_TTL_S))))))"

definition setup_link :: "rat \<Rightarrow> string \<Rightarrow> link_row gwm" where \<comment> \<open>\<open>_link\<close>\<close>
  "setup_link now raw = bindg (reads (\<lambda>s. find (\<lambda>r. sl_hash r = sha256_hex raw) (gw_links s))) (\<lambda>r. case r of
     Some r \<Rightarrow> if sl_used r \<or> sl_expires r < now then fail (Gw_error 410 ''setup_link_invalid'' ''this link is used up or expired'' []) else ret r
   | None \<Rightarrow> fail (Gw_error 410 ''setup_link_invalid'' ''this link is used up or expired'' []))"

definition seed_key :: "link_row \<Rightarrow> string" where
  "seed_key r = ''setupseed:'' @ sl_id r"

definition setup_begin :: "rat \<Rightarrow> string \<Rightarrow> string \<Rightarrow> (person_view \<times> string) gwm" where
  "setup_begin now fresh raw =
     bindg (setup_link now raw) (\<lambda>r.
     bindg (reads (meta_get (seed_key r))) (\<lambda>sd.
     bindg (case sd of Some sd \<Rightarrow> if sd = [] then also_do (meta_set (seed_key r) fresh) (ret fresh) else ret sd
         | None \<Rightarrow> also_do (meta_set (seed_key r) fresh) (ret fresh)) (\<lambda>sd.
     bindg (person_get now (sl_person r)) (\<lambda>p. ret (p, sd)))))"

definition set_cred :: "cred_row \<Rightarrow> gw \<Rightarrow> gw" where
  "set_cred c s = s\<lparr>gw_creds := (if cred_by (cr_person c) s = None then gw_creds s @ [c]
     else map (\<lambda>r. if cr_person r = cr_person c then c else r) (gw_creds s))\<rparr>"

definition setup_complete :: "kdf \<Rightarrow> int list \<Rightarrow> rat \<Rightarrow> string \<Rightarrow> string \<Rightarrow> string \<Rightarrow> string \<Rightarrow> unit gwm" where
  "setup_complete scrypt salt now raw password code ip =
     bindg (setup_link now raw) (\<lambda>r.
     also_do (case password_problem (JStr password) of None \<Rightarrow> ret () | Some m \<Rightarrow> fail (Gw_error 422 ''weak_password'' m []))
     (bindg (reads (meta_get (seed_key r))) (\<lambda>sd.
     bindg (case sd of None \<Rightarrow> fail (Gw_error 409 ''setup_not_started'' ''open the setup page first'' [])
         | Some sd \<Rightarrow> if sd = [] then fail (Gw_error 409 ''setup_not_started'' ''open the setup page first'' []) else ret sd) (\<lambda>sd.
     bindg (reads (person_by (sl_person r))) (\<lambda>p.
     bindg (case p of None \<Rightarrow> fail (Gw_crash TypeError) | Some p \<Rightarrow>
         if pe_role p \<noteq> ''admin'' \<and> py_strip code = [] then ret (None, 0)
         else bindg (lift_res (map_sum Gw_crash id (verify_totp sd (py_strip code) 0 now))) (\<lambda>step. case step of
             Some step \<Rightarrow> ret (Some sd, step)
           | None \<Rightarrow> also_do (audit now ''setup_failed'' (who_is (Some (sl_person r)) ip) None JNull JNull False)
               (fail (Gw_error 422 ''bad_totp'' ''the code from the authenticator app does not match'' [])))) (\<lambda>(sd, step).
     also_do (tx (bindg (case hash_password scrypt salt password of None \<Rightarrow> fail (Gw_crash ValueError) | Some h \<Rightarrow> ret h) (\<lambda>h.
        also_do (writes (set_cred \<lparr>cr_person = sl_person r, cr_pw = h, cr_seed = sd, cr_step = step, cr_updated = now\<rparr>))
        (also_do (writes (\<lambda>s. s\<lparr>gw_links := map (\<lambda>l. if sl_id l = sl_id r then l\<lparr>sl_used := True\<rparr> else l) (gw_links s)\<rparr>))
        (also_do (meta_delete (seed_key r))
          (writes (drop_sessions (\<lambda>x. ss_person x = sl_person r))))))))
       (audit now ''setup_complete'' (who_is (Some (sl_person r)) ip) (Some (sl_person r)) JNull JNull True)))))))"

definition reset_credentials :: "rat \<Rightarrow> principal \<Rightarrow> string \<Rightarrow> unit gwm" where
  "reset_credentials now a pid =
     bindg (person_get now pid) (\<lambda>_.
     also_do (tx (also_do (writes (\<lambda>s. s\<lparr>gw_creds := filter (\<lambda>r. cr_person r \<noteq> pid) (gw_creds s)\<rparr>))
        (writes (drop_sessions (\<lambda>r. ss_person r = pid)))))
       (audit now ''credentials_reset'' \<lparr>wh_person = Some (pr_person a), wh_phone = None, wh_ip = pr_ip a\<rparr> (Some pid) JNull JNull True))"

end
