(* ===== verification/Gw_Login.thy ===== *)
theory Gw_Login
  imports Gw_People
begin

text \<open>
  \<open>portal/gateway/gw/people.py\<close>, continued: the check of a sign-in with its delays, web sessions, device
  tokens and update keys of the phones, enrolment.
\<close>

section \<open>The check of a sign-in\<close>

text \<open>\<open>_fails\<close>: the times of the failures of an account or of an address, oldest first.\<close>

definition fails_where :: "rat \<Rightarrow> (attempt_row \<Rightarrow> bool) \<Rightarrow> gw \<Rightarrow> rat list" where
  "fails_where now p s = sort (map la_ts (filter (\<lambda>r. \<not> la_ok r \<and> p r \<and> now - GW_FAIL_WINDOW < la_ts r) (gw_attempts s)))"

definition too_many :: "string \<Rightarrow> string \<Rightarrow> rat \<Rightarrow> gw_err" where
  "too_many code message wait = Gw_error 429 code message [(''retry_after_s'', JInt (\<lfloor>wait\<rfloor> + 1))]"

definition throttle :: "rat \<Rightarrow> string \<Rightarrow> string \<Rightarrow> unit gwm" where
  "throttle now account ip =
     bindg (reads (fails_where now (\<lambda>r. la_ip r = ip))) (\<lambda>f.
     also_do (ensure (length f < IP_FAIL_LIMIT) (too_many ''too_many_attempts'' ''too many failed attempts from this address'' (hd f + GW_FAIL_WINDOW - now)))
     (bindg (reads (fails_where now (\<lambda>r. la_account r = account))) (\<lambda>fa.
       if ACCOUNT_FREE_FAILS < length fa then
         let ready = last fa + of_nat (min (2 ^ (length fa - ACCOUNT_FREE_FAILS)) 900)
         in ensure (ready \<le> now) (too_many ''account_delay'' ''wait before trying this account again'' (ready - now))
       else ret ())))"

text \<open>SQLite's \<open>lower\<close> folds only ASCII letters.\<close>

definition sql_lower :: "string \<Rightarrow> string" where
  "sql_lower s = map (\<lambda>c. if is_upper c then char_of ((of_char c :: nat) + 32) else c) s"

definition account_of :: "string \<Rightarrow> string" where
  "account_of username = take 60 (py_lower (py_strip username))"

definition bad_login :: gw_err where
  "bad_login = Gw_error 401 ''invalid_credentials'' ''invalid username, password or code'' []"

text \<open>\<open>(totp or "").strip()\<close>: a text has it, another JSON value that counts as true has not.\<close>

definition totp_text :: "json \<Rightarrow> py_exn + string" where
  "totp_text j = (if truthy j then (case j of JStr t \<Rightarrow> Inr (py_strip t) | _ \<Rightarrow> Inl AttributeError) else Inr [])"

text \<open>The password and the code of a person: the exception of \<open>verify_totp\<close>, no, or yes with the step used.\<close>

definition check_secret :: "kdf \<Rightarrow> rat \<Rightarrow> person_row \<Rightarrow> cred_row option \<Rightarrow> string \<Rightarrow> json \<Rightarrow> py_exn + int option option" where
  "check_secret scrypt now r cred password totp =
     (case cred of None \<Rightarrow> Inr None | Some c \<Rightarrow>
        if cr_pw c = [] \<or> \<not> verify_password scrypt password (cr_pw c) then Inr None
        else let sd = (case cr_seed c of None \<Rightarrow> [] | Some sd \<Rightarrow> sd) in
          if pe_role r = ''admin'' \<or> sd \<noteq> [] then
            (if sd = [] then Inr None
             else bind_res (totp_text totp) (\<lambda>code. map_sum id (map_option Some) (verify_totp sd code (cr_step c) now)))
          else Inr (Some None))"

definition check_login :: "kdf \<Rightarrow> rat \<Rightarrow> string \<Rightarrow> string \<Rightarrow> json \<Rightarrow> string \<Rightarrow> (person_row \<times> int option) gwm" where \<comment> \<open>\<open>_check_login\<close>\<close>
  "check_login scrypt now username password totp ip =
     (let account = account_of username in
      also_do (throttle now account ip)
     (bindg (reads (\<lambda>s. find (\<lambda>r. pe_id r = account \<or> sql_lower (pe_name r) = account) (gw_people s))) (\<lambda>r.
      bindg (reads (\<lambda>s. case r of None \<Rightarrow> None | Some r \<Rightarrow> cred_by (pe_id r) s)) (\<lambda>cred.
      bindg (case r of None \<Rightarrow> ret None | Some r \<Rightarrow> lift_res (map_sum Gw_crash id (check_secret scrypt now r cred password totp))) (\<lambda>res.
      let ok = (case r of None \<Rightarrow> False | Some r \<Rightarrow> res \<noteq> None \<and> pe_active r \<and> pe_web r) in
      also_do (add_attempt now ip account ok)
      (case r of
         Some p \<Rightarrow> if ok then
             (case res of Some (Some step) \<Rightarrow>
                also_do (writes (\<lambda>s. if step = 0 then s else s\<lparr>gw_creds := map (\<lambda>c. if cr_person c = pe_id p then c\<lparr>cr_step := step\<rparr> else c) (gw_creds s)\<rparr>))
                  (ret (p, Some step))
              | _ \<Rightarrow> ret (p, None))
           else also_do (audit now ''login_failed'' (who_is (Some (pe_id p)) ip) (Some account) JNull JNull False) (fail bad_login)
       | None \<Rightarrow> also_do (audit now ''login_failed'' (who_is None ip) (Some account) JNull JNull False) (fail bad_login)))))))"

section \<open>Sessions\<close>

definition person_json :: "person_row \<Rightarrow> json" where
  "person_json p = JObj [(''id'', JStr (pe_id p)), (''name'', JStr (pe_name p)), (''role'', JStr (pe_role p)), (''parent'', JBool (pe_parent p))]"

definition session_view :: "string \<Rightarrow> json gwm" where
  "session_view sid = bindg (reads (session_by sid)) (\<lambda>x. case x of None \<Rightarrow> fail (Gw_crash TypeError) | Some x \<Rightarrow>
     bindg (reads (person_by (ss_person x))) (\<lambda>p. case p of None \<Rightarrow> fail (Gw_crash TypeError) | Some p \<Rightarrow>
       ret (JObj [(''person'', person_json p), (''csrf'', JStr (ss_csrf x)), (''expires_at'', iso_or_null (ss_abs x)),
         (''idle_expires_at'', iso_or_null (min (ss_abs x) (ss_last x + SESSION_IDLE_S))), (''app'', JBool (ss_phone x \<noteq> None))])))"

definition login :: "kdf \<Rightarrow> rat \<Rightarrow> string \<Rightarrow> string \<Rightarrow> string \<Rightarrow> string \<Rightarrow> json \<Rightarrow> string \<Rightarrow> (string \<times> json) gwm" where
  "login scrypt now raw csrf username password totp ip =
     bindg (check_login scrypt now username password totp ip) (\<lambda>(r, step).
     also_do (insert_session \<lparr>ss_id = sha256_hex raw, ss_person = pe_id r, ss_csrf = csrf, ss_created = now, ss_last = now,
        ss_abs = now + SESSION_ABS_S, ss_ip = ip, ss_phone = None\<rparr>)
     (also_do (audit now ''login'' (who_is (Some (pe_id r)) ip) None JNull JNull True)
     (bindg (session_view (sha256_hex raw)) (\<lambda>v. ret (raw, v)))))"

text \<open>\<open>"p-" + auth.token(5).lower().replace("_", "x").replace("-", "y")[:8]\<close>.\<close>

definition phone_id_of :: "string \<Rightarrow> string" where
  "phone_id_of tok = ''p-'' @ take 8 (map (\<lambda>c. if c = CHR ''_'' then CHR ''x'' else if c = CHR ''-'' then CHR ''y'' else c) (py_lower tok))"

definition text_or_none :: "nat \<Rightarrow> json \<Rightarrow> string option" where \<comment> \<open>\<open>str(v or "")[:n] or None\<close>\<close>
  "text_or_none n v = (let t = (if truthy v then take n (py_str v) else []) in if t = [] then None else Some t)"

definition label_of :: "string \<Rightarrow> json \<Rightarrow> gw_err + string" where
  "label_of field j = (let e = Gw_error 400 ''invalid_device'' (''device.'' @ field @ '' (1-60 characters) is required'') [] in
     case j of JStr s \<Rightarrow> if 1 \<le> length (py_strip s) \<and> length (py_strip s) \<le> 60 then Inr (py_strip s) else Inl e | _ \<Rightarrow> Inl e)"

definition device_limit :: "string \<Rightarrow> gw_err" where
  "device_limit message = Gw_error 409 ''device_limit'' message
     [(''per_person'', JInt (int MAX_PHONES_PER_PERSON)), (''total'', JInt (int MAX_PHONES_TOTAL))]"

definition phones_full :: "rat \<Rightarrow> string \<Rightarrow> gw \<Rightarrow> bool" where
  "phones_full now pid s \<longleftrightarrow> MAX_PHONES_PER_PERSON \<le> active_phones now (Some pid) s \<or> MAX_PHONES_TOTAL \<le> active_phones now None s"

definition UKEY_PREFIX :: string where "UKEY_PREFIX = ''ukey_''"

definition new_update_key :: "string \<Rightarrow> string \<Rightarrow> string gwm" where \<comment> \<open>\<open>_new_update_key\<close>\<close>
  "new_update_key tok i = (let raw = UKEY_PREFIX @ tok in
     also_do (writes (\<lambda>s. s\<lparr>gw_phones := map (\<lambda>r. if ph_id r = i then r\<lparr>ph_update := Some (sha256_hex raw)\<rparr> else r) (gw_phones s)\<rparr>)) (ret raw))"

definition token_json_of :: "string \<Rightarrow> string \<Rightarrow> string option \<Rightarrow> person_row \<Rightarrow> rat \<Rightarrow> json" where
  "token_json_of i raw ukey p expires = JObj ([(''phone_id'', JStr i), (''token'', JStr raw)]
     @ (case ukey of None \<Rightarrow> [] | Some k \<Rightarrow> [(''update_key'', JStr k)])
     @ [(''person'', person_json p), (''expires_at'', iso_or_null expires)])"

definition new_phone :: "rat \<Rightarrow> string \<Rightarrow> string \<Rightarrow> string \<Rightarrow> string \<Rightarrow> string option \<Rightarrow> fields \<Rightarrow> phone_row" where
  "new_phone now i raw pid label platform dev =
     \<lparr>ph_id = i, ph_person = pid, ph_label = label, ph_model = text_or_none 60 (jget dev ''model''), ph_platform = platform,
      ph_version = text_or_none 30 (jget dev ''app_version''), ph_hash = sha256_hex raw, ph_created = now, ph_seen = now,
      ph_expires = now + PHONE_SLIDING_S, ph_revoked = False, ph_update = None\<rparr>"

definition app_login :: "kdf \<Rightarrow> rat \<Rightarrow> string \<Rightarrow> string \<Rightarrow> string \<Rightarrow> string \<Rightarrow> string \<Rightarrow> json \<Rightarrow> fields \<Rightarrow> string \<Rightarrow> json gwm" where
  "app_login scrypt now raw tok ukey username password totp dev ip =
     bindg (lift_res (label_of ''name'' (jget dev ''name''))) (\<lambda>label.
     bindg (check_login scrypt now username password totp ip) (\<lambda>(r, step).
     bindg (reads (phones_full now (pe_id r))) (\<lambda>full.
     also_do (if full then also_do (audit now ''app_login_refused'' (who_is (Some (pe_id r)) ip) None JNull (JObj [(''reason'', JStr ''device_limit'')]) False)
           (fail (device_limit ''the device limit is reached: an admin must revoke a phone first'')) else ret ())
     (let i = phone_id_of tok in
      also_do (insert_phone (new_phone now i raw (pe_id r) label (Some ''android'') dev))
     (bindg (new_update_key ukey i) (\<lambda>key.
      also_do (audit now ''app_login'' \<lparr>wh_person = Some (pe_id r), wh_phone = Some i, wh_ip = Some ip\<rparr> (Some label) JNull JNull True)
        (ret (token_json_of i raw (Some key) r (now + PHONE_SLIDING_S)))))))))"

definition mint_update_key :: "rat \<Rightarrow> string \<Rightarrow> principal \<Rightarrow> string gwm" where
  "mint_update_key now tok a = (case pr_phone a of None \<Rightarrow> fail (Gw_crash KeyError) | Some i \<Rightarrow>
     bindg (new_update_key tok i) (\<lambda>key. also_do (audit now ''update_key_issued'' (who_of a) None JNull JNull True) (ret key)))"

definition update_key_principal :: "rat \<Rightarrow> string \<Rightarrow> gw \<Rightarrow> (string \<times> string) option" where \<comment> \<open>person and phone\<close>
  "update_key_principal now raw s =
     (if raw = [] \<or> \<not> starts_with UKEY_PREFIX raw then None
      else case find (\<lambda>r. ph_update r = Some (sha256_hex raw)) (gw_phones s) of None \<Rightarrow> None
        | Some r \<Rightarrow> if ph_revoked r \<or> ph_expires r < now then None
            else case person_by (ph_person r) s of None \<Rightarrow> None
              | Some p \<Rightarrow> if pe_active p then Some (pe_id p, ph_id r) else None)"

definition close_phone :: "string \<Rightarrow> gw \<Rightarrow> gw" where
  "close_phone i s = kick_all [i] (drop_sessions (\<lambda>r. ss_phone r = Some i) (revoke_where (\<lambda>r. ph_id r = i) s))"

definition app_logout :: "rat \<Rightarrow> principal \<Rightarrow> unit gwm" where
  "app_logout now a = (case pr_phone a of None \<Rightarrow> fail (Gw_crash KeyError) | Some i \<Rightarrow>
     also_do (writes (close_phone i)) (audit now ''app_logout'' (who_of a) None JNull JNull True))"

definition failed_login_stats :: "rat \<Rightarrow> rat \<Rightarrow> gw \<Rightarrow> nat \<times> nat" where
  "failed_login_stats now seconds s =
     (let rows = filter (\<lambda>r. \<not> la_ok r \<and> la_account r \<noteq> ''enrol'' \<and> now - seconds < la_ts r) (gw_attempts s)
      in (length rows, length (remdups (map la_ip rows))))"

definition recent_new_phones :: "rat \<Rightarrow> rat \<Rightarrow> gw \<Rightarrow> json list" where
  "recent_new_phones now hours s = map (\<lambda>r. JObj [(''id'', JStr (ph_id r)),
       (''person'', JStr (case person_by (ph_person r) s of None \<Rightarrow> [] | Some p \<Rightarrow> pe_name p)), (''device'', JStr (ph_label r)),
       (''model'', jopt JStr (ph_model r)), (''created_at'', iso_or_null (ph_created r))])
     (sort_key ph_created (filter (\<lambda>r. now - hours * 3600 < ph_created r \<and> live_phone now r \<and> person_by (ph_person r) s \<noteq> None) (gw_phones s)))"

definition create_app_session :: "rat \<Rightarrow> string \<Rightarrow> string \<Rightarrow> principal \<Rightarrow> string \<Rightarrow> (string \<times> json) gwm" where
  "create_app_session now raw csrf a ip = (case pr_phone a of None \<Rightarrow> fail (Gw_crash TypeError) | Some i \<Rightarrow>
     bindg (reads (phone_by i)) (\<lambda>r. case r of None \<Rightarrow> fail (Gw_crash TypeError) | Some r \<Rightarrow>
     also_do (writes (drop_sessions (\<lambda>x. ss_phone x = Some (ph_id r) \<and> (ss_abs x < now \<or> ss_last x < now - SESSION_IDLE_S))))
     (also_do (insert_session \<lparr>ss_id = sha256_hex raw, ss_person = pr_person a, ss_csrf = csrf, ss_created = now, ss_last = now,
        ss_abs = min (now + SESSION_ABS_S) (ph_expires r), ss_ip = ip, ss_phone = Some (ph_id r)\<rparr>)
     (also_do (audit now ''app_session'' \<lparr>wh_person = Some (pr_person a), wh_phone = Some (ph_id r), wh_ip = Some ip\<rparr> None JNull JNull True)
     (bindg (session_view (sha256_hex raw)) (\<lambda>v. ret (raw, v)))))))"

text \<open>\<open>_phone_ok\<close> and \<open>phone_principal_valid\<close>, which are the same.\<close>

definition phone_ok :: "rat \<Rightarrow> string \<Rightarrow> gw \<Rightarrow> bool" where
  "phone_ok now i s = (case phone_by i s of None \<Rightarrow> False | Some r \<Rightarrow> \<not> ph_revoked r \<and> now \<le> ph_expires r
     \<and> (case person_by (ph_person r) s of None \<Rightarrow> False | Some p \<Rightarrow> pe_active p))"

definition session_principal :: "rat \<Rightarrow> string \<Rightarrow> principal option gwm" where
  "session_principal now raw =
     (if raw = [] then ret None else
      let sid = sha256_hex raw; drop_it = also_do (writes (drop_sessions (\<lambda>r. ss_id r = sid))) (ret None) in
      bindg (reads (session_by sid)) (\<lambda>x. case x of None \<Rightarrow> ret None | Some x \<Rightarrow>
        if ss_abs x < now \<or> ss_last x + SESSION_IDLE_S < now then drop_it
        else bindg (reads (person_by (ss_person x))) (\<lambda>p.
          bindg (reads (\<lambda>s. case ss_phone x of Some i \<Rightarrow> phone_ok now i s | None \<Rightarrow> (case p of None \<Rightarrow> False | Some p \<Rightarrow> pe_active p \<and> pe_web p))) (\<lambda>good.
          case p of None \<Rightarrow> drop_it | Some p \<Rightarrow>
            if \<not> good then drop_it
            else also_do (writes (\<lambda>s. if 60 < now - ss_last x
                 then s\<lparr>gw_sessions := map (\<lambda>r. if ss_id r = sid then r\<lparr>ss_last := now\<rparr> else r) (gw_sessions s)\<rparr> else s))
              (ret (Some \<lparr>pr_person = pe_id p, pr_name = pe_name p, pr_role = pe_role p, pr_parent = pe_parent p, pr_phone = ss_phone x,
                 pr_app = (ss_phone x \<noteq> None), pr_via = ''session'', pr_csrf = ss_csrf x, pr_sid = Some sid, pr_ip = None\<rparr>))))))"

definition logout :: "rat \<Rightarrow> principal \<Rightarrow> unit gwm" where
  "logout now a = (case pr_sid a of None \<Rightarrow> ret () | Some sid \<Rightarrow> if sid = [] then ret () else
     also_do (writes (drop_sessions (\<lambda>r. ss_id r = sid)))
       (audit now ''logout'' \<lparr>wh_person = Some (pr_person a), wh_phone = None, wh_ip = None\<rparr> None JNull JNull True))"

section \<open>Enrolment\<close>

definition create_enrolment_code :: "rat \<Rightarrow> string \<Rightarrow> string \<Rightarrow> principal \<Rightarrow> string \<Rightarrow> (string \<times> rat) gwm" where
  "create_enrolment_code now raw code_id a pid =
     bindg (person_get now pid) (\<lambda>p.
     also_do (ensure (pv_active p) (Gw_error 409 ''person_inactive'' ''the person is not active'' []))
     (bindg (reads (phones_full now pid)) (\<lambda>full.
     also_do (ensure (\<not> full) (device_limit ''the device limit is reached: revoke a phone first''))
     (also_do (tx (also_do (writes (\<lambda>s. s\<lparr>gw_codes := map (\<lambda>r. if ec_person r = pid \<and> \<not> ec_used r then r\<lparr>ec_used := True\<rparr> else r) (gw_codes s)\<rparr>))
        (insert_code \<lparr>ec_id = CHR ''c'' # code_id, ec_person = pid, ec_hash = sha256_hex raw, ec_expires = now + ENROL_TTL_S, ec_used = False,
           ec_created = now, ec_by = pr_person a\<rparr>)))
     (also_do (audit now ''enrol_code_create'' (who_of a) (Some pid) JNull JNull True)
       (ret (raw, now + ENROL_TTL_S)))))))"

definition invalid_code :: gw_err where
  "invalid_code = Gw_error 403 ''invalid_code'' ''the enrolment code is invalid, used or expired'' []"

definition enrol :: "rat \<Rightarrow> string \<Rightarrow> string \<Rightarrow> string \<Rightarrow> fields \<Rightarrow> string \<Rightarrow> json gwm" where
  "enrol now raw tok code dev ip =
     bindg (reads (\<lambda>s. length (filter (\<lambda>r. \<not> la_ok r \<and> la_account r = ''enrol'' \<and> la_ip r = ip \<and> now - GW_FAIL_WINDOW < la_ts r) (gw_attempts s)))) (\<lambda>bad.
     also_do (ensure (bad < ENROL_FAIL_LIMIT) (Gw_error 429 ''too_many_attempts'' ''too many failed enrolment attempts from this address''
         [(''retry_after_s'', JInt \<lfloor>GW_FAIL_WINDOW\<rfloor>)]))
     (bindg (lift_res (label_of ''label'' (jget dev ''label''))) (\<lambda>label.
     bindg (reads (\<lambda>s. if length (norm_code code) = 12 then find (\<lambda>r. ec_hash r = sha256_hex (norm_code code)) (gw_codes s) else None)) (\<lambda>r.
     bindg (case r of Some r \<Rightarrow> if ec_used r \<or> ec_expires r < now then ret None else ret (Some r) | None \<Rightarrow> ret None) (\<lambda>r.
     case r of
       None \<Rightarrow> also_do (add_attempt now ip ''enrol'' False)
           (also_do (audit now ''enrol_failed'' (who_is None ip) None JNull JNull False) (fail invalid_code))
     | Some r \<Rightarrow>
       bindg (reads (person_by (ec_person r))) (\<lambda>p. case p of None \<Rightarrow> fail invalid_code | Some p \<Rightarrow>
       also_do (ensure (pe_active p) invalid_code)
       (bindg (reads (phones_full now (pe_id p))) (\<lambda>full.
       also_do (ensure (\<not> full) (device_limit ''the device limit is reached''))
       (let i = phone_id_of tok in
        also_do (tx (bindg (reads (\<lambda>s. \<exists>c\<in>set (gw_codes s). ec_id c = ec_id r \<and> \<not> ec_used c)) (\<lambda>fresh.
          also_do (ensure fresh invalid_code)
          (also_do (writes (\<lambda>s. s\<lparr>gw_codes := map (\<lambda>c. if ec_id c = ec_id r then c\<lparr>ec_used := True\<rparr> else c) (gw_codes s)\<rparr>))
            (insert_phone (new_phone now i raw (pe_id p) label (text_or_none 30 (jget dev ''platform'')) dev))))))
       (also_do (audit now ''enrol'' \<lparr>wh_person = Some (pe_id p), wh_phone = Some i, wh_ip = Some ip\<rparr> (Some label) JNull JNull True)
         (ret (token_json_of i raw None p (now + PHONE_SLIDING_S)))))))))))))"

section \<open>Phones\<close>

definition phone_principal :: "rat \<Rightarrow> string \<Rightarrow> principal option gwm" where
  "phone_principal now raw =
     (if raw = [] then ret None else
      bindg (reads (\<lambda>s. find (\<lambda>r. ph_hash r = sha256_hex raw) (gw_phones s))) (\<lambda>r. case r of None \<Rightarrow> ret None | Some r \<Rightarrow>
        if ph_revoked r \<or> ph_expires r < now then ret None
        else bindg (reads (person_by (ph_person r))) (\<lambda>p. case p of None \<Rightarrow> ret None | Some p \<Rightarrow>
          if \<not> pe_active p then ret None
          else also_do (writes (\<lambda>s. if ph_seen r = 0 \<or> 60 < now - ph_seen r
               then s\<lparr>gw_phones := map (\<lambda>x. if ph_id x = ph_id r then x\<lparr>ph_seen := now, ph_expires := now + PHONE_SLIDING_S\<rparr> else x) (gw_phones s)\<rparr> else s))
            (ret (Some \<lparr>pr_person = pe_id p, pr_name = pe_name p, pr_role = pe_role p, pr_parent = pe_parent p, pr_phone = Some (ph_id r),
               pr_app = False, pr_via = ''device'', pr_csrf = [], pr_sid = None, pr_ip = None\<rparr>)))))"

definition session_principal_raw_valid :: "rat \<Rightarrow> string \<Rightarrow> gw \<Rightarrow> bool" where
  "session_principal_raw_valid now sid s = (case session_by sid s of None \<Rightarrow> False
     | Some x \<Rightarrow> now \<le> ss_abs x \<and> now \<le> ss_last x + SESSION_IDLE_S \<and> (case ss_phone x of None \<Rightarrow> True | Some i \<Rightarrow> phone_ok now i s))"

definition phone_json :: "gw \<Rightarrow> phone_row \<Rightarrow> json" where
  "phone_json s r = JObj [(''id'', JStr (ph_id r)), (''person_id'', JStr (ph_person r)),
     (''person_name'', JStr (case person_by (ph_person r) s of None \<Rightarrow> [] | Some p \<Rightarrow> pe_name p)), (''label'', JStr (ph_label r)),
     (''model'', jopt JStr (ph_model r)), (''platform'', jopt JStr (ph_platform r)), (''created_at'', iso_or_null (ph_created r)),
     (''last_seen'', iso_or_null (ph_seen r)), (''expires_at'', iso_or_null (ph_expires r)), (''revoked'', JBool (ph_revoked r))]"

definition phones :: "string option \<Rightarrow> gw \<Rightarrow> json list" where
  "phones only_person s = map (phone_json s) (sort_key ph_created (filter (\<lambda>r. person_by (ph_person r) s \<noteq> None
     \<and> (case only_person of None \<Rightarrow> True | Some p \<Rightarrow> p = [] \<or> ph_person r = p)) (gw_phones s)))"

definition revoke_phone :: "rat \<Rightarrow> principal \<Rightarrow> string \<Rightarrow> unit gwm" where
  "revoke_phone now a i =
     bindg (reads (phone_by i)) (\<lambda>r. case r of None \<Rightarrow> fail (not_found ''no such phone'' i) | Some r \<Rightarrow>
     also_do (ensure (pr_role a = ''admin'' \<or> ph_person r = pr_person a) (Gw_error 403 ''forbidden'' ''you may revoke only your own phones'' []))
     (also_do (writes (close_phone i))
       (audit now ''phone_revoke'' (who_of a) (Some i) (JObj [(''person'', JStr (ph_person r)), (''label'', JStr (ph_label r))]) JNull True)))"

end
