(* ===== verification/Gw_Access.thy ===== *)
theory Gw_Access
  imports Gw_Login
begin

text \<open>
  \<open>portal/gateway/gw/api.py\<close>: who a request is from, the repeated request, and the handlers of sign-in,
  people, phones and audit.  A request is what Starlette hands to a handler, its body both as text and as
  \<open>json.loads\<close> reads it; \<open>gw_env\<close> holds the clock and the random texts a handler draws.
\<close>

section \<open>Requests and answers\<close>

datatype gw_payload = No_body | Body json | Not_json

record gw_request =
  gr_ip :: string
  gr_method :: string
  gr_path :: string
  gr_query_text :: string
  gr_query :: "(string \<times> string) list"
  gr_headers :: "(string \<times> string) list" \<comment> \<open>names in lower case\<close>
  gr_cookie :: "string option" \<comment> \<open>\<open>gw_session\<close>\<close>
  gr_params :: "(string \<times> string) list"
  gr_raw :: string
  gr_body :: gw_payload

record gw_env =
  ge_now :: rat
  ge_raw :: string
  ge_csrf :: string
  ge_tok :: string
  ge_ukey :: string
  ge_id :: string
  ge_salt :: "int list"

record gw_reply =
  rp_status :: nat
  rp_json :: "json option"
  rp_cookie :: "string option" \<comment> \<open>the session cookie set, empty to delete it\<close>

definition gr_header :: "gw_request \<Rightarrow> string \<Rightarrow> string option" where
  "gr_header rq k = map_of (gr_headers rq) k"

definition gr_param :: "gw_request \<Rightarrow> string \<Rightarrow> string" where
  "gr_param rq k = (case map_of (gr_params rq) k of None \<Rightarrow> [] | Some v \<Rightarrow> v)"

definition SAFE :: "string list" where "SAFE = [''GET'', ''HEAD'', ''OPTIONS'']"

definition GW_MAX_BODY :: nat where "GW_MAX_BODY = 64 * 1024"

definition json_reply :: "nat \<Rightarrow> json \<Rightarrow> gw_reply" where
  "json_reply status j = \<lparr>rp_status = status, rp_json = Some j, rp_cookie = None\<rparr>"

definition err_response :: "gw_err \<Rightarrow> gw_reply" where \<comment> \<open>any other exception is answered with 500 and no detail\<close>
  "err_response e = (case e of
     Gw_error status code message details \<Rightarrow> json_reply status (JObj [(''error'', JObj [(''code'', JStr code), (''message'', JStr message), (''details'', JObj details)])])
   | Gw_crash x \<Rightarrow> json_reply 500 (JObj [(''error'', JObj [(''code'', JStr ''internal_error''), (''message'', JStr ''internal error''), (''details'', JObj [])])]))"

text \<open>\<open>jload\<close> and \<open>body\<close>.\<close>

definition bad_json :: gw_err where
  "bad_json = Gw_error 400 ''bad_json'' ''the body is not valid JSON'' []"

definition jload :: "gw_payload \<Rightarrow> gw_err + fields" where
  "jload b = (case b of No_body \<Rightarrow> Inr [] | Not_json \<Rightarrow> Inl bad_json
     | Body (JObj f) \<Rightarrow> Inr f | Body _ \<Rightarrow> Inl (Gw_error 400 ''bad_body'' ''a JSON object is required'' []))"

definition gw_body_of :: "gw_request \<Rightarrow> gw_err + json" where
  "gw_body_of rq = (if GW_MAX_BODY < length (utf8 (gr_raw rq)) then Inl (Gw_error 413 ''too_large'' ''request body too large'' [])
     else case gr_body rq of No_body \<Rightarrow> Inr (JObj []) | Not_json \<Rightarrow> Inl bad_json | Body j \<Rightarrow> Inr j)"

section \<open>Principals\<close>

definition unauthorized :: "string \<Rightarrow> gw_err" where
  "unauthorized message = Gw_error 401 ''unauthorized'' message []"

definition too_many_bearers :: gw_err where
  "too_many_bearers = Gw_error 429 ''too_many_attempts'' ''too many failed attempts from this address'' [(''retry_after_s'', JInt 300)]"

definition prune_bad :: "rat \<Rightarrow> string \<Rightarrow> gw \<Rightarrow> gw" where
  "prune_bad now ip s = s\<lparr>gw_bad := (gw_bad s)(ip := dropWhile (\<lambda>t. t < now - 300) (gw_bad s ip))\<rparr>"

definition add_bad :: "rat \<Rightarrow> string \<Rightarrow> gw \<Rightarrow> gw" where
  "add_bad now ip s = s\<lparr>gw_bad := (gw_bad s)(ip := gw_bad s ip @ [now])\<rparr>"

definition auth_text :: "gw_request \<Rightarrow> string" where
  "auth_text rq = (case gr_header rq ''authorization'' of None \<Rightarrow> [] | Some h \<Rightarrow> h)"

definition is_bearer :: "gw_request \<Rightarrow> bool" where
  "is_bearer rq \<longleftrightarrow> starts_with ''bearer '' (py_lower (auth_text rq))"

definition bearer_token :: "gw_request \<Rightarrow> string" where
  "bearer_token rq = py_strip (drop 7 (auth_text rq))"

definition csrf_ok :: "gw_request \<Rightarrow> principal \<Rightarrow> bool" where
  "csrf_ok rq p \<longleftrightarrow> gr_method rq \<in> set SAFE \<or>
     (case gr_header rq ''x-csrf-token'' of None \<Rightarrow> False | Some t \<Rightarrow> t \<noteq> [] \<and> t = pr_csrf p)"

definition gw_authenticate :: "rat \<Rightarrow> gw_request \<Rightarrow> bool \<Rightarrow> principal gwm" where
  "gw_authenticate now rq csrf =
     also_do (writes (prune_bad now (gr_ip rq)))
     (if is_bearer rq then
        bindg (reads (\<lambda>s. length (gw_bad s (gr_ip rq)))) (\<lambda>n.
        also_do (ensure (n < 30) too_many_bearers)
        (bindg (phone_principal now (bearer_token rq)) (\<lambda>p. case p of
            None \<Rightarrow> also_do (writes (add_bad now (gr_ip rq))) (fail (unauthorized ''invalid or revoked token''))
          | Some p \<Rightarrow> ret (p\<lparr>pr_ip := Some (gr_ip rq)\<rparr>))))
      else (let none = fail (unauthorized ''authentication required'') in
        case gr_cookie rq of None \<Rightarrow> none
        | Some c \<Rightarrow> if c = [] then none else
            bindg (session_principal now c) (\<lambda>p. case p of None \<Rightarrow> none
            | Some p \<Rightarrow> let p = p\<lparr>pr_ip := Some (gr_ip rq)\<rparr> in
                also_do (ensure (csrf \<longrightarrow> csrf_ok rq p) (Gw_error 403 ''csrf'' ''missing or wrong X-CSRF-Token'' [])) (ret p))))"

text \<open>\<open>authenticate_update\<close>: the person and the phone of a credential the update paths accept.\<close>

definition authenticate_update :: "rat \<Rightarrow> gw_request \<Rightarrow> (string \<times> string option) gwm" where
  "authenticate_update now rq =
     also_do (writes (prune_bad now (gr_ip rq)))
     (bindg (if is_bearer rq then
         bindg (reads (\<lambda>s. length (gw_bad s (gr_ip rq)))) (\<lambda>n.
         also_do (ensure (n < 30) too_many_bearers)
         (if starts_with UKEY_PREFIX (bearer_token rq) then reads (\<lambda>s. map_option (\<lambda>(p, i). (p, Some i)) (update_key_principal now (bearer_token rq) s))
          else bindg (phone_principal now (bearer_token rq)) (\<lambda>p. ret (map_option (\<lambda>p. (pr_person p, pr_phone p)) p))))
       else case gr_cookie rq of None \<Rightarrow> ret None
         | Some c \<Rightarrow> if c = [] then ret None else bindg (session_principal now c) (\<lambda>p. ret (map_option (\<lambda>p. (pr_person p, pr_phone p)) p))) (\<lambda>p.
      case p of Some p \<Rightarrow> ret p
      | None \<Rightarrow> also_do (writes (\<lambda>s. if auth_text rq = [] then s else add_bad now (gr_ip rq) s)) (fail (unauthorized ''authentication required''))))"

definition need :: "string list \<Rightarrow> principal \<Rightarrow> unit gwm" where
  "need roles p = ensure (pr_role p \<in> set roles) (Gw_error 403 ''forbidden'' ''your role may not do this'' [(''role'', JStr (pr_role p))])"

definition need_web :: "principal \<Rightarrow> unit gwm" where
  "need_web p = ensure (\<not> pr_app p) (Gw_error 403 ''web_login_required'' ''this action needs a web sign-in with password and code'' [])"

definition admin_web :: "rat \<Rightarrow> gw_request \<Rightarrow> bool \<Rightarrow> principal gwm" where
  "admin_web now rq csrf = bindg (gw_authenticate now rq csrf) (\<lambda>p.
     also_do (need [''admin''] p) (also_do (need_web p) (ret p)))"

section \<open>A request that is repeated\<close>

definition with_replayed :: "json \<Rightarrow> json" where
  "with_replayed j = (case j of JObj f \<Rightarrow> JObj (if map_of f ''replayed'' = None then f @ [(''replayed'', JBool True)]
       else map (\<lambda>(k, v). if k = ''replayed'' then (k, JBool True) else (k, v)) f) | _ \<Rightarrow> j)"

definition req_hash :: "gw_request \<Rightarrow> string \<Rightarrow> string" where
  "req_hash rq bytes = sha256_hex (gr_method rq @ gr_path rq @ gr_query_text rq @ bytes)"

definition idem :: "rat \<Rightarrow> gw_request \<Rightarrow> principal \<Rightarrow> string \<Rightarrow> bool \<Rightarrow> string \<Rightarrow> (nat \<times> json) gwm \<Rightarrow> (nat \<times> json) gwm" where
  "idem now rq p route required bytes handler =
     (case gr_header rq ''idempotency-key'' of
        None \<Rightarrow> if required then fail (Gw_error 400 ''idempotency_key_required'' ''send an Idempotency-Key header (8-80 characters)'' []) else handler
      | Some key \<Rightarrow>
        if key = [] then (if required then fail (Gw_error 400 ''idempotency_key_required'' ''send an Idempotency-Key header (8-80 characters)'' []) else handler)
        else also_do (ensure (8 \<le> length key \<and> length key \<le> 80) (Gw_error 400 ''idempotency_key_invalid'' ''Idempotency-Key must be 8-80 characters'' []))
        (let scope = pr_person p @ '':'' @ route; kh = sha256_hex key; rh = req_hash rq bytes in
         also_do (writes (\<lambda>s. s\<lparr>gw_idem := filter (\<lambda>r. \<not> im_created r < now - IDEM_TTL_S) (gw_idem s)\<rparr>))
        (bindg (reads (\<lambda>s. find (\<lambda>r. im_scope r = scope \<and> im_key r = kh) (gw_idem s))) (\<lambda>row. case row of
           Some row \<Rightarrow> also_do (ensure (im_req row = rh) (Gw_error 422 ''idempotency_conflict'' ''this Idempotency-Key was used for a different request'' []))
             (ret (im_status row, with_replayed (im_response row)))
         | None \<Rightarrow> bindg handler (\<lambda>(status, body).
             also_do (writes (\<lambda>s. if 500 \<le> status \<or> status = 429 \<or> (\<exists>r\<in>set (gw_idem s). im_scope r = scope \<and> im_key r = kh) then s
               else s\<lparr>gw_idem := gw_idem s @ [\<lparr>im_scope = scope, im_key = kh, im_req = rh, im_status = status, im_response = body, im_created = now\<rparr>]\<rparr>))
             (ret (status, body)))))))"

section \<open>Handlers\<close>

definition bad_body_error :: "string \<Rightarrow> gw_err" where
  "bad_body_error message = Gw_error 400 ''bad_body'' message []"

definition jstr_of :: "json \<Rightarrow> string" where
  "jstr_of j = (case j of JStr s \<Rightarrow> s | _ \<Rightarrow> [])"

definition is_jobj :: "json \<Rightarrow> bool" where
  "is_jobj j = (case j of JObj f \<Rightarrow> True | _ \<Rightarrow> False)"

definition jfields :: "json \<Rightarrow> fields" where
  "jfields j = (case j of JObj f \<Rightarrow> f | _ \<Rightarrow> [])"

definition api_login :: "kdf \<Rightarrow> gw_env \<Rightarrow> gw_request \<Rightarrow> gw_reply gwm" where
  "api_login scrypt ev rq =
     bindg (lift_res (gw_body_of rq)) (\<lambda>b.
     also_do (ensure (is_jobj b \<and> is_jstr (jget (jfields b) ''username'') \<and> is_jstr (jget (jfields b) ''password'')) (bad_body_error ''username and password are required''))
     (bindg (login scrypt (ge_now ev) (ge_raw ev) (ge_csrf ev) (jstr_of (jget (jfields b) ''username'')) (jstr_of (jget (jfields b) ''password''))
         (jget (jfields b) ''totp'') (gr_ip rq)) (\<lambda>(raw, v).
       ret (\<lparr>rp_status = 200, rp_json = Some v, rp_cookie = Some raw\<rparr>))))"

definition api_logout :: "gw_env \<Rightarrow> gw_request \<Rightarrow> gw_reply gwm" where
  "api_logout ev rq = bindg (gw_authenticate (ge_now ev) rq True) (\<lambda>p.
     also_do (logout (ge_now ev) p) (ret \<lparr>rp_status = 204, rp_json = None, rp_cookie = Some []\<rparr>))"

definition api_session :: "gw_env \<Rightarrow> gw_request \<Rightarrow> gw_reply gwm" where
  "api_session ev rq = bindg (gw_authenticate (ge_now ev) rq False) (\<lambda>p.
     also_do (ensure (pr_via p = ''session'') (unauthorized ''this endpoint is for web sessions''))
     (bindg (session_view (case pr_sid p of None \<Rightarrow> [] | Some sid \<Rightarrow> sid)) (\<lambda>v. ret (json_reply 200 v))))"

definition api_app_login :: "kdf \<Rightarrow> gw_env \<Rightarrow> gw_request \<Rightarrow> gw_reply gwm" where
  "api_app_login scrypt ev rq =
     bindg (lift_res (gw_body_of rq)) (\<lambda>b. let f = jfields b in
     also_do (ensure (is_jobj b \<and> is_jstr (jget f ''username'') \<and> is_jstr (jget f ''password'') \<and> is_jobj (jget f ''device'')) (bad_body_error ''username, password and device are required''))
     (also_do (ensure (jget f ''totp'' = JNull \<or> is_jstr (jget f ''totp'')) (bad_body_error ''totp must be a string''))
     (bindg (app_login scrypt (ge_now ev) (ge_raw ev) (ge_tok ev) (ge_ukey ev) (jstr_of (jget f ''username'')) (jstr_of (jget f ''password''))
         (jget f ''totp'') (jfields (jget f ''device'')) (gr_ip rq)) (\<lambda>v. ret (json_reply 201 v)))))"

definition bearer_only :: "gw_env \<Rightarrow> gw_request \<Rightarrow> principal gwm" where
  "bearer_only ev rq = also_do (ensure (is_bearer rq) (unauthorized ''a device token is required'')) (gw_authenticate (ge_now ev) rq False)"

definition api_app_logout :: "gw_env \<Rightarrow> gw_request \<Rightarrow> gw_reply gwm" where
  "api_app_logout ev rq = bindg (bearer_only ev rq) (\<lambda>p.
     also_do (app_logout (ge_now ev) p) (ret \<lparr>rp_status = 204, rp_json = None, rp_cookie = None\<rparr>))"

definition api_app_session :: "gw_env \<Rightarrow> gw_request \<Rightarrow> gw_reply gwm" where
  "api_app_session ev rq = bindg (bearer_only ev rq) (\<lambda>p.
     bindg (create_app_session (ge_now ev) (ge_raw ev) (ge_csrf ev) p (gr_ip rq)) (\<lambda>(raw, v).
       ret \<lparr>rp_status = 200, rp_json = Some v, rp_cookie = Some raw\<rparr>))"

definition api_update_key :: "gw_env \<Rightarrow> gw_request \<Rightarrow> gw_reply gwm" where
  "api_update_key ev rq =
     also_do (ensure (is_bearer rq \<and> \<not> starts_with UKEY_PREFIX (bearer_token rq)) (unauthorized ''a device token is required''))
     (bindg (gw_authenticate (ge_now ev) rq False) (\<lambda>p.
      bindg (mint_update_key (ge_now ev) (ge_ukey ev) p) (\<lambda>key. ret (json_reply 201 (JObj [(''update_key'', JStr key)])))))"

definition api_enrol :: "gw_env \<Rightarrow> gw_request \<Rightarrow> gw_reply gwm" where
  "api_enrol ev rq =
     bindg (lift_res (gw_body_of rq)) (\<lambda>b. let f = jfields b in
     also_do (ensure (is_jobj b \<and> is_jstr (jget f ''code'') \<and> is_jobj (jget f ''device'')) (bad_body_error ''code and device are required''))
     (bindg (enrol (ge_now ev) (ge_raw ev) (ge_tok ev) (jstr_of (jget f ''code'')) (jfields (jget f ''device'')) (gr_ip rq)) (\<lambda>v. ret (json_reply 201 v))))"

definition view_json :: "person_view \<Rightarrow> json" where
  "view_json v = JObj [(''id'', JStr (pv_id v)), (''name'', JStr (pv_name v)), (''role'', JStr (pv_role v)), (''parent'', JBool (pv_parent v)),
     (''active'', JBool (pv_active v)), (''web_login_enabled'', JBool (pv_web v)), (''has_web_credentials'', JBool (pv_has_creds v)),
     (''phones'', JInt (int (pv_phones v)))]"

definition api_people_list :: "gw_env \<Rightarrow> gw_request \<Rightarrow> gw_reply gwm" where
  "api_people_list ev rq = bindg (admin_web (ge_now ev) rq False) (\<lambda>p.
     bindg (reads (people_list (ge_now ev))) (\<lambda>vs. ret (json_reply 200 (JObj [(''people'', JList (map view_json vs))]))))"

definition idem_answer :: "nat \<times> json \<Rightarrow> gw_reply gwm" where
  "idem_answer r = ret (json_reply (fst r) (snd r))"

definition api_people_create :: "gw_env \<Rightarrow> gw_request \<Rightarrow> gw_reply gwm" where
  "api_people_create ev rq = bindg (admin_web (ge_now ev) rq True) (\<lambda>p.
     bindg (lift_res (jload (gr_body rq))) (\<lambda>b.
     bindg (idem (ge_now ev) rq p ''people.create'' True (gr_raw rq)
        (also_do (ensure (set (jkeys b) \<subseteq> {''name'', ''role'', ''parent''}) (Gw_error 422 ''invalid_body'' ''name, role and optional parent are required'' []))
         (bindg (person_create (ge_now ev) p (jget b ''name'') (jget b ''role'') (truthy (jget b ''parent'')) None) (\<lambda>v. ret (201, view_json v)))))
       idem_answer))"

definition api_people_patch :: "gw_env \<Rightarrow> gw_request \<Rightarrow> gw_reply gwm" where
  "api_people_patch ev rq = bindg (admin_web (ge_now ev) rq True) (\<lambda>p.
     bindg (lift_res (jload (gr_body rq))) (\<lambda>b.
     bindg (idem (ge_now ev) rq p ''people.patch'' False (gr_raw rq)
        (bindg (person_patch (ge_now ev) p (gr_param rq ''id'') b) (\<lambda>v. ret (200, view_json v)))) idem_answer))"

text \<open>\<open>qr\<close> draws the QR code of a text; \<open>public_url\<close> is the configured address.\<close>

definition api_enrol_code :: "(string \<Rightarrow> string) \<Rightarrow> string \<Rightarrow> gw_env \<Rightarrow> gw_request \<Rightarrow> gw_reply gwm" where
  "api_enrol_code qr public_url ev rq = bindg (admin_web (ge_now ev) rq True) (\<lambda>p. let pid = gr_param rq ''id'' in
     bindg (idem (ge_now ev) rq p (''enrol.create:'' @ pid) True []
        (bindg (create_enrolment_code (ge_now ev) (ge_raw ev) (ge_id ev) p pid) (\<lambda>(code, expires).
          let qr_data = JObj [(''u'', JStr public_url), (''c'', JStr (fmt_code code)), (''tailnet'', JStr [])] in
          ret (201, JObj [(''code'', JStr (fmt_code code)), (''expires_at'', iso_or_null expires), (''ttl_s'', JInt \<lfloor>ENROL_TTL_S\<rfloor>),
            (''qr_payload'', qr_data), (''qr_svg'', JStr (qr (dumps '','' '':'' False qr_data)))])))) idem_answer)"

definition api_setup_link :: "string \<Rightarrow> gw_env \<Rightarrow> gw_request \<Rightarrow> gw_reply gwm" where
  "api_setup_link public_url ev rq = bindg (admin_web (ge_now ev) rq True) (\<lambda>p. let pid = gr_param rq ''id'' in
     bindg (idem (ge_now ev) rq p (''setup.create:'' @ pid) True []
        (bindg (create_setup_link (ge_now ev) (ge_raw ev) (ge_id ev) p pid) (\<lambda>(raw, expires).
          ret (201, JObj [(''url'', JStr (public_url @ ''/setup/'' @ raw)), (''expires_at'', iso_or_null expires)])))) idem_answer)"

definition api_phones_list :: "gw_env \<Rightarrow> gw_request \<Rightarrow> gw_reply gwm" where
  "api_phones_list ev rq = bindg (gw_authenticate (ge_now ev) rq False) (\<lambda>p.
     bindg (reads (phones (if pr_role p = ''admin'' then None else Some (pr_person p)))) (\<lambda>vs. ret (json_reply 200 (JObj [(''phones'', JList vs)]))))"

definition api_phone_revoke :: "gw_env \<Rightarrow> gw_request \<Rightarrow> gw_reply gwm" where
  "api_phone_revoke ev rq = bindg (gw_authenticate (ge_now ev) rq True) (\<lambda>p. let i = gr_param rq ''id'' in
     also_do (if pr_app p \<and> Some i \<noteq> pr_phone p then need_web p else ret ())
     (bindg (idem (ge_now ev) rq p (''phone.revoke:'' @ i) True []
        (also_do (revoke_phone (ge_now ev) p i) (ret (204, JNull)))) (\<lambda>_. ret \<lparr>rp_status = 204, rp_json = None, rp_cookie = None\<rparr>)))"

text \<open>\<open>audit\<close>; the number in \<open>before\<close> goes into a column of 64 bits.\<close>

definition gr_query_of :: "gw_request \<Rightarrow> string \<Rightarrow> string option" where
  "gr_query_of rq k = map_of (gr_query rq) k"

definition gw_audit_json :: "nat \<times> gw_audit_row \<Rightarrow> json" where
  "gw_audit_json x = (case x of (seq, r) \<Rightarrow> JObj [(''seq'', JInt (int seq)), (''ts'', JStr (ga_ts r)), (''action'', JStr (ga_action r)),
     (''person'', jopt JStr (ga_person r)), (''device'', jopt JStr (ga_phone r)), (''target'', jopt JStr (ga_target r)),
     (''before'', ga_before r), (''after'', ga_after r), (''ok'', JBool (ga_ok r)), (''source_ip'', jopt JStr (ga_ip r))])"

definition api_audit :: "gw_env \<Rightarrow> gw_request \<Rightarrow> gw_reply gwm" where
  "api_audit ev rq = bindg (gw_authenticate (ge_now ev) rq False) (\<lambda>p.
     let limit = py_int (case gr_query_of rq ''limit'' of None \<Rightarrow> ''50'' | Some t \<Rightarrow> t);
         before = (case gr_query_of rq ''before'' of None \<Rightarrow> Some None | Some t \<Rightarrow> map_option Some (py_int t));
         admin = (pr_role p = ''admin'') in
     also_do (ensure (limit \<noteq> None \<and> before \<noteq> None) (Gw_error 400 ''bad_query'' ''limit and before must be integers'' []))
     (also_do (ensure (case the before of None \<Rightarrow> True | Some b \<Rightarrow> b = 0 \<or> - (2 ^ 63) \<le> b \<and> b < 2 ^ 63) (Gw_crash OverflowError))
     (bindg (reads (audit_rows (the limit) (the before) (gr_query_of rq ''action'') (if admin then gr_query_of rq ''person'' else None)
         (if admin then gr_query_of rq ''device'' else None) (if admin then None else Some (pr_person p)))) (\<lambda>rows.
       ret (json_reply 200 (JObj [(''audit'', JList (map gw_audit_json rows))]))))))"

section \<open>Routing\<close>

datatype gw_route = R_login | R_logout | R_session | R_app_login | R_app_logout | R_app_session | R_update_key | R_enrol
  | R_people_list | R_people_create | R_people_patch | R_enrol_code | R_setup_link | R_phones_list | R_phone_revoke | R_audit

record gw_conf =
  gc_scrypt :: kdf
  gc_qr :: "string \<Rightarrow> string"
  gc_url :: string

fun gw_handler :: "gw_conf \<Rightarrow> gw_route \<Rightarrow> gw_env \<Rightarrow> gw_request \<Rightarrow> gw_reply gwm" where
  "gw_handler cf R_login = api_login (gc_scrypt cf)"
| "gw_handler cf R_logout = api_logout"
| "gw_handler cf R_session = api_session"
| "gw_handler cf R_app_login = api_app_login (gc_scrypt cf)"
| "gw_handler cf R_app_logout = api_app_logout"
| "gw_handler cf R_app_session = api_app_session"
| "gw_handler cf R_update_key = api_update_key"
| "gw_handler cf R_enrol = api_enrol"
| "gw_handler cf R_people_list = api_people_list"
| "gw_handler cf R_people_create = api_people_create"
| "gw_handler cf R_people_patch = api_people_patch"
| "gw_handler cf R_enrol_code = api_enrol_code (gc_qr cf) (gc_url cf)"
| "gw_handler cf R_setup_link = api_setup_link (gc_url cf)"
| "gw_handler cf R_phones_list = api_phones_list"
| "gw_handler cf R_phone_revoke = api_phone_revoke"
| "gw_handler cf R_audit = api_audit"

definition gw_serve :: "gw_conf \<Rightarrow> gw_route \<Rightarrow> gw_env \<Rightarrow> gw_request \<Rightarrow> gw \<Rightarrow> gw_reply \<times> gw" where
  "gw_serve cf route ev rq s = (case gw_handler cf route ev rq s of (Inr r, t) \<Rightarrow> (r, t) | (Inl e, t) \<Rightarrow> (err_response e, t))"

end
