(* ===== verification/Gw_Events.thy ===== *)
theory Gw_Events
  imports Gw_Access
begin

text \<open>
  What the gateway promises about identities, as events with guards: how people, credentials, sessions,
  codes, links, phones and attempts may change.  Every method and handler of the model is a sequence of
  such events, also when it fails (\<open>\<dots>_events\<close>).
\<close>

section \<open>Events\<close>

text \<open>
  Some events happen only in some requests: credentials set or removed, people added or changed,
  enrolment codes and setup links made.  \<open>K\<close> holds the kinds among these that may happen.
\<close>

datatype gw_kind = K_cred | K_person | K_code | K_link

inductive gw_event :: "gw_kind set \<Rightarrow> rat \<Rightarrow> gw \<Rightarrow> gw \<Rightarrow> bool" for K :: "gw_kind set" and now :: rat where
  E_quiet: "(\<And>k. \<not> starts_with ''setupseed:'' k \<Longrightarrow> map_of m k = map_of (gw_meta s) k) \<Longrightarrow> gw_event K now s (s\<lparr>gw_hub := h, gw_meta := m, gw_idem := i, gw_bad := b\<rparr>)"
| E_audit: "gw_event K now s (s\<lparr>gw_audit := gw_audit s @ [gw_new_row now action who target before after ok (gw_audit s)]\<rparr>)"
| E_person_new: "K_person \<in> K \<Longrightarrow> person_by (pe_id r) s = None \<Longrightarrow> gw_event K now s (s\<lparr>gw_people := gw_people s @ [r]\<rparr>)"
| E_person_set: "K_person \<in> K \<Longrightarrow> person_by pid s = Some r \<Longrightarrow>
     \<not> (pe_role r = ''admin'' \<and> pe_active r \<and> (pv_role new \<noteq> ''admin'' \<or> \<not> pv_active new) \<and> other_admins pid s = []) \<Longrightarrow>
     gw_event K now s (update_person pid new s)"
| E_session_new: "ss_id r \<notin> ss_id ` set (gw_sessions s) \<Longrightarrow> ss_created r = now \<Longrightarrow> ss_last r = now \<Longrightarrow> ss_abs r \<le> now + SESSION_ABS_S \<Longrightarrow>
     gw_event K now s (s\<lparr>gw_sessions := gw_sessions s @ [r]\<rparr>)"
| E_session_seen: "gw_event K now s (s\<lparr>gw_sessions := map (\<lambda>r. if ss_id r = sid then r\<lparr>ss_last := now\<rparr> else r) (gw_sessions s)\<rparr>)"
| E_sessions_drop: "gw_event K now s (drop_sessions p s)"
| E_phone_new: "ph_id r \<notin> ph_id ` set (gw_phones s) \<Longrightarrow> ph_hash r \<notin> ph_hash ` set (gw_phones s) \<Longrightarrow> \<not> ph_revoked r \<Longrightarrow>
     \<not> phones_full now (ph_person r) s \<Longrightarrow> gw_event K now s (s\<lparr>gw_phones := gw_phones s @ [r]\<rparr>)"
| E_phone_seen: "r \<in> set (gw_phones s) \<Longrightarrow> \<not> ph_revoked r \<Longrightarrow> now \<le> ph_expires r \<Longrightarrow>
     gw_event K now s (s\<lparr>gw_phones := map (\<lambda>x. if ph_id x = ph_id r then x\<lparr>ph_seen := now, ph_expires := now + PHONE_SLIDING_S\<rparr> else x) (gw_phones s)\<rparr>)"
| E_update_key: "gw_event K now s (s\<lparr>gw_phones := map (\<lambda>r. if ph_id r = i then r\<lparr>ph_update := h\<rparr> else r) (gw_phones s)\<rparr>)"
| E_phones_revoke: "gw_event K now s (revoke_where p s)"
| E_code_new: "K_code \<in> K \<Longrightarrow> ec_id r \<notin> ec_id ` set (gw_codes s) \<Longrightarrow> ec_hash r \<notin> ec_hash ` set (gw_codes s) \<Longrightarrow>
     (\<forall>c\<in>set (gw_codes s). ec_person c = ec_person r \<longrightarrow> ec_used c) \<Longrightarrow> ec_expires r = now + ENROL_TTL_S \<Longrightarrow>
     gw_event K now s (s\<lparr>gw_codes := gw_codes s @ [r]\<rparr>)"
| E_codes_use: "gw_event K now s (s\<lparr>gw_codes := map (\<lambda>c. if p c then c\<lparr>ec_used := True\<rparr> else c) (gw_codes s)\<rparr>)"
| E_link_new: "K_link \<in> K \<Longrightarrow> sl_id r \<notin> sl_id ` set (gw_links s) \<Longrightarrow> sl_hash r \<notin> sl_hash ` set (gw_links s) \<Longrightarrow>
     (\<forall>l\<in>set (gw_links s). sl_person l = sl_person r \<longrightarrow> sl_used l) \<Longrightarrow> sl_expires r = now + SETUP_TTL_S \<Longrightarrow>
     gw_event K now s (s\<lparr>gw_links := gw_links s @ [r]\<rparr>)"
| E_links_use: "gw_event K now s (s\<lparr>gw_links := map (\<lambda>l. if p l then l\<lparr>sl_used := True\<rparr> else l) (gw_links s)\<rparr>)"
| E_cred_set: "K_cred \<in> K \<Longrightarrow> gw_event K now s (set_cred c s)"
| E_cred_drop: "K_cred \<in> K \<Longrightarrow> gw_event K now s (s\<lparr>gw_creds := filter (\<lambda>r. cr_person r \<noteq> pid) (gw_creds s)\<rparr>)"
| E_cred_step: "cred_by pid s = Some c \<Longrightarrow> cr_step c < step \<Longrightarrow>
     gw_event K now s (s\<lparr>gw_creds := map (\<lambda>c. if cr_person c = pid then c\<lparr>cr_step := step\<rparr> else c) (gw_creds s)\<rparr>)"
| E_login_attempt: "length (fails_where now (\<lambda>r. la_ip r = ip) s) < IP_FAIL_LIMIT \<Longrightarrow>
     gw_event K now s (s\<lparr>gw_attempts := gw_attempts s @ [\<lparr>la_ts = now, la_ip = ip, la_account = account, la_ok = ok\<rparr>]\<rparr>)"
| E_enrol_attempt: "length (filter (\<lambda>r. \<not> la_ok r \<and> la_account r = ''enrol'' \<and> la_ip r = ip \<and> now - GW_FAIL_WINDOW < la_ts r) (gw_attempts s)) < ENROL_FAIL_LIMIT \<Longrightarrow>
     gw_event K now s (s\<lparr>gw_attempts := gw_attempts s @ [\<lparr>la_ts = now, la_ip = ip, la_account = ''enrol'', la_ok = False\<rparr>]\<rparr>)"

abbreviation gw_events :: "gw_kind set \<Rightarrow> rat \<Rightarrow> gw \<Rightarrow> gw \<Rightarrow> bool" where
  "gw_events K now \<equiv> rtranclp (gw_event K now)"

interpretation ev: history "gw_events K now" for K now
  by unfold_locales auto

named_theorems gw_across \<open>computations that are sequences of events\<close>

lemma one_event: "gw_event K now s t \<Longrightarrow> gw_events K now s t"
  by (rule r_into_rtranclp)

lemma quiet_event:
  "(\<And>s. k s = s\<lparr>gw_hub := gw_hub (k s), gw_idem := gw_idem (k s), gw_bad := gw_bad (k s)\<rparr>) \<Longrightarrow>
   across P (gw_events K now) (writes k)"
proof (rule ev.across_writes)
  fix s
  assume "\<And>s. k s = s\<lparr>gw_hub := gw_hub (k s), gw_idem := gw_idem (k s), gw_bad := gw_bad (k s)\<rparr>"
  then have "k s = s\<lparr>gw_hub := gw_hub (k s), gw_meta := gw_meta s, gw_idem := gw_idem (k s), gw_bad := gw_bad (k s)\<rparr>" by simp
  moreover have "gw_event K now s (s\<lparr>gw_hub := gw_hub (k s), gw_meta := gw_meta s, gw_idem := gw_idem (k s), gw_bad := gw_bad (k s)\<rparr>)" by (rule E_quiet) simp
  ultimately show "gw_events K now s (k s)" using one_event by metis
qed

lemma seed_event:
  "(\<And>k. \<not> starts_with ''setupseed:'' k \<Longrightarrow> map_of m k = map_of (gw_meta s) k) \<Longrightarrow> gw_event K now s (s\<lparr>gw_meta := m\<rparr>)"
  using E_quiet [where m = m and s = s and h = "gw_hub s" and i = "gw_idem s" and b = "gw_bad s"] by simp

lemma kick_event: "gw_event K now s (kick_all ids s)"
  using E_quiet [where s = s and h = "fold kick ids (gw_hub s)" and m = "gw_meta s" and i = "gw_idem s" and b = "gw_bad s"]
  by (simp add: kick_all_def)

lemma across_seq: "across P (gw_events K now) m \<Longrightarrow> across anywhere (gw_events K now) n \<Longrightarrow> across P (gw_events K now) (also_do m n)"
  by (rule ev.across_bind)

section \<open>Primitives\<close>

lemma audit_events [gw_across]: "across P (gw_events K now) (audit now action who target before after ok)"
  unfolding audit_def by (rule ev.across_writes) (rule one_event [OF E_audit])

lemma drop_sessions_events [gw_across]: "across P (gw_events K now) (writes (drop_sessions p))"
  by (rule ev.across_writes) (rule one_event [OF E_sessions_drop])

lemma insert_session_events [gw_across]:
  "ss_created r = now \<Longrightarrow> ss_last r = now \<Longrightarrow> ss_abs r \<le> now + SESSION_ABS_S \<Longrightarrow> across P (gw_events K now) (insert_session r)"
  unfolding insert_session_def
  by (intro ev.across_read ev.across_ensure ev.across_writes one_event [OF E_session_new]) auto

lemma insert_phone_events [gw_across]:
  "\<not> ph_revoked r \<Longrightarrow> (\<And>s. P s \<Longrightarrow> \<not> phones_full now (ph_person r) s) \<Longrightarrow> across P (gw_events K now) (insert_phone r)"
  unfolding insert_phone_def
  by (intro ev.across_read ev.across_ensure ev.across_writes one_event [OF E_phone_new]) auto

lemma meta_events [gw_across]: "across P (gw_events K now) (meta_set (seed_key r) v)" "across P (gw_events K now) (meta_delete (seed_key r))"
proof -
  have "map_of (filter (\<lambda>(k', _). k' \<noteq> seed_key r) m) k = map_of m k" "k \<noteq> seed_key r" if "\<not> starts_with ''setupseed:'' k" for k and m :: "(string \<times> string) list"
    using that by (induction m) (auto simp: seed_key_def starts_with_def)
  then show "across P (gw_events K now) (meta_set (seed_key r) v)" "across P (gw_events K now) (meta_delete (seed_key r))"
    unfolding meta_set_def meta_delete_def by (auto intro!: ev.across_writes one_event seed_event)
qed

lemma new_update_key_events [gw_across]: "across P (gw_events K now) (new_update_key tok i)"
  unfolding new_update_key_def Let_def
  by (intro across_seq ev.across_writes one_event [OF E_update_key] ev.across_basic)

lemma close_phone_events [gw_across]: "across P (gw_events K now) (writes (close_phone i))"
proof (rule ev.across_writes)
  fix s
  have "gw_events K now s (revoke_where (\<lambda>r. ph_id r = i) s)" by (rule one_event [OF E_phones_revoke])
  moreover have "gw_event K now u (drop_sessions p u)" for p u by (rule E_sessions_drop)
  moreover have "gw_event K now u (kick_all ids u)" for ids u by (rule kick_event)
  ultimately show "gw_events K now s (close_phone i s)" unfolding close_phone_def by (meson rtranclp.rtrancl_into_rtrancl)
qed

lemma person_get_events [gw_across]: "across P (gw_events K now) (person_get now pid)"
  unfolding person_get_def by (intro ev.across_rules)

lemma session_view_events [gw_across]: "across P (gw_events K now) (session_view sid)"
  unfolding session_view_def by (intro ev.across_rules)

section \<open>People\<close>

lemma person_create_events [gw_across]: "K_person \<in> K \<Longrightarrow> across P (gw_events K now) (person_create now a name role parent web)"
  unfolding person_create_def Let_def insert_person_def
  by (intro ev.across_lift ev.across_ensure across_seq ev.across_tx ev.across_read gw_across ev.across_writes one_event [OF E_person_new]) auto

lemma pv_person_by: "person_by pid s = Some r \<Longrightarrow> pv_role (person_view_of now r s) = pe_role r \<and> pv_active (person_view_of now r s) = pe_active r"
  by (simp add: person_view_of_def)

lemma bindg_person_get:
  "bindg (person_get now pid) f s = (case person_by pid s of None \<Rightarrow> (Inl (not_found ''no such person'' pid), s)
     | Some r \<Rightarrow> f (person_view_of now r s) s)"
  by (cases "person_by pid s") (simp_all add: person_get_def bindg_def)

lemma across_person:
  "(\<And>r v. pv_role v = pe_role r \<Longrightarrow> pv_active v = pe_active r \<Longrightarrow> across (\<lambda>s. P s \<and> person_by pid s = Some r) R (f v)) \<Longrightarrow> (\<And>s. R s s) \<Longrightarrow>
   across P R (bindg (person_get now pid) f)"
  unfolding across_def by (auto simp: bindg_person_get pv_person_by split: option.splits)

lemma person_patch_events [gw_across]:
  assumes K: "K_person \<in> K"
  shows "across P (gw_events K now) (person_patch now a pid f)"
proof -
  let ?R = "gw_events K now"
  have drop: "across anywhere ?R (writes (\<lambda>s. if \<not> pv_active new then drop_sessions (\<lambda>r. ss_person r = pid) s
      else if \<not> pv_web new then drop_sessions (\<lambda>r. ss_person r = pid \<and> ss_phone r = None) s else s))" for new
    by (rule ev.across_writes) (auto intro: one_event E_sessions_drop)
  have "gw_events K now s (kick_all ids (revoke_where mine s))" for ids mine s
    by (rule rtranclp_trans [OF one_event one_event]) (rule E_phones_revoke, rule kick_event)
  then have kick: "across anywhere ?R (writes (\<lambda>s. if pv_active new then s
      else let mine = (\<lambda>r. ph_person r = pid \<and> \<not> ph_revoked r) in kick_all (map ph_id (filter mine (gw_phones s))) (revoke_where mine s)))" for new
    by (intro ev.across_writes) (simp add: Let_def)
  show ?thesis unfolding person_patch_def
    by (intro across_person ev.across_lift ev.across_read ev.across_ensure across_seq ev.across_tx drop kick gw_across ev.across_writes
          one_event [OF E_person_set [OF K]] rtranclp.rtrancl_refl) auto
qed

section \<open>Setup links and credentials\<close>

lemma insert_link_events [gw_across]:
  "K_link \<in> K \<Longrightarrow> (\<And>s. P s \<Longrightarrow> \<forall>l\<in>set (gw_links s). sl_person l = sl_person r \<longrightarrow> sl_used l) \<Longrightarrow> sl_expires r = now + SETUP_TTL_S \<Longrightarrow>
   across P (gw_events K now) (insert_link r)"
  unfolding insert_link_def
  by (intro ev.across_read ev.across_ensure ev.across_writes one_event [OF E_link_new]) auto

lemma void_links_events: "across P (gw_events K now) (writes (\<lambda>s. s\<lparr>gw_links := map (\<lambda>r. if p r then r\<lparr>sl_used := True\<rparr> else r) (gw_links s)\<rparr>))"
  by (rule ev.across_writes) (rule one_event [OF E_links_use])

lemma all_void:
  "\<forall>l\<in>set (map (\<lambda>r. if sl_person r = pid \<and> \<not> sl_used r then r\<lparr>sl_used := True\<rparr> else r) ls). sl_person l = pid \<longrightarrow> sl_used l"
proof -
  have "list_all (\<lambda>l. sl_person l = pid \<longrightarrow> sl_used l) (map (\<lambda>r. if sl_person r = pid \<and> \<not> sl_used r then r\<lparr>sl_used := True\<rparr> else r) ls)"
    by (induction ls) simp_all
  then show ?thesis unfolding list_all_iff .
qed

lemma void_links_then:
  "across (\<lambda>s. \<forall>l\<in>set (gw_links s). sl_person l = pid \<longrightarrow> sl_used l) (gw_events K now) m \<Longrightarrow>
   across P (gw_events K now) (also_do (writes (\<lambda>s. s\<lparr>gw_links := map (\<lambda>r. if sl_person r = pid \<and> \<not> sl_used r then r\<lparr>sl_used := True\<rparr> else r) (gw_links s)\<rparr>)) m)"
proof -
  let ?k = "\<lambda>s. s\<lparr>gw_links := map (\<lambda>r. if sl_person r = pid \<and> \<not> sl_used r then r\<lparr>sl_used := True\<rparr> else r) (gw_links s)\<rparr>"
  assume m: "across (\<lambda>s. \<forall>l\<in>set (gw_links s). sl_person l = pid \<longrightarrow> sl_used l) (gw_events K now) m"
  have k: "gw_events K now s (?k s)" for s by (rule one_event [OF E_links_use])
  have q: "\<forall>l\<in>set (gw_links (?k s)). sl_person l = pid \<longrightarrow> sl_used l" for s
  proof -
    have "gw_links (?k s) = map (\<lambda>r. if sl_person r = pid \<and> \<not> sl_used r then r\<lparr>sl_used := True\<rparr> else r) (gw_links s)" by simp
    then show ?thesis using all_void [of pid "gw_links s"] by (simp only:)
  qed
  show ?thesis by (rule ev.across_write [OF k q m])
qed

lemma create_setup_link_events [gw_across]: "K_link \<in> K \<Longrightarrow> across P (gw_events K now) (create_setup_link now raw link_id a pid)"
  unfolding create_setup_link_def
  apply (rule ev.across_bind [OF person_get_events])
  apply (rule ev.across_ensure)+
  apply (rule across_seq, rule ev.across_tx, rule void_links_then, rule insert_link_events)
    apply simp_all
  apply (rule across_seq, rule audit_events, rule ev.across_basic)
  done

lemma setup_link_events [gw_across]: "across P (gw_events K now) (setup_link now raw)"
  unfolding setup_link_def by (intro ev.across_rules)

lemma setup_begin_events [gw_across]: "across P (gw_events K now) (setup_begin now fresh raw)"
  unfolding setup_begin_def
  by (intro ev.across_bind setup_link_events ev.across_option ev.across_If ev.across_basic meta_events person_get_events)

lemma setup_complete_events [gw_across]: "K_cred \<in> K \<Longrightarrow> across P (gw_events K now) (setup_complete scrypt salt now raw password code ip)"
  unfolding setup_complete_def
  by (intro ev.across_bind setup_link_events ev.across_option ev.across_If ev.across_basic ev.across_pair ev.across_tx meta_events
        audit_events drop_sessions_events ev.across_writes one_event [OF E_cred_set] one_event [OF E_links_use])

lemma reset_credentials_events [gw_across]: "K_cred \<in> K \<Longrightarrow> across P (gw_events K now) (reset_credentials now a pid)"
  unfolding reset_credentials_def
  by (intro ev.across_bind person_get_events ev.across_tx audit_events drop_sessions_events ev.across_writes one_event [OF E_cred_drop])

section \<open>Sign-in\<close>

lemma across_throttle:
  assumes "across (\<lambda>s. P s \<and> length (fails_where now (\<lambda>r. la_ip r = ip) s) < IP_FAIL_LIMIT) R m" "\<And>s. R s s"
  shows "across P R (also_do (throttle now account ip) m)"
  using assms unfolding across_def throttle_def by (auto simp: bindg_def Let_def ensure_def)

lemma check_secret_step:
  assumes "check_secret scrypt now r cred password totp = Inr (Some (Some step))"
  obtains c code where "cred = Some c" "cr_step c < step" "totp_text totp = Inr code"
    "verify_totp (case cr_seed c of None \<Rightarrow> [] | Some sd \<Rightarrow> sd) code (cr_step c) now = Inr (Some step)"
proof -
  obtain c where c: "cred = Some c" using assms by (auto simp: check_secret_def split: option.splits)
  let ?sd = "case cr_seed c of None \<Rightarrow> [] | Some sd \<Rightarrow> sd"
  from assms c have "bind_res (totp_text totp) (\<lambda>code. map_sum id (map_option Some) (verify_totp ?sd code (cr_step c) now)) = Inr (Some (Some step))"
    by (simp add: check_secret_def Let_def split: if_splits)
  then obtain code where v: "totp_text totp = Inr code" "map_sum id (map_option Some) (verify_totp ?sd code (cr_step c) now) = Inr (Some (Some step))"
    by (auto simp: bind_res_Inr_iff)
  then have "verify_totp ?sd code (cr_step c) now = Inr (Some step)"
    by (cases "verify_totp ?sd code (cr_step c) now") auto
  then show ?thesis using that [OF c _ v(1)] verify_totp_Some(1) by blast
qed

lemma case_lift: "(case r of None \<Rightarrow> ret None | Some r \<Rightarrow> lift_res (g r)) = lift_res (case r of None \<Rightarrow> Inr None | Some r \<Rightarrow> g r)"
  by (auto simp: lift_res_def ret_def fun_eq_iff split: option.splits)

lemma cred_by_attempt [simp]: "cred_by pid (s\<lparr>gw_attempts := x\<rparr>) = cred_by pid s"
  by (simp add: cred_by_def)

lemma check_login_events [gw_across]: "across P (gw_events K now) (check_login scrypt now username password totp ip)"
proof -
  let ?R = "gw_events K now"
  let ?few = "\<lambda>s. length (fails_where now (\<lambda>r. la_ip r = ip) s) < IP_FAIL_LIMIT"
  let ?kept = "\<lambda>r cred s. (case r of None \<Rightarrow> None | Some r \<Rightarrow> cred_by (pe_id r) s) = cred"
  have stepped: "across (\<lambda>s. cred_by pid s = Some c) ?R (writes (\<lambda>s. if step = 0 then s
      else s\<lparr>gw_creds := map (\<lambda>c. if cr_person c = pid then c\<lparr>cr_step := step\<rparr> else c) (gw_creds s)\<rparr>))"
    if "cr_step c < step" for pid c step
    using that by (intro ev.across_writes) (auto intro: one_event E_cred_step)
  have tail: "across (?kept r cred) ?R (case r of
         Some p \<Rightarrow> if ok then
             (case res of Some (Some step) \<Rightarrow>
                also_do (writes (\<lambda>s. if step = 0 then s else s\<lparr>gw_creds := map (\<lambda>c. if cr_person c = pe_id p then c\<lparr>cr_step := step\<rparr> else c) (gw_creds s)\<rparr>))
                  (ret (p, Some step))
              | _ \<Rightarrow> ret (p, None))
           else also_do (audit now ''login_failed'' (who_is (Some (pe_id p)) ip) (Some acc) JNull JNull False) (fail bad_login)
       | None \<Rightarrow> also_do (audit now ''login_failed'' (who_is None ip) (Some acc) JNull JNull False) (fail bad_login))"
    if "(case r of None \<Rightarrow> Inr None | Some r \<Rightarrow> map_sum Gw_crash id (check_secret scrypt now r cred password totp)) = Inr res" for r cred res ok acc
  proof (cases r)
    case None
    then show ?thesis by (simp add: across_seq audit_events ev.across_basic)
  next
    case (Some p)
    have cs: "check_secret scrypt now p cred password totp = Inr res"
      using that Some by (cases "check_secret scrypt now p cred password totp") auto
    show ?thesis
    proof (cases "\<exists>step. res = Some (Some step)")
      case True
      then obtain step where res: "res = Some (Some step)" by blast
      then obtain c where c: "cred = Some c" "cr_step c < step" using check_secret_step cs by blast
      show ?thesis using stepped [OF c(2), of "pe_id p"] c(1)
        by (auto simp: Some res intro!: across_seq audit_events ev.across_basic)
    next
      case False
      then show ?thesis
        by (auto simp: Some intro!: across_seq audit_events ev.across_basic split: option.splits)
    qed
  qed
  show ?thesis unfolding check_login_def Let_def case_lift add_attempt_def
  proof (intro across_throttle ev.across_read ev.across_lift, goal_cases)
    case (1 r cred res)
    show ?case
    proof (rule ev.across_write [where Q = "?kept r cred"])
      show "across (?kept r cred) ?R (case r of
         Some p \<Rightarrow> if (case r of None \<Rightarrow> False | Some r \<Rightarrow> res \<noteq> None \<and> pe_active r \<and> pe_web r) then
             (case res of Some (Some step) \<Rightarrow>
                also_do (writes (\<lambda>s. if step = 0 then s else s\<lparr>gw_creds := map (\<lambda>c. if cr_person c = pe_id p then c\<lparr>cr_step := step\<rparr> else c) (gw_creds s)\<rparr>))
                  (ret (p, Some step))
              | _ \<Rightarrow> ret (p, None))
           else also_do (audit now ''login_failed'' (who_is (Some (pe_id p)) ip) (Some (account_of username)) JNull JNull False) (fail bad_login)
       | None \<Rightarrow> also_do (audit now ''login_failed'' (who_is None ip) (Some (account_of username)) JNull JNull False) (fail bad_login))"
        by (rule tail [OF 1])
    qed (auto intro!: one_event E_login_attempt split: option.splits)
  qed simp
qed

lemma login_events [gw_across]: "across P (gw_events K now) (login scrypt now raw csrf username password totp ip)"
  unfolding login_def
  by (intro ev.across_bind [OF check_login_events] ev.across_pair across_seq insert_session_events audit_events
        ev.across_bind [OF session_view_events] ev.across_basic) simp_all

lemma new_phone_simps [simp]: "\<not> ph_revoked (new_phone now i raw pid label platform dev)" "ph_person (new_phone now i raw pid label platform dev) = pid"
  by (simp_all add: new_phone_def)

lemma bindg_fail: "bindg (bindg m (\<lambda>_. fail e)) f = bindg m (\<lambda>_. fail e)"
  by (auto simp: bindg_def fun_eq_iff split: prod.splits sum.splits)

lemma app_login_events [gw_across]: "across P (gw_events K now) (app_login scrypt now raw tok ukey username password totp dev ip)"
proof -
  let ?R = "gw_events K now"
  have "across (\<lambda>s. phones_full now (pe_id r) s = full) ?R
      (also_do (if full then also_do (audit now x y z JNull u False) (fail e) else ret ()) (also_do (insert_phone (new_phone now i raw (pe_id r) label pl dev)) m))"
    if "across anywhere ?R m" for r full x y z u e i label pl and m :: "json gwm"
  proof (cases full)
    case True
    then show ?thesis by (auto simp: bindg_fail intro!: across_seq audit_events ev.across_basic)
  next
    case False
    then show ?thesis by (auto intro!: ev.across_bind insert_phone_events that)
  qed
  note new = this
  show ?thesis unfolding app_login_def Let_def
    apply (intro ev.across_lift ev.across_bind [OF check_login_events] ev.across_pair ev.across_read)
    apply (rule across_weaken, rule new)
     apply (intro ev.across_bind new_update_key_events audit_events ev.across_basic)
    apply simp
    done
qed

lemma mint_update_key_events [gw_across]: "across P (gw_events K now) (mint_update_key now tok a)"
  unfolding mint_update_key_def
  by (intro ev.across_option ev.across_basic ev.across_bind new_update_key_events audit_events)

lemma app_logout_events [gw_across]: "across P (gw_events K now) (app_logout now a)"
  unfolding app_logout_def by (intro ev.across_option ev.across_basic across_seq close_phone_events audit_events)

lemma create_app_session_events [gw_across]: "across P (gw_events K now) (create_app_session now raw csrf a ip)"
  unfolding create_app_session_def
  by (intro ev.across_option ev.across_basic ev.across_bind [OF ev.across_basic(3)] across_seq drop_sessions_events insert_session_events audit_events
        ev.across_bind [OF session_view_events] ev.across_pair) simp_all

lemma session_principal_events [gw_across]: "across P (gw_events K now) (session_principal now raw)"
proof -
  have seen: "across Q (gw_events K now) (writes (\<lambda>s. if 60 < now - x then s\<lparr>gw_sessions := map (\<lambda>r. if ss_id r = sid then r\<lparr>ss_last := now\<rparr> else r) (gw_sessions s)\<rparr> else s))"
    for Q x sid by (rule ev.across_writes) (auto intro: one_event E_session_seen)
  show ?thesis unfolding session_principal_def Let_def
    by (intro ev.across_If ev.across_basic ev.across_bind [OF ev.across_basic(3)] ev.across_option across_seq drop_sessions_events seen)
qed

lemma logout_events [gw_across]: "across P (gw_events K now) (logout now a)"
  unfolding logout_def by (intro ev.across_option ev.across_If ev.across_basic across_seq drop_sessions_events audit_events)

section \<open>Enrolment and phones\<close>

lemma insert_code_events [gw_across]:
  "K_code \<in> K \<Longrightarrow> (\<And>s. P s \<Longrightarrow> \<forall>c\<in>set (gw_codes s). ec_person c = ec_person r \<longrightarrow> ec_used c) \<Longrightarrow> ec_expires r = now + ENROL_TTL_S \<Longrightarrow>
   across P (gw_events K now) (insert_code r)"
  unfolding insert_code_def
  by (intro ev.across_read ev.across_ensure ev.across_writes one_event [OF E_code_new]) auto

lemma all_codes_void:
  "\<forall>c\<in>set (map (\<lambda>r. if ec_person r = pid \<and> \<not> ec_used r then r\<lparr>ec_used := True\<rparr> else r) cs). ec_person c = pid \<longrightarrow> ec_used c"
proof -
  have "list_all (\<lambda>c. ec_person c = pid \<longrightarrow> ec_used c) (map (\<lambda>r. if ec_person r = pid \<and> \<not> ec_used r then r\<lparr>ec_used := True\<rparr> else r) cs)"
    by (induction cs) simp_all
  then show ?thesis unfolding list_all_iff .
qed

lemma void_codes_then:
  "across (\<lambda>s. \<forall>c\<in>set (gw_codes s). ec_person c = pid \<longrightarrow> ec_used c) (gw_events K now) m \<Longrightarrow>
   across P (gw_events K now) (also_do (writes (\<lambda>s. s\<lparr>gw_codes := map (\<lambda>r. if ec_person r = pid \<and> \<not> ec_used r then r\<lparr>ec_used := True\<rparr> else r) (gw_codes s)\<rparr>)) m)"
proof -
  let ?k = "\<lambda>s. s\<lparr>gw_codes := map (\<lambda>r. if ec_person r = pid \<and> \<not> ec_used r then r\<lparr>ec_used := True\<rparr> else r) (gw_codes s)\<rparr>"
  assume m: "across (\<lambda>s. \<forall>c\<in>set (gw_codes s). ec_person c = pid \<longrightarrow> ec_used c) (gw_events K now) m"
  have k: "gw_events K now s (?k s)" for s by (rule one_event [OF E_codes_use])
  have q: "\<forall>c\<in>set (gw_codes (?k s)). ec_person c = pid \<longrightarrow> ec_used c" for s
  proof -
    have "gw_codes (?k s) = map (\<lambda>r. if ec_person r = pid \<and> \<not> ec_used r then r\<lparr>ec_used := True\<rparr> else r) (gw_codes s)" by simp
    then show ?thesis using all_codes_void [of pid "gw_codes s"] by (simp only:)
  qed
  show ?thesis by (rule ev.across_write [OF k q m])
qed

lemma create_enrolment_code_events [gw_across]: "K_code \<in> K \<Longrightarrow> across P (gw_events K now) (create_enrolment_code now raw code_id a pid)"
  unfolding create_enrolment_code_def
  apply (rule ev.across_bind [OF person_get_events])
  apply (rule ev.across_ensure)
  apply (rule ev.across_bind [OF ev.across_basic(3)])
  apply (rule ev.across_ensure)
  apply (rule across_seq, rule ev.across_tx, rule void_codes_then, rule insert_code_events)
    apply simp_all
  apply (rule across_seq, rule audit_events, rule ev.across_basic)
  done

lemma phones_full_codes: "phones_full now p (s\<lparr>gw_codes := x\<rparr>) = phones_full now p s"
  by (simp add: phones_full_def active_phones_def)

lemma use_code_then:
  assumes "\<And>s. P s \<Longrightarrow> \<not> phones_full now (ph_person r) s" "\<not> ph_revoked r"
  shows "across P (gw_events K now) (tx (bindg (reads g) (\<lambda>fresh. also_do (ensure fresh e)
     (also_do (writes (\<lambda>s. s\<lparr>gw_codes := map (\<lambda>c. if ec_id c = i then c\<lparr>ec_used := True\<rparr> else c) (gw_codes s)\<rparr>)) (insert_phone r)))))"
proof (intro ev.across_tx ev.across_read ev.across_ensure)
  fix fresh
  show "across (\<lambda>s. P s \<and> g s = fresh) (gw_events K now)
     (also_do (writes (\<lambda>s. s\<lparr>gw_codes := map (\<lambda>c. if ec_id c = i then c\<lparr>ec_used := True\<rparr> else c) (gw_codes s)\<rparr>)) (insert_phone r))"
  proof (rule ev.across_write [where Q = "\<lambda>s. \<not> phones_full now (ph_person r) s"])
    fix s
    show "gw_events K now s (s\<lparr>gw_codes := map (\<lambda>c. if ec_id c = i then c\<lparr>ec_used := True\<rparr> else c) (gw_codes s)\<rparr>)"
      by (rule one_event [OF E_codes_use])
    assume "P s \<and> g s = fresh"
    then show "\<not> phones_full now (ph_person r) (s\<lparr>gw_codes := map (\<lambda>c. if ec_id c = i then c\<lparr>ec_used := True\<rparr> else c) (gw_codes s)\<rparr>)"
      using assms(1) phones_full_codes by (simp only:) blast
  qed (rule insert_phone_events [OF assms(2)], assumption)
qed

lemma across_count:
  "across (\<lambda>s. P s \<and> f s < n) R m \<Longrightarrow> (\<And>s. R s s) \<Longrightarrow> across P R (bindg (reads f) (\<lambda>bad. also_do (ensure (bad < n) e) m))"
  by (auto simp: across_def ensure_def)

lemma enrol_events [gw_across]: "across P (gw_events K now) (enrol now raw tok code dev ip)"
proof -
  let ?R = "gw_events K now"
  let ?few = "\<lambda>s. length (filter (\<lambda>r. \<not> la_ok r \<and> la_account r = ''enrol'' \<and> la_ip r = ip \<and> now - GW_FAIL_WINDOW < la_ts r) (gw_attempts s)) < ENROL_FAIL_LIMIT"
  have refused: "across Q ?R (also_do (add_attempt now ip ''enrol'' False) (also_do (audit now a w t b c ok) (fail e)))"
    if "\<And>s. Q s \<Longrightarrow> ?few s" for Q a w t b c ok and e
    unfolding add_attempt_def
    by (intro ev.across_bind ev.across_writes one_event [OF E_enrol_attempt] audit_events ev.across_basic that)
  have given: "across Q ?R (bindg (reads (person_by pid)) (\<lambda>p. case p of None \<Rightarrow> fail e1 | Some p \<Rightarrow>
       also_do (ensure (pe_active p) e2)
       (bindg (reads (phones_full now (pe_id p))) (\<lambda>full.
       also_do (ensure (\<not> full) e3)
       (also_do (tx (bindg (reads (\<lambda>s. \<exists>c\<in>set (gw_codes s). ec_id c = i \<and> \<not> ec_used c)) (\<lambda>fresh.
          also_do (ensure fresh e4)
          (also_do (writes (\<lambda>s. s\<lparr>gw_codes := map (\<lambda>c. if ec_id c = i then c\<lparr>ec_used := True\<rparr> else c) (gw_codes s)\<rparr>))
            (insert_phone (new_phone now i2 raw (pe_id p) label pl dev))))))
       (also_do (audit now a (w p) t JNull JNull True) (ret (res p))))))))" for Q pid i i2 label pl a w t e1 e2 e3 e4 and res :: "person_row \<Rightarrow> json"
    by (intro ev.across_read ev.across_option ev.across_basic ev.across_ensure across_seq audit_events use_code_then) auto
  show ?thesis unfolding enrol_def Let_def
  proof (intro across_count ev.across_lift ev.across_read, goal_cases)
    case (1 label r)
    show ?case
    proof (cases r)
      case None
      then show ?thesis by (simp only: option.case bindg_simps(1)) (rule refused, simp)
    next
      case (Some r')
      show ?thesis
      proof (cases "ec_used r' \<or> ec_expires r' < now")
        case True
        with Some show ?thesis by (simp only: option.case if_True bindg_simps(1)) (rule refused, simp)
      next
        case False
        with Some show ?thesis by (simp only: option.case if_False bindg_simps(1)) (rule given)
      qed
    qed
  qed simp
qed

lemma phone_principal_events [gw_across]: "across P (gw_events K now) (phone_principal now raw)"
proof -
  have seen: "across Q (gw_events K now) (writes (\<lambda>s. if ph_seen r = 0 \<or> 60 < now - ph_seen r
         then s\<lparr>gw_phones := map (\<lambda>x. if ph_id x = ph_id r then x\<lparr>ph_seen := now, ph_expires := now + PHONE_SLIDING_S\<rparr> else x) (gw_phones s)\<rparr> else s))"
    if "\<not> ph_revoked r" "now \<le> ph_expires r" "\<And>s. Q s \<Longrightarrow> r \<in> set (gw_phones s)" for Q r
  proof (rule ev.across_writes)
    fix s
    assume "Q s"
    then have "gw_event K now s (s\<lparr>gw_phones := map (\<lambda>x. if ph_id x = ph_id r then x\<lparr>ph_seen := now, ph_expires := now + PHONE_SLIDING_S\<rparr> else x) (gw_phones s)\<rparr>)"
      by (rule E_phone_seen [OF that(3) that(1,2)])
    then show "gw_events K now s (if ph_seen r = 0 \<or> 60 < now - ph_seen r
         then s\<lparr>gw_phones := map (\<lambda>x. if ph_id x = ph_id r then x\<lparr>ph_seen := now, ph_expires := now + PHONE_SLIDING_S\<rparr> else x) (gw_phones s)\<rparr> else s)"
      by (simp add: one_event)
  qed
  show ?thesis unfolding phone_principal_def
    by (intro ev.across_If ev.across_basic ev.across_read ev.across_option across_seq seen) (auto dest: find_Some_iff_in)
qed

lemma revoke_phone_events [gw_across]: "across P (gw_events K now) (revoke_phone now a i)"
  unfolding revoke_phone_def
  by (intro ev.across_read ev.across_option ev.across_basic ev.across_ensure across_seq close_phone_events audit_events)

section \<open>Requests\<close>

lemma bad_events [gw_across]: "across P (gw_events K now) (writes (prune_bad t ip))" "across P (gw_events K now) (writes (add_bad t ip))"
    "across P (gw_events K now) (writes (\<lambda>s. if b then s else add_bad t ip s))"
  by (rule quiet_event, simp add: prune_bad_def add_bad_def)+

lemma authenticate_events [gw_across]: "across P (gw_events K now) (gw_authenticate now rq csrf)"
  unfolding gw_authenticate_def Let_def
  by (intro across_seq bad_events ev.across_If ev.across_bind [OF ev.across_basic(3)] ev.across_bind [OF phone_principal_events]
        ev.across_bind [OF session_principal_events] ev.across_option ev.across_basic)

lemma authenticate_update_events [gw_across]: "across P (gw_events K now) (authenticate_update now rq)"
  unfolding authenticate_update_def
  by (intro across_seq bad_events ev.across_bind ev.across_If ev.across_basic phone_principal_events
        session_principal_events ev.across_option)

lemma admin_web_events [gw_across]: "across P (gw_events K now) (admin_web now rq csrf)"
  unfolding admin_web_def need_def need_web_def by (intro ev.across_bind authenticate_events ev.across_basic)

lemma idem_events [gw_across]: "across anywhere (gw_events K now) handler \<Longrightarrow> across P (gw_events K now) (idem now rq p route required bytes handler)"
proof -
  assume h: "across anywhere (gw_events K now) handler"
  have w: "across Q (gw_events K now) (writes (\<lambda>s. s\<lparr>gw_idem := f s\<rparr>))" for Q f by (rule quiet_event) simp
  have w': "across Q (gw_events K now) (writes (\<lambda>s. if b s then s else s\<lparr>gw_idem := f s\<rparr>))" for Q f b by (rule quiet_event) simp
  show ?thesis unfolding idem_def Let_def
    by (intro ev.across_option ev.across_If ev.across_basic across_anywhere [OF h] across_seq w ev.across_bind [OF ev.across_basic(3)]
          ev.across_bind [OF h] ev.across_pair w')
qed

lemma answer_events: "across P (gw_events K now) (idem_answer x)"
  by (simp add: idem_answer_def ev.across_basic)

lemma need_web_events: "across P (gw_events K now) (need_web p)"
  unfolding need_web_def by (rule ev.across_basic)

lemmas request_rules = answer_events need_web_events ev.across_bind ev.across_basic ev.across_pair ev.across_If

text \<open>What a route may do; no handler stores or removes credentials.\<close>

fun route_kinds :: "gw_route \<Rightarrow> gw_kind set" where
  "route_kinds R_people_create = {K_person}"
| "route_kinds R_people_patch = {K_person}"
| "route_kinds R_enrol_code = {K_code}"
| "route_kinds R_setup_link = {K_link}"
| "route_kinds _ = {}"

lemma handler_events [gw_across]:
  assumes K: "route_kinds route \<subseteq> K"
  shows "across P (gw_events K (ge_now ev)) (gw_handler cf route ev rq)"
proof (cases route)
  case R_login
  then show ?thesis by (simp add: api_login_def) (intro request_rules login_events)
next
  case R_logout
  then show ?thesis by (simp add: api_logout_def) (intro request_rules authenticate_events logout_events)
next
  case R_session
  then show ?thesis by (simp add: api_session_def) (intro request_rules authenticate_events session_view_events)
next
  case R_app_login
  then show ?thesis by (simp add: api_app_login_def Let_def) (intro request_rules app_login_events)
next
  case R_app_logout
  then show ?thesis by (simp add: api_app_logout_def bearer_only_def) (intro request_rules authenticate_events app_logout_events)
next
  case R_app_session
  then show ?thesis by (simp add: api_app_session_def bearer_only_def) (intro request_rules authenticate_events create_app_session_events)
next
  case R_update_key
  then show ?thesis by (simp add: api_update_key_def) (intro request_rules authenticate_events mint_update_key_events)
next
  case R_enrol
  then show ?thesis by (simp add: api_enrol_def Let_def) (intro request_rules enrol_events)
next
  case R_people_list
  then show ?thesis by (simp add: api_people_list_def) (intro request_rules admin_web_events)
next
  case R_people_create
  with K show ?thesis by (simp add: api_people_create_def, intro request_rules admin_web_events idem_events person_create_events) auto
next
  case R_people_patch
  with K show ?thesis by (simp add: api_people_patch_def, intro request_rules admin_web_events idem_events person_patch_events) auto
next
  case R_enrol_code
  with K show ?thesis by (simp add: api_enrol_code_def Let_def, intro request_rules admin_web_events idem_events create_enrolment_code_events) auto
next
  case R_setup_link
  with K show ?thesis by (simp add: api_setup_link_def Let_def, intro request_rules admin_web_events idem_events create_setup_link_events) auto
next
  case R_phones_list
  then show ?thesis by (simp add: api_phones_list_def) (intro request_rules authenticate_events)
next
  case R_phone_revoke
  then show ?thesis by (simp add: api_phone_revoke_def Let_def need_web_def) (intro request_rules authenticate_events idem_events revoke_phone_events)
next
  case R_audit
  then show ?thesis by (simp add: api_audit_def Let_def) (intro request_rules authenticate_events)
qed

end
