(* ===== verification/Gw_Pages.thy ===== *)
theory Gw_Pages
  imports Gw_Events
begin

text \<open>
  The other ways into the methods of \<open>People\<close>: the sign-in and setup pages of \<open>gw/web.py\<close> and the
  commands of \<open>gw/ctl.py\<close>; then everything the gateway may be asked to do with identities, as
  operations, and runs of them.  A page is its status and cookie; a form is what \<open>parse_qs\<close> makes of it.
\<close>

section \<open>Pages\<close>

type_synonym form = "(string \<times> string) list"

definition form_get :: "form \<Rightarrow> string \<Rightarrow> string" where
  "form_get f k = (case map_of f k of None \<Rightarrow> [] | Some v \<Rightarrow> v)"

definition page_reply :: "nat \<Rightarrow> string option \<Rightarrow> gw_reply" where
  "page_reply status cookie = \<lparr>rp_status = status, rp_json = None, rp_cookie = cookie\<rparr>"

definition same_origin :: "gw_request \<Rightarrow> bool" where
  "same_origin rq \<longleftrightarrow> gr_header rq ''sec-fetch-site'' \<in> {None, Some ''same-origin'', Some ''none''}"

text \<open>\<open>try ... except GwError\<close>: other exceptions go on.\<close>

definition on_error :: "'a gwm \<Rightarrow> (nat \<Rightarrow> 'a gwm) \<Rightarrow> 'a gwm" where
  "on_error m h s = (case m s of (Inl (Gw_error status c msg d), t) \<Rightarrow> h status t | r \<Rightarrow> r)"

definition page_login :: "kdf \<Rightarrow> gw_env \<Rightarrow> gw_request \<Rightarrow> form \<Rightarrow> gw_reply gwm" where \<comment> \<open>\<open>login_post\<close>\<close>
  "page_login scrypt ev rq f =
     (if \<not> same_origin rq then ret (page_reply 403 None)
      else on_error (bindg (login scrypt (ge_now ev) (ge_raw ev) (ge_csrf ev) (form_get f ''username'') (form_get f ''password'')
          (JStr (form_get f ''totp'')) (gr_ip rq)) (\<lambda>(raw, v). ret (page_reply 303 (Some raw))))
        (\<lambda>status. ret (page_reply status None)))"

text \<open>\<open>me_or_redirect\<close>: the principal of a web session, or none, which sends the browser to the sign-in page.\<close>

definition me_or_redirect :: "gw_env \<Rightarrow> gw_request \<Rightarrow> principal option gwm" where
  "me_or_redirect ev rq = bindg (on_error (bindg (gw_authenticate (ge_now ev) rq False) (\<lambda>p. ret (Some p))) (\<lambda>_. ret None))
     (\<lambda>p. ret (case p of Some p \<Rightarrow> if pr_via p = ''session'' then Some p else None | None \<Rightarrow> None))"

definition page_logout :: "gw_env \<Rightarrow> gw_request \<Rightarrow> form \<Rightarrow> gw_reply gwm" where \<comment> \<open>\<open>logout_post\<close>\<close>
  "page_logout ev rq f = bindg (me_or_redirect ev rq) (\<lambda>p. case p of
     None \<Rightarrow> ret (page_reply 303 None)
   | Some p \<Rightarrow> if map_of f ''csrf'' \<noteq> Some (pr_csrf p) then ret (page_reply 403 None)
       else also_do (logout (ge_now ev) p) (ret (page_reply 303 (Some []))))"

definition page_setup :: "gw_env \<Rightarrow> string \<Rightarrow> gw_reply gwm" where \<comment> \<open>\<open>setup_get\<close>\<close>
  "page_setup ev raw = on_error (bindg (setup_begin (ge_now ev) (ge_tok ev) raw) (\<lambda>_. ret (page_reply 200 None))) (\<lambda>_. ret (page_reply 410 None))"

definition page_setup_post :: "kdf \<Rightarrow> gw_env \<Rightarrow> string \<Rightarrow> gw_request \<Rightarrow> form \<Rightarrow> gw_reply gwm" where \<comment> \<open>\<open>setup_post\<close>\<close>
  "page_setup_post scrypt ev raw rq f =
     on_error (also_do (setup_complete scrypt (ge_salt ev) (ge_now ev) raw (form_get f ''password'') (form_get f ''code'') (gr_ip rq)) (ret (page_reply 200 None)))
       (\<lambda>status. if status = 410 then ret (page_reply 410 None)
          else bindg (setup_begin (ge_now ev) (ge_tok ev) raw) (\<lambda>_. ret (page_reply 422 None)))"

section \<open>Commands\<close>

definition ACTOR :: principal where
  "ACTOR = \<lparr>pr_person = ''gwctl'', pr_name = [], pr_role = ''admin'', pr_parent = False, pr_phone = None, pr_app = False, pr_via = [],
     pr_csrf = [], pr_sid = None, pr_ip = Some ''local''\<rparr>"

text \<open>\<open>main\<close> on the arguments after the program's name, for the commands on people and phones and the check of
  the audit: the exit status.  The files it writes and what it prints are left out, and so are the arguments
  \<open>release \<dots>\<close>, which belong to the releases.\<close>

definition ctl_person :: "gw_env \<Rightarrow> string list \<Rightarrow> nat gwm" where
  "ctl_person ev a =
     (let now = ge_now ev; sub = hd a in
      if sub = ''list'' then ret 0
      else if sub = ''add'' \<and> 3 \<le> length a then
        bindg (person_create now ACTOR (JStr (a ! 1)) (JStr (a ! 2)) (''--parent'' \<in> set a) None) (\<lambda>_. ret 0)
      else if sub \<in> {''disable'', ''enable''} \<and> length a = 2 then
        bindg (person_patch now ACTOR (a ! 1) [(''active'', JBool (sub = ''enable''))]) (\<lambda>_. ret 0)
      else if sub = ''role'' \<and> length a = 3 then
        bindg (person_patch now ACTOR (a ! 1) [(''role'', JStr (a ! 2))]) (\<lambda>_. ret 0)
      else if sub = ''web-login'' \<and> length a = 3 \<and> a ! 2 \<in> {''on'', ''off''} then
        bindg (person_patch now ACTOR (a ! 1) [(''web_login_enabled'', JBool (a ! 2 = ''on''))]) (\<lambda>_. ret 0)
      else ret 2)"

definition ctl_command :: "gw_env \<Rightarrow> string \<Rightarrow> string list \<Rightarrow> nat gwm" where
  "ctl_command ev cmd a =
     (let now = ge_now ev in
      if cmd = ''bootstrap'' then
        bindg (reads (people_list now)) (\<lambda>ps. if ps \<noteq> [] then ret 0 else
          bindg (person_create now ACTOR (JStr ''Ivan'') (JStr ''admin'') True None) (\<lambda>_.
          bindg (person_create now ACTOR (JStr ''Dasha'') (JStr ''household'') True (Some False)) (\<lambda>_.
          bindg (create_setup_link now (ge_raw ev) (ge_id ev) ACTOR ''ivan'') (\<lambda>_. ret 0))))
      else if cmd = ''person'' \<and> a \<noteq> [] then ctl_person ev a
      else if cmd \<in> {''setup-link'', ''reset-credentials''} \<and> length a = 1 then
        also_do (if cmd = ''reset-credentials'' then reset_credentials now ACTOR (a ! 0) else ret ())
          (bindg (create_setup_link now (ge_raw ev) (ge_id ev) ACTOR (a ! 0)) (\<lambda>_. ret 0))
      else if cmd = ''enrol-code'' \<and> length a = 1 then
        bindg (create_enrolment_code now (ge_raw ev) (ge_id ev) ACTOR (a ! 0)) (\<lambda>_. ret 0)
      else if cmd = ''phones'' then ret 0
      else if cmd = ''phone-revoke'' \<and> length a = 1 then
        also_do (revoke_phone now ACTOR (a ! 0)) (ret 0)
      else if cmd = ''audit'' then (if a \<noteq> [] \<and> py_int (hd a) = None then fail (Gw_crash ValueError) else ret 0)
      else if cmd = ''clean-out'' then ret 0
      else if cmd = ''verify'' then reads (\<lambda>s. if fst (gw_verify s) then 0 else 1)
      else ret 2)"

definition ctl_main :: "gw_env \<Rightarrow> string list \<Rightarrow> nat gwm" where
  "ctl_main ev args = (if args = [] \<or> hd args \<in> {''-h'', ''--help'', ''help''} then ret 2
     else on_error (ctl_command ev (hd args) (tl args)) (\<lambda>_. ret 1))"

section \<open>Operations and runs\<close>

datatype gw_op =
    Http gw_route gw_env gw_request
  | Update_path gw_env gw_request
  | Page_login gw_env gw_request form
  | Page_logout gw_env gw_request form
  | Page_setup gw_env string
  | Page_setup_post gw_env string gw_request form
  | Ctl gw_env "string list"

fun op_now :: "gw_op \<Rightarrow> rat" where
  "op_now (Http route ev rq) = ge_now ev"
| "op_now (Update_path ev rq) = ge_now ev"
| "op_now (Page_login ev rq f) = ge_now ev"
| "op_now (Page_logout ev rq f) = ge_now ev"
| "op_now (Page_setup ev raw) = ge_now ev"
| "op_now (Page_setup_post ev raw rq f) = ge_now ev"
| "op_now (Ctl ev args) = ge_now ev"

fun gw_exec :: "gw_conf \<Rightarrow> gw_op \<Rightarrow> gw \<Rightarrow> gw" where
  "gw_exec cf (Http route ev rq) s = snd (gw_serve cf route ev rq s)"
| "gw_exec cf (Update_path ev rq) s = snd (authenticate_update (ge_now ev) rq s)"
| "gw_exec cf (Page_login ev rq f) s = snd (page_login (gc_scrypt cf) ev rq f s)"
| "gw_exec cf (Page_logout ev rq f) s = snd (page_logout ev rq f s)"
| "gw_exec cf (Page_setup ev raw) s = snd (page_setup ev raw s)"
| "gw_exec cf (Page_setup_post ev raw rq f) s = snd (page_setup_post (gc_scrypt cf) ev raw rq f s)"
| "gw_exec cf (Ctl ev args) s = snd (ctl_main ev args s)"

definition gw_run :: "gw_conf \<Rightarrow> gw_op list \<Rightarrow> gw \<Rightarrow> gw" where
  "gw_run cf ops s = fold (gw_exec cf) ops s"

text \<open>What an operation may do beyond the events every operation may do.\<close>

fun op_kinds :: "gw_op \<Rightarrow> gw_kind set" where
  "op_kinds (Http route ev rq) = route_kinds route"
| "op_kinds (Page_setup_post ev raw rq f) = {K_cred}"
| "op_kinds (Ctl ev args) = (if args \<noteq> [] \<and> hd args = ''reset-credentials'' then {K_cred, K_link} else {K_person, K_code, K_link})"
| "op_kinds _ = {}"

lemma gw_run_simps [simp]:
  "gw_run cf [] s = s" "gw_run cf (op # ops) s = gw_run cf ops (gw_exec cf op s)" "gw_run cf (xs @ ys) s = gw_run cf ys (gw_run cf xs s)"
  by (simp_all add: gw_run_def)

section \<open>Every operation is a sequence of events\<close>

lemma on_error_events [gw_across]:
  "across P (gw_events K now) m \<Longrightarrow> (\<And>x. across anywhere (gw_events K now) (h x)) \<Longrightarrow> across P (gw_events K now) (on_error m h)"
  unfolding across_def on_error_def by (auto split: prod.splits sum.splits gw_err.splits) (metis rtranclp_trans snd_conv)+

lemma page_login_events [gw_across]: "across P (gw_events K (ge_now ev)) (page_login scrypt ev rq f)"
  unfolding page_login_def by (intro ev.across_If ev.across_basic on_error_events ev.across_bind login_events ev.across_pair)

lemma page_logout_events [gw_across]: "across P (gw_events K (ge_now ev)) (page_logout ev rq f)"
  unfolding page_logout_def me_or_redirect_def
  by (intro ev.across_If ev.across_basic on_error_events ev.across_bind authenticate_events logout_events ev.across_option)

lemma page_setup_events [gw_across]: "across P (gw_events K (ge_now ev)) (page_setup ev raw)"
  unfolding page_setup_def by (intro ev.across_basic on_error_events ev.across_bind setup_begin_events)

lemma page_setup_post_events [gw_across]: "K_cred \<in> K \<Longrightarrow> across P (gw_events K (ge_now ev)) (page_setup_post scrypt ev raw rq f)"
  unfolding page_setup_post_def
  by (intro ev.across_If ev.across_basic on_error_events ev.across_bind setup_begin_events setup_complete_events)

lemma ctl_person_events [gw_across]: "K_person \<in> K \<Longrightarrow> across P (gw_events K (ge_now ev)) (ctl_person ev a)"
  unfolding ctl_person_def Let_def
  by (intro ev.across_If ev.across_basic ev.across_bind person_create_events person_patch_events)

lemma ctl_main_events [gw_across]:
  assumes "op_kinds (Ctl ev args) \<subseteq> K"
  shows "across P (gw_events K (ge_now ev)) (ctl_main ev args)"
proof (cases "args = [] \<or> hd args \<in> {''-h'', ''--help'', ''help''}")
  case True
  then show ?thesis unfolding ctl_main_def by (simp only: if_True ev.across_basic)
next
  case False
  then have m: "ctl_main ev args = on_error (ctl_command ev (hd args) (tl args)) (\<lambda>_. ret 1)" by (simp only: ctl_main_def if_False)
  show ?thesis
  proof (cases "hd args = ''reset-credentials''")
    case True
    then have "K_cred \<in> K" "K_link \<in> K" using assms False by auto
    then show ?thesis unfolding m ctl_command_def Let_def True
      by (intro ev.across_If ev.across_basic on_error_events ev.across_bind reset_credentials_events create_setup_link_events) simp_all
  next
    case noreset: False
    then have K: "K_person \<in> K" "K_code \<in> K" "K_link \<in> K" using assms False by auto
    have "(if hd args = ''reset-credentials'' then reset_credentials (ge_now ev) ACTOR x else ret ()) = ret ()" for x
      using noreset by simp
    with K show ?thesis unfolding m ctl_command_def Let_def
      by (simp only:, intro ev.across_If ev.across_basic on_error_events ev.across_bind person_create_events
            create_setup_link_events ctl_person_events create_enrolment_code_events revoke_phone_events)
  qed
qed

lemma serve_state: "snd (gw_serve cf route ev rq s) = snd (gw_handler cf route ev rq s)"
  by (auto simp: gw_serve_def split: prod.splits sum.splits)

lemma exec_events:
  assumes "op_kinds op \<subseteq> K"
  shows "gw_events K (op_now op) s (gw_exec cf op s)"
proof (cases op)
  case (Http route ev rq)
  then show ?thesis using handler_events [of route K anywhere ev cf rq] assms by (simp add: across_def serve_state)
next
  case (Ctl ev args)
  then show ?thesis using ctl_main_events [of ev args K anywhere] assms by (simp add: across_def)
next
  case (Page_setup_post ev raw rq f)
  then show ?thesis using page_setup_post_events [of K anywhere ev "gc_scrypt cf" raw rq f] assms by (simp add: across_def)
qed (use authenticate_update_events [of anywhere K] page_login_events [of anywhere K] page_logout_events [of anywhere K]
      page_setup_events [of anywhere K] in \<open>simp_all add: across_def\<close>)

text \<open>An invariant of the events is one of the runs; \<open>P\<close> may speak of the clock.\<close>

lemma events_invariant:
  assumes "gw_events K now s t" "P s" "\<And>s t. gw_event K now s t \<Longrightarrow> P s \<Longrightarrow> P t"
  shows "P t"
  using assms(1,2) by (induction rule: rtranclp_induct) (blast intro: assms(3))+

lemma run_invariant:
  assumes "P s" "\<forall>op\<in>set ops. op_kinds op \<subseteq> K" "\<And>now s t. gw_event K now s t \<Longrightarrow> P s \<Longrightarrow> P t"
  shows "P (gw_run cf ops s)"
  using assms(1,2)
proof (induction ops arbitrary: s)
  case (Cons op ops)
  have "gw_events K (op_now op) s (gw_exec cf op s)" using Cons.prems(2) by (intro exec_events) simp
  then have "P (gw_exec cf op s)" using Cons.prems(1) by (rule events_invariant) (rule assms(3))
  then show ?case using Cons.IH Cons.prems(2) by simp
qed simp

lemma run_invariant_all: "P s \<Longrightarrow> (\<And>now s t. gw_event UNIV now s t \<Longrightarrow> P s \<Longrightarrow> P t) \<Longrightarrow> P (gw_run cf ops s)"
  by (rule run_invariant [where K = UNIV]) simp_all

end
