(* ===== verification/Ed25519.thy ===== *)
theory Ed25519
  imports Sha256
begin

text \<open>
  \<open>portal/gateway/gw/ed25519.py\<close>: the signatures of application releases, in integers modulo \<open>P\<close>, with
  SHA-512 on 64-bit words.  Bytes are integers below 256.  Powers are computed by squaring.
\<close>

section \<open>SHA-512\<close>

definition rotr64 :: "nat \<Rightarrow> 64 word \<Rightarrow> 64 word" where
  "rotr64 n x = (drop_bit n x OR push_bit (64 - n) x)"

definition sha512_init :: "64 word list" where
  "sha512_init = [
    7640891576956012808, 13503953896175478587, 4354685564936845355, 11912009170470909681,
    5840696475078001361, 11170449401992604703, 2270897969802886507, 6620516959819538809]"

definition sha512_consts :: "64 word list" where
  "sha512_consts = [
    4794697086780616226, 8158064640168781261, 13096744586834688815, 16840607885511220156,
    4131703408338449720, 6480981068601479193, 10538285296894168987, 12329834152419229976,
    15566598209576043074, 1334009975649890238, 2608012711638119052, 6128411473006802146,
    8268148722764581231, 9286055187155687089, 11230858885718282805, 13951009754708518548,
    16472876342353939154, 17275323862435702243, 1135362057144423861, 2597628984639134821,
    3308224258029322869, 5365058923640841347, 6679025012923562964, 8573033837759648693,
    10970295158949994411, 12119686244451234320, 12683024718118986047, 13788192230050041572,
    14330467153632333762, 15395433587784984357, 489312712824947311, 1452737877330783856,
    2861767655752347644, 3322285676063803686, 5560940570517711597, 5996557281743188959,
    7280758554555802590, 8532644243296465576, 9350256976987008742, 10552545826968843579,
    11727347734174303076, 12113106623233404929, 14000437183269869457, 14369950271660146224,
    15101387698204529176, 15463397548674623760, 17586052441742319658, 1182934255886127544,
    1847814050463011016, 2177327727835720531, 2830643537854262169, 3796741975233480872,
    4115178125766777443, 5681478168544905931, 6601373596472566643, 7507060721942968483,
    8399075790359081724, 8693463985226723168, 9568029438360202098, 10144078919501101548,
    10430055236837252648, 11840083180663258601, 13761210420658862357, 14299343276471374635,
    14566680578165727644, 15097957966210449927, 16922976911328602910, 17689382322260857208,
    500013540394364858, 748580250866718886, 1242879168328830382, 1977374033974150939,
    2944078676154940804, 3659926193048069267, 4368137639120453308, 4836135668995329356,
    5532061633213252278, 6448918945643986474, 6902733635092675308, 7801388544844847127]"

definition ssig0 :: "64 word \<Rightarrow> 64 word" where "ssig0 x = (rotr64 1 x XOR rotr64 8 x XOR drop_bit 7 x)"

definition ssig1 :: "64 word \<Rightarrow> 64 word" where "ssig1 x = (rotr64 19 x XOR rotr64 61 x XOR drop_bit 6 x)"

definition bsig0 :: "64 word \<Rightarrow> 64 word" where "bsig0 x = (rotr64 28 x XOR rotr64 34 x XOR rotr64 39 x)"

definition bsig1 :: "64 word \<Rightarrow> 64 word" where "bsig1 x = (rotr64 14 x XOR rotr64 18 x XOR rotr64 41 x)"

text \<open>As in \<^theory_text>\<open>Sha256\<close>, the schedule grows at its front.\<close>

fun extend_schedule64 :: "nat \<Rightarrow> 64 word list \<Rightarrow> 64 word list" where
  "extend_schedule64 0 ws = ws"
| "extend_schedule64 (Suc n) ws = extend_schedule64 n ((ssig1 (ws ! 1) + ws ! 6 + ssig0 (ws ! 14) + ws ! 15) # ws)"

definition sha512_round :: "64 word list \<Rightarrow> 64 word \<times> 64 word \<Rightarrow> 64 word list" where
  "sha512_round rs kw =
     (let a = rs ! 0; b = rs ! 1; c = rs ! 2; d = rs ! 3; e = rs ! 4; f = rs ! 5; g = rs ! 6; h = rs ! 7;
          t1 = h + bsig1 e + ((e AND f) XOR (NOT e AND g)) + fst kw + snd kw; t2 = bsig0 a + (a AND b XOR a AND c XOR b AND c)
      in [t1 + t2, a, b, c, d + t1, e, f, g])"

definition sha512_block :: "64 word list \<Rightarrow> 64 word list \<Rightarrow> 64 word list" where
  "sha512_block hs ws = map2 (+) hs (foldl sha512_round hs (zip sha512_consts (rev (extend_schedule64 64 (rev ws)))))"

definition sha512_pad :: "int list \<Rightarrow> int list" where
  "sha512_pad bs = (let n = length bs; bits = 8 * int n
     in bs @ 128 # replicate ((239 - n mod 128) mod 128) 0 @ map (\<lambda>i. bits div 256 ^ (15 - i) mod 256) [0..<16])"

definition be_words64 :: "int list \<Rightarrow> 64 word list" where
  "be_words64 bs = map (\<lambda>i. word_of_int (foldl (\<lambda>n b. n * 256 + b) 0 (take 8 (drop (8 * i) bs)))) [0..<length bs div 8]"

definition sha512 :: "int list \<Rightarrow> int list" where
  "sha512 bs = (let ws = be_words64 (sha512_pad bs); hs = foldl sha512_block sha512_init (chunks16 (length ws) ws)
     in concat (map (\<lambda>w. map (\<lambda>i. uint w div 256 ^ (7 - i) mod 256) [0..<8]) hs))"

section \<open>Integers modulo \<open>P\<close>\<close>

definition ED_P :: int where "ED_P = 2 ^ 255 - 19"

definition ED_Q :: int where "ED_Q = 2 ^ 252 + 27742317777372353535851937790883648493"

text \<open>\<open>pow(x, n, m)\<close>.\<close>

function pow_mod :: "int \<Rightarrow> nat \<Rightarrow> int \<Rightarrow> int" where
  "pow_mod x n m = (if n = 0 then 1 mod m
     else if odd n then x * pow_mod (x * x mod m) (n div 2) m mod m else pow_mod (x * x mod m) (n div 2) m)"
  by auto
termination by (relation "measure (\<lambda>(x, n, m). n)") auto

declare pow_mod.simps [simp del]

definition inv_mod :: "int \<Rightarrow> int" where "inv_mod x = pow_mod x (nat (ED_P - 2)) ED_P"

definition ED_D :: int where "ED_D = (- 121665) * pow_mod 121666 (nat (ED_P - 2)) ED_P mod ED_P"

definition SQRT_M1 :: int where "SQRT_M1 = pow_mod 2 (nat ((ED_P - 1) div 4)) ED_P"

section \<open>Points\<close>

text \<open>\<open>(X, Y, Z, T)\<close>: the extended coordinates of the point \<open>(X/Z, Y/Z)\<close>, with \<open>T = X*Y/Z\<close>.\<close>

type_synonym ed_point = "int \<times> int \<times> int \<times> int"

definition pt_add :: "ed_point \<Rightarrow> ed_point \<Rightarrow> ed_point" where
  "pt_add a b = (case (a, b) of ((x1, y1, z1, t1), (x2, y2, z2, t2)) \<Rightarrow>
     let A = (y1 - x1) * (y2 - x2) mod ED_P; B = (y1 + x1) * (y2 + x2) mod ED_P;
         C = 2 * t1 * t2 * ED_D mod ED_P; D' = 2 * z1 * z2 mod ED_P;
         E = B - A; F = D' - C; G = D' + C; H = B + A
     in (E * F mod ED_P, G * H mod ED_P, F * G mod ED_P, E * H mod ED_P))"

function mul_loop :: "nat \<Rightarrow> ed_point \<Rightarrow> ed_point \<Rightarrow> ed_point" where
  "mul_loop s r pt = (if s = 0 then r else mul_loop (s div 2) (if odd s then pt_add r pt else r) (pt_add pt pt))"
  by auto
termination by (relation "measure (\<lambda>(s, r, pt). s)") auto

declare mul_loop.simps [simp del]

definition pt_mul :: "int \<Rightarrow> ed_point \<Rightarrow> ed_point" where
  "pt_mul s pt = mul_loop (nat s) (0, 1, 1, 0) pt"

fun pt_equal :: "ed_point \<Rightarrow> ed_point \<Rightarrow> bool" where
  "pt_equal (x1, y1, z1, t1) (x2, y2, z2, t2) \<longleftrightarrow> (x1 * z2 - x2 * z1) mod ED_P = 0 \<and> (y1 * z2 - y2 * z1) mod ED_P = 0"

definition recover_x :: "int \<Rightarrow> int \<Rightarrow> int option" where
  "recover_x y sb =
     (if ED_P \<le> y then None
      else let x2 = (y * y - 1) * inv_mod (ED_D * y * y + 1) in
        if x2 = 0 then (if sb \<noteq> 0 then None else Some 0)
        else let x = pow_mod x2 (nat ((ED_P + 3) div 8)) ED_P;
                 x = (if (x * x - x2) mod ED_P \<noteq> 0 then x * SQRT_M1 mod ED_P else x)
             in if (x * x - x2) mod ED_P \<noteq> 0 then None else if x AND 1 \<noteq> sb then Some (ED_P - x) else Some x)"

definition GY :: int where "GY = 4 * inv_mod 5 mod ED_P"

definition base_point :: ed_point where
  "base_point = (let x = the (recover_x GY 0) in (x, GY, 1, x * GY mod ED_P))"

section \<open>Bytes\<close>

definition le_bytes :: "nat \<Rightarrow> int \<Rightarrow> int list" where
  "le_bytes k n = map (\<lambda>i. n div 256 ^ i mod 256) [0..<k]"

definition le_int :: "int list \<Rightarrow> int" where
  "le_int bs = foldr (\<lambda>b n. b + 256 * n) bs 0"

fun compress_pt :: "ed_point \<Rightarrow> int list" where
  "compress_pt (x, y, z, t) = (let zinv = inv_mod z; x' = x * zinv mod ED_P; y' = y * zinv mod ED_P
     in le_bytes 32 (y' OR push_bit 255 (x' AND 1)))"

definition decompress_pt :: "int list \<Rightarrow> ed_point option" where
  "decompress_pt s =
     (if length s \<noteq> 32 then None
      else let n = le_int s; sb = drop_bit 255 n; y = n AND (2 ^ 255 - 1)
        in map_option (\<lambda>x. (x, y, 1, x * y mod ED_P)) (recover_x y sb))"

section \<open>Keys and signatures\<close>

definition expand :: "int list \<Rightarrow> (int \<times> int list) option" where \<comment> \<open>\<open>None\<close>: \<open>ValueError\<close>\<close>
  "expand seed = (if length seed \<noteq> 32 then None
     else let h = sha512 seed in Some ((le_int (take 32 h) AND (2 ^ 254 - 8)) OR 2 ^ 254, drop 32 h))"

definition h_modq :: "int list \<Rightarrow> int" where
  "h_modq s = le_int (sha512 s) mod ED_Q"

definition public_key :: "int list \<Rightarrow> int list option" where
  "public_key seed = map_option (\<lambda>(a, _). compress_pt (pt_mul a base_point)) (expand seed)"

definition ed_sign :: "int list \<Rightarrow> int list \<Rightarrow> int list option" where
  "ed_sign seed msg = map_option (\<lambda>(a, prefix).
     let pub = compress_pt (pt_mul a base_point); r = h_modq (prefix @ msg); rs = compress_pt (pt_mul r base_point);
         h = h_modq (rs @ pub @ msg); s = (r + h * a) mod ED_Q
     in rs @ le_bytes 32 s) (expand seed)"

definition ed_verify :: "int list \<Rightarrow> int list \<Rightarrow> int list \<Rightarrow> bool" where
  "ed_verify pub msg sig \<longleftrightarrow> length pub = 32 \<and> length sig = 64 \<and>
     (case (decompress_pt pub, decompress_pt (take 32 sig)) of
        (Some A, Some R) \<Rightarrow>
          (let s = le_int (drop 32 sig) in s < ED_Q \<and>
             pt_equal (pt_mul s base_point) (pt_add R (pt_mul (h_modq (take 32 sig @ pub @ msg)) A)))
      | _ \<Rightarrow> False)"

end
