(* ===== verification/Apk_Info.thy ===== *)
theory Apk_Info
  imports Ed25519
begin

text \<open>
  \<open>portal/gateway/gw/apkinfo.py\<close>: what the gateway reads out of an Android package: the binary manifest and
  the certificates in the signing block.  Texts of the manifest are lists of code points; what \<open>zipfile\<close>
  makes of the file is the record \<open>zip_view\<close>, a parameter.
\<close>

section \<open>Bytes\<close>

text \<open>\<open>Apk_crash\<close>: \<open>struct.error\<close>, \<open>IndexError\<close> or \<open>OSError\<close>.\<close>

datatype apk_exn = Apk_error string | Apk_crash

definition unpack_from :: "nat \<Rightarrow> int list \<Rightarrow> nat \<Rightarrow> apk_exn + int list" where
  "unpack_from k data p = (if p + k \<le> length data then Inr (take k (drop p data)) else Inl Apk_crash)"

text \<open>Unsigned and signed fields of \<open>k\<close> bytes.\<close>

definition ufield :: "nat \<Rightarrow> nat \<Rightarrow> int list \<Rightarrow> nat" where
  "ufield i k bs = nat (le_int (take k (drop i bs)))"

definition sfield :: "nat \<Rightarrow> int list \<Rightarrow> int" where
  "sfield i bs = (let n = le_int (take 4 (drop i bs)) in if 2 ^ 31 \<le> n then n - 2 ^ 32 else n)"

definition at_index :: "'a list \<Rightarrow> int \<Rightarrow> apk_exn + 'a" where \<comment> \<open>\<open>xs[i]\<close>: negative from the end\<close>
  "at_index xs i = (let j = (if i < 0 then i + int (length xs) else i)
     in if 0 \<le> j \<and> j < int (length xs) then Inr (xs ! nat j) else Inl Apk_crash)"

section \<open>Texts\<close>

text \<open>\<open>bytes.decode("utf-8", "replace")\<close>: a sequence that breaks off gives one U+FFFD.\<close>

fun utf8_tail :: "nat \<Rightarrow> int \<Rightarrow> int \<Rightarrow> int \<Rightarrow> int list \<Rightarrow> int \<times> int list" where
  "utf8_tail 0 lo hi acc bs = (acc, bs)"
| "utf8_tail (Suc n) lo hi acc [] = (65533, [])"
| "utf8_tail (Suc n) lo hi acc (b # bs) =
     (if lo \<le> b \<and> b \<le> hi then utf8_tail n 128 191 (acc * 64 + (b - 128)) bs else (65533, b # bs))"

lemma utf8_tail_length: "length (snd (utf8_tail n lo hi acc bs)) \<le> length bs"
  by (induction n lo hi acc bs rule: utf8_tail.induct) auto

definition utf8_char_of :: "int \<Rightarrow> int list \<Rightarrow> int \<times> int list" where
  "utf8_char_of b bs =
     (if b < 128 then (b, bs)
      else if 194 \<le> b \<and> b \<le> 223 then utf8_tail 1 128 191 (b - 192) bs
      else if 224 \<le> b \<and> b \<le> 239 then
        utf8_tail 2 (if b = 224 then 160 else 128) (if b = 237 then 159 else 191) (b - 224) bs
      else if 240 \<le> b \<and> b \<le> 244 then
        utf8_tail 3 (if b = 240 then 144 else 128) (if b = 244 then 143 else 191) (b - 240) bs
      else (65533, bs))"

lemma utf8_char_of_length: "length (snd (utf8_char_of b bs)) \<le> length bs"
  by (simp add: utf8_char_of_def utf8_tail_length)

function utf8_points :: "int list \<Rightarrow> int list" where
  "utf8_points [] = []"
| "utf8_points (b # bs) = fst (utf8_char_of b bs) # utf8_points (snd (utf8_char_of b bs))"
  by pat_completeness auto
termination by (relation "measure length") (auto simp: utf8_char_of_length less_Suc_eq_le)

text \<open>\<open>bytes.decode("utf-16-le", "replace")\<close>.\<close>

function utf16_points :: "int list \<Rightarrow> int list" where
  "utf16_points [] = []"
| "utf16_points [b] = [65533]"
| "utf16_points (a # b # bs) =
     (let u = a + 256 * b in
      if 55296 \<le> u \<and> u < 56320 then
        (if length bs < 2 then [65533]
         else let v = bs ! 0 + 256 * bs ! 1 in
           if 56320 \<le> v \<and> v < 57344 then (65536 + (u - 55296) * 1024 + (v - 56320)) # utf16_points (drop 2 bs)
           else 65533 # utf16_points bs)
      else if 56320 \<le> u \<and> u < 57344 then 65533 # utf16_points bs
      else u # utf16_points bs)"
  by pat_completeness auto
termination by (relation "measure length") auto

definition points :: "string \<Rightarrow> int list" where
  "points s = map of_char s"

definition text_of :: "int list \<Rightarrow> string" where \<comment> \<open>code points above 255 are outside the model's strings\<close>
  "text_of ps = map (\<lambda>n. if n < 256 then char_of (nat n) else CHR ''?'') ps"

section \<open>The compiled manifest\<close>

text \<open>A length of one or two bytes, and the place after it.\<close>

definition pool_len8 :: "int list \<Rightarrow> nat \<Rightarrow> apk_exn + nat \<times> nat" where
  "pool_len8 data p =
     bind_res (unpack_from 1 data p) (\<lambda>b. let n = ufield 0 1 b in
       if n < 128 then Inr (n, p + 1)
       else bind_res (unpack_from 1 data (p + 1)) (\<lambda>c. Inr ((n - 128) * 256 + ufield 0 1 c, p + 2)))"

definition pool_text :: "int list \<Rightarrow> bool \<Rightarrow> nat \<Rightarrow> apk_exn + int list" where
  "pool_text data narrow p =
     (if narrow then
        bind_res (pool_len8 data p) (\<lambda>(_, q).
        bind_res (pool_len8 data q) (\<lambda>(n, r). Inr (utf8_points (take n (drop r data)))))
      else
        bind_res (unpack_from 2 data p) (\<lambda>b. let n = ufield 0 2 b in
        bind_res (if n < 32768 then Inr (n, p + 2)
           else bind_res (unpack_from 2 data (p + 2)) (\<lambda>c. Inr ((n - 32768) * 65536 + ufield 0 2 c, p + 4))) (\<lambda>(n, q).
        Inr (utf16_points (take (n * 2) (drop q data))))))"

definition string_pool :: "int list \<Rightarrow> nat \<Rightarrow> apk_exn + int list list" where \<comment> \<open>\<open>_string_pool\<close>\<close>
  "string_pool data off =
     bind_res (unpack_from 8 data off) (\<lambda>h.
     bind_res (unpack_from 16 data (off + 8)) (\<lambda>b.
     let hsize = ufield 2 2 h; count = ufield 0 4 b; flags = ufield 8 4 b; start = ufield 12 4 b in
     bind_res (unpack_from (4 * count) data (off + hsize)) (\<lambda>os.
     fold_res (\<lambda>out i. bind_res (pool_text data (odd (flags div 256)) (off + start + ufield (4 * i) 4 os)) (\<lambda>t. Inr (out @ [t])))
       [] [0..<count])))"

record manifest_found =
  mf_package :: "int list" \<comment> \<open>empty when absent or \<open>None\<close>\<close>
  mf_code :: "nat option"
  mf_name :: "int list option option" \<comment> \<open>whether present; \<open>None\<close> when it has no text\<close>

definition manifest_attr :: "int list \<Rightarrow> int list list \<Rightarrow> nat \<Rightarrow> manifest_found \<Rightarrow> apk_exn + manifest_found" where
  "manifest_attr data strings p m =
     bind_res (unpack_from 20 data p) (\<lambda>a.
     bind_res (at_index strings (sfield 4 a)) (\<lambda>key. let raw = sfield 8 a in
       if key = points ''versionCode'' \<and> ufield 15 1 a = 16 then Inr (m\<lparr>mf_code := Some (ufield 16 4 a)\<rparr>)
       else if key = points ''package'' then
         (if 0 \<le> raw then bind_res (at_index strings raw) (\<lambda>t. Inr (m\<lparr>mf_package := t\<rparr>)) else Inr (m\<lparr>mf_package := []\<rparr>))
       else if key = points ''versionName'' then
         (if 0 \<le> raw then bind_res (at_index strings raw) (\<lambda>t. Inr (m\<lparr>mf_name := Some (Some t)\<rparr>)) else Inr (m\<lparr>mf_name := Some None\<rparr>))
       else Inr m))"

fun manifest_attrs :: "int list \<Rightarrow> int list list \<Rightarrow> nat \<Rightarrow> nat \<Rightarrow> nat \<Rightarrow> manifest_found \<Rightarrow> apk_exn + manifest_found" where
  "manifest_attrs data strings step 0 p m = Inr m"
| "manifest_attrs data strings step (Suc n) p m =
     bind_res (manifest_attr data strings p m) (manifest_attrs data strings step n (p + step))"

text \<open>The loop over the chunks; a chunk takes at least eight bytes.\<close>

function manifest_chunks :: "int list \<Rightarrow> nat \<Rightarrow> int list list \<Rightarrow> nat \<Rightarrow> apk_exn + manifest_found" where
  "manifest_chunks data len strings off =
     (let found = \<lparr>mf_package = [], mf_code = None, mf_name = None\<rparr> in
      if off + 8 \<le> min (length data) len then
        (let h = take 8 (drop off data); typ = ufield 0 2 h; size = ufield 4 4 h in
         if size < 8 then Inr found
         else if typ = 1 then
           (case string_pool data off of Inl e \<Rightarrow> Inl e | Inr ss \<Rightarrow> manifest_chunks data len ss (off + size))
         else if typ = 258 \<and> strings \<noteq> [] then
           (case unpack_from 14 data (off + 16) of Inl e \<Rightarrow> Inl e
            | Inr b \<Rightarrow> (case at_index strings (sfield 4 b) of Inl e \<Rightarrow> Inl e
                | Inr name \<Rightarrow>
                    if name = points ''manifest'' then
                      manifest_attrs data strings (ufield 10 2 b) (ufield 12 2 b) (off + 16 + ufield 8 2 b) found
                    else manifest_chunks data len strings (off + size)))
         else manifest_chunks data len strings (off + size))
      else Inr found)"
  by pat_completeness auto
termination by (relation "measure (\<lambda>(data, len, strings, off). length data - off)") auto

declare manifest_chunks.simps [simp del]

record apk_manifest =
  am_package :: string
  am_code :: nat
  am_name :: "string option"

definition parse_manifest :: "int list \<Rightarrow> apk_exn + apk_manifest" where
  "parse_manifest data =
     (if length data < 8 \<or> ufield 0 2 data \<noteq> 3 then Inl (Apk_error ''AndroidManifest.xml is not a compiled XML file'')
      else bind_res (manifest_chunks data (ufield 4 4 data) [] (ufield 2 2 data)) (\<lambda>m.
        case mf_code m of None \<Rightarrow> Inl (Apk_error ''versionCode or package not found in AndroidManifest.xml'')
        | Some c \<Rightarrow>
            if mf_package m = [] then Inl (Apk_error ''versionCode or package not found in AndroidManifest.xml'')
            else Inr \<lparr>am_package = text_of (mf_package m), am_code = c,
              am_name = (case mf_name m of None \<Rightarrow> Some [] | Some t \<Rightarrow> map_option text_of t)\<rparr>))"

section \<open>The signing block\<close>

definition SIG_MAGIC :: "int list" where "SIG_MAGIC = points ''APK Sig Block 42''"
definition ID_V2 :: nat where "ID_V2 = 1896449818"
definition ID_V3 :: nat where "ID_V3 = 4031998144"
definition EOCD :: "int list" where "EOCD = [80, 75, 5, 6]"

text \<open>\<open>buf.rfind\<close>.\<close>

definition rfind :: "int list \<Rightarrow> int list \<Rightarrow> nat option" where
  "rfind pat buf = (case filter (\<lambda>i. take (length pat) (drop i buf) = pat) [0..<Suc (length buf)] of [] \<Rightarrow> None | is \<Rightarrow> Some (last is))"

definition central_directory :: "int list \<Rightarrow> apk_exn + nat" where \<comment> \<open>\<open>_central_directory_offset\<close>\<close>
  "central_directory file = (let buf = drop (length file - min (length file) 65557) file in
     case rfind EOCD buf of None \<Rightarrow> Inl (Apk_error ''not a zip file (no end-of-central-directory record)'')
     | Some i \<Rightarrow> bind_res (unpack_from 4 buf (i + 16)) (\<lambda>b. Inr (ufield 0 4 b)))"

text \<open>\<open>_lp\<close>; \<open>None\<close>: \<open>struct.error\<close>.\<close>

definition lp :: "int list \<Rightarrow> nat \<Rightarrow> (int list \<times> nat) option" where
  "lp data off = (if off + 4 \<le> length data then
     (let n = ufield off 4 data in Some (take n (drop (off + 4) data), off + 4 + n)) else None)"

function lp_all :: "int list \<Rightarrow> nat \<Rightarrow> int list list option" where
  "lp_all data p = (if p < length data then
     (case lp data p of None \<Rightarrow> None | Some (x, q) \<Rightarrow> map_option ((#) x) (lp_all data q)) else Some [])"
  by pat_completeness auto
termination by (relation "measure (\<lambda>(data, p). length data - p)") (auto simp: lp_def Let_def split: if_splits)

declare lp_all.simps [simp del]

text \<open>The certificates of one signer, and of the signers of a block.\<close>

definition signer_ders :: "int list \<Rightarrow> int list list option" where
  "signer_ders signer = (case lp signer 0 of None \<Rightarrow> None
     | Some (signed_data, _) \<Rightarrow> (case lp signed_data 0 of None \<Rightarrow> None
       | Some (_, q) \<Rightarrow> (case lp signed_data q of None \<Rightarrow> None | Some (cert_seq, _) \<Rightarrow> lp_all cert_seq 0)))"

fun all_ders :: "int list list \<Rightarrow> int list list option" where
  "all_ders [] = Some []"
| "all_ders (s # ss) = (case signer_ders s of None \<Rightarrow> None | Some ds \<Rightarrow> map_option ((@) ds) (all_ders ss))"

definition block_ders :: "int list \<Rightarrow> int list list option" where
  "block_ders block = (case lp block 0 of None \<Rightarrow> None
     | Some (signers, _) \<Rightarrow> (case lp_all signers 0 of None \<Rightarrow> None | Some ss \<Rightarrow> all_ders ss))"

text \<open>The pairs of the block; a later pair of the same number is ignored.\<close>

function sig_pairs :: "int list \<Rightarrow> nat \<Rightarrow> nat \<Rightarrow> (nat \<times> int list) list" where
  "sig_pairs block end_at off =
     (if off + 12 \<le> end_at then
        (let ln = ufield off 8 block; pid = ufield (off + 8) 4 block in
         if ln < 4 \<or> end_at < off + 8 + ln then []
         else (pid, take (ln - 4) (drop (off + 12) block)) # sig_pairs block end_at (off + 8 + ln))
      else [])"
  by pat_completeness auto
termination by (relation "measure (\<lambda>(block, end_at, off). end_at - off)") auto

declare sig_pairs.simps [simp del]

definition apk_sha256 :: "int list \<Rightarrow> string" where
  "apk_sha256 bs = concat (map word_hex (sha256_words bs))"

definition no_block :: apk_exn where
  "no_block = Apk_error ''no APK signing block (an unsigned or v1-only APK)''"

definition pair_ders :: "(nat \<times> int list) list \<Rightarrow> int list list option" where
  "pair_ders pairs =
     (let of_id = (\<lambda>pid. case map_of pairs pid of None \<Rightarrow> Some [] | Some b \<Rightarrow> block_ders b) in
      case (of_id ID_V2, of_id ID_V3) of (Some a, Some b) \<Rightarrow> Some (a @ b) | _ \<Rightarrow> None)"

definition signer_certs :: "int list \<Rightarrow> apk_exn + string list" where
  "signer_certs file =
     bind_res (central_directory file) (\<lambda>cd.
       if cd < 32 then Inl (Apk_error ''no APK signing block'')
       else let tail = take 24 (drop (cd - 24) file) in
         if drop 8 tail \<noteq> SIG_MAGIC then Inl no_block
         else let size = ufield 0 8 tail in
           if size < 32 \<or> cd < size then Inl (Apk_error ''a corrupt APK signing block'')
           else if cd < size + 8 then Inl Apk_crash
           else let block = take (size + 8) (drop (cd - size - 8) file) in
             case pair_ders (sig_pairs block (length block - 24) 8) of
               None \<Rightarrow> Inl (Apk_error ''a corrupt APK signing block'')
             | Some ders \<Rightarrow> if ders = [] then Inl (Apk_error ''no v2/v3 signature in the APK'') else Inr (map apk_sha256 ders))"

section \<open>The whole check\<close>

text \<open>What \<open>zipfile\<close> says: the reason it is no archive, or the first damaged member and the manifest.\<close>

datatype zip_view = Not_zip string | Zip "string option" "int list option"

definition MAX_MANIFEST :: nat where "MAX_MANIFEST = 4 * 1024 * 1024"

record apk_info =
  ai_package :: string
  ai_code :: nat
  ai_name :: "string option"
  ai_certs :: "string list"
  ai_sha :: string
  ai_size :: nat

definition inspect :: "(int list \<Rightarrow> zip_view) \<Rightarrow> int list \<Rightarrow> apk_exn + apk_info" where
  "inspect unzip file = (case unzip file of
     Not_zip why \<Rightarrow> Inl (Apk_error (''not a zip/APK file: '' @ why))
   | Zip (Some bad) _ \<Rightarrow> Inl (Apk_error (''the file is damaged (CRC error in '' @ bad @ '')''))
   | Zip None None \<Rightarrow> Inl (Apk_error ''no AndroidManifest.xml: not an APK'')
   | Zip None (Some data) \<Rightarrow>
       if MAX_MANIFEST < length data then Inl (Apk_error ''AndroidManifest.xml is implausibly large'')
       else bind_res (parse_manifest data) (\<lambda>m. bind_res (signer_certs file) (\<lambda>certs.
         Inr \<lparr>ai_package = am_package m, ai_code = am_code m, ai_name = am_name m, ai_certs = certs,
           ai_sha = apk_sha256 file, ai_size = length file\<rparr>)))"

end
