(* ===== verification/Gw_Releases.thy ===== *)
theory Gw_Releases
  imports Gw_Pages Apk_Info
begin

text \<open>
  \<open>portal/gateway/gw/releases.py\<close> and the handlers and commands on releases: the update channel of the phone
  application.  The settings of the channel, which the code keeps as texts in the table \<open>meta\<close>, are fields;
  the manifest is the JSON it encodes; a file is the list of its bytes.
\<close>

section \<open>The channel\<close>

record release_row =
  rr_code :: nat
  rr_name :: string
  rr_size :: nat
  rr_sha :: string
  rr_cert :: string
  rr_notes :: string
  rr_state :: string
  rr_by :: string
  rr_added :: rat
  rr_pub_by :: "string option"
  rr_pub_at :: "rat option"
  rr_min :: "nat option"

record channel =
  ch_gw :: gw
  ch_rows :: "release_row list"
  ch_files :: "(nat \<times> int list) list"
  ch_cert :: "string option"
  ch_stopped :: bool
  ch_manifest :: "json option"
  ch_current :: "nat option"
  ch_min :: "nat option"

definition empty_channel :: channel where
  "empty_channel = \<lparr>ch_gw = empty_gw, ch_rows = [], ch_files = [], ch_cert = None, ch_stopped = False, ch_manifest = None,
     ch_current = None, ch_min = None\<rparr>"

text \<open>\<open>ReleaseError\<close>, an error of the gateway, and a stream that is full.\<close>

datatype rel_err = Release_error string string | Rel_gw gw_err | Rel_hub hub_exn

type_synonym 'a chm = "channel \<Rightarrow> (rel_err + 'a) \<times> channel"

definition retc :: "'a \<Rightarrow> 'a chm" where "retc x c = (Inr x, c)"

definition failc :: "rel_err \<Rightarrow> 'a chm" where "failc e c = (Inl e, c)"

definition bindc :: "'a chm \<Rightarrow> ('a \<Rightarrow> 'b chm) \<Rightarrow> 'b chm" where
  "bindc m f c = (case m c of (Inl e, d) \<Rightarrow> (Inl e, d) | (Inr x, d) \<Rightarrow> f x d)"

definition readc :: "(channel \<Rightarrow> 'a) \<Rightarrow> 'a chm" where "readc f c = (Inr (f c), c)"

definition writec :: "(channel \<Rightarrow> channel) \<Rightarrow> unit chm" where "writec f c = (Inr (), f c)"

definition ensurec :: "bool \<Rightarrow> rel_err \<Rightarrow> unit chm" where
  "ensurec b e = (if b then retc () else failc e)"

definition on_gw :: "'a gwm \<Rightarrow> 'a chm" where
  "on_gw m c = (case m (ch_gw c) of (r, t) \<Rightarrow> (map_sum Rel_gw id r, c\<lparr>ch_gw := t\<rparr>))"

abbreviation thenc :: "unit chm \<Rightarrow> 'a chm \<Rightarrow> 'a chm" where
  "thenc m n \<equiv> bindc m (\<lambda>_. n)"

definition row_of :: "nat \<Rightarrow> channel \<Rightarrow> release_row option" where
  "row_of code c = find (\<lambda>r. rr_code r = code) (ch_rows c)"

definition file_ok :: "nat \<Rightarrow> channel \<Rightarrow> bool" where
  "file_ok code c = (case (row_of code c, map_of (ch_files c) code) of
     (Some r, Some b) \<Rightarrow> length b = rr_size r \<and> apk_sha256 b = rr_sha r | _ \<Rightarrow> False)"

definition current_manifest :: "channel \<Rightarrow> json option" where
  "current_manifest c = (if ch_stopped c then None else ch_manifest c)"

definition served_file :: "nat \<Rightarrow> channel \<Rightarrow> int list option" where
  "served_file code c =
     (if ch_stopped c \<or> ch_current c \<noteq> Some code \<or> \<not> file_ok code c then None else map_of (ch_files c) code)"

section \<open>Writes\<close>

definition APP_ID :: string where "APP_ID = ''home.minis.portal''"
definition MAX_APK :: nat where "MAX_APK = 80 * 1024 * 1024"
definition KEY_ID :: string where "KEY_ID = ''k1''"

definition release_pin :: "rat \<Rightarrow> string \<Rightarrow> principal \<Rightarrow> string chm" where
  "release_pin now fingerprint actor =
     (let fp = filter (\<lambda>ch. ch \<noteq> CHR '':'') (py_lower (py_strip fingerprint)) in
      thenc (ensurec (length fp = 64 \<and> list_all (\<lambda>ch. ch \<in> set ''0123456789abcdef'') fp)
        (Release_error ''bad_fingerprint'' ''a SHA-256 fingerprint is 64 hex digits''))
     (bindc (readc ch_cert) (\<lambda>old.
      thenc (ensurec (old = None \<or> old = Some [] \<or> old = Some fp)
        (Release_error ''already_pinned'' ''a different certificate is already pinned: it is part of the trust anchor and is never changed from here''))
     (thenc (writec (\<lambda>c. c\<lparr>ch_cert := Some fp\<rparr>))
     (thenc (on_gw (audit now ''release_pin'' \<lparr>wh_person = Some (pr_person actor), wh_phone = None, wh_ip = pr_ip actor\<rparr> (Some (take 16 fp)) JNull JNull True))
      (retc fp))))))"

definition top_code :: "channel \<Rightarrow> nat option" where \<comment> \<open>\<open>MAX(version_code)\<close>\<close>
  "top_code c = (if ch_rows c = [] then None else Some (fold max (map rr_code (ch_rows c)) 0))"

definition in_quotes :: "string \<Rightarrow> string" where
  "in_quotes s = [CHR 0x27] @ s @ [CHR 0x27]"

text \<open>\<open>add\<close>; \<open>file\<close> is what stands at the path.\<close>

definition release_add :: "(int list \<Rightarrow> zip_view) \<Rightarrow> rat \<Rightarrow> int list option \<Rightarrow> string \<Rightarrow> principal \<Rightarrow> apk_info chm" where
  "release_add unzip now file notes actor = bindc (readc ch_cert) (\<lambda>cert. let pinned = (case cert of None \<Rightarrow> [] | Some x \<Rightarrow> x) in
     thenc (ensurec (pinned \<noteq> []) (Release_error ''not_pinned'' ''no signing certificate is pinned yet: run `gwctl release pin <sha256 of the APK signing certificate>` first''))
    (thenc (ensurec (1 \<le> length (py_strip notes) \<and> length (py_strip notes) \<le> 600)
        (Release_error ''notes'' ''the release notes (1-600 characters, Russian, plain words) are required''))
    (case file of None \<Rightarrow> failc (Release_error ''no_file'' ''no such file'')
     | Some bytes \<Rightarrow>
       thenc (ensurec (length bytes \<le> MAX_APK) (Release_error ''too_large'' ''the file is larger than 80 MB''))
      (case inspect unzip bytes of
         Inl (Apk_error why) \<Rightarrow> failc (Release_error ''bad_apk'' why)
       | Inl Apk_crash \<Rightarrow> failc (Rel_gw (Gw_crash ValueError))
       | Inr info \<Rightarrow>
         thenc (ensurec (ai_package info = APP_ID)
           (Release_error ''wrong_app'' (''the package is '' @ in_quotes (ai_package info) @ '', not '' @ in_quotes APP_ID)))
        (thenc (ensurec (pinned \<in> set (ai_certs info) \<and> length (remdups (ai_certs info)) = 1)
           (Release_error ''wrong_certificate'' (''the APK is not signed with the pinned certificate (found '' @ join_with '', '' (map (take 16) (ai_certs info)) @ '')'')))
        (bindc (readc top_code) (\<lambda>top.
         thenc (ensurec (case top of None \<Rightarrow> True | Some t \<Rightarrow> t < ai_code info)
           (Release_error ''version_not_higher'' (''versionCode '' @ str_int (int (ai_code info)) @ '' is not higher than the highest release so far (''
              @ str_int (int (case top of None \<Rightarrow> 0 | Some t \<Rightarrow> t)) @ ''): roll forward only'')))
        (thenc (writec (\<lambda>c. c\<lparr>ch_files := (ai_code info, bytes) # filter (\<lambda>(k, _). k \<noteq> ai_code info) (ch_files c)\<rparr>))
        (case ai_name info of None \<Rightarrow> failc (Rel_gw (Gw_crash IntegrityError))
         | Some name \<Rightarrow>
           thenc (writec (\<lambda>c. c\<lparr>ch_rows := ch_rows c @ [\<lparr>rr_code = ai_code info, rr_name = name, rr_size = ai_size info, rr_sha = ai_sha info,
              rr_cert = pinned, rr_notes = py_strip notes, rr_state = ''pending'', rr_by = pr_person actor, rr_added = now,
              rr_pub_by = None, rr_pub_at = None, rr_min = None\<rparr>]\<rparr>))
          (thenc (on_gw (audit now ''release_added'' \<lparr>wh_person = Some (pr_person actor), wh_phone = None, wh_ip = pr_ip actor\<rparr>
              (Some (str_int (int (ai_code info)) @ '' '' @ name)) JNull
              (JObj [(''sha256'', JStr (ai_sha info)), (''size'', JInt (int (ai_size info)))]) True))
           (retc info)))))))))))"

text \<open>\<open>_seed\<close>: the bytes of the key file, \<open>bytes.fromhex\<close> of its text.\<close>

definition hex_value :: "char \<Rightarrow> int option" where
  "hex_value ch = index_in ''0123456789abcdef'' (lower_char ch)"

fun from_hex :: "string \<Rightarrow> int list option" where
  "from_hex [] = Some []"
| "from_hex (a # s) =
     (if is_space a \<and> (of_char a :: nat) < 128 \<and> (of_char a :: nat) \<notin> {28, 29, 30, 31} then from_hex s
      else case s of [] \<Rightarrow> None
        | b # s' \<Rightarrow> (case (hex_value a, hex_value b) of
            (Some x, Some y) \<Rightarrow> map_option ((#) (16 * x + y)) (from_hex s') | _ \<Rightarrow> None))"

definition signing_seed :: "string option \<Rightarrow> rel_err + int list" where
  "signing_seed key = (case key of
     None \<Rightarrow> Inl (Release_error ''no_key'' ''the manifest signing key is missing: run tools/release_keygen.py on the host'')
   | Some t \<Rightarrow> (case from_hex (py_strip t) of
       None \<Rightarrow> Inl (Release_error ''no_key'' ''the manifest signing key is missing: run tools/release_keygen.py on the host'')
     | Some sd \<Rightarrow> if length sd \<noteq> 32 then Inl (Release_error ''no_key'' ''the manifest signing key is malformed'') else Inr sd))"

definition release_payload :: "rat \<Rightarrow> nat \<Rightarrow> release_row \<Rightarrow> fields" where
  "release_payload now mn r =
     [(''schema'', JInt 1), (''app_id'', JStr APP_ID), (''key_id'', JStr KEY_ID), (''version_name'', JStr (rr_name r)), (''version_code'', JInt (int (rr_code r))),
      (''min_supported_version_code'', JInt (int mn)), (''apk_url'', JStr (''/app/releases/'' @ str_int (int (rr_code r)) @ ''/app.apk'')),
      (''apk_sha256'', JStr (rr_sha r)), (''apk_size'', JInt (int (rr_size r))), (''apk_signing_cert_sha256'', JStr (rr_cert r)),
      (''changelog'', JStr (rr_notes r)), (''published_at'', JStr (local_text now))]"

definition signed_manifest :: "fields \<Rightarrow> int list \<Rightarrow> json" where
  "signed_manifest p sig = JObj [(''schema'', JInt 1), (''key_id'', JStr KEY_ID), (''payload'', JStr (canon (JObj p))), (''signature'', JStr (b64encode sig))]"

definition min_asked :: "nat \<Rightarrow> nat \<Rightarrow> json \<Rightarrow> rel_err + nat" where \<comment> \<open>the checks of \<open>min_supported\<close>\<close>
  "min_asked code mn j = (case j of
     JNull \<Rightarrow> Inr mn
   | JInt i \<Rightarrow>
       if \<not> (0 \<le> i \<and> i \<le> int code) then Inl (Release_error ''bad_min'' ''min_supported_version_code must be a whole number from 0 to this version_code'')
       else if i < int mn then Inl (Release_error ''bad_min'' (''the minimum supported version never goes down (it is '' @ str_int (int mn) @ '' now)''))
       else Inr (nat i)
   | _ \<Rightarrow> Inl (Release_error ''bad_min'' ''min_supported_version_code must be a whole number from 0 to this version_code''))"

definition lift_rel :: "rel_err + 'a \<Rightarrow> 'a chm" where "lift_rel r c = (r, c)"

definition mark_published :: "nat \<Rightarrow> string \<Rightarrow> rat \<Rightarrow> nat \<Rightarrow> release_row list \<Rightarrow> release_row list" where
  "mark_published code by_whom now mn rows =
     map (\<lambda>r. if rr_code r = code then r\<lparr>rr_state := ''published'', rr_pub_by := Some by_whom, rr_pub_at := Some now, rr_min := Some mn\<rparr> else r)
       (map (\<lambda>r. if rr_state r = ''published'' then r\<lparr>rr_state := ''superseded''\<rparr> else r) rows)"

definition hub_publish :: "rat \<Rightarrow> string \<Rightarrow> json \<Rightarrow> unit chm" where
  "hub_publish now etype data c = (case publish_event now etype data (gw_hub (ch_gw c)) of
     (r, h) \<Rightarrow> (map_sum Rel_hub (\<lambda>_. ()) r, c\<lparr>ch_gw := (ch_gw c)\<lparr>gw_hub := h\<rparr>\<rparr>))"

definition release_publish :: "rat \<Rightarrow> string option \<Rightarrow> nat \<Rightarrow> principal \<Rightarrow> json \<Rightarrow> json chm" where
  "release_publish now key code actor min_supported =
     bindc (readc (row_of code)) (\<lambda>row. case row of
       None \<Rightarrow> failc (Release_error ''not_found'' ''no such release'')
     | Some r \<Rightarrow>
       thenc (ensurec (rr_state r = ''pending'') (Release_error ''not_pending'' (''only a pending release can be published (this one is '' @ rr_state r @ '')'')))
      (bindc (readc ch_current) (\<lambda>cur.
       thenc (ensurec (case cur of None \<Rightarrow> True | Some k \<Rightarrow> k < code) (Release_error ''version_not_higher'' ''a newer release is already published: roll forward only''))
      (bindc (readc (file_ok code)) (\<lambda>ok.
       thenc (ensurec ok (Release_error ''file_mismatch'' ''the stored file does not match its recorded hash''))
      (bindc (readc (\<lambda>c. case ch_min c of None \<Rightarrow> 0 | Some m \<Rightarrow> m)) (\<lambda>mn0.
       bindc (lift_rel (min_asked code mn0 min_supported)) (\<lambda>mn.
       bindc (lift_rel (signing_seed key)) (\<lambda>sd.
       case ed_sign sd (utf8 (canon (JObj (release_payload now mn r)))) of
         None \<Rightarrow> failc (Rel_gw (Gw_crash ValueError))
       | Some sig \<Rightarrow>
         let manifest = signed_manifest (release_payload now mn r) sig in
         thenc (writec (\<lambda>c. c\<lparr>ch_rows := mark_published code (pr_person actor) now mn (ch_rows c), ch_current := Some code,
            ch_manifest := Some manifest, ch_min := Some mn, ch_stopped := False\<rparr>))
        (thenc (on_gw (audit now ''release_published'' (who_of actor) (Some (str_int (int code) @ '' '' @ rr_name r)) JNull
            (JObj [(''min_supported_version_code'', JInt (int mn))]) True))
        (thenc (hub_publish now ''release'' (JObj [(''version_code'', JInt (int code)), (''version_name'', JStr (rr_name r))]))
         (retc manifest))))))))))))"

definition release_stop :: "rat \<Rightarrow> principal \<Rightarrow> unit chm" where
  "release_stop now actor = thenc (writec (\<lambda>c. c\<lparr>ch_stopped := True\<rparr>)) (on_gw (audit now ''release_stopped'' (who_of actor) None JNull JNull True))"

definition release_resume :: "rat \<Rightarrow> principal \<Rightarrow> unit chm" where
  "release_resume now actor = bindc (readc ch_current) (\<lambda>cur.
     thenc (ensurec (cur \<noteq> None) (Release_error ''nothing_published'' ''nothing is published''))
    (thenc (writec (\<lambda>c. c\<lparr>ch_stopped := False\<rparr>)) (on_gw (audit now ''release_resumed'' (who_of actor) None JNull JNull True))))"

section \<open>Handlers\<close>

datatype rel_reply = Rel_json gw_reply | Rel_file "int list"

definition rel_status :: "string \<Rightarrow> nat" where
  "rel_status code = (if code = ''not_found'' then 404
     else if code \<in> {''not_pending'', ''version_not_higher'', ''file_mismatch'', ''nothing_published''} then 409
     else if code = ''no_key'' then 503 else 422)"

definition rel_gw_err :: "rel_err \<Rightarrow> rel_err" where \<comment> \<open>\<open>_rel_err\<close>\<close>
  "rel_gw_err e = (case e of Release_error code message \<Rightarrow> Rel_gw (Gw_error (rel_status code) code message []) | _ \<Rightarrow> e)"

definition convert_err :: "'a chm \<Rightarrow> 'a chm" where
  "convert_err m c = (case m c of (r, d) \<Rightarrow> (map_sum rel_gw_err id r, d))"

definition update_manifest :: "gw_env \<Rightarrow> gw_request \<Rightarrow> rel_reply chm" where
  "update_manifest ev rq = bindc (on_gw (authenticate_update (ge_now ev) rq)) (\<lambda>_.
     bindc (readc (\<lambda>c. (current_manifest c, ch_stopped c))) (\<lambda>(m, stopped). retc (Rel_json (json_reply 200 (case m of
        None \<Rightarrow> JObj [(''schema'', JInt 1), (''update'', JBool False), (''reason'', JStr (if stopped then ''stopped'' else ''none''))]
      | Some j \<Rightarrow> JObj (jfields j @ [(''update'', JBool True)]))))))"

definition update_apk :: "nat \<Rightarrow> gw_env \<Rightarrow> gw_request \<Rightarrow> rel_reply chm" where
  "update_apk code ev rq = bindc (on_gw (authenticate_update (ge_now ev) rq)) (\<lambda>(person, phone).
     bindc (readc (served_file code)) (\<lambda>f. case f of
       None \<Rightarrow> failc (Rel_gw (Gw_error 404 ''not_found'' ''not found'' []))
     | Some bytes \<Rightarrow>
       thenc (on_gw (audit (ge_now ev) ''release_download'' \<lparr>wh_person = Some person, wh_phone = phone, wh_ip = Some (gr_ip rq)\<rparr>
          (Some (str_int (int code))) JNull JNull True)) (retc (Rel_file bytes))))"

text \<open>\<open>idem\<close>, with a key required, around a handler of the channel, as \<^const>\<open>idem\<close> for the other handlers.\<close>

definition idem_channel :: "rat \<Rightarrow> gw_request \<Rightarrow> principal \<Rightarrow> string \<Rightarrow> string \<Rightarrow> (nat \<times> json) chm \<Rightarrow> (nat \<times> json) chm" where
  "idem_channel now rq p route bytes handler =
     (case gr_header rq ''idempotency-key'' of
        None \<Rightarrow> failc (Rel_gw (Gw_error 400 ''idempotency_key_required'' ''send an Idempotency-Key header (8-80 characters)'' []))
      | Some key \<Rightarrow>
        if key = [] then failc (Rel_gw (Gw_error 400 ''idempotency_key_required'' ''send an Idempotency-Key header (8-80 characters)'' []))
        else let scope = pr_person p @ '':'' @ route; kh = sha256_hex key; rh = req_hash rq bytes;
                 mine = (\<lambda>r. im_scope r = scope \<and> im_key r = kh) in
         thenc (ensurec (8 \<le> length key \<and> length key \<le> 80) (Rel_gw (Gw_error 400 ''idempotency_key_invalid'' ''Idempotency-Key must be 8-80 characters'' [])))
        (thenc (on_gw (writes (\<lambda>s. s\<lparr>gw_idem := filter (\<lambda>r. \<not> im_created r < now - IDEM_TTL_S) (gw_idem s)\<rparr>)))
        (bindc (readc (\<lambda>c. find mine (gw_idem (ch_gw c)))) (\<lambda>row. case row of
           Some row \<Rightarrow> thenc (ensurec (im_req row = rh) (Rel_gw (Gw_error 422 ''idempotency_conflict'' ''this Idempotency-Key was used for a different request'' [])))
             (retc (im_status row, with_replayed (im_response row)))
         | None \<Rightarrow> bindc handler (\<lambda>(status, body).
             thenc (on_gw (writes (\<lambda>s. if 500 \<le> status \<or> status = 429 \<or> (\<exists>r\<in>set (gw_idem s). mine r) then s
               else s\<lparr>gw_idem := gw_idem s @ [\<lparr>im_scope = scope, im_key = kh, im_req = rh, im_status = status, im_response = body, im_created = now\<rparr>]\<rparr>)))
             (retc (status, body)))))))"

definition api_release_publish :: "string option \<Rightarrow> nat \<Rightarrow> gw_env \<Rightarrow> gw_request \<Rightarrow> rel_reply chm" where
  "api_release_publish key code ev rq = bindc (on_gw (admin_web (ge_now ev) rq True)) (\<lambda>p.
     bindc (on_gw (lift_res (gw_body_of rq))) (\<lambda>b.
     thenc (ensurec (is_jobj b \<and> set (jkeys (jfields b)) \<subseteq> {''min_supported_version_code''})
       (Rel_gw (bad_body_error ''an object with an optional min_supported_version_code is required'')))
    (bindc (idem_channel (ge_now ev) rq p (''release.publish:'' @ str_int (int code)) (dumps '', '' '': '' True b)
        (bindc (convert_err (release_publish (ge_now ev) key code p (jget (jfields b) ''min_supported_version_code''))) (\<lambda>m.
           retc (200, JObj [(''published'', JInt (int code)), (''key_id'', jget (jfields m) ''key_id'')]))))
      (\<lambda>(status, out). retc (Rel_json (json_reply status out))))))"

definition api_release_stop :: "gw_env \<Rightarrow> gw_request \<Rightarrow> rel_reply chm" where
  "api_release_stop ev rq = bindc (on_gw (admin_web (ge_now ev) rq True)) (\<lambda>p.
     thenc (release_stop (ge_now ev) p) (retc (Rel_json (json_reply 200 (JObj [(''stopped'', JBool True)])))))"

definition api_release_resume :: "gw_env \<Rightarrow> gw_request \<Rightarrow> rel_reply chm" where
  "api_release_resume ev rq = bindc (on_gw (admin_web (ge_now ev) rq True)) (\<lambda>p.
     thenc (convert_err (release_resume (ge_now ev) p)) (retc (Rel_json (json_reply 200 (JObj [(''stopped'', JBool False)])))))"

section \<open>Operations\<close>

datatype ch_op =
    Gw_op gw_op
  | Rel_pin gw_env string \<comment> \<open>\<open>gwctl release pin\<close>\<close>
  | Rel_add gw_env "int list option" string \<comment> \<open>\<open>gwctl release add\<close>\<close>
  | Rel_manifest gw_env gw_request
  | Rel_apk nat gw_env gw_request
  | Rel_publish "string option" nat gw_env gw_request \<comment> \<open>with the text of the key file\<close>
  | Rel_stop gw_env gw_request
  | Rel_resume gw_env gw_request

record ch_conf =
  cc_gw :: gw_conf
  cc_unzip :: "int list \<Rightarrow> zip_view"

fun ch_exec :: "ch_conf \<Rightarrow> ch_op \<Rightarrow> channel \<Rightarrow> channel" where
  "ch_exec cf (Gw_op op) c = c\<lparr>ch_gw := gw_exec (cc_gw cf) op (ch_gw c)\<rparr>"
| "ch_exec cf (Rel_pin ev fp) c = snd (release_pin (ge_now ev) fp ACTOR c)"
| "ch_exec cf (Rel_add ev file notes) c = snd (release_add (cc_unzip cf) (ge_now ev) file notes ACTOR c)"
| "ch_exec cf (Rel_manifest ev rq) c = snd (update_manifest ev rq c)"
| "ch_exec cf (Rel_apk code ev rq) c = snd (update_apk code ev rq c)"
| "ch_exec cf (Rel_publish key code ev rq) c = snd (api_release_publish key code ev rq c)"
| "ch_exec cf (Rel_stop ev rq) c = snd (api_release_stop ev rq c)"
| "ch_exec cf (Rel_resume ev rq) c = snd (api_release_resume ev rq c)"

definition ch_run :: "ch_conf \<Rightarrow> ch_op list \<Rightarrow> channel \<Rightarrow> channel" where
  "ch_run cf ops c = fold (ch_exec cf) ops c"

end
