(* ===== verification/Gw_Inv.thy ===== *)
theory Gw_Inv
  imports Gw_Pages
begin

text \<open>
  What holds of the gateway's tables in every state a run reaches from the empty database: keys are unique,
  a person has at most one code and one setup link that can still be used, no session outlives its limit,
  the audit is an intact chain; and what, once true, stays true.
\<close>

section \<open>Unique keys\<close>

definition unique_by :: "('a \<Rightarrow> 'k) \<Rightarrow> 'a list \<Rightarrow> bool" where
  "unique_by f xs \<longleftrightarrow> distinct (map f xs)"

definition one_open :: "('a \<Rightarrow> bool) \<Rightarrow> ('a \<Rightarrow> 'k) \<Rightarrow> 'a list \<Rightarrow> bool" where
  "one_open used f xs \<longleftrightarrow> unique_by f (filter (\<lambda>x. \<not> used x) xs)"

lemma unique_Nil [simp]: "unique_by f []" "one_open u f []"
  by (simp_all add: unique_by_def one_open_def)

lemma unique_snoc: "unique_by f (xs @ [x]) \<longleftrightarrow> unique_by f xs \<and> f x \<notin> f ` set xs"
  by (auto simp: unique_by_def)

lemma map_same: "(\<And>x. f (h x) = f x) \<Longrightarrow> map f (map h xs) = map f xs"
  by simp

lemma unique_map: "(\<And>x. f (h x) = f x) \<Longrightarrow> unique_by f (map h xs) = unique_by f xs"
  unfolding unique_by_def by (simp only: map_same)

lemma unique_filter: "unique_by f xs \<Longrightarrow> unique_by f (filter p xs)"
  by (simp add: unique_by_def distinct_map_filter)

lemma unique_eq: "unique_by f xs \<Longrightarrow> x \<in> set xs \<Longrightarrow> y \<in> set xs \<Longrightarrow> f x = f y \<Longrightarrow> x = y"
  unfolding unique_by_def distinct_map by (blast dest: inj_onD)

lemma unique_find: "unique_by f xs \<Longrightarrow> x \<in> set xs \<Longrightarrow> find (\<lambda>y. f y = f x) xs = Some x"
  using unique_eq [of f xs] by (cases "find (\<lambda>y. f y = f x) xs") (auto simp: find_None_iff find_Some_iff)

lemma one_open_snoc: "one_open u f xs \<Longrightarrow> (\<forall>y\<in>set xs. f y = f x \<longrightarrow> u y) \<Longrightarrow> one_open u f (xs @ [x])"
  by (auto simp: one_open_def unique_snoc)

lemma filter_map_used:
  "(\<And>x. u (g x)) \<Longrightarrow> filter (\<lambda>x. \<not> u x) (map (\<lambda>x. if p x then g x else x) xs) = filter (\<lambda>x. \<not> u x \<and> \<not> p x) xs"
  by (induction xs) simp_all

lemma one_open_use:
  assumes "one_open u f xs" "\<And>x. u (g x)"
  shows "one_open u f (map (\<lambda>x. if p x then g x else x) xs)"
proof -
  have "unique_by f (filter (\<lambda>x. \<not> p x) (filter (\<lambda>x. \<not> u x) xs))" using assms(1) unfolding one_open_def by (rule unique_filter)
  then show ?thesis unfolding one_open_def filter_map_used [where u = u and g = g and p = p, OF assms(2)] by (simp only: filter_filter)
qed

section \<open>The invariant\<close>

definition session_ok :: "session_row \<Rightarrow> bool" where
  "session_ok r \<longleftrightarrow> ss_abs r \<le> ss_created r + SESSION_ABS_S"

definition gw_wf :: "gw \<Rightarrow> bool" where
  "gw_wf s \<longleftrightarrow> unique_by pe_id (gw_people s) \<and> unique_by cr_person (gw_creds s) \<and> unique_by ss_id (gw_sessions s)
     \<and> unique_by ph_id (gw_phones s) \<and> unique_by ph_hash (gw_phones s) \<and> unique_by ec_id (gw_codes s) \<and> unique_by ec_hash (gw_codes s)
     \<and> unique_by sl_id (gw_links s) \<and> unique_by sl_hash (gw_links s)
     \<and> one_open ec_used ec_person (gw_codes s) \<and> one_open sl_used sl_person (gw_links s)
     \<and> list_all session_ok (gw_sessions s) \<and> gw_chain s"

lemma gw_wf_empty: "gw_wf empty_gw"
  by (simp add: gw_wf_def empty_gw_def gw_chain_def)

lemma person_by_None: "person_by i s = None \<Longrightarrow> i \<notin> pe_id ` set (gw_people s)"
  by (auto simp: person_by_def find_None_iff)

lemma cred_by_None: "cred_by i s = None \<Longrightarrow> i \<notin> cr_person ` set (gw_creds s)"
  by (auto simp: cred_by_def find_None_iff)

lemma set_cred_creds:
  "gw_creds (set_cred c s) = (if cred_by (cr_person c) s = None then gw_creds s @ [c]
     else map (\<lambda>r. if cr_person r = cr_person c then c else r) (gw_creds s))"
  by (simp add: set_cred_def)

lemma set_cred_unique:
  assumes "unique_by cr_person (gw_creds s)"
  shows "unique_by cr_person (gw_creds (set_cred c s))"
proof (cases "cred_by (cr_person c) s = None")
  case True
  then show ?thesis using cred_by_None [OF True] assms by (simp add: set_cred_creds unique_snoc)
next
  case False
  have "unique_by cr_person (map (\<lambda>r. if cr_person r = cr_person c then c else r) (gw_creds s))"
    by (subst unique_map) (simp_all add: assms)
  then show ?thesis unfolding set_cred_creds using False by (simp only: if_False)
qed

lemma set_cred_rest [simp]:
  "gw_people (set_cred c s) = gw_people s" "gw_sessions (set_cred c s) = gw_sessions s" "gw_phones (set_cred c s) = gw_phones s"
  "gw_codes (set_cred c s) = gw_codes s" "gw_links (set_cred c s) = gw_links s" "gw_audit (set_cred c s) = gw_audit s"
  by (simp_all add: set_cred_def)

lemma gw_chain_cong: "gw_audit t = gw_audit s \<Longrightarrow> gw_chain t = gw_chain s"
  by (simp add: gw_chain_def)

lemma sessions_seen_ok: "list_all session_ok ss \<Longrightarrow> list_all session_ok (map (\<lambda>r. if ss_id r = sid then r\<lparr>ss_last := now\<rparr> else r) ss)"
  by (induction ss) (simp_all add: session_ok_def)

lemma event_wf: "gw_event K now s t \<Longrightarrow> gw_wf s \<Longrightarrow> gw_wf t"
proof (induction rule: gw_event.induct)
  case E_audit
  then show ?case using gw_chain_audit by (simp add: gw_wf_def)
next
  case E_person_new
  then show ?case using person_by_None by (simp add: gw_wf_def unique_snoc gw_chain_def)
next
  case E_person_set
  then show ?case by (simp add: gw_wf_def update_person_def unique_map gw_chain_def)
next
  case E_session_new
  then show ?case by (simp add: gw_wf_def unique_snoc gw_chain_def session_ok_def)
next
  case E_session_seen
  then show ?case by (simp add: gw_wf_def unique_map gw_chain_def sessions_seen_ok)
next
  case E_sessions_drop
  then show ?case by (simp add: gw_wf_def drop_sessions_def unique_filter gw_chain_def list_all_iff)
next
  case E_phone_new
  then show ?case by (simp add: gw_wf_def unique_snoc gw_chain_def)
next
  case E_phone_seen
  then show ?case by (simp add: gw_wf_def unique_map gw_chain_def)
next
  case E_update_key
  then show ?case by (simp add: gw_wf_def unique_map gw_chain_def)
next
  case E_phones_revoke
  then show ?case by (simp add: gw_wf_def revoke_where_def unique_map gw_chain_def)
next
  case E_code_new
  then show ?case by (simp add: gw_wf_def unique_snoc one_open_snoc gw_chain_def)
next
  case E_codes_use
  then show ?case by (simp add: gw_wf_def unique_map one_open_use gw_chain_def)
next
  case E_link_new
  then show ?case by (simp add: gw_wf_def unique_snoc one_open_snoc gw_chain_def)
next
  case E_links_use
  then show ?case by (simp add: gw_wf_def unique_map one_open_use gw_chain_def)
next
  case E_cred_set
  then show ?case using set_cred_unique by (simp add: gw_wf_def gw_chain_def)
next
  case E_cred_drop
  then show ?case by (simp add: gw_wf_def unique_filter gw_chain_def)
next
  case E_cred_step
  then show ?case by (simp add: gw_wf_def unique_map gw_chain_def)
qed (simp_all add: gw_wf_def gw_chain_def)

lemma run_wf: "gw_wf s \<Longrightarrow> gw_wf (gw_run cf ops s)"
  by (rule run_invariant_all) (auto intro: event_wf)

end
