(* ===== verification/Gw_Stay.thy ===== *)
theory Gw_Stay
  imports Gw_Inv
begin

text \<open>
  What stays true in a run once it is: a used code or link is used, a revoked phone is revoked, there is an
  active admin, the last one-time code of a credential only moves forward; and what an operation without the
  right to it cannot change.
\<close>

section \<open>Finding a row by its key\<close>

lemma find_key_mem: "find (\<lambda>x. f x = k) xs = Some x \<Longrightarrow> x \<in> set xs \<and> f x = k"
  by (auto simp: find_Some_iff)

lemma find_unique: "unique_by f xs \<Longrightarrow> find (\<lambda>x. f x = k) xs = Some x \<longleftrightarrow> x \<in> set xs \<and> f x = k"
  using unique_find [of f xs x] find_key_mem [of f k xs x] by auto

lemma find_map_key: "(\<And>x. f (h x) = f x) \<Longrightarrow> find (\<lambda>x. f x = k) (map h xs) = map_option h (find (\<lambda>x. f x = k) xs)"
  by (induction xs) simp_all

section \<open>Used codes and links\<close>

text \<open>There is a row with this key, and every row with it is in the final state \<open>u\<close>.\<close>

definition key_final :: "('a \<Rightarrow> 'k) \<Rightarrow> ('a \<Rightarrow> bool) \<Rightarrow> 'k \<Rightarrow> 'a list \<Rightarrow> bool" where
  "key_final f u k xs \<longleftrightarrow> k \<in> f ` set xs \<and> list_all (\<lambda>x. f x = k \<longrightarrow> u x) xs"

lemma key_final_snoc: "key_final f u k xs \<Longrightarrow> f x \<notin> f ` set xs \<Longrightarrow> key_final f u k (xs @ [x])"
  by (auto simp: key_final_def)

lemma key_final_map:
  "(\<And>x. f (g x) = f x) \<Longrightarrow> (\<And>x. u x \<Longrightarrow> u (g x)) \<Longrightarrow> key_final f u k xs \<Longrightarrow> key_final f u k (map g xs)"
  unfolding key_final_def by (auto simp: image_image list_all_iff)

lemma key_final_use:
  assumes "unique_by f xs" "r \<in> set xs" "\<And>x. f (g x) = f x" "\<And>x. u (g x)"
  shows "key_final f u (f r) (map (\<lambda>x. if i x = i r then g x else x) xs)"
proof -
  let ?h = "\<lambda>x. if i x = i r then g x else x"
  have k: "f (?h x) = f x" for x using assms(3) by simp
  have "f r \<in> f ` set (map ?h xs)" using assms(2) by (simp only: list.set_map image_image k) (rule imageI)
  moreover have "u y" if y: "y \<in> set (map ?h xs)" "f y = f r" for y
  proof -
    obtain x where x: "x \<in> set xs" "y = ?h x" using y(1) unfolding list.set_map by (rule imageE)
    then have "f x = f r" using y(2) k by metis
    then have "x = r" using unique_eq [OF assms(1) x(1) assms(2)] by blast
    then show ?thesis using x(2) assms(4) by simp
  qed
  ultimately show ?thesis unfolding key_final_def list_all_iff by blast
qed

lemma key_final_find: "key_final f u k xs \<Longrightarrow> find (\<lambda>x. f x = k) xs = Some x \<Longrightarrow> u x"
  using find_key_mem [of f k xs x] by (auto simp: key_final_def list_all_iff)

abbreviation code_spent :: "string \<Rightarrow> gw \<Rightarrow> bool" where
  "code_spent h s \<equiv> key_final ec_hash ec_used h (gw_codes s)"

abbreviation link_spent :: "string \<Rightarrow> gw \<Rightarrow> bool" where
  "link_spent h s \<equiv> key_final sl_hash sl_used h (gw_links s)"

abbreviation phone_shut :: "string \<Rightarrow> gw \<Rightarrow> bool" where
  "phone_shut i s \<equiv> key_final ph_id ph_revoked i (gw_phones s)"

lemma code_spent_event: "gw_event K now s t \<Longrightarrow> code_spent h s \<Longrightarrow> code_spent h t"
proof (induction rule: gw_event.induct)
  case E_codes_use
  then show ?case by (simp add: key_final_map)
qed (simp_all add: key_final_snoc drop_sessions_def update_person_def revoke_where_def)

lemma link_spent_event: "gw_event K now s t \<Longrightarrow> link_spent h s \<Longrightarrow> link_spent h t"
proof (induction rule: gw_event.induct)
  case E_links_use
  then show ?case by (simp add: key_final_map)
qed (simp_all add: key_final_snoc drop_sessions_def update_person_def revoke_where_def)

lemma phone_shut_event: "gw_event K now s t \<Longrightarrow> phone_shut i s \<Longrightarrow> phone_shut i t"
  by (induction rule: gw_event.induct) (simp_all add: key_final_snoc key_final_map drop_sessions_def update_person_def revoke_where_def)

lemma code_spent_run: "code_spent h s \<Longrightarrow> code_spent h (gw_run cf ops s)"
  by (rule run_invariant_all [where P = "\<lambda>s. code_spent h s"]) (blast intro: code_spent_event)+

lemma link_spent_run: "link_spent h s \<Longrightarrow> link_spent h (gw_run cf ops s)"
  by (rule run_invariant_all [where P = "\<lambda>s. link_spent h s"]) (blast intro: link_spent_event)+

lemma phone_shut_run: "phone_shut i s \<Longrightarrow> phone_shut i (gw_run cf ops s)"
  by (rule run_invariant_all [where P = "\<lambda>s. phone_shut i s"]) (blast intro: phone_shut_event)+

section \<open>Admins\<close>

definition active_admin :: "person_row \<Rightarrow> bool" where
  "active_admin r \<longleftrightarrow> pe_role r = ''admin'' \<and> pe_active r"

definition has_admin :: "gw \<Rightarrow> bool" where
  "has_admin s \<longleftrightarrow> list_ex active_admin (gw_people s)"

lemma has_admin_set:
  assumes "unique_by pe_id (gw_people s)" "has_admin s" "person_by pid s = Some r"
    "\<not> (pe_role r = ''admin'' \<and> pe_active r \<and> (pv_role new \<noteq> ''admin'' \<or> \<not> pv_active new) \<and> other_admins pid s = [])"
  shows "has_admin (update_person pid new s)"
proof -
  obtain a where a: "a \<in> set (gw_people s)" "active_admin a" using assms(2) by (auto simp: has_admin_def list_ex_iff)
  let ?g = "\<lambda>r. if pe_id r = pid then r\<lparr>pe_name := pv_name new, pe_role := pv_role new, pe_parent := pv_parent new, pe_active := pv_active new, pe_web := pv_web new\<rparr> else r"
  have other: "has_admin (update_person pid new s)" if "b \<in> set (gw_people s)" "active_admin b" "pe_id b \<noteq> pid" for b
    using that by (auto simp: has_admin_def update_person_def list_ex_iff intro!: bexI [of _ b])
  have r: "r \<in> set (gw_people s)" "pe_id r = pid" using assms(3) find_key_mem [of pe_id pid "gw_people s" r] by (simp_all add: person_by_def)
  show ?thesis
  proof (cases "pe_id a = pid")
    case False
    then show ?thesis using a other by blast
  next
    case True
    then have "a = r" using unique_eq [OF assms(1) a(1) r(1)] r(2) by simp
    then consider "pv_role new = ''admin''" "pv_active new" | "other_admins pid s \<noteq> []" using assms(4) a(2) by (auto simp: active_admin_def)
    then show ?thesis
    proof cases
      case 1
      then have "active_admin (?g r)" using r(2) by (simp add: active_admin_def)
      moreover have "gw_people (update_person pid new s) = map ?g (gw_people s)" by (simp add: update_person_def)
      then have "?g r \<in> set (gw_people (update_person pid new s))" using imageI [OF r(1), of ?g] by (simp only: list.set_map)
      ultimately show ?thesis unfolding has_admin_def list_ex_iff by blast
    next
      case 2
      then obtain b where "b \<in> set (other_admins pid s)" by (cases "other_admins pid s") auto
      then show ?thesis using other by (auto simp: other_admins_def active_admin_def)
    qed
  qed
qed

lemma has_admin_event: "gw_event K now s t \<Longrightarrow> gw_wf s \<and> has_admin s \<Longrightarrow> gw_wf t \<and> has_admin t"
proof (rule conjI)
  assume e: "gw_event K now s t" and p: "gw_wf s \<and> has_admin s"
  show "gw_wf t" using e p event_wf by blast
  show "has_admin t" using e p
  proof (induction rule: gw_event.induct)
    case E_person_set
    then show ?case by (intro has_admin_set) (auto simp: gw_wf_def)
  qed (auto simp: has_admin_def drop_sessions_def revoke_where_def)
qed

lemma has_admin_run: "gw_wf s \<Longrightarrow> has_admin s \<Longrightarrow> has_admin (gw_run cf ops s)"
  using run_invariant_all [where P = "\<lambda>s. gw_wf s \<and> has_admin s"] has_admin_event by blast

section \<open>The last code of a credential\<close>

definition step_from :: "string \<Rightarrow> string \<Rightarrow> string option \<Rightarrow> int \<Rightarrow> gw \<Rightarrow> bool" where
  "step_from pid pw sd n s \<longleftrightarrow> (\<exists>c. cred_by pid s = Some c \<and> cr_pw c = pw \<and> cr_seed c = sd \<and> n \<le> cr_step c)"

lemma cred_by_map_step:
  "cred_by pid (s\<lparr>gw_creds := map (\<lambda>c. if cr_person c = q then c\<lparr>cr_step := step\<rparr> else c) (gw_creds s)\<rparr>)
   = map_option (\<lambda>c. if cr_person c = q then c\<lparr>cr_step := step\<rparr> else c) (cred_by pid s)"
  unfolding cred_by_def by (simp add: find_map_key)

lemma step_from_event: "gw_event K now s t \<Longrightarrow> K_cred \<notin> K \<Longrightarrow> step_from pid pw sd n s \<Longrightarrow> step_from pid pw sd n t"
proof (induction rule: gw_event.induct)
  case (E_cred_step q s c step)
  then obtain d where d: "cred_by pid s = Some d" "cr_pw d = pw" "cr_seed d = sd" "n \<le> cr_step d" by (auto simp: step_from_def)
  show ?case
  proof (cases "cr_person d = q")
    case True
    then have "q = pid" using d(1) find_key_mem [of cr_person pid "gw_creds s" d] by (simp add: cred_by_def)
    then show ?thesis using E_cred_step d True by (auto simp: step_from_def cred_by_map_step)
  next
    case False
    then show ?thesis using d by (auto simp: step_from_def cred_by_map_step)
  qed
qed (simp_all add: step_from_def cred_by_def drop_sessions_def revoke_where_def update_person_def)

lemma step_from_run:
  "step_from pid pw sd n s \<Longrightarrow> list_all (\<lambda>op. K_cred \<notin> op_kinds op) ops \<Longrightarrow> step_from pid pw sd n (gw_run cf ops s)"
  by (rule run_invariant [where K = "- {K_cred}" and P = "step_from pid pw sd n"])
     (auto simp: list_all_iff intro: step_from_event)

section \<open>What needs a right\<close>

definition keyed :: "gw \<Rightarrow> person_row list \<times> string list \<times> string list \<times> (string \<times> string \<times> string option) list" where
  "keyed s = (gw_people s, map ec_id (gw_codes s), map sl_id (gw_links s), map (\<lambda>c. (cr_person c, cr_pw c, cr_seed c)) (gw_creds s))"

lemma keyed_event: "gw_event K now s t \<Longrightarrow> K = {} \<Longrightarrow> keyed t = keyed s"
  by (induction rule: gw_event.induct) (simp_all add: keyed_def drop_sessions_def revoke_where_def)

lemma keyed_events: "gw_events {} now s t \<Longrightarrow> keyed t = keyed s"
  by (induction rule: rtranclp_induct) (simp_all add: keyed_event)

end
