(* ===== verification/Ed25519_Props.thy ===== *)
theory Ed25519_Props
  imports Ed25519
begin

text \<open>
  Powers by squaring are powers, the addition and the multiples of points stay on the curve, and a message has
  at most one acceptable signature with a given first half and a given second half modulo the order of the group.
\<close>

section \<open>Powers\<close>

lemma pow_mod_power: "0 < m \<Longrightarrow> pow_mod x n m = x ^ n mod m"
proof (induction x n m rule: pow_mod.induct)
  case (1 x n m)
  have sq: "(x * x mod m) ^ k mod m = (x ^ (2 * k)) mod m" for k by (simp add: power_mod power_mult power2_eq_square)
  show ?case
  proof (cases "n = 0")
    case False
    have h: "pow_mod (x * x mod m) (n div 2) m = x ^ (2 * (n div 2)) mod m"
      using 1 False sq by (cases "odd n") (metis)+
    show ?thesis
    proof (cases "odd n")
      case True
      then have "x ^ n = x * x ^ (2 * (n div 2))" by (metis odd_two_times_div_two_succ power_Suc Suc_eq_plus1)
      with True False h show ?thesis by (subst pow_mod.simps) (simp add: mod_mult_right_eq)
    next
      case even: False
      with False h show ?thesis by (subst pow_mod.simps) simp
    qed
  qed (simp add: pow_mod.simps)
qed

section \<open>The curve\<close>

definition on_curve :: "ed_point \<Rightarrow> bool" where
  "on_curve p = (case p of (x, y, z, t) \<Rightarrow>
     (x * y - z * t) mod ED_P = 0 \<and> (y * y - x * x - z * z - ED_D * t * t) mod ED_P = 0)"

text \<open>The sum of two points satisfies the equation of the curve as the points do: an identity in the coordinates.\<close>

lemma addition_identity:
  fixes x1 y1 z1 t1 x2 y2 z2 t2 d :: int
  defines "a1 \<equiv> x1 * y1 - z1 * t1" and "b1 \<equiv> y1 * y1 - x1 * x1 - z1 * z1 - d * t1 * t1"
    and "a2 \<equiv> x2 * y2 - z2 * t2" and "b2 \<equiv> y2 * y2 - x2 * x2 - z2 * z2 - d * t2 * t2"
    and "e \<equiv> x1 * y2 + y1 * x2" and "h \<equiv> y1 * y2 + x1 * x2"
    and "f \<equiv> z1 * z2 - d * t1 * t2" and "g \<equiv> z1 * z2 + d * t1 * t2"
  shows "g * h * (g * h) - e * f * (e * f) - f * g * (f * g) - d * (e * h) * (e * h) =
    a1 * (- 2 * x1 ^ 2 * x2 ^ 3 * y2 * d - 2 * x1 ^ 2 * x2 * y2 ^ 3 * d - x1 * y1 * x2 ^ 4 * d - 6 * x1 * y1 * x2 ^ 2 * y2 ^ 2 * d
        - x1 * y1 * y2 ^ 4 * d - 2 * y1 ^ 2 * x2 ^ 3 * y2 * d - 2 * y1 ^ 2 * x2 * y2 ^ 3 * d - z1 * t1 * x2 ^ 4 * d - 6 * z1 * t1 * x2 ^ 2 * y2 ^ 2 * d
        + 8 * z1 * t1 * x2 * y2 * z2 * t2 * d - z1 * t1 * y2 ^ 4 * d)
    + b1 * (0 - y1 ^ 2 * x2 ^ 2 * y2 ^ 2 * d - z1 ^ 2 * x2 ^ 2 * y2 ^ 2 * d - z1 ^ 2 * x2 ^ 2 * z2 ^ 2 + z1 ^ 2 * y2 ^ 2 * z2 ^ 2
        - 2 * z1 * t1 * x2 ^ 3 * y2 * d + 2 * z1 * t1 * x2 ^ 2 * z2 * t2 * d - 2 * z1 * t1 * x2 * y2 ^ 3 * d + 2 * z1 * t1 * y2 ^ 2 * z2 * t2 * d
        - t1 ^ 2 * x2 ^ 2 * y2 ^ 2 * d ^ 2 - t1 ^ 2 * x2 ^ 2 * t2 ^ 2 * d ^ 2 + t1 ^ 2 * y2 ^ 2 * t2 ^ 2 * d ^ 2 + x1 ^ 2 * x2 ^ 2 * y2 ^ 2 * d)
    + a2 * (- 4 * x1 ^ 2 * z1 * t1 * x2 ^ 2 * d - 4 * x1 ^ 2 * z1 * t1 * y2 ^ 2 * d - z1 ^ 4 * x2 * y2 * d - z1 ^ 4 * z2 * t2 * d
        - 2 * z1 ^ 3 * t1 * x2 ^ 2 * d - 2 * z1 ^ 3 * t1 * y2 ^ 2 * d - 2 * z1 ^ 2 * t1 ^ 2 * x2 * y2 * d ^ 2 - 8 * z1 ^ 2 * t1 ^ 2 * x2 * y2 * d
        - 2 * z1 ^ 2 * t1 ^ 2 * z2 * t2 * d ^ 2 - 2 * z1 * t1 ^ 3 * x2 ^ 2 * d ^ 2 - 2 * z1 * t1 ^ 3 * y2 ^ 2 * d ^ 2 - t1 ^ 4 * x2 * y2 * d ^ 3
        - t1 ^ 4 * z2 * t2 * d ^ 3)
    + b2 * (z1 ^ 4 * z2 ^ 2 - z1 ^ 2 * t1 ^ 2 * y2 ^ 2 * d + t1 ^ 4 * t2 ^ 2 * d ^ 3 + z1 ^ 2 * t1 ^ 2 * x2 ^ 2 * d)"
  unfolding a1_def b1_def a2_def b2_def e_def h_def f_def g_def by algebra

lemma coordinates_mod:
  fixes e f g h :: int
  assumes "E mod m = 2 * e mod m" "F mod m = 2 * f mod m" "G mod m = 2 * g mod m" "H mod m = 2 * h mod m"
  shows "((G * H mod m) * (G * H mod m) - (E * F mod m) * (E * F mod m) - (F * G mod m) * (F * G mod m) - d * (E * H mod m) * (E * H mod m)) mod m
    = 16 * (g * h * (g * h) - e * f * (e * f) - f * g * (f * g) - d * (e * h) * (e * h)) mod m"
proof -
  have p: "A * B mod m = 4 * (a * b) mod m" if "A mod m = 2 * a mod m" "B mod m = 2 * b mod m" for A B a b :: int
    using mod_mult_cong [OF that] by (simp add: ac_simps)
  have q: "A * B mod m * (A * B mod m) mod m = 16 * (a * b * (a * b)) mod m" if "A mod m = 2 * a mod m" "B mod m = 2 * b mod m" for A B a b :: int
  proof -
    have "A * B mod m mod m = 4 * (a * b) mod m" using p [OF that] by simp
    then have "A * B mod m * (A * B mod m) mod m = 4 * (a * b) * (4 * (a * b)) mod m" by (intro mod_mult_cong)
    moreover have "4 * (a * b) * (4 * (a * b)) = 16 * (a * b * (a * b))" by algebra
    ultimately show ?thesis by simp
  qed
  have r: "d * (E * H mod m) * (E * H mod m) mod m = 16 * (d * (e * h) * (e * h)) mod m"
    using mod_mult_cong [OF refl q [OF assms(1,4)], of d] by (simp only: mult.assoc mult.left_commute [of d])
  show ?thesis
    using mod_diff_cong [OF mod_diff_cong [OF mod_diff_cong [OF q [OF assms(3,4)] q [OF assms(1,2)]] q [OF assms(2,3)]] r]
    by (simp add: algebra_simps)
qed

text \<open>Adding two points of the curve gives a point of the curve.\<close>

lemma pt_add_on_curve:
  assumes "on_curve p" "on_curve q"
  shows "on_curve (pt_add p q)"
proof -
  obtain x1 y1 z1 t1 where p: "p = (x1, y1, z1, t1)" by (cases p)
  obtain x2 y2 z2 t2 where q: "q = (x2, y2, z2, t2)" by (cases q)
  define A B C K where "A = (y1 - x1) * (y2 - x2) mod ED_P" "B = (y1 + x1) * (y2 + x2) mod ED_P"
    "C = 2 * t1 * t2 * ED_D mod ED_P" "K = 2 * z1 * z2 mod ED_P"
  define e h f g where "e = x1 * y2 + y1 * x2" "h = y1 * y2 + x1 * x2" "f = z1 * z2 - ED_D * t1 * t2" "g = z1 * z2 + ED_D * t1 * t2"
  have s: "pt_add p q = ((B - A) * (K - C) mod ED_P, (K + C) * (B + A) mod ED_P, (K - C) * (K + C) mod ED_P, (B - A) * (B + A) mod ED_P)"
    unfolding pt_add_def p q A_B_C_K_def by (simp only: prod.case Let_def)
  have 1: "(B - A) mod ED_P = 2 * e mod ED_P" "(K - C) mod ED_P = 2 * f mod ED_P" "(K + C) mod ED_P = 2 * g mod ED_P" "(B + A) mod ED_P = 2 * h mod ED_P"
    unfolding A_B_C_K_def e_h_f_g_def mod_diff_eq mod_add_eq by (rule arg_cong [where f = "\<lambda>k. k mod ED_P"], algebra)+
  have a: "ED_P dvd x1 * y1 - z1 * t1" "ED_P dvd y1 * y1 - x1 * x1 - z1 * z1 - ED_D * t1 * t1"
    "ED_P dvd x2 * y2 - z2 * t2" "ED_P dvd y2 * y2 - x2 * x2 - z2 * z2 - ED_D * t2 * t2"
    using assms by (simp_all only: on_curve_def p q prod.case mod_0_imp_dvd dvd_eq_mod_eq_0)
  have "ED_P dvd g * h * (g * h) - e * f * (e * f) - f * g * (f * g) - ED_D * (e * h) * (e * h)"
    unfolding e_h_f_g_def addition_identity by (intro dvd_add dvd_mult2 a)
  then have "16 * (g * h * (g * h) - e * f * (e * f) - f * g * (f * g) - ED_D * (e * h) * (e * h)) mod ED_P = 0" by (intro dvd_imp_mod_0 dvd_mult)
  moreover have "((B - A) * (K - C) mod ED_P * ((K + C) * (B + A) mod ED_P) - (K - C) * (K + C) mod ED_P * ((B - A) * (B + A) mod ED_P)) mod ED_P = 0"
  proof -
    have "(a mod m * (b mod m) - c mod m * (d mod m)) mod m = (a * b - c * d) mod m" for a b c d m :: int
      by (metis mod_diff_eq mod_mult_eq)
    moreover have "(B - A) * (K - C) * ((K + C) * (B + A)) - (K - C) * (K + C) * ((B - A) * (B + A)) = 0" by algebra
    ultimately show ?thesis by (simp only: mod_0)
  qed
  ultimately show ?thesis unfolding s on_curve_def prod.case coordinates_mod [OF 1] by blast
qed

lemma neutral_on_curve: "on_curve (0, 1, 1, 0)"
  by (simp add: on_curve_def)

lemma mul_loop_on_curve: "on_curve r \<Longrightarrow> on_curve p \<Longrightarrow> on_curve (mul_loop s r p)"
proof (induction s r p rule: mul_loop.induct)
  case (1 s r p)
  then show ?case by (subst mul_loop.simps) (simp add: pt_add_on_curve)
qed

text \<open>The multiples of a point of the curve, which keys and signatures are made of, are points of the curve in
  extended coordinates: \<open>X*Y = Z*T\<close> and \<open>Y^2 - X^2 = Z^2 + D*T^2\<close> modulo \<open>P\<close>.\<close>

theorem multiples_on_curve:
  assumes "on_curve p"
  shows "on_curve (pt_mul n p)"
  unfolding pt_mul_def by (intro mul_loop_on_curve neutral_on_curve assms)

text \<open>The point of order two.\<close>

lemma multiples_on_curve_witness: "on_curve (pt_mul 5 (0, ED_P - 1, 1, 0))"
proof (rule multiples_on_curve)
  have "(ED_P - 1) * (ED_P - 1) - 0 * 0 - 1 * 1 - ED_D * 0 * 0 = ED_P * (ED_P - 2)" by algebra
  then show "on_curve (0, ED_P - 1, 1, 0)" by (simp add: on_curve_def)
qed

section \<open>Signatures\<close>

definition byte_list :: "int list \<Rightarrow> bool" where
  "byte_list bs \<longleftrightarrow> list_all (\<lambda>b. 0 \<le> b \<and> b < 256) bs"

lemma le_int_simps [simp]: "le_int [] = 0" "le_int (b # bs) = b + 256 * le_int bs"
  by (simp_all add: le_int_def)

lemma le_int_range: "byte_list bs \<Longrightarrow> 0 \<le> le_int bs \<and> le_int bs < 256 ^ length bs"
  by (induction bs) (auto simp: byte_list_def)

lemma le_int_inj: "byte_list as \<Longrightarrow> byte_list bs \<Longrightarrow> length as = length bs \<Longrightarrow> le_int as = le_int bs \<Longrightarrow> as = bs"
proof (induction as arbitrary: bs)
  case (Cons a as)
  then obtain b bs' where bs: "bs = b # bs'" by (cases bs) auto
  have r: "0 \<le> a" "a < 256" "0 \<le> b" "b < 256" using Cons.prems bs by (auto simp: byte_list_def)
  have eq: "a + 256 * le_int as = b + 256 * le_int bs'" using Cons.prems(4) bs by simp
  have "a mod 256 = b mod 256" using arg_cong [OF eq, of "\<lambda>n. n mod 256"] by simp
  then have "a = b" using r by simp
  moreover have "as = bs'" using Cons eq bs \<open>a = b\<close> by (auto simp: byte_list_def)
  ultimately show ?case by (simp add: bs)
qed simp

text \<open>C19: A message has, for a key, a first half and a second half modulo the order of the group, at most one signature
  that verifies: adding the order to the second half does not give another one.\<close>

theorem signature_unique:
  "card {sig. ed_verify pub msg sig \<and> byte_list sig \<and> take 32 sig = rs \<and> le_int (drop 32 sig) mod ED_Q = s} \<le> 1"
proof -
  let ?S = "{sig. ed_verify pub msg sig \<and> byte_list sig \<and> take 32 sig = rs \<and> le_int (drop 32 sig) mod ED_Q = s}"
  have eq: "a = b" if a: "a \<in> ?S" and b: "b \<in> ?S" for a b
  proof -
    have len: "length a = 64" "length b = 64" and lt: "le_int (drop 32 a) < ED_Q" "le_int (drop 32 b) < ED_Q"
      using a b by (auto simp: ed_verify_def Let_def split: option.splits)
    have bytes: "byte_list (drop 32 a)" "byte_list (drop 32 b)" using a b by (auto simp: byte_list_def list_all_iff dest: in_set_dropD)
    have "le_int (drop 32 a) = le_int (drop 32 b)" using a b lt le_int_range [OF bytes(1)] le_int_range [OF bytes(2)] by auto
    then have "drop 32 a = drop 32 b" using le_int_inj [OF bytes] len by simp
    moreover have "take 32 a = take 32 b" using a b by simp
    ultimately show "a = b" by (metis append_take_drop_id)
  qed
  show ?thesis
  proof (cases "?S = {}")
    case False
    then obtain a where "a \<in> ?S" by blast
    then have "?S = {a}" using eq by blast
    then show ?thesis by simp
  qed (simp only: card.empty)
qed

lemma sign_shape:
  assumes "ed_sign seed msg = Some sig"
  shows "length sig = 64" "byte_list (drop 32 sig)"
proof -
  obtain a pre r h where sig: "sig = compress_pt (pt_mul r base_point) @ le_bytes 32 ((r + h * a) mod ED_Q)"
    using assms by (auto simp: ed_sign_def Let_def)
  have c: "length (compress_pt p) = 32" for p by (cases p) (simp add: Let_def le_bytes_def)
  show "length sig = 64" by (simp add: sig c le_bytes_def)
  show "byte_list (drop 32 sig)" by (simp add: sig c le_bytes_def byte_list_def list_all_iff)
qed

end
