(* ===== verification/Apk_Props.thy ===== *)
theory Apk_Props
  imports Apk_Info Ed25519_Props
begin

text \<open>
  Reading a signing block gives back what was written into it: the pairs, the signers and their certificates.
\<close>

section \<open>Numbers\<close>

lemma le_bytes_Suc: "le_bytes (Suc k) n = n mod 256 # le_bytes k (n div 256)"
  unfolding le_bytes_def upt_conv_Cons [OF zero_less_Suc] map_Suc_upt [symmetric]
  by (simp add: zdiv_zmult2_eq comp_def)

lemma le_int_le_bytes: "le_int (le_bytes k n) = n mod 256 ^ k"
proof (induction k arbitrary: n)
  case (Suc k)
  have "n mod 256 + 256 * (n div 256 mod 256 ^ k) = n mod 256 ^ Suc k" by (simp add: zmod_zmult2_eq ac_simps)
  then show ?case by (simp add: le_bytes_Suc Suc)
qed (simp add: le_bytes_def)

lemma length_le_bytes [simp]: "length (le_bytes k n) = k"
  by (simp add: le_bytes_def)

lemma ufield_here: "length pre = i \<Longrightarrow> int n < 256 ^ k \<Longrightarrow> ufield i k (pre @ le_bytes k (int n) @ post) = n"
  by (simp add: ufield_def le_int_le_bytes)

section \<open>Texts with their length\<close>

definition lp_bytes :: "int list \<Rightarrow> int list" where
  "lp_bytes x = le_bytes 4 (int (length x)) @ x"

definition fits :: "int list \<Rightarrow> bool" where
  "fits x \<longleftrightarrow> length x < 2 ^ 32"

lemma length_lp_bytes: "length (lp_bytes x) = 4 + length x"
  by (simp add: lp_bytes_def)

lemma lp_here: "fits x \<Longrightarrow> lp (pre @ lp_bytes x @ post) (length pre) = Some (x, length pre + length (lp_bytes x))"
  using ufield_here [of pre "length pre" "length x" 4 "x @ post"]
  by (simp add: lp_def lp_bytes_def fits_def Let_def)

lemma lp_all_here: "list_all fits xs \<Longrightarrow> lp_all (pre @ concat (map lp_bytes xs)) (length pre) = Some xs"
proof (induction xs arbitrary: pre)
  case Nil
  then show ?case by (simp add: lp_all.simps)
next
  case (Cons x xs)
  have "lp (pre @ lp_bytes x @ concat (map lp_bytes xs)) (length pre) = Some (x, length (pre @ lp_bytes x))"
    using Cons.prems by (simp add: lp_here)
  moreover have "lp_all ((pre @ lp_bytes x) @ concat (map lp_bytes xs)) (length (pre @ lp_bytes x)) = Some xs"
    by (rule Cons.IH) (use Cons.prems in simp)
  ultimately show ?case by (subst lp_all.simps) (simp add: length_lp_bytes)
qed

section \<open>Signers\<close>

text \<open>What a signer's part holds besides the certificates is any bytes.\<close>

record signer_part =
  sp_digests :: "int list"
  sp_certs :: "int list list"
  sp_attributes :: "int list"
  sp_signatures :: "int list"

definition cert_seq :: "signer_part \<Rightarrow> int list" where
  "cert_seq s = concat (map lp_bytes (sp_certs s))"

definition signed_part :: "signer_part \<Rightarrow> int list" where
  "signed_part s = lp_bytes (sp_digests s) @ lp_bytes (cert_seq s) @ sp_attributes s"

definition signer_bytes :: "signer_part \<Rightarrow> int list" where
  "signer_bytes s = lp_bytes (signed_part s) @ sp_signatures s"

definition block_bytes :: "signer_part list \<Rightarrow> int list" where
  "block_bytes ss = lp_bytes (concat (map (\<lambda>s. lp_bytes (signer_bytes s)) ss))"

definition signers_fit :: "signer_part list \<Rightarrow> bool" where
  "signers_fit ss \<longleftrightarrow> length (block_bytes ss) < 2 ^ 32"

lemma part_fits: "x \<in> set xs \<Longrightarrow> length (concat (map lp_bytes xs)) < 2 ^ 32 \<Longrightarrow> fits x"
  using member_le_sum_list [of "length (lp_bytes x)" "map (\<lambda>x. length (lp_bytes x)) xs"]
  by (auto simp: fits_def length_concat length_lp_bytes comp_def)

lemma signer_ders_bytes:
  assumes "fits (signer_bytes s)"
  shows "signer_ders (signer_bytes s) = Some (sp_certs s)"
proof -
  have f: "fits (signed_part s)" "fits (sp_digests s)" "fits (cert_seq s)"
    using assms by (simp_all add: fits_def signer_bytes_def signed_part_def length_lp_bytes)
  then have "length (concat (map lp_bytes (sp_certs s))) < 2 ^ 32" by (simp only: fits_def cert_seq_def)
  then have "list_all fits (sp_certs s)" unfolding list_all_iff using part_fits by blast
  then have "lp_all (cert_seq s) 0 = Some (sp_certs s)" using lp_all_here [of "sp_certs s" "[]"] by (simp add: cert_seq_def)
  moreover have "lp (signer_bytes s) 0 = Some (signed_part s, 4 + length (signed_part s))"
    using lp_here [OF f(1), of "[]" "sp_signatures s"] by (simp add: signer_bytes_def length_lp_bytes)
  moreover have "lp (signed_part s) 0 = Some (sp_digests s, length (lp_bytes (sp_digests s)))"
    using lp_here [OF f(2), of "[]" "lp_bytes (cert_seq s) @ sp_attributes s"] by (simp add: signed_part_def)
  moreover have "\<exists>r. lp (signed_part s) (length (lp_bytes (sp_digests s))) = Some (cert_seq s, r)"
    using lp_here [OF f(3), of "lp_bytes (sp_digests s)" "sp_attributes s"] by (simp add: signed_part_def)
  ultimately show ?thesis by (auto simp: signer_ders_def)
qed

lemma block_ders_bytes:
  assumes "signers_fit ss"
  shows "block_ders (block_bytes ss) = Some (concat (map sp_certs ss))"
proof -
  let ?all = "concat (map lp_bytes (map signer_bytes ss))"
  have b: "block_bytes ss = lp_bytes ?all" by (simp add: block_bytes_def comp_def)
  then have len: "length ?all < 2 ^ 32" using assms by (simp add: signers_fit_def length_lp_bytes)
  then have "lp (block_bytes ss) 0 = Some (?all, 4 + length ?all)"
    using lp_here [of ?all "[]" "[]"] by (simp add: b fits_def length_lp_bytes)
  moreover have f: "list_all fits (map signer_bytes ss)" unfolding list_all_iff using part_fits len by blast
  then have "lp_all ?all 0 = Some (map signer_bytes ss)" using lp_all_here [of "map signer_bytes ss" "[]"] by simp
  moreover have "list_all (\<lambda>s. fits (signer_bytes s)) ts \<Longrightarrow> all_ders (map signer_bytes ts) = Some (concat (map sp_certs ts))" for ts
    by (induction ts) (simp_all add: signer_ders_bytes)
  then have "all_ders (map signer_bytes ss) = Some (concat (map sp_certs ss))" using f by (simp add: list_all_iff)
  ultimately show ?thesis by (simp add: block_ders_def)
qed

section \<open>Pairs\<close>

definition pair_bytes :: "nat \<times> int list \<Rightarrow> int list" where
  "pair_bytes p = le_bytes 8 (int (4 + length (snd p))) @ le_bytes 4 (int (fst p)) @ snd p"

lemma length_pair_bytes: "length (pair_bytes p) = 12 + length (snd p)"
  by (simp add: pair_bytes_def)

lemma sig_pairs_here:
  "list_all (\<lambda>(pid, v). pid < 2 ^ 32 \<and> 4 + length v < 2 ^ 64) ps \<Longrightarrow>
   sig_pairs (pre @ concat (map pair_bytes ps) @ post) (length pre + length (concat (map pair_bytes ps))) (length pre) = ps"
proof (induction ps arbitrary: pre)
  case Nil
  then show ?case by (simp add: sig_pairs.simps)
next
  case (Cons p ps)
  obtain pid v where p: "p = (pid, v)" by (cases p)
  have size: "pid < 2 ^ 32" "4 + length v < 2 ^ 64" using Cons.prems p by simp_all
  let ?rest = "concat (map pair_bytes ps) @ post"
  let ?block = "pre @ pair_bytes p @ ?rest"
  have n: "ufield (length pre) 8 ?block = 4 + length v"
    using ufield_here [of pre "length pre" "4 + length v" 8 "le_bytes 4 (int pid) @ v @ ?rest"] size by (simp add: pair_bytes_def p)
  have i: "ufield (length pre + 8) 4 ?block = pid"
    using ufield_here [of "pre @ le_bytes 8 (int (4 + length v))" "length pre + 8" pid 4 "v @ ?rest"] size by (simp add: pair_bytes_def p)
  have v: "take (length v) (drop (length pre + 12) ?block) = v" by (simp add: pair_bytes_def p)
  have "sig_pairs ((pre @ pair_bytes p) @ concat (map pair_bytes ps) @ post) (length (pre @ pair_bytes p) + length (concat (map pair_bytes ps))) (length (pre @ pair_bytes p)) = ps"
    by (rule Cons.IH) (use Cons.prems in simp)
  then have rest: "sig_pairs ?block (length pre + (12 + length v + length (concat (map pair_bytes ps)))) (length pre + 8 + (4 + length v)) = ps"
    by (simp add: length_pair_bytes p add.assoc)
  show ?case
    using n i v rest by (subst sig_pairs.simps) (simp add: length_pair_bytes p Let_def add.assoc)
qed

text \<open>C20: Reading a signing block gives back the certificates that were put into it, of the scheme v2 signers and then of
  the v3 signers, in their order, whatever other pairs the block holds and whatever stands around it.\<close>

theorem signing_block_roundtrip:
  assumes "map_of ps ID_V2 = Some (block_bytes v2)" "map_of ps ID_V3 = Some (block_bytes v3)"
    and "signers_fit v2" "signers_fit v3"
    and "list_all (\<lambda>(pid, v). pid < 2 ^ 32 \<and> 4 + length v < 2 ^ 64) ps" "length head = 8"
  shows "pair_ders (sig_pairs (head @ concat (map pair_bytes ps) @ tail) (8 + length (concat (map pair_bytes ps))) 8)
    = Some (concat (map sp_certs v2) @ concat (map sp_certs v3))"
  using sig_pairs_here [OF assms(5), of head tail] assms(1-4,6) by (simp add: pair_ders_def block_ders_bytes)

definition w_signer :: "int list list \<Rightarrow> signer_part" where
  "w_signer certs = \<lparr>sp_digests = [1, 2], sp_certs = certs, sp_attributes = [9], sp_signatures = [7]\<rparr>"

lemma signing_block_roundtrip_witness:
  "let a = w_signer [[10, 11], [12]]; b = w_signer [[10, 11]];
       ps = [(5, [0]), (ID_V2, block_bytes [a]), (ID_V3, block_bytes [b])]
   in pair_ders (sig_pairs (replicate 8 0 @ concat (map pair_bytes ps) @ [1, 1]) (8 + length (concat (map pair_bytes ps))) 8)
      = Some [[10, 11], [12], [10, 11]]"
proof -
  let ?a = "w_signer [[10, 11], [12]]" and ?b = "w_signer [[10, 11]]"
  let ?ps = "[(5, [0]), (ID_V2, block_bytes [?a]), (ID_V3, block_bytes [?b])]"
  have len: "length (block_bytes [?a]) = 35" "length (block_bytes [?b]) = 30"
    by (simp_all add: block_bytes_def signer_bytes_def signed_part_def cert_seq_def length_lp_bytes w_signer_def)
  have "pair_ders (sig_pairs (replicate 8 0 @ concat (map pair_bytes ?ps) @ [1, 1]) (8 + length (concat (map pair_bytes ?ps))) 8)
      = Some (concat (map sp_certs [?a]) @ concat (map sp_certs [?b]))"
    by (rule signing_block_roundtrip) (simp_all add: ID_V2_def ID_V3_def signers_fit_def len)
  then show ?thesis by (simp add: w_signer_def)
qed

end
