(* ===== verification/Release_Props.thy ===== *)
theory Release_Props
  imports Gw_Releases Gw_Stay Apk_Props
begin

text \<open>
  The update channel as events with guards, its invariant, and what a phone gets: the version only moves
  forward, and the file served is the one the signed manifest names.
\<close>

section \<open>Computations on the channel\<close>

definition acrossc :: "(channel \<Rightarrow> bool) \<Rightarrow> (channel \<Rightarrow> channel \<Rightarrow> bool) \<Rightarrow> 'a chm \<Rightarrow> bool" where
  "acrossc Q R m \<longleftrightarrow> (\<forall>c. Q c \<longrightarrow> R c (snd (m c)))"

locale channel_history =
  fixes R :: "channel \<Rightarrow> channel \<Rightarrow> bool"
  assumes same: "R c c" and chain: "R c d \<Longrightarrow> R d e \<Longrightarrow> R c e" and gateway: "R c (c\<lparr>ch_gw := g\<rparr>)"
begin

lemma basic: "acrossc Q R (retc x)" "acrossc Q R (failc e)" "acrossc Q R (readc f)" "acrossc Q R (ensurec b e)" "acrossc Q R (lift_rel r)"
  by (simp_all add: acrossc_def same retc_def failc_def readc_def ensurec_def lift_rel_def)

lemma on_bind: "acrossc Q R m \<Longrightarrow> (\<And>x. acrossc (\<lambda>c. True) R (f x)) \<Longrightarrow> acrossc Q R (bindc m f)"
  unfolding acrossc_def bindc_def by (auto split: prod.splits sum.splits) (metis chain same snd_conv)+

lemma on_read: "(\<And>x. acrossc (\<lambda>c. Q c \<and> g c = x) R (f x)) \<Longrightarrow> acrossc Q R (bindc (readc g) f)"
  by (simp add: acrossc_def bindc_def readc_def)

lemma on_ensure: "(b \<Longrightarrow> acrossc Q R n) \<Longrightarrow> acrossc Q R (thenc (ensurec b e) n)"
  by (cases b) (simp_all add: acrossc_def same bindc_def ensurec_def retc_def failc_def)

lemma on_lift: "(\<And>x. r = Inr x \<Longrightarrow> acrossc Q R (f x)) \<Longrightarrow> acrossc Q R (bindc (lift_rel r) f)"
  by (cases r) (simp_all add: acrossc_def same bindc_def lift_rel_def)

lemma on_write: "(\<And>c. Q c \<Longrightarrow> R c (k c)) \<Longrightarrow> (\<And>c. Q c \<Longrightarrow> Q' (k c)) \<Longrightarrow> acrossc Q' R n \<Longrightarrow> acrossc Q R (thenc (writec k) n)"
  by (auto simp: acrossc_def bindc_def writec_def intro: chain)

lemma on_gateway: "acrossc Q R (on_gw m)"
  by (simp add: acrossc_def on_gw_def gateway split: prod.split)

lemma on_hub: "acrossc Q R (hub_publish now etype data)"
  by (simp add: acrossc_def hub_publish_def gateway split: prod.split)

lemma on_convert: "acrossc Q R m \<Longrightarrow> acrossc Q R (convert_err m)"
  by (simp add: acrossc_def convert_err_def split: prod.splits) (metis snd_conv)

lemma on_option: "(opt = None \<Longrightarrow> acrossc Q R m) \<Longrightarrow> (\<And>x. opt = Some x \<Longrightarrow> acrossc Q R (f x)) \<Longrightarrow> acrossc Q R (case_option m f opt)"
  by (cases opt) simp_all

lemma on_pair: "(\<And>x y. acrossc Q R (f x y)) \<Longrightarrow> acrossc Q R (case_prod f p)"
  by (cases p) simp_all

lemma on_idem: "(\<And>Q. acrossc Q R handler) \<Longrightarrow> acrossc Q R (idem_channel now rq p route bytes handler)"
  unfolding idem_channel_def Let_def
  by (auto intro!: on_option on_ensure on_bind on_read basic on_gateway on_pair)

end

section \<open>Events\<close>

inductive ch_event :: "channel \<Rightarrow> channel \<Rightarrow> bool" where
  Ch_gateway: "ch_event c (c\<lparr>ch_gw := g\<rparr>)"
| Ch_pin: "ch_cert c \<in> {None, Some [], Some fp} \<Longrightarrow> fp \<noteq> [] \<Longrightarrow> ch_event c (c\<lparr>ch_cert := Some fp\<rparr>)"
| Ch_file: "list_all (\<lambda>r. rr_code r < code) (ch_rows c) \<Longrightarrow>
    ch_event c (c\<lparr>ch_files := (code, b) # filter (\<lambda>(k, _). k \<noteq> code) (ch_files c)\<rparr>)"
| Ch_add: "list_all (\<lambda>x. rr_code x < rr_code r) (ch_rows c) \<Longrightarrow> ch_cert c = Some (rr_cert r) \<Longrightarrow> rr_cert r \<noteq> [] \<Longrightarrow> rr_state r = ''pending'' \<Longrightarrow>
    map_of (ch_files c) (rr_code r) = Some b \<Longrightarrow> length b = rr_size r \<Longrightarrow> apk_sha256 b = rr_sha r \<Longrightarrow>
    ch_event c (c\<lparr>ch_rows := ch_rows c @ [r]\<rparr>)"
| Ch_publish: "row_of code c = Some r \<Longrightarrow> rr_state r = ''pending'' \<Longrightarrow> (\<forall>k. ch_current c = Some k \<longrightarrow> k < code) \<Longrightarrow> file_ok code c \<Longrightarrow>
    mn \<le> max code (case ch_min c of None \<Rightarrow> 0 | Some m \<Rightarrow> m) \<Longrightarrow> (case ch_min c of None \<Rightarrow> 0 | Some m \<Rightarrow> m) \<le> mn \<Longrightarrow>
    ch_event c (c\<lparr>ch_rows := mark_published code who now mn (ch_rows c), ch_current := Some code,
      ch_manifest := Some (signed_manifest (release_payload now mn r) sig), ch_min := Some mn, ch_stopped := False\<rparr>)"
| Ch_stopped: "ch_event c (c\<lparr>ch_stopped := b\<rparr>)"

abbreviation ch_events :: "channel \<Rightarrow> channel \<Rightarrow> bool" where
  "ch_events \<equiv> rtranclp ch_event"

interpretation ch: channel_history ch_events
  by unfold_locales (auto intro: Ch_gateway)

lemma inspect_facts: "inspect unzip file = Inr info \<Longrightarrow> ai_sha info = apk_sha256 file \<and> ai_size info = length file"
  by (auto simp: inspect_def bind_res_Inr_iff split: zip_view.splits option.splits if_splits)

lemma top_below: "top_code c = best \<Longrightarrow> (case best of None \<Rightarrow> True | Some t \<Rightarrow> t < code) \<Longrightarrow> list_all (\<lambda>r. rr_code r < code) (ch_rows c)"
proof -
  assume t: "top_code c = best" "case best of None \<Rightarrow> True | Some t \<Rightarrow> t < code"
  have up: "a \<le> fold max xs a" for a :: nat and xs by (induction xs arbitrary: a) (simp, metis fold_simps(2) max.bounded_iff)
  have "x \<le> fold max xs a" if "x \<in> set xs" for x a :: nat and xs
    using that
  proof (induction xs arbitrary: a)
    case (Cons y ys)
    then show ?case using up [of "max y a" ys] by (cases "x = y") auto
  qed simp
  then have "rr_code r \<le> fold max (map rr_code (ch_rows c)) 0" if "r \<in> set (ch_rows c)" for r using that by simp
  then show ?thesis using t by (auto simp: top_code_def list_all_iff split: if_splits) (meson le_less_trans)
qed

lemma one_ch: "ch_event c d \<Longrightarrow> ch_events c d"
  by (rule r_into_rtranclp)

lemma release_pin_events: "acrossc Q ch_events (release_pin now fp actor)"
  unfolding release_pin_def Let_def
  by (intro ch.on_ensure ch.on_read ch.on_write [where Q' = "\<lambda>c. True"] one_ch Ch_pin ch.on_bind ch.on_gateway ch.basic) auto

lemma release_stop_events: "acrossc Q ch_events (release_stop now actor)" "acrossc Q ch_events (release_resume now actor)"
  unfolding release_stop_def release_resume_def
  by (intro ch.on_ensure ch.on_read ch.on_write [where Q' = "\<lambda>c. True"] one_ch Ch_stopped ch.on_gateway ch.basic; simp)+

lemma release_add_events: "acrossc Q ch_events (release_add unzip now file notes actor)"
proof -
  have step: "acrossc (\<lambda>c. (Q c \<and> ch_cert c = cert) \<and> top_code c = best) ch_events
      (thenc (writec (\<lambda>c. c\<lparr>ch_files := (ai_code info, bytes) # filter (\<lambda>(k, _). k \<noteq> ai_code info) (ch_files c)\<rparr>)) n)"
    if "case best of None \<Rightarrow> True | Some t \<Rightarrow> t < ai_code info"
      "acrossc (\<lambda>c. ch_cert c = cert \<and> list_all (\<lambda>r. rr_code r < ai_code info) (ch_rows c) \<and> map_of (ch_files c) (ai_code info) = Some bytes) ch_events n"
    for cert best and info :: apk_info and bytes and n :: "apk_info chm"
    using top_below that(1) by (intro ch.on_write [OF _ _ that(2)] one_ch Ch_file) auto
  show ?thesis
    unfolding release_add_def Let_def
    apply (intro ch.on_read ch.on_ensure ch.on_option ch.basic)
    subgoal for cert bytes
      apply (cases "inspect unzip bytes")
      subgoal for e by (cases e) (simp_all add: ch.basic)
      subgoal for info
        apply (simp only: sum.case)
        apply (intro ch.on_read ch.on_ensure step)
         apply simp
        apply (intro ch.on_option ch.basic)
        apply (rule ch.on_write [where Q' = "\<lambda>c. True"])
          apply (rule one_ch, rule Ch_add [where b = bytes])
                apply (auto dest: inspect_facts split: option.splits)[7]
         apply simp
        apply (intro ch.on_bind ch.on_gateway ch.basic)
        done
      done
    done
qed

lemma min_asked_bounds: "min_asked code m j = Inr mn \<Longrightarrow> mn \<le> max code m \<and> m \<le> mn"
  by (auto simp: min_asked_def split: json.splits if_splits)

lemma release_publish_events: "acrossc Q ch_events (release_publish now key code actor j)"
  unfolding release_publish_def Let_def
  apply (intro ch.on_read ch.on_ensure ch.on_option ch.on_lift ch.basic)
  apply (rule ch.on_write [where Q' = "\<lambda>c. True"])
    apply (rule one_ch, rule Ch_publish)
         apply (auto dest: min_asked_bounds split: option.splits)[6]
   apply simp
  apply (intro ch.on_bind ch.on_gateway ch.on_hub ch.basic)
  done

lemma release_handler_events:
  "acrossc Q ch_events (update_manifest ev rq)" "acrossc Q ch_events (update_apk code ev rq)"
  "acrossc Q ch_events (api_release_publish key code ev rq)" "acrossc Q ch_events (api_release_stop ev rq)" "acrossc Q ch_events (api_release_resume ev rq)"
  unfolding update_manifest_def update_apk_def api_release_publish_def api_release_stop_def api_release_resume_def
  by (intro ch.on_bind ch.on_read ch.on_ensure ch.on_option ch.on_pair ch.on_idem ch.on_convert ch.on_gateway ch.basic
      release_publish_events release_stop_events)+

lemma ch_exec_events: "ch_events c (ch_exec cf op c)"
proof (cases op)
  case (Gw_op op')
  then show ?thesis by (simp add: one_ch Ch_gateway)
next
  case (Rel_pin ev fp)
  then show ?thesis using release_pin_events [of "\<lambda>c. True"] by (simp add: acrossc_def)
next
  case (Rel_add ev b t)
  then show ?thesis using release_add_events [of "\<lambda>c. True"] by (simp add: acrossc_def)
qed (use release_handler_events [of "\<lambda>c. True"] in \<open>simp_all add: acrossc_def\<close>)

lemma ch_run_events: "ch_events c (ch_run cf ops c)"
proof (induction ops arbitrary: c)
  case (Cons op ops)
  have "ch_run cf (op # ops) c = ch_run cf ops (ch_exec cf op c)" by (simp add: ch_run_def)
  then show ?case using ch_exec_events [of c cf op] Cons [of "ch_exec cf op c"] by simp
qed (simp add: ch_run_def)

text \<open>Whatever the gateway does about releases, and whatever it does about people and phones, changes the channel
  only by the events: pinning a first certificate, storing a file and a row above all others, publishing a pending
  release above the current one, stopping and resuming.\<close>

theorem channel_refines_events: "ch_events c (ch_exec cf op c)"
  by (rule ch_exec_events)

section \<open>The invariant\<close>

definition same_release :: "release_row \<Rightarrow> release_row \<Rightarrow> bool" where
  "same_release r x \<longleftrightarrow> rr_code r = rr_code x \<and> rr_name r = rr_name x \<and> rr_size r = rr_size x \<and> rr_sha r = rr_sha x
     \<and> rr_cert r = rr_cert x \<and> rr_notes r = rr_notes x"

definition release_sound :: "channel \<Rightarrow> release_row \<Rightarrow> bool" where
  "release_sound c r \<longleftrightarrow> ch_cert c = Some (rr_cert r) \<and> rr_cert r \<noteq> [] \<and> file_ok (rr_code r) c
     \<and> (rr_state r = ''pending''
        \<or> rr_state r = ''published'' \<and> ch_current c = Some (rr_code r)
        \<or> rr_state r = ''superseded'' \<and> (\<exists>k. ch_current c = Some k \<and> rr_code r < k))"

definition manifest_sound :: "channel \<Rightarrow> bool" where
  "manifest_sound c \<longleftrightarrow> (case ch_current c of
     None \<Rightarrow> ch_manifest c = None \<and> ch_min c = None
   | Some k \<Rightarrow> \<exists>r\<in>set (ch_rows c). \<exists>t0 mn sig. rr_code r = k \<and> rr_state r = ''published''
       \<and> ch_manifest c = Some (signed_manifest (release_payload t0 mn r) sig) \<and> ch_min c = Some mn \<and> mn \<le> k)"

lemma manifest_sound_simps [simp]:
  "manifest_sound (c\<lparr>ch_gw := g\<rparr>) = manifest_sound c" "manifest_sound (c\<lparr>ch_files := fs\<rparr>) = manifest_sound c"
  "manifest_sound (c\<lparr>ch_cert := x\<rparr>) = manifest_sound c" "manifest_sound (c\<lparr>ch_stopped := b\<rparr>) = manifest_sound c"
  by (simp_all add: manifest_sound_def split: option.split)

text \<open>
  The rows stand in the order of their codes, each for a stored file that matches it and for the pinned
  certificate; the current release is the only published one, those superseded are older, and the manifest is
  the one of the current release.
\<close>

definition ch_sound :: "channel \<Rightarrow> bool" where
  "ch_sound c \<longleftrightarrow> sorted_wrt (<) (map rr_code (ch_rows c)) \<and> list_all (release_sound c) (ch_rows c) \<and> manifest_sound c"

lemma sorted_distinct: "sorted_wrt (<) (map rr_code rs) \<Longrightarrow> r \<in> set rs \<Longrightarrow> x \<in> set rs \<Longrightarrow> rr_code r = rr_code x \<Longrightarrow> r = x"
  by (induction rs) auto

lemma file_ok_unfold: "file_ok k c \<longleftrightarrow> (\<exists>r b. row_of k c = Some r \<and> map_of (ch_files c) k = Some b \<and> length b = rr_size r \<and> apk_sha256 b = rr_sha r)"
  by (auto simp: file_ok_def split: option.splits)

lemma row_of_mem: "sorted_wrt (<) (map rr_code (ch_rows c)) \<Longrightarrow> r \<in> set (ch_rows c) \<Longrightarrow> row_of (rr_code r) c = Some r"
proof -
  assume a: "sorted_wrt (<) (map rr_code (ch_rows c))" "r \<in> set (ch_rows c)"
  obtain x where "row_of (rr_code r) c = Some x" using a(2) unfolding row_of_def by (metis (mono_tags, lifting) find_None_iff option.exhaust)
  moreover from this have "x \<in> set (ch_rows c)" "rr_code x = rr_code r" using find_key_mem [of rr_code "rr_code r" "ch_rows c" x] by (simp_all add: row_of_def)
  ultimately show ?thesis using sorted_distinct [OF a(1)] a(2) by metis
qed

lemma file_ok_row: "ch_sound c \<Longrightarrow> r \<in> set (ch_rows c) \<Longrightarrow> \<exists>b. map_of (ch_files c) (rr_code r) = Some b \<and> length b = rr_size r \<and> apk_sha256 b = rr_sha r"
  using row_of_mem [of c r] by (auto simp: ch_sound_def list_all_iff release_sound_def file_ok_unfold)

lemma file_ok_intro:
  "sorted_wrt (<) (map rr_code (ch_rows c)) \<Longrightarrow> r \<in> set (ch_rows c) \<Longrightarrow> map_of (ch_files c) (rr_code r) = Some b \<Longrightarrow> length b = rr_size r
    \<Longrightarrow> apk_sha256 b = rr_sha r \<Longrightarrow> file_ok (rr_code r) c"
  by (simp add: file_ok_unfold row_of_mem)

definition marked :: "nat \<Rightarrow> string \<Rightarrow> rat \<Rightarrow> nat \<Rightarrow> release_row \<Rightarrow> release_row" where
  "marked code who now mn r = (if rr_code r = code then r\<lparr>rr_state := ''published'', rr_pub_by := Some who, rr_pub_at := Some now, rr_min := Some mn\<rparr>
     else if rr_state r = ''published'' then r\<lparr>rr_state := ''superseded''\<rparr> else r)"

lemma mark_published_marked: "mark_published code who now mn rs = map (marked code who now mn) rs"
  by (auto simp: mark_published_def marked_def)

lemma marked_simps [simp]:
  "rr_code (marked code who now mn r) = rr_code r" "rr_cert (marked code who now mn r) = rr_cert r" "rr_size (marked code who now mn r) = rr_size r"
  "rr_sha (marked code who now mn r) = rr_sha r" "release_payload t0 m (marked code who now mn r) = release_payload t0 m r"
  by (simp_all add: marked_def release_payload_def)

lemma ch_sound_publish:
  assumes "ch_sound c" "row_of code c = Some r" "\<forall>k. ch_current c = Some k \<longrightarrow> k < code" "mn \<le> max code (case ch_min c of None \<Rightarrow> 0 | Some m \<Rightarrow> m)"
  shows "ch_sound (c\<lparr>ch_rows := mark_published code who now mn (ch_rows c), ch_current := Some code,
      ch_manifest := Some (signed_manifest (release_payload now mn r) sig), ch_min := Some mn, ch_stopped := False\<rparr>)" (is "ch_sound ?d")
proof -
  let ?h = "marked code who now mn"
  have r: "r \<in> set (ch_rows c)" "rr_code r = code" using assms(2) find_key_mem [of rr_code code "ch_rows c" r] by (simp_all add: row_of_def)
  have rows: "ch_rows ?d = map ?h (ch_rows c)" by (simp add: mark_published_marked)
  have codes: "map rr_code (ch_rows ?d) = map rr_code (ch_rows c)" unfolding rows by simp
  then have sorted: "sorted_wrt (<) (map rr_code (ch_rows ?d))" using assms(1) by (simp only: ch_sound_def)
  have "(case ch_min c of None \<Rightarrow> 0 | Some m \<Rightarrow> m) \<le> code"
    using assms(1,3) by (auto simp: ch_sound_def manifest_sound_def split: option.splits)
  then have mn: "mn \<le> code" using assms(4) by simp
  have sound: "release_sound ?d (?h x)" if x: "x \<in> set (ch_rows c)" for x
  proof -
    have old: "release_sound c x" using assms(1) x by (simp add: ch_sound_def list_all_iff)
    obtain b where "map_of (ch_files c) (rr_code x) = Some b" "length b = rr_size x" "apk_sha256 b = rr_sha x" using file_ok_row [OF assms(1) x] by blast
    then have "file_ok (rr_code x) ?d" using file_ok_intro [OF sorted, of "?h x" b] x by (simp add: mark_published_marked)
    then show ?thesis using old assms(3) by (auto simp: release_sound_def marked_def)
  qed
  have "?h r \<in> set (ch_rows ?d)" unfolding rows using r(1) by simp
  moreover have "rr_state (?h r) = ''published''" by (simp add: marked_def r(2))
  ultimately have "\<exists>x\<in>set (ch_rows ?d). \<exists>t0 m sg. rr_code x = code \<and> rr_state x = ''published''
      \<and> ch_manifest ?d = Some (signed_manifest (release_payload t0 m x) sg) \<and> ch_min ?d = Some m \<and> m \<le> code"
    using mn r(2) by (intro bexI [of _ "?h r"] exI [of _ now] exI [of _ mn] exI [of _ sig]) simp_all
  then have "manifest_sound ?d" by (simp add: manifest_sound_def)
  then show ?thesis using sorted sound unfolding ch_sound_def rows list_all_iff by auto
qed

lemma ch_event_sound: "ch_event c d \<Longrightarrow> ch_sound c \<Longrightarrow> ch_sound d"
proof (induction rule: ch_event.induct)
  case (Ch_file code c b)
  let ?d = "c\<lparr>ch_files := (code, b) # filter (\<lambda>(k, _). k \<noteq> code) (ch_files c)\<rparr>"
  have "map_of (ch_files ?d) k = map_of (ch_files c) k" if "k \<noteq> code" for k
  proof -
    have "map_of (filter (\<lambda>(k, _). k \<noteq> code) fs) k = map_of fs k" for fs :: "(nat \<times> int list) list" using that by (induction fs) auto
    then show ?thesis using that by simp
  qed
  then have "file_ok (rr_code r) ?d = file_ok (rr_code r) c" if "r \<in> set (ch_rows c)" for r
    using that Ch_file(1) unfolding file_ok_unfold list_all_iff by (auto simp: row_of_def)
  then show ?case using Ch_file(2) by (simp add: ch_sound_def release_sound_def list_all_iff)
next
  case (Ch_add r c b)
  let ?d = "c\<lparr>ch_rows := ch_rows c @ [r]\<rparr>"
  have sorted: "sorted_wrt (<) (map rr_code (ch_rows ?d))" using Ch_add by (auto simp: ch_sound_def sorted_wrt_append list_all_iff)
  have "file_ok (rr_code x) ?d" if "x \<in> set (ch_rows ?d)" for x
    using file_ok_intro [OF sorted that] that file_ok_row [OF Ch_add(8), of x] Ch_add(5-7) by auto
  then show ?case using Ch_add sorted
    by (auto simp: ch_sound_def release_sound_def manifest_sound_def list_all_iff split: option.splits)
next
  case (Ch_publish code c r mn now sig who)
  then show ?case by (intro ch_sound_publish)
qed (auto simp: ch_sound_def release_sound_def list_all_iff file_ok_def row_of_def)

lemma ch_events_sound: "ch_events c d \<Longrightarrow> ch_sound c \<Longrightarrow> ch_sound d"
  by (induction rule: rtranclp_induct) (auto intro: ch_event_sound)

text \<open>C15: In every state that the gateway, its handlers and its commands reach from an empty database, the releases are
  stored in the order of their codes under the pinned certificate with files that match their hashes, at most
  the current one is published, and the manifest is the one signed for it.\<close>

theorem channel_sound: "ch_sound (ch_run cf ops empty_channel)"
proof (rule ch_events_sound [OF ch_run_events])
  show "ch_sound empty_channel" by (simp add: ch_sound_def manifest_sound_def empty_channel_def)
qed

section \<open>What a phone gets\<close>

definition ch_forward :: "channel \<Rightarrow> channel \<Rightarrow> bool" where
  "ch_forward c d \<longleftrightarrow>
     (\<forall>k. ch_current c = Some k \<longrightarrow> (\<exists>k'\<ge>k. ch_current d = Some k'))
     \<and> (\<forall>m. ch_min c = Some m \<longrightarrow> (\<exists>m'\<ge>m. ch_min d = Some m'))
     \<and> (\<forall>x. ch_cert c = Some x \<longrightarrow> x \<noteq> [] \<longrightarrow> ch_cert d = Some x)
     \<and> (\<forall>r\<in>set (ch_rows c). \<exists>x\<in>set (ch_rows d). same_release r x)"

lemma ch_forward_refl: "ch_forward c c"
  by (auto simp: ch_forward_def same_release_def)

lemma ch_forward_trans:
  assumes "ch_forward c d" "ch_forward d e"
  shows "ch_forward c e"
  unfolding ch_forward_def
proof (intro conjI allI impI ballI)
  fix k assume "ch_current c = Some k"
  then obtain k' where "k \<le> k'" "ch_current d = Some k'" using assms(1) by (auto simp: ch_forward_def)
  moreover from this obtain k'' where "k' \<le> k''" "ch_current e = Some k''" using assms(2) by (auto simp: ch_forward_def)
  ultimately show "\<exists>k'\<ge>k. ch_current e = Some k'" using order_trans by blast
next
  fix m assume "ch_min c = Some m"
  then obtain m' where "m \<le> m'" "ch_min d = Some m'" using assms(1) by (auto simp: ch_forward_def)
  moreover from this obtain m'' where "m' \<le> m''" "ch_min e = Some m''" using assms(2) by (auto simp: ch_forward_def)
  ultimately show "\<exists>m'\<ge>m. ch_min e = Some m'" using order_trans by blast
next
  fix x assume "ch_cert c = Some x" "x \<noteq> []"
  then show "ch_cert e = Some x" using assms by (simp add: ch_forward_def)
next
  fix r assume "r \<in> set (ch_rows c)"
  then obtain x where "x \<in> set (ch_rows d)" "same_release r x" using assms(1) by (auto simp: ch_forward_def)
  moreover from this obtain y where "y \<in> set (ch_rows e)" "same_release x y" using assms(2) by (auto simp: ch_forward_def)
  ultimately show "\<exists>x\<in>set (ch_rows e). same_release r x" by (auto simp: same_release_def)
qed

lemma ch_event_forward: "ch_event c d \<Longrightarrow> ch_forward c d"
proof (induction rule: ch_event.induct)
  case (Ch_publish code c r mn now sig who)
  have "same_release y (marked code who now mn y)" for y by (simp add: same_release_def marked_def)
  then have "\<exists>x\<in>set (mark_published code who now mn (ch_rows c)). same_release y x" if "y \<in> set (ch_rows c)" for y
    unfolding mark_published_marked using that by auto
  then show ?case using Ch_publish by (auto simp: ch_forward_def)
qed (auto simp: ch_forward_def same_release_def)

text \<open>C17: Roll forward only: in a run the code of the current release and the lowest supported version never go down, the
  pinned certificate never changes, and a release once stored keeps its code, name, size, hash, certificate and notes.\<close>

theorem roll_forward: "ch_forward c (ch_run cf ops c)"
  using ch_run_events [of c cf ops]
  by (induction rule: rtranclp_induct) (auto intro: ch_forward_refl ch_forward_trans ch_event_forward)

end
