(* ===== verification/Gw_Secrets.thy ===== *)
theory Gw_Secrets
  imports Gw_Stay
begin

text \<open>
  What it takes to get in: the cases in which a sign-in, an enrolment, a setup, a token or a session is
  accepted, read off the methods, and the attempts that count against an address.
\<close>

section \<open>One-time codes\<close>

lemma length_str_nat: "n < 10 ^ k \<Longrightarrow> 0 < k \<Longrightarrow> length (str_nat n) \<le> k"
proof (induction k arbitrary: n)
  case (Suc k)
  show ?case
  proof (cases "n < 10")
    case True
    then show ?thesis by (simp add: str_nat.simps [of n])
  next
    case False
    have "n div 10 < 10 ^ k" using Suc.prems(1) by (simp add: less_mult_imp_div_less)
    moreover have "0 < k" using False Suc.prems(1) by (cases k) simp_all
    ultimately have "length (str_nat (n div 10)) \<le> k" by (rule Suc.IH)
    then show ?thesis using False by (simp add: str_nat.simps [of n])
  qed
qed simp

text \<open>A one-time code is six digits.\<close>

lemma hotp_digits:
  assumes "hotp sd n = Some c"
  shows "length c = 6" "list_all is_digit c"
proof -
  obtain d where c: "c = str06 (dynamic_bits d mod 1000000)" using assms by (auto simp: hotp_def)
  let ?m = "dynamic_bits d mod 1000000"
  have m: "0 \<le> ?m" "?m < 1000000" by simp_all
  then have s: "str_int ?m = str_nat (nat ?m)" by (simp add: str_int_def)
  have "nat ?m < 10 ^ 6" using m by (simp add: nat_less_iff)
  then have l: "length (str_nat (nat ?m)) \<le> 6" by (rule length_str_nat) simp
  then show "length c = 6" by (simp add: c str06_def pad_left_def s)
  have z: "is_digit (CHR ''0'')" by code_simp
  show "list_all is_digit c" using str_nat_digits [of "nat ?m"] z by (auto simp: c str06_def pad_left_def s list_all_iff)
qed

lemma hotp_accepted:
  assumes "hotp sd n = Some c"
  shows "py_isdigit c" "is_ascii c" "py_strip c = c" "c \<noteq> []"
proof -
  show ne: "c \<noteq> []" using hotp_digits(1) [OF assms] by auto
  then show "py_isdigit c" using hotp_digits(2) [OF assms] by (auto simp: py_isdigit_def list_all_iff)
  show "is_ascii c" using hotp_digits(2) [OF assms] by (auto simp: is_ascii_def list_all_iff is_digit_def char_in_def)
  show "py_strip c = c" unfolding py_strip_def by (rule strip_none) (use hotp_digits(2) [OF assms] is_digit_not_space in \<open>auto simp: list_all_iff\<close>)
qed

section \<open>Sign-in\<close>

lemma throttle_same: "throttle now account ip s = (Inr (), t) \<Longrightarrow> t = s \<and> length (fails_where now (\<lambda>r. la_ip r = ip) s) < IP_FAIL_LIMIT"
  by (auto simp: throttle_def Let_def ensure_def split: if_splits)

lemma check_login_done:
  assumes "check_login scrypt now username password totp ip s = (Inr (r, step), t)"
  obtains c where
    "find (\<lambda>r. pe_id r = account_of username \<or> sql_lower (pe_name r) = account_of username) (gw_people s) = Some r"
    "cred_by (pe_id r) s = Some c" "check_secret scrypt now r (Some c) password totp = Inr (Some step)"
    "pe_active r" "pe_web r" "length (fails_where now (\<lambda>r. la_ip r = ip) s) < IP_FAIL_LIMIT"
    "gw_creds t = (case step of None \<Rightarrow> gw_creds s | Some n \<Rightarrow> if n = 0 then gw_creds s
       else map (\<lambda>c. if cr_person c = pe_id r then c\<lparr>cr_step := n\<rparr> else c) (gw_creds s))"
proof -
  let ?find = "find (\<lambda>r. pe_id r = account_of username \<or> sql_lower (pe_name r) = account_of username) (gw_people s)"
  obtain th: "throttle now (account_of username) ip s = (Inr (), s)" "length (fails_where now (\<lambda>r. la_ip r = ip) s) < IP_FAIL_LIMIT"
    using assms throttle_same [of now "account_of username" ip s] by (auto simp: check_login_def Let_def bindg_Inr)
  obtain p where p: "?find = Some p" using assms by (cases ?find) (auto simp: check_login_def Let_def bindg_Inr th(1) add_attempt_def)
  let ?k = "\<lambda>n. map (\<lambda>c. if cr_person c = pe_id p then c\<lparr>cr_step := n\<rparr> else c) (gw_creds s)"
  obtain res where res: "check_secret scrypt now p (cred_by (pe_id p) s) password totp = Inr res"
    using assms p by (cases "check_secret scrypt now p (cred_by (pe_id p) s) password totp")
      (auto simp: check_login_def Let_def bindg_Inr th(1) lift_res_def)
  have ok: "res \<noteq> None" "pe_active p" "pe_web p"
    using assms p res by (auto simp: check_login_def Let_def bindg_Inr th(1) lift_res_def add_attempt_def split: if_splits)
  have r: "r = p \<and> res = Some step \<and> gw_creds t = (case step of None \<Rightarrow> gw_creds s | Some n \<Rightarrow> if n = 0 then gw_creds s else ?k n)"
    using assms p res ok by (auto simp: check_login_def Let_def bindg_Inr th(1) lift_res_def add_attempt_def split: option.splits if_splits)
  then obtain c where "cred_by (pe_id r) s = Some c" "check_secret scrypt now r (Some c) password totp = Inr (Some step)"
    using res by (cases "cred_by (pe_id p) s") (simp_all add: check_secret_def)
  moreover have "gw_creds t = (case step of None \<Rightarrow> gw_creds s | Some n \<Rightarrow> if n = 0 then gw_creds s
       else map (\<lambda>c. if cr_person c = pe_id r then c\<lparr>cr_step := n\<rparr> else c) (gw_creds s))" using r by (elim conjE) (simp only:)
  ultimately show ?thesis using that p r ok th(2) by blast
qed

section \<open>Enrolment\<close>

lemma enrol_done:
  assumes "enrol now raw tok code dev ip s = (Inr v, t)"
  obtains r where "find (\<lambda>r. ec_hash r = sha256_hex (norm_code code)) (gw_codes s) = Some r" "\<not> ec_used r" "now \<le> ec_expires r"
    "gw_codes t = map (\<lambda>c. if ec_id c = ec_id r then c\<lparr>ec_used := True\<rparr> else c) (gw_codes s)"
  using assms
  by (auto simp: enrol_def Let_def bindg_Inr lift_res_def audit_def insert_phone_def tx_def add_attempt_def ensure_def
        split: option.splits if_splits prod.splits sum.splits)

lemma enrol_spent:
  assumes "code_spent (sha256_hex (norm_code code)) s"
  shows "\<exists>e u. enrol now raw tok code dev ip s = (Inl e, u) \<and> gw_phones u = gw_phones s"
proof -
  have "ec_used r" if "find (\<lambda>r. ec_hash r = sha256_hex (norm_code code)) (gw_codes s) = Some r" for r
    using assms that by (rule key_final_find)
  then show ?thesis
    by (cases "label_of ''label'' (jget dev ''label'')")
       (auto simp: enrol_def Let_def bindg_def lift_res_def audit_def add_attempt_def ensure_def split: option.splits)
qed

section \<open>Setup\<close>

lemma setup_link_found:
  "setup_link now raw s = (Inr l, t) \<Longrightarrow> t = s \<and> find (\<lambda>r. sl_hash r = sha256_hex raw) (gw_links s) = Some l \<and> \<not> sl_used l \<and> now \<le> sl_expires l"
  by (auto simp: setup_link_def split: option.splits if_splits)

lemma setup_link_spent: "link_spent (sha256_hex raw) s \<Longrightarrow> \<exists>e. setup_link now raw s = (Inl e, s)"
  using key_final_find [of sl_hash sl_used "sha256_hex raw" "gw_links s"]
  by (auto simp: setup_link_def split: option.splits)

lemma setup_complete_done:
  assumes "setup_complete scrypt salt now raw password code ip s = (Inr (), t)"
  obtains l p h sd step where "setup_link now raw s = (Inr l, s)" "person_by (sl_person l) s = Some p" "password_problem (JStr password) = None"
    "hash_password scrypt salt password = Some h"
    "pe_role p = ''admin'' \<longrightarrow> sd \<noteq> None" "py_strip code = [] \<and> pe_role p \<noteq> ''admin'' \<longrightarrow> sd = None"
    "gw_creds t = gw_creds (set_cred \<lparr>cr_person = sl_person l, cr_pw = h, cr_seed = sd, cr_step = step, cr_updated = now\<rparr> s)"
    "gw_links t = map (\<lambda>x. if sl_id x = sl_id l then x\<lparr>sl_used := True\<rparr> else x) (gw_links s)"
    "gw_people t = gw_people s"
proof -
  obtain l where l: "setup_link now raw s = (Inr l, s)"
    using assms setup_link_found [of now raw s] by (fastforce simp: setup_complete_def bindg_Inr)
  have pw: "password_problem (JStr password) = None"
    using assms by (auto simp: setup_complete_def bindg_Inr split: option.splits)
  obtain seed0 where sd: "meta_get (seed_key l) s = Some seed0" "seed0 \<noteq> []"
    using assms pw by (auto simp: setup_complete_def bindg_Inr l split: option.splits if_splits)
  obtain p where p: "person_by (sl_person l) s = Some p"
    using assms pw sd by (auto simp: setup_complete_def bindg_Inr l split: option.splits)
  show ?thesis
  proof (cases "pe_role p \<noteq> ''admin'' \<and> py_strip code = []")
    case True
    then show ?thesis using assms pw sd p l
      by (auto simp: setup_complete_def bindg_Inr l tx_def meta_delete_def audit_def set_cred_def drop_sessions_def cred_by_def intro!: that
            split: option.splits prod.splits sum.splits)
  next
    case False
    obtain n where "verify_totp seed0 (py_strip code) 0 now = Inr (Some n)"
      using assms pw sd p False
      by (cases "verify_totp seed0 (py_strip code) 0 now") (auto simp: setup_complete_def bindg_Inr l lift_res_def split: option.splits)
    with False show ?thesis using assms pw sd p l
      by (auto simp: setup_complete_def bindg_Inr l tx_def meta_delete_def audit_def lift_res_def set_cred_def drop_sessions_def cred_by_def intro!: that
            split: option.splits prod.splits sum.splits)
  qed
qed

section \<open>Tokens and sessions\<close>

lemma phone_principal_found:
  assumes "phone_principal now raw s = (Inr (Some p), t)"
  obtains r q where "find (\<lambda>r. ph_hash r = sha256_hex raw) (gw_phones s) = Some r" "\<not> ph_revoked r" "now \<le> ph_expires r" "pr_phone p = Some (ph_id r)"
    "person_by (ph_person r) s = Some q" "pe_active q" "pr_role p = pe_role q" "pr_person p = pe_id q" "\<not> pr_app p"
  using assms by (auto simp: phone_principal_def split: if_splits option.splits)

lemma session_principal_found:
  assumes "session_principal now raw s = (Inr (Some p), t)"
  obtains x q where "session_by (sha256_hex raw) s = Some x" "now \<le> ss_abs x" "now \<le> ss_last x + SESSION_IDLE_S"
    "person_by (ss_person x) s = Some q" "pr_person p = pe_id q" "pr_phone p = ss_phone x" "pr_role p = pe_role q" "pr_app p = (ss_phone x \<noteq> None)"
    "case ss_phone x of Some i \<Rightarrow> phone_ok now i s | None \<Rightarrow> pe_active q \<and> pe_web q"
  using assms by (auto simp: session_principal_def Let_def split: if_splits option.splits)

end
