(* ===== verification/Gw_Props.thy ===== *)
theory Gw_Props
  imports Gw_Secrets
begin

text \<open>
  The properties of the gateway's identities over runs of its operations, and the witnesses.
\<close>

section \<open>Attempts in a window\<close>

definition login_fail :: "string \<Rightarrow> attempt_row \<Rightarrow> bool" where
  "login_fail ip r \<longleftrightarrow> \<not> la_ok r \<and> la_ip r = ip \<and> la_account r \<noteq> ''enrol''"

definition fails_in :: "rat \<Rightarrow> string \<Rightarrow> gw \<Rightarrow> nat" where
  "fails_in w ip s = length (filter (\<lambda>r. login_fail ip r \<and> w - GW_FAIL_WINDOW < la_ts r \<and> la_ts r \<le> w) (gw_attempts s))"

text \<open>Up to \<open>now\<close>: no attempt is later, and no window holds more failures than the limit.\<close>

definition few_fails :: "rat \<Rightarrow> gw \<Rightarrow> bool" where
  "few_fails now s \<longleftrightarrow> list_all (\<lambda>r. la_ts r \<le> now) (gw_attempts s) \<and> (\<forall>w ip. fails_in w ip s \<le> IP_FAIL_LIMIT)"

lemma few_fails_later: "few_fails now s \<Longrightarrow> now \<le> now' \<Longrightarrow> few_fails now' s"
  by (auto simp: few_fails_def list_all_iff)

lemma filter_length_mono: "(\<And>x. x \<in> set xs \<Longrightarrow> p x \<Longrightarrow> q x) \<Longrightarrow> length (filter p xs) \<le> length (filter q xs)"
  by (induction xs) auto

lemma few_fails_attempt:
  assumes "few_fails now s" "la_ts r = now"
    "login_fail (la_ip r) r \<Longrightarrow> length (fails_where now (\<lambda>x. la_ip x = la_ip r) s) < IP_FAIL_LIMIT"
  shows "few_fails now (s\<lparr>gw_attempts := gw_attempts s @ [r]\<rparr>)"
proof -
  have "fails_in w ip (s\<lparr>gw_attempts := gw_attempts s @ [r]\<rparr>) \<le> IP_FAIL_LIMIT" for w ip
  proof (cases "login_fail ip r \<and> now \<le> w")
    case False
    then show ?thesis using assms(1,2) by (auto simp: fails_in_def few_fails_def)
  next
    case True
    then have ip: "ip = la_ip r" by (simp add: login_fail_def)
    have "fails_in w ip s \<le> length (fails_where now (\<lambda>x. la_ip x = ip) s)"
      unfolding fails_in_def fails_where_def length_sort length_map
      by (rule filter_length_mono) (use True in \<open>auto simp: login_fail_def\<close>)
    then have "fails_in w ip s < IP_FAIL_LIMIT" using assms(3) True ip by simp
    then show ?thesis by (simp add: fails_in_def)
  qed
  then show ?thesis using assms(1,2) by (simp add: few_fails_def)
qed

lemma few_fails_event: "gw_event K now s t \<Longrightarrow> few_fails now s \<Longrightarrow> few_fails now t"
proof (induction rule: gw_event.induct)
  case E_login_attempt
  then show ?case by (intro few_fails_attempt) simp_all
next
  case E_enrol_attempt
  then show ?case by (intro few_fails_attempt) (simp_all add: login_fail_def)
qed (simp_all add: few_fails_def fails_in_def drop_sessions_def update_person_def revoke_where_def set_cred_def)

lemma few_fails_exec: "few_fails (op_now op) s \<Longrightarrow> few_fails (op_now op) (gw_exec cf op s)"
proof -
  assume f: "few_fails (op_now op) s"
  have "gw_events UNIV (op_now op) s (gw_exec cf op s)" by (rule exec_events) simp
  then show ?thesis using f by (rule events_invariant) (rule few_fails_event)
qed

fun clocks_from :: "rat \<Rightarrow> gw_op list \<Rightarrow> bool" where
  "clocks_from now [] = True"
| "clocks_from now (op # ops) = (now \<le> op_now op \<and> clocks_from (op_now op) ops)"

lemma few_fails_run: "few_fails now s \<Longrightarrow> clocks_from now ops \<Longrightarrow> \<exists>now'. few_fails now' (gw_run cf ops s)"
proof (induction ops arbitrary: s now)
  case (Cons op ops)
  then have "few_fails (op_now op) (gw_exec cf op s)" using few_fails_exec few_fails_later by simp
  then show ?case unfolding gw_run_simps by (rule Cons.IH) (use Cons.prems(2) in simp)
qed auto

section \<open>The audit grows\<close>

lemma audit_grows_event: "gw_event K now u t \<Longrightarrow> \<exists>more. gw_audit u = rows @ more \<Longrightarrow> \<exists>more. gw_audit t = rows @ more"
  by (induction rule: gw_event.induct) (auto simp: drop_sessions_def revoke_where_def update_person_def)

lemma audit_grows_run: "\<exists>more. gw_audit (gw_run cf ops s) = gw_audit s @ more"
  by (rule run_invariant_all [where P = "\<lambda>t. \<exists>more. gw_audit t = gw_audit s @ more"], simp) (rule audit_grows_event)

section \<open>Properties\<close>

text \<open>C6: In every state a run of requests, pages and commands reaches from the empty database, whatever is asked
  and in whatever order, the tables are well formed: the keys and the stored hashes are unique, a person has at
  most one enrolment code and one setup link that can still be used, no session lasts longer than its limit,
  and the audit is an intact chain.\<close>

theorem gw_well_formed: "gw_wf (gw_run cf ops empty_gw)"
  by (rule run_wf) (rule gw_wf_empty)

text \<open>C7: Every request, page and command of the gateway, also one that fails, is a sequence of the events the
  abstract specification allows, with their guards: so no handler removes the last admin, mints a second open
  code, raises the number of phones over the limit, moves a one-time code back or counts an attempt over the
  limit; and only the handlers of a kind of secret create it.\<close>

theorem gw_refines_events: "gw_events (op_kinds op) (op_now op) s (gw_exec cf op s)"
  by (rule exec_events) simp

text \<open>C28: An enrolment code lets one phone in: after an enrolment with it, no enrolment with a text that stands for
  the same code succeeds or adds a phone in any later state.\<close>

theorem enrol_code_once:
  assumes "gw_wf s" "enrol now raw tok code dev ip s = (Inr v, t)" "norm_code code' = norm_code code"
  shows "\<exists>e u. enrol now' raw' tok' code' dev' ip' (gw_run cf ops t) = (Inl e, u) \<and> gw_phones u = gw_phones (gw_run cf ops t)"
proof -
  let ?h = "sha256_hex (norm_code code)"
  obtain r where r: "find (\<lambda>r. ec_hash r = ?h) (gw_codes s) = Some r"
    "gw_codes t = map (\<lambda>c. if ec_id c = ec_id r then c\<lparr>ec_used := True\<rparr> else c) (gw_codes s)"
    using assms(2) by (rule enrol_done)
  have u: "unique_by ec_hash (gw_codes s)" using assms(1) by (simp add: gw_wf_def)
  have m: "r \<in> set (gw_codes s)" "ec_hash r = ?h" using find_key_mem [of ec_hash, OF r(1)] by simp_all
  have "key_final ec_hash ec_used (ec_hash r) (map (\<lambda>c. if ec_id c = ec_id r then c\<lparr>ec_used := True\<rparr> else c) (gw_codes s))"
    by (rule key_final_use [OF u m(1)]) simp_all
  then have "code_spent ?h t" unfolding r(2) m(2) .
  then have "code_spent (sha256_hex (norm_code code')) (gw_run cf ops t)" unfolding assms(3) by (rule code_spent_run)
  then show ?thesis by (rule enrol_spent)
qed

text \<open>C27: From the moment a phone is revoked, in any later state, no device token and no update key is taken for
  it, and no web session opened from it is.\<close>

theorem revoked_phone_shut_out:
  assumes "gw_wf s" "phone_by i s = Some r" "ph_revoked r"
  shows "(\<forall>p. pr_phone p = Some i \<longrightarrow> fst (phone_principal now raw (gw_run cf ops s)) \<noteq> Inr (Some p))
    \<and> (\<forall>q. update_key_principal now raw (gw_run cf ops s) \<noteq> Some (q, i))
    \<and> (\<forall>p. pr_phone p = Some i \<longrightarrow> fst (session_principal now raw (gw_run cf ops s)) \<noteq> Inr (Some p))"
proof -
  have m: "r \<in> set (gw_phones s)" "ph_id r = i" using find_key_mem [of ph_id, OF assms(2) [unfolded phone_by_def]] by simp_all
  have u: "unique_by ph_id (gw_phones s)" using assms(1) by (simp add: gw_wf_def)
  have "x = r" if "x \<in> set (gw_phones s)" "ph_id x = i" for x using unique_eq [OF u that(1) m(1)] that(2) m(2) by simp
  then have "phone_shut i s" using m assms(3) unfolding key_final_def list_all_iff by blast
  then have shut: "phone_shut i (gw_run cf ops s)" by (rule phone_shut_run)
  then have live: "ph_id x \<noteq> i" if "x \<in> set (gw_phones (gw_run cf ops s))" "\<not> ph_revoked x" for x
    using that by (auto simp: key_final_def list_all_iff)
  have f: "x \<in> set (gw_phones u)" if "find P (gw_phones u) = Some x" for P x and u :: gw using that by (auto simp: find_Some_iff)
  let ?t = "gw_run cf ops s"
  have "pr_phone p \<noteq> Some i" if "fst (phone_principal now raw ?t) = Inr (Some p)" for p
  proof -
    obtain t' where "phone_principal now raw ?t = (Inr (Some p), t')" using \<open>fst (phone_principal now raw ?t) = Inr (Some p)\<close> by (metis prod.collapse)
    then show ?thesis by (rule phone_principal_found) (use live f in auto)
  qed
  moreover have "update_key_principal now raw ?t \<noteq> Some (q, i)" for q
    using live f by (auto simp: update_key_principal_def split: option.splits if_splits)
  moreover have "pr_phone p \<noteq> Some i" if "fst (session_principal now raw ?t) = Inr (Some p)" for p
  proof -
    obtain t' where "session_principal now raw ?t = (Inr (Some p), t')" using \<open>fst (session_principal now raw ?t) = Inr (Some p)\<close> by (metis prod.collapse)
    then show ?thesis
      by (rule session_principal_found) (use key_final_find [OF shut] in \<open>auto simp: phone_ok_def phone_by_def split: option.splits\<close>)
  qed
  ultimately show ?thesis by blast
qed

text \<open>A setup link sets a password once: after a setup with it, the page of that link answers 410 in any later
  state, whatever is posted.\<close>

theorem setup_link_once:
  assumes "gw_wf s" "setup_complete scrypt salt now raw pw code ip s = (Inr (), t)"
  shows "fst (page_setup_post scrypt' ev raw rq f (gw_run cf ops t)) = Inr (page_reply 410 None)
    \<and> fst (page_setup ev raw (gw_run cf ops t)) = Inr (page_reply 410 None)"
proof -
  obtain l p h sd step where l: "setup_link now raw s = (Inr l, s)"
    "gw_links t = map (\<lambda>x. if sl_id x = sl_id l then x\<lparr>sl_used := True\<rparr> else x) (gw_links s)"
    using assms(2) by (rule setup_complete_done)
  have f: "find (\<lambda>r. sl_hash r = sha256_hex raw) (gw_links s) = Some l" using setup_link_found [OF l(1)] by simp
  have u: "unique_by sl_hash (gw_links s)" using assms(1) by (simp add: gw_wf_def)
  have m: "l \<in> set (gw_links s)" "sl_hash l = sha256_hex raw" using find_key_mem [of sl_hash, OF f] by simp_all
  have "key_final sl_hash sl_used (sl_hash l) (map (\<lambda>x. if sl_id x = sl_id l then x\<lparr>sl_used := True\<rparr> else x) (gw_links s))"
    by (rule key_final_use [OF u m(1)]) simp_all
  then have "link_spent (sha256_hex raw) t" unfolding l(2) m(2) .
  then have "link_spent (sha256_hex raw) (gw_run cf ops t)" by (rule link_spent_run)
  from key_final_find [OF this] have "setup_link n raw (gw_run cf ops t) = (Inl (Gw_error 410 ''setup_link_invalid'' ''this link is used up or expired'' []), gw_run cf ops t)" for n
    by (auto simp: setup_link_def split: option.splits)
  then show ?thesis
    by (simp add: page_setup_post_def page_setup_def on_error_def setup_complete_def setup_begin_def bindg_def)
qed


text \<open>C30: Once there is an active admin, there is one after any requests, pages and commands: nobody can take the
  last one away, whichever of them asks.\<close>

theorem admin_remains:
  assumes "gw_wf s" "has_admin s"
  shows "has_admin (gw_run cf ops s)"
  using assms by (rule has_admin_run)

text \<open>The audit of the gateway is only ever added to, and its check succeeds after any run from the empty
  database.\<close>

theorem gw_audit_grows:
  "(\<exists>more. gw_audit (gw_run cf (ops @ later) empty_gw) = gw_audit (gw_run cf ops empty_gw) @ more)
   \<and> fst (gw_verify (gw_run cf (ops @ later) empty_gw))"
proof
  show "\<exists>more. gw_audit (gw_run cf (ops @ later) empty_gw) = gw_audit (gw_run cf ops empty_gw) @ more"
    unfolding gw_run_simps by (rule audit_grows_run)
  show "fst (gw_verify (gw_run cf (ops @ later) empty_gw))"
    using run_wf [OF gw_wf_empty, of cf "ops @ later"] by (simp only: gw_verify_ok gw_wf_def)
qed

text \<open>C8: People, enrolment codes, setup links and credentials change through the HTTP API only when the request is
  from an admin, and not from a web session that the phone application opened.\<close>

theorem minting_needs_admin:
  assumes "keyed (snd (gw_serve cf route ev rq s)) \<noteq> keyed s"
  shows "\<exists>p t. gw_authenticate (ge_now ev) rq True s = (Inr p, t) \<and> pr_role p = ''admin'' \<and> \<not> pr_app p"
proof (rule ccontr)
  assume no: "\<not> ?thesis"
  have "keyed (snd (gw_handler cf route ev rq s)) = keyed s"
  proof (cases "route_kinds route = {}")
    case True
    then show ?thesis using handler_events [of route "{}" anywhere ev cf rq] by (intro keyed_events [where now = "ge_now ev"]) (simp add: across_def)
  next
    case False
    have "\<exists>e. admin_web (ge_now ev) rq True s = (Inl e, snd (admin_web (ge_now ev) rq True s))"
      using no by (cases "gw_authenticate (ge_now ev) rq True s"; cases "fst (gw_authenticate (ge_now ev) rq True s)")
        (auto simp: admin_web_def bindg_def need_def need_web_def ensure_def)
    then obtain e where e: "admin_web (ge_now ev) rq True s = (Inl e, snd (admin_web (ge_now ev) rq True s))" by blast
    have "snd (gw_handler cf route ev rq s) = snd (admin_web (ge_now ev) rq True s)"
      using False by (cases route)
        (simp_all, (subst (1) api_people_create_def api_people_patch_def api_enrol_code_def api_setup_link_def, simp add: bindg_def, subst e, simp)+)
    moreover have "keyed (snd (admin_web (ge_now ev) rq True s)) = keyed s"
      using admin_web_events [of anywhere "{}" "ge_now ev" rq True] by (intro keyed_events [where now = "ge_now ev"]) (simp add: across_def)
    ultimately show ?thesis by simp
  qed
  then show False using assms by (simp add: serve_state)
qed

end
