(* ===== verification/Gw_Entry_Props.thy ===== *)
theory Gw_Entry_Props
  imports Gw_Props
begin

text \<open>
  Sign-in: what it takes, that a one-time code works once, that a new password lets its owner in, the limits of
  a session; and two behaviours the comments of the code do not expect.
\<close>

lemma find_snoc: "find p xs = None \<Longrightarrow> find p (xs @ [x]) = (if p x then Some x else None)"
  by (induction xs) (auto split: if_splits)

lemma find_replace: "p c \<Longrightarrow> find p xs \<noteq> None \<Longrightarrow> find p (map (\<lambda>r. if p r then c else r) xs) = Some c"
  by (induction xs) auto

lemma cred_by_set_cred: "cred_by (cr_person c) (set_cred c s) = Some c"
  unfolding cred_by_def set_cred_creds by (cases "find (\<lambda>r. cr_person r = cr_person c) (gw_creds s) = None") (simp_all add: find_snoc find_replace)

lemma check_secret_yes:
  assumes "check_secret scrypt now r (Some c) password totp = Inr (Some step)"
  shows "verify_password scrypt password (cr_pw c)"
    "pe_role r = ''admin'' \<or> (\<exists>sd. cr_seed c = Some sd \<and> sd \<noteq> []) \<Longrightarrow>
       \<exists>sd code n. cr_seed c = Some sd \<and> totp_text totp = Inr code \<and> step = Some n \<and> cr_step c < n \<and> hotp sd n = Some code \<and> \<bar>n - totp_step now\<bar> \<le> 1"
proof -
  show "verify_password scrypt password (cr_pw c)" using assms by (auto simp: check_secret_def split: if_splits)
  assume "pe_role r = ''admin'' \<or> (\<exists>sd. cr_seed c = Some sd \<and> sd \<noteq> [])"
  with assms obtain sd where sd: "cr_seed c = Some sd" "bind_res (totp_text totp) (\<lambda>code. map_sum id (map_option Some) (verify_totp sd code (cr_step c) now)) = Inr (Some step)"
    by (cases "cr_seed c") (auto simp: check_secret_def Let_def split: if_splits)
  then obtain code where code: "totp_text totp = Inr code" "map_sum id (map_option Some) (verify_totp sd code (cr_step c) now) = Inr (Some step)"
    by (auto simp: bind_res_Inr_iff)
  then obtain n where n: "step = Some n" "verify_totp sd code (cr_step c) now = Inr (Some n)"
    by (cases "verify_totp sd code (cr_step c) now") auto
  show "\<exists>sd code n. cr_seed c = Some sd \<and> totp_text totp = Inr code \<and> step = Some n \<and> cr_step c < n \<and> hotp sd n = Some code \<and> \<bar>n - totp_step now\<bar> \<le> 1"
    using sd(1) code(1) n(1) verify_totp_Some [OF n(2)] by blast
qed

text \<open>A setup link made with a device token.\<close>

lemma bearer_mints:
  assumes "gw_bad s (gr_ip rq) = []" "is_bearer rq" "bearer_token rq \<noteq> []"
    and "find (\<lambda>r. ph_hash r = sha256_hex (bearer_token rq)) (gw_phones s) = Some ph" "\<not> ph_revoked ph" "ge_now ev \<le> ph_expires ph"
    and "person_by (ph_person ph) s = Some q" "pe_active q" "pe_role q = ''admin''" "pe_web q"
    and "gr_header rq ''idempotency-key'' = Some key" "length key = 8" "gw_idem s = []" "gw_links s = []"
    and "gr_param rq ''id'' = pe_id q"
  shows "rp_status (fst (gw_serve cf R_setup_link ev rq s)) = 201
    \<and> (\<exists>l. gw_links (snd (gw_serve cf R_setup_link ev rq s)) = [l] \<and> sl_hash l = sha256_hex (ge_raw ev) \<and> \<not> sl_used l)"
proof -
  let ?now = "ge_now ev"
  have id: "pe_id q = ph_person ph" using assms(7) find_key_mem [of pe_id "ph_person ph" "gw_people s" q] by (simp add: person_by_def)
  obtain p u where auth: "gw_authenticate ?now rq True s = (Inr p, u)" and p: "pr_role p = ''admin''" "\<not> pr_app p"
      and u: "gw_idem u = []" "gw_links u = []" "gw_people u = gw_people s"
    using assms(1-9,13,14) by (auto simp: gw_authenticate_def phone_principal_def bindg_def prune_bad_def person_by_def Let_def)
  then have web: "admin_web ?now rq True s = (Inr p, u)" by (simp add: admin_web_def bindg_def need_def need_web_def)
  have q: "person_by (pe_id q) x = Some q" if "gw_people x = gw_people s" for x
    using assms(7) id that by (simp add: person_by_def)
  have "key \<noteq> []" using assms(12) by auto
  then show ?thesis using assms(8,10-12,15) u web q
    by (simp add: gw_serve_def api_setup_link_def idem_def create_setup_link_def person_get_def bindg_def Let_def tx_def insert_link_def
          audit_def idem_answer_def json_reply_def person_view_of_def)
qed

section \<open>Properties\<close>

text \<open>C25: A sign-in succeeds only for an active person with web login enabled, under the stored password, and for an
  admin, or anybody with an authenticator, only with the code of a step within half a minute of now that is
  later than the last one used; and only while the address is under its limit of failures.\<close>

theorem sign_in_needs_secrets:
  assumes "check_login scrypt now username password totp ip s = (Inr (r, step), t)"
  shows "r \<in> set (gw_people s) \<and> pe_active r \<and> pe_web r \<and> length (fails_where now (\<lambda>x. la_ip x = ip) s) < 20
    \<and> (\<exists>c. cred_by (pe_id r) s = Some c \<and> verify_password scrypt password (cr_pw c)
      \<and> (pe_role r = ''admin'' \<or> (\<exists>sd. cr_seed c = Some sd \<and> sd \<noteq> []) \<longrightarrow>
        (\<exists>sd code n. cr_seed c = Some sd \<and> totp_text totp = Inr code \<and> step = Some n \<and> cr_step c < n \<and> hotp sd n = Some code
           \<and> \<bar>n - totp_step now\<bar> \<le> 1)))"
proof -
  obtain c where c: "find (\<lambda>r. pe_id r = account_of username \<or> sql_lower (pe_name r) = account_of username) (gw_people s) = Some r"
      "cred_by (pe_id r) s = Some c" "check_secret scrypt now r (Some c) password totp = Inr (Some step)"
      "pe_active r" "pe_web r" "length (fails_where now (\<lambda>r. la_ip r = ip) s) < IP_FAIL_LIMIT"
    using assms by (rule check_login_done)
  have "r \<in> set (gw_people s)" using c(1) by (auto simp: find_Some_iff)
  then show ?thesis using c check_secret_yes [OF c(3)] by (auto simp: IP_FAIL_LIMIT_def)
qed

text \<open>C26: A one-time code is accepted once: a later sign-in of the same person, after any operations that do not set
  or reset credentials, is with a later step.\<close>

theorem totp_once:
  assumes "check_login scrypt now username password totp ip s = (Inr (r, Some n), t)" "n \<noteq> 0"
    and "list_all (\<lambda>op. K_cred \<notin> op_kinds op) ops"
    and "check_login scrypt now' username' password' totp' ip' (gw_run cf ops t) = (Inr (r', Some m), u)" "pe_id r' = pe_id r"
  shows "n < m"
proof -
  obtain c where c: "cred_by (pe_id r) s = Some c"
      "gw_creds t = map (\<lambda>c. if cr_person c = pe_id r then c\<lparr>cr_step := n\<rparr> else c) (gw_creds s)"
    using assms(1) by (rule check_login_done) (use assms(2) in simp)
  have "cr_person c = pe_id r" using c(1) find_key_mem [of cr_person "pe_id r" "gw_creds s" c] by (simp add: cred_by_def)
  then have "step_from (pe_id r) (cr_pw c) (cr_seed c) n t"
    using c(1) by (simp add: step_from_def cred_by_def c(2) find_map_key)
  then have "step_from (pe_id r) (cr_pw c) (cr_seed c) n (gw_run cf ops t)" using assms(3) by (rule step_from_run)
  then obtain d where d: "cred_by (pe_id r) (gw_run cf ops t) = Some d" "n \<le> cr_step d" by (auto simp: step_from_def)
  obtain e where e: "cred_by (pe_id r') (gw_run cf ops t) = Some e" "check_secret scrypt now' r' (Some e) password' totp' = Inr (Some (Some m))"
    using assms(4) by (rule check_login_done)
  have "cr_step e < m" using e(2) by (rule check_secret_step) simp
  then show ?thesis using d e(1) assms(5) by simp
qed

text \<open>A password that was set lets its owner in: after a setup without an authenticator, a sign-in with that
  password succeeds, as long as the person may use the web and the throttle lets the attempt through.\<close>

theorem setup_lets_in:
  assumes "setup_complete scrypt salt now raw pw [] ip s = (Inr (), t)"
    and "setup_link now raw s = (Inr l, s)" "find (\<lambda>r. pe_id r = account_of username \<or> sql_lower (pe_name r) = account_of username) (gw_people s) = Some p"
    and "pe_id p = sl_person l" "person_by (pe_id p) s = Some p" "pe_role p \<noteq> ''admin''" "pe_active p" "pe_web p"
    and "bytes_ok salt" "\<forall>h. scrypt (utf8 pw) salt SCRYPT_N SCRYPT_R SCRYPT_P = Some h \<longrightarrow> bytes_ok h"
    and "throttle now' (account_of username) ip' t = (Inr (), t)"
  shows "\<exists>u. check_login scrypt now' username pw JNull ip' t = (Inr (p, None), u)"
proof -
  have strip: "py_strip [] = []" by code_simp
  obtain l' p' h sd step where d: "setup_link now raw s = (Inr l', s)" "person_by (sl_person l') s = Some p'" "hash_password scrypt salt pw = Some h"
     "py_strip [] = [] \<and> pe_role p' \<noteq> ''admin'' \<longrightarrow> sd = None"
     "gw_creds t = gw_creds (set_cred \<lparr>cr_person = sl_person l', cr_pw = h, cr_seed = sd, cr_step = step, cr_updated = now\<rparr> s)"
     "gw_people t = gw_people s"
    using assms(1) by (rule setup_complete_done) blast
  have l: "l' = l" "p' = p" "sd = None" using d assms(2,4,5,6) strip by simp_all
  have "cred_by (pe_id p) t = Some \<lparr>cr_person = pe_id p, cr_pw = h, cr_seed = None, cr_step = step, cr_updated = now\<rparr>"
    using d(5) cred_by_set_cred [of "\<lparr>cr_person = pe_id p, cr_pw = h, cr_seed = None, cr_step = step, cr_updated = now\<rparr>" s]
    by (simp add: l assms(4) cred_by_def)
  moreover have "verify_password scrypt pw h" using verify_hashed [OF d(3) assms(9,10)] by simp
  moreover have "h \<noteq> []" using d(3) by (auto simp: hash_password_def)
  ultimately have "check_secret scrypt now' p (cred_by (pe_id p) t) pw JNull = Inr (Some None)"
    using assms(6) by (simp add: check_secret_def)
  then show ?thesis using assms(3,7,8,11) d(6)
    by (simp add: check_login_def Let_def bindg_def lift_res_def add_attempt_def)
qed

text \<open>In a well-formed state, so in any a run reaches, a web session is taken only within seven days of its start and twelve hours of
  its last use, for a person who is active; one from a phone only while the phone is neither revoked nor
  expired, another only while the person's web login is enabled.\<close>

theorem session_limits:
  assumes "gw_wf s" "session_principal now raw s = (Inr (Some p), t)"
  shows "\<exists>x q. session_by (sha256_hex raw) s = Some x \<and> now \<le> ss_created x + 604800 \<and> now \<le> ss_last x + 43200
    \<and> person_by (pr_person p) s = Some q \<and> pr_role p = pe_role q
    \<and> (case ss_phone x of None \<Rightarrow> pe_active q \<and> pe_web q | Some i \<Rightarrow> phone_ok now i s)"
proof -
  obtain x q where x: "session_by (sha256_hex raw) s = Some x" "now \<le> ss_abs x" "now \<le> ss_last x + SESSION_IDLE_S"
    "person_by (ss_person x) s = Some q" "pr_person p = pe_id q" "pr_role p = pe_role q"
    "case ss_phone x of Some i \<Rightarrow> phone_ok now i s | None \<Rightarrow> pe_active q \<and> pe_web q"
    using assms(2) by (rule session_principal_found)
  have "x \<in> set (gw_sessions s)" using x(1) by (auto simp: session_by_def find_Some_iff)
  moreover have "list_all session_ok (gw_sessions s)" using assms(1) by (simp add: gw_wf_def)
  ultimately have "ss_abs x \<le> ss_created x + SESSION_ABS_S" by (simp add: list_all_iff session_ok_def)
  moreover have "pe_id q = ss_person x" using x(4) find_key_mem [of pe_id "ss_person x" "gw_people s" q] by (simp add: person_by_def)
  ultimately show ?thesis using x by (intro exI [of _ x] exI [of _ q]) (auto simp: SESSION_ABS_S_def SESSION_IDLE_S_def split: option.splits)
qed

text \<open>C35: The check of the code tells whether the password was right: with a code of six superscript digits, a sign-in
  of a person with an authenticator crashes, without recording the attempt, if and only if the password is right.\<close>

theorem superscript_code_tells_password:
  assumes "throttle now (account_of username) ip s = (Inr (), s)"
    and "find (\<lambda>r. pe_id r = account_of username \<or> sql_lower (pe_name r) = account_of username) (gw_people s) = Some r"
    and "cred_by (pe_id r) s = Some c" "cr_pw c \<noteq> []" "cr_seed c = Some sd" "sd \<noteq> []"
    and "cr_step c < totp_step now - 1" "hotp sd (totp_step now - 1) = Some digits"
  shows "check_login scrypt now username password (JStr (replicate 6 (CHR 0xB2))) ip s = (Inl (Gw_crash TypeError), s)
    \<longleftrightarrow> verify_password scrypt password (cr_pw c)"
proof -
  have code: "totp_text (JStr (replicate 6 (CHR 0xB2))) = Inr (replicate 6 (CHR 0xB2))" by code_simp
  have odd: "py_isdigit (replicate 6 (CHR 0xB2))" "\<not> is_ascii (replicate 6 (CHR 0xB2))" by code_simp+
  have v: "verify_totp sd (replicate 6 (CHR 0xB2)) (cr_step c) now = Inl TypeError"
    using assms(7,8) odd by (simp add: verify_totp_def Let_def)
  have secret: "check_secret scrypt now r (Some c) password (JStr (replicate 6 (CHR 0xB2)))
      = (if verify_password scrypt password (cr_pw c) then Inl TypeError else Inr None)"
    using assms(4-6) v code by (simp add: check_secret_def bind_res_def)
  show ?thesis using assms(1-3) secret
    by (auto simp: check_login_def Let_def bindg_def lift_res_def add_attempt_def audit_def bad_login_def)
qed

text \<open>What \<open>need_web\<close> keeps out is only a web session of the phone application: the device token of an admin's
  phone, sent as a bearer, passes it, and makes a setup link, which sets a new password.\<close>

theorem device_token_mints:
  assumes "gw_bad s (gr_ip rq) = []" "is_bearer rq" "bearer_token rq \<noteq> []"
    and "find (\<lambda>r. ph_hash r = sha256_hex (bearer_token rq)) (gw_phones s) = Some ph" "\<not> ph_revoked ph" "ge_now ev \<le> ph_expires ph"
    and "person_by (ph_person ph) s = Some q" "pe_active q" "pe_role q = ''admin''" "pe_web q"
    and "gr_header rq ''idempotency-key'' = Some key" "length key = 8" "gw_idem s = []" "gw_links s = []"
    and "gr_param rq ''id'' = pe_id q"
  shows "rp_status (fst (gw_serve cf R_setup_link ev rq s)) = 201
    \<and> (\<exists>l. gw_links (snd (gw_serve cf R_setup_link ev rq s)) = [l] \<and> sl_hash l = sha256_hex (ge_raw ev) \<and> \<not> sl_used l)"
  using assms by (rule bearer_mints)

end
