(* ===== verification/Gw_Witness.thy ===== *)
theory Gw_Witness
  imports Gw_Entry_Props
begin

text \<open>
  Concrete states of the gateway in which the properties with hypotheses apply.
\<close>

section \<open>A state\<close>

definition w_kdf :: kdf where "w_kdf pw salt n r p = Some pw"

definition w_conf :: gw_conf where
  "w_conf = \<lparr>gc_scrypt = w_kdf, gc_qr = (\<lambda>t. []), gc_url = ''http://gw''\<rparr>"

definition w_env :: gw_env where
  "w_env = \<lparr>ge_now = 60, ge_raw = ''raw'', ge_csrf = ''csrf'', ge_tok = ''tok'', ge_ukey = ''ukey'', ge_id = ''1'', ge_salt = [1, 2]\<rparr>"

definition w_ivan :: person_row where
  "w_ivan = \<lparr>pe_id = ''ivan'', pe_name = ''Ivan'', pe_role = ''admin'', pe_parent = True, pe_active = True, pe_web = True, pe_created = 0\<rparr>"

definition w_dasha :: person_row where
  "w_dasha = \<lparr>pe_id = ''dasha'', pe_name = ''Dasha'', pe_role = ''household'', pe_parent = True, pe_active = True, pe_web = True, pe_created = 0\<rparr>"

definition w_seed :: string where "w_seed = ''GEZDGNBVGY3TQOJQGEZDGNBVGY3TQOJQ''"

text \<open>The password is \<open>correct horse\<close> under the derivation that keeps it as it is.\<close>

definition w_cred :: cred_row where
  "w_cred = \<lparr>cr_person = ''ivan'', cr_pw = ''scrypt$16384$8$1$AQI=$Y29ycmVjdCBob3JzZQ=='', cr_seed = Some w_seed, cr_step = 0, cr_updated = 0\<rparr>"

definition w_phone :: phone_row where
  "w_phone = \<lparr>ph_id = ''p-1'', ph_person = ''ivan'', ph_label = ''Pixel'', ph_model = None, ph_platform = None, ph_version = None,
     ph_hash = sha256_hex ''device'', ph_created = 1, ph_seen = 1, ph_expires = 1000, ph_revoked = False, ph_update = None\<rparr>"

definition w_code :: code_row where
  "w_code = \<lparr>ec_id = ''c1'', ec_person = ''dasha'', ec_hash = sha256_hex ''ABCDEFGHJKLM'', ec_expires = 600, ec_used = False, ec_created = 0, ec_by = ''ivan''\<rparr>"

definition w_link :: link_row where
  "w_link = \<lparr>sl_id = ''s1'', sl_person = ''dasha'', sl_hash = sha256_hex ''link'', sl_expires = 3600, sl_used = False, sl_created = 0\<rparr>"

definition w_gw :: gw where
  "w_gw = empty_gw\<lparr>gw_people := [w_ivan, w_dasha], gw_creds := [w_cred], gw_phones := [w_phone], gw_codes := [w_code],
     gw_links := [w_link], gw_meta := [(''setupseed:s1'', w_seed)]\<rparr>"

lemmas w_rows = w_ivan_def w_dasha_def w_cred_def w_phone_def w_code_def w_link_def w_gw_def empty_gw_def

lemma w_wf: "gw_wf w_gw"
  by (simp add: gw_wf_def w_rows unique_by_def one_open_def gw_chain_def)

lemma w_password: "verify_password w_kdf ''correct horse'' (cr_pw w_cred)"
  unfolding w_cred_def w_kdf_def by code_simp

lemma w_hotp: "\<exists>c. hotp w_seed n = Some c"
proof -
  have "b32decode (w_seed @ replicate ((8 - length w_seed mod 8) mod 8) (CHR ''='')) \<noteq> None" unfolding w_seed_def by code_simp
  then show ?thesis by (simp add: hotp_def)
qed

section \<open>Witnesses\<close>

text \<open>An enrolment with the code as it is typed, and the same code later.\<close>

abbreviation w_fresh :: gw where "w_fresh \<equiv> w_gw\<lparr>gw_phones := []\<rparr>"

lemma w_fresh_wf: "gw_wf w_fresh"
  by (simp add: gw_wf_def w_rows unique_by_def one_open_def gw_chain_def)

lemma w_enrols: "\<exists>v t. enrol 60 ''raw'' ''tok'' ''abcd-efgh-jklm'' [(''label'', JStr ''phone'')] ''10.0.0.1'' w_fresh = (Inr v, t)"
proof -
  have n: "norm_code ''abcd-efgh-jklm'' = ''ABCDEFGHJKLM''" by code_simp
  have l: "label_of ''label'' (jget [(''label'', JStr ''phone'')] ''label'') = Inr ''phone''" by code_simp
  have f: "\<not> phones_full 60 ''dasha'' w_fresh"
    by (simp add: phones_full_def active_phones_def w_rows MAX_PHONES_PER_PERSON_def MAX_PHONES_TOTAL_def)
  show ?thesis unfolding enrol_def n l Let_def
    using f
    by (simp add: w_rows ENROL_FAIL_LIMIT_def lift_res_def bindg_def person_by_def insert_phone_def tx_def audit_def new_phone_def)
qed

lemma enrol_code_once_witness:
  "\<exists>v t e u. enrol 60 ''raw'' ''tok'' ''abcd-efgh-jklm'' [(''label'', JStr ''phone'')] ''10.0.0.1'' w_fresh = (Inr v, t) \<and>
     enrol 120 ''raw2'' ''tok2'' ''ABCD EFGH JKLM'' [] ''10.0.0.2'' (gw_run w_conf [Ctl w_env [''enrol-code'', ''dasha'']] t) = (Inl e, u)"
proof -
  have n: "norm_code ''ABCD EFGH JKLM'' = norm_code ''abcd-efgh-jklm''" by code_simp
  obtain v t where e: "enrol 60 ''raw'' ''tok'' ''abcd-efgh-jklm'' [(''label'', JStr ''phone'')] ''10.0.0.1'' w_fresh = (Inr v, t)"
    using w_enrols by blast
  show ?thesis using e enrol_code_once [OF w_fresh_wf e n] by metis
qed

lemma revoked_phone_shut_out_witness:
  "update_key_principal 60 ''ukey_1'' (gw_run w_conf [Ctl w_env [''enrol-code'', ''dasha'']] (w_gw\<lparr>gw_phones := [w_phone\<lparr>ph_revoked := True\<rparr>]\<rparr>))
     \<noteq> Some (''ivan'', ''p-1'')"
proof -
  let ?s = "w_gw\<lparr>gw_phones := [w_phone\<lparr>ph_revoked := True\<rparr>]\<rparr>"
  have "gw_wf ?s" by (simp add: gw_wf_def w_rows unique_by_def one_open_def gw_chain_def)
  moreover have "phone_by ''p-1'' ?s = Some (w_phone\<lparr>ph_revoked := True\<rparr>)" by (simp add: phone_by_def w_rows)
  ultimately show ?thesis by (rule revoked_phone_shut_out [THEN conjunct2, THEN conjunct1, THEN spec]) simp
qed

lemma w_setup: "\<exists>t. setup_complete w_kdf [1, 2] 60 ''link'' ''correct horse'' [] ''10.0.0.1'' w_gw = (Inr (), t) \<and> gw_attempts t = []"
proof -
  have p: "password_problem (JStr ''correct horse'') = None" by code_simp
  have e: "py_strip [] = []" by code_simp
  show ?thesis unfolding setup_complete_def p e
    by (simp add: setup_link_def w_rows bindg_def meta_get_def seed_key_def person_by_def w_seed_def hash_password_def w_kdf_def tx_def meta_delete_def audit_def set_cred_def
          drop_sessions_def cred_by_def)
qed

lemma setup_link_once_witness:
  "\<exists>t. setup_complete w_kdf [1, 2] 60 ''link'' ''correct horse'' [] ''10.0.0.1'' w_gw = (Inr (), t) \<and>
     fst (page_setup w_env ''link'' (gw_run w_conf [Ctl w_env [''setup-link'', ''dasha'']] t)) = Inr (page_reply 410 None)"
  using w_setup setup_link_once [OF w_wf] by blast


lemma admin_remains_witness:
  "has_admin (gw_run w_conf [Ctl w_env [''person'', ''disable'', ''ivan''], Ctl w_env [''person'', ''role'', ''ivan'', ''readonly'']] w_gw)"
  by (rule admin_remains [OF w_wf]) (simp add: has_admin_def active_admin_def w_rows)

text \<open>A sign-in of the admin at minute one, with the code of a step around it.\<close>

lemma w_sign_in:
  assumes "hotp w_seed n = Some c" "n = 1 \<or> n = 2" "cred_by ''ivan'' s = Some (w_cred\<lparr>cr_step := n - 1\<rparr>)" "gw_people s = [w_ivan, w_dasha]"
    "filter (\<lambda>r. \<not> la_ok r) (gw_attempts s) = []"
  shows "\<exists>t. check_login w_kdf 60 ''Ivan'' ''correct horse'' (JStr c) ''10.0.0.1'' s = (Inr (w_ivan, Some n), t)
    \<and> gw_people t = [w_ivan, w_dasha] \<and> filter (\<lambda>r. \<not> la_ok r) (gw_attempts t) = []"
proof -
  note c = hotp_accepted [OF assms(1)] hotp_digits [OF assms(1)]
  have a: "account_of ''Ivan'' = ''ivan''" by code_simp
  have none: "fails_where 60 p s = []" for p
  proof -
    have "filter (\<lambda>r. \<not> la_ok r \<and> p r \<and> 60 - GW_FAIL_WINDOW < la_ts r) (gw_attempts s) = filter (\<lambda>r. p r \<and> 60 - GW_FAIL_WINDOW < la_ts r) (filter (\<lambda>r. \<not> la_ok r) (gw_attempts s))"
      by (simp add: conj_commute conj_assoc)
    then show ?thesis using assms(5) by (simp add: fails_where_def)
  qed
  have th: "throttle 60 ''ivan'' ''10.0.0.1'' s = (Inr (), s)"
    by (simp add: throttle_def none bindg_def ensure_def IP_FAIL_LIMIT_def)
  have "totp_step 60 = 2" by (simp add: totp_step_def)
  then have v: "verify_totp w_seed c (n - 1) 60 = Inr (Some n)"
    using assms(1,2) c by (auto simp: verify_totp_def Let_def)
  have "cr_pw (w_cred\<lparr>cr_step := n - 1\<rparr>) = cr_pw w_cred" by simp
  then have "check_secret w_kdf 60 w_ivan (Some (w_cred\<lparr>cr_step := n - 1\<rparr>)) ''correct horse'' (JStr c) = Inr (Some (Some n))"
    using w_password v c by (simp add: check_secret_def totp_text_def bind_res_def w_cred_def w_ivan_def w_seed_def)
  then show ?thesis using assms(3-5) th a
    by (simp add: check_login_def Let_def bindg_def lift_res_def add_attempt_def w_ivan_def)
qed

lemma sign_in_needs_secrets_witness:
  "\<exists>c t. check_login w_kdf 60 ''Ivan'' ''correct horse'' (JStr c) ''10.0.0.1'' w_gw = (Inr (w_ivan, Some 1), t) \<and> hotp w_seed 1 = Some c"
proof -
  obtain c where c: "hotp w_seed 1 = Some c" using w_hotp by blast
  have "cred_by ''ivan'' w_gw = Some (w_cred\<lparr>cr_step := 1 - 1\<rparr>)" by (simp add: cred_by_def w_rows)
  then obtain t where t: "check_login w_kdf 60 ''Ivan'' ''correct horse'' (JStr c) ''10.0.0.1'' w_gw = (Inr (w_ivan, Some 1), t)"
    using w_sign_in [of 1 c w_gw] c by (auto simp: w_gw_def empty_gw_def)
  show ?thesis using sign_in_needs_secrets [OF t] t c by blast
qed

text \<open>Two sign-ins in a row with the codes of minute zero and a half and of minute one.\<close>

lemma totp_once_witness:
  "\<exists>c d t u. check_login w_kdf 60 ''Ivan'' ''correct horse'' (JStr c) ''10.0.0.1'' w_gw = (Inr (w_ivan, Some 1), t) \<and>
     check_login w_kdf 60 ''Ivan'' ''correct horse'' (JStr d) ''10.0.0.1'' (gw_run w_conf [] t) = (Inr (w_ivan, Some 2), u) \<and> (1::int) < 2"
proof -
  obtain c d where c: "hotp w_seed 1 = Some c" "hotp w_seed 2 = Some d" using w_hotp by metis
  have w: "cred_by ''ivan'' w_gw = Some (w_cred\<lparr>cr_step := 1 - 1\<rparr>)" "gw_people w_gw = [w_ivan, w_dasha]"
    by (simp_all add: cred_by_def w_rows)
  then obtain t where t: "check_login w_kdf 60 ''Ivan'' ''correct horse'' (JStr c) ''10.0.0.1'' w_gw = (Inr (w_ivan, Some 1), t)"
      and rest: "gw_people t = [w_ivan, w_dasha]" "filter (\<lambda>r. \<not> la_ok r) (gw_attempts t) = []"
    using w_sign_in [of 1 c w_gw] c by (auto simp: w_gw_def empty_gw_def)
  have creds: "gw_creds t = [w_cred\<lparr>cr_step := 1\<rparr>]" using t by (rule check_login_done) (simp add: w_rows)
  have "cred_by ''ivan'' t = Some (w_cred\<lparr>cr_step := 2 - 1\<rparr>)" by (simp add: cred_by_def creds w_cred_def)
  then obtain u where "check_login w_kdf 60 ''Ivan'' ''correct horse'' (JStr d) ''10.0.0.1'' t = (Inr (w_ivan, Some 2), u)"
    using w_sign_in [OF c(2) disjI2 [OF refl], of t] rest by blast
  then have u: "check_login w_kdf 60 ''Ivan'' ''correct horse'' (JStr d) ''10.0.0.1'' (gw_run w_conf [] t) = (Inr (w_ivan, Some 2), u)"
    unfolding gw_run_simps .
  have "(1::int) < 2" by (rule totp_once [OF t _ _ u]) simp_all
  then show ?thesis using t u by blast
qed

lemma setup_lets_in_witness:
  "\<exists>t u. setup_complete w_kdf [1, 2] 60 ''link'' ''correct horse'' [] ''10.0.0.1'' w_gw = (Inr (), t) \<and>
     check_login w_kdf 90 ''Dasha'' ''correct horse'' JNull ''10.0.0.1'' t = (Inr (w_dasha, None), u)"
proof -
  obtain t where t: "setup_complete w_kdf [1, 2] 60 ''link'' ''correct horse'' [] ''10.0.0.1'' w_gw = (Inr (), t)" "gw_attempts t = []" using w_setup by blast
  have a: "account_of ''Dasha'' = ''dasha''" "sql_lower ''Ivan'' = ''ivan''" by code_simp+
  have l: "setup_link 60 ''link'' w_gw = (Inr w_link, w_gw)" by (simp add: setup_link_def w_rows)
  have u: "bytes_ok (utf8 ''correct horse'')" by code_simp
  from t(2) have th: "throttle 90 (account_of ''Dasha'') ''10.0.0.1'' t = (Inr (), t)"
    by (simp add: throttle_def fails_where_def bindg_def ensure_def IP_FAIL_LIMIT_def)
  have "\<exists>u. check_login w_kdf 90 ''Dasha'' ''correct horse'' JNull ''10.0.0.1'' t = (Inr (w_dasha, None), u)"
    by (rule setup_lets_in [OF t(1) l _ _ _ _ _ _ _ _ th]) (simp_all add: a u w_rows w_kdf_def person_by_def)
  then show ?thesis using t(1) by blast
qed

definition w_session :: session_row where
  "w_session = \<lparr>ss_id = sha256_hex ''cookie'', ss_person = ''dasha'', ss_csrf = ''csrf'', ss_created = 30, ss_last = 30, ss_abs = 604830,
     ss_ip = ''10.0.0.1'', ss_phone = None\<rparr>"

lemma session_limits_witness:
  "\<exists>p t x. session_principal 60 ''cookie'' (w_gw\<lparr>gw_sessions := [w_session]\<rparr>) = (Inr (Some p), t)
     \<and> session_by (sha256_hex ''cookie'') (w_gw\<lparr>gw_sessions := [w_session]\<rparr>) = Some x \<and> 60 \<le> ss_created x + 604800"
proof -
  let ?s = "w_gw\<lparr>gw_sessions := [w_session]\<rparr>"
  have wf: "gw_wf ?s"
    by (simp add: gw_wf_def w_rows w_session_def unique_by_def one_open_def gw_chain_def session_ok_def SESSION_ABS_S_def)
  obtain p t where p: "session_principal 60 ''cookie'' ?s = (Inr (Some p), t)"
    by (auto simp: session_principal_def Let_def session_by_def w_rows w_session_def SESSION_IDLE_S_def bindg_def person_by_def)
  then show ?thesis using session_limits [OF wf p] by blast
qed

lemma superscript_code_tells_password_witness:
  "check_login w_kdf 60 ''Ivan'' ''correct horse'' (JStr (replicate 6 (CHR 0xB2))) ''10.0.0.1'' w_gw = (Inl (Gw_crash TypeError), w_gw)"
proof -
  obtain c where c: "hotp w_seed 1 = Some c" using w_hotp by blast
  have a: "account_of ''Ivan'' = ''ivan''" by code_simp
  have th: "throttle 60 ''ivan'' ''10.0.0.1'' w_gw = (Inr (), w_gw)"
    by (simp add: throttle_def fails_where_def bindg_def ensure_def IP_FAIL_LIMIT_def w_rows)
  show ?thesis
    by (subst superscript_code_tells_password [where c = w_cred and sd = w_seed and digits = c and r = w_ivan])
       (simp_all add: a th c w_password cred_by_def totp_step_def, simp_all add: w_rows w_seed_def)
qed

definition w_request :: gw_request where
  "w_request = \<lparr>gr_ip = ''10.0.0.1'', gr_method = ''POST'', gr_path = ''/v1/people/ivan/setup-link'', gr_query_text = [], gr_query = [],
     gr_headers = [(''authorization'', ''Bearer device''), (''idempotency-key'', ''12345678'')], gr_cookie = None,
     gr_params = [(''id'', ''ivan'')], gr_raw = [], gr_body = No_body\<rparr>"

lemma w_bearer: "is_bearer w_request" "bearer_token w_request = ''device''" "gr_header w_request ''idempotency-key'' = Some ''12345678''"
    "gr_param w_request ''id'' = ''ivan''"
  unfolding w_request_def by code_simp+

lemma device_token_mints_witness:
  "rp_status (fst (gw_serve w_conf R_setup_link w_env w_request (w_gw\<lparr>gw_links := []\<rparr>))) = 201"
  by (rule device_token_mints [where ph = w_phone and q = w_ivan and key = "''12345678''", THEN conjunct1])
     (simp_all add: w_bearer, simp_all add: w_rows person_by_def w_env_def)

lemma minting_needs_admin_witness:
  "\<exists>p t. gw_authenticate 60 w_request True (w_gw\<lparr>gw_links := []\<rparr>) = (Inr p, t) \<and> pr_role p = ''admin'' \<and> \<not> pr_app p"
proof -
  let ?s = "w_gw\<lparr>gw_links := []\<rparr>"
  have "\<exists>l. gw_links (snd (gw_serve w_conf R_setup_link w_env w_request ?s)) = [l]
      \<and> sl_hash l = sha256_hex (ge_raw w_env) \<and> \<not> sl_used l"
    by (rule bearer_mints [where ph = w_phone and q = w_ivan and key = "''12345678''", THEN conjunct2])
      (simp_all add: w_bearer, simp_all add: w_rows person_by_def w_env_def)
  then obtain l where "gw_links (snd (gw_serve w_conf R_setup_link w_env w_request ?s)) = [l]" by blast
  then have "keyed (snd (gw_serve w_conf R_setup_link w_env w_request ?s)) \<noteq> keyed ?s" by (auto simp: keyed_def)
  from minting_needs_admin [OF this] show ?thesis by (simp add: w_env_def)
qed

end
