(* ===== verification/Release_Phones.thy ===== *)
theory Release_Phones
  imports Release_Props Gw_Witness
begin

text \<open>
  What a phone downloads is what the signed manifest promises; who may publish; and the channel in use.
\<close>

lemma update_apk_reply:
  "fst (update_apk code ev rq c) = Inr (Rel_file b) \<longleftrightarrow>
     (\<exists>p g. authenticate_update (ge_now ev) rq (ch_gw c) = (Inr p, g)) \<and> served_file code c = Some b"
proof -
  have s: "served_file code (c\<lparr>ch_gw := g\<rparr>) = served_file code c" for g
    by (simp add: served_file_def file_ok_def row_of_def split: option.split)
  obtain r g where a: "authenticate_update (ge_now ev) rq (ch_gw c) = (r, g)" by fastforce
  show ?thesis
    by (cases r; cases "served_file code c")
       (auto simp: update_apk_def bindc_def on_gw_def a readc_def s failc_def retc_def audit_def split: prod.splits)
qed


text \<open>While a release is published and the channel is not stopped, every request with a valid credential for its file
  is answered with it.\<close>

theorem published_is_served:
  assumes "ch_sound c" "ch_current c = Some code" "\<not> ch_stopped c" "authenticate_update (ge_now ev) rq (ch_gw c) = (Inr p, g)"
  shows "\<exists>b. fst (update_apk code ev rq c) = Inr (Rel_file b)"
proof -
  obtain r where r: "r \<in> set (ch_rows c)" "rr_code r = code"
    using assms(1,2) by (auto simp: ch_sound_def manifest_sound_def)
  then have "file_ok code c" using assms(1) by (auto simp: ch_sound_def list_all_iff release_sound_def)
  moreover obtain b where "map_of (ch_files c) code = Some b" using file_ok_row [OF assms(1) r(1)] r(2) by auto
  ultimately have "served_file code c = Some b" using assms(2,3) by (simp add: served_file_def)
  then show ?thesis using assms(4) by (auto simp: update_apk_reply)
qed

section \<open>Who publishes\<close>

lemma bearer_admin_web:
  assumes "gw_bad s (gr_ip rq) = []" "is_bearer rq" "bearer_token rq \<noteq> []"
    and "find (\<lambda>r. ph_hash r = sha256_hex (bearer_token rq)) (gw_phones s) = Some ph" "\<not> ph_revoked ph" "now \<le> ph_expires ph"
    and "person_by (ph_person ph) s = Some q" "pe_active q" "pe_role q = ''admin''"
  obtains p u where "admin_web now rq True s = (Inr p, u)" "gw_hub u = gw_hub s" "gw_idem u = gw_idem s"
proof -
  obtain p u where "gw_authenticate now rq True s = (Inr p, u)" "pr_role p = ''admin''" "\<not> pr_app p" "gw_hub u = gw_hub s" "gw_idem u = gw_idem s"
    using assms by (auto simp: gw_authenticate_def phone_principal_def bindg_def prune_bad_def person_by_def Let_def)
  then show ?thesis using that by (simp add: admin_web_def bindg_def need_def need_web_def)
qed

lemma sign_total: "length sd = 32 \<Longrightarrow> \<exists>sig. ed_sign sd msg = Some sig"
  by (simp add: ed_sign_def expand_def Let_def)

text \<open>C18: Publishing is meant to need a web sign-in with password and code, so that a stolen unlocked phone cannot
  publish; but the device token of an admin's phone, sent as a bearer, publishes a pending release.\<close>

theorem device_token_publishes:
  assumes "gw_bad (ch_gw c) (gr_ip rq) = []" "is_bearer rq" "bearer_token rq \<noteq> []"
    and "find (\<lambda>r. ph_hash r = sha256_hex (bearer_token rq)) (gw_phones (ch_gw c)) = Some ph" "\<not> ph_revoked ph" "ge_now ev \<le> ph_expires ph"
    and "person_by (ph_person ph) (ch_gw c) = Some q" "pe_active q" "pe_role q = ''admin''"
    and "gr_body rq = No_body" "length (utf8 (gr_raw rq)) \<le> GW_MAX_BODY" "gr_header rq ''idempotency-key'' = Some key'" "length key' = 8"
    and "row_of code c = Some r" "rr_state r = ''pending''" "ch_current c = None" "file_ok code c"
    and "signing_seed key = Inr sd" "hb_subs (gw_hub (ch_gw c)) = []" "gw_idem (ch_gw c) = []"
  shows "\<exists>reply d. api_release_publish key code ev rq c = (Inr (Rel_json reply), d) \<and> rp_status reply = 200 \<and> ch_current d = Some code"
proof -
  obtain p u where web: "admin_web (ge_now ev) rq True (ch_gw c) = (Inr p, u)" "gw_hub u = gw_hub (ch_gw c)" "gw_idem u = gw_idem (ch_gw c)"
    using assms(1-9) by (rule bearer_admin_web)
  let ?c = "c\<lparr>ch_gw := u\<lparr>gw_idem := []\<rparr>\<rparr>" \<comment> \<open>after the old answers are dropped\<close>
  have c: "row_of code ?c = Some r" "ch_current ?c = None" "file_ok code ?c" "hb_subs (gw_hub (ch_gw ?c)) = []"
    using assms(14,16,17,19) web(2) by (simp_all add: row_of_def file_ok_def)
  have body: "gw_body_of rq = Inr (JObj [])" using assms(10,11) by (simp add: gw_body_of_def)
  have "length sd = 32" using assms(18) by (auto simp: signing_seed_def split: option.splits if_splits)
  then obtain sig where sig: "\<And>msg. ed_sign sd msg = Some (sig msg)" using sign_total by metis
  have "\<exists>m d. release_publish (ge_now ev) key code p JNull ?c = (Inr m, d) \<and> ch_current d = Some code"
    using c assms(15,18)
    by (simp add: release_publish_def bindc_def readc_def ensurec_def retc_def min_asked_def lift_rel_def sig Let_def writec_def on_gw_def audit_def
        hub_publish_def publish_event_def)
  then obtain m d where "release_publish (ge_now ev) key code p JNull ?c = (Inr m, d)" "ch_current d = Some code" by blast
  moreover have "gw_idem u = []" using web(3) assms(20) by simp
  moreover have "key' \<noteq> []" using assms(13) by auto
  ultimately show ?thesis using web body assms(12,13)
    by (simp add: api_release_publish_def bindc_def on_gw_def lift_res_def ensurec_def retc_def is_jobj_def jfields_def jkeys_def idem_channel_def
        convert_err_def jget_def json_reply_def Let_def readc_def writes_def)
qed

section \<open>A channel\<close>

definition w_release :: release_row where
  "w_release = \<lparr>rr_code = 3, rr_name = ''0.3'', rr_size = 2, rr_sha = apk_sha256 [80, 75], rr_cert = ''cert'', rr_notes = ''Notes'', rr_state = ''pending'',
     rr_by = ''gwctl'', rr_added = 1, rr_pub_by = None, rr_pub_at = None, rr_min = None\<rparr>"

definition w_channel :: channel where
  "w_channel = empty_channel\<lparr>ch_gw := w_gw, ch_rows := [w_release], ch_files := [(3, [80, 75])], ch_cert := Some ''cert''\<rparr>"

definition w_published :: channel where
  "w_published = w_channel\<lparr>ch_rows := [w_release\<lparr>rr_state := ''published''\<rparr>], ch_current := Some 3, ch_min := Some 0,
     ch_manifest := Some (signed_manifest (release_payload 5 0 w_release) [1, 2])\<rparr>"

lemmas w_channels = w_published_def w_channel_def w_release_def empty_channel_def

definition w_download :: gw_request where
  "w_download = w_request\<lparr>gr_headers := [(''authorization'', ''Bearer device''), (''idempotency-key'', ''12345678'')]\<rparr>"

lemma w_download_bearer: "is_bearer w_download" "bearer_token w_download = ''device''" "starts_with UKEY_PREFIX ''device'' = False"
  unfolding w_download_def w_request_def by code_simp+

lemma w_published_sound: "ch_sound w_published"
proof -
  have "release_payload 5 0 w_release = release_payload 5 0 (w_release\<lparr>rr_state := ''published''\<rparr>)" by (simp add: release_payload_def)
  then show ?thesis by (auto simp: ch_sound_def release_sound_def manifest_sound_def file_ok_def row_of_def w_published_def w_channel_def w_release_def)
qed

lemma w_authenticated: "\<exists>p g. authenticate_update 60 w_download (ch_gw w_published) = (Inr p, g)"
  using w_download_bearer
  by (simp add: authenticate_update_def bindg_def phone_principal_def w_channels w_rows person_by_def prune_bad_def)

lemma published_is_served_witness: "\<exists>b. fst (update_apk 3 w_env w_download w_published) = Inr (Rel_file b)"
proof -
  obtain p g where "authenticate_update (ge_now w_env) w_download (ch_gw w_published) = (Inr p, g)" using w_authenticated by (auto simp: w_env_def)
  then show ?thesis using w_published_sound by (intro published_is_served) (simp_all add: w_published_def w_channel_def empty_channel_def)
qed


lemma w_key: "signing_seed (Some (replicate 64 (CHR ''0''))) = Inr (replicate 32 0)"
  by code_simp

lemma device_token_publishes_witness:
  "\<exists>reply d. api_release_publish (Some (replicate 64 (CHR ''0''))) 3 w_env w_download w_channel = (Inr (Rel_json reply), d) \<and> rp_status reply = 200"
proof -
  have "\<exists>reply d. api_release_publish (Some (replicate 64 (CHR ''0''))) 3 w_env w_download w_channel = (Inr (Rel_json reply), d)
      \<and> rp_status reply = 200 \<and> ch_current d = Some 3"
    by (rule device_token_publishes [where ph = w_phone and q = w_ivan and r = w_release and key' = "''12345678''", OF _ _ _ _ _ _ _ _ _ _ _ _ _ _ _ _ _ w_key])
       (simp_all add: w_download_bearer, simp_all add: w_channel_def w_release_def empty_channel_def w_rows person_by_def w_env_def row_of_def file_ok_def
          w_download_def w_request_def gr_header_def GW_MAX_BODY_def utf8_def empty_hub_def)
  then show ?thesis by blast
qed

end
